(* ===== verification/Prelude.thy ===== *)
theory Prelude
  imports Main "HOL-Library.AList" "HOL-Library.List_Lexorder" "HOL-Library.Char_ord"
    "HOL-Library.Sublist" "HOL-Library.Multiset"
begin

text \<open>
  Shared vocabulary of the development: results with an error value, Go maps as association
  lists with distinct keys (the order of the list stands for the unspecified iteration order of
  a Go map), 64-bit wrap-around, and the interface locales that the components instantiate.
  Nothing here models a particular function of the repository.
\<close>

section \<open>Collections of rewrite rules\<close>

named_theorems go_string_simps \<open>characteristic equations of the string functions\<close>
named_theorems go_map_simps \<open>look-up after an update of a Go map\<close>
named_theorems job_defs \<open>definitions unfolded in proofs about the job manager\<close>

section \<open>Results\<close>

type_synonym ('e, 'a) result = "'e + 'a"

definition rbind :: "('e, 'a) result \<Rightarrow> ('a \<Rightarrow> ('e, 'b) result) \<Rightarrow> ('e, 'b) result" where
  "rbind m f = (case m of Inl e \<Rightarrow> Inl e | Inr x \<Rightarrow> f x)"

lemma rbind_simps [simp]:
  "rbind (Inl e) f = Inl e"
  "rbind (Inr x) f = f x"
  by (simp_all add: rbind_def)

lemma rbind_eq_Inr_iff: "rbind m f = Inr y \<longleftrightarrow> (\<exists>x. m = Inr x \<and> f x = Inr y)"
  by (cases m) simp_all

lemma rbind_cong [fundef_cong]:
  "m = m' \<Longrightarrow> (\<And>x. m' = Inr x \<Longrightarrow> f x = g x) \<Longrightarrow> rbind m f = rbind m' g"
  by (cases m') simp_all

fun is_ok :: "('e, 'a) result \<Rightarrow> bool" where
  "is_ok (Inl _) = False"
| "is_ok (Inr _) = True"

lemma is_ok_iff: "is_ok r \<longleftrightarrow> (\<exists>x. r = Inr x)"
  by (cases r) simp_all

section \<open>Go maps\<close>

type_synonym ('k, 'v) gomap = "('k \<times> 'v) list"

definition wf_map :: "('k, 'v) gomap \<Rightarrow> bool" where
  "wf_map m \<longleftrightarrow> distinct (map fst m)"

definition mget :: "('k, 'v) gomap \<Rightarrow> 'k \<Rightarrow> 'v option" where
  "mget m k = map_of m k"

definition mput :: "'k \<Rightarrow> 'v \<Rightarrow> ('k, 'v) gomap \<Rightarrow> ('k, 'v) gomap" where
  "mput k v m = AList.update k v m"

definition mdel :: "'k \<Rightarrow> ('k, 'v) gomap \<Rightarrow> ('k, 'v) gomap" where
  "mdel k m = filter (\<lambda>(k', _). k' \<noteq> k) m"

definition mhas :: "('k, 'v) gomap \<Rightarrow> 'k \<Rightarrow> bool" where
  "mhas m k \<longleftrightarrow> mget m k \<noteq> None"

text \<open>Indexing a Go map with a missing key yields the zero value of the element type.\<close>

definition mget0 :: "'v \<Rightarrow> ('k, 'v) gomap \<Rightarrow> 'k \<Rightarrow> 'v" where
  "mget0 z m k = (case mget m k of None \<Rightarrow> z | Some v \<Rightarrow> v)"

definition mkeys :: "('k, 'v) gomap \<Rightarrow> 'k list" where
  "mkeys m = map fst m"

definition mvals :: "('k, 'v) gomap \<Rightarrow> 'v list" where
  "mvals m = map snd m"

text \<open>
  The contract a Go map gives its clients; \<open>abs\<close> reads a map as a partial function.
\<close>

locale go_dict =
  fixes empty :: "'m"
    and lookup :: "'m \<Rightarrow> 'k \<Rightarrow> 'v option"
    and insert :: "'k \<Rightarrow> 'v \<Rightarrow> 'm \<Rightarrow> 'm"
    and remove :: "'k \<Rightarrow> 'm \<Rightarrow> 'm"
    and ok :: "'m \<Rightarrow> bool"
  assumes lookup_empty: "lookup empty k = None"
    and lookup_insert: "lookup (insert k v m) j = (if j = k then Some v else lookup m j)"
    and lookup_remove: "lookup (remove k m) j = (if j = k then None else lookup m j)"
    and ok_empty: "ok empty"
    and ok_insert: "ok m \<Longrightarrow> ok (insert k v m)"
    and ok_remove: "ok m \<Longrightarrow> ok (remove k m)"
begin

lemma insert_same: "lookup (insert k v m) k = Some v"
  by (simp add: lookup_insert)

lemma remove_same: "lookup (remove k m) k = None"
  by (simp add: lookup_remove)

lemma insert_insert: "lookup (insert k v (insert k w m)) = lookup (insert k v m)"
  by (auto simp: lookup_insert)

lemma remove_insert: "lookup (remove k (insert k v m)) = lookup (remove k m)"
  by (auto simp: lookup_insert lookup_remove)

lemma ok_remove_all: "ok m \<Longrightarrow> ok (fold remove ks m)"
  by (induction ks arbitrary: m) (auto intro: ok_remove)

lemma lookup_remove_all:
  "lookup (fold remove ks m) j = (if j \<in> set ks then None else lookup m j)"
  by (induction ks arbitrary: m) (auto simp: lookup_remove)

end

lemma map_of_filter_neq: "map_of (filter (\<lambda>(k', _). k' \<noteq> k) m) = (map_of m)(k := None)"
  by (induction m) (auto simp: fun_eq_iff)

interpretation gm: go_dict "[]" mget mput mdel wf_map
proof unfold_locales
  fix k :: 'a and v :: 'b and m :: "('a, 'b) gomap" and j
  show "mget (mput k v m) j = (if j = k then Some v else mget m j)"
    by (simp add: mget_def mput_def update_conv')
  show "mget (mdel k m) j = (if j = k then None else mget m j)"
    by (simp add: mget_def mdel_def map_of_filter_neq)
  show "wf_map m \<Longrightarrow> wf_map (mput k v m)"
    by (simp add: wf_map_def mput_def distinct_update)
  show "wf_map m \<Longrightarrow> wf_map (mdel k m)"
    by (auto simp: wf_map_def mdel_def distinct_map intro: inj_on_subset)
qed (simp_all add: mget_def wf_map_def)

lemmas [go_map_simps] = gm.lookup_insert gm.lookup_remove gm.lookup_empty

lemma mget_Nil [simp]: "mget [] k = None"
  by (simp add: mget_def)

lemma mget_Cons [simp]: "mget ((k, v) # m) j = (if j = k then Some v else mget m j)"
  by (simp add: mget_def)

lemma mhas_simps [simp]:
  "mhas (mput k v m) j \<longleftrightarrow> j = k \<or> mhas m j"
  "mhas (mdel k m) j \<longleftrightarrow> j \<noteq> k \<and> mhas m j"
  by (simp_all add: mhas_def gm.lookup_insert gm.lookup_remove)

lemma mget_in_set: "mget m k = Some v \<Longrightarrow> (k, v) \<in> set m"
  by (simp add: mget_def map_of_SomeD)

lemma mget_iff_in_set: "wf_map m \<Longrightarrow> mget m k = Some v \<longleftrightarrow> (k, v) \<in> set m"
  by (simp add: mget_def wf_map_def map_of_eq_Some_iff)

lemma mget_eq_None_iff: "mget m k = None \<longleftrightarrow> k \<notin> set (mkeys m)"
  by (simp add: mget_def mkeys_def map_of_eq_None_iff)

lemma wf_map_Nil [simp]: "wf_map []"
  by (simp add: wf_map_def)

lemma wf_map_Cons [simp]: "wf_map ((k, v) # m) \<longleftrightarrow> k \<notin> set (mkeys m) \<and> wf_map m"
  by (simp add: wf_map_def mkeys_def)

lemma mkeys_simps [simp]: "mkeys [] = []" "mkeys ((k, v) # m) = k # mkeys m"
  by (simp_all add: mkeys_def)

lemma set_mdel: "set (mdel k m) = {(k', v) \<in> set m. k' \<noteq> k}"
  by (auto simp: mdel_def)

lemma mput_fresh: "\<not> mhas m k \<Longrightarrow> mput k v m = m @ [(k, v)]"
  by (induction m) (auto simp: mput_def mhas_def mget_def split: if_splits)

lemma mget_filter_key: "mget (filter (\<lambda>(k, _). p k) m) j = (if p j then mget m j else None)"
  by (induction m) auto

lemma mget_map_value: "mget (map (\<lambda>(k, v). (k, f k v)) m) j = map_option (f j) (mget m j)"
  by (induction m) auto

lemma map_of_distinct_mset:
  assumes "distinct (map fst xs)" "set xs = set ys" "distinct (map fst ys)"
  shows "map_of xs = map_of ys"
  using assms by (metis map_of_inject_set)

section \<open>Counting entries of a map\<close>

definition mcount :: "('v \<Rightarrow> bool) \<Rightarrow> ('k, 'v) gomap \<Rightarrow> nat" where
  "mcount p m = length (filter (\<lambda>(_, v). p v) m)"

lemma mcount_Nil [simp]: "mcount p [] = 0"
  by (simp add: mcount_def)

lemma mcount_Cons [simp]: "mcount p ((k, v) # m) = (if p v then Suc (mcount p m) else mcount p m)"
  by (simp add: mcount_def)

lemma mcount_append [simp]: "mcount p (m @ m') = mcount p m + mcount p m'"
  by (simp add: mcount_def)

lemma mcount_mput_fresh: "\<not> mhas m k \<Longrightarrow> mcount p (mput k v m) = mcount p m + (if p v then 1 else 0)"
  by (simp add: mput_fresh)

lemma mcount_mput_le: "mcount p (mput k v m) \<le> mcount p m + (if p v then 1 else 0)"
proof (induction m)
  case (Cons a m)
  then show ?case by (cases a) (auto simp: mput_def)
qed (simp add: mput_def)

lemma mcount_mdel_le: "mcount p (mdel k m) \<le> mcount p m"
proof (induction m)
  case (Cons a m)
  then show ?case by (cases a) (auto simp: mdel_def)
qed (simp add: mdel_def)

section \<open>64-bit integers\<close>

text \<open>Go's \<open>int\<close> and \<open>time.Duration\<close> are 64-bit; arithmetic wraps.\<close>

definition wrap64 :: "int \<Rightarrow> int" where
  "wrap64 x = (x + 2 ^ 63) mod 2 ^ 64 - 2 ^ 63"

lemma wrap64_id: "- (2 ^ 63) \<le> x \<Longrightarrow> x < 2 ^ 63 \<Longrightarrow> wrap64 x = x"
  by (simp add: wrap64_def)

lemma wrap64_range: "- (2 ^ 63) \<le> wrap64 x \<and> wrap64 x < 2 ^ 63"
  by (auto simp: wrap64_def intro: pos_mod_bound [of "2 ^ 64", THEN less_le_trans])

text \<open>Truncated division of Go integers, for a positive divisor.\<close>

definition tdiv :: "int \<Rightarrow> int \<Rightarrow> int" where
  "tdiv a b = (if 0 \<le> a then a div b else - ((- a) div b))"

section \<open>Instants and durations\<close>

text \<open>
  \<open>time.Time\<close> is the number of nanoseconds since the zero time of Go, so the zero time is 0;
  \<open>time.Duration\<close> is a number of nanoseconds.
\<close>

type_synonym gotime = int
type_synonym duration = int

definition second :: duration where "second = 1000000000"
definition minute :: duration where "minute = 60 * second"
definition hour :: duration where "hour = 60 * minute"

lemmas time_units = second_def minute_def hour_def

section \<open>Text encodings\<close>

text \<open>
  An encoder and a decoder that invert each other on the valid values, up to an equivalence of
  the decoded values. The clients below use that distinct values are never confused.
\<close>

locale text_codec =
  fixes encode :: "'a \<Rightarrow> string"
    and decode :: "string \<Rightarrow> 'b option"
    and view :: "'a \<Rightarrow> 'c"
    and dview :: "'b \<Rightarrow> 'c"
    and valid :: "'a \<Rightarrow> bool"
  assumes round_trip: "valid x \<Longrightarrow> \<exists>y. decode (encode x) = Some y \<and> dview y = view x"
begin

lemma encode_inj: "valid x \<Longrightarrow> valid y \<Longrightarrow> encode x = encode y \<Longrightarrow> view x = view y"
  by (metis option.inject round_trip)

lemma decode_total: "valid x \<Longrightarrow> decode (encode x) \<noteq> None"
  using round_trip by fastforce

end

end
