(* ===== verification/GoStrings.thy ===== *)
theory GoStrings
  imports Prelude
begin

text \<open>
  The functions of Go's \<open>strings\<close>, \<open>strconv\<close> and \<open>fmt\<close> packages that the repository uses,
  on strings as lists of bytes. Upper and lower case and white space are those of ASCII, so
  the model describes the code on ASCII text.
\<close>

section \<open>Prefixes and substrings\<close>

fun cut_prefix :: "string \<Rightarrow> string \<Rightarrow> string option" where
  "cut_prefix s [] = Some s"
| "cut_prefix [] (p # ps) = None"
| "cut_prefix (c # s) (p # ps) = (if c = p then cut_prefix s ps else None)"

lemma cut_prefix_iff [go_string_simps]: "cut_prefix s p = Some r \<longleftrightarrow> s = p @ r"
  by (induction s p rule: cut_prefix.induct) auto

lemma cut_prefix_append [simp]: "cut_prefix (p @ r) p = Some r"
  by (simp add: cut_prefix_iff)

lemma cut_prefix_length: "cut_prefix s p = Some r \<Longrightarrow> length s = length p + length r"
  by (simp add: cut_prefix_iff)

definition has_prefix :: "string \<Rightarrow> string \<Rightarrow> bool" where
  "has_prefix s p \<longleftrightarrow> cut_prefix s p \<noteq> None"

lemma has_prefix_iff [go_string_simps]: "has_prefix s p \<longleftrightarrow> (\<exists>r. s = p @ r)"
  by (auto simp: has_prefix_def cut_prefix_iff)

lemma has_prefix_set: "has_prefix s p \<Longrightarrow> set p \<subseteq> set s"
  by (auto simp: has_prefix_iff)

definition trim_prefix :: "string \<Rightarrow> string \<Rightarrow> string" where
  "trim_prefix s p = (case cut_prefix s p of Some r \<Rightarrow> r | None \<Rightarrow> s)"

definition cut_suffix :: "string \<Rightarrow> string \<Rightarrow> string option" where
  "cut_suffix s p = map_option rev (cut_prefix (rev s) (rev p))"

lemma cut_suffix_iff [go_string_simps]: "cut_suffix s p = Some r \<longleftrightarrow> s = r @ p"
  by (auto simp: cut_suffix_def cut_prefix_iff) (metis rev_append rev_rev_ident)

definition has_suffix :: "string \<Rightarrow> string \<Rightarrow> bool" where
  "has_suffix s p \<longleftrightarrow> cut_suffix s p \<noteq> None"

definition trim_suffix :: "string \<Rightarrow> string \<Rightarrow> string" where
  "trim_suffix s p = (case cut_suffix s p of Some r \<Rightarrow> r | None \<Rightarrow> s)"

text \<open>\<open>strings.Index\<close>, with \<open>None\<close> for \<open>-1\<close>.\<close>

fun str_index :: "string \<Rightarrow> string \<Rightarrow> nat option" where
  "str_index [] sub = (if sub = [] then Some 0 else None)"
| "str_index (c # s) sub =
     (if has_prefix (c # s) sub then Some 0 else map_option Suc (str_index s sub))"

definition contains :: "string \<Rightarrow> string \<Rightarrow> bool" where
  "contains s sub \<longleftrightarrow> str_index s sub \<noteq> None"

lemma str_index_Some: "str_index s sub = Some i \<Longrightarrow> i \<le> length s \<and> has_prefix (drop i s) sub"
proof (induction s sub arbitrary: i rule: str_index.induct)
  case (1 sub)
  then show ?case by (simp add: has_prefix_def split: if_splits)
next
  case (2 c s sub)
  then show ?case by (auto split: if_splits)
qed

lemma has_prefix_self_append [simp]: "has_prefix (p @ r) p"
  by (simp add: has_prefix_def)

lemma contains_append: "contains (a @ sub @ b) sub"
proof (induction a)
  case Nil
  have "has_prefix (sub @ b) sub" by simp
  then have "str_index (sub @ b) sub = Some 0"
    by (cases "sub @ b") simp_all
  then show ?case by (simp add: contains_def)
next
  case (Cons c a)
  then show ?case by (auto simp: contains_def)
qed

lemma contains_iff [go_string_simps]: "contains s sub \<longleftrightarrow> (\<exists>a b. s = a @ sub @ b)"
proof
  assume "contains s sub"
  then obtain i where "str_index s sub = Some i" by (auto simp: contains_def)
  then have "has_prefix (drop i s) sub" using str_index_Some by blast
  then obtain r where "drop i s = sub @ r" by (auto simp: has_prefix_iff)
  then have "s = take i s @ sub @ r" by (metis append_take_drop_id)
  then show "\<exists>a b. s = a @ sub @ b" by blast
qed (auto simp: contains_append)

lemma has_prefix_contains: "has_prefix s p \<Longrightarrow> contains s p"
  by (metis append_Nil contains_iff has_prefix_iff)

lemma contains_char: "contains s [c] \<longleftrightarrow> c \<in> set s"
  by (auto simp: contains_iff in_set_conv_decomp)

text \<open>\<open>strings.LastIndex\<close> for a one-byte pattern.\<close>

fun last_index :: "string \<Rightarrow> char \<Rightarrow> nat option" where
  "last_index [] c = None"
| "last_index (x # s) c =
     (case last_index s c of Some i \<Rightarrow> Some (Suc i) | None \<Rightarrow> if x = c then Some 0 else None)"

lemma last_index_None: "last_index s c = None \<longleftrightarrow> c \<notin> set s"
  by (induction s) (auto split: option.splits)

lemma last_index_append: "c \<notin> set b \<Longrightarrow> last_index (a @ c # b) c = Some (length a)"
  by (induction a) (auto simp: last_index_None split: option.splits)

section \<open>Splitting and joining\<close>

text \<open>\<open>strings.Split\<close> with a one-byte separator.\<close>

fun split_char :: "char \<Rightarrow> string \<Rightarrow> string list" where
  "split_char c [] = [[]]"
| "split_char c (x # s) =
     (if x = c then [] # split_char c s
      else (case split_char c s of w # ws \<Rightarrow> (x # w) # ws | [] \<Rightarrow> [[x]]))"

fun join :: "string \<Rightarrow> string list \<Rightarrow> string" where
  "join sep [] = []"
| "join sep [w] = w"
| "join sep (w # v # ws) = w @ sep @ join sep (v # ws)"

lemma split_char_nonempty [simp]: "split_char c s \<noteq> []"
  by (induction s) (auto split: list.splits)

lemma split_char_append:
  "c \<notin> set w \<Longrightarrow> split_char c (w @ c # s) = w # split_char c s"
  by (induction w) auto

lemma split_char_id: "c \<notin> set w \<Longrightarrow> split_char c w = [w]"
  by (induction w) auto

lemma split_char_join:
  assumes "ws \<noteq> []" "\<And>w. w \<in> set ws \<Longrightarrow> c \<notin> set w"
  shows "split_char c (join [c] ws) = ws"
  using assms
proof (induction "[c]" ws rule: join.induct)
  case (3 w v ws)
  then show ?case by (simp add: split_char_append)
qed (simp_all add: split_char_id)

lemma split_char_free: "w \<in> set (split_char c s) \<Longrightarrow> c \<notin> set w"
proof (induction s arbitrary: w)
  case (Cons x s)
  obtain v vs where v: "split_char c s = v # vs"
    using split_char_nonempty [of c s] by (cases "split_char c s") auto
  with Cons show ?case by (auto split: if_splits)
qed simp

lemma split_char_set: "w \<in> set (split_char c s) \<Longrightarrow> set w \<subseteq> set s"
proof (induction s arbitrary: w)
  case (Cons x s)
  obtain v vs where v: "split_char c s = v # vs"
    using split_char_nonempty [of c s] by (cases "split_char c s") auto
  with Cons show ?case by (fastforce split: if_splits)
qed simp

lemma length_split_char: "length (split_char c s) = Suc (count_list s c)"
proof (induction s)
  case (Cons x s)
  obtain v vs where v: "split_char c s = v # vs"
    using split_char_nonempty [of c s] by (cases "split_char c s") auto
  with Cons show ?case by auto
qed simp

lemma join_split_char: "join [c] (split_char c s) = s"
proof (induction s)
  case (Cons x s)
  obtain v vs where v: "split_char c s = v # vs"
    using split_char_nonempty [of c s] by (cases "split_char c s") auto
  with Cons show ?case by (cases vs) auto
qed simp

lemma join_eq_Nil_iff: "(\<And>w. w \<in> set ws \<Longrightarrow> w \<noteq> []) \<Longrightarrow> join sep ws = [] \<longleftrightarrow> ws = []"
  by (cases "(sep, ws)" rule: join.cases) auto

text \<open>\<open>strings.SplitN (s, sep, 2)\<close> with a one-byte separator: the parts before and after the
  first separator, or the whole string.\<close>

fun split_two :: "char \<Rightarrow> string \<Rightarrow> string \<times> string option" where
  "split_two c [] = ([], None)"
| "split_two c (x # s) =
     (if x = c then ([], Some s) else (case split_two c s of (a, b) \<Rightarrow> (x # a, b)))"

lemma split_two_id: "c \<notin> set w \<Longrightarrow> split_two c w = (w, None)"
  by (induction w) auto

lemma split_two_append: "c \<notin> set w \<Longrightarrow> split_two c (w @ c # s) = (w, Some s)"
  by (induction w) auto

lemma split_two_free: "split_two c s = (a, b) \<Longrightarrow> c \<notin> set a \<and> set a \<subseteq> set s"
  by (induction s arbitrary: a) (auto split: if_splits prod.splits)

lemma split_two_snd: "split_two c s = (a, Some b) \<Longrightarrow> s = a @ c # b"
  by (induction s arbitrary: a) (auto split: if_splits prod.splits)

text \<open>\<open>strings.Split\<close> with a longer, non-empty separator.\<close>

function split_str :: "string \<Rightarrow> string \<Rightarrow> string list" where
  "split_str sep s =
     (if sep = [] then map (\<lambda>c. [c]) s
      else (case str_index s sep of
              None \<Rightarrow> [s]
            | Some i \<Rightarrow> take i s # split_str sep (drop (i + length sep) s)))"
  by pat_completeness auto
termination
proof (relation "measure (\<lambda>(sep, s). length s)", simp)
  fix sep s :: string and i
  assume "sep \<noteq> []" "str_index s sep = Some i"
  then have "i \<le> length s" "has_prefix (drop i s) sep"
    using str_index_Some by blast+
  with \<open>sep \<noteq> []\<close> have "s \<noteq> []" by (auto simp: has_prefix_iff)
  with \<open>sep \<noteq> []\<close> show "((sep, drop (i + length sep) s), sep, s) \<in> measure (\<lambda>(sep, s). length s)"
    by (cases sep) auto
qed

declare split_str.simps [simp del]

lemma split_str_nonempty: "s \<noteq> [] \<or> sep \<noteq> [] \<Longrightarrow> split_str sep s \<noteq> []"
  by (auto simp: split_str.simps [of sep s] split: option.splits)

section \<open>Replacement\<close>

text \<open>\<open>strings.ReplaceAll\<close> with a one-byte pattern, and with a longer non-empty pattern.\<close>

definition replace_char :: "char \<Rightarrow> string \<Rightarrow> string \<Rightarrow> string" where
  "replace_char c new s = concat (map (\<lambda>x. if x = c then new else [x]) s)"

lemma replace_char_simps [simp]:
  "replace_char c new [] = []"
  "replace_char c new (x # s) = (if x = c then new else [x]) @ replace_char c new s"
  by (simp_all add: replace_char_def)

lemma replace_char_append: "replace_char c new (s @ t) = replace_char c new s @ replace_char c new t"
  by (simp add: replace_char_def)

lemma replace_char_id: "c \<notin> set s \<Longrightarrow> replace_char c new s = s"
  by (induction s) auto

function replace_all :: "string \<Rightarrow> string \<Rightarrow> string \<Rightarrow> string" where
  "replace_all old new [] = []"
| "replace_all old new (c # s) =
     (case cut_prefix (c # s) old of
        Some r \<Rightarrow> if old = [] then c # s else new @ replace_all old new r
      | None \<Rightarrow> c # replace_all old new s)"
  by pat_completeness auto
termination
proof (relation "measure (\<lambda>(old, new, s). length s)")
  fix old new :: string and c s r
  assume "cut_prefix (c # s) old = Some r" "old \<noteq> []"
  then show "((old, new, r), old, new, c # s) \<in> measure (\<lambda>(old, new, s). length s)"
    using cut_prefix_length [of "c # s" old r] by (cases old) auto
qed auto

lemma replace_all_hit: "old \<noteq> [] \<Longrightarrow> replace_all old new (old @ s) = new @ replace_all old new s"
proof -
  assume "old \<noteq> []"
  then obtain c t where "old = c # t" by (cases old) auto
  moreover have "cut_prefix (c # t @ s) (c # t) = Some s"
    using cut_prefix_append [of "c # t" s] by simp
  ultimately show ?thesis by simp
qed

lemma replace_all_miss:
  "cut_prefix (c # s) old = None \<Longrightarrow> replace_all old new (c # s) = c # replace_all old new s"
  by simp

section \<open>White space, case, digits\<close>

definition is_space :: "char \<Rightarrow> bool" where
  "is_space c \<longleftrightarrow> c \<in> {CHR 0x20, CHR 0x09, CHR 0x0A, CHR 0x0B, CHR 0x0C, CHR 0x0D}"

definition trim_space :: "string \<Rightarrow> string" where
  "trim_space s = rev (dropWhile is_space (rev (dropWhile is_space s)))"

lemma trim_space_set: "set (trim_space s) \<subseteq> set s"
  unfolding trim_space_def by (auto dest!: set_dropWhileD)

lemma dropWhile_idem_rev:
  assumes "dropWhile p (rev (dropWhile p s)) = rev t"
  shows "dropWhile p t = t"
proof (cases t)
  case (Cons a u)
  obtain w where w: "rev (dropWhile p s) = w @ rev t"
    using assms by (metis takeWhile_dropWhile_id)
  then have "dropWhile p s = t @ rev w" by (metis rev_append rev_rev_ident)
  with Cons have "dropWhile p s = a # (u @ rev w)" by simp
  then have "\<not> p a" by (metis hd_dropWhile list.distinct(1) list.sel(1))
  with Cons show ?thesis by simp
qed simp

lemma trim_space_idem [simp]: "trim_space (trim_space s) = trim_space s"
proof -
  let ?t = "trim_space s"
  have "dropWhile is_space ?t = ?t"
    by (rule dropWhile_idem_rev [of _ s]) (simp add: trim_space_def)
  moreover have "dropWhile is_space (rev ?t) = rev ?t"
    by (simp add: trim_space_def)
  ultimately show ?thesis by (simp add: trim_space_def [of ?t])
qed

text \<open>\<open>strings.Fields\<close>: the maximal runs of non-space bytes.\<close>

fun fields_acc :: "string \<Rightarrow> string \<Rightarrow> string list" where
  "fields_acc w [] = (if w = [] then [] else [rev w])"
| "fields_acc w (c # s) =
     (if is_space c then (if w = [] then fields_acc [] s else rev w # fields_acc [] s)
      else fields_acc (c # w) s)"

definition fields :: "string \<Rightarrow> string list" where
  "fields s = fields_acc [] s"

lemma fields_acc_free:
  "v \<in> set (fields_acc w s) \<Longrightarrow> list_all (\<lambda>x. \<not> is_space x) w \<Longrightarrow>
     v \<noteq> [] \<and> list_all (\<lambda>x. \<not> is_space x) v"
proof (induction s arbitrary: w)
  case Nil
  then show ?case by (cases "w = []") simp_all
next
  case (Cons c s)
  then show ?case by (cases "is_space c"; cases "w = []") force+
qed

lemma fields_free: "v \<in> set (fields s) \<Longrightarrow> v \<noteq> [] \<and> list_all (\<lambda>x. \<not> is_space x) v"
  unfolding fields_def by (erule fields_acc_free) simp

definition lower_code :: "nat \<Rightarrow> nat" where
  "lower_code n = (if 65 \<le> n \<and> n \<le> 90 then n + 32 else n)"

definition char_lower :: "char \<Rightarrow> char" where
  "char_lower c = char_of (lower_code (of_char c))"

definition to_lower :: "string \<Rightarrow> string" where
  "to_lower s = map char_lower s"

lemma lower_code_idem: "lower_code (lower_code n) = lower_code n"
  by (simp add: lower_code_def)

lemma lower_code_less: "n < 256 \<Longrightarrow> lower_code n < 256"
  by (simp add: lower_code_def)

lemma char_lower_idem: "char_lower (char_lower c) = char_lower c"
proof -
  have "(of_char c :: nat) < 256" by (rule nat_of_char_less_256)
  then have "lower_code (of_char c) mod 256 = lower_code (of_char c)"
    by (intro mod_less lower_code_less)
  then show ?thesis
    unfolding char_lower_def of_char_of by (simp only: lower_code_idem)
qed

lemma to_lower_idem [simp]: "to_lower (to_lower s) = to_lower s"
  by (simp add: to_lower_def char_lower_idem)

definition is_digit :: "char \<Rightarrow> bool" where
  "is_digit c \<longleftrightarrow> 48 \<le> (of_char c :: nat) \<and> (of_char c :: nat) \<le> 57"

definition digit_val :: "char \<Rightarrow> int" where
  "digit_val c = int (of_char c) - 48"

definition digit_char :: "nat \<Rightarrow> char" where
  "digit_char n = char_of (48 + n)"

lemma digit_char_code [simp]:
  "digit_char 0 = CHR ''0''" "digit_char (Suc 0) = CHR ''1''" "digit_char 2 = CHR ''2''"
  "digit_char 3 = CHR ''3''" "digit_char 4 = CHR ''4''" "digit_char 5 = CHR ''5''"
  "digit_char 6 = CHR ''6''" "digit_char 7 = CHR ''7''" "digit_char 8 = CHR ''8''"
  "digit_char 9 = CHR ''9''"
  by code_simp+

text \<open>Decimal output and \<open>strconv.Atoi\<close> (base 10, optional sign, 64-bit range).\<close>

fun show_nat :: "nat \<Rightarrow> string" where
  "show_nat n = (if n < 10 then [digit_char n] else show_nat (n div 10) @ [digit_char (n mod 10)])"

declare show_nat.simps [simp del]

definition show_int :: "int \<Rightarrow> string" where
  "show_int i = (if i < 0 then CHR ''-'' # show_nat (nat (- i)) else show_nat (nat i))"

definition digits_val :: "string \<Rightarrow> int" where
  "digits_val s = foldl (\<lambda>a c. 10 * a + digit_val c) 0 s"

definition atoi :: "string \<Rightarrow> int option" where
  "atoi s =
     (let (neg, ds) = (case s of [] \<Rightarrow> (False, [])
                       | c # r \<Rightarrow> if c = CHR ''-'' then (True, r)
                                else if c = CHR ''+'' then (False, r) else (False, s));
          v = (if neg then - digits_val ds else digits_val ds)
      in if ds \<noteq> [] \<and> list_all is_digit ds \<and> - (2 ^ 63) \<le> v \<and> v < 2 ^ 63 then Some v else None)"

lemma of_char_digit [simp]: "n < 10 \<Longrightarrow> (of_char (digit_char n) :: nat) = 48 + n"
  by (simp add: digit_char_def)

lemma digit_char_props [simp]: "n < 10 \<Longrightarrow> is_digit (digit_char n) \<and> digit_val (digit_char n) = int n"
  by (simp add: is_digit_def digit_val_def)

lemma show_nat_digits: "list_all is_digit (show_nat n)"
proof (induction n rule: show_nat.induct)
  case (1 n)
  then show ?case by (subst show_nat.simps) simp
qed

lemma show_nat_nonempty [simp]: "show_nat n \<noteq> []"
  by (subst show_nat.simps) simp

lemma digits_val_show_nat: "digits_val (show_nat n) = int n"
proof (induction n rule: show_nat.induct)
  case (1 n)
  show ?case
  proof (cases "n < 10")
    case True
    then show ?thesis by (subst show_nat.simps) (simp add: digits_val_def)
  next
    case False
    with 1 have "digits_val (show_nat (n div 10)) = int (n div 10)" by simp
    moreover have "10 * int (n div 10) + int (n mod 10) = int n" by presburger
    ultimately show ?thesis using False
      by (subst show_nat.simps) (simp add: digits_val_def)
  qed
qed

lemma show_nat_hd: "\<exists>c r. show_nat n = c # r \<and> is_digit c"
  using show_nat_digits [of n] show_nat_nonempty [of n] by (cases "show_nat n") auto

lemma atoi_show_nat: "int n < 2 ^ 63 \<Longrightarrow> atoi (show_nat n) = Some (int n)"
proof -
  assume n: "int n < 2 ^ 63"
  obtain c r where cr: "show_nat n = c # r" "is_digit c" using show_nat_hd by blast
  then have "c \<noteq> CHR ''-''" "c \<noteq> CHR ''+''" by (auto simp: is_digit_def)
  with n cr show ?thesis
    using digits_val_show_nat [of n] show_nat_digits [of n]
    by (simp add: atoi_def)
qed

end
