(* ===== verification/JobTypes.thy ===== *)
theory JobTypes
  imports GoStrings
begin

text \<open>
  The data of \<open>pkg/manager/types.go\<close>: requests, inputs, jobs and the tables of supported
  platforms, architectures, parameters and tests of \<open>pkg/manager/prow.go\<close> and
  \<open>pkg/manager/manager.go\<close>. \<open>JobType\<close> and \<open>prowapiv1.ProwJobState\<close> are string types in the
  source and stay strings here; their constants are abbreviations.
\<close>

section \<open>Job types and states\<close>

type_synonym JobType = string

abbreviation "JobTypeCatalog \<equiv> ''catalog''"
abbreviation "JobTypeBuild \<equiv> ''build''"
abbreviation "JobTypeInstall \<equiv> ''install''"
abbreviation "JobTypeLaunch \<equiv> ''launch''"
abbreviation "JobTypeTest \<equiv> ''test''"
abbreviation "JobTypeUpgrade \<equiv> ''upgrade''"
abbreviation "JobTypeWorkflowLaunch \<equiv> ''workflow-launch''"
abbreviation "JobTypeWorkflowTest \<equiv> ''workflow-test''"
abbreviation "JobTypeWorkflowUpgrade \<equiv> ''workflow-upgrade''"
abbreviation "JobTypeMCECustomImage \<equiv> ''mce-custom-image''"

type_synonym ProwJobState = string

abbreviation "SchedulingState \<equiv> ''scheduling''"
abbreviation "TriggeredState \<equiv> ''triggered''"
abbreviation "PendingState \<equiv> ''pending''"
abbreviation "SuccessState \<equiv> ''success''"
abbreviation "FailureState \<equiv> ''failure''"
abbreviation "AbortedState \<equiv> ''aborted''"
abbreviation "ErrorState \<equiv> ''error''"

definition maxJobsPerUser :: nat where "maxJobsPerUser = 23"
definition maxTotalClusters :: nat where "maxTotalClusters = 80"
definition maxTotalMCEAWSClusters :: nat where "maxTotalMCEAWSClusters = 10"
definition maxTotalMCEGCPClusters :: nat where "maxTotalMCEGCPClusters = 10"
definition MaxMCEDuration :: duration where "MaxMCEDuration = 8 * hour"
definition maxMCENotificationAttempts :: nat where "maxMCENotificationAttempts = 3"

section \<open>Records\<close>

text \<open>The fields of \<open>prowapiv1.Pull\<close> and \<open>prowapiv1.Refs\<close> that the manager reads or writes.\<close>

record Pull =
  pl_Number :: int
  pl_Author :: string
  pl_SHA :: string

record Refs =
  rf_Org :: string
  rf_Repo :: string
  rf_BaseRef :: string
  rf_BaseSHA :: string
  rf_Pulls :: "Pull list"

record JobInput =
  ji_Image :: string
  ji_RunImage :: string
  ji_Version :: string
  ji_Refs :: "Refs list"

record OperatorInfo =
  op_Is :: bool
  op_HasIndex :: bool
  op_BundleName :: string

record JobRequest =
  rq_OriginalMessage :: string
  rq_User :: string
  rq_UserName :: string
  rq_Inputs :: "string list list"
  rq_Type :: JobType
  rq_Platform :: string
  rq_WorkflowName :: string
  rq_Channel :: string
  rq_RequestedAt :: gotime
  rq_Name :: string
  rq_JobName :: string
  rq_JobParams :: "(string, string) gomap"
  rq_Architecture :: string
  rq_ManagedClusterName :: string

record Job =
  jb_Name :: string
  jb_OriginalMessage :: string
  jb_State :: ProwJobState
  jb_JobName :: string
  jb_URL :: string
  jb_Platform :: string
  jb_JobParams :: "(string, string) gomap"
  jb_Mode :: JobType
  jb_Inputs :: "JobInput list"
  jb_Credentials :: string
  jb_CredentialsSnippet :: string
  jb_Failure :: string
  jb_RequestedBy :: string
  jb_RequesterUserID :: string
  jb_RequestedChannel :: string
  jb_RequestedAt :: gotime
  jb_ExpiresAt :: gotime
  jb_StartDuration :: duration
  jb_Complete :: bool
  jb_Architecture :: string
  jb_BuildCluster :: string
  jb_WorkflowName :: string
  jb_CloudProfileSet :: string
  jb_Operator :: OperatorInfo
  jb_CatalogComplete :: bool
  jb_CatalogError :: bool
  jb_ManagedClusterName :: string

definition emptyInput :: JobInput where
  "emptyInput = \<lparr>ji_Image = [], ji_RunImage = [], ji_Version = [], ji_Refs = []\<rparr>"

definition emptyOperator :: OperatorInfo where
  "emptyOperator = \<lparr>op_Is = False, op_HasIndex = False, op_BundleName = []\<rparr>"

text \<open>The zero value of \<open>Job\<close>.\<close>

definition emptyJob :: Job where
  "emptyJob = \<lparr>jb_Name = [], jb_OriginalMessage = [], jb_State = [], jb_JobName = [], jb_URL = [],
     jb_Platform = [], jb_JobParams = [], jb_Mode = [], jb_Inputs = [], jb_Credentials = [],
     jb_CredentialsSnippet = [], jb_Failure = [], jb_RequestedBy = [], jb_RequesterUserID = [],
     jb_RequestedChannel = [], jb_RequestedAt = 0, jb_ExpiresAt = 0, jb_StartDuration = 0,
     jb_Complete = False, jb_Architecture = [], jb_BuildCluster = [], jb_WorkflowName = [],
     jb_CloudProfileSet = [], jb_Operator = emptyOperator, jb_CatalogComplete = False,
     jb_CatalogError = False, jb_ManagedClusterName = []\<rparr>"

text \<open>\<open>Job.IsComplete\<close>.\<close>

definition IsComplete :: "Job \<Rightarrow> bool" where
  "IsComplete j \<longleftrightarrow> jb_Complete j \<or> jb_Credentials j \<noteq> [] \<or>
     (jb_State j \<noteq> [] \<and> jb_State j \<noteq> PendingState)"

section \<open>Tables\<close>

definition SupportedTests :: "string list" where
  "SupportedTests = [''e2e'', ''e2e-serial'', ''e2e-all'', ''e2e-disruptive'', ''e2e-disruptive-all'',
     ''e2e-builds'', ''e2e-image-ecosystem'', ''e2e-image-registry'', ''e2e-network-stress'']"

definition SupportedUpgradeTests :: "string list" where
  "SupportedUpgradeTests = [''e2e-upgrade'', ''e2e-upgrade-all'', ''e2e-upgrade-partial'',
     ''e2e-upgrade-rollback'']"

definition SupportedPlatforms :: "string list" where
  "SupportedPlatforms = [''aws'', ''gcp'', ''azure'', ''vsphere'', ''metal'', ''ovirt'', ''openstack'',
     ''hypershift-hosted'', ''nutanix'', ''alibaba'', ''hypershift-hosted-powervs'', ''azure-stackhub'']"

definition SupportedParameters :: "string list" where
  "SupportedParameters = [''ovn'', ''ovn-hybrid'', ''proxy'', ''compact'', ''fips'', ''mirror'',
     ''shared-vpc'', ''large'', ''xlarge'', ''ipv4'', ''ipv6'', ''dualstack'', ''dualstack-primaryv6'',
     ''preserve-bootstrap'', ''test'', ''rt'', ''single-node'', ''techpreview'', ''devpreview'', ''upi'',
     ''nfv'', ''kuryr'', ''sdn'', ''no-spot'', ''no-capabilities'', ''virtualization-support'',
     ''multi-zone'', ''multi-zone-techpreview'', ''bundle'', ''private'', ''static'']"

definition SupportedArchitectures :: "string list" where
  "SupportedArchitectures = [''amd64'', ''arm64'', ''multi'']"

definition platformProfileSets :: "(string, string) gomap" where
  "platformProfileSets = [(''aws'', ''openshift-org-aws''), (''azure'', ''openshift-org-azure''),
     (''gcp'', ''openshift-org-gcp'')]"

definition CurrentReleaseMajor :: nat where "CurrentReleaseMajor = 4"
definition CurrentReleaseMinor :: nat where "CurrentReleaseMinor = 23"

definition currentReleasePrefix :: string where
  "currentReleasePrefix = show_nat CurrentReleaseMajor @ ''.'' @ show_nat CurrentReleaseMinor"

lemma currentReleasePrefix_eq [code_unfold]: "currentReleasePrefix = ''4.23''"
  by (simp add: currentReleasePrefix_def CurrentReleaseMajor_def CurrentReleaseMinor_def
      show_nat.simps)

lemma supported_nonempty:
  "p \<in> set SupportedPlatforms \<Longrightarrow> p \<noteq> []"
  "a \<in> set SupportedArchitectures \<Longrightarrow> a \<noteq> []"
  "q \<in> set SupportedParameters \<Longrightarrow> q \<noteq> []"
  by (auto simp: SupportedPlatforms_def SupportedArchitectures_def SupportedParameters_def)

lemma supported_disjoint:
  "set SupportedPlatforms \<inter> set SupportedArchitectures = {}"
  "set SupportedPlatforms \<inter> set SupportedParameters = {}"
  "set SupportedArchitectures \<inter> set SupportedParameters = {}"
  by (simp_all add: SupportedPlatforms_def SupportedArchitectures_def SupportedParameters_def)

section \<open>Helpers on jobs\<close>

text \<open>\<open>jobHasRefs\<close> and \<open>mceReleaseName\<close> of \<open>prow.go\<close>.\<close>

definition jobHasRefs :: "Job \<Rightarrow> bool" where
  "jobHasRefs job \<longleftrightarrow> (\<exists>i \<in> set (jb_Inputs job). ji_Refs i \<noteq> [])"

fun image_tags :: "string list \<Rightarrow> string" where
  "image_tags [] = []"
| "image_tags (img # rest) =
     (if contains img ''@'' then image_tags rest
      else (case last_index img CHR '':'' of
              None \<Rightarrow> image_tags rest
            | Some i \<Rightarrow> (case last_index img CHR ''/'' of
                         None \<Rightarrow> image_tags rest
                       | Some j \<Rightarrow> if j < i then drop (i + 1) img else image_tags rest)))"

definition mceReleaseName :: "Job \<Rightarrow> string" where
  "mceReleaseName job =
     (if jb_Inputs job = [] then []
      else let input = last (jb_Inputs job) in
        if ji_Version input \<noteq> [] then ji_Version input
        else image_tags [ji_RunImage input, ji_Image input])"

definition testStepForPlatform :: "string \<Rightarrow> string" where
  "testStepForPlatform platform =
     (if platform \<in> {''aws'', ''aws-2'', ''gcp'', ''azure'', ''vsphere'', ''ovirt'', ''openstack'',
          ''nutanix'', ''alibaba''} then ''openshift-e2e-test''
      else if platform = ''metal'' then ''baremetalds-e2e-test'' else [])"

lemma mceReleaseName_tag:
  assumes "jb_Inputs job \<noteq> []" "ji_Version (last (jb_Inputs job)) = []"
    "ji_RunImage (last (jb_Inputs job)) = repo @ ''/'' @ name @ '':'' @ tag"
    "CHR ''@'' \<notin> set (repo @ name @ tag)" "CHR ''/'' \<notin> set (name @ tag)" "CHR '':'' \<notin> set tag"
  shows "mceReleaseName job = tag"
proof -
  let ?im = "repo @ ''/'' @ name @ '':'' @ tag"
  have "last_index ?im CHR '':'' = Some (length (repo @ ''/'' @ name))"
    using last_index_append [of "CHR '':''" tag "repo @ ''/'' @ name"] assms by simp
  moreover have "last_index ?im CHR ''/'' = Some (length repo)"
    using last_index_append [of "CHR ''/''" "name @ '':'' @ tag" repo] assms by simp
  moreover have "\<not> contains ?im ''@''" using assms by (auto simp: contains_char)
  ultimately show ?thesis using assms by (simp add: mceReleaseName_def)
qed

end
