(* ===== verification/Regex.thy ===== *)
theory Regex
  imports GoStrings
begin

text \<open>
  Regular expressions as Go's \<open>regexp\<close> package matches them, by derivatives. \<open>matches\<close> is a
  pattern anchored at both ends, \<open>match_prefix\<close> a pattern with only a leading \<open>^\<close>. The lemmas
  relate both to the usual language semantics.
\<close>

datatype re =
    Zero
  | One
  | Sym "char \<Rightarrow> bool"
  | Alt re re
  | Seq re re
  | Star re

inductive_set star :: "string set \<Rightarrow> string set" for A where
  star_Nil: "[] \<in> star A"
| star_app: "u \<in> A \<Longrightarrow> u \<noteq> [] \<Longrightarrow> v \<in> star A \<Longrightarrow> u @ v \<in> star A"

fun lang :: "re \<Rightarrow> string set" where
  "lang Zero = {}"
| "lang One = {[]}"
| "lang (Sym p) = {[c] | c. p c}"
| "lang (Alt r s) = lang r \<union> lang s"
| "lang (Seq r s) = {u @ v | u v. u \<in> lang r \<and> v \<in> lang s}"
| "lang (Star r) = star (lang r)"

fun nullable :: "re \<Rightarrow> bool" where
  "nullable Zero = False"
| "nullable One = True"
| "nullable (Sym p) = False"
| "nullable (Alt r s) = (nullable r \<or> nullable s)"
| "nullable (Seq r s) = (nullable r \<and> nullable s)"
| "nullable (Star r) = True"

text \<open>Derivatives, with the two simplifications that keep failed branches small.\<close>

definition seq :: "re \<Rightarrow> re \<Rightarrow> re" where
  "seq r s = (case r of Zero \<Rightarrow> Zero | One \<Rightarrow> s | _ \<Rightarrow> Seq r s)"

definition alt :: "re \<Rightarrow> re \<Rightarrow> re" where
  "alt r s = (case r of Zero \<Rightarrow> s | _ \<Rightarrow> (case s of Zero \<Rightarrow> r | _ \<Rightarrow> Alt r s))"

fun deriv :: "char \<Rightarrow> re \<Rightarrow> re" where
  "deriv c Zero = Zero"
| "deriv c One = Zero"
| "deriv c (Sym p) = (if p c then One else Zero)"
| "deriv c (Alt r s) = alt (deriv c r) (deriv c s)"
| "deriv c (Seq r s) =
     (if nullable r then alt (seq (deriv c r) s) (deriv c s) else seq (deriv c r) s)"
| "deriv c (Star r) = seq (deriv c r) (Star r)"

fun matches :: "re \<Rightarrow> string \<Rightarrow> bool" where
  "matches r [] = nullable r"
| "matches r (c # w) = matches (deriv c r) w"

fun match_prefix :: "re \<Rightarrow> string \<Rightarrow> bool" where
  "match_prefix r [] = nullable r"
| "match_prefix r (c # w) = (nullable r \<or> match_prefix (deriv c r) w)"

section \<open>Correctness of the matcher\<close>

lemma lang_seq [simp]: "lang (seq r s) = {u @ v | u v. u \<in> lang r \<and> v \<in> lang s}"
  by (cases r) (auto simp: seq_def)

lemma lang_alt [simp]: "lang (alt r s) = lang r \<union> lang s"
  by (cases r; cases s) (auto simp: alt_def)

lemma nullable_iff: "nullable r \<longleftrightarrow> [] \<in> lang r"
  by (induction r) (auto intro: star_Nil)

inductive_cases star_ConsE: "c # w \<in> star A"

lemma star_Cons_iff: "c # w \<in> star A \<longleftrightarrow> (\<exists>u v. w = u @ v \<and> c # u \<in> A \<and> v \<in> star A)"
proof
  assume "c # w \<in> star A"
  then show "\<exists>u v. w = u @ v \<and> c # u \<in> A \<and> v \<in> star A"
    by (rule star_ConsE) (auto simp: Cons_eq_append_conv)
next
  assume "\<exists>u v. w = u @ v \<and> c # u \<in> A \<and> v \<in> star A"
  then obtain u v where "w = u @ v" "c # u \<in> A" "v \<in> star A" by blast
  then show "c # w \<in> star A" using star_app [of "c # u" A v] by simp
qed

lemma lang_deriv: "w \<in> lang (deriv c r) \<longleftrightarrow> c # w \<in> lang r"
proof (induction r arbitrary: w)
  case (Seq r s)
  then show ?case
    by (auto simp: nullable_iff Cons_eq_append_conv append_eq_Cons_conv)
next
  case (Star r)
  then show ?case by (auto simp: star_Cons_iff)
qed auto

theorem matches_iff: "matches r w \<longleftrightarrow> w \<in> lang r"
  by (induction w arbitrary: r) (auto simp: nullable_iff lang_deriv)

theorem match_prefix_iff: "match_prefix r w \<longleftrightarrow> (\<exists>u v. w = u @ v \<and> u \<in> lang r)"
proof (induction w arbitrary: r)
  case Nil
  then show ?case by (simp add: nullable_iff)
next
  case (Cons c w)
  then show ?case
    by (auto simp: nullable_iff lang_deriv Cons_eq_append_conv)
qed

lemma match_prefixI: "u \<in> lang r \<Longrightarrow> match_prefix r (u @ v)"
  by (auto simp: match_prefix_iff)

section \<open>Building blocks\<close>

fun lit :: "string \<Rightarrow> re" where
  "lit [] = One"
| "lit (c # w) = Seq (Sym (\<lambda>x. x = c)) (lit w)"

definition opt :: "re \<Rightarrow> re" where "opt r = Alt One r"

definition plus :: "re \<Rightarrow> re" where "plus r = Seq r (Star r)"

fun rep :: "nat \<Rightarrow> re \<Rightarrow> re" where
  "rep 0 r = One"
| "rep (Suc n) r = Seq r (rep n r)"

fun seqs :: "re list \<Rightarrow> re" where
  "seqs [] = One"
| "seqs [r] = r"
| "seqs (r # s # rs) = Seq r (seqs (s # rs))"

fun alts :: "re list \<Rightarrow> re" where
  "alts [] = Zero"
| "alts [r] = r"
| "alts (r # s # rs) = Alt r (alts (s # rs))"

text \<open>\<open>.\<close>, \<open>\d\<close>, \<open>\w\<close>\<close>

definition any_char :: re where "any_char = Sym (\<lambda>c. c \<noteq> CHR 0x0A)"
definition digit :: re where "digit = Sym is_digit"

definition is_word_char :: "char \<Rightarrow> bool" where
  "is_word_char c \<longleftrightarrow> is_digit c \<or> c = CHR ''_'' \<or>
     (65 \<le> (of_char c :: nat) \<and> (of_char c :: nat) \<le> 90) \<or>
     (97 \<le> (of_char c :: nat) \<and> (of_char c :: nat) \<le> 122)"

definition word_char :: re where "word_char = Sym is_word_char"

lemma lang_lit [simp]: "lang (lit w) = {w}"
  by (induction w) auto

lemma lang_opt [simp]: "lang (opt r) = insert [] (lang r)"
  by (auto simp: opt_def)

lemma star_digits: "list_all is_digit w \<Longrightarrow> w \<in> star (lang digit)"
proof (induction w)
  case (Cons c w)
  then show ?case using star_app [of "[c]" "lang digit" w] by (auto simp: digit_def)
qed (simp add: star_Nil)

lemma lang_digits: "w \<in> lang (plus digit) \<longleftrightarrow> w \<noteq> [] \<and> list_all is_digit w"
proof
  have star: "list_all is_digit v" if "v \<in> star (lang digit)" for v
    using that by induction (auto simp: digit_def)
  assume "w \<in> lang (plus digit)"
  then show "w \<noteq> [] \<and> list_all is_digit w" using star by (auto simp: plus_def digit_def)
next
  assume "w \<noteq> [] \<and> list_all is_digit w"
  then obtain c v where w: "w = [c] @ v" and c: "is_digit c" and v: "list_all is_digit v"
    by (cases w) auto
  have "[c] \<in> lang digit" using c by (simp add: digit_def)
  moreover have "v \<in> lang (Star digit)" using star_digits [OF v] by simp
  ultimately show "w \<in> lang (plus digit)" unfolding w plus_def lang.simps(5) by blast
qed

end
