(* ===== verification/ReleaseResolver.thy ===== *)
theory ReleaseResolver
  imports JobTypes Regex
begin

text \<open>
  How the bot turns what a user types into release images and pull requests:
  \<open>ResolveImageOrVersion\<close>, \<open>ResolveAsPullRequest\<close>, \<open>lookupInputs\<close> and \<open>containsValidVersion\<close> of
  \<open>pkg/manager/manager.go\<close>. The image stream client, the GitHub client, the semver package and the
  image reference parser are parameters.
\<close>

section \<open>Image streams\<close>

record TagReference =
  tr_Name :: string
  tr_Annotations :: "(string, string) gomap"
  tr_Reference :: bool
  tr_From :: "(string \<times> string) option"

record TagEvent =
  te_Image :: string
  te_DockerImageReference :: string

record ImageStream =
  is_SpecTags :: "TagReference list"
  is_StatusTags :: "(string \<times> TagEvent list) list"

text \<open>What the code uses of the semver package.\<close>

record 'v semver_api =
  sv_ParseTolerant :: "string \<Rightarrow> 'v option"
  sv_Major :: "'v \<Rightarrow> nat"
  sv_Minor :: "'v \<Rightarrow> nat"
  sv_LT :: "'v \<Rightarrow> 'v \<Rightarrow> bool"
  sv_String :: "'v \<Rightarrow> string"

abbreviation "ann \<equiv> mget0 ([] :: string)"

definition re_major_minor :: re where
  "re_major_minor = seqs [plus digit, lit ''.'', plus digit]"

definition versionForRefs :: "Refs option \<Rightarrow> string" where
  "versionForRefs refs =
     (case refs of
        None \<Rightarrow> []
      | Some r \<Rightarrow>
          if rf_BaseRef r = [] then []
          else if rf_BaseRef r = ''master'' \<or> rf_BaseRef r = ''main''
          then currentReleasePrefix @ ''.0-0.latest''
          else (case cut_prefix (rf_BaseRef r) ''openshift-'' of
                  Some v \<Rightarrow> if matches re_major_minor v then v @ ''.0-0.latest'' else []
                | None \<Rightarrow>
                    (case cut_prefix (rf_BaseRef r) ''release-'' of
                       Some v \<Rightarrow> if matches re_major_minor v then v @ ''.0-0.latest'' else []
                     | None \<Rightarrow> [])))"

definition buildPullSpec :: "string \<Rightarrow> string \<Rightarrow> string \<Rightarrow> string" where
  "buildPullSpec namespace tagName isName =
     ''registry.ci.openshift.org/'' @ namespace @ ''/'' @ isName @
       (if has_prefix tagName ''sha256:'' then ''@'' else '':'') @ tagName"

definition pullSpecForTagRef :: "TagReference option \<Rightarrow> string \<Rightarrow> string \<Rightarrow> string" where
  "pullSpecForTagRef tag namespace isName =
     (case tag of
        None \<Rightarrow> []
      | Some t \<Rightarrow>
          (case tr_From t of
             Some (kind, name) \<Rightarrow>
               if tr_Reference t \<and> kind = ''DockerImage'' \<and> name \<noteq> [] then name
               else buildPullSpec namespace (tr_Name t) isName
           | None \<Rightarrow> buildPullSpec namespace (tr_Name t) isName))"

fun newest_loop :: "string \<Rightarrow> TagReference list \<Rightarrow> TagReference option \<Rightarrow> TagReference option" where
  "newest_loop name [] newest = newest"
| "newest_loop name (tag # tags) newest =
     (if ann (tr_Annotations tag) ''release.openshift.io/phase'' \<noteq> ''Accepted''
      then newest_loop name tags newest
      else if ann (tr_Annotations tag) ''release.openshift.io/name'' \<noteq> name
      then newest_loop name tags newest
      else (case newest of
              None \<Rightarrow> newest_loop name tags (Some tag)
            | Some n \<Rightarrow>
                if ann (tr_Annotations n) ''release.openshift.io/creationTimestamp''
                   < ann (tr_Annotations tag) ''release.openshift.io/creationTimestamp''
                then newest_loop name tags (Some tag) else newest_loop name tags newest))"

definition findNewestImageSpecTagWithStream :: "ImageStream \<Rightarrow> string \<Rightarrow> TagReference option" where
  "findNewestImageSpecTagWithStream is name = newest_loop name (is_SpecTags is) None"

definition findImageStatusTag :: "ImageStream \<Rightarrow> string \<Rightarrow> (TagEvent \<times> string) option" where
  "findImageStatusTag is name =
     (case find (\<lambda>(t, items). t = name) (is_StatusTags is) of
        None \<Rightarrow> None
      | Some (t, []) \<Rightarrow> None
      | Some (t, e # _) \<Rightarrow> Some (e, t))"

definition findSpecTagByName :: "ImageStream \<Rightarrow> string \<Rightarrow> TagReference option" where
  "findSpecTagByName is name = find (\<lambda>t. tr_Name t = name) (is_SpecTags is)"

text \<open>\<open>sort.Sort\<close> on the candidate versions, as an insertion sort.\<close>

fun insert_by :: "('v \<Rightarrow> 'v \<Rightarrow> bool) \<Rightarrow> 'v \<Rightarrow> 'v list \<Rightarrow> 'v list" where
  "insert_by lt x [] = [x]"
| "insert_by lt x (y # ys) = (if lt x y then x # y # ys else y # insert_by lt x ys)"

definition sort_by :: "('v \<Rightarrow> 'v \<Rightarrow> bool) \<Rightarrow> 'v list \<Rightarrow> 'v list" where
  "sort_by lt xs = fold (insert_by lt) xs []"

definition stable_candidates :: "'v semver_api \<Rightarrow> ImageStream \<Rightarrow> 'v \<Rightarrow> string \<Rightarrow> 'v list" where
  "stable_candidates sv is base archSuffix =
     concat (map (\<lambda>tag.
       if ann (tr_Annotations tag) ''release.openshift.io/name'' \<noteq>
            show_nat (sv_Major sv base) @ ''-stable'' @ archSuffix then []
       else (case sv_ParseTolerant sv (tr_Name tag) of
               None \<Rightarrow> []
             | Some v \<Rightarrow>
                 if sv_Major sv v \<noteq> sv_Major sv base \<or> sv_Minor sv v \<noteq> sv_Minor sv base
                 then [] else [v])) (is_SpecTags is))"

definition findNewestStableImageSpecTagBySemanticMajor ::
  "'v semver_api \<Rightarrow> ImageStream \<Rightarrow> string \<Rightarrow> string \<Rightarrow> TagReference option" where
  "findNewestStableImageSpecTagBySemanticMajor sv is majorMinor architecture =
     (case sv_ParseTolerant sv majorMinor of
        None \<Rightarrow> None
      | Some base \<Rightarrow>
          let archSuffix = (if architecture = ''arm64'' then ''-arm64''
                            else if architecture = ''multi'' then ''-multi'' else []);
              candidates = sort_by (sv_LT sv) (stable_candidates sv is base archSuffix)
          in if candidates = [] then None
             else find (\<lambda>t. tr_Name t = sv_String sv (last candidates)) (is_SpecTags is))"

section \<open>Resolving a version\<close>

datatype resolve_error =
    UnsupportedArchitecture string
  | NoOcpImageStream string
  | NoRunnerImage string string
  | NoSemver string
  | NoReleaseFound string string

definition imagestreams :: "string list \<Rightarrow> string \<Rightarrow> (string \<times> string \<times> string) list option" where
  "imagestreams versions architecture =
     (if architecture = ''amd64'' then Some
        [(''ocp'', ''release'', []), (''ocp'', ''release-5'', []), (''ocp'', ''release-5-quay'', []),
         (''ocp'', ''4-dev-preview'', []), (''ocp'', ''5-dev-preview'', []),
         (''ocp'', ''konflux-release'', []), (''origin'', ''release'', []),
         (''origin'', ''release-scos'', []), (''origin'', ''release-scos-next'', []),
         (''origin'', ''release-5-scos'', []), (''origin'', ''release-5-scos-next'', [])]
      else if architecture = ''arm64'' then Some
        [(''ocp-arm64'', ''release-arm64'', ''-arm64''), (''ocp-arm64'', ''release-5-arm64'', ''-arm64''),
         (''ocp-arm64'', ''4-dev-preview-arm64'', ''-arm64''),
         (''ocp-arm64'', ''5-dev-preview-arm64'', ''-arm64''),
         (''ocp-arm64'', ''konflux-release-arm64'', ''-arm64'')]
      else if architecture = ''multi'' then Some
        ([(''ocp-multi'', ''release-multi'', ''-multi''), (''ocp-multi'', ''release-5-multi'', ''-multi''),
          (''ocp-multi'', ''4-dev-preview-multi'', ''-multi''),
          (''ocp-multi'', ''5-dev-preview-multi'', ''-multi''),
          (''ocp-multi'', ''konflux-release-multi'', ''-multi'')] @
         map (\<lambda>v. (''ocp-multi'', v @ ''-art-latest-multi'', ''-multi'')) versions)
      else None)"

abbreviation same_runner :: "string \<Rightarrow> bool" where
  "same_runner architecture \<equiv> architecture = ''amd64'' \<or> architecture = ''multi''"

text \<open>The install spec, version and run spec of a spec tag; \<open>runTag\<close> is the amd64 companion.\<close>

definition tag_result :: "string \<Rightarrow> string \<Rightarrow> string \<Rightarrow> TagReference \<Rightarrow> TagReference option \<Rightarrow>
    resolve_error \<Rightarrow> (resolve_error, string \<times> string \<times> string) result" where
  "tag_result architecture ns isName tag runTag err =
     (let installSpec = pullSpecForTagRef (Some tag) ns isName in
      if same_runner architecture then Inr (installSpec, tr_Name tag, installSpec)
      else (case runTag of
              None \<Rightarrow> Inl err
            | Some r \<Rightarrow> Inr (installSpec, tr_Name tag, pullSpecForTagRef (Some r) ''ocp'' ''release'')))"

definition on_amd64 :: "ImageStream option \<Rightarrow> (ImageStream \<Rightarrow> 'a option) \<Rightarrow> 'a option" where
  "on_amd64 amd64IS f = (case amd64IS of None \<Rightarrow> None | Some i \<Rightarrow> f i)"

text \<open>The branch for a bare \<open>major.minor\<close>; \<open>None\<close> moves on to the next stream.\<close>

definition resolve_major_minor :: "'v semver_api \<Rightarrow> string \<Rightarrow> string \<times> string \<times> string \<Rightarrow>
    ImageStream \<Rightarrow> ImageStream option \<Rightarrow> string \<Rightarrow>
    (resolve_error, string \<times> string \<times> string) result option" where
  "resolve_major_minor sv architecture stream is amd64IS unresolved =
     (case stream of (ns, isName, archSuffix) \<Rightarrow>
       (case findNewestImageSpecTagWithStream is (unresolved @ ''.0-0.nightly'' @ archSuffix) of
          Some tag \<Rightarrow>
            Some (tag_result architecture ns isName tag
              (on_amd64 amd64IS (\<lambda>i. findNewestImageSpecTagWithStream i (unresolved @ ''.0-0.nightly'')))
              (NoRunnerImage (unresolved @ ''.0-0.nightly'') architecture))
        | None \<Rightarrow>
       (case findNewestImageSpecTagWithStream is (unresolved @ ''.0-0.ci'' @ archSuffix) of
          Some tag \<Rightarrow>
            Some (tag_result architecture ns isName tag
              (on_amd64 amd64IS (\<lambda>i. findNewestImageSpecTagWithStream i (unresolved @ ''.0-0.ci'')))
              (NoRunnerImage (unresolved @ ''.0-0.ci'') architecture))
        | None \<Rightarrow>
       (case findNewestStableImageSpecTagBySemanticMajor sv is unresolved architecture of
          Some tag \<Rightarrow>
            Some (tag_result architecture ns isName tag
              (on_amd64 amd64IS (\<lambda>i. findNewestStableImageSpecTagBySemanticMajor sv i unresolved ''amd64''))
              (NoRunnerImage unresolved architecture))
        | None \<Rightarrow> None))))"

definition expand_alias :: "string \<Rightarrow> string \<Rightarrow> string" where
  "expand_alias archSuffix unresolved =
     (if unresolved = ''nightly'' then currentReleasePrefix @ ''.0-0.nightly'' @ archSuffix
      else if unresolved = ''ci'' then currentReleasePrefix @ ''.0-0.ci'' @ archSuffix
      else if unresolved = ''prerelease'' then currentReleasePrefix @ ''.0-0.ci'' @ archSuffix
      else unresolved)"

definition nightly_stream :: "'v semver_api \<Rightarrow> 'v \<Rightarrow> string" where
  "nightly_stream sv ver = show_nat (sv_Major sv ver) @ ''.'' @ show_nat (sv_Minor sv ver) @ ''.0-0.nightly''"

definition event_spec :: "string \<Rightarrow> string \<Rightarrow> TagEvent \<Rightarrow> string" where
  "event_spec ns isName e =
     (if te_Image e = [] then te_DockerImageReference e else buildPullSpec ns (te_Image e) isName)"

definition resolve_status_tag :: "'v semver_api \<Rightarrow> string \<Rightarrow> string \<times> string \<times> string \<Rightarrow>
    ImageStream option \<Rightarrow> string \<Rightarrow> TagEvent \<Rightarrow> string \<Rightarrow>
    (resolve_error, string \<times> string \<times> string) result" where
  "resolve_status_tag sv architecture stream amd64IS unresolved tag name =
     (case stream of (ns, isName, archSuffix) \<Rightarrow>
      let installSpec = event_spec ns isName tag in
      if same_runner architecture \<or> contains unresolved ''konflux''
      then Inr (installSpec, name, installSpec)
      else if contains unresolved ''nightly''
      then (case sv_ParseTolerant sv unresolved of
              None \<Rightarrow> Inl (NoSemver (te_Image tag))
            | Some ver \<Rightarrow>
                (case on_amd64 amd64IS (\<lambda>i. findNewestImageSpecTagWithStream i (nightly_stream sv ver)) of
                   None \<Rightarrow> Inl (NoRunnerImage (nightly_stream sv ver) architecture)
                 | Some r \<Rightarrow> Inr (installSpec, name, pullSpecForTagRef (Some r) ''ocp'' ''release'')))
      else (case on_amd64 amd64IS (\<lambda>i. findImageStatusTag i unresolved) of
              None \<Rightarrow> Inl (NoRunnerImage unresolved architecture)
            | Some (r, _) \<Rightarrow> Inr (installSpec, name, event_spec ''ocp'' ''release'' r)))"

definition resolve_stream_tag :: "'v semver_api \<Rightarrow> string \<Rightarrow> string \<times> string \<times> string \<Rightarrow>
    ImageStream option \<Rightarrow> string \<Rightarrow> TagReference \<Rightarrow>
    (resolve_error, string \<times> string \<times> string) result" where
  "resolve_stream_tag sv architecture stream amd64IS unresolved tag =
     (case stream of (ns, isName, archSuffix) \<Rightarrow>
      if \<not> same_runner architecture \<and> contains unresolved ''nightly''
      then (case sv_ParseTolerant sv unresolved of
              None \<Rightarrow> Inl (NoSemver (tr_Name tag))
            | Some ver \<Rightarrow>
                tag_result architecture ns isName tag
                  (on_amd64 amd64IS (\<lambda>i. findNewestImageSpecTagWithStream i (nightly_stream sv ver)))
                  (NoRunnerImage (nightly_stream sv ver) architecture))
      else tag_result architecture ns isName tag
             (on_amd64 amd64IS (\<lambda>i. findNewestImageSpecTagWithStream i unresolved))
             (NoRunnerImage unresolved architecture))"

text \<open>One stream; the second component is the name to look for in the next stream.\<close>

definition resolve_in_stream :: "'v semver_api \<Rightarrow> string \<Rightarrow> string \<times> string \<times> string \<Rightarrow>
    ImageStream \<Rightarrow> ImageStream option \<Rightarrow> string \<Rightarrow>
    (resolve_error, string \<times> string \<times> string) result option \<times> string" where
  "resolve_in_stream sv architecture stream is amd64IS unresolved =
     (if matches re_major_minor unresolved
      then (resolve_major_minor sv architecture stream is amd64IS unresolved, unresolved)
      else case stream of (ns, isName, archSuffix) \<Rightarrow>
        let unresolved = expand_alias archSuffix unresolved in
        (case findImageStatusTag is unresolved of
           Some (tag, name) \<Rightarrow>
             (Some (resolve_status_tag sv architecture stream amd64IS unresolved tag name), unresolved)
         | None \<Rightarrow>
        (case findNewestImageSpecTagWithStream is unresolved of
           Some tag \<Rightarrow> (Some (resolve_stream_tag sv architecture stream amd64IS unresolved tag), unresolved)
         | None \<Rightarrow>
        (case findSpecTagByName is unresolved of
           Some tag \<Rightarrow>
             (Some (tag_result architecture ns isName tag
                (on_amd64 amd64IS (\<lambda>i. findSpecTagByName i unresolved))
                (NoRunnerImage unresolved architecture)), unresolved)
         | None \<Rightarrow> (None, unresolved)))))"

fun resolve_loop :: "'v semver_api \<Rightarrow> (string \<Rightarrow> string \<Rightarrow> ImageStream option) \<Rightarrow> string \<Rightarrow> string \<Rightarrow>
    (string \<times> string \<times> string) list \<Rightarrow> string \<Rightarrow>
    (resolve_error, string \<times> string \<times> string) result" where
  "resolve_loop sv get architecture orig [] unresolved = Inl (NoReleaseFound orig architecture)"
| "resolve_loop sv get architecture orig (stream # streams) unresolved =
     (case stream of (ns, isName, archSuffix) \<Rightarrow>
       (case get ns isName of
          None \<Rightarrow> resolve_loop sv get architecture orig streams unresolved
        | Some is \<Rightarrow>
            if \<not> same_runner architecture \<and> get ''ocp'' (trim_suffix isName archSuffix) = None
            then Inl (NoOcpImageStream (trim_suffix isName archSuffix))
            else let amd64IS = (if same_runner architecture then None
                                else get ''ocp'' (trim_suffix isName archSuffix)) in
              (case resolve_in_stream sv architecture stream is amd64IS unresolved of
                 (Some r, _) \<Rightarrow> r
               | (None, unresolved') \<Rightarrow> resolve_loop sv get architecture orig streams unresolved')))"

definition ResolveImageOrVersion :: "'v semver_api \<Rightarrow> (string \<Rightarrow> string \<Rightarrow> ImageStream option) \<Rightarrow>
    string list \<Rightarrow> string \<Rightarrow> string \<Rightarrow> string \<Rightarrow> (resolve_error, string \<times> string \<times> string) result" where
  "ResolveImageOrVersion sv get versions imageOrVersion defaultImageOrVersion architecture =
     (if trim_space imageOrVersion = [] \<and> defaultImageOrVersion = [] then Inr ([], [], [])
      else let iov = (if trim_space imageOrVersion = [] then defaultImageOrVersion else imageOrVersion);
               unresolved = trim_prefix (trim_prefix iov ''http://'') ''https://'' in
        if contains unresolved ''/'' then Inr (unresolved, [], [])
        else (case imagestreams versions architecture of
                None \<Rightarrow> Inl (UnsupportedArchitecture architecture)
              | Some streams \<Rightarrow> resolve_loop sv get architecture iov streams unresolved))"

section \<open>Pull requests\<close>

text \<open>
  \<open>url.Parse\<close> on a URL that starts with \<open>https://github.com/\<close>: the fragment and the query are cut
  off, control bytes and bad percent escapes are errors, and the path is unescaped.
\<close>

definition hex_val :: "char \<Rightarrow> nat option" where
  "hex_val c =
     (let n = (of_char c :: nat) in
      if 48 \<le> n \<and> n \<le> 57 then Some (n - 48)
      else if 97 \<le> n \<and> n \<le> 102 then Some (n - 87)
      else if 65 \<le> n \<and> n \<le> 70 then Some (n - 55) else None)"

fun unescape :: "string \<Rightarrow> string option" where
  "unescape [] = Some []"
| "unescape (c # s) =
     (if c \<noteq> CHR ''%'' then map_option (Cons c) (unescape s)
      else (case s of
              a # b # r \<Rightarrow>
                (case (hex_val a, hex_val b) of
                   (Some x, Some y) \<Rightarrow> map_option (Cons (char_of (16 * x + y))) (unescape r)
                 | _ \<Rightarrow> None)
            | _ \<Rightarrow> None))"

definition is_ctl :: "char \<Rightarrow> bool" where
  "is_ctl c \<longleftrightarrow> (of_char c :: nat) < 32 \<or> (of_char c :: nat) = 127"

definition github_url_path :: "string \<Rightarrow> string option" where
  "github_url_path spec =
     (case split_two CHR ''#'' spec of (u, frag) \<Rightarrow>
        if list_ex is_ctl u then None
        else (case split_two CHR ''?'' (trim_prefix u ''https://github.com'') of (p, _) \<Rightarrow>
          (case unescape p of
             None \<Rightarrow> None
           | Some path \<Rightarrow>
               (case frag of
                  None \<Rightarrow> Some path
                | Some f \<Rightarrow> if unescape f = None then None else Some path))))"

definition trim_slashes :: "string \<Rightarrow> string" where
  "trim_slashes s = rev (dropWhile (\<lambda>c. c = CHR ''/'') (rev (dropWhile (\<lambda>c. c = CHR ''/'') s)))"

text \<open>\<open>url.PathEscape\<close>.\<close>

definition hex_digit :: "nat \<Rightarrow> char" where
  "hex_digit n = (if n < 10 then char_of (48 + n) else char_of (55 + n))"

definition path_escape :: "string \<Rightarrow> string" where
  "path_escape s =
     concat (map (\<lambda>c. if is_word_char c \<or> c \<in> set ''-.~$&+=:@'' then [c]
       else [CHR ''%'', hex_digit (of_char c div 16), hex_digit (of_char c mod 16)]) s)"

record PullRequest =
  pr_Merged :: bool
  pr_Mergable :: "bool option"
  pr_BaseRef :: string
  pr_Login :: string
  pr_HeadSHA :: string

record github_client =
  gh_GetPullRequest :: "string \<Rightarrow> string \<Rightarrow> int \<Rightarrow> PullRequest option"
  gh_GetRef :: "string \<Rightarrow> string \<Rightarrow> string \<Rightarrow> string option"

datatype pull_error =
    PullSyntax
  | PullLookupFailed string
  | PullMerged string string
  | PullNeedsRebase string string
  | PullRefFailed string

definition pull_parts :: "string \<Rightarrow> (string \<times> string) option" where
  "pull_parts spec =
     (if has_prefix spec ''https://github.com/''
      then (case github_url_path spec of
              None \<Rightarrow> None
            | Some path \<Rightarrow>
                (case split_char CHR ''/'' (trim_slashes path) of
                   [a, b, c, d] \<Rightarrow> if c = ''pull'' then Some (a @ ''/'' @ b, d) else None
                 | _ \<Rightarrow> None))
      else if contains spec ''#''
      then (case split_two CHR ''#'' spec of (a, Some b) \<Rightarrow> Some (a, b) | _ \<Rightarrow> None)
      else None)"

definition lookup_pull :: "github_client \<Rightarrow> string \<Rightarrow> string \<Rightarrow> string \<Rightarrow> string \<Rightarrow> int \<Rightarrow>
    (pull_error, Refs) result" where
  "lookup_pull gh forcePROwner spec org repo num =
     (case gh_GetPullRequest gh (path_escape org) (path_escape repo) num of
        None \<Rightarrow> Inl (PullLookupFailed spec)
      | Some pr \<Rightarrow>
          if pr_Merged pr then Inl (PullMerged spec (pr_BaseRef pr))
          else if pr_Mergable pr = Some False then Inl (PullNeedsRebase spec (pr_BaseRef pr))
          else (case gh_GetRef gh (path_escape org) (path_escape repo) (''heads/'' @ pr_BaseRef pr) of
                  None \<Rightarrow> Inl (PullRefFailed spec)
                | Some sha \<Rightarrow>
                    Inr \<lparr>rf_Org = org, rf_Repo = repo, rf_BaseRef = pr_BaseRef pr, rf_BaseSHA = sha,
                      rf_Pulls = [\<lparr>pl_Number = num,
                         pl_Author = (if forcePROwner = [] then pr_Login pr else forcePROwner),
                         pl_SHA = pr_HeadSHA pr\<rparr>]\<rparr>))"

definition ResolveAsPullRequest :: "github_client \<Rightarrow> string \<Rightarrow> string \<Rightarrow>
    (pull_error, Refs option) result" where
  "ResolveAsPullRequest gh forcePROwner spec =
     (case pull_parts spec of
        None \<Rightarrow> Inr None
      | Some (location, n) \<Rightarrow>
          (case split_char CHR ''/'' location of
             [org, repo] \<Rightarrow>
               if org = [] \<or> repo = [] then Inl PullSyntax
               else (case atoi n of
                       None \<Rightarrow> Inl PullSyntax
                     | Some num \<Rightarrow>
                         if num < 1 then Inl PullSyntax
                         else rbind (lookup_pull gh forcePROwner spec org repo num) (\<lambda>r. Inr (Some r)))
           | _ \<Rightarrow> Inl PullSyntax))"

section \<open>Inputs of a job\<close>

datatype input_error =
    InputResolve resolve_error
  | InputPull pull_error
  | InputNoImage string
  | InputTwoImages
  | InputArm64Version

record 'v resolver =
  rv_semver :: "'v semver_api"
  rv_streams :: "string \<Rightarrow> string \<Rightarrow> ImageStream option"
  rv_hypershift :: "string list"
  rv_github :: github_client
  rv_forcePROwner :: string

fun add_pulls :: "Refs \<Rightarrow> Refs list \<Rightarrow> Refs list" where
  "add_pulls pr [] = [pr]"
| "add_pulls pr (r # rs) =
     (if rf_Org r = rf_Org pr \<and> rf_Repo r = rf_Repo pr
      then r\<lparr>rf_Pulls := rf_Pulls r @ rf_Pulls pr\<rparr> # rs else r # add_pulls pr rs)"

fun input_loop :: "'v resolver \<Rightarrow> string \<Rightarrow> string list \<Rightarrow> JobInput \<Rightarrow>
    (input_error, JobInput) result" where
  "input_loop rv architecture [] ji = Inr ji"
| "input_loop rv architecture (part # parts) ji =
     (case ResolveAsPullRequest (rv_github rv) (rv_forcePROwner rv) part of
        Inl e \<Rightarrow> Inl (InputPull e)
      | Inr (Some pr) \<Rightarrow>
          input_loop rv architecture parts (ji\<lparr>ji_Refs := add_pulls pr (ji_Refs ji)\<rparr>)
      | Inr None \<Rightarrow>
          (case ResolveImageOrVersion (rv_semver rv) (rv_streams rv) (rv_hypershift rv) part [] architecture of
             Inl e \<Rightarrow> Inl (InputResolve e)
           | Inr (img, version, runImage) \<Rightarrow>
               if img = [] then Inl (InputNoImage part)
               else if ji_Image ji \<noteq> [] then Inl InputTwoImages
               else if architecture = ''arm64'' \<and> (runImage = [] \<or> version = []) \<and>
                       \<not> contains img ''konflux'' then Inl InputArm64Version
               else input_loop rv architecture parts
                      (ji\<lparr>ji_Image := img, ji_Version := version, ji_RunImage := runImage\<rparr>)))"

definition default_version :: "JobInput \<Rightarrow> JobInput" where
  "default_version ji =
     (if ji_Version ji = [] \<and> ji_Refs ji \<noteq> []
      then ji\<lparr>ji_Version := versionForRefs (Some (hd (ji_Refs ji)))\<rparr> else ji)"

fun inputs_loop :: "'v resolver \<Rightarrow> string \<Rightarrow> string list list \<Rightarrow>
    (input_error, JobInput list) result" where
  "inputs_loop rv architecture [] = Inr []"
| "inputs_loop rv architecture (input # inputs) =
     rbind (input_loop rv architecture input emptyInput) (\<lambda>ji.
     rbind (inputs_loop rv architecture inputs) (\<lambda>jis. Inr (default_version ji # jis)))"

text \<open>\<open>lookupInputs\<close>: the job inputs and the version chosen when the user gave none.\<close>

definition lookupInputs :: "'v resolver \<Rightarrow> string list list \<Rightarrow> string \<Rightarrow>
    (input_error, JobInput list \<times> string) result" where
  "lookupInputs rv inputs architecture =
     (if inputs = [] \<or> inputs = [[]]
      then (case ResolveImageOrVersion (rv_semver rv) (rv_streams rv) (rv_hypershift rv) ''nightly'' [] architecture of
              Inl e \<Rightarrow> Inl (InputResolve e)
            | Inr (_, version, _) \<Rightarrow>
                rbind (inputs_loop rv architecture [[version]]) (\<lambda>jis. Inr (jis, version)))
      else rbind (inputs_loop rv architecture inputs) (\<lambda>jis. Inr (jis, [])))"

text \<open>\<open>LookupInputs\<close> (the \<open>lookup\<close> command); \<open>inputs[i]\<close> is in range because there is one input group.\<close>

definition describe_input :: "string \<Rightarrow> string \<Rightarrow> JobInput \<Rightarrow> string" where
  "describe_input architecture given ji =
     (if ji_Refs ji \<noteq> [] then ''`'' @ given @ ''` will build from PRs''
      else if ji_Version ji = [] then ''`'' @ given @ ''` uses a release image at `'' @ ji_Image ji @ ''`''
      else if ji_Image ji = [] then ''`'' @ given @ ''` uses version `'' @ ji_Version ji @ ''`''
      else ''`'' @ given @ ''` launches version <https://'' @ architecture @
           ''.ocp.releases.ci.openshift.org/releasetag/'' @ ji_Version ji @ ''|'' @ ji_Version ji @ ''>'')"

definition LookupInputs :: "'v resolver \<Rightarrow> string list \<Rightarrow> string \<Rightarrow> (input_error, string option) result" where
  "LookupInputs rv inputs architecture =
     rbind (lookupInputs rv [inputs] architecture) (\<lambda>(jis, defaulted).
       let inputs = (if defaulted \<noteq> [] then [defaulted] else inputs) in
       if length jis \<le> length inputs
       then Inr (Some (join [CHR 0x0A] (map (\<lambda>(g, ji). describe_input architecture g ji) (zip inputs jis))))
       else Inr None)"

section \<open>Valid versions\<close>

definition date_stamp :: re where
  "date_stamp = seqs [rep 4 digit, lit ''-'', rep 2 digit, lit ''-'', rep 2 digit, lit ''-'', rep 6 digit]"

definition x_y :: re where "x_y = seqs [plus digit, lit ''.'', plus digit]"

definition x_y_z :: re where
  "x_y_z = seqs [plus digit, lit ''.'', plus digit, lit ''.'', plus digit]"

definition any_star :: re where "any_star = Star any_char"

text \<open>The patterns of \<open>validVersionRegexes\<close>; the flag tells whether the pattern ends in \<open>$\<close>.\<close>

definition validVersionRegexes :: "(re \<times> bool) list" where
  "validVersionRegexes =
     [(x_y, False),
      (lit ''nightly'', False),
      (lit ''ci'', False),
      (seqs [x_y, lit ''.nightly''], False),
      (seqs [x_y, lit ''.ci''], False),
      (seqs [x_y, lit ''.0-0.nightly''], False),
      (seqs [x_y, lit ''.0-0.ci''], False),
      (seqs [Alt (lit ''quay.io'') (lit ''registry.ci.openshift.org''), any_star, lit ''release:'', x_y_z,
         lit ''-0.nightly-'', date_stamp], True),
      (seqs [Alt (lit ''quay.io'') (lit ''registry.ci.openshift.org''), any_star, lit ''release:'', x_y_z,
         lit ''-0.ci-'', date_stamp], True),
      (seqs [lit ''quay.io/openshift-release-dev/'', plus any_char, lit '':'',
         Alt (seqs [x_y_z, opt (seqs [lit ''-ec.'', plus digit])])
             (seqs [plus any_char, lit ''-0.'', Alt (lit ''nightly'') (lit ''ci''), opt (lit ''-priv''), lit ''-'',
                date_stamp])], True),
      (seqs [lit ''quay.io/openshift-release-dev/ocp-release:'', x_y_z, lit ''-ec.'', plus digit,
         opt (seqs [lit ''-'', plus word_char])], True),
      (seqs [lit ''quay.io/okd/scos-release:'', x_y_z, lit ''-okd-scos.ec.'', plus digit], True),
      (seqs [alts [lit ''quay.io/okd'', lit ''quay.io/openshift/okd'',
           seqs [lit ''registry.ci.openshift.org/origin/release'', opt (lit ''-5''), lit ''-scos'', opt (lit ''-next'')]],
         lit '':'', x_y_z, lit ''-0.okd'', opt (lit ''-scos''), opt (seqs [lit ''.ec.'', plus digit]),
         opt (seqs [lit ''-'', date_stamp])], True),
      (seqs [lit ''registry.ci.openshift.org/ocp-priv/release-priv:'', x_y_z, lit ''-0.nightly-priv-'', date_stamp], False),
      (seqs [lit ''registry.ci.openshift.org/ocp/konflux-release:'', x_y_z, lit ''-0.konflux-nightly-'', date_stamp], False),
      (seqs [lit ''registry.build'', any_star, lit ''.ci.openshift.org/ci'', any_star, lit ''/release''], False),
      (seqs [lit ''quay-proxy.ci.openshift.org/openshift/ci:rc_payload__'', x_y_z, lit ''-0.'',
         Alt (lit ''ci'') (lit ''nightly''), opt (lit ''-quay''), lit ''-'', date_stamp], True)]"

definition re_MatchString :: "re \<times> bool \<Rightarrow> string \<Rightarrow> bool" where
  "re_MatchString p s = (if snd p then matches (fst p) s else match_prefix (fst p) s)"

definition allowedRegistryNames :: "string list" where
  "allowedRegistryNames = [''quay.io'']"

definition allowedRegistryRegexes :: "(re \<times> bool) list" where
  "allowedRegistryRegexes = [(seqs [lit ''registry.'', any_star, lit ''.openshift.org''], False)]"

text \<open>
  \<open>containsValidVersion\<close>; \<open>parse_ref\<close> stands for \<open>reference.ParseNormalizedNamed\<close> and gives the
  domain and whether the reference has a tag or a digest.
\<close>

definition valid_item :: "(string \<Rightarrow> (string \<times> bool \<times> bool) option) \<Rightarrow> string \<Rightarrow> bool" where
  "valid_item parse_ref item \<longleftrightarrow>
     list_ex (\<lambda>p. re_MatchString p item) validVersionRegexes \<or>
     (case parse_ref item of
        None \<Rightarrow> False
      | Some (domain, isTagged, isDigested) \<Rightarrow>
          (isTagged \<or> isDigested) \<and>
          (domain \<in> set allowedRegistryNames \<or> list_ex (\<lambda>p. re_MatchString p domain) allowedRegistryRegexes))"

definition containsValidVersion :: "(string \<Rightarrow> (string \<times> bool \<times> bool) option) \<Rightarrow> string list \<Rightarrow> bool" where
  "containsValidVersion parse_ref items \<longleftrightarrow> list_ex (valid_item parse_ref) items"

section \<open>The newest accepted tag\<close>

definition accepted_in :: "string \<Rightarrow> TagReference \<Rightarrow> bool" where
  "accepted_in name t \<longleftrightarrow> ann (tr_Annotations t) ''release.openshift.io/phase'' = ''Accepted'' \<and>
     ann (tr_Annotations t) ''release.openshift.io/name'' = name"

definition created :: "TagReference \<Rightarrow> string" where
  "created t = ann (tr_Annotations t) ''release.openshift.io/creationTimestamp''"

lemma newest_loop_Some:
  "newest_loop name tags acc = Some t \<Longrightarrow>
     (acc = Some t \<or> (t \<in> set tags \<and> accepted_in name t)) \<and>
     (\<forall>u \<in> set tags. accepted_in name u \<longrightarrow> created u \<le> created t) \<and>
     (\<forall>a. acc = Some a \<longrightarrow> created a \<le> created t)"
proof (induction tags arbitrary: acc)
  case (Cons u tags)
  show ?case
  proof (cases "accepted_in name u")
    case False
    then show ?thesis using Cons by (auto simp: accepted_in_def split: if_splits)
  next
    case True
    then show ?thesis
      using Cons.IH [of "Some u"] Cons.IH [of acc] Cons.prems
      by (cases acc) (auto simp: accepted_in_def created_def split: if_splits)
  qed
qed simp

lemma newest_loop_None:
  "newest_loop name tags acc = None \<longleftrightarrow> acc = None \<and> (\<forall>u \<in> set tags. \<not> accepted_in name u)"
  by (induction tags arbitrary: acc) (auto simp: accepted_in_def split: option.splits)

section \<open>The runner image of an arm64 cluster\<close>

text \<open>A run spec that names an image of an amd64 \<open>ocp\<close> stream.\<close>

definition amd64_runner :: "(string \<Rightarrow> string \<Rightarrow> ImageStream option) \<Rightarrow> string \<Rightarrow> bool" where
  "amd64_runner get run \<longleftrightarrow>
     (\<exists>name is. get ''ocp'' name = Some is \<and>
        ((\<exists>t \<in> set (is_SpecTags is). run = pullSpecForTagRef (Some t) ''ocp'' ''release'') \<or>
         (\<exists>(n, es) \<in> set (is_StatusTags is). \<exists>e \<in> set es. run = event_spec ''ocp'' ''release'' e)))"

lemma find_set: "find P xs = Some x \<Longrightarrow> x \<in> set xs"
  by (metis find_Some_iff nth_mem)

lemma newest_in: "findNewestImageSpecTagWithStream is n = Some t \<Longrightarrow> t \<in> set (is_SpecTags is)"
  using newest_loop_Some [of n "is_SpecTags is" None t]
  by (auto simp: findNewestImageSpecTagWithStream_def)

lemma stable_in: "findNewestStableImageSpecTagBySemanticMajor sv is n a = Some t \<Longrightarrow> t \<in> set (is_SpecTags is)"
  by (auto simp: findNewestStableImageSpecTagBySemanticMajor_def Let_def find_set
      split: option.splits if_splits)

lemma spec_in: "findSpecTagByName is n = Some t \<Longrightarrow> t \<in> set (is_SpecTags is)"
  by (simp add: findSpecTagByName_def find_set)

lemma status_in: "findImageStatusTag is n = Some (e, m) \<Longrightarrow> \<exists>es. (m, es) \<in> set (is_StatusTags is) \<and> e \<in> set es"
  by (auto simp: findImageStatusTag_def split: option.splits list.splits prod.splits dest!: find_set)

lemma amd64_runner_spec:
  "get ''ocp'' n = Some is \<Longrightarrow> t \<in> set (is_SpecTags is) \<Longrightarrow>
     amd64_runner get (pullSpecForTagRef (Some t) ''ocp'' ''release'')"
  unfolding amd64_runner_def by blast

lemma amd64_runner_status:
  "get ''ocp'' n = Some is \<Longrightarrow> (m, es) \<in> set (is_StatusTags is) \<Longrightarrow> e \<in> set es \<Longrightarrow>
     amd64_runner get (event_spec ''ocp'' ''release'' e)"
  unfolding amd64_runner_def by blast

lemma tag_result_runner:
  assumes t: "tag_result architecture ns isName tag (on_amd64 amd f) e = Inr (i, v, run)"
    and arch: "\<not> same_runner architecture" and amd: "amd = get ''ocp'' n"
    and f: "\<And>is r. f is = Some r \<Longrightarrow> r \<in> set (is_SpecTags is)"
  shows "amd64_runner get run"
proof -
  from t arch obtain i r where "amd = Some i" "f i = Some r"
    "run = pullSpecForTagRef (Some r) ''ocp'' ''release''"
    by (auto simp: tag_result_def on_amd64_def Let_def split: option.splits)
  with amd f show ?thesis using amd64_runner_spec [of get n i r] by metis
qed

lemmas resolve_in = newest_in stable_in spec_in

lemma resolve_in_stream_runner:
  assumes r: "resolve_in_stream sv architecture stream is amd unresolved = (Some (Inr (i, v, run)), u)"
    and arch: "\<not> same_runner architecture" "amd = get ''ocp'' n"
    and k: "\<not> contains (expand_alias (snd (snd stream)) unresolved) ''konflux''"
  shows "amd64_runner get run"
proof -
  obtain ns isName suf where stream: "stream = (ns, isName, suf)" by (cases stream) auto
  show ?thesis
  proof (cases "matches re_major_minor unresolved")
    case True
    then have "resolve_major_minor sv architecture stream is amd unresolved = Some (Inr (i, v, run))"
      using r by (auto simp: resolve_in_stream_def)
    then obtain t f e where "tag_result architecture ns isName t (on_amd64 amd f) e = Inr (i, v, run)"
      "\<And>is r. f is = Some r \<Longrightarrow> r \<in> set (is_SpecTags is)"
      unfolding stream resolve_major_minor_def
      by (auto split: option.splits) (blast intro: resolve_in)+
    then show ?thesis using tag_result_runner arch by metis
  next
    case False
    let ?w = "expand_alias suf unresolved"
    consider (status) e m where "resolve_status_tag sv architecture stream amd ?w e m = Inr (i, v, run)"
      | (tag) t where "resolve_stream_tag sv architecture stream amd ?w t = Inr (i, v, run)"
      | (spec) t where "tag_result architecture ns isName t (on_amd64 amd (\<lambda>i. findSpecTagByName i ?w))
          (NoRunnerImage ?w architecture) = Inr (i, v, run)"
      using r False unfolding stream by (auto simp: resolve_in_stream_def Let_def split: option.splits)
    then show ?thesis
    proof cases
      case status
      then consider (a) j t where "amd = Some j" "t \<in> set (is_SpecTags j)"
          "run = pullSpecForTagRef (Some t) ''ocp'' ''release''"
        | (b) j e' m' where "amd = Some j" "findImageStatusTag j ?w = Some (e', m')"
          "run = event_spec ''ocp'' ''release'' e'"
        using arch(1) k unfolding stream resolve_status_tag_def
        by (auto simp: Let_def on_amd64_def split: option.splits if_splits dest!: newest_in)
      then show ?thesis
        using arch(2) amd64_runner_spec amd64_runner_status status_in by (cases; metis)
    next
      case tag
      then obtain f e where "tag_result architecture ns isName t (on_amd64 amd f) e = Inr (i, v, run)"
        "\<And>is r. f is = Some r \<Longrightarrow> r \<in> set (is_SpecTags is)"
        unfolding stream resolve_stream_tag_def
        by (auto split: option.splits if_splits) (blast intro: resolve_in)+
      then show ?thesis using tag_result_runner arch by metis
    next
      case spec
      then show ?thesis using tag_result_runner arch spec_in by metis
    qed
  qed
qed

lemma expand_alias_konflux:
  "contains (expand_alias ''-arm64'' u) ''konflux'' \<Longrightarrow> contains u ''konflux''"
proof -
  have "\<not> contains ''4.23.0-0.nightly-arm64'' ''konflux''" "\<not> contains ''4.23.0-0.ci-arm64'' ''konflux''"
    by (simp_all add: contains_def has_prefix_def)
  then show "contains (expand_alias ''-arm64'' u) ''konflux'' \<Longrightarrow> contains u ''konflux''"
    by (auto simp: expand_alias_def currentReleasePrefix_eq split: if_splits)
qed

lemma resolve_in_stream_next:
  "snd (resolve_in_stream sv a (ns, n, suf) is amd u) \<in> {u, expand_alias suf u}"
  by (auto simp: resolve_in_stream_def Let_def split: option.splits)

lemma resolve_loop_runner:
  assumes "resolve_loop sv get ''arm64'' orig streams u = Inr (i, v, run)"
    "\<And>s. s \<in> set streams \<Longrightarrow> snd (snd s) = ''-arm64''" "\<not> contains u ''konflux''"
  shows "amd64_runner get run"
  using assms
proof (induction streams arbitrary: u)
  case (Cons s streams)
  obtain ns n where s: "s = (ns, n, ''-arm64'')" using Cons.prems(2) [of s] by (cases s) auto
  show ?case
  proof (cases "get ns n")
    case None
    then show ?thesis using Cons s by simp
  next
    case (Some str)
    let ?amd = "get ''ocp'' (trim_suffix n ''-arm64'')"
    obtain r u' where r: "resolve_in_stream sv ''arm64'' s str ?amd u = (r, u')" by fastforce
    have u': "\<not> contains u' ''konflux''"
      using resolve_in_stream_next [of sv "''arm64''" ns n "''-arm64''" str ?amd u] r s
        expand_alias_konflux [of u] Cons.prems(3) by auto
    show ?thesis
    proof (cases r)
      case None
      then have "resolve_loop sv get ''arm64'' orig streams u' = Inr (i, v, run)"
        using Cons.prems(1) Some r s by (auto split: if_splits)
      then show ?thesis using Cons.IH u' Cons.prems(2) by simp
    next
      case (Some x)
      then have "x = Inr (i, v, run)" using Cons.prems(1) \<open>get ns n = Some str\<close> r s
        by (auto split: if_splits)
      then show ?thesis
        using resolve_in_stream_runner [of sv "''arm64''" s str ?amd u i v run u' get] r Some s
          expand_alias_konflux [of u] Cons.prems(3) by auto
    qed
  qed
qed simp

lemma contains_trim_prefix: "contains (trim_prefix s p) w \<Longrightarrow> contains s w"
  by (auto simp: trim_prefix_def contains_iff cut_prefix_iff split: option.splits)
    (metis append.assoc)

section \<open>Pull requests of an input\<close>

definition repo_key :: "Refs \<Rightarrow> string \<times> string" where
  "repo_key r = (rf_Org r, rf_Repo r)"

lemma add_pulls_keys: "set (map repo_key (add_pulls pr rs)) = insert (repo_key pr) (set (map repo_key rs))"
  by (induction rs) (auto simp: repo_key_def)

lemma add_pulls_distinct: "distinct (map repo_key rs) \<Longrightarrow> distinct (map repo_key (add_pulls pr rs))"
proof (induction rs)
  case (Cons r rs)
  show ?case
  proof (cases "repo_key r = repo_key pr")
    case True
    then show ?thesis using Cons by (simp add: repo_key_def)
  next
    case False
    then have "add_pulls pr (r # rs) = r # add_pulls pr rs" by (auto simp: repo_key_def)
    then show ?thesis using Cons False add_pulls_keys [of pr rs] by simp
  qed
qed simp

definition pulls_of :: "Refs list \<Rightarrow> (string \<times> string \<times> Pull) list" where
  "pulls_of rs = concat (map (\<lambda>r. map (\<lambda>p. (rf_Org r, rf_Repo r, p)) (rf_Pulls r)) rs)"

lemma add_pulls_mset: "mset (pulls_of (add_pulls pr rs)) = mset (pulls_of rs) + mset (pulls_of [pr])"
  by (induction rs) (auto simp: pulls_of_def)

lemma lookup_pull_shape:
  "lookup_pull gh ow spec org repo num = Inr r \<Longrightarrow>
     rf_Org r = org \<and> rf_Repo r = repo \<and> (\<exists>p. rf_Pulls r = [p] \<and> pl_Number p = num)"
  by (auto simp: lookup_pull_def split: option.splits if_splits)

lemma resolve_pull_shape:
  "ResolveAsPullRequest gh ow spec = Inr (Some r) \<Longrightarrow>
     rf_Org r \<noteq> [] \<and> rf_Repo r \<noteq> [] \<and> (\<exists>p. rf_Pulls r = [p] \<and> 1 \<le> pl_Number p)"
  by (auto simp: ResolveAsPullRequest_def rbind_eq_Inr_iff split: option.splits list.splits if_splits
      dest!: lookup_pull_shape)

text \<open>What an assembled input promises: one entry per repository, each with at least one pull.\<close>

definition input_ok :: "JobInput \<Rightarrow> bool" where
  "input_ok ji \<longleftrightarrow> distinct (map repo_key (ji_Refs ji)) \<and>
     list_all (\<lambda>r. rf_Org r \<noteq> [] \<and> rf_Repo r \<noteq> [] \<and> rf_Pulls r \<noteq> []) (ji_Refs ji)"

lemma add_pulls_all:
  "list_all (\<lambda>r. rf_Org r \<noteq> [] \<and> rf_Repo r \<noteq> [] \<and> rf_Pulls r \<noteq> []) rs \<Longrightarrow>
   rf_Org pr \<noteq> [] \<and> rf_Repo pr \<noteq> [] \<and> rf_Pulls pr \<noteq> [] \<Longrightarrow>
   list_all (\<lambda>r. rf_Org r \<noteq> [] \<and> rf_Repo r \<noteq> [] \<and> rf_Pulls r \<noteq> []) (add_pulls pr rs)"
  by (induction rs) auto

lemma input_loop_ok: "input_loop rv a parts ji = Inr ji' \<Longrightarrow> input_ok ji \<Longrightarrow> input_ok ji'"
proof (induction rv a parts ji rule: input_loop.induct)
  case (2 rv a part parts ji)
  show ?case
  proof (cases "ResolveAsPullRequest (rv_github rv) (rv_forcePROwner rv) part")
    case (Inl e)
    then show ?thesis using 2 by simp
  next
    case (Inr opr)
    show ?thesis
    proof (cases opr)
      case (Some pr)
      then have "input_ok (ji\<lparr>ji_Refs := add_pulls pr (ji_Refs ji)\<rparr>)"
        using "2.prems"(2) resolve_pull_shape Inr
        by (fastforce simp: input_ok_def intro: add_pulls_distinct add_pulls_all)
      then show ?thesis using 2 Inr Some by auto
    next
      case None
      then show ?thesis using 2 Inr
        by (auto simp: input_ok_def split: sum.splits if_splits)
    qed
  qed
qed simp

lemma inputs_loop_ok:
  "inputs_loop rv a ins = Inr jis \<Longrightarrow> length jis = length ins \<and> list_all input_ok jis"
proof (induction rv a ins arbitrary: jis rule: inputs_loop.induct)
  case (2 rv a i ins)
  then obtain ji rest where ji: "input_loop rv a i emptyInput = Inr ji"
    and rest: "inputs_loop rv a ins = Inr rest" and jis: "jis = default_version ji # rest"
    by (auto simp: rbind_eq_Inr_iff)
  have "input_ok emptyInput" by (simp add: input_ok_def emptyInput_def)
  with ji have "input_ok ji" using input_loop_ok by blast
  then have "input_ok (default_version ji)" by (simp add: input_ok_def default_version_def)
  with 2 ji rest jis show ?case by simp
qed simp

section \<open>The two ways to write a pull request\<close>

definition repo_char :: "char \<Rightarrow> bool" where
  "repo_char c \<longleftrightarrow> is_word_char c \<or> c = CHR ''-'' \<or> c = CHR ''.''"

definition repo_name :: "string \<Rightarrow> bool" where
  "repo_name s \<longleftrightarrow> s \<noteq> [] \<and> list_all repo_char s"

lemma repo_char_reserved:
  "\<not> repo_char CHR ''/''" "\<not> repo_char CHR ''#''" "\<not> repo_char CHR ''?''" "\<not> repo_char CHR ''%''"
  "\<not> repo_char CHR '':''"
  by (simp_all add: repo_char_def is_word_char_def is_digit_def)

lemma repo_name_reserved:
  "repo_name s \<Longrightarrow> c \<in> {CHR ''/'', CHR ''#'', CHR ''?'', CHR ''%'', CHR '':''} \<Longrightarrow> c \<notin> set s"
  using repo_char_reserved by (auto simp: repo_name_def list_all_iff)

lemma repo_char_not_ctl: "repo_char c \<Longrightarrow> \<not> is_ctl c"
  by (auto simp: repo_char_def is_word_char_def is_digit_def is_ctl_def)

lemma repo_name_not_ctl: "repo_name s \<Longrightarrow> \<not> list_ex is_ctl s"
  using repo_char_not_ctl by (auto simp: repo_name_def list_all_iff list_ex_iff)

lemma repo_name_show_nat: "repo_name (show_nat n)"
  using show_nat_digits [of n]
  by (auto simp: repo_name_def repo_char_def is_word_char_def list_all_iff)

lemma unescape_id: "CHR ''%'' \<notin> set s \<Longrightarrow> unescape s = Some s"
  by (induction s rule: unescape.induct) auto

lemma trim_slashes_path:
  assumes "s \<noteq> []" "hd s \<noteq> CHR ''/''" "last s \<noteq> CHR ''/''"
  shows "trim_slashes (CHR ''/'' # s) = s"
proof -
  have "dropWhile (\<lambda>c. c = CHR ''/'') s = s" using assms by (cases s) auto
  moreover have "dropWhile (\<lambda>c. c = CHR ''/'') (rev s) = rev s"
    using assms by (cases s rule: rev_cases) auto
  ultimately show ?thesis by (simp add: trim_slashes_def)
qed

lemma pull_parts_url:
  assumes "repo_name org" "repo_name repo" "repo_name num"
  shows "pull_parts (''https://github.com/'' @ org @ ''/'' @ repo @ ''/pull/'' @ num) =
    Some (org @ ''/'' @ repo, num)"
proof -
  let ?p = "org @ ''/'' @ repo @ ''/pull/'' @ num"
  let ?s = "''https://github.com/'' @ ?p"
  note free = assms [THEN repo_name_reserved]
  have frag: "split_two CHR ''#'' ?s = (?s, None)" using free by (intro split_two_id) auto
  have ctl: "\<not> list_ex is_ctl ?s"
    using assms [THEN repo_name_not_ctl] by (simp add: is_ctl_def)
  have path: "trim_prefix ?s ''https://github.com'' = CHR ''/'' # ?p" by (simp add: trim_prefix_def)
  have query: "split_two CHR ''?'' (CHR ''/'' # ?p) = (CHR ''/'' # ?p, None)"
    using free by (intro split_two_id) auto
  have esc: "unescape (CHR ''/'' # ?p) = Some (CHR ''/'' # ?p)" using free by (intro unescape_id) auto
  have "num \<noteq> []" "org \<noteq> []" using assms by (auto simp: repo_name_def)
  then have trim: "trim_slashes (CHR ''/'' # ?p) = ?p"
    using free(1) [of "CHR ''/''"] free(3) [of "CHR ''/''"]
    by (intro trim_slashes_path) (auto simp: hd_append dest: hd_in_set last_in_set)
  have split: "split_char CHR ''/'' ?p = [org, repo, ''pull'', num]"
    using free split_char_append [of "CHR ''/''" org] split_char_append [of "CHR ''/''" repo]
      split_char_append [of "CHR ''/''" "''pull''"] split_char_id [of "CHR ''/''" num] by simp
  have "github_url_path ?s = Some (CHR ''/'' # ?p)"
    unfolding github_url_path_def frag using ctl by (simp only: path query esc split if_False option.case prod.case)
  moreover have "has_prefix ?s ''https://github.com/''" by (simp add: has_prefix_def)
  ultimately show ?thesis unfolding pull_parts_def using trim split by simp
qed

lemma pull_parts_short:
  assumes "repo_name org" "repo_name repo" "repo_name num"
  shows "pull_parts (org @ ''/'' @ repo @ ''#'' @ num) = Some (org @ ''/'' @ repo, num)"
proof -
  note free = assms [THEN repo_name_reserved]
  have "CHR '':'' \<notin> set (org @ ''/'' @ repo @ ''#'' @ num)" using free by auto
  then have "\<not> has_prefix (org @ ''/'' @ repo @ ''#'' @ num) ''https://github.com/''"
    using has_prefix_set [of "org @ ''/'' @ repo @ ''#'' @ num" "''https://github.com/''"] by auto
  moreover have "split_two CHR ''#'' (org @ ''/'' @ repo @ ''#'' @ num) = (org @ ''/'' @ repo, Some num)"
    using split_two_append [of "CHR ''#''" "org @ ''/'' @ repo" num] free by simp
  moreover have "contains (org @ ''/'' @ repo @ ''#'' @ num) ''#''" by (simp add: contains_char)
  ultimately show ?thesis by (simp add: pull_parts_def)
qed

lemma lookup_pull_spec_irrelevant:
  "lookup_pull gh ow spec org repo n = Inr r \<longleftrightarrow> lookup_pull gh ow spec' org repo n = Inr r"
  by (auto simp: lookup_pull_def split: option.splits)

lemma resolve_pull_same_parts:
  "pull_parts s = pull_parts s' \<Longrightarrow>
     ResolveAsPullRequest gh ow s = Inr r \<longleftrightarrow> ResolveAsPullRequest gh ow s' = Inr r"
  using lookup_pull_spec_irrelevant [of gh ow s _ _ _ _ s']
  by (auto simp: ResolveAsPullRequest_def rbind_eq_Inr_iff split: option.splits list.splits)

section \<open>Properties\<close>

text \<open>
  \<open>findNewestImageSpecTagWithStream\<close> returns an accepted tag of the stream whose creation
  timestamp no other accepted tag of that stream exceeds, and nothing only when there is none.
\<close>

theorem newest_tag_spec:
  "(case findNewestImageSpecTagWithStream is name of
      None \<Rightarrow> \<forall>u \<in> set (is_SpecTags is). \<not> accepted_in name u
    | Some t \<Rightarrow> t \<in> set (is_SpecTags is) \<and> accepted_in name t \<and>
        (\<forall>u \<in> set (is_SpecTags is). accepted_in name u \<longrightarrow> created u \<le> created t))"
  using newest_loop_Some [of name "is_SpecTags is" None] newest_loop_None [of name "is_SpecTags is" None]
  by (auto simp: findNewestImageSpecTagWithStream_def split: option.splits)

definition dated_tag :: "string \<Rightarrow> string \<Rightarrow> TagReference" where
  "dated_tag name stamp = \<lparr>tr_Name = name, tr_Annotations = [(''release.openshift.io/phase'', ''Accepted''),
     (''release.openshift.io/name'', ''4.19''), (''release.openshift.io/creationTimestamp'', stamp)],
     tr_Reference = False, tr_From = None\<rparr>"

definition dated_stream :: ImageStream where
  "dated_stream = \<lparr>is_SpecTags = [dated_tag ''a'' ''2025-01-02'', dated_tag ''b'' ''2025-01-01''], is_StatusTags = []\<rparr>"

theorem newest_tag_spec_witness:
  "findNewestImageSpecTagWithStream dated_stream ''4.19'' = Some (dated_tag ''a'' ''2025-01-02'') \<and>
   created (dated_tag ''b'' ''2025-01-01'') \<le> created (dated_tag ''a'' ''2025-01-02'')"
proof -
  have acc: "accepted_in ''4.19'' (dated_tag n c)" "created (dated_tag n c) = c" for n c
    by (simp_all add: accepted_in_def created_def dated_tag_def mget0_def)
  have f: "findNewestImageSpecTagWithStream dated_stream ''4.19'' = Some (dated_tag ''a'' ''2025-01-02'')"
    by code_simp
  show ?thesis using newest_tag_spec [of dated_stream "''4.19''"] f acc by (simp add: dated_stream_def)
qed

text \<open>
  For an arm64 cluster the runner image is never the arm64 image: unless the user gave a pull
  spec or a konflux release, \<open>ResolveImageOrVersion\<close> takes it from an amd64 \<open>ocp\<close> stream.
\<close>

theorem arm64_runner_is_amd64:
  assumes "ResolveImageOrVersion sv get versions iov [] ''arm64'' = Inr (install, version, run)"
    and "\<not> contains iov ''konflux''"
  shows "(version = [] \<and> run = []) \<or> amd64_runner get run"
proof (cases "trim_space iov = [] \<or> contains (trim_prefix (trim_prefix iov ''http://'') ''https://'') ''/''")
  case True
  then show ?thesis using assms(1) by (auto simp: ResolveImageOrVersion_def Let_def split: if_splits)
next
  case False
  then obtain streams where st: "imagestreams versions ''arm64'' = Some streams"
    and l: "resolve_loop sv get ''arm64'' iov streams (trim_prefix (trim_prefix iov ''http://'') ''https://'') =
      Inr (install, version, run)"
    using assms(1) by (auto simp: ResolveImageOrVersion_def Let_def split: option.splits)
  have "snd (snd s) = ''-arm64''" if "s \<in> set streams" for s
    using st that by (auto simp: imagestreams_def)
  then show ?thesis
    using resolve_loop_runner [OF l] assms(2) contains_trim_prefix by blast
qed

definition sample_github :: github_client where
  "sample_github = \<lparr>gh_GetPullRequest = (\<lambda>org repo n.
       Some \<lparr>pr_Merged = False, pr_Mergable = None, pr_BaseRef = ''main'', pr_Login = ''me'', pr_HeadSHA = ''s''\<rparr>),
     gh_GetRef = (\<lambda>org repo ref. Some ''base'')\<rparr>"

definition sample_tag :: "string \<Rightarrow> string \<Rightarrow> TagReference" where
  "sample_tag n stream = \<lparr>tr_Name = n, tr_Annotations = [(''release.openshift.io/phase'', ''Accepted''),
     (''release.openshift.io/name'', stream)], tr_Reference = False, tr_From = None\<rparr>"

definition sample_semver :: "nat semver_api" where
  "sample_semver = \<lparr>sv_ParseTolerant = (\<lambda>_. None), sv_Major = (\<lambda>v. v), sv_Minor = (\<lambda>v. 0),
     sv_LT = (<), sv_String = show_nat\<rparr>"

definition sample_streams :: "string \<Rightarrow> string \<Rightarrow> ImageStream option" where
  "sample_streams ns n =
     (if ns = ''ocp-arm64'' \<and> n = ''release-5-arm64''
      then Some \<lparr>is_SpecTags = [sample_tag ''5.0.1'' ''5.0.0-0.nightly-arm64''], is_StatusTags = []\<rparr>
      else if ns = ''ocp'' \<and> n = ''release-5''
      then Some \<lparr>is_SpecTags = [sample_tag ''5.0.2'' ''5.0.0-0.nightly''], is_StatusTags = []\<rparr>
      else None)"

lemmas sample_eval = ResolveImageOrVersion_def trim_space_def is_space_def trim_prefix_def
  imagestreams_def sample_streams_def trim_suffix_def cut_suffix_def resolve_in_stream_def
  re_major_minor_def plus_def digit_def is_digit_def seq_def alt_def resolve_major_minor_def
  findNewestImageSpecTagWithStream_def sample_tag_def mget0_def tag_result_def on_amd64_def
  pullSpecForTagRef_def buildPullSpec_def has_prefix_def contains_def

lemma sample_resolution:
  "ResolveImageOrVersion sample_semver sample_streams [] ''5.0'' [] ''arm64'' =
     Inr (''registry.ci.openshift.org/ocp-arm64/release-5-arm64:5.0.1'', ''5.0.1'',
          ''registry.ci.openshift.org/ocp/release:5.0.2'')"
  by (simp add: sample_eval)

theorem arm64_runner_is_amd64_witness:
  "amd64_runner sample_streams ''registry.ci.openshift.org/ocp/release:5.0.2''"
proof -
  have "\<not> contains ''5.0'' ''konflux''" by (simp add: contains_def has_prefix_def)
  then show ?thesis using arm64_runner_is_amd64 [OF sample_resolution] by simp
qed

text \<open>
  The amd64 companion of an arm64 release is always addressed in the \<open>release\<close> image stream,
  even when it was found in another one: a 5.0 nightly found in \<open>ocp/release-5\<close> is returned as
  \<open>ocp/release:5.0.2\<close>, a tag that stream does not have.
\<close>

theorem arm64_runner_wrong_stream:
  "ResolveImageOrVersion sample_semver sample_streams [] ''5.0'' [] ''arm64'' =
     Inr (''registry.ci.openshift.org/ocp-arm64/release-5-arm64:5.0.1'', ''5.0.1'',
          buildPullSpec ''ocp'' ''5.0.2'' ''release'') \<and>
   sample_streams ''ocp'' ''release'' = None \<and>
   map_option (\<lambda>is. map tr_Name (is_SpecTags is)) (sample_streams ''ocp'' ''release-5'') = Some [''5.0.2'']"
  using sample_resolution
  by (simp add: buildPullSpec_def sample_streams_def sample_tag_def has_prefix_def)

text \<open>
  A pull request may be written as a GitHub URL or as \<open>org/repo#number\<close>; both resolve to the
  same reference.
\<close>

theorem pull_request_notations_agree:
  assumes "repo_name org" "repo_name repo"
  shows "ResolveAsPullRequest gh ow (''https://github.com/'' @ org @ ''/'' @ repo @ ''/pull/'' @ show_nat n) = Inr r \<longleftrightarrow>
    ResolveAsPullRequest gh ow (org @ ''/'' @ repo @ ''#'' @ show_nat n) = Inr r"
  using pull_parts_url [OF assms repo_name_show_nat] pull_parts_short [OF assms repo_name_show_nat]
  by (intro resolve_pull_same_parts) simp

theorem pull_request_notations_agree_witness:
  "ResolveAsPullRequest sample_github [] (''https://github.com/'' @ ''a'' @ ''/'' @ ''b'' @ ''/pull/'' @ show_nat 7) = Inr None \<longleftrightarrow>
   ResolveAsPullRequest sample_github [] (''a'' @ ''/'' @ ''b'' @ ''#'' @ show_nat 7) = Inr None"
  by (rule pull_request_notations_agree)
    (simp_all add: repo_name_def repo_char_def is_word_char_def is_digit_def)

text \<open>
  A successful \<open>lookupInputs\<close> returns one job input per input group, each with at most one
  entry per repository and at least one pull request in every entry.
\<close>

theorem lookup_inputs_shape:
  assumes "lookupInputs rv inputs architecture = Inr (jis, defaulted)"
  shows "list_all input_ok jis \<and>
    length jis = (if inputs = [] \<or> inputs = [[]] then 1 else length inputs) \<and>
    (inputs \<noteq> [] \<and> inputs \<noteq> [[]] \<longrightarrow> defaulted = [])"
  using assms inputs_loop_ok [of rv architecture inputs] inputs_loop_ok [of rv architecture "[[defaulted]]"]
  by (auto simp: lookupInputs_def rbind_eq_Inr_iff split: if_splits sum.splits)

definition sample_resolver :: "nat resolver" where
  "sample_resolver = \<lparr>rv_semver = sample_semver, rv_streams = sample_streams, rv_hypershift = [],
     rv_github = sample_github, rv_forcePROwner = []\<rparr>"

definition sample_input :: JobInput where
  "sample_input = \<lparr>ji_Image = [], ji_RunImage = [], ji_Version = ''4.23.0-0.latest'',
     ji_Refs = [\<lparr>rf_Org = ''a'', rf_Repo = ''b'', rf_BaseRef = ''main'', rf_BaseSHA = ''base'',
       rf_Pulls = [\<lparr>pl_Number = 1, pl_Author = ''me'', pl_SHA = ''s''\<rparr>,
                   \<lparr>pl_Number = 2, pl_Author = ''me'', pl_SHA = ''s''\<rparr>]\<rparr>]\<rparr>"

lemma sample_lookup:
  "lookupInputs sample_resolver [[''a/b#1'', ''a/b#2'']] ''amd64'' = Inr ([sample_input], [])"
  by (simp add: lookupInputs_def sample_resolver_def ResolveAsPullRequest_def pull_parts_def
      has_prefix_def contains_def atoi_def digits_val_def digit_val_def is_digit_def lookup_pull_def
      sample_github_def emptyInput_def default_version_def versionForRefs_def
      currentReleasePrefix_eq sample_input_def)

theorem lookup_inputs_shape_witness:
  "list_all input_ok [sample_input]"
  using lookup_inputs_shape [OF sample_lookup] by simp

text \<open>
  \<open>containsValidVersion\<close> accepts every list with an item that starts like a release version,
  but also, since its patterns \<open>^ci\<close> and \<open>^nightly\<close> have no end, a list that holds only a pull
  request of an organisation such as \<open>cilium\<close> and no version at all.
\<close>

theorem valid_version_prefixes:
  "(a \<noteq> [] \<and> b \<noteq> [] \<and> list_all is_digit a \<and> list_all is_digit b \<and> (a @ ''.'' @ b @ rest) \<in> set items \<longrightarrow>
      containsValidVersion parse_ref items) \<and>
   containsValidVersion parse_ref [''cilium/cilium#1'']"
proof (intro conjI impI)
  assume h: "a \<noteq> [] \<and> b \<noteq> [] \<and> list_all is_digit a \<and> list_all is_digit b \<and> (a @ ''.'' @ b @ rest) \<in> set items"
  then have "a @ ''.'' @ b \<in> lang x_y"
    using lang_digits [of a] lang_digits [of b] by (auto simp: x_y_def)
  then have "match_prefix x_y ((a @ ''.'' @ b) @ rest)" by (rule match_prefixI)
  then have "valid_item parse_ref (a @ ''.'' @ b @ rest)"
    by (simp add: valid_item_def validVersionRegexes_def re_MatchString_def)
  with h show "containsValidVersion parse_ref items"
    by (auto simp: containsValidVersion_def list_ex_iff)
next
  have "match_prefix (lit ''ci'') ''cilium/cilium#1''" by (simp add: seq_def)
  then show "containsValidVersion parse_ref [''cilium/cilium#1'']"
    by (simp add: containsValidVersion_def valid_item_def validVersionRegexes_def re_MatchString_def)
qed

theorem valid_version_prefixes_witness:
  "containsValidVersion (\<lambda>_. None) [''openshift/installer#1'', ''4.19'']"
  using valid_version_prefixes [of "''4''" "''19''" "[]" "[''openshift/installer#1'', ''4.19'']" "\<lambda>_. None"]
  by (simp add: is_digit_def)

end
