(* ===== verification/JobParams.thy ===== *)
theory JobParams
  imports JobTypes
begin

text \<open>
  Job parameters as text: \<open>StripLinks\<close> and \<open>ParamsFromAnnotation\<close> of \<open>pkg/utils/utils.go\<close>,
  \<open>paramsToString\<close> of \<open>pkg/manager/manager.go\<close>, and \<open>BuildJobParams\<close>, \<open>ParseImageInput\<close>,
  \<open>findClosestMatch\<close> and \<open>ParseOptions\<close> of \<open>pkg/slack/slack.go\<close>. The main result is that the
  annotation written for a job is read back as the same parameters.
\<close>

section \<open>Links\<close>

function StripLinks :: "string \<Rightarrow> string" where
  "StripLinks input =
     (case str_index input ''<'' of
        None \<Rightarrow> input
      | Some opn \<Rightarrow>
          let rest = drop opn input in
          (case str_index rest ''>'' of
             None \<Rightarrow> input
           | Some cls \<Rightarrow>
               (case str_index rest ''|'' of
                  None \<Rightarrow> take opn input @ drop 1 (take cls rest) @ StripLinks (drop (cls + 1) rest)
                | Some pipe \<Rightarrow>
                    if pipe > cls
                    then take opn input @ drop 1 (take cls rest) @ StripLinks (drop (cls + 1) rest)
                    else take opn input @ drop (pipe + 1) (take cls rest) @
                           StripLinks (drop (cls + 1) rest))))"
  by pat_completeness auto
termination
proof -
  have *: "(drop (cls + 1) (drop opn input), input) \<in> measure length"
    if "str_index input ''<'' = Some opn" for input :: string and opn cls
  proof -
    have "has_prefix (drop opn input) ''<''" using that str_index_Some by blast
    then have "input \<noteq> []" by (auto simp: has_prefix_iff)
    then show ?thesis by (cases input) auto
  qed
  show ?thesis by (relation "measure length") (use * in auto)
qed

declare StripLinks.simps [simp del]

section \<open>Annotations\<close>

datatype param_error = EmptyParameter | EmptyParameterName

definition parse_param :: "string \<Rightarrow> (param_error, string \<times> string) result" where
  "parse_param part =
     (if part = [] then Inl EmptyParameter
      else case split_two CHR ''='' part of (k, rest) \<Rightarrow>
        let key = trim_space k in
        if key = [] then Inl EmptyParameterName
        else case rest of None \<Rightarrow> Inr (key, []) | Some v \<Rightarrow> Inr (key, v))"

fun params_loop :: "string list \<Rightarrow> (string, string) gomap \<Rightarrow>
    (param_error, (string, string) gomap) result" where
  "params_loop [] values = Inr values"
| "params_loop (part # parts) values =
     rbind (parse_param part) (\<lambda>(k, v). params_loop parts (mput k v values))"

definition ParamsFromAnnotation :: "string \<Rightarrow> (param_error, (string, string) gomap) result" where
  "ParamsFromAnnotation value =
     (if value = [] then Inr [] else params_loop (split_char CHR '','' value) [])"

definition param_pair :: "string \<times> string \<Rightarrow> string" where
  "param_pair kv = (case kv of (k, v) \<Rightarrow> if v = [] then k else k @ ''='' @ v)"

definition paramsToString :: "(string, string) gomap \<Rightarrow> string" where
  "paramsToString params =
     join '','' (sort (map param_pair (filter (\<lambda>(k, v). k \<noteq> []) params)))"

text \<open>
  The maps the annotation can carry: distinct keys that are non-empty, trimmed and free of
  separators, and values without a comma.
\<close>

definition valid_key :: "string \<Rightarrow> bool" where
  "valid_key k \<longleftrightarrow> k \<noteq> [] \<and> trim_space k = k \<and> CHR '','' \<notin> set k \<and> CHR ''='' \<notin> set k"

definition valid_params :: "(string, string) gomap \<Rightarrow> bool" where
  "valid_params m \<longleftrightarrow> wf_map m \<and> list_all (\<lambda>(k, v). valid_key k \<and> CHR '','' \<notin> set v) m"

section \<open>Workflow parameters\<close>

definition parseParameterValue :: "string \<Rightarrow> string" where
  "parseParameterValue value =
     (case cut_prefix value ''<'' of
        None \<Rightarrow> value
      | Some r \<Rightarrow>
          (case cut_suffix r ''>'' of
             None \<Rightarrow> value
           | Some inner \<Rightarrow>
               (case last_index inner CHR ''|'' of
                  None \<Rightarrow> value
                | Some i \<Rightarrow> if CHR 0x0A \<in> set inner then value else drop (i + 1) inner)))"

datatype build_error = BadNestedParameter string | BadParameter string

fun nested_values :: "string list \<Rightarrow> (build_error, string) result" where
  "nested_values [] = Inr []"
| "nested_values (param # rest) =
     (case split_char CHR ''='' param of
        [a, b] \<Rightarrow> rbind (nested_values rest) (\<lambda>s. Inr (CHR 0x0A # a @ ''='' @ b @ s))
      | _ \<Rightarrow> Inl (BadNestedParameter param))"

definition build_param :: "string \<Rightarrow> (build_error, string \<times> string) result" where
  "build_param combined =
     (case split_char CHR ''='' combined of
        [k, v] \<Rightarrow> Inr (k, parseParameterValue v)
      | k # v # w # ws \<Rightarrow>
          (case split_char CHR '';'' (join ''='' (v # w # ws)) of
             first # nested \<Rightarrow> rbind (nested_values nested) (\<lambda>s. Inr (k, first @ s))
           | [] \<Rightarrow> Inl (BadParameter combined))
      | _ \<Rightarrow> Inl (BadParameter combined))"

fun build_loop :: "string list \<Rightarrow> (string, string) gomap \<Rightarrow>
    (build_error, (string, string) gomap) result" where
  "build_loop [] jobParams = Inr jobParams"
| "build_loop (c # cs) jobParams =
     rbind (build_param c) (\<lambda>(k, v). build_loop cs (mput k v jobParams))"

definition BuildJobParams :: "string \<Rightarrow> (build_error, (string, string) gomap) result" where
  "BuildJobParams params =
     (if params = [] then Inr []
      else let s0 = split_str ''\",\"'' params;
               s1 = s0[0 := trim_prefix (s0 ! 0) ''\"''];
               n = length s1 - 1;
               s2 = s1[n := trim_suffix (s1 ! n) ''\"'']
           in build_loop s2 [])"

section \<open>Command options\<close>

definition ParseImageInput :: "string \<Rightarrow> string list option" where
  "ParseImageInput input =
     (let input = trim_space input in
      if input = [] then Some []
      else let parts = filter (\<lambda>p. p \<noteq> []) (map trim_space (split_char CHR '','' (StripLinks input)))
           in if parts = [] then None else Some parts)"

definition match_score :: "string \<Rightarrow> string \<Rightarrow> nat" where
  "match_score input opt =
     (let s0 = (if has_prefix opt input then length input * 2 else 0);
          s1 = (if contains opt input then length input else s0)
      in s1 + length (filter (\<lambda>c. c \<in> set opt) input))"

fun closest_loop :: "string \<Rightarrow> string list \<Rightarrow> string \<Rightarrow> nat \<Rightarrow> string" where
  "closest_loop input [] best bestScore =
     (if bestScore \<ge> max 2 ((length input * 2) div 3) then best else [])"
| "closest_loop input (opt # opts) best bestScore =
     (let lower = to_lower opt in
      if input = lower then opt
      else let score = match_score input lower in
        if score > bestScore then closest_loop input opts opt score
        else closest_loop input opts best bestScore)"

definition findClosestMatch :: "string \<Rightarrow> string list \<Rightarrow> string" where
  "findClosestMatch input validOptions = closest_loop (to_lower input) validOptions [] 0"

datatype option_error =
    OptParse param_error
  | OptTwoPlatforms
  | OptTwoArchitectures
  | OptUnrecognized string string
  | OptUnknownArchitecture string
  | OptNeedsMulti
  | OptIndexPanic

definition allOptions :: "string list" where
  "allOptions = SupportedPlatforms @ SupportedArchitectures @ SupportedParameters"

fun options_loop :: "string list \<Rightarrow> string \<Rightarrow> string \<Rightarrow> (string, string) gomap \<Rightarrow>
    (option_error, string \<times> string \<times> (string, string) gomap) result" where
  "options_loop [] platform architecture params = Inr (platform, architecture, params)"
| "options_loop (opt # opts) platform architecture params =
     (if opt \<in> set SupportedPlatforms
      then if platform \<noteq> [] then Inl OptTwoPlatforms
           else options_loop opts opt architecture (mdel opt params)
      else if opt \<in> set SupportedArchitectures
      then if architecture \<noteq> [] then Inl OptTwoArchitectures
           else options_loop opts platform opt (mdel opt params)
      else if opt = [] then options_loop opts platform architecture (mdel opt params)
      else if opt \<in> set SupportedParameters then options_loop opts platform architecture params
      else Inl (OptUnrecognized opt (findClosestMatch opt allOptions)))"

text \<open>The platform chosen when the options name none; \<open>versions\<close> is the content of
  \<open>HypershiftSupportedVersions\<close>, and \<open>None\<close> an index out of range.\<close>

definition any_version_prefix :: "string list \<Rightarrow> string list \<Rightarrow> bool option" where
  "any_version_prefix versions input =
     (case input of
        [] \<Rightarrow> if versions = [] then Some False else None
      | x # _ \<Rightarrow> Some (\<exists>v \<in> set versions. has_prefix x v))"

definition default_platform :: "string list \<Rightarrow> string list list \<Rightarrow> JobType \<Rightarrow> string option" where
  "default_platform versions inputs jobType =
     (if jobType \<noteq> JobTypeInstall \<and> jobType \<noteq> JobTypeLaunch then Some ''aws''
      else case (case inputs of [i] \<Rightarrow> any_version_prefix versions i | _ \<Rightarrow> Some False) of
             None \<Rightarrow> None
           | Some True \<Rightarrow> Some ''hypershift-hosted''
           | Some False \<Rightarrow>
               if currentReleasePrefix \<in> set versions
               then (case inputs of
                       [] \<Rightarrow> Some ''hypershift-hosted''
                     | [] # _ \<Rightarrow> None
                     | (x # _) # _ \<Rightarrow>
                         if x \<in> {''nightly'', ''ci'', ''prerelease''} then Some ''hypershift-hosted''
                         else Some ''aws'')
               else Some ''aws'')"

definition choose_platform :: "string list \<Rightarrow> string list list \<Rightarrow> JobType \<Rightarrow> string \<Rightarrow> string \<Rightarrow>
    (option_error, string) result" where
  "choose_platform versions inputs jobType platform architecture =
     (if platform \<noteq> [] then Inr platform
      else if architecture = [] \<or> architecture = ''multi''
      then (case default_platform versions inputs jobType of
              None \<Rightarrow> Inl OptIndexPanic | Some p \<Rightarrow> Inr p)
      else if architecture = ''amd64'' \<or> architecture = ''arm64'' then Inr ''aws''
      else Inl (OptUnknownArchitecture architecture))"

definition ParseOptions :: "string list \<Rightarrow> string \<Rightarrow> string list list \<Rightarrow> JobType \<Rightarrow>
    (option_error, string \<times> string \<times> (string, string) gomap) result" where
  "ParseOptions versions options inputs jobType =
     (case ParamsFromAnnotation options of
        Inl e \<Rightarrow> Inl (OptParse e)
      | Inr params \<Rightarrow>
          rbind (options_loop (mkeys params) [] [] params) (\<lambda>(platform, architecture, params).
          rbind (choose_platform versions inputs jobType platform architecture) (\<lambda>platform.
            let architecture = (if architecture = []
                  then (if platform = ''hypershift-hosted'' then ''multi'' else ''amd64'')
                  else architecture) in
            if architecture \<noteq> ''multi'' \<and> platform = ''hypershift-hosted'' then Inl OptNeedsMulti
            else Inr (platform, architecture, params))))"

section \<open>Round trip of the annotation\<close>

lemma sort_map: "sort (map f xs) = map f (sort_key f xs)"
proof (induction xs)
  case (Cons x xs)
  have "insort (f x) (map f ys) = map f (insort_key f x ys)" for ys
    by (induction ys) auto
  with Cons show ?case by simp
qed simp

lemma parse_param_pair: "valid_key k \<Longrightarrow> parse_param (param_pair (k, v)) = Inr (k, v)"
  using split_two_append [of "CHR ''=''" k v]
  by (auto simp: parse_param_def param_pair_def valid_key_def split_two_id)

lemma params_loop_pairs:
  assumes "list_all (\<lambda>(k, v). valid_key k) ps"
  shows "params_loop (map param_pair ps) acc = Inr (fold (\<lambda>(k, v). mput k v) ps acc)"
  using assms by (induction ps arbitrary: acc) (auto simp: parse_param_pair)

lemma mget_fold_mput:
  "distinct (map fst ps) \<Longrightarrow>
     mget (fold (\<lambda>(k, v). mput k v) ps acc) k = (case map_of ps k of None \<Rightarrow> mget acc k | Some v \<Rightarrow> Some v)"
proof (induction ps arbitrary: acc)
  case (Cons a ps)
  then show ?case
    by (cases a) (auto simp: gm.lookup_insert map_of_eq_None_iff [symmetric] split: option.splits)
qed simp

lemma param_pair_comma_free:
  "valid_key k \<Longrightarrow> CHR '','' \<notin> set v \<Longrightarrow> CHR '','' \<notin> set (param_pair (k, v))"
  by (auto simp: param_pair_def valid_key_def)

lemma ParamsFromAnnotation_paramsToString:
  assumes "valid_params m"
  shows "\<exists>m'. ParamsFromAnnotation (paramsToString m) = Inr m' \<and> mget m' = mget m"
proof (cases "m = []")
  case True
  then show ?thesis by (simp add: ParamsFromAnnotation_def paramsToString_def)
next
  case False
  define ps where "ps = sort_key param_pair m"
  have all: "list_all (\<lambda>(k, v). valid_key k \<and> CHR '','' \<notin> set v) ps"
    using assms by (simp add: ps_def valid_params_def list_all_iff)
  have "mset (map fst ps) = mset (map fst m)" by (simp add: ps_def)
  from mset_eq_imp_distinct_iff [OF this] have dist: "distinct (map fst ps)"
    using assms by (simp add: valid_params_def wf_map_def)
  have keep: "filter (\<lambda>(k, v). k \<noteq> []) m = m"
    using assms by (auto simp: valid_params_def list_all_iff valid_key_def intro!: filter_True)
  have str: "paramsToString m = join '','' (map param_pair ps)"
    by (simp add: paramsToString_def keep sort_map ps_def)
  have ne: "ps \<noteq> []" using False unfolding ps_def by (metis mset_sort mset_zero_iff)
  have "param_pair p \<noteq> []" if "p \<in> set ps" for p
    using all that by (cases p) (auto simp: list_all_iff param_pair_def valid_key_def)
  with ne have "paramsToString m \<noteq> []"
    unfolding str by (subst join_eq_Nil_iff) auto
  moreover have "split_char CHR '','' (paramsToString m) = map param_pair ps"
    unfolding str using ne all
    by (intro split_char_join) (auto simp: list_all_iff param_pair_comma_free dest!: bspec)
  moreover have "params_loop (map param_pair ps) [] = Inr (fold (\<lambda>(k, v). mput k v) ps [])"
    using all by (intro params_loop_pairs) (auto simp: list_all_iff)
  moreover have "map_of ps = map_of m"
    using assms dist by (intro map_of_distinct_mset) (auto simp: ps_def valid_params_def wf_map_def)
  then have "mget (fold (\<lambda>(k, v). mput k v) ps []) = mget m"
    using mget_fold_mput [OF dist, of "[]"]
    by (intro ext) (simp add: mget_def [of m] option.case_eq_if)
  ultimately show ?thesis by (simp add: ParamsFromAnnotation_def)
qed

lemma mput_list_all:
  "list_all p m \<Longrightarrow> p (k, v) \<Longrightarrow> list_all p (mput k v m)"
  by (induction m) (auto simp: mput_def)

lemma parse_param_valid:
  assumes "parse_param part = Inr (k, v)" "CHR '','' \<notin> set part"
  shows "valid_key k \<and> CHR '','' \<notin> set v"
proof -
  obtain a b where ab: "split_two CHR ''='' part = (a, b)" by fastforce
  from split_two_free [OF this] have a: "CHR ''='' \<notin> set a" "set a \<subseteq> set part" by auto
  have k: "k = trim_space a" "k \<noteq> []" using assms(1) ab
    by (auto simp: parse_param_def Let_def split: if_splits option.splits)
  have v: "v = [] \<or> b = Some v" using assms(1) ab
    by (auto simp: parse_param_def Let_def split: if_splits option.splits)
  have "CHR '','' \<notin> set v" using v split_two_snd [of "CHR ''=''" part a v] ab assms(2) by auto
  moreover have "valid_key k"
    using k a trim_space_set [of a] assms(2) by (auto simp: valid_key_def)
  ultimately show ?thesis by blast
qed

lemma params_loop_valid:
  "params_loop parts acc = Inr m \<Longrightarrow> list_all (\<lambda>p. CHR '','' \<notin> set p) parts \<Longrightarrow> valid_params acc \<Longrightarrow>
     valid_params m"
proof (induction parts arbitrary: acc)
  case (Cons p parts)
  then obtain k v where kv: "parse_param p = Inr (k, v)"
    and rest: "params_loop parts (mput k v acc) = Inr m"
    by (auto simp: rbind_eq_Inr_iff)
  have "valid_key k \<and> CHR '','' \<notin> set v"
    using parse_param_valid [OF kv] Cons.prems by simp
  then have "valid_params (mput k v acc)"
    using Cons.prems by (auto simp: valid_params_def gm.ok_insert intro!: mput_list_all)
  with Cons rest show ?case by simp
qed simp

lemma ParamsFromAnnotation_valid: "ParamsFromAnnotation s = Inr m \<Longrightarrow> valid_params m"
  using params_loop_valid [of "split_char CHR '','' s" "[]" m] split_char_free [of _ "CHR '',''" s]
  by (auto simp: ParamsFromAnnotation_def list_all_iff valid_params_def split: if_splits)

text \<open>The annotation is a text encoding of the valid parameter maps.\<close>

definition decode_params :: "string \<Rightarrow> (string, string) gomap option" where
  "decode_params s = (case ParamsFromAnnotation s of Inl _ \<Rightarrow> None | Inr m \<Rightarrow> Some m)"

interpretation annotation: text_codec paramsToString decode_params mget mget valid_params
proof unfold_locales
  fix x :: "(string, string) gomap"
  assume "valid_params x"
  from ParamsFromAnnotation_paramsToString [OF this]
  show "\<exists>y. decode_params (paramsToString x) = Some y \<and> mget y = mget x"
    by (auto simp: decode_params_def)
qed

section \<open>Links and inputs\<close>

lemma str_index_char: "c \<notin> set a \<Longrightarrow> str_index (a @ c # b) [c] = Some (length a)"
  by (induction a) (auto simp: has_prefix_def)

lemma str_index_char_None: "c \<notin> set a \<Longrightarrow> str_index a [c] = None"
  using contains_char [of a c] by (auto simp: contains_def)

lemma StripLinks_plain: "CHR ''<'' \<notin> set s \<Longrightarrow> StripLinks s = s"
  by (simp add: StripLinks.simps str_index_char_None)

lemma StripLinks_link_with_text:
  assumes "CHR ''<'' \<notin> set pre" "CHR ''|'' \<notin> set url" "CHR ''>'' \<notin> set url" "CHR ''>'' \<notin> set txt"
  shows "StripLinks (pre @ ''<'' @ url @ ''|'' @ txt @ ''>'' @ post) = pre @ txt @ StripLinks post"
proof -
  let ?rest = "''<'' @ url @ ''|'' @ txt @ ''>'' @ post"
  have o: "str_index (pre @ ?rest) ''<'' = Some (length pre)"
    using str_index_char [of "CHR ''<''" pre "url @ ''|'' @ txt @ ''>'' @ post"] assms by simp
  have c: "str_index ?rest ''>'' = Some (length (''<'' @ url @ ''|'' @ txt))"
    using str_index_char [of "CHR ''>''" "''<'' @ url @ ''|'' @ txt" post] assms by simp
  have p: "str_index ?rest ''|'' = Some (length (''<'' @ url))"
    using str_index_char [of "CHR ''|''" "''<'' @ url" "txt @ ''>'' @ post"] assms by simp
  have d: "drop (length pre) (pre @ ?rest) = ?rest" by simp
  show ?thesis
    by (subst StripLinks.simps) (simp only: o c p d Let_def option.case, simp)
qed

lemma StripLinks_bare_link:
  assumes "CHR ''<'' \<notin> set pre" "CHR ''|'' \<notin> set url" "CHR ''>'' \<notin> set url"
  shows "StripLinks (pre @ ''<'' @ url @ ''>'' @ post) = pre @ url @ StripLinks post"
proof -
  let ?rest = "''<'' @ url @ ''>'' @ post"
  have o: "str_index (pre @ ?rest) ''<'' = Some (length pre)"
    using str_index_char [of "CHR ''<''" pre "url @ ''>'' @ post"] assms by simp
  have c: "str_index ?rest ''>'' = Some (length (''<'' @ url))"
    using str_index_char [of "CHR ''>''" "''<'' @ url" post] assms by simp
  have p: "i > length (''<'' @ url)" if "str_index ?rest ''|'' = Some i" for i
  proof (rule ccontr)
    assume "\<not> i > length (''<'' @ url)"
    moreover have "has_prefix (drop i ?rest) ''|''" using str_index_Some [OF that] by simp
    then obtain r where "drop i ?rest = CHR ''|'' # r" by (auto simp: has_prefix_iff)
    then have "i < length ?rest" "?rest ! i = CHR ''|''"
      by (metis drop_all list.distinct(1) not_less, metis nth_via_drop)
    ultimately show False using assms(2)
      by (cases i) (auto simp: nth_append in_set_conv_nth split: if_splits)
  qed
  have d: "drop (length pre) (pre @ ?rest) = ?rest" by simp
  show ?thesis
    by (subst StripLinks.simps)
      (cases "str_index ?rest ''|''"; simp only: o c d Let_def option.case; use p in simp)
qed

lemma ParseImageInput_parts:
  "ParseImageInput s = Some ps \<Longrightarrow> p \<in> set ps \<Longrightarrow> p \<noteq> [] \<and> trim_space p = p \<and> CHR '','' \<notin> set p"
  using trim_space_set split_char_free
  by (fastforce simp: ParseImageInput_def Let_def split: if_splits)

section \<open>Options\<close>

lemma closest_loop_in: "closest_loop input opts best n \<in> insert [] (insert best (set opts))"
  by (induction opts arbitrary: best n) (auto simp: Let_def)

lemma closest_loop_exact:
  "opt \<in> set opts \<Longrightarrow> to_lower opt = input \<Longrightarrow> to_lower (closest_loop input opts best n) = input"
  by (induction opts arbitrary: best n) (auto simp: Let_def)

lemma findClosestMatch_member: "findClosestMatch input opts \<noteq> [] \<Longrightarrow> findClosestMatch input opts \<in> set opts"
  using closest_loop_in [of "to_lower input" opts "[]" 0] by (auto simp: findClosestMatch_def)

definition known_option :: "string \<Rightarrow> bool" where
  "known_option k \<longleftrightarrow> k = [] \<or> k \<in> set SupportedPlatforms \<or> k \<in> set SupportedArchitectures \<or>
     k \<in> set SupportedParameters"

text \<open>The first element of \<open>xs\<close>, or the empty string.\<close>

definition the_one :: "string list \<Rightarrow> string" where
  "the_one xs = (case xs of [] \<Rightarrow> [] | x # _ \<Rightarrow> x)"

definition platform_opts :: "string list \<Rightarrow> string list" where
  "platform_opts ks = filter (\<lambda>k. k \<in> set SupportedPlatforms) ks"

definition arch_opts :: "string list \<Rightarrow> string list" where
  "arch_opts ks = filter (\<lambda>k. k \<in> set SupportedArchitectures) ks"

definition opt_cons :: "string \<Rightarrow> string list \<Rightarrow> string list" where
  "opt_cons p xs = (if p = [] then xs else p # xs)"

lemma mdel_filter: "mdel k (filter P m) = filter (\<lambda>e. P e \<and> fst e \<noteq> k) m"
  by (simp add: mdel_def filter_filter case_prod_beta)

lemma filter_mdel: "filter P (mdel k m) = filter (\<lambda>e. fst e \<noteq> k \<and> P e) m"
  by (simp add: mdel_def filter_filter case_prod_beta conj_commute)

lemma not_arch_platform: "k \<in> set SupportedPlatforms \<Longrightarrow> k \<notin> set SupportedArchitectures \<and> k \<notin> set SupportedParameters \<and> k \<noteq> []"
  using supported_disjoint supported_nonempty by blast

lemma not_param_arch: "k \<in> set SupportedArchitectures \<Longrightarrow> k \<notin> set SupportedPlatforms \<and> k \<notin> set SupportedParameters \<and> k \<noteq> []"
  using supported_disjoint supported_nonempty by blast

lemma empty_unsupported: "[] \<notin> set SupportedPlatforms" "[] \<notin> set SupportedArchitectures" "[] \<notin> set SupportedParameters"
  using supported_nonempty by blast+

text \<open>The loop over the options succeeds exactly on known options with at most one platform and
  one architecture, whatever the order of the keys.\<close>

lemma options_loop_iff:
  "options_loop ks p a m = Inr (p', a', m') \<longleftrightarrow>
     list_all known_option ks \<and> length (opt_cons p (platform_opts ks)) \<le> 1 \<and>
     length (opt_cons a (arch_opts ks)) \<le> 1 \<and>
     p' = the_one (opt_cons p (platform_opts ks)) \<and> a' = the_one (opt_cons a (arch_opts ks)) \<and>
     m' = filter (\<lambda>e. fst e \<in> set ks \<longrightarrow> fst e \<in> set SupportedParameters) m"
proof (induction ks arbitrary: p a m)
  case Nil
  then show ?case by (auto simp: opt_cons_def the_one_def platform_opts_def arch_opts_def)
next
  case (Cons k ks)
  consider (pl) "k \<in> set SupportedPlatforms" | (ar) "k \<in> set SupportedArchitectures"
    | (em) "k = []" | (pa) "k \<in> set SupportedParameters" | (un) "\<not> known_option k"
    by (auto simp: known_option_def)
  then show ?case
  proof cases
    case pl
    with not_arch_platform [OF pl] show ?thesis
      by (cases "p = []") (auto simp: Cons.IH opt_cons_def the_one_def platform_opts_def arch_opts_def
          known_option_def filter_mdel intro: filter_cong)
  next
    case ar
    with not_param_arch [OF ar] show ?thesis
      by (cases "a = []") (auto simp: Cons.IH opt_cons_def the_one_def platform_opts_def arch_opts_def
          known_option_def filter_mdel intro: filter_cong)
  next
    case em
    then show ?thesis
      by (auto simp: Cons.IH platform_opts_def arch_opts_def empty_unsupported
          known_option_def filter_mdel intro: filter_cong)
  next
    case pa
    then have "k \<notin> set SupportedPlatforms" "k \<notin> set SupportedArchitectures" "k \<noteq> []"
      using not_arch_platform not_param_arch empty_unsupported by blast+
    with pa show ?thesis
      by (auto simp: Cons.IH platform_opts_def arch_opts_def known_option_def intro: filter_cong)
  next
    case un
    then show ?thesis by (auto simp: known_option_def)
  qed
qed

lemma default_platform_supported: "default_platform vs ins jt = Some p \<Longrightarrow> p \<in> {''aws'', ''hypershift-hosted''}"
  by (auto simp: default_platform_def split: if_splits option.splits list.splits bool.splits)

lemma choose_platform_cases:
  "choose_platform vs ins jt p a = Inr p' \<Longrightarrow> p' = p \<or> p' \<in> {''aws'', ''hypershift-hosted''}"
  using default_platform_supported by (auto simp: choose_platform_def split: if_splits option.splits)

lemma short_filter_mset:
  assumes "mset xs = mset ys" "length xs \<le> 1"
  shows "xs = ys"
proof (cases xs)
  case Nil
  then show ?thesis using assms by simp
next
  case (Cons x xs')
  then have "xs = [x]" using assms by simp
  with assms(1) show ?thesis by (metis mset_single_iff)
qed

lemma paramsToString_deterministic:
  assumes "wf_map m" "wf_map n" "mget m = mget n"
  shows "paramsToString m = paramsToString n"
proof -
  have "set m = set n"
    using assms by (auto simp: mget_iff_in_set [symmetric])
  then have "mset m = mset n"
    using assms by (intro iffD1 [OF set_eq_iff_mset_eq_distinct]) (auto simp: wf_map_def distinct_map)
  then have "mset (map param_pair (filter (\<lambda>(k, v). k \<noteq> []) m)) =
      mset (map param_pair (filter (\<lambda>(k, v). k \<noteq> []) n))"
    by simp
  then have "sort (map param_pair (filter (\<lambda>(k, v). k \<noteq> []) m)) =
      sort (map param_pair (filter (\<lambda>(k, v). k \<noteq> []) n))"
    by (intro properties_for_sort) simp_all
  then show ?thesis by (simp add: paramsToString_def)
qed

text \<open>Slack text as a sequence of plain runs and links, how Slack sends it and what a reader
  sees.\<close>

datatype slack_seg = Plain string | Link string "string option"

fun seg_ok :: "slack_seg \<Rightarrow> bool" where
  "seg_ok (Plain t) \<longleftrightarrow> CHR ''<'' \<notin> set t"
| "seg_ok (Link url lbl) \<longleftrightarrow> CHR ''|'' \<notin> set url \<and> CHR ''>'' \<notin> set url \<and>
     (case lbl of None \<Rightarrow> True | Some t \<Rightarrow> CHR ''>'' \<notin> set t)"

fun seg_sent :: "slack_seg \<Rightarrow> string" where
  "seg_sent (Plain t) = t"
| "seg_sent (Link url None) = ''<'' @ url @ ''>''"
| "seg_sent (Link url (Some t)) = ''<'' @ url @ ''|'' @ t @ ''>''"

fun seg_seen :: "slack_seg \<Rightarrow> string" where
  "seg_seen (Plain t) = t"
| "seg_seen (Link url None) = url"
| "seg_seen (Link url (Some t)) = t"

lemma StripLinks_segs:
  "list_all seg_ok segs \<Longrightarrow> CHR ''<'' \<notin> set pre \<Longrightarrow>
     StripLinks (pre @ concat (map seg_sent segs)) = pre @ concat (map seg_seen segs)"
proof (induction segs arbitrary: pre)
  case Nil
  then show ?case by (simp add: StripLinks_plain)
next
  case (Cons g segs)
  have tail: "StripLinks (concat (map seg_sent segs)) = concat (map seg_seen segs)"
    using Cons.IH [of "[]"] Cons.prems by simp
  show ?case
  proof (cases g)
    case (Plain t)
    then show ?thesis using Cons.IH [of "pre @ t"] Cons.prems by simp
  next
    case (Link url lbl)
    then show ?thesis
      using Cons.prems tail
        StripLinks_bare_link [of pre url "concat (map seg_sent segs)"]
        StripLinks_link_with_text [of pre url _ "concat (map seg_sent segs)"]
      by (cases lbl) auto
  qed
qed

section \<open>Properties\<close>



text \<open>
  Whatever options a user types, reading them, writing them as an annotation and reading them
  again yields the same parameters, and different parameters never share an annotation.
\<close>

theorem params_annotation_stable:
  assumes "ParamsFromAnnotation v = Inr m" "ParamsFromAnnotation w = Inr n"
  shows "(paramsToString m = paramsToString n \<longleftrightarrow> mget m = mget n) \<and>
    (\<exists>m'. ParamsFromAnnotation (paramsToString m) = Inr m' \<and> mget m' = mget m)"
proof -
  have v: "valid_params m" "valid_params n" using assms ParamsFromAnnotation_valid by blast+
  then have "wf_map m" "wf_map n" by (simp_all add: valid_params_def)
  then show ?thesis
    using v annotation.encode_inj [OF v] paramsToString_deterministic
      ParamsFromAnnotation_paramsToString [OF v(1)] by blast
qed

theorem params_annotation_stable_witness:
  "ParamsFromAnnotation ''aws,test=e2e'' = Inr [(''aws'', []), (''test'', ''e2e'')] \<and>
   paramsToString [(''aws'', []), (''test'', ''e2e'')] = paramsToString [(''test'', ''e2e''), (''aws'', [])]"
proof -
  have v: "ParamsFromAnnotation ''aws,test=e2e'' = Inr [(''aws'', []), (''test'', ''e2e'')]" by code_simp
  have w: "ParamsFromAnnotation ''test=e2e,aws'' = Inr [(''test'', ''e2e''), (''aws'', [])]" by code_simp
  show ?thesis
    using params_annotation_stable [OF v w] v by (auto simp: fun_eq_iff)
qed

text \<open>
  A successful \<open>ParseOptions\<close> returns a supported platform and architecture, never the
  hypershift platform with a single architecture, and exactly the supported parameters of the
  option text.
\<close>

theorem parse_options_sound:
  assumes "ParseOptions versions options inputs jobType = Inr (platform, architecture, params)"
  shows "platform \<in> set SupportedPlatforms \<and> architecture \<in> set SupportedArchitectures \<and>
    (platform = ''hypershift-hosted'' \<longrightarrow> architecture = ''multi'') \<and>
    (\<exists>m. ParamsFromAnnotation options = Inr m \<and> list_all known_option (mkeys m) \<and>
       params = filter (\<lambda>e. fst e \<in> set SupportedParameters) m)"
proof -
  obtain m p a where m: "ParamsFromAnnotation options = Inr m"
    and l: "options_loop (mkeys m) [] [] m = Inr (p, a, params)"
    and c: "choose_platform versions inputs jobType p a = Inr platform"
    and arch: "architecture = (if a = [] then (if platform = ''hypershift-hosted'' then ''multi'' else ''amd64'') else a)"
    and h: "\<not> (architecture \<noteq> ''multi'' \<and> platform = ''hypershift-hosted'')"
    using assms by (auto simp: ParseOptions_def rbind_eq_Inr_iff Let_def split: sum.splits if_splits)
  from l have known: "list_all known_option (mkeys m)"
    and p: "p = the_one (platform_opts (mkeys m))" and a: "a = the_one (arch_opts (mkeys m))"
    and ps: "params = filter (\<lambda>e. fst e \<in> set (mkeys m) \<longrightarrow> fst e \<in> set SupportedParameters) m"
    by (auto simp: options_loop_iff opt_cons_def)
  have "set (platform_opts ks) \<subseteq> set SupportedPlatforms" "set (arch_opts ks) \<subseteq> set SupportedArchitectures" for ks
    by (auto simp: platform_opts_def arch_opts_def)
  then have "p = [] \<or> p \<in> set SupportedPlatforms" "a = [] \<or> a \<in> set SupportedArchitectures"
    unfolding p a the_one_def by (auto split: list.splits) (metis list.set_intros(1) subsetD)+
  moreover have "{''aws'', ''hypershift-hosted''} \<subseteq> set SupportedPlatforms"
    "{''multi'', ''amd64''} \<subseteq> set SupportedArchitectures"
    by (simp_all add: SupportedPlatforms_def SupportedArchitectures_def)
  moreover have "platform \<noteq> []" if "p = []"
    using choose_platform_cases [OF c] c that by (auto simp: choose_platform_def default_platform_def
      split: if_splits option.splits list.splits bool.splits)
  moreover have "params = filter (\<lambda>e. fst e \<in> set SupportedParameters) m"
    unfolding ps by (rule filter_cong) (auto simp: mkeys_def)
  ultimately show ?thesis
    using choose_platform_cases [OF c] arch h m known by auto
qed

theorem parse_options_sound_witness:
  "ParseOptions [''4.18''] ''arm64,ovn'' [[''4.18'']] JobTypeLaunch = Inr (''aws'', ''arm64'', [(''ovn'', [])]) \<and>
   ''aws'' \<in> set SupportedPlatforms \<and> ''arm64'' \<in> set SupportedArchitectures"
proof -
  have "ParseOptions [''4.18''] ''arm64,ovn'' [[''4.18'']] JobTypeLaunch = Inr (''aws'', ''arm64'', [(''ovn'', [])])"
    by code_simp
  then show ?thesis using parse_options_sound by blast
qed

text \<open>
  The outcome of a successful option loop does not depend on the iteration order of the
  parameter map, which Go leaves open.
\<close>

theorem options_order_irrelevant:
  assumes "mset ks = mset ks'"
  shows "options_loop ks [] [] m = Inr (p, a, m') \<longleftrightarrow> options_loop ks' [] [] m = Inr (p, a, m')"
proof -
  have "set ks = set ks'" using assms mset_eq_setD by blast
  moreover have "platform_opts ks = platform_opts ks'" "arch_opts ks = arch_opts ks'"
    if "length (platform_opts ks) \<le> 1" "length (arch_opts ks) \<le> 1"
    using assms that by (auto simp: platform_opts_def arch_opts_def intro!: short_filter_mset)
  moreover have "length (platform_opts ks) = length (platform_opts ks')"
    "length (arch_opts ks) = length (arch_opts ks')"
    using assms by (simp_all add: platform_opts_def arch_opts_def mset_filter size_mset [symmetric]
        del: size_mset)
  ultimately show ?thesis
    unfolding options_loop_iff by (auto simp: opt_cons_def list_all_iff)
qed

theorem options_order_irrelevant_witness:
  "options_loop [''gcp'', ''fips''] [] [] [(''gcp'', []), (''fips'', [])] = Inr (''gcp'', [], [(''fips'', [])]) \<and>
   options_loop [''fips'', ''gcp''] [] [] [(''gcp'', []), (''fips'', [])] = Inr (''gcp'', [], [(''fips'', [])])"
proof -
  have "options_loop [''gcp'', ''fips''] [] [] [(''gcp'', []), (''fips'', [])] = Inr (''gcp'', [], [(''fips'', [])])"
    by code_simp
  moreover have "mset [''gcp'', ''fips''] = mset [''fips'', ''gcp'']" by simp
  ultimately show ?thesis
    using options_order_irrelevant [of "[''gcp'', ''fips'']" "[''fips'', ''gcp'']"] by blast
qed

text \<open>
  \<open>StripLinks\<close> turns a Slack message, any sequence of plain runs and of links with or without a
  label, into the text its reader sees.
\<close>

theorem strip_links_segments:
  assumes "list_all seg_ok segs"
  shows "StripLinks (concat (map seg_sent segs)) = concat (map seg_seen segs)"
  using StripLinks_segs [of segs "[]"] assms by simp

theorem strip_links_segments_witness:
  "StripLinks ''launch <http://x|x.io/a:b> aws'' = ''launch x.io/a:b aws''"
  using strip_links_segments [of "[Plain ''launch '', Link ''http://x'' (Some ''x.io/a:b''), Plain '' aws'']"]
  by simp

text \<open>
  A workflow parameter whose value holds a comma is accepted by \<open>BuildJobParams\<close> but does not
  survive the annotation: it comes back truncated, with a stray second parameter.
\<close>

theorem workflow_param_comma_lost:
  "BuildJobParams ''\"NODES=a,b\"'' = Inr [(''NODES'', ''a,b'')] \<and>
   ParamsFromAnnotation (paramsToString [(''NODES'', ''a,b'')]) = Inr [(''NODES'', ''a''), (''b'', [])]"
  by code_simp

text \<open>
  The suggestion for an unknown option is one of the valid options, any option that equals the
  input up to case is found, and the bonus the code computes for a prefix never counts.
\<close>

theorem closest_match_spec:
  "(findClosestMatch input opts = [] \<or> findClosestMatch input opts \<in> set opts) \<and>
   ((\<exists>opt \<in> set opts. to_lower opt = to_lower input) \<longrightarrow>
      to_lower (findClosestMatch input opts) = to_lower input) \<and>
   match_score input opt =
     (if contains opt input then length input else 0) + length (filter (\<lambda>c. c \<in> set opt) input)"
proof (intro conjI impI)
  show "findClosestMatch input opts = [] \<or> findClosestMatch input opts \<in> set opts"
    using findClosestMatch_member by blast
  show "to_lower (findClosestMatch input opts) = to_lower input"
    if "\<exists>opt \<in> set opts. to_lower opt = to_lower input"
    using that closest_loop_exact by (auto simp: findClosestMatch_def)
  show "match_score input opt =
     (if contains opt input then length input else 0) + length (filter (\<lambda>c. c \<in> set opt) input)"
    using has_prefix_contains [of opt input] by (auto simp: match_score_def Let_def)
qed

theorem closest_match_spec_witness:
  "to_lower (findClosestMatch ''AWS'' SupportedPlatforms) = to_lower ''AWS''"
proof -
  have "''aws'' \<in> set SupportedPlatforms" by (simp add: SupportedPlatforms_def)
  moreover have "to_lower ''aws'' = to_lower ''AWS''" by code_simp
  ultimately show ?thesis using closest_match_spec [of "''AWS''" SupportedPlatforms] by blast
qed

end
