(* ===== verification/ProwSpec.thy ===== *)
theory ProwSpec
  imports JobParams Regex
begin

text \<open>
  The Prow job specification the manager edits: \<open>pkg/prow/prow.go\<close> and the helpers at the end of
  \<open>pkg/manager/prow.go\<close>, and the choice of the multistage test of \<open>pkg/manager/manager.go\<close>
  (\<open>multistageNameFromParams\<close>, \<open>configContainsVariant\<close>).
\<close>

section \<open>Data\<close>

datatype value_from = NoValueFrom | ConfigMapKey string string | OtherSource

record EnvVar =
  ev_Name :: string
  ev_Value :: string
  ev_ValueFrom :: value_from

record Container =
  ct_Name :: string
  ct_Command :: "string list"
  ct_Args :: "string list"
  ct_Env :: "EnvVar list"

record PodSpec =
  ps_InitContainers :: "Container list"
  ps_Containers :: "Container list"

record ProwJobSpec =
  sp_Type :: string
  sp_Job :: string
  sp_Cluster :: string
  sp_PodSpec :: PodSpec
  sp_SkipCloning :: "bool option option"
  sp_ExtraRefs :: "(Refs \<times> string) list"

record Periodic =
  pd_Name :: string
  pd_Labels :: "(string, string) gomap"

record ProwJob =
  pj_Name :: string
  pj_Labels :: "(string, string) gomap"
  pj_Annotations :: "(string, string) gomap"
  pj_Spec :: ProwJobSpec
  pj_StartTime :: gotime
  pj_State :: ProwJobState
  pj_URL :: string
  pj_CreationTimestamp :: gotime
  pj_CompletionTime :: "gotime option"

text \<open>
  The ci-operator configuration (\<open>citools.ReleaseBuildConfiguration\<close>): the fields the manager reads or
  writes; \<open>rc_Rest\<close>, \<open>im_Rest\<close> and \<open>ob_Rest\<close> stand for the others. A map that may be \<open>nil\<close> is an option,
  because writing to it panics.
\<close>

record StepDependency =
  sd_Name :: string
  sd_Env :: string

record LiteralTestStep =
  ls_As :: string
  ls_From :: string
  ls_Commands :: string
  ls_Requests :: "(string, string) gomap"
  ls_Environment :: "(string \<times> string option) list"
  ls_Dependencies :: "StepDependency list"

datatype TestStep = Reference string | Chain string | Literal_step LiteralTestStep

record MultiStageTest =
  ms_ClusterProfile :: string
  ms_Pre :: "TestStep list"
  ms_Test :: "TestStep list"
  ms_Post :: "TestStep list"
  ms_Workflow :: "string option"
  ms_Environment :: "(string, string) gomap option"
  ms_Dependencies :: "(string, string) gomap option"
  ms_Leases :: "string list"

record MultiStageLiteral =
  ml_Pre :: "LiteralTestStep list"
  ml_Test :: "LiteralTestStep list"

record TestStepConfiguration =
  ts_As :: string
  ts_Commands :: string
  ts_ContainerFrom :: "string option"
  ts_MultiStage :: "MultiStageTest option"
  ts_Literal :: "MultiStageLiteral option"

record ImageStreamTagReference =
  ir_Namespace :: string
  ir_Name :: string
  ir_Tag :: string

datatype UnresolvedRelease =
    Integration (re_Name: string) (re_Namespace: string) (re_IncludeBuiltImages: bool)
  | Candidate (re_Product: string) (re_Architecture: string) (re_Stream: string) (re_Version: string)
  | OtherRelease string

record OperatorStep =
  ob_Bundles :: "string list"
  ob_Rest :: string

record ImageBuild =
  im_To :: string
  im_Optional :: bool
  im_Rest :: string

record Promotion =
  po_Name :: string
  po_Namespace :: string
  po_RegistryOverride :: string

record ReleaseBuildConfiguration =
  rc_Metadata :: string
  rc_BaseImages :: "(string, ImageStreamTagReference) gomap option"
  rc_BuildRoot :: "string option"
  rc_TagSpecification :: "string option"
  rc_Releases :: "(string, UnresolvedRelease) gomap"
  rc_Operator :: "OperatorStep option"
  rc_Images :: "ImageBuild list"
  rc_Promotion :: "Promotion list option"
  rc_Tests :: "TestStepConfiguration list"
  rc_Rest :: string

text \<open>The zero value of a configuration.\<close>

definition empty_config :: ReleaseBuildConfiguration where
  "empty_config = \<lparr>rc_Metadata = [], rc_BaseImages = None, rc_BuildRoot = None, rc_TagSpecification = None,
     rc_Releases = [], rc_Operator = None, rc_Images = [], rc_Promotion = None, rc_Tests = [], rc_Rest = []\<rparr>"

record ProwConfig =
  pc_Periodics :: "Periodic list"
  pc_SchedulerEnabled :: bool

section \<open>Jobs of the Prow configuration\<close>

text \<open>
  \<open>labels.SelectorFromSet\<close> matches the label sets that carry every pair of the selector.
  \<open>periodicSpec\<close> stands for \<open>pjutil.PeriodicSpec\<close>.
\<close>

definition selector_matches :: "(string, string) gomap \<Rightarrow> (string, string) gomap \<Rightarrow> bool" where
  "selector_matches selector labels \<longleftrightarrow> list_all (\<lambda>(k, v). mget labels k = Some v) selector"

definition hasProwJob :: "ProwConfig \<Rightarrow> string \<Rightarrow> Periodic option" where
  "hasProwJob cfg name = find (\<lambda>p. pd_Name p = name) (pc_Periodics cfg)"

definition hasProwJobWithLabels :: "ProwConfig \<Rightarrow> (string, string) gomap \<Rightarrow> Periodic option" where
  "hasProwJobWithLabels cfg selector = find (\<lambda>p. selector_matches selector (pd_Labels p)) (pc_Periodics cfg)"

definition prowSpecForPeriodicConfig :: "(Periodic \<Rightarrow> ProwJobSpec) \<Rightarrow> Periodic \<Rightarrow> ProwJobSpec" where
  "prowSpecForPeriodicConfig periodicSpec p =
     (let spec = periodicSpec p in
      case sp_SkipCloning spec of
        None \<Rightarrow> spec
      | Some _ \<Rightarrow> spec\<lparr>sp_SkipCloning := Some (Some True)\<rparr>)"

definition newProwJob :: "ProwJobSpec \<Rightarrow> gotime \<Rightarrow> ProwJobState \<Rightarrow> ProwJob" where
  "newProwJob spec now state = \<lparr>pj_Name = [], pj_Labels = [], pj_Annotations = [], pj_Spec = spec,
     pj_StartTime = now, pj_State = state, pj_URL = [], pj_CreationTimestamp = 0, pj_CompletionTime = None\<rparr>"

datatype prow_error =
    NoProwConfig
  | NoJobMatchesLabels
  | NoJobNamed string
  | NoPodSpec
  | NoPodSpecTarget
  | EmptyTarget
  | BadConfigYaml
  | BadConfigSource
  | NoConfigMap string
  | NoConfigKey string string
  | NoLaunchTest
  | NotMultistage
  | UnknownJobType string

definition JobForLabels :: "(Periodic \<Rightarrow> ProwJobSpec) \<Rightarrow> ProwConfig option \<Rightarrow> gotime \<Rightarrow>
    (string, string) gomap \<Rightarrow> (prow_error, ProwJob) result" where
  "JobForLabels periodicSpec config now selector =
     (case config of
        None \<Rightarrow> Inl NoProwConfig
      | Some cfg \<Rightarrow>
          (case hasProwJobWithLabels cfg selector of
             None \<Rightarrow> Inl NoJobMatchesLabels
           | Some p \<Rightarrow> Inr (newProwJob (prowSpecForPeriodicConfig periodicSpec p) now TriggeredState)))"

definition JobForConfig :: "(Periodic \<Rightarrow> ProwJobSpec) \<Rightarrow> ProwConfig option \<Rightarrow> gotime \<Rightarrow>
    string \<Rightarrow> (prow_error, ProwJob) result" where
  "JobForConfig periodicSpec config now jobName =
     (case config of
        None \<Rightarrow> Inl NoProwConfig
      | Some cfg \<Rightarrow>
          (case hasProwJob cfg jobName of
             None \<Rightarrow> Inl (NoJobNamed jobName)
           | Some p \<Rightarrow> Inr (newProwJob (prowSpecForPeriodicConfig periodicSpec p) now
               (if pc_SchedulerEnabled cfg then SchedulingState else TriggeredState))))"

section \<open>Environment variables\<close>

definition map_containers :: "(Container \<Rightarrow> Container) \<Rightarrow> ProwJobSpec \<Rightarrow> ProwJobSpec" where
  "map_containers f spec =
     spec\<lparr>sp_PodSpec := (sp_PodSpec spec)\<lparr>ps_Containers := map f (ps_Containers (sp_PodSpec spec))\<rparr>\<rparr>"

definition OverrideJobEnvironment :: "string \<Rightarrow> string \<Rightarrow> string \<Rightarrow> string \<Rightarrow> string list \<Rightarrow>
    ProwJobSpec \<Rightarrow> ProwJobSpec" where
  "OverrideJobEnvironment img initialImage targetRelease namespace variants =
     map_containers (\<lambda>c. c\<lparr>ct_Env := map (\<lambda>e.
       if ev_Name e = ''RELEASE_IMAGE_LATEST'' then e\<lparr>ev_Value := img\<rparr>
       else if ev_Name e = ''RELEASE_IMAGE_INITIAL'' then e\<lparr>ev_Value := initialImage\<rparr>
       else if ev_Name e = ''NAMESPACE'' then e\<lparr>ev_Value := namespace\<rparr>
       else if ev_Name e = ''CLUSTER_VARIANT'' then e\<lparr>ev_Value := join '','' variants\<rparr>
       else if ev_Name e = ''BRANCH'' \<and> targetRelease \<noteq> [] then e\<lparr>ev_Value := targetRelease\<rparr>
       else e) (ct_Env c)\<rparr>)"

definition RemoveJobEnvVar :: "string list \<Rightarrow> ProwJobSpec \<Rightarrow> ProwJobSpec" where
  "RemoveJobEnvVar names =
     map_containers (\<lambda>c. c\<lparr>ct_Env := filter (\<lambda>e. ev_Name e \<notin> set names) (ct_Env c)\<rparr>)"

definition override_env :: "string \<Rightarrow> string \<Rightarrow> EnvVar list \<Rightarrow> EnvVar list" where
  "override_env name value env =
     map (\<lambda>e. if ev_Name e = name then e\<lparr>ev_Value := value, ev_ValueFrom := NoValueFrom\<rparr> else e) env"

definition plain_env :: "string \<Rightarrow> string \<Rightarrow> EnvVar" where
  "plain_env name value = \<lparr>ev_Name = name, ev_Value = value, ev_ValueFrom = NoValueFrom\<rparr>"

definition set_env :: "string \<Rightarrow> string \<Rightarrow> EnvVar list \<Rightarrow> EnvVar list" where
  "set_env name value env =
     (if \<exists>e \<in> set env. ev_Name e = name then override_env name value env
      else if contains value ''$('' then env @ [plain_env name value]
      else plain_env name value # env)"

definition SetJobEnvVar :: "string \<Rightarrow> string \<Rightarrow> ProwJobSpec \<Rightarrow> ProwJobSpec" where
  "SetJobEnvVar name value = map_containers (\<lambda>c. c\<lparr>ct_Env := set_env name value (ct_Env c)\<rparr>)"

definition OverrideJobEnvVar :: "string \<Rightarrow> string \<Rightarrow> ProwJobSpec \<Rightarrow> ProwJobSpec" where
  "OverrideJobEnvVar name value = map_containers (\<lambda>c. c\<lparr>ct_Env := override_env name value (ct_Env c)\<rparr>)"

text \<open>
  \<open>resolvedEnvironment.Resolve\<close>: the pattern is an end-of-text anchor followed by at least one word
  character. \<open>env_matches\<close> are the positions where it matches; \<open>lookup\<close> gives the replacement.
\<close>

definition env_matches :: "string \<Rightarrow> nat list" where
  "env_matches value = filter (\<lambda>i. i = length value \<and> match_prefix (plus word_char) (drop i value))
     [0 ..< length value + 1]"

definition Resolve :: "(string \<Rightarrow> string) \<Rightarrow> string \<Rightarrow> string" where
  "Resolve lookup value = foldr (\<lambda>i acc. take i acc @ lookup (drop i acc)) (env_matches value) value"

text \<open>\<open>resolvedEnvironment.Lookup\<close>; a variable whose value refers to another one is skipped, as in
  the source, after its value is cached. The cache lives for one \<open>Resolve\<close> call.\<close>

fun env_lookup :: "EnvVar list \<Rightarrow> string \<Rightarrow> string" where
  "env_lookup [] name = []"
| "env_lookup (e # env) name =
     (if ev_Name e \<noteq> name then env_lookup env name
      else if ev_ValueFrom e \<noteq> NoValueFrom then []
      else if \<not> contains (ev_Value e) ''$('' then ev_Value e
      else env_lookup env name)"

fun first_env :: "string \<Rightarrow> EnvVar list \<Rightarrow> EnvVar list \<Rightarrow> EnvVar option" where
  "first_env name before [] = None"
| "first_env name before (e # env) =
     (if ev_Name e = name then Some (e\<lparr>ev_Value := Resolve (env_lookup (rev before)) (ev_Value e)\<rparr>)
      else first_env name (e # before) env)"

fun first_env_in :: "string \<Rightarrow> Container list \<Rightarrow> (EnvVar \<times> Container) option" where
  "first_env_in name [] = None"
| "first_env_in name (c # cs) =
     (case first_env name [] (ct_Env c) of Some e \<Rightarrow> Some (e, c) | None \<Rightarrow> first_env_in name cs)"

definition firstEnvVar :: "PodSpec \<Rightarrow> string \<Rightarrow> (EnvVar \<times> Container) option" where
  "firstEnvVar spec name = first_env_in name (ps_InitContainers spec @ ps_Containers spec)"

section \<open>The target argument\<close>

definition replace_target_args :: "string \<Rightarrow> string \<Rightarrow> string list \<Rightarrow> string list" where
  "replace_target_args old new args =
     concat (map (\<lambda>arg. case cut_prefix arg ''--target='' of
         None \<Rightarrow> [arg]
       | Some v \<Rightarrow> if v = old \<and> new \<noteq> [] then [''--target='' @ new] else []) args)"

definition replaceTargetArgument :: "PodSpec option \<Rightarrow> string \<Rightarrow> string \<Rightarrow> (prow_error, PodSpec) result" where
  "replaceTargetArgument spec old new =
     (case spec of
        None \<Rightarrow> Inl NoPodSpec
      | Some s \<Rightarrow> Inr (s\<lparr>ps_Containers := map (\<lambda>c. if ct_Name c \<noteq> [] then c
           else c\<lparr>ct_Args := replace_target_args old new (ct_Args c)\<rparr>) (ps_Containers s)\<rparr>))"

fun first_target :: "string list \<Rightarrow> string option" where
  "first_target [] = None"
| "first_target (arg # args) =
     (case cut_prefix arg ''--target='' of
        Some v \<Rightarrow> if v \<noteq> [] then Some v else first_target args
      | None \<Rightarrow> first_target args)"

fun find_target :: "Container list \<Rightarrow> (prow_error, string) result" where
  "find_target [] = Inl NoPodSpecTarget"
| "find_target (c # cs) =
     (if ct_Name c \<noteq> [] then find_target cs
      else (case first_target (ct_Args c) of
              None \<Rightarrow> find_target cs
            | Some v \<Rightarrow>
                let value = Resolve (env_lookup (ct_Env c)) v in
                if value = [] then Inl EmptyTarget else Inr value))"

definition findTargetName :: "PodSpec option \<Rightarrow> (prow_error, string) result" where
  "findTargetName spec =
     (case spec of None \<Rightarrow> Inl NoPodSpec | Some s \<Rightarrow> find_target (ps_Containers s))"

section \<open>The ci-operator configuration\<close>

definition loadJobConfigSpec :: "(string \<Rightarrow> ReleaseBuildConfiguration option) \<Rightarrow>
    (string \<Rightarrow> (string, string) gomap option) \<Rightarrow> EnvVar \<Rightarrow> string \<Rightarrow>
    (prow_error, ReleaseBuildConfiguration \<times> string \<times> string) result" where
  "loadJobConfigSpec unmarshal configMaps env namespace =
     (if ev_Value env \<noteq> []
      then (case unmarshal (ev_Value env) of None \<Rightarrow> Inl BadConfigYaml | Some cfg \<Rightarrow> Inr (cfg, [], []))
      else (case ev_ValueFrom env of
              NoValueFrom \<Rightarrow> Inr (empty_config, [], [])
            | OtherSource \<Rightarrow> Inl BadConfigSource
            | ConfigMapKey configMap key \<Rightarrow>
                (case configMaps configMap of
                   None \<Rightarrow> Inl (NoConfigMap configMap)
                 | Some d \<Rightarrow>
                     (case mget d key of
                        None \<Rightarrow> Inl (NoConfigKey configMap key)
                      | Some text \<Rightarrow>
                          (case unmarshal text of
                             None \<Rightarrow> Inl BadConfigYaml
                           | Some cfg \<Rightarrow> Inr (cfg, namespace, configMap))))))"

fun set_profile :: "string \<Rightarrow> TestStepConfiguration list \<Rightarrow> (prow_error, TestStepConfiguration list) result" where
  "set_profile profileName [] = Inl NoLaunchTest"
| "set_profile profileName (t # ts) =
     (if ts_As t = ''launch''
      then (case ts_MultiStage t of
              None \<Rightarrow> Inl NotMultistage
            | Some ms \<Rightarrow> Inr (t\<lparr>ts_MultiStage := Some (ms\<lparr>ms_ClusterProfile := profileName\<rparr>)\<rparr> # ts))
      else rbind (set_profile profileName ts) (\<lambda>ts'. Inr (t # ts')))"

text \<open>\<open>applyClusterProfile\<close> labels the job even when it then fails.\<close>

definition applyClusterProfile :: "ProwJob \<Rightarrow> ReleaseBuildConfiguration \<Rightarrow> string \<Rightarrow>
    ProwJob \<times> (prow_error, ReleaseBuildConfiguration) result" where
  "applyClusterProfile job cfg profileName =
     (job\<lparr>pj_Labels := mput ''ci-operator.openshift.io/cloud-cluster-profile'' profileName (pj_Labels job)\<rparr>,
      rbind (set_profile profileName (rc_Tests cfg)) (\<lambda>ts. Inr (cfg\<lparr>rc_Tests := ts\<rparr>)))"

section \<open>Multistage tests\<close>

text \<open>\<open>MultistageParameters\<close>: environment variable, value and platforms of each parameter.\<close>

definition MultistageParameters :: "(string, string \<times> string \<times> string list) gomap" where
  "MultistageParameters =
     [(''compact'', ''SIZE_VARIANT'', ''compact'', [''aws'', ''aws-2'', ''gcp'', ''azure'']),
      (''large'', ''SIZE_VARIANT'', ''large'', [''aws'', ''aws-2'', ''gcp'', ''azure'']),
      (''xlarge'', ''SIZE_VARIANT'', ''xlarge'', [''aws'', ''aws-2'', ''gcp'', ''azure'']),
      (''preserve-bootstrap'', ''OPENSHIFT_INSTALL_PRESERVE_BOOTSTRAP'', ''true'',
        [''aws'', ''aws-2'', ''gcp'', ''azure'', ''vsphere'', ''ovirt'', ''nutanix''])]"

definition envsForTestType :: "(string, (string \<times> string) list) gomap" where
  "envsForTestType =
     [(''e2e'', [(''TEST_SUITE'', ''openshift/conformance/parallel'')]),
      (''e2e-serial'', [(''TEST_SUITE'', ''openshift/conformance/serial'')]),
      (''e2e-ipv6'', [(''TEST_SUITE'', ''openshift/conformance/parallel'')]),
      (''e2e-dualstack'', [(''TEST_SUITE'', ''openshift/conformance/parallel'')]),
      (''e2e-all'', [(''TEST_SUITE'', ''openshift/conformance'')]),
      (''e2e-builds'', [(''TEST_SUITE'', ''openshift/build'')]),
      (''e2e-image-ecosystem'', [(''TEST_SUITE'', ''openshift/image-ecosystem'')]),
      (''e2e-image-registry'', [(''TEST_SUITE'', ''openshift/image-registry'')]),
      (''e2e-network-stress'', [(''TEST_SUITE'', ''openshift/network/stress'')]),
      (''e2e-disruptive'', [(''TEST_REQUIRES_SSH'', ''true''), (''TEST_SUITE'', ''openshift/disruptive'')]),
      (''e2e-disruptive-all'', [(''TEST_REQUIRES_SSH'', ''true''), (''TEST_SUITE'', ''openshift/disruptive''),
         (''TEST_TYPE'', ''suite-conformance'')]),
      (''e2e-upgrade'', [(''TEST_TYPE'', ''upgrade'')]),
      (''e2e-upgrade-partial'', [(''TEST_TYPE'', ''upgrade-conformance''),
         (''TEST_UPGRADE_OPTIONS'', ''abort-at=random'')]),
      (''e2e-upgrade-rollback'', [(''TEST_TYPE'', ''upgrade-conformance''),
         (''TEST_UPGRADE_OPTIONS'', ''abort-at=100'')])]"

definition multistageParamsForPlatform :: "string \<Rightarrow> string list" where
  "multistageParamsForPlatform platform =
     map fst (filter (\<lambda>(p, _, _, platforms). platform \<in> set platforms) MultistageParameters)"

definition multistage_prefix :: "JobType \<Rightarrow> string option" where
  "multistage_prefix jobType =
     (if jobType = JobTypeLaunch then Some ''launch''
      else if jobType = JobTypeTest then Some ''e2e''
      else if jobType = JobTypeWorkflowTest then Some ''workflow-e2e''
      else if jobType = JobTypeUpgrade then Some ''upgrade'' else None)"

definition multistage_variants :: "(string, string) gomap \<Rightarrow> string \<Rightarrow> string list" where
  "multistage_variants params platform =
     sort (filter (\<lambda>k. k \<in> set SupportedParameters \<and> k \<notin> set (multistageParamsForPlatform platform) \<and>
        k \<noteq> ''test'' \<and> k \<noteq> ''bundle'' \<and> k \<noteq> ''no-spot'') (mkeys params))"

definition multistageNameFromParams :: "(string, string) gomap \<Rightarrow> string \<Rightarrow> JobType \<Rightarrow>
    (prow_error, string) result" where
  "multistageNameFromParams params platform jobType =
     (if jobType \<in> {JobTypeWorkflowLaunch, JobTypeBuild, JobTypeCatalog, JobTypeMCECustomImage}
      then Inr ''launch''
      else if jobType = JobTypeWorkflowUpgrade then Inr ''upgrade''
      else (case multistage_prefix jobType of
              None \<Rightarrow> Inl (UnknownJobType jobType)
            | Some pre \<Rightarrow>
                if params = [] \<or> (length params = 1 \<and> (mhas params ''test'' \<or> mhas params ''no-spot''))
                then Inr pre
                else let variants = multistage_variants params platform in
                  if variants = [] then Inr pre else Inr (pre @ ''-'' @ join ''-'' variants)))"

definition has_test :: "ReleaseBuildConfiguration \<Rightarrow> string \<Rightarrow> bool" where
  "has_test cfg name \<longleftrightarrow> list_ex (\<lambda>t. ts_As t = name) (rc_Tests cfg)"

definition configContainsVariant :: "(string \<Rightarrow> ReleaseBuildConfiguration option) \<Rightarrow>
    (string, string) gomap \<Rightarrow> string \<Rightarrow> string \<Rightarrow> JobType \<Rightarrow> (prow_error, bool \<times> string) result" where
  "configContainsVariant unmarshal params platform unresolvedConfig jobType =
     (if jobType = JobTypeWorkflowLaunch then Inr (True, ''launch'')
      else if jobType = JobTypeWorkflowTest then Inr (True, ''e2e-test'')
      else rbind (multistageNameFromParams params platform jobType) (\<lambda>name.
        (case unmarshal unresolvedConfig of
           None \<Rightarrow> Inl BadConfigYaml
         | Some cfg \<Rightarrow>
             if has_test cfg name then Inr (True, name)
             else if jobType = JobTypeTest \<and> testStepForPlatform platform \<noteq> []
             then rbind (multistageNameFromParams params platform JobTypeLaunch) (\<lambda>launch.
                    if has_test cfg launch then Inr (True, launch) else Inr (False, []))
             else Inr (False, []))))"

section \<open>Lemmas\<close>

lemma env_matches_Nil: "env_matches value = []"
proof -
  have "\<not> match_prefix (plus word_char) []" by (simp add: plus_def word_char_def)
  then show ?thesis by (auto simp: env_matches_def filter_empty_conv)
qed

lemma Resolve_id [simp]: "Resolve lookup value = value"
  by (simp add: Resolve_def env_matches_Nil)

lemma first_target_replace:
  "first_target args = Some old \<Longrightarrow> new \<noteq> [] \<Longrightarrow> first_target (replace_target_args old new args) = Some new"
proof (induction args)
  case (Cons arg args)
  show ?case
  proof (cases "cut_prefix arg ''--target=''")
    case None
    then show ?thesis using Cons by (simp add: replace_target_args_def)
  next
    case (Some v)
    then show ?thesis using Cons cut_prefix_append [of "''--target=''" new]
      by (cases "v = []") (auto simp: replace_target_args_def split: if_splits)
  qed
qed simp

lemma first_target_replace_None:
  "first_target args = None \<Longrightarrow> old \<noteq> [] \<Longrightarrow> first_target (replace_target_args old new args) = None"
proof (induction args)
  case (Cons arg args)
  then show ?case
    by (cases "cut_prefix arg ''--target=''") (auto simp: replace_target_args_def split: if_splits)
qed (simp add: replace_target_args_def)

lemma find_target_nonempty: "find_target cs = Inr v \<Longrightarrow> v \<noteq> []"
  by (induction cs) (auto simp: Let_def split: if_splits option.splits)

lemma find_target_replace:
  assumes "find_target cs = Inr old" "new \<noteq> []"
  shows "find_target (map (\<lambda>c. if ct_Name c \<noteq> [] then c
     else c\<lparr>ct_Args := replace_target_args old new (ct_Args c)\<rparr>) cs) = Inr new"
  using assms
proof (induction cs)
  case (Cons c cs)
  have old: "old \<noteq> []" using Cons.prems find_target_nonempty by blast
  show ?case
  proof (cases "ct_Name c \<noteq> []")
    case True
    then show ?thesis using Cons by simp
  next
    case False
    then show ?thesis
      using Cons first_target_replace [of "ct_Args c" old new]
        first_target_replace_None [of "ct_Args c" old new] old
      by (cases "first_target (ct_Args c)") (auto simp: Let_def split: if_splits)
  qed
qed simp

lemma override_env_values:
  assumes "e \<in> set (override_env n v env)" "ev_Name e = n"
  shows "ev_Value e = v \<and> ev_ValueFrom e = NoValueFrom"
proof -
  obtain d where d: "e = (if ev_Name d = n then d\<lparr>ev_Value := v, ev_ValueFrom := NoValueFrom\<rparr> else d)"
    using assms(1) unfolding override_env_def list.set_map by blast
  show ?thesis
  proof (cases "ev_Name d = n")
    case True
    then show ?thesis unfolding d by simp
  next
    case False
    then show ?thesis using d assms(2) by simp
  qed
qed

lemma override_env_names: "map ev_Name (override_env name value env) = map ev_Name env"
  by (induction env) (simp_all add: override_env_def)

lemma set_env_values:
  assumes "e \<in> set (set_env n v env)" "ev_Name e = n"
  shows "ev_Value e = v \<and> ev_ValueFrom e = NoValueFrom"
proof (cases "\<exists>e \<in> set env. ev_Name e = n")
  case True
  then show ?thesis using override_env_values assms by (simp add: set_env_def)
next
  case False
  then have "e = plain_env n v \<or> e \<in> set env" using assms(1) by (auto simp: set_env_def split: if_splits)
  moreover have "e \<notin> set env" using False assms(2) by blast
  ultimately have "e = plain_env n v" by blast
  then show ?thesis unfolding plain_env_def by simp
qed

lemma set_env_others:
  "filter (\<lambda>e. ev_Name e \<noteq> name) (set_env name value env) = filter (\<lambda>e. ev_Name e \<noteq> name) env"
proof -
  have "filter (\<lambda>e. ev_Name e \<noteq> name) (override_env name value env) = filter (\<lambda>e. ev_Name e \<noteq> name) env" for env
    by (induction env) (auto simp: override_env_def)
  then show ?thesis by (auto simp: set_env_def plain_env_def)
qed

lemma set_env_present: "name \<in> ev_Name ` set (set_env name value env)"
proof -
  have "ev_Name ` set (override_env name value env) = ev_Name ` set env"
    by (metis list.set_map override_env_names)
  then show ?thesis by (auto simp: set_env_def plain_env_def)
qed

lemma containers_map: "ps_Containers (sp_PodSpec (map_containers f spec)) = map f (ps_Containers (sp_PodSpec spec))"
  by (simp add: map_containers_def)

lemma multistage_variants_perm:
  "mset (mkeys params) = mset (mkeys params') \<Longrightarrow>
     multistage_variants params platform = multistage_variants params' platform"
  unfolding multistage_variants_def by (rule properties_for_sort) simp_all

lemma selector_matches_iff:
  "selector_matches sel labels \<longleftrightarrow> (\<forall>(k, v) \<in> set sel. mget labels k = Some v)"
  by (auto simp: selector_matches_def list_all_iff)

lemma first_env_in_env: "first_env n before env = Some e \<Longrightarrow> e \<in> set env \<and> ev_Name e = n"
  by (induction env arbitrary: before) (auto split: if_splits)

lemma first_env_in_container:
  "first_env_in n cs = Some (e, c) \<Longrightarrow> c \<in> set cs \<and> e \<in> set (ct_Env c) \<and> ev_Name e = n"
  by (induction cs) (auto split: option.splits dest: first_env_in_env)

section \<open>Properties\<close>

text \<open>
  After \<open>SetJobEnvVar\<close> every container has the variable, every occurrence of it carries the
  literal value, and all other variables are as before, in the same order.
\<close>

theorem set_job_env_var_spec:
  assumes "c \<in> set (ps_Containers (sp_PodSpec (SetJobEnvVar name val spec)))"
  shows "name \<in> ev_Name ` set (ct_Env c) \<and>
    (\<forall>e \<in> set (ct_Env c). ev_Name e = name \<longrightarrow> ev_Value e = val \<and> ev_ValueFrom e = NoValueFrom) \<and>
    (\<exists>c0 \<in> set (ps_Containers (sp_PodSpec spec)). ct_Args c = ct_Args c0 \<and> ct_Name c = ct_Name c0 \<and>
       filter (\<lambda>e. ev_Name e \<noteq> name) (ct_Env c) = filter (\<lambda>e. ev_Name e \<noteq> name) (ct_Env c0))"
proof -
  obtain c0 where c0: "c0 \<in> set (ps_Containers (sp_PodSpec spec))"
    and c: "c = c0\<lparr>ct_Env := set_env name val (ct_Env c0)\<rparr>"
    using assms by (auto simp: SetJobEnvVar_def containers_map)
  have "\<forall>e \<in> set (ct_Env c). ev_Name e = name \<longrightarrow> ev_Value e = val \<and> ev_ValueFrom e = NoValueFrom"
    unfolding c using set_env_values [of _ name val] by simp
  moreover have "name \<in> ev_Name ` set (ct_Env c)" unfolding c using set_env_present by simp
  moreover have "filter (\<lambda>e. ev_Name e \<noteq> name) (ct_Env c) = filter (\<lambda>e. ev_Name e \<noteq> name) (ct_Env c0)"
    unfolding c using set_env_others by simp
  ultimately show ?thesis using c0 unfolding c by (intro conjI bexI [of _ c0]) simp_all
qed

definition sample_container :: Container where
  "sample_container = \<lparr>ct_Name = [], ct_Command = [''ci-operator''], ct_Args = [''--target='', ''--target=launch'', ''-v''],
     ct_Env = [plain_env ''A'' ''1'', plain_env ''B'' ''2'']\<rparr>"

definition sample_spec :: ProwJobSpec where
  "sample_spec = \<lparr>sp_Type = ''periodic'', sp_Job = ''j'', sp_Cluster = ''b'',
     sp_PodSpec = \<lparr>ps_InitContainers = [], ps_Containers = [sample_container]\<rparr>, sp_SkipCloning = None, sp_ExtraRefs = []\<rparr>"

theorem set_job_env_var_spec_witness:
  "''B'' \<in> ev_Name ` set (ct_Env (sample_container\<lparr>ct_Env := set_env ''B'' ''3'' (ct_Env sample_container)\<rparr>))"
proof -
  have "sample_container\<lparr>ct_Env := set_env ''B'' ''3'' (ct_Env sample_container)\<rparr> \<in>
      set (ps_Containers (sp_PodSpec (SetJobEnvVar ''B'' ''3'' sample_spec)))"
    by (simp add: SetJobEnvVar_def containers_map sample_spec_def)
  from set_job_env_var_spec [OF this] show ?thesis by blast
qed

text \<open>
  \<open>replaceTargetArgument\<close> retargets a job: when the job's target is \<open>old\<close>, the changed job's
  target is \<open>new\<close>.
\<close>

theorem replace_target_spec:
  assumes "findTargetName (Some s) = Inr old" "new \<noteq> []"
  shows "\<exists>s'. replaceTargetArgument (Some s) old new = Inr s' \<and> findTargetName (Some s') = Inr new"
  using assms find_target_replace [of "ps_Containers s" old new]
  by (simp add: findTargetName_def replaceTargetArgument_def)

theorem replace_target_spec_witness:
  "\<exists>s'. replaceTargetArgument (Some (sp_PodSpec sample_spec)) ''launch'' ''e2e'' = Inr s' \<and>
     findTargetName (Some s') = Inr ''e2e''"
  by (rule replace_target_spec)
    (simp_all add: findTargetName_def sample_spec_def sample_container_def Let_def)

text \<open>
  The variant check is sound and complete for the tests it may use: for a job that is not a
  workflow launch or test, it succeeds exactly when the configuration has the test named after the
  parameters, or, for test jobs on a platform with a test step, the launch variant of that name.
\<close>

theorem config_variant_spec:
  assumes "jobType \<noteq> JobTypeWorkflowLaunch" "jobType \<noteq> JobTypeWorkflowTest"
    "unmarshal text = Some cfg" "multistageNameFromParams params platform jobType = Inr name"
    "multistageNameFromParams params platform JobTypeLaunch = Inr launch"
  shows "configContainsVariant unmarshal params platform text jobType =
    Inr (if has_test cfg name then (True, name)
         else if jobType = JobTypeTest \<and> testStepForPlatform platform \<noteq> [] \<and> has_test cfg launch
         then (True, launch) else (False, []))"
  using assms by (simp add: configContainsVariant_def)

theorem config_variant_spec_witness:
  "configContainsVariant (\<lambda>_. Some (empty_config\<lparr>rc_Tests := [\<lparr>ts_As = ''launch-ovn'', ts_Commands = [], ts_ContainerFrom = None, ts_MultiStage = None, ts_Literal = None\<rparr>]\<rparr>))
     [(''ovn'', []), (''large'', [])] ''aws'' [] JobTypeTest = Inr (True, ''launch-ovn'')"
proof -
  let ?ps = "[(''ovn'', []), (''large'', [])] :: (string, string) gomap"
  have v: "multistage_variants ?ps ''aws'' = [''ovn'']"
    by (simp add: multistage_variants_def multistageParamsForPlatform_def MultistageParameters_def
        SupportedParameters_def)
  have n: "multistageNameFromParams ?ps ''aws'' JobTypeTest = Inr ''e2e-ovn''"
    "multistageNameFromParams ?ps ''aws'' JobTypeLaunch = Inr ''launch-ovn''"
    by (simp_all add: multistageNameFromParams_def multistage_prefix_def v)
  show ?thesis
    by (subst config_variant_spec [OF _ _ refl n]) (simp_all add: has_test_def testStepForPlatform_def)
qed

text \<open>
  The name of the multistage test depends on the set of parameters, not on the iteration order
  of the parameter map.
\<close>

theorem multistage_name_order_irrelevant:
  assumes "mset params = mset params'"
  shows "multistageNameFromParams params platform jobType = multistageNameFromParams params' platform jobType"
proof -
  have k: "mset (mkeys params) = mset (mkeys params')" using assms by (simp add: mkeys_def)
  then have v: "multistage_variants params platform = multistage_variants params' platform"
    by (rule multistage_variants_perm)
  have s: "set (mkeys params) = set (mkeys params')" using k by (rule mset_eq_setD)
  have "length params = length params'" using assms by (rule mset_eq_length)
  moreover have "mhas params k = mhas params' k" for k
    using s mget_eq_None_iff [of params k] mget_eq_None_iff [of params' k] by (simp add: mhas_def)
  moreover have "params = [] \<longleftrightarrow> params' = []" using \<open>length params = length params'\<close> by auto
  ultimately show ?thesis
    unfolding multistageNameFromParams_def v
    by (cases "multistage_prefix jobType") simp_all
qed

theorem multistage_name_order_irrelevant_witness:
  "multistageNameFromParams [(''ovn'', []), (''fips'', [])] ''aws'' JobTypeLaunch =
   multistageNameFromParams [(''fips'', []), (''ovn'', [])] ''aws'' JobTypeLaunch"
  by (rule multistage_name_order_irrelevant) simp

text \<open>
  \<open>firstEnvVar\<close> and \<open>findTargetName\<close> never substitute a variable: the pattern \<open>$([a-zA-Z0-9_]+)\<close>
  starts with an end-of-text anchor and matches nowhere, so a value such as \<open>$(NAME)\<close> is returned as
  it stands.
\<close>

theorem env_substitution_is_dead:
  assumes "firstEnvVar spec name = Some (e, c)"
  shows "e \<in> set (ct_Env c) \<and> ev_Name e = name \<and> Resolve (env_lookup (ct_Env c)) (ev_Value e) = ev_Value e"
  using assms first_env_in_container by (auto simp: firstEnvVar_def)

theorem env_substitution_is_dead_witness:
  "Resolve (env_lookup [plain_env ''X'' ''1'']) ''$(X)'' = ''$(X)''"
proof -
  let ?c = "\<lparr>ct_Name = [], ct_Command = [''ci-operator''], ct_Args = [], ct_Env = [plain_env ''Y'' ''$(X)'']\<rparr>"
  have "firstEnvVar \<lparr>ps_InitContainers = [], ps_Containers = [?c]\<rparr> ''Y'' = Some (plain_env ''Y'' ''$(X)'', ?c)"
    by (simp add: firstEnvVar_def plain_env_def)
  from env_substitution_is_dead [OF this] show ?thesis by simp
qed

end
