(* ===== verification/GoTime.thy ===== *)
theory GoTime
  imports GoStrings
begin

text \<open>
  Calendar dates and the time layouts the repository formats and parses. An instant is a number of
  nanoseconds since the zero time of Go, midnight of January 1 of the year 1 in UTC.
\<close>

section \<open>Calendar\<close>

definition leap_year :: "nat \<Rightarrow> bool" where
  "leap_year y \<longleftrightarrow> y mod 4 = 0 \<and> (y mod 100 \<noteq> 0 \<or> y mod 400 = 0)"

text \<open>Days from January 1 of the year 1 to January 1 of the year \<open>y + 1\<close>.\<close>

definition days_through :: "nat \<Rightarrow> nat" where
  "days_through y = 365 * y + y div 4 + y div 400 - y div 100"

lemma days_through_ge: "365 * y \<le> days_through y"
proof -
  have "y div 100 \<le> y div 4" by (rule div_le_mono2) simp_all
  then show ?thesis by (simp add: days_through_def)
qed

lemma days_through_le: "days_through y \<le> 366 * y"
proof -
  have "y div 400 \<le> y div 100" by (rule div_le_mono2) simp_all
  moreover have "y div 4 \<le> y" by simp
  ultimately show ?thesis by (simp add: days_through_def)
qed

text \<open>The number of whole years before day \<open>d\<close>, searched upwards from a lower bound.\<close>

function years_loop :: "nat \<Rightarrow> nat \<Rightarrow> nat" where
  "years_loop d y = (if days_through (Suc y) \<le> d then years_loop d (Suc y) else y)"
  by pat_completeness auto
termination
proof (relation "measure (\<lambda>(d, y). Suc d - y)", simp)
  fix d y :: nat
  assume "days_through (Suc y) \<le> d"
  then have "365 * Suc y \<le> d" using days_through_ge [of "Suc y"] by linarith
  then show "((d, Suc y), d, y) \<in> measure (\<lambda>(d, y). Suc d - y)" by simp
qed

declare years_loop.simps [simp del]

definition years_before :: "nat \<Rightarrow> nat" where
  "years_before d = years_loop d (d div 366)"

lemma years_loop_bounds:
  "days_through y \<le> d \<Longrightarrow> days_through (years_loop d y) \<le> d \<and> d < days_through (Suc (years_loop d y))"
proof (induction d y rule: years_loop.induct)
  case (1 d y)
  then show ?case by (cases "days_through (Suc y) \<le> d") (simp_all add: years_loop.simps [of d y])
qed

lemma years_before_bounds:
  "days_through (years_before d) \<le> d \<and> d < days_through (Suc (years_before d))"
proof -
  have "days_through (d div 366) \<le> d" using days_through_le [of "d div 366"] by linarith
  then show ?thesis unfolding years_before_def by (rule years_loop_bounds)
qed

definition month_lengths :: "nat \<Rightarrow> nat list" where
  "month_lengths y = [31, if leap_year y then 29 else 28, 31, 30, 31, 30, 31, 31, 30, 31, 30, 31]"

fun month_loop :: "nat list \<Rightarrow> nat \<Rightarrow> nat \<times> nat" where
  "month_loop [] d = (0, d)"
| "month_loop (l # ls) d =
     (if d < l then (0, d) else case month_loop ls (d - l) of (m, r) \<Rightarrow> (Suc m, r))"

text \<open>Year, month and day of a day number, and back.\<close>

definition civil :: "nat \<Rightarrow> nat \<times> nat \<times> nat" where
  "civil d = (let y = years_before d; (m, r) = month_loop (month_lengths (Suc y)) (d - days_through y)
              in (Suc y, Suc m, Suc r))"

definition day_number :: "nat \<Rightarrow> nat \<Rightarrow> nat \<Rightarrow> nat" where
  "day_number y m d = days_through (y - 1) + sum_list (take (m - 1) (month_lengths y)) + (d - 1)"

lemma month_loop_sum: "month_loop ls d = (m, r) \<Longrightarrow> sum_list (take m ls) + r = d"
proof (induction ls arbitrary: d m r)
  case (Cons l ls)
  show ?case
  proof (cases "d < l")
    case False
    obtain m' r' where mr: "month_loop ls (d - l) = (m', r')" by fastforce
    with Cons.prems False have "m = Suc m'" "r = r'" by simp_all
    with Cons.IH [OF mr] False show ?thesis by simp
  qed (use Cons.prems in auto)
qed simp

lemma day_number_civil: "civil d = (y, m, r) \<Longrightarrow> day_number y m r = d"
  using years_before_bounds [of d]
  by (auto simp: civil_def day_number_def Let_def split: prod.splits dest!: month_loop_sum)

section \<open>Layouts\<close>

definition pad2 :: "nat \<Rightarrow> string" where
  "pad2 n = [digit_char (n div 10 mod 10), digit_char (n mod 10)]"

definition pad4 :: "nat \<Rightarrow> string" where
  "pad4 n = [digit_char (n div 1000 mod 10), digit_char (n div 100 mod 10),
     digit_char (n div 10 mod 10), digit_char (n mod 10)]"

definition secs_of :: "gotime \<Rightarrow> nat" where
  "secs_of t = nat (t div second)"

definition date_text :: "nat \<Rightarrow> string" where
  "date_text days = (case civil days of (y, m, d) \<Rightarrow> pad4 y @ ''-'' @ pad2 m @ ''-'' @ pad2 d)"

text \<open>The fraction \<open>.9999\<close>: four digits without trailing zeros, and no point when they are all zero.\<close>

definition frac4 :: "gotime \<Rightarrow> string" where
  "frac4 t =
     (let ds = rev (dropWhile (\<lambda>c. c = CHR ''0'') (rev (pad4 (nat (t mod second div 100000)))))
      in if ds = [] then [] else CHR ''.'' # ds)"

text \<open>The layout \<open>2006-01-02-150405.9999\<close> of the names of jobs.\<close>

definition stamp_text :: "gotime \<Rightarrow> string" where
  "stamp_text t =
     (let s = secs_of t; r = s mod 86400 in
      date_text (s div 86400) @ ''-'' @ pad2 (r div 3600) @ pad2 (r div 60 mod 60) @ pad2 (r mod 60) @ frac4 t)"

text \<open>The layout \<open>time.RFC3339\<close> of an instant in UTC.\<close>

definition rfc3339 :: "gotime \<Rightarrow> string" where
  "rfc3339 t =
     (let s = secs_of t; r = s mod 86400 in
      date_text (s div 86400) @ ''T'' @ pad2 (r div 3600) @ '':'' @ pad2 (r div 60 mod 60) @ '':'' @
      pad2 (r mod 60) @ ''Z'')"

text \<open>
  \<open>time.Parse\<close> of that layout: an optional fraction, and \<open>Z\<close> or an offset. Two leniencies of the
  library are left out, a comma for the point and one digit for the hour.
\<close>

definition num :: "string \<Rightarrow> nat" where
  "num s = foldl (\<lambda>a c. 10 * a + (of_char c - 48)) 0 s"

definition valid_civil :: "nat \<Rightarrow> nat \<Rightarrow> nat \<Rightarrow> bool" where
  "valid_civil y m d \<longleftrightarrow> 1 \<le> m \<and> m \<le> 12 \<and> 1 \<le> d \<and> d \<le> month_lengths y ! (m - 1)"

definition parse_fraction :: "string \<Rightarrow> nat \<times> string" where
  "parse_fraction s =
     (case s of
        c # r \<Rightarrow> if c = CHR ''.'' \<and> takeWhile is_digit r \<noteq> []
                then (num (take 9 (takeWhile is_digit r @ replicate 9 CHR ''0'')), dropWhile is_digit r)
                else (0, s)
      | [] \<Rightarrow> (0, s))"

definition parse_zone :: "string \<Rightarrow> int option" where
  "parse_zone s =
     (case s of
        [c] \<Rightarrow> if c = CHR ''Z'' then Some 0 else None
      | [sg, h1, h2, c, m1, m2] \<Rightarrow>
          if (sg = CHR ''+'' \<or> sg = CHR ''-'') \<and> c = CHR '':'' \<and> list_all is_digit [h1, h2, m1, m2] \<and>
             num [h1, h2] \<le> 23 \<and> num [m1, m2] \<le> 59
          then Some ((if sg = CHR ''-'' then - 1 else 1) * int (3600 * num [h1, h2] + 60 * num [m1, m2]))
          else None
      | _ \<Rightarrow> None)"

definition parse_rfc3339 :: "string \<Rightarrow> gotime option" where
  "parse_rfc3339 s =
     (if length s < 20 \<or> \<not> list_all is_digit (take 4 s @ take 2 (drop 5 s) @ take 2 (drop 8 s) @
          take 2 (drop 11 s) @ take 2 (drop 14 s) @ take 2 (drop 17 s)) \<or>
         s ! 4 \<noteq> CHR ''-'' \<or> s ! 7 \<noteq> CHR ''-'' \<or> s ! 10 \<noteq> CHR ''T'' \<or> s ! 13 \<noteq> CHR '':'' \<or>
         s ! 16 \<noteq> CHR '':'' then None
      else let y = num (take 4 s); mo = num (take 2 (drop 5 s)); d = num (take 2 (drop 8 s));
               h = num (take 2 (drop 11 s)); mi = num (take 2 (drop 14 s)); se = num (take 2 (drop 17 s));
               (ns, rest) = parse_fraction (drop 19 s) in
        if \<not> valid_civil y mo d \<or> h > 23 \<or> mi > 59 \<or> se > 59 \<or> y = 0 then None
        else map_option (\<lambda>zone. (int (86400 * day_number y mo d + 3600 * h + 60 * mi + se) - zone) * second + int ns)
               (parse_zone rest))"

section \<open>Formatting and parsing are inverse\<close>

lemma num_pad2: "n < 100 \<Longrightarrow> num (pad2 n) = n"
  by (simp add: num_def pad2_def)

lemma num_pad4: "n < 10000 \<Longrightarrow> num (pad4 n) = n"
proof -
  assume n: "n < 10000"
  have "n div 10 = 10 * (n div 100) + n div 10 mod 10" "n div 100 = 10 * (n div 1000) + n div 100 mod 10"
    using mult_div_mod_eq [of 10 "n div 10"] mult_div_mod_eq [of 10 "n div 100"]
    by (simp_all add: div_mult2_eq [of n 10 10, simplified] div_mult2_eq [of n 100 10, simplified])
  moreover have "n = 10 * (n div 10) + n mod 10" "n div 1000 mod 10 = n div 1000" using n by simp_all
  ultimately have "10 * (10 * (10 * (n div 1000 mod 10) + n div 100 mod 10) + n div 10 mod 10) + n mod 10 = n"
    by metis
  then show ?thesis by (simp add: num_def pad4_def del: mod_less)
qed

lemma leap_step:
  fixes a b c x z w Y :: nat
  shows "c \<le> Y + a + b \<Longrightarrow> w \<le> x + z \<Longrightarrow>
    (Y + 365) + (a + x) + (b + z) - (c + w) = Y + a + b - c + 365 + (x + z - w)"
  by simp

lemma days_through_Suc:
  "days_through (Suc y) = days_through y + 365 + (if leap_year (Suc y) then 1 else 0)"
proof -
  let ?b = "\<lambda>k. if Suc y mod k = 0 then 1 else 0 :: nat"
  have le: "y div 100 \<le> 365 * y + y div 4 + y div 400"
    using div_le_mono2 [of 4 100 y] by simp
  have m: "Suc y mod 400 = 0 \<Longrightarrow> Suc y mod 100 = 0" "Suc y mod 100 = 0 \<Longrightarrow> Suc y mod 4 = 0"
    by presburger+
  have w: "?b 100 \<le> ?b 4 + ?b 400" using m by simp
  have "days_through (Suc y) = (365 * y + 365) + (y div 4 + ?b 4) + (y div 400 + ?b 400) - (y div 100 + ?b 100)"
    by (simp add: days_through_def div_Suc ac_simps)
  also have "\<dots> = days_through y + 365 + (?b 4 + ?b 400 - ?b 100)"
    unfolding days_through_def by (rule leap_step [OF le w])
  also have "?b 4 + ?b 400 - ?b 100 = (if leap_year (Suc y) then 1 else 0)"
    using m by (auto simp: leap_year_def)
  finally show ?thesis .
qed

lemma sum_month_lengths: "sum_list (month_lengths y) = 365 + (if leap_year y then 1 else 0)"
  by (simp add: month_lengths_def)

lemma month_loop_bounds:
  "month_loop ls d = (m, r) \<Longrightarrow> d < sum_list ls \<Longrightarrow> m < length ls \<and> r < ls ! m"
proof (induction ls arbitrary: d m r)
  case (Cons l ls)
  show ?case
  proof (cases "d < l")
    case False
    obtain m' r' where mr: "month_loop ls (d - l) = (m', r')" by fastforce
    with Cons.prems False have "m = Suc m'" "r = r'" by simp_all
    with Cons.IH [OF mr] Cons.prems False show ?thesis by simp
  qed (use Cons.prems in auto)
qed simp

lemma civil_valid:
  assumes "civil d = (y, m, r)"
  shows "1 \<le> y \<and> valid_civil y m r \<and> m < 100 \<and> r < 100"
proof -
  define y0 where "y0 = years_before d"
  obtain m0 r0 where ml: "month_loop (month_lengths (Suc y0)) (d - days_through y0) = (m0, r0)" by fastforce
  have eq: "y = Suc y0" "m = Suc m0" "r = Suc r0"
    using assms ml by (auto simp: civil_def Let_def y0_def)
  have "d - days_through y0 < sum_list (month_lengths (Suc y0))"
    using years_before_bounds [of d] days_through_Suc [of y0] by (auto simp: sum_month_lengths y0_def)
  from month_loop_bounds [OF ml this]
  have b: "m0 < 12" "r0 < month_lengths (Suc y0) ! m0" by (auto simp: month_lengths_def)
  have "list_all (\<lambda>l. l \<le> 31) (month_lengths (Suc y0))" by (simp add: month_lengths_def)
  then have "month_lengths (Suc y0) ! m0 \<le> 31" using b(1) by (simp add: list_all_length month_lengths_def)
  then show ?thesis using b eq by (auto simp: valid_civil_def)
qed

lemma civil_year: "civil d = (y, m, r) \<Longrightarrow> d < days_through 9999 \<Longrightarrow> y < 10000"
proof -
  assume c: "civil d = (y, m, r)" and d: "d < days_through 9999"
  have mono: "days_through a \<le> days_through b" if "a \<le> b" for a b
    using that by (rule lift_Suc_mono_le [rotated]) (simp add: days_through_Suc)
  have "days_through (years_before d) \<le> d" using years_before_bounds by blast
  then have "years_before d < 9999" using d mono [of 9999 "years_before d"] by (cases "years_before d < 9999") auto
  then show ?thesis using c by (auto simp: civil_def Let_def split: prod.splits)
qed

lemma pad2_chars: "n < 100 \<Longrightarrow> \<exists>a b. pad2 n = [a, b] \<and> is_digit a \<and> is_digit b \<and> num [a, b] = n"
  using num_pad2 [of n] by (simp add: pad2_def)

lemma pad4_chars: "n < 10000 \<Longrightarrow> \<exists>a b c d. pad4 n = [a, b, c, d] \<and> list_all is_digit [a, b, c, d] \<and> num [a, b, c, d] = n"
  using num_pad4 [of n] by (simp add: pad4_def)

lemma parse_parts_rest:
  assumes "valid_civil y mo d" "1 \<le> y" "y < 10000" "mo < 100" "d < 100" "h < 24" "mi < 60" "se < 60"
    and "parse_fraction rest = (ns, ''Z'')" "rest \<noteq> []"
  shows "parse_rfc3339 (pad4 y @ ''-'' @ pad2 mo @ ''-'' @ pad2 d @ ''T'' @ pad2 h @ '':'' @ pad2 mi @ '':'' @ pad2 se @ rest) =
    Some (int (86400 * day_number y mo d + 3600 * h + 60 * mi + se) * second + int ns)"
proof -
  obtain y1 y2 y3 y4 where y: "pad4 y = [y1, y2, y3, y4]" "list_all is_digit [y1, y2, y3, y4]" "num [y1, y2, y3, y4] = y"
    using pad4_chars assms(3) by blast
  obtain o1 o2 where mo: "pad2 mo = [o1, o2]" "is_digit o1" "is_digit o2" "num [o1, o2] = mo" using pad2_chars assms(4) by blast
  obtain d1 d2 where d: "pad2 d = [d1, d2]" "is_digit d1" "is_digit d2" "num [d1, d2] = d" using pad2_chars assms(5) by blast
  have small: "h < 100" "mi < 100" "se < 100" using assms(6-8) by simp_all
  obtain h1 h2 where h: "pad2 h = [h1, h2]" "is_digit h1" "is_digit h2" "num [h1, h2] = h" using pad2_chars small(1) by blast
  obtain m1 m2 where mi: "pad2 mi = [m1, m2]" "is_digit m1" "is_digit m2" "num [m1, m2] = mi" using pad2_chars small(2) by blast
  obtain s1 s2 where se: "pad2 se = [s1, s2]" "is_digit s1" "is_digit s2" "num [s1, s2] = se" using pad2_chars small(3) by blast
  have "\<not> length rest < 1" using assms(10) by (cases rest) auto
  then show ?thesis
    unfolding parse_rfc3339_def y(1) mo(1) d(1) h(1) mi(1) se(1)
    using y(2,3) mo(2-4) d(2-4) h(2-4) mi(2-4) se(2-4) assms
    by (simp add: Let_def parse_zone_def)
qed

lemma sexagesimal: "60 * q + (c :: nat) = r \<Longrightarrow> 60 * a + b = q \<Longrightarrow> 3600 * a + 60 * b + c = r"
  by simp

text \<open>The fields of an instant before the year 10000 and their sum.\<close>

lemma instant_parts:
  assumes "civil (secs_of t div 86400) = (y, m, d)" "r = secs_of t mod 86400"
  shows "r div 3600 < 24" "r div 60 mod 60 < 60" "r mod 60 < 60"
    "86400 * day_number y m d + 3600 * (r div 3600) + 60 * (r div 60 mod 60) + r mod 60 = secs_of t"
proof -
  show "r div 3600 < 24" "r div 60 mod 60 < 60" "r mod 60 < 60"
    using mod_less_divisor [of 86400 "secs_of t"] by (simp_all add: assms(2) less_mult_imp_div_less)
  have "60 * (r div 60) + r mod 60 = r" "60 * (r div 3600) + r div 60 mod 60 = r div 60"
    using mult_div_mod_eq [of 60 "r div 60"] by (simp_all add: div_mult2_eq [of r 60 60, simplified])
  then have "3600 * (r div 3600) + 60 * (r div 60 mod 60) + r mod 60 = r" by (rule sexagesimal)
  moreover have "86400 * (secs_of t div 86400) + r = secs_of t" by (simp add: assms(2))
  ultimately show "86400 * day_number y m d + 3600 * (r div 3600) + 60 * (r div 60 mod 60) + r mod 60 = secs_of t"
    using day_number_civil [OF assms(1)] by linarith
qed

text \<open>An instant survives formatting and parsing, up to the seconds the layout has.\<close>

lemma parse_rfc3339_rfc3339:
  assumes "0 \<le> t" "secs_of t div 86400 < days_through 9999"
  shows "parse_rfc3339 (rfc3339 t) = Some (t - t mod second)"
proof -
  obtain y m d where c: "civil (secs_of t div 86400) = (y, m, d)" by (metis prod.exhaust)
  note v = civil_valid [OF c] civil_year [OF c assms(2)] instant_parts [OF c refl]
  have "parse_rfc3339 (rfc3339 t) = Some (int (secs_of t) * second)"
    using parse_parts_rest [of y m d _ _ _ "''Z''" 0] v
    by (simp add: rfc3339_def date_text_def c Let_def parse_fraction_def)
  also have "int (secs_of t) * second = t - t mod second"
    using assms(1) by (simp add: secs_of_def second_def pos_imp_zdiv_nonneg_iff minus_mod_eq_div_mult)
  finally show ?thesis .
qed

end
