(* ===== verification/JobManager.thy ===== *)
theory JobManager
  imports ReleaseResolver ProwSpec GoTime
begin

text \<open>
  The job manager of \<open>pkg/manager/manager.go\<close>: requests, jobs, workers and start estimates as one
  state record, and the operations that change it. Each critical section under \<open>m.lock\<close> is one
  function on the state; goroutines the code starts are events in the result. The Prow, GitHub and
  OCM clients and the clock are arguments.
\<close>

section \<open>State\<close>

record RosaCluster =
  ro_ID :: string
  ro_Name :: string
  ro_State :: string
  ro_Tags :: "(string, string) gomap option"
  ro_CreationTimestamp :: gotime

record manager =
  mg_requests :: "(string, JobRequest) gomap"
  mg_jobs :: "(string, Job) gomap"
  mg_estimates :: "duration list"
  mg_running :: "string list"
  mg_clusterPrefix :: string
  mg_maxClusters :: nat
  mg_maxAge :: duration
  mg_rosaClusters :: "(string, RosaCluster) gomap"
  mg_rosaPasswords :: "(string, string) gomap"

definition NewJobManager :: manager where
  "NewJobManager = \<lparr>mg_requests = [], mg_jobs = [], mg_estimates = [], mg_running = [],
     mg_clusterPrefix = ''chat-bot-'', mg_maxClusters = maxTotalClusters, mg_maxAge = 3 * hour,
     mg_rosaClusters = [], mg_rosaPasswords = []\<rparr>"

datatype event =
    StartWorker Job string
  | NotifyUser Job
  | RosaSyncAsync
  | StopProwJob string string
  | DeleteRosaCluster string

abbreviation launch_mode :: "JobType \<Rightarrow> bool" where
  "launch_mode mode \<equiv> mode = JobTypeLaunch \<or> mode = JobTypeWorkflowLaunch"

section \<open>Start estimates\<close>

definition trunc_second :: "duration \<Rightarrow> duration" where
  "trunc_second d = second * tdiv d second"

definition estimateCompletion :: "duration list \<Rightarrow> gotime \<Rightarrow> gotime \<Rightarrow> duration" where
  "estimateCompletion estimates now requestedAt =
     (let med0 = (if estimates = [] then 0 else estimates ! (length estimates div 2));
          med = (if med0 < minute then 30 * minute else med0) in
      if requestedAt = 0 then trunc_second med
      else let lastEstimate = med - (now - requestedAt) in
        if lastEstimate < 0 then minute else trunc_second lastEstimate)"

section \<open>Lookups\<close>

definition getROSAClusterForUser :: "manager \<Rightarrow> string \<Rightarrow> (RosaCluster \<times> string) option" where
  "getROSAClusterForUser m username =
     (case find (\<lambda>c. ro_State c \<noteq> ''uninstalling'' \<and>
               (case ro_Tags c of None \<Rightarrow> False | Some t \<Rightarrow> mget0 [] t ''ci-chat-bot/user'' = username))
             (mvals (mg_rosaClusters m)) of
        None \<Rightarrow> None
      | Some c \<Rightarrow> Some (c, mget0 [] (mg_rosaPasswords m) (ro_ID c)))"

definition GetUserCluster :: "manager \<Rightarrow> string \<Rightarrow> Job option" where
  "GetUserCluster m user =
     find (\<lambda>j. user = jb_RequestedBy j \<and> launch_mode (jb_Mode j) \<and>
       (jb_State j \<noteq> SuccessState \<and> \<not> jb_Complete j)) (mvals (mg_jobs m))"

datatype manager_error =
    NoUserGiven
  | BundleNotSupported string
  | BadInputs input_error
  | HypershiftVersion "string list"
  | ArchNotSupported JobType
  | WrongInputCount JobType
  | PlatformMissing JobType
  | TestTypeMissing JobType
  | UnexpectedJobType string
  | HasRosaCluster int
  | InputsMissing
  | NoValidVersion "string list"
  | ConfigError prow_error
  | NoMatchingProwJob string
  | AlreadyRequested int
  | NoCapacity "int option"
  | TooManyJobs
  | CannotStart string
  | SlowToStart string
  | NoClusterRequested
  | OnWaitlist
  | CredentialsGone
  | NoBuildCluster
  | NotInitialized
  | TerminateFailed string
  | AnotherClusterLaunched
  | NeverRequested

definition GetLaunchJob :: "manager \<Rightarrow> string \<Rightarrow> (manager_error, Job) result" where
  "GetLaunchJob m user =
     (case mget (mg_requests m) user of
        None \<Rightarrow> Inl NeverRequested
      | Some r \<Rightarrow>
          if rq_Name r = [] then Inl OnWaitlist
          else (case mget (mg_jobs m) (rq_Name r) of
                  None \<Rightarrow> Inl CredentialsGone
                | Some j \<Rightarrow> Inr j))"

definition clusterDetailsForUser :: "manager \<Rightarrow> string \<Rightarrow> (manager_error, string \<times> string) result" where
  "clusterDetailsForUser m user =
     (if user = [] then Inl NoUserGiven
      else (case mget (mg_requests m) user of
              None \<Rightarrow> Inl NoClusterRequested
            | Some r \<Rightarrow>
                if rq_Name r = [] then Inl NoClusterRequested
                else (case mget (mg_jobs m) (rq_Name r) of
                        None \<Rightarrow> Inl NoBuildCluster
                      | Some j \<Rightarrow> if jb_BuildCluster j = [] then Inl NoBuildCluster
                                  else Inr (rq_Name r, jb_BuildCluster j))))"

section \<open>From a request to a job\<close>

definition count_pulls :: "JobInput list \<Rightarrow> nat" where
  "count_pulls jis = sum_list (map (\<lambda>ji. sum_list (map (\<lambda>r. length (rf_Pulls r)) (ji_Refs ji))) jis)"

definition has_pulls :: "JobInput list \<Rightarrow> bool" where
  "has_pulls jis \<longleftrightarrow> list_ex (\<lambda>ji. list_ex (\<lambda>r. rf_Pulls r \<noteq> []) (ji_Refs ji)) jis"

text \<open>The switch on the request type of \<open>resolveToJob\<close>: the mode of the job, or why it is refused.\<close>

definition job_mode :: "JobRequest \<Rightarrow> JobInput list \<Rightarrow> (manager_error, JobType) result" where
  "job_mode req jis =
     (let ty = rq_Type req; arch = rq_Architecture req; n = length jis;
          test = mget0 [] (rq_JobParams req) ''test'' in
      if ty = JobTypeMCECustomImage then
        (if arch \<noteq> ''amd64'' then Inl (ArchNotSupported ty)
         else if n \<noteq> 1 then Inl (WrongInputCount ty) else Inr JobTypeMCECustomImage)
      else if ty = JobTypeBuild then
        (if arch \<noteq> ''amd64'' then Inl (ArchNotSupported ty)
         else if n \<noteq> 1 \<or> count_pulls jis = 0 then Inl (WrongInputCount ty) else Inr JobTypeBuild)
      else if ty = JobTypeCatalog then
        (if arch \<noteq> ''amd64'' then Inl (ArchNotSupported ty)
         else if n \<noteq> 1 \<or> count_pulls jis = 0 then Inl (WrongInputCount ty) else Inr JobTypeCatalog)
      else if ty = JobTypeInstall then
        (if arch \<noteq> ''amd64'' \<and> has_pulls jis then Inl (ArchNotSupported ty)
         else if n \<noteq> 1 then Inl (WrongInputCount ty)
         else if rq_Platform req = [] then Inl (PlatformMissing ty) else Inr JobTypeLaunch)
      else if ty = JobTypeUpgrade then
        (if arch \<noteq> ''amd64'' \<and> \<not> contains (rq_OriginalMessage req) ''konflux'' then Inl (ArchNotSupported ty)
         else if n \<noteq> 2 then Inl (WrongInputCount ty)
         else if rq_Platform req = [] then Inl (PlatformMissing ty)
         else if test = [] then Inl (TestTypeMissing ty) else Inr JobTypeUpgrade)
      else if ty = JobTypeTest then
        (if arch \<noteq> ''amd64'' \<and> \<not> contains (rq_OriginalMessage req) ''konflux'' then Inl (ArchNotSupported ty)
         else if n \<noteq> 1 then Inl (WrongInputCount ty)
         else if rq_Platform req = [] then Inl (PlatformMissing ty)
         else if test = [] then Inl (TestTypeMissing ty) else Inr JobTypeTest)
      else if ty = JobTypeWorkflowUpgrade then
        (if arch \<noteq> ''amd64'' then Inl (ArchNotSupported ty)
         else if n \<noteq> 2 then Inl (WrongInputCount ty)
         else if rq_Platform req = [] then Inl (PlatformMissing ty) else Inr JobTypeWorkflowUpgrade)
      else if ty = JobTypeWorkflowLaunch then
        (if arch \<noteq> ''amd64'' \<and> arch \<noteq> ''multi'' \<and> rq_Platform req \<noteq> ''hypershift-hosted''
         then Inl (ArchNotSupported ty)
         else if n \<noteq> 1 then Inl (WrongInputCount ty)
         else if rq_Platform req = [] then Inl (PlatformMissing ty) else Inr JobTypeWorkflowLaunch)
      else if ty = JobTypeWorkflowTest then
        (if arch \<noteq> ''amd64'' then Inl (ArchNotSupported ty)
         else if n \<noteq> 1 then Inl (WrongInputCount ty) else Inr JobTypeWorkflowTest)
      else Inl (UnexpectedJobType ty))"

definition hypershift_ok :: "string list \<Rightarrow> JobInput list \<Rightarrow> bool" where
  "hypershift_ok versions jis \<longleftrightarrow>
     list_all (\<lambda>ji. ji_Version ji \<noteq> [] \<longrightarrow> (\<exists>v \<in> set versions. has_prefix (ji_Version ji) v)) jis"

text \<open>\<open>resolveToJob\<close>; the request is returned too, with its type, time and name filled in.\<close>

definition resolveToJob :: "'v resolver \<Rightarrow> manager \<Rightarrow> gotime \<Rightarrow> JobRequest \<Rightarrow>
    (manager_error, Job \<times> JobRequest) result" where
  "resolveToJob rv m now req0 =
     (if rq_User req0 = [] then Inl NoUserGiven
      else let req1 = (if rq_Type req0 = [] then req0\<lparr>rq_Type := JobTypeBuild\<rparr> else req0) in
        if rq_Type req1 = JobTypeBuild \<and> mhas (rq_JobParams req1) ''bundle''
        then Inl (BundleNotSupported (mget0 [] (rq_JobParams req1) ''bundle''))
        else let name = mg_clusterPrefix m @ stamp_text now;
                 req = req1\<lparr>rq_RequestedAt := now, rq_Name := name\<rparr> in
          (case lookupInputs rv (rq_Inputs req) (rq_Architecture req) of
             Inl e \<Rightarrow> Inl (BadInputs e)
           | Inr (jis, _) \<Rightarrow>
               if rq_Platform req = ''hypershift-hosted'' \<and> \<not> hypershift_ok (rv_hypershift rv) jis
               then Inl (HypershiftVersion (rv_hypershift rv))
               else rbind (job_mode req jis) (\<lambda>mode.
                 Inr (emptyJob\<lparr>jb_OriginalMessage := rq_OriginalMessage req, jb_Name := name,
                        jb_State := PendingState, jb_Platform := rq_Platform req,
                        jb_JobParams := rq_JobParams req, jb_RequestedBy := rq_User req,
                        jb_RequesterUserID := rq_UserName req, jb_RequestedChannel := rq_Channel req,
                        jb_RequestedAt := now, jb_ExpiresAt := now + mg_maxAge m,
                        jb_Architecture := rq_Architecture req, jb_WorkflowName := rq_WorkflowName req,
                        jb_ManagedClusterName := rq_ManagedClusterName req,
                        jb_Mode := mode, jb_Inputs := jis\<rparr>, req))))"

section \<open>Choosing the Prow job\<close>

record 'v environment =
  en_resolver :: "'v resolver"
  en_parseRef :: "string \<Rightarrow> (string \<times> bool \<times> bool) option"
  en_periodicSpec :: "Periodic \<Rightarrow> ProwJobSpec"
  en_prowConfig :: "ProwConfig option"
  en_unmarshal :: "string \<Rightarrow> ReleaseBuildConfiguration option"
  en_schedule :: "ProwJob \<Rightarrow> string option"

definition release_selector :: "'v semver_api \<Rightarrow> (string, string) gomap \<Rightarrow> string \<Rightarrow>
    (string, string) gomap option" where
  "release_selector sv selector version =
     (if version = [] then None
      else (case sv_ParseTolerant sv version of
              None \<Rightarrow> None
            | Some v \<Rightarrow> Some (mput ''job-release''
                (show_nat (sv_Major sv v) @ ''.'' @ show_nat (sv_Minor sv v)) selector)))"

text \<open>The part of \<open>LaunchJobForUser\<close> and \<open>CheckValidJobConfiguration\<close> that picks the Prow job.\<close>

definition pick_prow_job :: "'v environment \<Rightarrow> gotime \<Rightarrow> JobRequest \<Rightarrow> Job \<Rightarrow>
    (manager_error, ProwJob) result" where
  "pick_prow_job env now req job =
     (let jobType = (if rq_Type req = JobTypeWorkflowUpgrade then JobTypeUpgrade else JobTypeLaunch);
          selector = [(''job-env'', rq_Platform req), (''job-type'', jobType),
                      (''job-architecture'', rq_Architecture req)];
          find_job = JobForLabels (en_periodicSpec env) (en_prowConfig env) now;
          versioned = (case jb_Inputs job of
                         [] \<Rightarrow> None
                       | ji # _ \<Rightarrow>
                           (case release_selector (rv_semver (en_resolver env)) selector (ji_Version ji) of
                              None \<Rightarrow> None
                            | Some sel \<Rightarrow> (case find_job sel of Inl _ \<Rightarrow> None | Inr pj \<Rightarrow> Some pj)));
          none = Inl (NoMatchingProwJob (paramsToString (jb_JobParams job))) in
      case versioned of
        Some pj \<Rightarrow> Inr pj
      | None \<Rightarrow>
          (case find_job [(''job-env'', rq_Platform req), (''job-type'', JobTypeLaunch),
                  (''config-type'', ''modern''),
                  (''job-architecture'', if rq_Architecture req = ''multi'' then ''amd64'' else rq_Architecture req)] of
             Inl _ \<Rightarrow> none
           | Inr pj \<Rightarrow>
               (case firstEnvVar (sp_PodSpec (pj_Spec pj)) ''UNRESOLVED_CONFIG'' of
                  None \<Rightarrow> Inr pj
                | Some (e, _) \<Rightarrow>
                    (case configContainsVariant (en_unmarshal env) (rq_JobParams req) (rq_Platform req)
                            (ev_Value e) (jb_Mode job) of
                       Inl err \<Rightarrow> Inl (ConfigError err)
                     | Inr (True, _) \<Rightarrow> Inr pj
                     | Inr (False, _) \<Rightarrow> none))))"

definition CheckValidJobConfiguration :: "'v environment \<Rightarrow> manager \<Rightarrow> gotime \<Rightarrow> JobRequest \<Rightarrow>
    (manager_error, unit) result" where
  "CheckValidJobConfiguration env m now req0 =
     rbind (resolveToJob (en_resolver env) m now req0) (\<lambda>(job, req).
     rbind (pick_prow_job env now req job) (\<lambda>_. Inr ()))"

section \<open>Launching\<close>

definition is_launched :: "Job \<Rightarrow> bool" where
  "is_launched j \<longleftrightarrow> launch_mode (jb_Mode j) \<and> \<not> jb_Complete j \<and> jb_Failure j = []"

definition waitUntil :: "Job list \<Rightarrow> gotime" where
  "waitUntil jobs = fold (\<lambda>c w. if \<not> launch_mode (jb_Mode c) then w
     else if w < jb_ExpiresAt c then jb_ExpiresAt c else w) jobs 0"

definition wait_minutes :: "gotime \<Rightarrow> Job list \<Rightarrow> int option" where
  "wait_minutes now jobs =
     (let d = waitUntil jobs - now in
      if d < minute then None else Some ((d + minute - 1) div minute))"

definition already_requested :: "manager \<Rightarrow> gotime \<Rightarrow> JobRequest \<Rightarrow> manager_error" where
  "already_requested m now existing =
     AlreadyRequested (tdiv (estimateCompletion (mg_estimates m) now (rq_RequestedAt existing)) minute)"

text \<open>The capacity check of the launch branch, after the request is registered.\<close>

definition admit_cluster :: "manager \<Rightarrow> gotime \<Rightarrow> JobRequest \<Rightarrow> Job \<Rightarrow>
    manager \<times> (manager_error, string) result" where
  "admit_cluster m now req job =
     (let m1 = m\<lparr>mg_requests := mput (rq_User req) req (mg_requests m)\<rparr> in
      if mcount is_launched (mg_jobs m1) \<ge> mg_maxClusters m1
      then (m1, Inl (NoCapacity (wait_minutes now (mvals (mg_jobs m1)))))
      else (m1\<lparr>mg_jobs := mput (jb_Name job) job (mg_jobs m1)\<rparr>, Inr []))"

definition running_message :: string where
  "running_message = ''your cluster is already running, see your credentials again with the 'auth' command''"

text \<open>The critical section of \<open>LaunchJobForUser\<close>.\<close>

definition admit :: "manager \<Rightarrow> gotime \<Rightarrow> JobRequest \<Rightarrow> Job \<Rightarrow>
    manager \<times> (manager_error, string) result" where
  "admit m now req job =
     (let user = rq_User req in
      if launch_mode (jb_Mode job) then
        (case mget (mg_requests m) user of
           None \<Rightarrow> admit_cluster m now req job
         | Some existing \<Rightarrow>
             if rq_Name existing = [] then (m, Inl (already_requested m now existing))
             else (case mget (mg_jobs m) (rq_Name existing) of
                     None \<Rightarrow> admit_cluster m now req job
                   | Some j \<Rightarrow>
                       if jb_Credentials j \<noteq> [] then (m, Inr running_message)
                       else if jb_Failure j = [] then (m, Inl (already_requested m now existing))
                       else admit_cluster (m\<lparr>mg_jobs := mdel (rq_Name existing) (mg_jobs m),
                              mg_requests := mdel user (mg_requests m)\<rparr>) now req job))
      else if mcount (\<lambda>j. \<not> launch_mode (jb_Mode j) \<and> jb_RequestedBy j = user) (mg_jobs m) > maxJobsPerUser
      then (m, Inl TooManyJobs)
      else (m\<lparr>mg_jobs := mput (jb_Name job) job (mg_jobs m)\<rparr>, Inr []))"

definition tryJob :: "manager \<Rightarrow> string \<Rightarrow> manager \<times> bool" where
  "tryJob m name =
     (if name \<in> set (mg_running m) then (m, False)
      else (m\<lparr>mg_running := name # mg_running m\<rparr>, True))"

definition finishJob :: "manager \<Rightarrow> string \<Rightarrow> manager" where
  "finishJob m name = m\<lparr>mg_running := removeAll name (mg_running m)\<rparr>"

text \<open>
  \<open>newJob\<close>: its guards, around the creation of the Prow job. \<open>create\<close> stands for the assembly and the
  creation of the Prow job; it returns the operator information the assembly found, which the
  job shares with the entry of \<open>m.jobs\<close> even when the creation then times out, and the error text or the URL.
\<close>

definition newJob :: "(Job \<Rightarrow> OperatorInfo \<times> (string, string) result) \<Rightarrow> manager \<Rightarrow> Job \<Rightarrow>
    manager \<times> (string, string \<times> Job) result" where
  "newJob create m job =
     (case tryJob m (jb_Name job) of
        (_, False) \<Rightarrow> (m, Inr ([], job))
      | (m1, True) \<Rightarrow>
          if IsComplete job \<and> jb_CredentialsSnippet job \<noteq> []
          then (finishJob m1 (jb_Name job), Inr ([], job))
          else (case create job of
                  (op, r) \<Rightarrow>
                    let job' = job\<lparr>jb_Operator := op\<rparr>;
                        m2 = (if mget (mg_jobs m1) (jb_Name job) = Some job
                              then m1\<lparr>mg_jobs := mput (jb_Name job) job' (mg_jobs m1)\<rparr> else m1)
                    in (finishJob m2 (jb_Name job), rbind r (\<lambda>url. Inr (url, job')))))"

definition UseSpotInstances :: "Job \<Rightarrow> bool" where
  "UseSpotInstances job \<longleftrightarrow> jb_Mode job = JobTypeLaunch \<and> jb_JobParams job = [] \<and>
     (jb_Platform job = ''aws'' \<or> jb_Platform job = ''aws-2'')"

text \<open>The pieces of the message that tells the user the job was started.\<close>

datatype launch_note =
    SpotNote | HypershiftNote | BuildOperatorNote
  | ClusterCreated string | OperatorInstallNote "string option" | CredentialsNote | PullsNote
  | JobStarted string

definition launch_notes :: "Job \<Rightarrow> string \<Rightarrow> launch_note list" where
  "launch_notes job url =
     (if UseSpotInstances job then [SpotNote] else []) @
     (if jb_Platform job = ''hypershift-hosted'' then [HypershiftNote] else []) @
     (if op_Is (jb_Operator job) \<and> jb_Mode job = JobTypeBuild then [BuildOperatorNote] else []) @
     (if launch_mode (jb_Mode job)
      then [ClusterCreated url] @
           (if op_Is (jb_Operator job)
            then [OperatorInstallNote (if op_BundleName (jb_Operator job) \<noteq> []
                    then Some (op_BundleName (jb_Operator job)) else None)]
            else [CredentialsNote]) @
           (if jobHasRefs job then [PullsNote] else [])
      else [JobStarted url])"

datatype launch_outcome =
    LaunchError manager_error
  | LaunchMessage string
  | Launched Job "launch_note list"

definition time_out_prefix :: string where
  "time_out_prefix = ''timed out waiting for your prowjob''"

definition launch_failed :: "manager \<Rightarrow> JobRequest \<Rightarrow> string \<Rightarrow> manager \<times> launch_outcome" where
  "launch_failed m req err =
     (if \<not> has_prefix err time_out_prefix
      then (m\<lparr>mg_requests := mdel (rq_User req) (mg_requests m), mg_jobs := mdel (rq_Name req) (mg_jobs m)\<rparr>,
            LaunchError (CannotStart err))
      else (m, LaunchError (SlowToStart err)))"

definition with_prow_job :: "'v environment \<Rightarrow> JobRequest \<Rightarrow> ProwJob \<Rightarrow> Job \<Rightarrow> Job" where
  "with_prow_job env req pj job =
     job\<lparr>jb_JobName := sp_Job (pj_Spec pj),
         jb_BuildCluster := (case en_schedule env pj of Some c \<Rightarrow> c | None \<Rightarrow> sp_Cluster (pj_Spec pj)),
         jb_CloudProfileSet := (if rq_Architecture req = ''amd64''
            then mget0 [] platformProfileSets (rq_Platform req) else jb_CloudProfileSet job)\<rparr>"

text \<open>The checks and choices before the critical section: the resolved request and job.\<close>

definition prepare_launch :: "'v environment \<Rightarrow> manager \<Rightarrow> gotime \<Rightarrow> JobRequest \<Rightarrow>
    (manager_error, JobRequest \<times> Job) result" where
  "prepare_launch env m now req0 =
     (case getROSAClusterForUser m (rq_User req0) of
        Some (c, _) \<Rightarrow> Inl (HasRosaCluster (tdiv (now - ro_CreationTimestamp c) minute))
      | None \<Rightarrow>
          if rq_Inputs req0 = [] then Inl InputsMissing
          else (case find (\<lambda>i. \<not> containsValidVersion (en_parseRef env) i) (rq_Inputs req0) of
                  Some i \<Rightarrow> Inl (NoValidVersion i)
                | None \<Rightarrow>
                    rbind (resolveToJob (en_resolver env) m now req0) (\<lambda>(job, req).
                    rbind (pick_prow_job env now req job) (\<lambda>pj.
                      Inr (req, with_prow_job env req pj job)))))"

definition LaunchJobForUser :: "'v environment \<Rightarrow> (Job \<Rightarrow> OperatorInfo \<times> (string, string) result) \<Rightarrow>
    manager \<Rightarrow> gotime \<Rightarrow> JobRequest \<Rightarrow> manager \<times> launch_outcome \<times> event list" where
  "LaunchJobForUser env create m now req0 =
     (case prepare_launch env m now req0 of
        Inl e \<Rightarrow> (m, LaunchError e, [])
      | Inr (req, job) \<Rightarrow>
          (case admit m now req job of
             (m1, Inl e) \<Rightarrow> (m1, LaunchError e, [])
           | (m1, Inr msg) \<Rightarrow>
               if msg \<noteq> [] then (m1, LaunchMessage msg, [])
               else (case newJob create m1 job of
                       (m2, Inl err) \<Rightarrow> (case launch_failed m2 req err of (m3, out) \<Rightarrow> (m3, out, []))
                     | (m2, Inr (url, job')) \<Rightarrow>
                         (m2, Launched job' (launch_notes job' url), [StartWorker job' ''start'']))))"

section \<open>Stopping\<close>

datatype 'a api_read = ApiError string | ApiNotFound | ApiFound 'a

datatype stop_result = Stopped | StopError string | StopPanic

text \<open>\<open>stopJob\<close>; the second component is the Prow job written back. \<open>client\<close> is whether the bot has a
  client for the build cluster, without which the code dereferences a nil pointer.\<close>

definition stopJob :: "ProwJob api_read \<Rightarrow> bool \<Rightarrow> string api_read \<Rightarrow> string option \<Rightarrow>
    stop_result \<times> ProwJob option" where
  "stopJob prow client pod upd =
     (case prow of
        ApiNotFound \<Rightarrow> (Stopped, None)
      | ApiError e \<Rightarrow> (StopError e, None)
      | ApiFound pj \<Rightarrow>
          if \<not> client then (StopPanic, None)
          else (case pod of
                  ApiNotFound \<Rightarrow>
                    if pj_State pj = TriggeredState
                    then (StopError ''original request is still initializing -- please try again in a few minutes'', None)
                    else (Stopped, None)
                | ApiError e \<Rightarrow> (StopError e, None)
                | ApiFound _ \<Rightarrow>
                    (case upd of None \<Rightarrow> Stopped | Some e \<Rightarrow> StopError e, Some (pj\<lparr>pj_State := AbortedState\<rparr>))))"

datatype terminate_outcome =
    TerminateError manager_error
  | TerminateOk string
  | TerminatePanic

text \<open>The second critical section of \<open>TerminateJobForUser\<close>.\<close>

definition terminate_finish :: "manager \<Rightarrow> gotime \<Rightarrow> string \<Rightarrow> string \<Rightarrow> manager \<times> terminate_outcome" where
  "terminate_finish m now user name =
     (let m1 = (case mget (mg_jobs m) name of
                  None \<Rightarrow> m
                | Some j \<Rightarrow> m\<lparr>mg_jobs := mput name (j\<lparr>jb_Failure := ''deletion requested'',
                      jb_ExpiresAt := now + 15 * minute, jb_Complete := True\<rparr>) (mg_jobs m)\<rparr>) in
      case mget (mg_requests m1) user of
        None \<Rightarrow> (m1, TerminateError AnotherClusterLaunched)
      | Some r \<Rightarrow>
          if rq_Name r \<noteq> name then (m1, TerminateError AnotherClusterLaunched)
          else (m1\<lparr>mg_requests := mdel user (mg_requests m1)\<rparr>,
                TerminateOk ''the cluster was flagged for shutdown, you may now launch another''))"

text \<open>
  \<open>TerminateJobForUser\<close>: \<open>m\<close> is the state of the first critical section and \<open>m'\<close> that of the second;
  they agree when nothing else runs in between. \<open>rosaDelete\<close> is the result of \<open>deleteCluster\<close> and
  \<open>stop\<close> that of \<open>stopJob\<close> on the job and its build cluster.
\<close>

definition TerminateJobForUser :: "(string \<Rightarrow> string option) \<Rightarrow> (string \<Rightarrow> string \<Rightarrow> stop_result) \<Rightarrow>
    manager \<Rightarrow> manager \<Rightarrow> gotime \<Rightarrow> string \<Rightarrow> manager \<times> terminate_outcome \<times> event list" where
  "TerminateJobForUser rosaDelete stop m m' now user =
     (case getROSAClusterForUser m user of
        Some (c, _) \<Rightarrow>
          (case rosaDelete (ro_ID c) of
             Some e \<Rightarrow> (m', TerminateError (TerminateFailed e), [])
           | None \<Rightarrow> (m', TerminateOk (ro_Name c), [DeleteRosaCluster (ro_ID c), RosaSyncAsync]))
      | None \<Rightarrow>
          (case clusterDetailsForUser m user of
             Inl e \<Rightarrow> (m', TerminateError e, [])
           | Inr (name, cluster) \<Rightarrow>
               (case stop name cluster of
                  StopError e \<Rightarrow> (m', TerminateError (TerminateFailed e), [])
                | StopPanic \<Rightarrow> (m', TerminatePanic, [])
                | Stopped \<Rightarrow>
                    (case terminate_finish m' now user name of
                       (m'', out) \<Rightarrow> (m'', out, [StopProwJob name cluster])))))"

datatype refresh_message = StillLoading | WasFailed string | WasSuccessful

definition SyncJobForUser :: "manager \<Rightarrow> string \<Rightarrow> (manager_error, refresh_message) result \<times> event list" where
  "SyncJobForUser m user =
     (if user = [] then (Inl NoUserGiven, [])
      else (case mget (mg_requests m) user of
              None \<Rightarrow> (Inl NoClusterRequested, [])
            | Some r \<Rightarrow>
                if rq_Name r = [] then (Inl NoClusterRequested, [])
                else (case mget (mg_jobs m) (rq_Name r) of
                        None \<Rightarrow> (Inl NotInitialized, [])
                      | Some j \<Rightarrow>
                          if jb_Failure j = [] \<and> jb_Credentials j = [] then (Inr StillLoading, [])
                          else (Inr (if jb_Failure j \<noteq> [] then WasFailed (jb_Failure j) else WasSuccessful),
                                [StartWorker (j\<lparr>jb_Failure := []\<rparr>) ''refresh'']))))"

end
