(* ===== verification/Worker.thy ===== *)
theory Worker
  imports JobManager
begin

text \<open>
  The worker that follows one job: \<open>waitForJob\<close> of \<open>pkg/manager/prow.go\<close> and \<open>handleJobStartup\<close>,
  \<open>finishedJob\<close> and \<open>jobIsComplete\<close> of \<open>pkg/manager/manager.go\<close>. A polling loop is a recursion over the
  observations of its attempts; running out of them is the deadline of
  \<open>wait.PollUntilContextTimeout\<close>.
\<close>

section \<open>Polling\<close>

definition deadline_text :: string where
  "deadline_text = ''context deadline exceeded''"

fun poll :: "('o \<Rightarrow> 's \<Rightarrow> 's \<times> (string, bool) result) \<Rightarrow> 'o list \<Rightarrow> 's \<Rightarrow> 's \<times> string option" where
  "poll cond [] s = (s, Some deadline_text)"
| "poll cond (ob # obs) s =
     (case cond ob s of
        (s', Inl e) \<Rightarrow> (s', Some e)
      | (s', Inr True) \<Rightarrow> (s', None)
      | (s', Inr False) \<Rightarrow> poll cond obs s')"

text \<open>A property that every attempt keeps holds at the end of the loop.\<close>

lemma poll_invariant:
  assumes "\<And>ob s. ob \<in> set obs \<Longrightarrow> I s \<Longrightarrow> I (fst (cond ob s))" "I s"
  shows "I (fst (poll cond obs s))"
  using assms
proof (induction obs arbitrary: s)
  case (Cons ob obs)
  obtain s' r where c: "cond ob s = (s', r)" by fastforce
  then have "I s'" using Cons.prems(1) [of ob s] Cons.prems(2) by simp
  then have "I (fst (poll cond obs s'))" using Cons.IH [of s'] Cons.prems(1) by simp
  then show ?case using c \<open>I s'\<close> by (cases r) (auto split: bool.splits)
qed simp

text \<open>What a successful loop saw in its last attempt.\<close>

lemma poll_success:
  "poll cond obs s = (s', None) \<Longrightarrow> \<exists>ob \<in> set obs. \<exists>t. cond ob t = (s', Inr True)"
proof (induction obs arbitrary: s)
  case (Cons ob obs)
  obtain t r where c: "cond ob s = (t, r)" by fastforce
  show ?case
  proof (cases r)
    case (Inl e)
    then show ?thesis using Cons.prems c by simp
  next
    case (Inr b)
    then show ?thesis using Cons c by (cases b) auto
  qed
qed simp

section \<open>What the worker observes\<close>

datatype catalog_read = CatalogSetupError string | CatalogBuildError string | CatalogBuilt

text \<open>
  One observation: the job as \<open>m.jobs\<close> has it at that moment, the Prow job, whether there is a client
  for the build cluster, the phase of the job's pod, the step secret, the outcome of the catalog
  build and whether the cluster answers.
\<close>

record obs =
  ob_current :: "Job option"
  ob_prow :: "(string, ProwJob) result"
  ob_client :: bool
  ob_pod :: "string api_read"
  ob_secret :: "(string, (string, string) gomap) result"
  ob_catalog :: catalog_read
  ob_reachable :: bool

definition job_completed_text :: string where
  "job_completed_text = ''job is complete''"

definition jobIsComplete :: "Job option \<Rightarrow> Job \<Rightarrow> Job \<times> bool" where
  "jobIsComplete current job =
     (case current of
        None \<Rightarrow> (job, False)
      | Some c \<Rightarrow>
          if IsComplete c
          then (job\<lparr>jb_State := jb_State c, jb_URL := jb_URL c, jb_Complete := jb_Complete c\<rparr>, True)
          else (job, False))"

definition prowJobIsStillRunning :: "(string, ProwJob) result \<Rightarrow> bool" where
  "prowJobIsStillRunning prow =
     (case prow of
        Inl _ \<Rightarrow> False
      | Inr pj \<Rightarrow> pj_State pj \<notin> {AbortedState, ErrorState, FailureState, SuccessState})"

abbreviation failed_state :: "ProwJobState \<Rightarrow> bool" where
  "failed_state st \<equiv> st = AbortedState \<or> st = ErrorState \<or> st = FailureState"

text \<open>The first loop: wait for the Prow job to be scheduled. The state is the job and the last Prow
  job read.\<close>

definition scheduled_cond :: "obs \<Rightarrow> Job \<times> ProwJob option \<Rightarrow>
    (Job \<times> ProwJob option) \<times> (string, bool) result" where
  "scheduled_cond ob s =
     (case jobIsComplete (ob_current ob) (fst s) of
        (job, True) \<Rightarrow> ((job, snd s), Inl job_completed_text)
      | (job, False) \<Rightarrow>
          (case ob_prow ob of
             Inl e \<Rightarrow> ((job, snd s), Inl e)
           | Inr pj \<Rightarrow>
               let (job1, done1) = (if failed_state (pj_State pj)
                     then (job\<lparr>jb_Failure := ''job failed'', jb_State := pj_State pj\<rparr>, True)
                     else if pj_State pj = SuccessState
                     then (job\<lparr>jb_Failure := [], jb_State := pj_State pj\<rparr>, True)
                     else (job, False));
                   (job2, done2) = (if pj_URL pj \<noteq> [] then (job1\<lparr>jb_URL := pj_URL pj\<rparr>, True)
                                    else (job1, done1))
               in ((job2, Some pj), Inr done2)))"

definition setupContainerTimeout :: "Job \<Rightarrow> duration" where
  "setupContainerTimeout job =
     (if jb_Platform job = ''metal'' then 90 * minute
      else if op_Is (jb_Operator job) then 105 * minute else 60 * minute) +
     (if jobHasRefs job then 30 * minute else 0)"

text \<open>The loop of jobs that are not clusters: wait for the Prow job to end.\<close>

definition completion_cond :: "obs \<Rightarrow> Job \<Rightarrow> Job \<times> (string, bool) result" where
  "completion_cond ob job0 =
     (case jobIsComplete (ob_current ob) job0 of
        (job, True) \<Rightarrow> (job, Inl job_completed_text)
      | (job, False) \<Rightarrow>
          (case ob_prow ob of
             Inl e \<Rightarrow> (job, Inl e)
           | Inr pj \<Rightarrow>
               if failed_state (pj_State pj)
               then (job\<lparr>jb_Failure := ''job failed'', jb_State := pj_State pj,
                        jb_CatalogComplete := (jb_CatalogComplete job \<or> jb_Mode job = JobTypeCatalog)\<rparr>, Inr True)
               else if pj_State pj = SuccessState
               then let job1 = job\<lparr>jb_Failure := [], jb_State := pj_State pj\<rparr> in
                 if jb_Mode job = JobTypeCatalog
                 then if \<not> ob_client ob then (job1, Inl ''cluster not found'')
                      else (case ob_catalog ob of
                              CatalogSetupError e \<Rightarrow> (job1, Inl e)
                            | CatalogBuildError e \<Rightarrow>
                                (job1\<lparr>jb_CatalogComplete := True, jb_CatalogError := True\<rparr>, Inl e)
                            | CatalogBuilt \<Rightarrow> (job1\<lparr>jb_CatalogComplete := True\<rparr>, Inr True))
                 else (job1, Inr True)
               else (job, Inr False)))"

text \<open>The loop for the job's pod to appear; the state carries whether it was seen.\<close>

definition pod_cond :: "obs \<Rightarrow> Job \<times> bool \<Rightarrow> (Job \<times> bool) \<times> (string, bool) result" where
  "pod_cond ob s =
     (case jobIsComplete (ob_current ob) (fst s) of
        (job, True) \<Rightarrow> ((job, snd s), Inl job_completed_text)
      | (job, False) \<Rightarrow>
          if \<not> ob_client ob then ((job, snd s), Inl ''cluster not found'')
          else (case ob_pod ob of
                  ApiError e \<Rightarrow> ((job, snd s), Inl e)
                | ApiNotFound \<Rightarrow>
                    if snd s then ((job, snd s), Inl ''cluster has already been torn down'')
                    else ((job, snd s), Inr False)
                | ApiFound phase \<Rightarrow>
                    if phase = ''Succeeded'' \<or> phase = ''Failed''
                    then ((job, True), Inl ''cluster has already been torn down'')
                    else ((job, True), Inr True)))"

text \<open>The loop for the installation to finish.\<close>

definition setup_ready :: "Job \<Rightarrow> (string, string) gomap \<Rightarrow> bool" where
  "setup_ready job secret \<longleftrightarrow> mhas secret ''console.url'' \<and>
     (op_Is (jb_Operator job) \<longrightarrow>
        (if op_HasIndex (jb_Operator job) then mhas secret ''oo_deployment_details.yaml''
         else mhas secret ''operator_complete.txt''))"

definition setup_cond :: "obs \<Rightarrow> Job \<Rightarrow> Job \<times> (string, bool) result" where
  "setup_cond ob job0 =
     (case jobIsComplete (ob_current ob) job0 of
        (job, True) \<Rightarrow> (job, Inl job_completed_text)
      | (job, False) \<Rightarrow>
          if \<not> ob_client ob then (job, Inl ''cluster not found'')
          else (case ob_pod ob of
                  ApiError e \<Rightarrow> (job, Inl e)
                | ApiNotFound \<Rightarrow> (job, Inl ''not found'')
                | ApiFound phase \<Rightarrow>
                    if phase = ''Succeeded'' \<or> phase = ''Failed'' then (job, Inl job_completed_text)
                    else (case ob_secret ob of
                            Inl _ \<Rightarrow> (job, Inr False)
                          | Inr secret \<Rightarrow> (job, Inr (setup_ready job secret)))))"

text \<open>\<open>waitForClusterReachable\<close>, once the kubeconfig was loaded.\<close>

definition reachable_cond :: "obs \<Rightarrow> Job \<Rightarrow> Job \<times> (string, bool) result" where
  "reachable_cond ob job0 =
     (case jobIsComplete (ob_current ob) job0 of
        (job, True) \<Rightarrow> (job, Inl job_completed_text)
      | (job, False) \<Rightarrow> (job, Inr (ob_reachable ob)))"

section \<open>The worker\<close>

record worker_env =
  we_scheduled :: "obs list"
  we_completion :: "obs list"
  we_pod :: "obs list"
  we_setup :: "obs list"
  we_final :: obs
  we_kubeconfig_error :: "string option"
  we_reachable :: "obs list"
  we_now :: gotime

datatype worker_event =
    SetupAccess string
  | ClearChannel string
  | ClearChannelAndExpire string duration

definition timed_out_text :: "string \<Rightarrow> string" where
  "timed_out_text name = time_out_prefix @ '' '' @ name @ '' to be scheduled.''"

definition wrap_launch_error :: "string \<Rightarrow> string \<Rightarrow> string" where
  "wrap_launch_error what e = (if has_prefix e ''cluster '' then e else what @ e)"

text \<open>The credentials part of \<open>waitForJob\<close>, after the installation finished.\<close>

definition snippet_of :: "(string, string) gomap \<Rightarrow> string \<Rightarrow> string" where
  "snippet_of secret console =
     (let password = replace_char CHR 0x0A [] (mget0 [] secret ''kubeadmin-password'');
          details = mget0 [] secret ''oo_deployment_details.yaml'' in
      if password \<noteq> []
      then console @ [CHR 0x0A] @ ''Log in to the console with user `kubeadmin` and password `'' @ password @ ''`'' @
           (if details \<noteq> [] then [CHR 0x0A] @ ''This following is the deployment information for you operator:'' @
              [CHR 0x0A] @ details else [])
      else [CHR 0x0A] @ ''Error: Unable to retrieve kubeadmin password, you must use the kubeconfig file to access the cluster'')"

definition collect_credentials :: "worker_env \<Rightarrow> ProwJob \<Rightarrow> duration \<Rightarrow> Job \<Rightarrow>
    Job \<times> string option \<times> worker_event list" where
  "collect_credentials we pj maxAge job =
     (if \<not> ob_client (we_final we) then (job, Some ''cluster not found'', [])
      else (case ob_secret (we_final we) of
              Inl e \<Rightarrow> (job, Some (''could not retrieve kubeconfig from secret: '' @ e), [])
            | Inr secret \<Rightarrow>
                (case mget secret ''kubeconfig'' of
                   None \<Rightarrow> (job, Some ''could not retrieve kubeconfig from pod'', [])
                 | Some kubeconfig \<Rightarrow>
                     let job1 = job\<lparr>jb_Credentials := kubeconfig\<rparr>;
                         (job2, waitErr) = (case we_kubeconfig_error we of
                             Some e \<Rightarrow> (job1, Some e)
                           | None \<Rightarrow> poll reachable_cond (we_reachable we) job1);
                         (job3, waitErr') = (case waitErr of
                             None \<Rightarrow> (job2, None)
                           | Some e \<Rightarrow> (job2\<lparr>jb_Credentials := []\<rparr>,
                                        Some (''cluster did not become reachable: '' @ e))) in
                     (case mget secret ''console.url'' of
                        None \<Rightarrow> (job3, Some ''unable to retrieve console.url from step secret'', [])
                      | Some console \<Rightarrow>
                          (job3\<lparr>jb_CredentialsSnippet := snippet_of secret console\<rparr>, waitErr',
                           [if mget0 [] (pj_Annotations pj) ''ci-chat-bot.openshift.io/expires'' = []
                            then ClearChannelAndExpire (jb_Name job) (we_now we - pj_StartTime pj + maxAge)
                            else ClearChannel (jb_Name job)])))))"

text \<open>The cluster branch of \<open>waitForJob\<close>.\<close>

definition wait_for_cluster :: "worker_env \<Rightarrow> ProwJob \<Rightarrow> duration \<Rightarrow> Job \<Rightarrow>
    Job \<times> string option \<times> worker_event list" where
  "wait_for_cluster we pj maxAge job =
     (case findTargetName (Some (sp_PodSpec (pj_Spec pj))) of
        Inl _ \<Rightarrow> (job, Some ''could not find argument --target=X in prow job pod spec to identify target pod name'', [])
      | Inr _ \<Rightarrow>
          (case poll pod_cond (we_pod we) (job, False) of
             ((job1, _), Some e) \<Rightarrow> (job1, Some (wrap_launch_error ''unable to check launch status: '' e), [])
           | ((job1, _), None) \<Rightarrow>
               (case poll setup_cond (we_setup we) job1 of
                  (job2, Some e) \<Rightarrow> (job2, Some (wrap_launch_error ''cluster never became available: '' e), [])
                | (job2, None) \<Rightarrow> collect_credentials we pj maxAge job2)))"

definition wait_for_completion :: "worker_env \<Rightarrow> Job \<Rightarrow> Job \<times> string option \<times> worker_event list" where
  "wait_for_completion we job =
     (case poll completion_cond (we_completion we) job of
        (job', Some e) \<Rightarrow> (job', Some (''did not retrieve job completion state due to an error: '' @ e), [])
      | (job', None) \<Rightarrow> (job', None, [ClearChannel (jb_Name job)]))"

definition waitForJob :: "worker_env \<Rightarrow> duration \<Rightarrow> Job \<Rightarrow> Job \<times> string option \<times> worker_event list" where
  "waitForJob we maxAge job =
     (if IsComplete job \<and> jb_CredentialsSnippet job \<noteq> [] then (job, None, [])
      else (case poll scheduled_cond (we_scheduled we) (job, None) of
              ((job1, _), Some e) \<Rightarrow>
                (job1, Some (if e = deadline_text then timed_out_text (jb_Name job)
                   else ''did not retrieve job url due to an unexpected error, please reach out for assistance in #forum-ocp-crt: '' @ e),
                 [SetupAccess (jb_Name job)])
            | ((job1, None), None) \<Rightarrow> (job1, None, [SetupAccess (jb_Name job)])
            | ((job1, Some pj), None) \<Rightarrow>
                if IsComplete job1
                then (job1, None, SetupAccess (jb_Name job) #
                   (if mget0 [] (pj_Annotations pj) ''ci-chat-bot.openshift.io/channel'' \<noteq> []
                    then [ClearChannel (jb_Name job)] else []))
                else (case (if \<not> launch_mode (jb_Mode job1) then wait_for_completion we job1
                            else wait_for_cluster we pj maxAge job1) of
                        (job2, err, evs) \<Rightarrow> (job2, err, SetupAccess (jb_Name job) # evs))))"

section \<open>The end of a worker\<close>

text \<open>\<open>finishedJob\<close>; \<open>notifier\<close> is whether a notifier is registered.\<close>

definition record_start :: "duration list \<Rightarrow> Job \<Rightarrow> duration list" where
  "record_start estimates job =
     (if launch_mode (jb_Mode job) \<and> jb_Credentials job \<noteq> [] \<and> jb_StartDuration job > 0
      then sort (take 10 (estimates @ [jb_StartDuration job])) else estimates)"

definition finishedJob :: "bool \<Rightarrow> manager \<Rightarrow> Job \<Rightarrow> manager \<times> event list" where
  "finishedJob notifier m job =
     (m\<lparr>mg_estimates := record_start (mg_estimates m) job,
        mg_jobs := mput (jb_Name job) (job\<lparr>jb_RequestedChannel := []\<rparr>) (mg_jobs m)\<rparr>,
      if jb_RequestedChannel job \<noteq> [] \<and> jb_RequestedBy job \<noteq> [] \<and> notifier then [NotifyUser job] else [])"

text \<open>
  The rest of \<open>handleJobStartup\<close> once \<open>waitForJob\<close> returned; \<open>None\<close> leaves the job to the sync loop.
\<close>

definition startup_result :: "bool \<Rightarrow> Job \<Rightarrow> string option \<Rightarrow> Job option" where
  "startup_result stillRunning job err =
     (case err of
        None \<Rightarrow> Some job
      | Some e \<Rightarrow>
          if contains e job_completed_text then Some job
          else if has_prefix e time_out_prefix then Some job
          else if has_prefix e ''cluster never became available'' \<and> stillRunning then None
          else Some (job\<lparr>jb_Failure := e\<rparr>))"

text \<open>\<open>handleJobStartup\<close> when nothing else changes the manager while the worker waits.\<close>

definition handleJobStartup :: "worker_env \<Rightarrow> bool \<Rightarrow> bool \<Rightarrow> manager \<Rightarrow> Job \<Rightarrow>
    manager \<times> event list \<times> worker_event list" where
  "handleJobStartup we notifier stillRunning m job =
     (case tryJob m (jb_Name job) of
        (_, False) \<Rightarrow> (m, [], [])
      | (m1, True) \<Rightarrow>
          (case waitForJob we (mg_maxAge m) job of
             (job', err, wevs) \<Rightarrow>
               (case startup_result stillRunning job' err of
                  None \<Rightarrow> (finishJob m1 (jb_Name job), [], wevs)
                | Some j \<Rightarrow>
                    (case finishedJob notifier m1 j of
                       (m2, evs) \<Rightarrow> (finishJob m2 (jb_Name job), evs, wevs)))))"

end
