(* ===== verification/JobSync.thy ===== *)
theory JobSync
  imports Worker
begin

text \<open>
  The periodic \<open>sync\<close> of \<open>pkg/manager/manager.go\<close>: it rebuilds the jobs and requests of the manager
  from the Prow jobs, starts workers, reports finished jobs, drives custom images of managed clusters
  and forgets what is too old.
\<close>

section \<open>What sync reads and does\<close>

record ManagedCluster =
  mc_Name :: string
  mc_Labels :: "(string, string) gomap"
  mc_Annotations :: "(string, string) gomap"

text \<open>
  \<open>se_delete\<close>, \<open>se_imageset\<close> and \<open>se_deployment\<close> are the results of \<open>deleteManagedCluster\<close>,
  \<open>createCustomImageset\<close> and \<open>createClusterDeployment\<close>; \<open>se_inputs\<close> decodes the JSON of the job inputs.
\<close>

record sync_env =
  se_now :: gotime
  se_inputs :: "string \<Rightarrow> JobInput list"
  se_schedule :: "ProwJob \<Rightarrow> string option"
  se_mceClusters :: "(string, ManagedCluster) gomap"
  se_mceDeployments :: "string list"
  se_delete :: "string \<Rightarrow> string option"
  se_imageset :: "string \<Rightarrow> string \<Rightarrow> string option"
  se_deployment :: "string \<Rightarrow> string \<Rightarrow> string \<Rightarrow> string option"

datatype sync_event =
    SyncFinished Job
  | SyncStart Job string
  | SyncDeleteMce string
  | SyncNotifyMce string string
  | SyncCreateImageset string string
  | SyncCreateDeployment string string string
  | SyncMce
  | SyncRecordError string

abbreviation annot :: "ProwJob \<Rightarrow> string \<Rightarrow> string" where
  "annot pj k \<equiv> mget0 [] (pj_Annotations pj) (''ci-chat-bot.openshift.io/'' @ k)"

section \<open>A job from a Prow job\<close>

definition expires_at :: "duration \<Rightarrow> ProwJob \<Rightarrow> gotime" where
  "expires_at maxAge pj =
     (let e0 = (case atoi (annot pj ''expires'') of
                  None \<Rightarrow> 0
                | Some n \<Rightarrow> if 0 < n then pj_CreationTimestamp pj + wrap64 (n * second) else 0);
          e1 = (if e0 = 0 then pj_CreationTimestamp pj + maxAge else e0) in
      case pj_CompletionTime pj of None \<Rightarrow> e1 | Some t \<Rightarrow> t + 15 * minute)"

definition prow_architecture :: "ProwJob \<Rightarrow> string" where
  "prow_architecture pj =
     (let a = mget0 [] (pj_Annotations pj) ''release.openshift.io/architecture'' in
      if a = [] then ''amd64'' else a)"

definition prow_build_cluster :: "sync_env \<Rightarrow> ProwJob \<Rightarrow> string" where
  "prow_build_cluster se pj =
     (let b = mget0 [] (pj_Annotations pj) ''release.openshift.io/buildCluster'' in
      if b \<noteq> [] then b
      else (case se_schedule se pj of Some c \<Rightarrow> c | None \<Rightarrow> sp_Cluster (pj_Spec pj)))"

text \<open>The \<open>Job\<close> literal of sync, with the parameters and the expiry filled in.\<close>

definition restored_job :: "sync_env \<Rightarrow> duration \<Rightarrow> ProwJob \<Rightarrow> JobInput list \<Rightarrow> (string, string) gomap \<Rightarrow> Job" where
  "restored_job se maxAge pj inputs params =
     emptyJob\<lparr>jb_Name := pj_Name pj, jb_State := pj_State pj, jb_URL := pj_URL pj,
       jb_OriginalMessage := annot pj ''originalMessage'', jb_Mode := annot pj ''mode'',
       jb_JobName := sp_Job (pj_Spec pj), jb_Platform := annot pj ''platform'',
       jb_Inputs := inputs, jb_RequestedBy := annot pj ''user'',
       jb_RequestedChannel := annot pj ''channel'', jb_RequestedAt := pj_CreationTimestamp pj,
       jb_RequesterUserID := annot pj ''requesterUserID'',
       jb_Architecture := prow_architecture pj, jb_BuildCluster := prow_build_cluster se pj,
       jb_Operator := \<lparr>op_Is = (annot pj ''IsOperator'' = ''true''),
          op_HasIndex = (annot pj ''HasIndex'' = ''true''),
          op_BundleName = annot pj ''OperatorBundleName''\<rparr>,
       jb_ManagedClusterName := annot pj ''managedClusterName'',
       jb_JobParams := params, jb_ExpiresAt := expires_at maxAge pj,
       jb_Complete := (pj_CompletionTime pj \<noteq> None)\<rparr>"

lemma restored_job_sel [simp]:
  "jb_Name (restored_job se a pj i p) = pj_Name pj"
  "jb_OriginalMessage (restored_job se a pj i p) = annot pj ''originalMessage''"
  "jb_Mode (restored_job se a pj i p) = annot pj ''mode''"
  "jb_Platform (restored_job se a pj i p) = annot pj ''platform''"
  "jb_Inputs (restored_job se a pj i p) = i"
  "jb_RequestedBy (restored_job se a pj i p) = annot pj ''user''"
  "jb_RequestedChannel (restored_job se a pj i p) = annot pj ''channel''"
  "jb_RequesterUserID (restored_job se a pj i p) = annot pj ''requesterUserID''"
  "jb_Architecture (restored_job se a pj i p) = prow_architecture pj"
  "jb_BuildCluster (restored_job se a pj i p) = prow_build_cluster se pj"
  "jb_ManagedClusterName (restored_job se a pj i p) = annot pj ''managedClusterName''"
  "jb_JobParams (restored_job se a pj i p) = p"
  "jb_ExpiresAt (restored_job se a pj i p) = expires_at a pj"
  "jb_StartDuration (restored_job se a pj i p) = 0"
  "jb_State (restored_job se a pj i p) = pj_State pj"
  by (simp_all add: restored_job_def emptyJob_def)

text \<open>The job sync builds, or \<open>None\<close> when the loop moves on to the next Prow job.\<close>

definition job_of_prow :: "sync_env \<Rightarrow> duration \<Rightarrow> ProwJob \<Rightarrow> Job option" where
  "job_of_prow se maxAge pj =
     (let text = annot pj ''jobInputs'';
          inputs = (if text = [] then [] else se_inputs se text) in
      if inputs = [] then None
      else (case ParamsFromAnnotation (annot pj ''jobParams'') of
              Inl _ \<Rightarrow> None
            | Inr params \<Rightarrow>
                if expires_at maxAge pj < se_now se then None
                else Some (restored_job se maxAge pj inputs params)))"

lemma job_of_prow_SomeE:
  assumes "job_of_prow se maxAge pj = Some j"
  obtains inputs params where "j = restored_job se maxAge pj inputs params" "inputs \<noteq> []"
    "inputs = se_inputs se (annot pj ''jobInputs'')" "ParamsFromAnnotation (annot pj ''jobParams'') = Inr params"
    "se_now se \<le> expires_at maxAge pj"
  using assms unfolding job_of_prow_def Let_def by (auto split: sum.splits if_splits)

section \<open>Custom images of managed clusters\<close>

definition delete_note :: string where
  "delete_note = [CHR 0x0A] @ ''An error also occurred when attempting to delete the previously created resources: ''"

text \<open>The error path shared by the branches of a successful image build: delete the managed cluster,
  resync and tell its owner.\<close>

definition mce_give_up :: "sync_env \<Rightarrow> string \<Rightarrow> string \<Rightarrow> sync_event list" where
  "mce_give_up se name msg =
     [SyncDeleteMce name, SyncMce,
      SyncNotifyMce name (case se_delete se name of None \<Rightarrow> msg | Some e \<Rightarrow> msg @ delete_note @ e)]"

definition mce_job_failed :: "sync_env \<Rightarrow> ProwJob \<Rightarrow> Job \<Rightarrow> sync_event list" where
  "mce_job_failed se pj j =
     (let name = jb_ManagedClusterName j in
      case mget (se_mceClusters se) name of
        None \<Rightarrow> []
      | Some mc \<Rightarrow>
          [SyncRecordError ''mce_imageset_job_run'', SyncDeleteMce name, SyncMce,
           SyncNotifyMce name (case se_delete se name of
               None \<Rightarrow> ''Failed to generate imageset for managed cluster. See logs for details: '' @ pj_URL pj @ ''.''
             | Some e \<Rightarrow> delete_note @ e)])"

definition cloud_platform :: "ManagedCluster \<Rightarrow> string" where
  "cloud_platform mc =
     (let c = mget0 [] (mc_Labels mc) ''Cloud'' in
      if c = ''Amazon'' then ''aws'' else if c = ''Google'' then ''gcp'' else [])"

definition mce_job_succeeded :: "sync_env \<Rightarrow> ProwJob \<Rightarrow> Job \<Rightarrow> sync_event list" where
  "mce_job_succeeded se pj j =
     (let name = jb_ManagedClusterName j in
      case mget (se_mceClusters se) name of
        None \<Rightarrow> []
      | Some mc \<Rightarrow>
          if name \<in> set (se_mceDeployments se) then []
          else (case mget (pj_Annotations pj) ''ci-chat-bot.openshift.io/ns'' of
                  None \<Rightarrow> mce_give_up se name
                    (''Could not identify ci-operator namespace for job '' @ pj_Name pj @ ''.'')
                | Some ns \<Rightarrow>
                    let registryURL = ''registry.'' @ jb_BuildCluster j @ ''.ci.openshift.org/'' @ ns @ ''/release:latest'' in
                    (case se_imageset se registryURL name of
                       Some e \<Rightarrow> SyncRecordError ''mce_imageset_create_ref'' # mce_give_up se name
                         (''Failed to create imageset for release created by ci-operator: '' @ e @ ''.'')
                     | None \<Rightarrow>
                         SyncCreateImageset registryURL name #
                         (case se_deployment se name (mget0 [] (mc_Annotations mc) ''ci-chat-bot/base-domain'') (cloud_platform mc) of
                            Some e \<Rightarrow> mce_give_up se name (''Failed to create Cluster Deployment: '' @ e)
                          | None \<Rightarrow> [SyncCreateDeployment name
                              (mget0 [] (mc_Annotations mc) ''ci-chat-bot/base-domain'') (cloud_platform mc)]))))"

section \<open>The loop over the Prow jobs\<close>

definition input_strings :: "JobInput list \<Rightarrow> string list list" where
  "input_strings inputs =
     filter (\<lambda>c. c \<noteq> []) (map (\<lambda>i.
       (if ji_Version i \<noteq> [] then [ji_Version i] else if ji_Image i \<noteq> [] then [ji_Image i] else []) @
       concat (map (\<lambda>r. map (\<lambda>p. rf_Org r @ ''/'' @ rf_Repo r @ ''#'' @ show_int (pl_Number p)) (rf_Pulls r))
         (ji_Refs i))) inputs)"

definition request_of_prow :: "ProwJob \<Rightarrow> Job \<Rightarrow> JobRequest" where
  "request_of_prow pj j =
     \<lparr>rq_OriginalMessage = annot pj ''originalMessage'', rq_User = jb_RequestedBy j, rq_UserName = [],
      rq_Inputs = input_strings (jb_Inputs j), rq_Type = [], rq_Platform = annot pj ''platform'',
      rq_WorkflowName = [], rq_Channel = annot pj ''channel'', rq_RequestedAt = pj_CreationTimestamp pj,
      rq_Name = pj_Name pj, rq_JobName = sp_Job (pj_Spec pj), rq_JobParams = jb_JobParams j,
      rq_Architecture = prow_architecture pj, rq_ManagedClusterName = []\<rparr>"

definition adopt_request :: "ProwJob \<Rightarrow> Job option \<Rightarrow> Job \<Rightarrow> manager \<Rightarrow> manager" where
  "adopt_request pj previous j m =
     (if launch_mode (jb_Mode j) \<and> jb_RequestedBy j \<noteq> [] \<and> \<not> mhas (mg_requests m) (jb_RequestedBy j) \<and>
         (case previous of None \<Rightarrow> True | Some p \<Rightarrow> \<not> jb_Complete p)
      then m\<lparr>mg_requests := mput (jb_RequestedBy j) (request_of_prow pj j) (mg_requests m)\<rparr> else m)"

definition changed_state :: "Job option \<Rightarrow> Job \<Rightarrow> bool" where
  "changed_state previous j = (case previous of None \<Rightarrow> True | Some p \<Rightarrow> jb_State p \<noteq> jb_State j)"

definition put_job :: "Job \<Rightarrow> manager \<Rightarrow> manager" where
  "put_job j m = m\<lparr>mg_jobs := mput (jb_Name j) j (mg_jobs m)\<rparr>"

abbreviation pending_state :: "ProwJobState \<Rightarrow> bool" where
  "pending_state st \<equiv> st = SchedulingState \<or> st = TriggeredState \<or> st = PendingState \<or> st = []"

definition sync_job :: "sync_env \<Rightarrow> ProwJob \<Rightarrow> manager \<Rightarrow> manager \<times> sync_event list" where
  "sync_job se pj m =
     (case job_of_prow se (mg_maxAge m) pj of
        None \<Rightarrow> (m, [])
      | Some j0 \<Rightarrow>
          let previous = mget (mg_jobs m) (pj_Name pj) in
          if pj_State pj = FailureState
          then let j = j0\<lparr>jb_Failure := ''job failed, see logs''\<rparr> in
            (put_job j m, (if changed_state previous j then [SyncFinished j] else []) @ mce_job_failed se pj j)
          else if pj_State pj = SuccessState
          then let j = j0\<lparr>jb_Failure := []\<rparr> in
            (put_job j m,
             if changed_state previous j \<and> jb_ManagedClusterName j = [] then [SyncFinished j]
             else if jb_ManagedClusterName j \<noteq> [] then mce_job_succeeded se pj j else [])
          else if pending_state (pj_State pj)
          then let j = j0\<lparr>jb_State := PendingState, jb_Failure := []\<rparr> in
            (put_job j (adopt_request pj previous j m),
             if changed_state previous j \<or> (case previous of None \<Rightarrow> True | Some p \<Rightarrow> \<not> IsComplete p)
             then [SyncStart j ''sync''] else [])
          else (m, []))"

fun sync_jobs :: "sync_env \<Rightarrow> ProwJob list \<Rightarrow> manager \<Rightarrow> manager \<times> sync_event list" where
  "sync_jobs se [] m = (m, [])"
| "sync_jobs se (pj # pjs) m =
     (case sync_job se pj m of (m1, evs) \<Rightarrow>
        (case sync_jobs se pjs m1 of (m2, evs') \<Rightarrow> (m2, evs @ evs')))"

definition forget_old :: "gotime \<Rightarrow> manager \<Rightarrow> manager" where
  "forget_old now m =
     m\<lparr>mg_jobs := fold (\<lambda>j jobs. if jb_ExpiresAt j < now then mdel (jb_Name j) jobs else jobs)
          (mvals (mg_jobs m)) (mg_jobs m),
       mg_requests := fold (\<lambda>r reqs. if rq_RequestedAt r + 2 * mg_maxAge m < now then mdel (rq_User r) reqs else reqs)
          (mvals (mg_requests m)) (mg_requests m)\<rparr>"

definition sync :: "sync_env \<Rightarrow> (string, ProwJob list) result \<Rightarrow> manager \<Rightarrow>
    (string, manager \<times> sync_event list) result" where
  "sync se prowjobs m =
     (case prowjobs of
        Inl e \<Rightarrow> Inl e
      | Inr pjs \<Rightarrow> (case sync_jobs se pjs m of (m1, evs) \<Rightarrow> Inr (forget_old (se_now se) m1, evs)))"

end
