(* ===== verification/JobAssembly.thy ===== *)
theory JobAssembly
  imports JobSync
begin

text \<open>
  The first part of \<open>newJob\<close> of \<open>pkg/manager/prow.go\<close>: the metadata of the Prow job that carries the
  job across restarts of the bot, the expiry and retention settings, and the release images its
  containers see. \<open>json\<close> stands for \<open>json.Marshal\<close> of the inputs and \<open>hash\<close> for \<open>namespaceSafeHash\<close>
  (a truncated SHA-256).
\<close>

section \<open>Metadata\<close>

definition LaunchLabel :: string where
  "LaunchLabel = ''ci-chat-bot.openshift.io/launch''"

definition launchDeadline :: duration where
  "launchDeadline = 45 * minute"

text \<open>The annotations and labels of the \<open>ObjectMeta\<close> literal.\<close>

definition job_annotations :: "(JobInput list \<Rightarrow> string) \<Rightarrow> string \<Rightarrow> Job \<Rightarrow> ProwJobSpec \<Rightarrow> (string, string) gomap" where
  "job_annotations json namespace job spec =
     [(''ci-chat-bot.openshift.io/originalMessage'', jb_OriginalMessage job),
      (''ci-chat-bot.openshift.io/mode'', jb_Mode job),
      (''ci-chat-bot.openshift.io/jobParams'', paramsToString (jb_JobParams job)),
      (''ci-chat-bot.openshift.io/user'', jb_RequestedBy job),
      (''ci-chat-bot.openshift.io/channel'', jb_RequestedChannel job),
      (''ci-chat-bot.openshift.io/ns'', namespace),
      (''ci-chat-bot.openshift.io/platform'', jb_Platform job),
      (''ci-chat-bot.openshift.io/jobInputs'', json (jb_Inputs job)),
      (''ci-chat-bot.openshift.io/buildCluster'', jb_BuildCluster job),
      (''ci-chat-bot.openshift.io/requesterUserID'', jb_RequesterUserID job),
      (''prow.k8s.io/job'', sp_Job spec),
      (''release.openshift.io/architecture'', jb_Architecture job)]"

definition job_labels :: "Job \<Rightarrow> ProwJobSpec \<Rightarrow> (string, string) gomap" where
  "job_labels job spec =
     [(LaunchLabel, ''true''),
      (''prow.k8s.io/type'', sp_Type spec),
      (''prow.k8s.io/job'', sp_Job spec),
      (''ci-operator.openshift.io/cloud'', jb_Platform job),
      (''ci-operator.openshift.io/cloud-cluster-profile'', jb_Platform job)]"

text \<open>A job that upgrades between two published versions is registered for the release controller.\<close>

definition upgrade_edge :: "JobInput list \<Rightarrow> (string \<times> string) option" where
  "upgrade_edge inputs =
     (case inputs of
        [a, b] \<Rightarrow> if ji_Refs a = [] \<and> ji_Refs b = [] \<and> ji_Version a \<noteq> [] \<and> ji_Version b \<noteq> []
                  then Some (ji_Version a, ji_Version b) else None
      | _ \<Rightarrow> None)"

definition job_variants :: "Job \<Rightarrow> string list" where
  "job_variants job = sort (filter (\<lambda>k. k \<in> set SupportedParameters) (mkeys (jb_JobParams job)))"

definition job_metadata :: "(JobInput list \<Rightarrow> string) \<Rightarrow> string \<Rightarrow> duration \<Rightarrow> Job \<Rightarrow> ProwJob \<Rightarrow> ProwJob" where
  "job_metadata json namespace maxAge job pj =
     (let a0 = job_annotations json namespace job (pj_Spec pj);
          l0 = job_labels job (pj_Spec pj);
          a1 = (if jb_ManagedClusterName job \<noteq> []
                then mput ''ci-chat-bot.openshift.io/managedClusterName'' (jb_ManagedClusterName job) a0 else a0);
          (l2, a2) = (case upgrade_edge (jb_Inputs job) of
              None \<Rightarrow> (l0, a1)
            | Some (v, w) \<Rightarrow> (mput ''release.openshift.io/verify'' ''true'' l0,
                mput ''release.openshift.io/tag'' w (mput ''release.openshift.io/from-tag'' v a1)));
          a3 = mput ''ci-chat-bot.openshift.io/expires'' (show_int (tdiv (maxAge + launchDeadline) second)) a2 in
      pj\<lparr>pj_Name := jb_Name job, pj_Annotations := a3, pj_Labels := l2\<rparr>)"

section \<open>Retention and release images\<close>

definition keeps_images :: "JobType \<Rightarrow> bool" where
  "keeps_images mode \<longleftrightarrow> mode = JobTypeBuild \<or> mode = JobTypeCatalog \<or> mode = JobTypeMCECustomImage"

definition retention_env :: "duration \<Rightarrow> Job \<Rightarrow> ProwJobSpec \<Rightarrow> ProwJobSpec" where
  "retention_env maxAge job spec =
     (let spec1 = OverrideJobEnvVar ''CLUSTER_DURATION'' (show_int (tdiv maxAge second)) spec in
      if keeps_images (jb_Mode job)
      then SetJobEnvVar ''DELETE_AFTER'' ''168h'' (SetJobEnvVar ''PRESERVE_DURATION'' ''168h'' spec1)
      else SetJobEnvVar ''DELETE_AFTER'' ''12h'' (SetJobEnvVar ''PRESERVE_DURATION'' ''1h'' spec1))"

text \<open>\<open>reVersion\<close>, the pattern \<open>^(\d+\.\d+)\<close>, and its submatch.\<close>

definition reVersion :: "string \<Rightarrow> string option" where
  "reVersion v =
     (let maj = takeWhile is_digit v; rest = dropWhile is_digit v in
      case rest of
        c # r \<Rightarrow> if maj \<noteq> [] \<and> c = CHR ''.'' \<and> takeWhile is_digit r \<noteq> []
                 then Some (maj @ ''.'' @ takeWhile is_digit r) else None
      | [] \<Rightarrow> None)"

text \<open>The release the job runs for: the last input with a version, or the current release.\<close>

definition target_release :: "JobInput list \<Rightarrow> string" where
  "target_release inputs =
     (let t = fold (\<lambda>i acc. case reVersion (ji_Version i) of Some r \<Rightarrow> r | None \<Rightarrow> acc) inputs [] in
      if t = [] then currentReleasePrefix else t)"

text \<open>The images of an upgrade that are restored for the last step.\<close>

definition restore_script :: "JobInput list \<Rightarrow> string list" where
  "restore_script inputs =
     (if length inputs > 1
      then (if ji_Refs (hd inputs) = [] \<and> ji_Image (hd inputs) \<noteq> []
            then [''RELEASE_IMAGE_INITIAL='' @ ji_Image (hd inputs)] else []) @
           (if ji_Refs (last inputs) = [] \<and> ji_RunImage (last inputs) \<noteq> []
            then [''RELEASE_IMAGE_LATEST='' @ ji_RunImage (last inputs)] else [])
      else [])"

definition initial_image :: "JobInput list \<Rightarrow> string" where
  "initial_image inputs = (if length inputs > 1 then ji_Image (hd inputs) else [])"

definition latest_image :: "JobInput list \<Rightarrow> string" where
  "latest_image inputs =
     (let l = last inputs in
      if ji_Image l \<noteq> [] \<and> ji_Version l = [] \<and> ji_RunImage l = [] then ji_Image l else ji_RunImage l)"

definition arm64_env :: "string \<Rightarrow> EnvVar list \<Rightarrow> EnvVar list" where
  "arm64_env img env =
     (if \<exists>e \<in> set env. ev_Name e = ''RELEASE_IMAGE_ARM64_LATEST''
      then map (\<lambda>e. if ev_Name e = ''RELEASE_IMAGE_ARM64_LATEST'' then e\<lparr>ev_Value := img\<rparr> else e) env
      else env @ [plain_env ''RELEASE_IMAGE_ARM64_LATEST'' img])"

definition release_env :: "string \<Rightarrow> Job \<Rightarrow> ProwJobSpec \<Rightarrow> ProwJobSpec" where
  "release_env namespace job spec =
     (let inputs = jb_Inputs job;
          spec1 = OverrideJobEnvironment (latest_image inputs) (initial_image inputs) (target_release inputs)
                    namespace (job_variants job) spec in
      if jb_Architecture job = ''arm64''
      then map_containers (\<lambda>c. c\<lparr>ct_Env := arm64_env (ji_Image (last inputs)) (ct_Env c)\<rparr>) spec1
      else spec1)"

text \<open>
  \<open>newJob\<close> up to the point where it looks up the ci-operator configuration. The source indexes the
  last input, so no input is a panic.
\<close>

definition assemble_base :: "(JobInput list \<Rightarrow> string) \<Rightarrow> (string \<Rightarrow> string) \<Rightarrow> duration \<Rightarrow> Job \<Rightarrow> ProwJob \<Rightarrow> ProwJob option" where
  "assemble_base json hash maxAge job pj =
     (if jb_Inputs job = [] then None
      else let namespace = ''ci-ln-'' @ hash (jb_Name job);
               pj1 = job_metadata json namespace maxAge job pj in
        Some (pj1\<lparr>pj_Spec := release_env namespace job (retention_env maxAge job (pj_Spec pj1))\<rparr>))"

text \<open>\<open>clearNotificationAnnotations\<close>: the merge patch of the annotations; \<open>startDuration\<close> is the start
  duration of a cluster that came up.\<close>

definition clearNotificationAnnotations :: "duration \<Rightarrow> duration option \<Rightarrow> ProwJob \<Rightarrow> ProwJob" where
  "clearNotificationAnnotations maxAge startDuration pj =
     (let a = mput ''ci-chat-bot.openshift.io/channel'' [] (pj_Annotations pj) in
      pj\<lparr>pj_Annotations := (case startDuration of
          None \<Rightarrow> a
        | Some d \<Rightarrow> mput ''ci-chat-bot.openshift.io/expires'' (show_int (tdiv (d + maxAge) second)) a)\<rparr>)"

section \<open>What survives a restart\<close>

lemma job_metadata_sel [simp]:
  "pj_Name (job_metadata json ns a job pj) = jb_Name job"
  "pj_Spec (job_metadata json ns a job pj) = pj_Spec pj"
  "pj_State (job_metadata json ns a job pj) = pj_State pj"
  "pj_URL (job_metadata json ns a job pj) = pj_URL pj"
  "pj_CompletionTime (job_metadata json ns a job pj) = pj_CompletionTime pj"
  "pj_CreationTimestamp (job_metadata json ns a job pj) = pj_CreationTimestamp pj"
  by (auto simp: job_metadata_def Let_def split: option.splits)

lemma metadata_mget:
  assumes "k \<notin> {''ci-chat-bot.openshift.io/managedClusterName'', ''ci-chat-bot.openshift.io/expires'',
      ''release.openshift.io/tag'', ''release.openshift.io/from-tag''}"
  shows "mget (pj_Annotations (job_metadata json ns a job pj)) k = mget (job_annotations json ns job (pj_Spec pj)) k"
  using assms by (auto simp: job_metadata_def Let_def gm.lookup_insert split: option.splits)

lemma metadata_annotations:
  "annot (job_metadata json ns a job pj) ''originalMessage'' = jb_OriginalMessage job"
  "annot (job_metadata json ns a job pj) ''mode'' = jb_Mode job"
  "annot (job_metadata json ns a job pj) ''jobParams'' = paramsToString (jb_JobParams job)"
  "annot (job_metadata json ns a job pj) ''user'' = jb_RequestedBy job"
  "annot (job_metadata json ns a job pj) ''channel'' = jb_RequestedChannel job"
  "annot (job_metadata json ns a job pj) ''ns'' = ns"
  "annot (job_metadata json ns a job pj) ''platform'' = jb_Platform job"
  "annot (job_metadata json ns a job pj) ''jobInputs'' = json (jb_Inputs job)"
  "annot (job_metadata json ns a job pj) ''requesterUserID'' = jb_RequesterUserID job"
  "annot (job_metadata json ns a job pj) ''IsOperator'' = []"
  "annot (job_metadata json ns a job pj) ''HasIndex'' = []"
  "annot (job_metadata json ns a job pj) ''OperatorBundleName'' = []"
  "mget0 [] (pj_Annotations (job_metadata json ns a job pj)) ''release.openshift.io/architecture'' = jb_Architecture job"
  "mget0 [] (pj_Annotations (job_metadata json ns a job pj)) ''release.openshift.io/buildCluster'' = []"
  by (simp_all add: mget0_def metadata_mget job_annotations_def)

lemma metadata_managed: "annot (job_metadata json ns a job pj) ''managedClusterName'' = jb_ManagedClusterName job"
  by (auto simp: job_metadata_def Let_def job_annotations_def mget0_def gm.lookup_insert split: option.splits)

lemma metadata_expires:
  "annot (job_metadata json ns a job pj) ''expires'' = show_int (tdiv (a + launchDeadline) second)"
  by (auto simp: job_metadata_def Let_def mget0_def gm.lookup_insert split: option.splits)

end
