(* ===== verification/JobConfig.thy ===== *)
theory JobConfig
  imports JobAssembly
begin

text \<open>
  The second part of \<open>newJob\<close> of \<open>pkg/manager/prow.go\<close>: the ci-operator configuration of the launch job is
  loaded, its tests are rewritten for the mode of the job, and, when the job has pull requests, one child
  configuration per repository is added (\<open>processOperatorPR\<close> selects the operator bundle). The result is the
  Prow job that is created. JSON and YAML, the configuration resolver, the cluster clients and the texts of
  the shell scripts are parameters. Nil dereferences, writes to nil maps and indexing an empty slice are the
  error \<open>Panic\<close>.
\<close>

section \<open>Parameters\<close>

datatype assembly_error =
    Panic
  | JobNotFound prow_error
  | NoConfigEnv string
  | NoClusterClient string
  | LaunchConfig prow_error
  | NoTestNamed string
  | UnknownTestType string
  | ProfileError prow_error
  | NoReleaseVersion
  | NoRegistry
  | UnknownCommand string
  | ResolveFailed Refs string
  | NotConfigured Refs
  | BadTargetConfig
  | BundleWithBuild string
  | ManyOperators
  | NoBundleTest string
  | BundleWithoutOperator string
  | TargetError prow_error
  | CreateFailed string
  | UrlTimeout string
  | UrlFailed string

record WorkflowConfigItem =
  wi_BaseImages :: "(string, ImageStreamTagReference) gomap"
  wi_Platform :: string
  wi_Architecture :: string

record cluster_client =
  cl_configMaps :: "string \<Rightarrow> (string, string) gomap option"
  cl_registry :: "string option"

record assembly =
  as_namespace :: string
  as_unmarshal :: "string \<Rightarrow> ReleaseBuildConfiguration option"
  as_marshal :: "ReleaseBuildConfiguration \<Rightarrow> string"
  as_marshalSpec :: "(Refs \<times> string) list \<Rightarrow> Refs option \<Rightarrow> string"
  as_resolveConfig :: "string \<Rightarrow> string \<Rightarrow> string \<Rightarrow> (string, string option) result"
  as_clients :: "(string, cluster_client) gomap"
  as_workflows :: "(string, WorkflowConfigItem) gomap"
  as_script :: string
  as_mceScript :: string
  as_configInitial :: string

definition ocClientVersion :: string where
  "ocClientVersion = ''4.22.0''"

definition getClusterClient :: "assembly \<Rightarrow> Job \<Rightarrow> (assembly_error, cluster_client) result" where
  "getClusterClient a job =
     (case mget (as_clients a) (jb_BuildCluster job) of
        None \<Rightarrow> Inl (NoClusterClient (jb_BuildCluster job))
      | Some c \<Rightarrow> Inr c)"

section \<open>The tests of the launch configuration\<close>

text \<open>Writing through the pointer to the multistage configuration of a test.\<close>

definition on_ms :: "(MultiStageTest \<Rightarrow> (assembly_error, MultiStageTest) result) \<Rightarrow> TestStepConfiguration \<Rightarrow>
    (assembly_error, TestStepConfiguration) result" where
  "on_ms f t =
     (case ts_MultiStage t of
        None \<Rightarrow> Inl Panic
      | Some ms \<Rightarrow> rbind (f ms) (\<lambda>ms'. Inr (t\<lparr>ts_MultiStage := Some ms'\<rparr>)))"

definition nil_map :: "(string, 'v) gomap option \<Rightarrow> (string, 'v) gomap" where
  "nil_map m = (case m of None \<Rightarrow> [] | Some e \<Rightarrow> e)"

text \<open>A workflow job runs one test, made from its parameters.\<close>

definition workflow_mode :: "JobType \<Rightarrow> bool" where
  "workflow_mode mode \<longleftrightarrow> mode = JobTypeWorkflowLaunch \<or> mode = JobTypeWorkflowUpgrade \<or> mode = JobTypeWorkflowTest"

definition workflow_test :: "Job \<Rightarrow> string \<Rightarrow> string list \<Rightarrow> TestStepConfiguration" where
  "workflow_test job profile leases =
     \<lparr>ts_As = ''launch'', ts_Commands = [], ts_ContainerFrom = None,
      ts_MultiStage = Some \<lparr>ms_ClusterProfile = profile, ms_Pre = [],
        ms_Test = (if jb_Mode job = JobTypeWorkflowLaunch then [Reference ''clusterbot-wait''] else []),
        ms_Post = [], ms_Workflow = Some (jb_WorkflowName job), ms_Environment = Some (jb_JobParams job),
        ms_Dependencies = None, ms_Leases = leases\<rparr>,
      ts_Literal = None\<rparr>"

definition copy_map :: "('k, 'v) gomap \<Rightarrow> ('k, 'v) gomap \<Rightarrow> ('k, 'v) gomap" where
  "copy_map dst src = fold (\<lambda>(k, v). mput k v) src dst"

definition workflow_config :: "assembly \<Rightarrow> Job \<Rightarrow> ReleaseBuildConfiguration \<Rightarrow>
    (assembly_error, ReleaseBuildConfiguration) result" where
  "workflow_config a job cfg =
     (let images = (case mget (as_workflows a) (jb_WorkflowName job) of None \<Rightarrow> [] | Some w \<Rightarrow> wi_BaseImages w);
          cfg1 = cfg\<lparr>rc_BaseImages := Some (copy_map (nil_map (rc_BaseImages cfg)) images)\<rparr> in
      case find (\<lambda>t. ts_As t = ''launch'') (rc_Tests cfg) of
        None \<Rightarrow> Inr (cfg1\<lparr>rc_Tests := [workflow_test job [] []]\<rparr>)
      | Some t \<Rightarrow>
          (case ts_MultiStage t of
             None \<Rightarrow> Inl Panic
           | Some ms \<Rightarrow> Inr (cfg1\<lparr>rc_Tests := [workflow_test job (ms_ClusterProfile ms) (ms_Leases ms)]\<rparr>)))"

text \<open>The edits of the matched test, in the order of the source.\<close>

definition spot_edit :: "Job \<Rightarrow> TestStepConfiguration \<Rightarrow> (assembly_error, TestStepConfiguration) result" where
  "spot_edit job t =
     (if UseSpotInstances job
      then on_ms (\<lambda>ms. case ms_Environment ms of
                         None \<Rightarrow> Inl Panic
                       | Some e \<Rightarrow> Inr (ms\<lparr>ms_Environment := Some (mput ''SPOT_INSTANCES'' ''true'' e)\<rparr>)) t
      else Inr t)"

definition param_env :: "string \<Rightarrow> (string, string) gomap \<Rightarrow> (string, string) gomap" where
  "param_env p e = (case mget MultistageParameters p of None \<Rightarrow> mput [] [] e | Some (n, v, _) \<Rightarrow> mput n v e)"

definition env_params :: "Job \<Rightarrow> string list" where
  "env_params job = filter (\<lambda>k. k \<in> set (multistageParamsForPlatform (jb_Platform job))) (mkeys (jb_JobParams job))"

definition params_edit :: "Job \<Rightarrow> TestStepConfiguration \<Rightarrow> (assembly_error, TestStepConfiguration) result" where
  "params_edit job t =
     (if env_params job \<noteq> []
      then on_ms (\<lambda>ms. Inr (ms\<lparr>ms_Environment := Some (fold param_env (env_params job) (nil_map (ms_Environment ms)))\<rparr>)) t
      else Inr t)"

definition test_edit :: "string \<Rightarrow> Job \<Rightarrow> TestStepConfiguration \<Rightarrow> (assembly_error, TestStepConfiguration) result" where
  "test_edit targetName job t =
     (if jb_Mode job = JobTypeTest
      then on_ms (\<lambda>ms.
             let ms1 = (if has_prefix targetName ''launch''
                        then ms\<lparr>ms_Test := [Reference (testStepForPlatform (jb_Platform job))]\<rparr> else ms)
             in Inr (ms1\<lparr>ms_Environment := map_option (mdel ''CLUSTER_DURATION'') (ms_Environment ms1)\<rparr>)) t
      else Inr t)"

definition upgrade_edit :: "Job \<Rightarrow> TestStepConfiguration \<Rightarrow> (assembly_error, TestStepConfiguration) result" where
  "upgrade_edit job t =
     (if jb_Mode job = JobTypeUpgrade
      then on_ms (\<lambda>ms. Inr (ms\<lparr>ms_Dependencies := Some
             (mput ''OPENSHIFT_UPGRADE_RELEASE_IMAGE_OVERRIDE'' ''release:latest''
               (mput ''OPENSHIFT_INSTALL_RELEASE_IMAGE_OVERRIDE'' ''release:initial''
                 (nil_map (ms_Dependencies ms))))\<rparr>)) t
      else Inr t)"

definition suite_edit :: "Job \<Rightarrow> TestStepConfiguration \<Rightarrow> (assembly_error, TestStepConfiguration) result" where
  "suite_edit job t =
     (if jb_Mode job = JobTypeTest \<or> jb_Mode job = JobTypeUpgrade
      then on_ms (\<lambda>ms.
             (case mget envsForTestType (mget0 [] (jb_JobParams job) ''test'') of
                None \<Rightarrow> Inl (UnknownTestType (mget0 [] (jb_JobParams job) ''test''))
              | Some envs \<Rightarrow> Inr (ms\<lparr>ms_Environment := Some (copy_map (nil_map (ms_Environment ms)) envs)\<rparr>))) t
      else Inr t)"

definition image_edit :: "Job \<Rightarrow> TestStepConfiguration \<Rightarrow> (assembly_error, TestStepConfiguration) result" where
  "image_edit job t =
     (if jb_Mode job = JobTypeMCECustomImage \<or> jb_Mode job = JobTypeBuild
      then on_ms (\<lambda>ms. Inr (ms\<lparr>ms_Test := [Reference ''ipi-install-rbac''], ms_Pre := [], ms_Post := [],
             ms_Workflow := None, ms_Environment := None\<rparr>)) t
      else Inr t)"

definition edit_target :: "string \<Rightarrow> Job \<Rightarrow> TestStepConfiguration \<Rightarrow> (assembly_error, TestStepConfiguration) result" where
  "edit_target targetName job t =
     rbind (spot_edit job t) (\<lambda>t1.
     rbind (params_edit job t1) (\<lambda>t2.
     rbind (test_edit targetName job t2) (\<lambda>t3.
     rbind (upgrade_edit job t3) (\<lambda>t4.
     rbind (suite_edit job t4) (image_edit job)))))"

text \<open>
  The matched test is a copy of the entry of \<open>sourceConfig.Tests\<close>, but its multistage configuration is
  shared with the entry: the edits show in the list even when the test keeps its name.
\<close>

primrec share_ms :: "string \<Rightarrow> MultiStageTest option \<Rightarrow> TestStepConfiguration list \<Rightarrow> TestStepConfiguration list" where
  "share_ms name ms [] = []"
| "share_ms name ms (t # ts) = (if ts_As t = name then t\<lparr>ts_MultiStage := ms\<rparr> # ts else t # share_ms name ms ts)"

definition matched_config :: "string \<Rightarrow> Job \<Rightarrow> ReleaseBuildConfiguration \<Rightarrow>
    (assembly_error, ReleaseBuildConfiguration) result" where
  "matched_config targetName job cfg =
     (case find (\<lambda>t. ts_As t = targetName) (rc_Tests cfg) of
        None \<Rightarrow> Inl (NoTestNamed targetName)
      | Some t \<Rightarrow>
          rbind (edit_target targetName job t) (\<lambda>t'.
            Inr (cfg\<lparr>rc_Tests := (if targetName \<noteq> ''launch'' then [t'\<lparr>ts_As := ''launch''\<rparr>]
                                   else share_ms targetName (ts_MultiStage t') (rc_Tests cfg))\<rparr>)))"

definition rewrite_tests :: "assembly \<Rightarrow> string \<Rightarrow> Job \<Rightarrow> ReleaseBuildConfiguration \<Rightarrow>
    (assembly_error, ReleaseBuildConfiguration) result" where
  "rewrite_tests a targetName job cfg =
     (if workflow_mode (jb_Mode job) then workflow_config a job cfg else matched_config targetName job cfg)"

section \<open>Releases\<close>

definition integration_releases :: "string \<Rightarrow> string \<Rightarrow> (string, UnresolvedRelease) gomap" where
  "integration_releases name namespace =
     [(''initial'', Integration name namespace False), (''latest'', Integration name namespace True)]"

definition branch_releases :: "string \<Rightarrow> (string, UnresolvedRelease) gomap" where
  "branch_releases arch =
     (let r = integration_releases ''$(BRANCH)'' ''ocp'' in
      if arch = ''arm64'' then mput ''arm64-latest'' (Candidate ''ocp'' ''arm64'' ''nightly'' ''4.19'') r else r)"

section \<open>Operators\<close>

text \<open>
  The test of the target configuration that installs the bundle: a step that depends on the index, or a step
  \<open>install\<close> that depends on the bundle (the labelled loop of \<open>processOperatorPR\<close>).
\<close>

datatype bundle_test = is_index: IndexTest "(string \<times> string option) list" | BundleStep LiteralTestStep

definition uses_index :: "string \<Rightarrow> LiteralTestStep \<Rightarrow> bool" where
  "uses_index indexName s \<longleftrightarrow> list_ex (\<lambda>d. sd_Env d = ''OO_INDEX'' \<and> sd_Name d = indexName) (ls_Dependencies s)"

definition installs_bundle :: "LiteralTestStep \<Rightarrow> bool" where
  "installs_bundle s \<longleftrightarrow> ls_As s = ''install'' \<and> list_ex (\<lambda>d. sd_Env d = ''OO_BUNDLE'') (ls_Dependencies s)"

primrec find_bundle_test :: "string \<Rightarrow> TestStepConfiguration list \<Rightarrow> bundle_test option" where
  "find_bundle_test indexName [] = None"
| "find_bundle_test indexName (t # ts) =
     (case ts_Literal t of
        None \<Rightarrow> find_bundle_test indexName ts
      | Some ml \<Rightarrow>
          (case find (uses_index indexName) (ml_Pre ml) of
             Some s \<Rightarrow> Some (IndexTest (ls_Environment s))
           | None \<Rightarrow>
               (case find installs_bundle (ml_Test ml) of
                  Some s \<Rightarrow> Some (BundleStep s)
                | None \<Rightarrow> find_bundle_test indexName ts)))"

definition operatorInstallCompleteStep :: LiteralTestStep where
  "operatorInstallCompleteStep =
     \<lparr>ls_As = ''chat-bot-operator-complete'', ls_From = ''pipeline:src'',
      ls_Commands = ''echo '' @ [CHR 0x27] @ ''complete'' @ [CHR 0x27] @ '' > ${SHARED_DIR}/operator_complete.txt'',
      ls_Requests = [(''cpu'', ''100m''), (''memory'', ''200Mi'')], ls_Environment = [], ls_Dependencies = []\<rparr>"

text \<open>The defaults of the parameters of the step; a parameter without one is a nil dereference.\<close>

primrec copy_defaults :: "(string \<times> string option) list \<Rightarrow> (string, string) gomap \<Rightarrow>
    (assembly_error, (string, string) gomap) result" where
  "copy_defaults [] e = Inr e"
| "copy_defaults (p # ps) e =
     (case snd p of None \<Rightarrow> Inl Panic | Some d \<Rightarrow> copy_defaults ps (mput (fst p) d e))"

definition install_operator :: "Job \<Rightarrow> string \<Rightarrow> bundle_test \<Rightarrow> MultiStageTest \<Rightarrow>
    (assembly_error, MultiStageTest) result" where
  "install_operator job indexName b ms =
     (let deps = nil_map (ms_Dependencies ms) in
      case b of
        IndexTest params \<Rightarrow>
          rbind (copy_defaults params (nil_map (ms_Environment ms))) (\<lambda>e.
            Inr (ms\<lparr>ms_Environment := Some e, ms_Dependencies := Some (mput ''OO_INDEX'' indexName deps),
                     ms_Test := Reference ''optional-operators-subscribe'' #
                       (if ms_Test ms = [] then [Reference (testStepForPlatform (jb_Platform job))] else ms_Test ms)\<rparr>))
      | BundleStep s \<Rightarrow>
          Inr (ms\<lparr>ms_Environment := Some (nil_map (ms_Environment ms)), ms_Dependencies := Some deps,
                   ms_Test := Literal_step s # Literal_step operatorInstallCompleteStep # ms_Test ms\<rparr>))"

primrec install_in_launch :: "Job \<Rightarrow> string \<Rightarrow> bundle_test \<Rightarrow> TestStepConfiguration list \<Rightarrow>
    (assembly_error, TestStepConfiguration list) result" where
  "install_in_launch job indexName b [] = Inr []"
| "install_in_launch job indexName b (t # ts) =
     rbind (if ts_As t = ''launch'' then on_ms (install_operator job indexName b) t else Inr t) (\<lambda>t'.
     rbind (install_in_launch job indexName b ts) (\<lambda>ts'. Inr (t' # ts')))"

definition stable_image :: "ImageBuild \<Rightarrow> ImageStreamTagReference" where
  "stable_image img = \<lparr>ir_Namespace = ''$(NAMESPACE)'', ir_Name = ''stable'', ir_Tag = im_To img\<rparr>"

definition add_images :: "ImageBuild list \<Rightarrow> (string, ImageStreamTagReference) gomap \<Rightarrow>
    (string, ImageStreamTagReference) gomap" where
  "add_images imgs base = fold (\<lambda>img. mput (im_To img) (stable_image img)) imgs base"

definition add_missing :: "('k, 'v) gomap \<Rightarrow> ('k, 'v) gomap \<Rightarrow> ('k, 'v) gomap" where
  "add_missing src dst = fold (\<lambda>(k, v) m. if mhas m k then m else mput k v m) src dst"

text \<open>
  \<open>processOperatorPR\<close>: the new operator repository (empty for none), the source configuration, the operator
  information of the job and the annotations of the Prow job. \<open>choose_bundle\<close> gives the name of the index, the
  bundle of the job and the bundle that is annotated: only one that was chosen by default.
\<close>

definition repo_name_of :: "Refs \<Rightarrow> string" where
  "repo_name_of ref = rf_Org ref @ ''/'' @ rf_Repo ref"

definition choose_bundle :: "Job \<Rightarrow> string list \<Rightarrow> string \<Rightarrow> string \<times> string \<times> string option" where
  "choose_bundle job bundles old =
     (case mget (jb_JobParams job) ''bundle'' of
        Some name \<Rightarrow> (''ci-index-'' @ name, name, None)
      | None \<Rightarrow> (if hd bundles = [] then (''ci-index'', old, None)
                 else (''ci-index-'' @ hd bundles, hd bundles, Some (hd bundles))))"

definition operator_annotations :: "string option \<Rightarrow> bool \<Rightarrow> (string, string) gomap \<Rightarrow> (string, string) gomap" where
  "operator_annotations named hasIndex annots =
     (let annots1 = mput ''ci-chat-bot.openshift.io/IsOperator'' ''true'' annots;
          annots2 = (case named of
                       None \<Rightarrow> annots1
                     | Some bundle \<Rightarrow> mput ''ci-chat-bot.openshift.io/OperatorBundleName'' bundle annots1) in
      if hasIndex then mput ''ci-chat-bot.openshift.io/OperatorHasIndex'' ''true'' annots2 else annots2)"

definition install_bundle :: "Job \<Rightarrow> Refs \<Rightarrow> ReleaseBuildConfiguration \<Rightarrow> OperatorStep \<Rightarrow>
    ReleaseBuildConfiguration \<Rightarrow> OperatorInfo \<Rightarrow> (string, string) gomap \<Rightarrow>
    (assembly_error, string \<times> ReleaseBuildConfiguration \<times> OperatorInfo \<times> (string, string) gomap) result" where
  "install_bundle job ref target opstep cfg op annots =
     (let (indexName, bundleName, named) = choose_bundle job (ob_Bundles opstep) (op_BundleName op) in
      case find_bundle_test indexName (rc_Tests target) of
        None \<Rightarrow> Inl (NoBundleTest (if bundleName = [] then ''unnamed'' else bundleName))
      | Some b \<Rightarrow>
          rbind (install_in_launch job indexName b (rc_Tests cfg)) (\<lambda>ts.
            let hasIndex = (is_index b \<and> list_ex (\<lambda>t. ts_As t = ''launch'') (rc_Tests cfg));
                base = nil_map (rc_BaseImages cfg) in
            Inr (repo_name_of ref,
                 cfg\<lparr>rc_Operator := Some opstep, rc_Tests := ts, rc_BuildRoot := rc_BuildRoot target,
                     rc_BaseImages := (if nil_map (rc_BaseImages target) = [] \<and> rc_Images target = []
                        then rc_BaseImages cfg
                        else Some (add_images (rc_Images target) (add_missing (nil_map (rc_BaseImages target)) base))),
                     rc_Metadata := rc_Metadata target\<rparr>,
                 op\<lparr>op_Is := True, op_BundleName := bundleName, op_HasIndex := op_HasIndex op \<or> hasIndex\<rparr>,
                 operator_annotations named hasIndex annots)))"

definition bundles_of :: "ReleaseBuildConfiguration \<Rightarrow> string list" where
  "bundles_of target = (case rc_Operator target of None \<Rightarrow> [] | Some opstep \<Rightarrow> ob_Bundles opstep)"

definition processOperatorPR :: "string \<Rightarrow> Job \<Rightarrow> Refs \<Rightarrow> ReleaseBuildConfiguration \<Rightarrow>
    ReleaseBuildConfiguration \<Rightarrow> OperatorInfo \<Rightarrow> (string, string) gomap \<Rightarrow>
    (assembly_error, string \<times> ReleaseBuildConfiguration \<times> OperatorInfo \<times> (string, string) gomap) result" where
  "processOperatorPR oldRepo job ref target cfg op annots =
     (case rc_Operator target of
        None \<Rightarrow> Inr ([], cfg, op, annots)
      | Some opstep \<Rightarrow>
          if ob_Bundles opstep = [] then Inr ([], cfg, op, annots)
          else if op_Is op
          then (if oldRepo \<noteq> repo_name_of ref then Inl ManyOperators else Inr ([], cfg, op, annots))
          else install_bundle job ref target opstep cfg op annots)"

section \<open>Pull requests\<close>

definition promote_to :: "string \<Rightarrow> string \<Rightarrow> Promotion list" where
  "promote_to name registryHost =
     [\<lparr>po_Name = name, po_Namespace = ''$(NAMESPACE)'', po_RegistryOverride = registryHost\<rparr>]"

text \<open>The configuration of the child job that builds the images of one repository.\<close>

definition child_config :: "string \<Rightarrow> bool \<Rightarrow> ReleaseBuildConfiguration \<Rightarrow> ReleaseBuildConfiguration" where
  "child_config registryHost initial target =
     (let stream = (if initial then ''stable-initial'' else ''stable'') in
      target\<lparr>rc_Tests := [],
        rc_Images := map (\<lambda>img. img\<lparr>im_Optional := False\<rparr>) (rc_Images target),
        rc_Promotion := Some (promote_to stream registryHost),
        rc_TagSpecification := (if initial then None else rc_TagSpecification target),
        rc_Releases := integration_releases stream ''$(NAMESPACE)''\<rparr>)"

record ref_state =
  rs_Job :: ProwJob
  rs_Config :: ReleaseBuildConfiguration
  rs_Operator :: OperatorInfo
  rs_Index :: nat
  rs_Repo :: string

definition set_env_var :: "string \<Rightarrow> string \<Rightarrow> ProwJob \<Rightarrow> ProwJob" where
  "set_env_var name value pj = pj\<lparr>pj_Spec := SetJobEnvVar name value (pj_Spec pj)\<rparr>"

definition path_alias :: "nat \<Rightarrow> Refs \<Rightarrow> string" where
  "path_alias index ref = show_nat index @ ''/github.com/'' @ rf_Org ref @ ''/'' @ rf_Repo ref"

definition operator_step :: "Job \<Rightarrow> Refs \<Rightarrow> ReleaseBuildConfiguration \<Rightarrow> ref_state \<Rightarrow>
    (assembly_error, string \<times> ref_state) result" where
  "operator_step job ref target st =
     (if jb_Mode job = JobTypeBuild
      then (case mget (jb_JobParams job) ''bundle'' of
              Some b \<Rightarrow> Inl (BundleWithBuild b)
            | None \<Rightarrow> Inr ([], if bundles_of target \<noteq> [] then st\<lparr>rs_Operator := (rs_Operator st)\<lparr>op_Is := True\<rparr>\<rparr> else st))
      else rbind (processOperatorPR (rs_Repo st) job ref target (rs_Config st) (rs_Operator st)
             (pj_Annotations (rs_Job st))) (\<lambda>(repo, cfg, op, annots).
             Inr (repo, st\<lparr>rs_Config := cfg, rs_Operator := op, rs_Repo := (if repo \<noteq> [] then repo else rs_Repo st),
                           rs_Job := (rs_Job st)\<lparr>pj_Annotations := annots\<rparr>\<rparr>)))"

definition add_child :: "assembly \<Rightarrow> string \<Rightarrow> bool \<Rightarrow> Refs \<Rightarrow> ReleaseBuildConfiguration \<Rightarrow> string \<Rightarrow>
    ref_state \<Rightarrow> ref_state" where
  "add_child a registryHost initial ref target newRepo st =
     (let index = rs_Index st;
          alias = path_alias index ref;
          cfg = (rs_Config st)\<lparr>rc_BaseImages := Some (add_images (rc_Images target) (nil_map (rc_BaseImages (rs_Config st))))\<rparr>;
          pj1 = set_env_var (''CONFIG_SPEC_'' @ show_nat index) (as_marshal a (child_config registryHost initial target)) (rs_Job st);
          pj2 = set_env_var (''JOB_SPEC_'' @ show_nat index) (as_marshalSpec a [] (Some ref)) pj1;
          refs = sp_ExtraRefs (pj_Spec pj2);
          pj3 = (if newRepo \<noteq> []
                 then set_env_var ''OPERATOR_REFS'' (as_marshalSpec a [(ref, alias)] None)
                        (pj2\<lparr>pj_Spec := (pj_Spec pj2)\<lparr>sp_ExtraRefs := (ref, alias) # refs\<rparr>\<rparr>)
                 else pj2\<lparr>pj_Spec := (pj_Spec pj2)\<lparr>sp_ExtraRefs := refs @ [(ref, alias)]\<rparr>\<rparr>);
          pj4 = set_env_var (''REPO_PATH_'' @ show_nat index) alias pj3 in
      st\<lparr>rs_Job := pj4, rs_Config := cfg, rs_Index := Suc index\<rparr>)"

definition ref_step :: "assembly \<Rightarrow> string \<Rightarrow> Job \<Rightarrow> bool \<times> Refs \<Rightarrow> ref_state \<Rightarrow> (assembly_error, ref_state) result" where
  "ref_step a registryHost job iref st =
     (let ref = snd iref in
      case as_resolveConfig a (rf_Org ref) (rf_Repo ref) (rf_BaseRef ref) of
        Inl e \<Rightarrow> Inl (ResolveFailed ref e)
      | Inr None \<Rightarrow> Inl (NotConfigured ref)
      | Inr (Some data) \<Rightarrow>
          (case as_unmarshal a data of
             None \<Rightarrow> Inl BadTargetConfig
           | Some target \<Rightarrow>
               rbind (operator_step job ref target st) (\<lambda>(newRepo, st1).
                 Inr (add_child a registryHost (fst iref) ref target newRepo st1))))"

primrec ref_loop :: "assembly \<Rightarrow> string \<Rightarrow> Job \<Rightarrow> (bool \<times> Refs) list \<Rightarrow> ref_state \<Rightarrow> (assembly_error, ref_state) result" where
  "ref_loop a registryHost job [] st = Inr st"
| "ref_loop a registryHost job (r # rs) st =
     rbind (ref_step a registryHost job r st) (ref_loop a registryHost job rs)"

text \<open>The references in the order of the two loops; the flag marks those of the initial release of an upgrade.\<close>

definition job_refs :: "Job \<Rightarrow> (bool \<times> Refs) list" where
  "job_refs job =
     (case jb_Inputs job of
        [] \<Rightarrow> []
      | i # is \<Rightarrow> map (Pair (is \<noteq> [])) (ji_Refs i) @ concat (map (\<lambda>j. map (Pair False) (ji_Refs j)) is))"

definition newline :: string where
  "newline = [CHR 0x0A]"

text \<open>The shell command that runs the child jobs before ci-operator.\<close>

definition build_command :: "assembly \<Rightarrow> JobType \<Rightarrow> string \<Rightarrow> string \<Rightarrow> string \<Rightarrow> string" where
  "build_command a mode registryHost release envPrefix =
     (if mode = JobTypeBuild
      then ''registry_host='' @ registryHost @ newline @ ''oc_client_version='' @ ocClientVersion @ newline @
           as_script a @ newline @ newline @ envPrefix @ '' exec ci-operator $@''
      else if mode = JobTypeMCECustomImage
      then ''registry_host='' @ registryHost @ newline @ ''release_name='' @ release @ newline @
           ''oc_client_version='' @ ocClientVersion @ newline @ as_script a @ newline @ newline @
           envPrefix @ ''ci-operator $@'' @ newline @ as_mceScript a
      else ''registry_host='' @ registryHost @ newline @ as_script a @ newline @ envPrefix @ '' exec ci-operator $@'')"

definition shell :: "string \<Rightarrow> string list" where
  "shell cmd = [''/bin/bash'', ''-c'', cmd, []]"

text \<open>Replacing the command and the arguments of the first container, which must run ci-operator.\<close>

definition on_first_container :: "string \<Rightarrow> (Container \<Rightarrow> Container) \<Rightarrow> ProwJob \<Rightarrow> (assembly_error, ProwJob) result" where
  "on_first_container name f pj =
     (let pod = sp_PodSpec (pj_Spec pj) in
      case ps_Containers pod of
        [] \<Rightarrow> Inl Panic
      | c # cs \<Rightarrow>
          if ct_Command c \<noteq> [''ci-operator''] then Inl (UnknownCommand name)
          else Inr (pj\<lparr>pj_Spec := (pj_Spec pj)\<lparr>sp_PodSpec := pod\<lparr>ps_Containers := f c # cs\<rparr>\<rparr>\<rparr>))"

definition without_flags :: "string list \<Rightarrow> string list \<Rightarrow> string list" where
  "without_flags flags args = filter (\<lambda>arg. \<not> list_ex (has_prefix arg) flags) args"

text \<open>NAMESPACE is moved to the first position of the environment.\<close>

definition lead_with_namespace :: "string \<Rightarrow> ProwJob \<Rightarrow> ProwJob" where
  "lead_with_namespace namespace pj =
     set_env_var ''NAMESPACE'' namespace (pj\<lparr>pj_Spec := RemoveJobEnvVar [''NAMESPACE''] (pj_Spec pj)\<rparr>)"

definition none_test :: TestStepConfiguration where
  "none_test = \<lparr>ts_As = ''none'', ts_Commands = ''true'', ts_ContainerFrom = Some ''src'', ts_MultiStage = None, ts_Literal = None\<rparr>"

text \<open>What the loop over the references starts from.\<close>

definition ref_start :: "assembly \<Rightarrow> Job \<Rightarrow> ReleaseBuildConfiguration \<Rightarrow> ProwJob \<Rightarrow> ref_state" where
  "ref_start a job cfg pj =
     \<lparr>rs_Job = set_env_var ''INITIAL'' (as_configInitial a) pj,
      rs_Config = cfg\<lparr>rc_TagSpecification := None,
         rc_Releases := integration_releases ''pipeline'' ''$(NAMESPACE)'',
         rc_Tests := (if rc_Tests cfg = [] then [none_test] else rc_Tests cfg),
         rc_BaseImages := Some (nil_map (rc_BaseImages cfg))\<rparr>,
      rs_Operator = jb_Operator job, rs_Index = 0, rs_Repo = []\<rparr>"

definition clone_refs :: "ProwJob \<Rightarrow> ProwJob" where
  "clone_refs pj = pj\<lparr>pj_Spec := (pj_Spec pj)\<lparr>sp_SkipCloning := map_option (\<lambda>_. Some False) (sp_SkipCloning (pj_Spec pj))\<rparr>\<rparr>"

definition with_pull_requests :: "assembly \<Rightarrow> Job \<Rightarrow> string \<Rightarrow> string \<Rightarrow> ProwJob \<Rightarrow> ReleaseBuildConfiguration \<Rightarrow>
    (assembly_error, ref_state) result" where
  "with_pull_requests a job namespace release pj cfg =
      rbind (getClusterClient a job) (\<lambda>client.
      (case cl_registry client of
         None \<Rightarrow> Inl NoRegistry
       | Some repository \<Rightarrow>
           let registryHost = takeWhile (\<lambda>c. c \<noteq> CHR ''/'') repository;
               envPrefix = join '' '' (restore_script (jb_Inputs job)) in
           rbind (on_first_container (jb_JobName job)
                    (\<lambda>c. c\<lparr>ct_Command := shell (build_command a (jb_Mode job) registryHost release envPrefix),
                           ct_Args := without_flags [''--namespace''] (ct_Args c) @ [''--namespace=$(NAMESPACE)'']\<rparr>)
                    (lead_with_namespace namespace (clone_refs pj))) (\<lambda>pj1.
             ref_loop a registryHost job (job_refs job) (ref_start a job cfg pj1))))"

section \<open>The Prow job\<close>

definition source_env :: "ProwJob \<Rightarrow> (EnvVar \<times> Container) option" where
  "source_env pj =
     (case firstEnvVar (sp_PodSpec (pj_Spec pj)) ''CONFIG_SPEC'' of
        Some e \<Rightarrow> Some e
      | None \<Rightarrow> firstEnvVar (sp_PodSpec (pj_Spec pj)) ''UNRESOLVED_CONFIG'')"

definition target_name :: "assembly \<Rightarrow> Job \<Rightarrow> EnvVar \<Rightarrow> string" where
  "target_name a job env =
     (case configContainsVariant (as_unmarshal a) (jb_JobParams job) (jb_Platform job) (ev_Value env) (jb_Mode job) of
        Inl _ \<Rightarrow> []
      | Inr (_, name) \<Rightarrow> name)"

definition with_profile :: "Job \<Rightarrow> ProwJob \<Rightarrow> ReleaseBuildConfiguration \<Rightarrow>
    (assembly_error, ProwJob \<times> ReleaseBuildConfiguration) result" where
  "with_profile job pj cfg =
     (if jb_CloudProfileSet job = [] then Inr (pj, cfg)
      else (case applyClusterProfile pj cfg (jb_CloudProfileSet job) of
              (_, Inl e) \<Rightarrow> Inl (ProfileError e)
            | (pj', Inr cfg') \<Rightarrow> Inr (pj', cfg')))"

definition mce_release :: "Job \<Rightarrow> (assembly_error, string) result" where
  "mce_release job =
     (if jb_Mode job \<noteq> JobTypeMCECustomImage then Inr []
      else if mceReleaseName job = [] then Inl NoReleaseVersion else Inr (mceReleaseName job))"

text \<open>The launch job of an image for managed clusters that has no pull requests.\<close>

definition mce_only :: "assembly \<Rightarrow> Job \<Rightarrow> string \<Rightarrow> string \<Rightarrow> ProwJob \<Rightarrow> (assembly_error, ProwJob) result" where
  "mce_only a job namespace release pj =
     rbind (on_first_container (jb_JobName job) id pj) (\<lambda>_.
       on_first_container (jb_JobName job)
         (\<lambda>c. c\<lparr>ct_Command := shell (''registry_host=registry.'' @ jb_BuildCluster job @ ''.ci.openshift.org'' @ newline @
                  ''release_name='' @ release @ newline @ ''oc_client_version='' @ ocClientVersion @ newline @
                  ''set -euo pipefail'' @ newline @ newline @ join '' '' (restore_script (jb_Inputs job)) @
                  '' ci-operator $@'' @ newline @ as_mceScript a),
                ct_Args := without_flags [''--namespace'', ''--delete-when-idle'', ''--delete-after''] (ct_Args c) @
                  [''--namespace=$(NAMESPACE)'', ''--delete-when-idle=$(PRESERVE_DURATION)'', ''--delete-after=$(DELETE_AFTER)'']\<rparr>)
         (lead_with_namespace namespace pj))"

definition with_target :: "Job \<Rightarrow> ProwJob \<Rightarrow> (assembly_error, ProwJob) result" where
  "with_target job pj =
     (if jb_Mode job = JobTypeCatalog
      then (case replaceTargetArgument (Some (sp_PodSpec (pj_Spec pj))) ''launch'' (mget0 [] (jb_JobParams job) ''bundle'') of
              Inl e \<Rightarrow> Inl (TargetError e)
            | Inr pod \<Rightarrow> Inr (pj\<lparr>pj_Spec := (pj_Spec pj)\<lparr>sp_PodSpec := pod\<rparr>\<rparr>))
      else Inr pj)"

definition publish_config :: "assembly \<Rightarrow> ReleaseBuildConfiguration \<Rightarrow> ProwJob \<Rightarrow> ProwJob" where
  "publish_config a cfg pj =
     (let pj1 = set_env_var ''UNRESOLVED_CONFIG'' (as_marshal a cfg) pj in
      pj1\<lparr>pj_Spec := RemoveJobEnvVar [''CONFIG_SPEC''] (pj_Spec pj1)\<rparr>)"

text \<open>The launch configuration: the tests rewritten, the profile applied, the releases replaced.\<close>

definition launch_config :: "assembly \<Rightarrow> Job \<Rightarrow> ProwJob \<Rightarrow> (assembly_error, ProwJob \<times> ReleaseBuildConfiguration) result" where
  "launch_config a job pj =
     (case source_env pj of
        None \<Rightarrow> Inl (NoConfigEnv (jb_JobName job))
      | Some (env, _) \<Rightarrow>
          rbind (getClusterClient a job) (\<lambda>client.
            (case loadJobConfigSpec (as_unmarshal a) (cl_configMaps client) env (as_namespace a) of
               Inl e \<Rightarrow> Inl (LaunchConfig e)
             | Inr (cfg, _, _) \<Rightarrow>
                 rbind (rewrite_tests a (target_name a job env) job cfg) (\<lambda>cfg1.
                 rbind (with_profile job pj cfg1) (\<lambda>(pj1, cfg2).
                   Inr (pj1, cfg2\<lparr>rc_Releases := branch_releases (jb_Architecture job), rc_TagSpecification := None\<rparr>))))))"

text \<open>The child jobs of the pull requests, the target and the command of the Prow job.\<close>

definition build_parts :: "assembly \<Rightarrow> Job \<Rightarrow> string \<Rightarrow> ProwJob \<times> ReleaseBuildConfiguration \<Rightarrow>
    (assembly_error, ref_state) result" where
  "build_parts a job namespace pc =
     rbind (mce_release job) (\<lambda>release.
     rbind (if jobHasRefs job then with_pull_requests a job namespace release (fst pc) (snd pc)
            else Inr \<lparr>rs_Job = fst pc, rs_Config = snd pc, rs_Operator = jb_Operator job, rs_Index = 0, rs_Repo = []\<rparr>) (\<lambda>st.
       (case mget (jb_JobParams job) ''bundle'' of
          Some b \<Rightarrow> if op_Is (rs_Operator st) then Inr st else Inl (BundleWithoutOperator b)
        | None \<Rightarrow> Inr st)))"

definition job_namespace :: "(string \<Rightarrow> string) \<Rightarrow> Job \<Rightarrow> string" where
  "job_namespace hash job = ''ci-ln-'' @ hash (jb_Name job)"

definition assemble :: "assembly \<Rightarrow> (JobInput list \<Rightarrow> string) \<Rightarrow> (string \<Rightarrow> string) \<Rightarrow> duration \<Rightarrow> Job \<Rightarrow> ProwJob \<Rightarrow>
    (assembly_error, OperatorInfo \<times> ProwJob) result" where
  "assemble a json hash maxAge job pj =
     (let namespace = job_namespace hash job in
      case assemble_base json hash maxAge job pj of
        None \<Rightarrow> Inl Panic
      | Some pj1 \<Rightarrow>
          rbind (launch_config a job pj1) (\<lambda>pc.
          rbind (build_parts a job namespace pc) (\<lambda>st.
          rbind (with_target job (rs_Job st)) (\<lambda>pj2.
          rbind (mce_release job) (\<lambda>release.
          rbind (if jb_Mode job = JobTypeMCECustomImage \<and> \<not> jobHasRefs job
                 then mce_only a job namespace release pj2 else Inr pj2) (\<lambda>pj3.
            Inr (rs_Operator st, publish_config a (rs_Config st) pj3)))))))"

section \<open>Creation\<close>

datatype create_answer = Created | AlreadyExists | CreateError string

datatype url_read = UrlReadError string | UrlRead string

definition url_cond :: "url_read \<Rightarrow> string \<Rightarrow> string \<times> (string, bool) result" where
  "url_cond r s =
     (case r of
        UrlReadError e \<Rightarrow> (s, Inl e)
      | UrlRead u \<Rightarrow> if u \<noteq> [] then (u, Inr True) else (s, Inr False))"

definition await_url :: "string \<Rightarrow> url_read list \<Rightarrow> (assembly_error, string) result" where
  "await_url name reads =
     (case poll url_cond reads [] of
        (url, None) \<Rightarrow> Inr url
      | (_, Some e) \<Rightarrow> if e = deadline_text then Inl (UrlTimeout name) else Inl (UrlFailed e))"

text \<open>
  The body of \<open>newJob\<close>. \<open>lookup\<close> stands for \<open>prow.JobForConfig\<close> on the loaded configuration, \<open>create\<close> and
  \<open>reads\<close> for what the Prow cluster answers. An error before the creation leaves the operator information of
  the job unused: the caller forgets the job.
\<close>

definition create_job :: "assembly \<Rightarrow> (JobInput list \<Rightarrow> string) \<Rightarrow> (string \<Rightarrow> string) \<Rightarrow> duration \<Rightarrow>
    (string \<Rightarrow> (prow_error, ProwJob) result) \<Rightarrow> (ProwJob \<Rightarrow> create_answer) \<Rightarrow> (ProwJob \<Rightarrow> url_read list) \<Rightarrow>
    Job \<Rightarrow> OperatorInfo \<times> (assembly_error, string) result" where
  "create_job a json hash maxAge lookup create reads job =
     (case lookup (jb_JobName job) of
        Inl e \<Rightarrow> (jb_Operator job, Inl (JobNotFound e))
      | Inr pj \<Rightarrow>
          (case assemble a json hash maxAge job pj of
             Inl e \<Rightarrow> (jb_Operator job, Inl e)
           | Inr (op, pj') \<Rightarrow>
               (case create pj' of
                  CreateError e \<Rightarrow> (op, Inl (CreateFailed e))
                | _ \<Rightarrow> (op, await_url (jb_Name job) (reads pj')))))"

text \<open>The text of an error, abridged; \<open>prow\<close> gives the texts of the errors of the Prow configuration. A panic has no text: it ends the process.\<close>

definition quote :: "string \<Rightarrow> string" where
  "quote s = [CHR 0x22] @ s @ [CHR 0x22]"

definition ref_text :: "Refs \<Rightarrow> string" where
  "ref_text ref = rf_Org ref @ ''/'' @ rf_Repo ref @ ''/'' @ rf_BaseRef ref"

fun error_text :: "(prow_error \<Rightarrow> string) \<Rightarrow> assembly_error \<Rightarrow> string" where
  "error_text prow Panic = []"
| "error_text prow (JobNotFound e) = prow e"
| "error_text prow (NoConfigEnv name) =
     ''UNRESOLVED_CONFIG or CONFIG_SPEC for the launch job could not be found in the prow job '' @ name"
| "error_text prow (NoClusterClient c) = ''cluster '' @ c @ '' not found''"
| "error_text prow (LaunchConfig e) = ''the launch job definition could not be loaded: '' @ prow e"
| "error_text prow (NoTestNamed n) = ''no test definition matched the expected name '' @ quote n"
| "error_text prow (UnknownTestType t) = ''unknown test type '' @ t"
| "error_text prow (ProfileError e) = ''failed applying cluster profile: '' @ prow e"
| "error_text prow NoReleaseVersion = ''unable to determine release version for MCE custom image job''"
| "error_text prow NoRegistry = ''unable to lookup registry URL for job''"
| "error_text prow (UnknownCommand name) =
     ''the prow job '' @ name @ '' does not have a recognizable command/args setup and cannot be used''"
| "error_text prow (ResolveFailed ref e) = ''could not resolve config for '' @ ref_text ref @ '': '' @ e"
| "error_text prow (NotConfigured ref) = ''there is no defined configuration for '' @ ref_text ref"
| "error_text prow BadTargetConfig = ''unable to parse ci-operator config definition from resolver''"
| "error_text prow (BundleWithBuild b) = ''the `bundle` parameter '' @ quote b @ '' is not supported with `build`''"
| "error_text prow ManyOperators = ''multiple operator sources were configured; this is not currently supported''"
| "error_text prow (NoBundleTest b) = ''unable to locate test using '' @ b @ '' bundle''"
| "error_text prow (BundleWithoutOperator b) =
     ''bundle name '' @ b @ '' provided, but no PR for an operator repo provided''"
| "error_text prow (TargetError e) = ''unable to configure pod spec to alter launch target: '' @ prow e"
| "error_text prow (CreateFailed e) = e"
| "error_text prow (UrlTimeout name) =
     ''timed out waiting for your prowjob '' @ quote name @ '' to be scheduled.''"
| "error_text prow (UrlFailed e) = ''unable to retrieve job url due to an unexpected error: '' @ e"

text \<open>The creation as \<open>newJob\<close> of the manager calls it.\<close>

definition prow_creation :: "(prow_error \<Rightarrow> string) \<Rightarrow> assembly \<Rightarrow> (JobInput list \<Rightarrow> string) \<Rightarrow> (string \<Rightarrow> string) \<Rightarrow>
    duration \<Rightarrow> (string \<Rightarrow> (prow_error, ProwJob) result) \<Rightarrow> (ProwJob \<Rightarrow> create_answer) \<Rightarrow>
    (ProwJob \<Rightarrow> url_read list) \<Rightarrow> Job \<Rightarrow> OperatorInfo \<times> (string, string) result" where
  "prow_creation prow a json hash maxAge lookup create reads job =
     (case create_job a json hash maxAge lookup create reads job of
        (op, Inl e) \<Rightarrow> (op, Inl (error_text prow e))
      | (op, Inr url) \<Rightarrow> (op, Inr url))"

section \<open>Finding a configuration\<close>

text \<open>
  \<open>URLConfigResolver.Resolve\<close>: \<open>get\<close> stands for the request with a query (an error, or the status and the
  body) and \<open>read\<close> for reading a file.
\<close>

datatype file_read = FileMissing | FileError string | FileData string

definition resolver_query :: "string \<Rightarrow> string \<Rightarrow> string \<Rightarrow> string \<Rightarrow> (string, string) gomap" where
  "resolver_query org repo branch variant =
     [(''org'', org), (''repo'', repo), (''branch'', branch)] @ (if variant \<noteq> [] then [(''variant'', variant)] else [])"

definition resolver_path :: "string \<Rightarrow> string \<Rightarrow> string \<Rightarrow> string \<Rightarrow> string list" where
  "resolver_path org repo branch variant =
     [org, repo, org @ ''-'' @ repo @ ''-'' @ branch @ (if variant \<noteq> [] then ''_'' @ variant else []) @ ''.yaml'']"

definition ResolveConfig :: "((string, string) gomap \<Rightarrow> (string, nat \<times> string) result) \<Rightarrow> (string list \<Rightarrow> file_read) \<Rightarrow>
    string \<Rightarrow> string \<Rightarrow> string \<Rightarrow> string \<Rightarrow> string \<Rightarrow> (string, string option) result" where
  "ResolveConfig get read scheme org repo branch variant =
     (if scheme = ''http'' \<or> scheme = ''https''
      then (case get (resolver_query org repo branch variant) of
              Inl e \<Rightarrow> Inl (''url resolve failed: '' @ e)
            | Inr (status, body) \<Rightarrow>
                if status = 200 then Inr (Some body)
                else if status = 404 then Inr None
                else Inl (''url resolve failed with status code '' @ show_nat status @ '': '' @ trim_space body))
      else if scheme = ''file''
      then (case read (resolver_path org repo branch variant) of
              FileMissing \<Rightarrow> Inr None
            | FileError e \<Rightarrow> Inl (''file resolve failed: '' @ e)
            | FileData d \<Rightarrow> Inr (Some d))
      else Inl (''unrecognized URL config resolver scheme: '' @ scheme))"

end
