(* ===== verification/Lifecycle.thy ===== *)
theory Lifecycle
  imports JobSync
begin

text \<open>
  The life of jobs in the manager, as sequences of the atomic steps of the operations: admissions,
  failed starts, terminations, workers and syncs. The locale \<open>lifecycle\<close> lifts an invariant of the
  steps to every reachable state; it is interpreted for the well-formedness of the maps, for the start
  estimates and for the rule of one cluster per user.
\<close>

section \<open>Prepared launches\<close>

text \<open>What \<open>prepare_launch\<close> promises about the request and the job it returns.\<close>

definition launch_ready :: "JobRequest \<Rightarrow> Job \<Rightarrow> bool" where
  "launch_ready req job \<longleftrightarrow> rq_User req \<noteq> [] \<and> jb_RequestedBy job = rq_User req \<and> jb_Name job = rq_Name req \<and>
     jb_Name job \<noteq> [] \<and> jb_StartDuration job = 0 \<and> jb_State job = PendingState \<and> jb_Failure job = [] \<and>
     \<not> jb_Complete job \<and> jb_Credentials job = [] \<and>
     (jb_Mode job = rq_Type req \<or> rq_Type req = JobTypeInstall \<and> jb_Mode job = JobTypeLaunch)"

lemma job_mode_cases:
  "job_mode req jis = Inr mode \<Longrightarrow> mode = rq_Type req \<or> rq_Type req = JobTypeInstall \<and> mode = JobTypeLaunch"
  by (auto simp: job_mode_def Let_def split: if_splits)

lemma stamp_text_nonempty: "stamp_text t \<noteq> []"
  by (simp add: stamp_text_def date_text_def pad4_def Let_def split: prod.splits)

lemma resolveToJob_ready:
  assumes "resolveToJob rv m now req0 = Inr (job, req)"
  shows "launch_ready req job"
proof -
  define r1 where "r1 = (if rq_Type req0 = [] then req0\<lparr>rq_Type := JobTypeBuild\<rparr> else req0)"
  define nm where "nm = mg_clusterPrefix m @ stamp_text now"
  define r where "r = r1\<lparr>rq_RequestedAt := now, rq_Name := nm\<rparr>"
  have u: "rq_User req0 \<noteq> []" using assms by (auto simp: resolveToJob_def)
  obtain jis d mode where l: "lookupInputs rv (rq_Inputs r) (rq_Architecture r) = Inr (jis, d)"
    and mode: "job_mode r jis = Inr mode"
    using assms u unfolding resolveToJob_def Let_def r1_def [symmetric] nm_def [symmetric] r_def [symmetric]
    by (auto simp: rbind_eq_Inr_iff split: if_splits sum.splits)
  have req: "req = r" and job: "jb_RequestedBy job = rq_User r \<and> jb_Name job = nm \<and> jb_StartDuration job = 0 \<and>
      jb_State job = PendingState \<and> jb_Failure job = [] \<and> \<not> jb_Complete job \<and> jb_Credentials job = [] \<and>
      jb_Mode job = mode"
    using assms u l mode
    unfolding resolveToJob_def Let_def r1_def [symmetric] nm_def [symmetric] r_def [symmetric]
    by (auto simp: emptyJob_def split: if_splits)
  have "rq_User r \<noteq> []" "rq_Name r = nm" using u by (auto simp: r_def r1_def)
  moreover have "nm \<noteq> []" using stamp_text_nonempty by (simp add: nm_def)
  ultimately show ?thesis
    using job_mode_cases [OF mode] job unfolding launch_ready_def req by (intro conjI) argo+
qed

lemma launch_ready_update: "launch_ready req (with_prow_job env req' pj job) = launch_ready req job"
  by (simp add: launch_ready_def with_prow_job_def)

lemma prepare_launch_ready:
  "prepare_launch env m now req0 = Inr (req, job) \<Longrightarrow> launch_ready req job"
  using resolveToJob_ready unfolding prepare_launch_def
  by (auto simp: rbind_eq_Inr_iff launch_ready_update split: option.splits if_splits)

section \<open>Steps\<close>

datatype action =
    Admit gotime JobRequest Job
  | StartFailed JobRequest Job string
  | OperatorFound Job OperatorInfo
  | Terminated gotime string string
  | WorkerBegin string
  | WorkerFinished bool Job
  | WorkerEnd string
  | Synced sync_env "ProwJob list"

definition step :: "action \<Rightarrow> manager \<Rightarrow> manager" where
  "step a m =
     (case a of
        Admit now req job \<Rightarrow> fst (admit m now req job)
      | StartFailed req job err \<Rightarrow> fst (launch_failed m req err)
      | OperatorFound job op \<Rightarrow>
          (if mget (mg_jobs m) (jb_Name job) = Some job
           then m\<lparr>mg_jobs := mput (jb_Name job) (job\<lparr>jb_Operator := op\<rparr>) (mg_jobs m)\<rparr> else m)
      | Terminated now user name \<Rightarrow> fst (terminate_finish m now user name)
      | WorkerBegin name \<Rightarrow> fst (tryJob m name)
      | WorkerFinished notifier job \<Rightarrow> fst (finishedJob notifier m job)
      | WorkerEnd name \<Rightarrow> finishJob m name
      | Synced se pjs \<Rightarrow> forget_old (se_now se) (fst (sync_jobs se pjs m)))"

text \<open>
  The steps the code can take. A worker's job is a copy of a job of the manager, changed by
  \<open>waitForJob\<close>, which never writes the start duration, the mode, the name or the requester.
\<close>

definition enabled :: "action \<Rightarrow> manager \<Rightarrow> bool" where
  "enabled a m =
     (case a of
        Admit now req job \<Rightarrow> launch_ready req job \<and> \<not> mhas (mg_jobs m) (jb_Name job)
      | StartFailed req job err \<Rightarrow> launch_ready req job \<and> rq_Name req = jb_Name job
      | WorkerFinished notifier job \<Rightarrow> jb_StartDuration job = 0
      | _ \<Rightarrow> True)"

inductive reach :: "(action \<Rightarrow> manager \<Rightarrow> bool) \<Rightarrow> manager \<Rightarrow> bool" for guard where
  reach_init: "reach guard NewJobManager"
| reach_step: "reach guard m \<Longrightarrow> guard a m \<Longrightarrow> reach guard (step a m)"

inductive_cases reachE: "reach guard m"

lemma reach_mono: "reach g m \<Longrightarrow> (\<And>a m. g a m \<Longrightarrow> h a m) \<Longrightarrow> reach h m"
  by (induction rule: reach.induct) (auto intro: reach.intros)

text \<open>A client that only uses permitted steps stays inside every invariant of those steps.\<close>

locale lifecycle =
  fixes guard :: "action \<Rightarrow> manager \<Rightarrow> bool"
    and inv :: "manager \<Rightarrow> bool"
  assumes inv_init: "inv NewJobManager"
    and inv_step: "guard a m \<Longrightarrow> inv m \<Longrightarrow> inv (step a m)"
begin

lemma reach_inv: "reach guard m \<Longrightarrow> inv m"
  by (induction rule: reach.induct) (auto intro: inv_init inv_step)

lemma run_inv:
  "inv m \<Longrightarrow> (\<And>i. i < length as \<Longrightarrow> guard (as ! i) (fold step (take i as) m)) \<Longrightarrow> inv (fold step as m)"
proof (induction as arbitrary: m)
  case (Cons a as)
  have "guard a m" using Cons.prems(2) [of 0] by simp
  then have "inv (step a m)" using inv_step Cons.prems(1) by blast
  moreover have "guard (as ! i) (fold step (take i as) (step a m))" if "i < length as" for i
    using Cons.prems(2) [of "Suc i"] that by simp
  ultimately show ?case using Cons.IH by simp
qed simp

end

section \<open>Well-formed maps\<close>

definition wf_manager :: "manager \<Rightarrow> bool" where
  "wf_manager m \<longleftrightarrow> wf_map (mg_requests m) \<and> wf_map (mg_jobs m) \<and>
     list_all (\<lambda>(k, j). jb_Name j = k) (mg_jobs m) \<and>
     list_all (\<lambda>(k, r). rq_User r = k) (mg_requests m) \<and> distinct (mg_running m)"

lemma list_all_mput: "list_all P m \<Longrightarrow> P (k, v) \<Longrightarrow> list_all P (mput k v m)"
  by (rule mput_list_all)

lemma list_all_mdel: "list_all P m \<Longrightarrow> list_all P (mdel k m)"
  by (auto simp: list_all_iff mdel_def)

lemmas wf_intros = gm.ok_insert gm.ok_remove list_all_mput list_all_mdel

lemma wf_put_request: "wf_manager m \<Longrightarrow> rq_User r = u \<Longrightarrow> wf_manager (m\<lparr>mg_requests := mput u r (mg_requests m)\<rparr>)"
  by (auto simp: wf_manager_def intro: wf_intros)

lemma wf_put_job: "wf_manager m \<Longrightarrow> jb_Name j = n \<Longrightarrow> wf_manager (m\<lparr>mg_jobs := mput n j (mg_jobs m)\<rparr>)"
  by (auto simp: wf_manager_def intro: wf_intros)

lemma wf_del: "wf_manager m \<Longrightarrow> wf_manager (m\<lparr>mg_requests := mdel u (mg_requests m)\<rparr>)"
  "wf_manager m \<Longrightarrow> wf_manager (m\<lparr>mg_jobs := mdel n (mg_jobs m)\<rparr>)"
  "wf_manager m \<Longrightarrow> wf_manager (m\<lparr>mg_jobs := mdel n (mg_jobs m), mg_requests := mdel u (mg_requests m)\<rparr>)"
  "wf_manager m \<Longrightarrow> wf_manager (m\<lparr>mg_requests := mdel u (mg_requests m), mg_jobs := mdel n (mg_jobs m)\<rparr>)"
  by (auto simp: wf_manager_def intro: wf_intros)

lemma wf_admit_cluster: "wf_manager m \<Longrightarrow> wf_manager (fst (admit_cluster m now req job))"
  unfolding admit_cluster_def Let_def
  by (auto intro: wf_put_request wf_put_job [OF wf_put_request, simplified])

lemma wf_admit: "wf_manager m \<Longrightarrow> wf_manager (fst (admit m now req job))"
  unfolding admit_def Let_def
  by (auto intro: wf_admit_cluster wf_del wf_put_job split: option.splits)

lemma mget_named: "wf_manager m \<Longrightarrow> mget (mg_jobs m) k = Some j \<Longrightarrow> jb_Name j = k"
  by (auto simp: wf_manager_def list_all_iff dest!: mget_in_set)

lemma wf_terminate: "wf_manager m \<Longrightarrow> wf_manager (fst (terminate_finish m now user name))"
proof -
  assume m: "wf_manager m"
  let ?m1 = "case mget (mg_jobs m) name of None \<Rightarrow> m
    | Some j \<Rightarrow> m\<lparr>mg_jobs := mput name (j\<lparr>jb_Failure := ''deletion requested'',
          jb_ExpiresAt := now + 15 * minute, jb_Complete := True\<rparr>) (mg_jobs m)\<rparr>"
  have "wf_manager ?m1" using m mget_named by (auto intro: wf_put_job split: option.splits)
  then show ?thesis
    unfolding terminate_finish_def Let_def using wf_del(1) [of ?m1 user]
    by (cases "mget (mg_requests ?m1) user") simp_all
qed

lemma wf_sync_job: "wf_manager m \<Longrightarrow> wf_manager (fst (sync_job se pj m))"
proof -
  assume m: "wf_manager m"
  then have "wf_manager (adopt_request pj p j m)" for p j
    by (auto simp: adopt_request_def request_of_prow_def intro: wf_put_request)
  then show ?thesis using m unfolding sync_job_def Let_def
    by (auto simp: put_job_def intro: wf_put_job split: option.splits)
qed

lemma wf_sync_jobs: "wf_manager m \<Longrightarrow> wf_manager (fst (sync_jobs se pjs m))"
proof (induction pjs arbitrary: m)
  case (Cons pj pjs)
  then show ?case using wf_sync_job [OF Cons.prems, of se pj]
    by (auto split: prod.splits) (metis fst_conv)
qed simp

lemma fold_mdel_wf:
  "wf_map m \<Longrightarrow> wf_map (fold (\<lambda>j acc. if P j then mdel (f j) acc else acc) xs m)"
  by (induction xs arbitrary: m) (auto intro: gm.ok_remove)

lemma fold_mdel_all:
  "list_all Q m \<Longrightarrow> list_all Q (fold (\<lambda>j acc. if P j then mdel (f j) acc else acc) xs m)"
  by (induction xs arbitrary: m) (auto intro: list_all_mdel)

lemma wf_forget: "wf_manager m \<Longrightarrow> wf_manager (forget_old now m)"
  by (auto simp: wf_manager_def forget_old_def intro: fold_mdel_wf fold_mdel_all)

lemma wf_step: "enabled a m \<Longrightarrow> wf_manager m \<Longrightarrow> wf_manager (step a m)"
proof (cases a)
  case (WorkerBegin x)
  then show "wf_manager m \<Longrightarrow> wf_manager (step a m)"
    by (auto simp: step_def tryJob_def wf_manager_def)
next
  case (WorkerEnd x)
  then show "wf_manager m \<Longrightarrow> wf_manager (step a m)"
    by (auto simp: step_def finishJob_def wf_manager_def distinct_removeAll)
next
  case (WorkerFinished n j)
  then show "wf_manager m \<Longrightarrow> wf_manager (step a m)"
    by (auto simp: step_def finishedJob_def wf_manager_def intro: wf_intros)
qed (auto simp: step_def launch_failed_def intro: wf_admit wf_terminate wf_forget wf_sync_jobs wf_del wf_put_job)

interpretation wf: lifecycle enabled wf_manager
proof
  show "wf_manager NewJobManager" by (simp add: wf_manager_def NewJobManager_def)
qed (rule wf_step)

section \<open>Start estimates\<close>

text \<open>What a worker never changes in its copy of a job.\<close>

definition worker_view :: "Job \<Rightarrow> string \<times> string \<times> JobType \<times> duration \<times> string" where
  "worker_view j = (jb_Name j, jb_RequestedBy j, jb_Mode j, jb_StartDuration j, jb_RequestedChannel j)"

lemma worker_view_update [simp]:
  "worker_view (j\<lparr>jb_Failure := f\<rparr>) = worker_view j"
  "worker_view (j\<lparr>jb_State := st\<rparr>) = worker_view j"
  "worker_view (j\<lparr>jb_URL := u\<rparr>) = worker_view j"
  "worker_view (j\<lparr>jb_Complete := b\<rparr>) = worker_view j"
  "worker_view (j\<lparr>jb_Credentials := c\<rparr>) = worker_view j"
  "worker_view (j\<lparr>jb_CredentialsSnippet := c\<rparr>) = worker_view j"
  "worker_view (j\<lparr>jb_CatalogComplete := b\<rparr>) = worker_view j"
  "worker_view (j\<lparr>jb_CatalogError := b\<rparr>) = worker_view j"
  by (simp_all add: worker_view_def)

lemma jobIsComplete_view: "jobIsComplete c job = (job', b) \<Longrightarrow> worker_view job' = worker_view job"
  by (auto simp: jobIsComplete_def split: option.splits if_splits)

lemma scheduled_view: "worker_view (fst (fst (scheduled_cond ob s))) = worker_view (fst s)"
proof -
  obtain job b where "jobIsComplete (ob_current ob) (fst s) = (job, b)" by fastforce
  with jobIsComplete_view [OF this] show ?thesis
    by (cases b; cases "ob_prow ob") (simp_all add: scheduled_cond_def Let_def)
qed

lemma completion_view: "worker_view (fst (completion_cond ob job0)) = worker_view job0"
proof -
  obtain job b where "jobIsComplete (ob_current ob) job0 = (job, b)" by fastforce
  with jobIsComplete_view [OF this] show ?thesis
    by (cases b; cases "ob_prow ob"; cases "ob_catalog ob") (simp_all add: completion_cond_def Let_def)
qed

lemma pod_view: "worker_view (fst (fst (pod_cond ob s))) = worker_view (fst s)"
proof -
  obtain job b where "jobIsComplete (ob_current ob) (fst s) = (job, b)" by fastforce
  with jobIsComplete_view [OF this] show ?thesis
    by (cases b; cases "ob_pod ob") (simp_all add: pod_cond_def)
qed

lemma setup_view: "worker_view (fst (setup_cond ob job0)) = worker_view job0"
proof -
  obtain job b where "jobIsComplete (ob_current ob) job0 = (job, b)" by fastforce
  with jobIsComplete_view [OF this] show ?thesis
    by (cases b; cases "ob_pod ob"; cases "ob_secret ob") (simp_all add: setup_cond_def)
qed

lemma reachable_view: "worker_view (fst (reachable_cond ob job0)) = worker_view job0"
proof -
  obtain job b where "jobIsComplete (ob_current ob) job0 = (job, b)" by fastforce
  with jobIsComplete_view [OF this] show ?thesis by (cases b) (simp_all add: reachable_cond_def)
qed

lemma poll_view:
  assumes "\<And>ob s. f (fst (cond ob s)) = f s"
  shows "poll cond obs s = (s', e) \<Longrightarrow> f s' = f s"
  using poll_invariant [of obs "\<lambda>x. f x = f s" cond s] assms by (metis fst_conv)

lemmas poll_views =
  poll_view [where f = "\<lambda>x. worker_view (fst x)" and cond = scheduled_cond, OF scheduled_view]
  poll_view [where f = worker_view and cond = completion_cond, OF completion_view]
  poll_view [where f = "\<lambda>x. worker_view (fst x)" and cond = pod_cond, OF pod_view]
  poll_view [where f = worker_view and cond = setup_cond, OF setup_view]
  poll_view [where f = worker_view and cond = reachable_cond, OF reachable_view]

lemma collect_view:
  "collect_credentials we pj a job = (job', e, evs) \<Longrightarrow> worker_view job' = worker_view job"
  unfolding collect_credentials_def Let_def
  by (auto split: if_splits sum.splits option.splits prod.splits dest!: poll_views)

lemma wait_cluster_view:
  "wait_for_cluster we pj a job = (job', e, evs) \<Longrightarrow> worker_view job' = worker_view job"
  unfolding wait_for_cluster_def
  by (auto split: sum.splits option.splits prod.splits dest!: poll_views collect_view)

lemma wait_completion_view:
  "wait_for_completion we job = (job', e, evs) \<Longrightarrow> worker_view job' = worker_view job"
  unfolding wait_for_completion_def by (auto split: option.splits prod.splits dest!: poll_views)

lemma waitForJob_view:
  assumes "waitForJob we a job = (job', e, evs)"
  shows "worker_view job' = worker_view job"
proof (cases "IsComplete job \<and> jb_CredentialsSnippet job \<noteq> []")
  case True
  then show ?thesis using assms by (simp add: waitForJob_def)
next
  case False
  obtain job1 p err where p: "poll scheduled_cond (we_scheduled we) (job, None) = ((job1, p), err)"
    by (metis prod.collapse)
  have v: "worker_view job1 = worker_view job" using poll_views(1) [OF p] by simp
  show ?thesis
    using assms False v unfolding waitForJob_def p
    by (auto split: option.splits if_splits prod.splits dest!: wait_cluster_view wait_completion_view)
qed

definition no_estimates :: "manager \<Rightarrow> bool" where
  "no_estimates m \<longleftrightarrow> mg_estimates m = [] \<and> list_all (\<lambda>(_, j). jb_StartDuration j = 0) (mg_jobs m)"

lemma no_estimates_put:
  "no_estimates m \<Longrightarrow> jb_StartDuration j = 0 \<Longrightarrow> no_estimates (m\<lparr>mg_jobs := mput n j (mg_jobs m)\<rparr>)"
  by (auto simp: no_estimates_def intro: list_all_mput)

lemma no_estimates_other:
  "no_estimates (m\<lparr>mg_requests := r\<rparr>) = no_estimates m"
  "no_estimates (m\<lparr>mg_running := x\<rparr>) = no_estimates m"
  "no_estimates m \<Longrightarrow> no_estimates (m\<lparr>mg_jobs := mdel n (mg_jobs m)\<rparr>)"
  by (auto simp: no_estimates_def intro: list_all_mdel)

lemma no_estimates_admit_cluster:
  "no_estimates m \<Longrightarrow> jb_StartDuration job = 0 \<Longrightarrow> no_estimates (fst (admit_cluster m now req job))"
  using no_estimates_put [of "m\<lparr>mg_requests := mput (rq_User req) req (mg_requests m)\<rparr>" job "jb_Name job"]
  by (simp add: admit_cluster_def Let_def no_estimates_other)

lemma no_estimates_admit:
  assumes "no_estimates m" "jb_StartDuration job = 0"
  shows "no_estimates (fst (admit m now req job))"
proof -
  have "no_estimates (m\<lparr>mg_jobs := mdel n (mg_jobs m), mg_requests := mdel u (mg_requests m)\<rparr>)" for n u
    using assms(1) by (simp add: no_estimates_other)
  then show ?thesis
    using assms no_estimates_admit_cluster no_estimates_put
    unfolding admit_def Let_def by (auto split: option.splits)
qed

lemma no_estimates_sync_job: "no_estimates m \<Longrightarrow> no_estimates (fst (sync_job se pj m))"
proof -
  assume m: "no_estimates m"
  have j: "jb_StartDuration j = 0" if "job_of_prow se (mg_maxAge m) pj = Some j" for j
    using that by (auto elim: job_of_prow_SomeE)
  have "no_estimates (adopt_request pj p j m)" for p j
    using m by (simp add: adopt_request_def no_estimates_other)
  then show ?thesis using m j unfolding sync_job_def Let_def
    by (auto simp: put_job_def intro: no_estimates_put split: option.splits)
qed

lemma no_estimates_sync: "no_estimates m \<Longrightarrow> no_estimates (fst (sync_jobs se pjs m))"
proof (induction pjs arbitrary: m)
  case (Cons pj pjs)
  then show ?case using no_estimates_sync_job [OF Cons.prems, of se pj]
    by (auto split: prod.splits) (metis fst_conv)
qed simp

lemma no_estimates_step: "enabled a m \<Longrightarrow> no_estimates m \<Longrightarrow> no_estimates (step a m)"
proof (cases a)
  case (OperatorFound job op)
  assume m: "no_estimates m"
  have "jb_StartDuration job = 0" if "mget (mg_jobs m) (jb_Name job) = Some job"
    using mget_in_set [OF that] m by (auto simp: no_estimates_def list_all_iff)
  then show ?thesis using OperatorFound m by (auto simp: step_def intro: no_estimates_put)
next
  case (Terminated now user name)
  assume m: "no_estimates m"
  let ?m1 = "case mget (mg_jobs m) name of None \<Rightarrow> m
    | Some j \<Rightarrow> m\<lparr>mg_jobs := mput name (j\<lparr>jb_Failure := ''deletion requested'',
          jb_ExpiresAt := now + 15 * minute, jb_Complete := True\<rparr>) (mg_jobs m)\<rparr>"
  have "jb_StartDuration j = 0" if "mget (mg_jobs m) name = Some j" for j
    using mget_in_set [OF that] m by (auto simp: no_estimates_def list_all_iff)
  then have "no_estimates ?m1" using m by (auto intro: no_estimates_put split: option.splits)
  then have "no_estimates (fst (terminate_finish m now user name))"
    unfolding terminate_finish_def Let_def
    by (cases "mget (mg_requests ?m1) user") (simp_all add: no_estimates_other)
  then show ?thesis using Terminated by (simp add: step_def)
next
  case (WorkerFinished n j)
  assume "no_estimates m" "enabled a m"
  then show ?thesis using WorkerFinished
    by (auto simp: step_def finishedJob_def enabled_def record_start_def no_estimates_def intro: list_all_mput)
next
  case (Synced se pjs)
  assume "no_estimates m"
  from no_estimates_sync [OF this, of se pjs] show ?thesis using Synced
    by (auto simp: step_def forget_old_def no_estimates_def intro: fold_mdel_all)
next
  case (Admit now req job)
  assume "no_estimates m" "enabled a m"
  then have "jb_StartDuration job = 0" using Admit by (simp add: enabled_def launch_ready_def)
  with \<open>no_estimates m\<close> show ?thesis using Admit no_estimates_admit by (simp add: step_def)
next
  case (StartFailed req job err)
  assume m: "no_estimates m"
  then have "no_estimates (m\<lparr>mg_requests := r, mg_jobs := mdel n (mg_jobs m)\<rparr>)" for n r
    using no_estimates_other(3) [of "m\<lparr>mg_requests := r\<rparr>" n] by (simp add: no_estimates_other)
  then show ?thesis using StartFailed m by (simp add: step_def launch_failed_def)
next
  case (WorkerBegin x)
  assume "no_estimates m"
  then show ?thesis using WorkerBegin by (simp add: step_def tryJob_def no_estimates_other)
next
  case (WorkerEnd x)
  assume "no_estimates m"
  then show ?thesis using WorkerEnd by (simp add: step_def finishJob_def no_estimates_other)
qed

interpretation est: lifecycle enabled no_estimates
proof
  show "no_estimates NewJobManager" by (simp add: no_estimates_def NewJobManager_def)
qed (rule no_estimates_step)

section \<open>One cluster per user\<close>

text \<open>Every running cluster is the one its requester's request names.\<close>

definition one_cluster :: "manager \<Rightarrow> bool" where
  "one_cluster m \<longleftrightarrow> (\<forall>k j. mget (mg_jobs m) k = Some j \<longrightarrow> is_launched j \<longrightarrow>
     (\<exists>r. mget (mg_requests m) (jb_RequestedBy j) = Some r \<and> rq_Name r = k))"

text \<open>
  The steps of admissions, failed cluster starts, terminations and workers. A failed start removes
  the request it belongs to; a worker does not revive a job that was stopped while it was running.
\<close>

definition cluster_guard :: "action \<Rightarrow> manager \<Rightarrow> bool" where
  "cluster_guard a m \<longleftrightarrow> enabled a m \<and>
     (case a of
        StartFailed req job err \<Rightarrow> launch_mode (jb_Mode job) \<and>
          (\<forall>r. mget (mg_requests m) (rq_User req) = Some r \<longrightarrow> rq_Name r = rq_Name req)
      | WorkerFinished notifier job \<Rightarrow> is_launched job \<longrightarrow>
          (\<exists>j. mget (mg_jobs m) (jb_Name job) = Some j \<and> is_launched j \<and> jb_RequestedBy j = jb_RequestedBy job)
      | Synced se pjs \<Rightarrow> False
      | _ \<Rightarrow> True)"

lemma one_clusterI:
  "(\<And>k j. mget (mg_jobs m) k = Some j \<Longrightarrow> is_launched j \<Longrightarrow>
      \<exists>r. mget (mg_requests m) (jb_RequestedBy j) = Some r \<and> rq_Name r = k) \<Longrightarrow> one_cluster m"
  by (simp add: one_cluster_def)

lemma one_clusterD:
  "one_cluster m \<Longrightarrow> mget (mg_jobs m) k = Some j \<Longrightarrow> is_launched j \<Longrightarrow>
     \<exists>r. mget (mg_requests m) (jb_RequestedBy j) = Some r \<and> rq_Name r = k"
  by (simp add: one_cluster_def)

lemma is_launched_update [simp]:
  "is_launched (j\<lparr>jb_RequestedChannel := c\<rparr>) = is_launched j"
  "is_launched (j\<lparr>jb_Operator := op\<rparr>) = is_launched j"
  by (simp_all add: is_launched_def)

lemma one_cluster_requests_only:
  assumes "one_cluster m" "\<And>k j. mget (mg_jobs m) k = Some j \<Longrightarrow> is_launched j \<Longrightarrow> jb_RequestedBy j \<noteq> user"
  shows "one_cluster (m\<lparr>mg_requests := mput user req (mg_requests m)\<rparr>)"
  using assms by (fastforce simp: one_cluster_def gm.lookup_insert)

lemma one_cluster_admit_cluster:
  assumes "one_cluster m" "\<And>k j. mget (mg_jobs m) k = Some j \<Longrightarrow> is_launched j \<Longrightarrow> jb_RequestedBy j \<noteq> rq_User req"
    "jb_RequestedBy job = rq_User req" "rq_Name req = jb_Name job"
  shows "one_cluster (fst (admit_cluster m now req job))"
  using assms one_cluster_requests_only [OF assms(1,2)]
  by (fastforce simp: admit_cluster_def Let_def one_cluster_def gm.lookup_insert)

lemma one_cluster_admit:
  assumes inv: "one_cluster m" and ready: "launch_ready req job"
    and fresh: "\<not> mhas (mg_jobs m) (jb_Name job)"
  shows "one_cluster (fst (admit m now req job))"
proof (cases "launch_mode (jb_Mode job)")
  case False
  then have "\<not> is_launched job" by (auto simp: is_launched_def)
  then have "one_cluster (m\<lparr>mg_jobs := mput (jb_Name job) job (mg_jobs m)\<rparr>)"
    using inv by (auto simp: one_cluster_def gm.lookup_insert)
  then show ?thesis using False inv by (auto simp: admit_def Let_def)
next
  case True
  have job: "jb_RequestedBy job = rq_User req" "rq_Name req = jb_Name job"
    using ready by (auto simp: launch_ready_def)
  show ?thesis
  proof (cases "mget (mg_requests m) (rq_User req)")
    case None
    have "jb_RequestedBy j \<noteq> rq_User req" if "mget (mg_jobs m) k = Some j" "is_launched j" for k j
      using one_clusterD [OF inv that] None by auto
    then have "one_cluster (fst (admit_cluster m now req job))"
      using inv job by (intro one_cluster_admit_cluster)
    then show ?thesis using True None by (auto simp: admit_def Let_def)
  next
    case (Some ex)
    let ?d = "m\<lparr>mg_jobs := mdel (rq_Name ex) (mg_jobs m), mg_requests := mdel (rq_User req) (mg_requests m)\<rparr>"
    have link: "rq_Name ex = k" if "mget (mg_jobs m) k = Some j" "is_launched j" "jb_RequestedBy j = rq_User req" for k j
      using one_clusterD [OF inv that(1,2)] Some that(3) by auto
    have gone: "one_cluster (fst (admit_cluster m now req job))" if "mget (mg_jobs m) (rq_Name ex) = None"
      using inv job link that by (intro one_cluster_admit_cluster) auto
    have other: "mget (mg_jobs m) k = Some j \<and> jb_RequestedBy j \<noteq> rq_User req"
      if "mget (mg_jobs ?d) k = Some j" "is_launched j" for k j
      using that link [of k j] by (auto simp: gm.lookup_remove split: if_splits)
    have "one_cluster ?d"
    proof (rule one_clusterI)
      fix k j assume kj: "mget (mg_jobs ?d) k = Some j" "is_launched j"
      from other [OF kj] one_clusterD [OF inv _ kj(2), of k]
      show "\<exists>r. mget (mg_requests ?d) (jb_RequestedBy j) = Some r \<and> rq_Name r = k"
        by (auto simp: gm.lookup_remove)
    qed
    then have dead: "one_cluster (fst (admit_cluster ?d now req job))"
      using job other by (intro one_cluster_admit_cluster) auto
    show ?thesis using True Some gone dead inv unfolding admit_def Let_def
      by (auto split: option.splits)
  qed
qed

lemma one_cluster_drop:
  assumes "one_cluster m" "\<And>j. mget (mg_jobs m) name = Some j \<Longrightarrow> \<not> is_launched j"
    "\<And>r. mget (mg_requests m) user = Some r \<Longrightarrow> rq_Name r = name"
  shows "one_cluster (m\<lparr>mg_requests := mdel user (mg_requests m)\<rparr>)"
proof (rule one_clusterI)
  fix k j assume kj: "mget (mg_jobs (m\<lparr>mg_requests := mdel user (mg_requests m)\<rparr>)) k = Some j" "is_launched j"
  then obtain r where r: "mget (mg_requests m) (jb_RequestedBy j) = Some r" "rq_Name r = k"
    using one_clusterD [OF assms(1)] by fastforce
  moreover have "jb_RequestedBy j \<noteq> user"
  proof
    assume "jb_RequestedBy j = user"
    then have "k = name" using assms(3) r by auto
    then show False using assms(2) kj by simp
  qed
  ultimately show "\<exists>r. mget (mg_requests (m\<lparr>mg_requests := mdel user (mg_requests m)\<rparr>)) (jb_RequestedBy j) = Some r \<and> rq_Name r = k"
    by (simp add: gm.lookup_remove)
qed

lemma one_cluster_terminate:
  assumes "one_cluster m"
  shows "one_cluster (fst (terminate_finish m now user name))"
proof -
  let ?m1 = "case mget (mg_jobs m) name of None \<Rightarrow> m
    | Some j \<Rightarrow> m\<lparr>mg_jobs := mput name (j\<lparr>jb_Failure := ''deletion requested'',
          jb_ExpiresAt := now + 15 * minute, jb_Complete := True\<rparr>) (mg_jobs m)\<rparr>"
  have req: "mg_requests ?m1 = mg_requests m" by (simp split: option.splits)
  have live: "k \<noteq> name \<and> mget (mg_jobs m) k = Some i" if "mget (mg_jobs ?m1) k = Some i" "is_launched i" for k i
    using that by (cases "mget (mg_jobs m) name") (auto simp: gm.lookup_insert is_launched_def split: if_splits)
  have inv: "one_cluster ?m1"
    using one_clusterD [OF assms] live by (intro one_clusterI) (simp add: req)
  moreover have "one_cluster (?m1\<lparr>mg_requests := mdel user (mg_requests ?m1)\<rparr>)"
    if "mget (mg_requests ?m1) user = Some r" "rq_Name r = name" for r
    using inv that live by (intro one_cluster_drop [of _ name]) auto
  ultimately show ?thesis
    unfolding terminate_finish_def Let_def by (cases "mget (mg_requests ?m1) user") simp_all
qed

lemma one_cluster_del_job: "one_cluster m \<Longrightarrow> one_cluster (m\<lparr>mg_jobs := mdel n (mg_jobs m)\<rparr>)"
  by (auto simp: one_cluster_def gm.lookup_remove)

lemma one_cluster_put_job:
  assumes "one_cluster m"
    "is_launched job \<Longrightarrow> \<exists>j. mget (mg_jobs m) n = Some j \<and> is_launched j \<and> jb_RequestedBy j = jb_RequestedBy job"
  shows "one_cluster (m\<lparr>mg_jobs := mput n job (mg_jobs m)\<rparr>)"
proof (rule one_clusterI)
  fix k j assume kj: "mget (mg_jobs (m\<lparr>mg_jobs := mput n job (mg_jobs m)\<rparr>)) k = Some j" "is_launched j"
  obtain i where i: "mget (mg_jobs m) k = Some i" "is_launched i" "jb_RequestedBy i = jb_RequestedBy j"
    using kj assms(2) by (cases "k = n") (auto simp: gm.lookup_insert)
  from one_clusterD [OF assms(1) i(1,2)] i(3)
  show "\<exists>r. mget (mg_requests (m\<lparr>mg_jobs := mput n job (mg_jobs m)\<rparr>)) (jb_RequestedBy j) = Some r \<and> rq_Name r = k"
    by simp
qed

lemma one_cluster_cong:
  "mg_jobs m' = mg_jobs m \<Longrightarrow> mg_requests m' = mg_requests m \<Longrightarrow> one_cluster m \<Longrightarrow> one_cluster m'"
  by (simp add: one_cluster_def)

lemma one_cluster_step: "cluster_guard a m \<Longrightarrow> one_cluster m \<Longrightarrow> one_cluster (step a m)"
proof (cases a)
  case (Admit now req job)
  assume "cluster_guard a m" "one_cluster m"
  then show ?thesis using Admit one_cluster_admit by (simp add: step_def cluster_guard_def enabled_def)
next
  case (StartFailed req job err)
  assume g: "cluster_guard a m" and inv: "one_cluster m"
  let ?m1 = "m\<lparr>mg_jobs := mdel (rq_Name req) (mg_jobs m)\<rparr>"
  have "one_cluster (?m1\<lparr>mg_requests := mdel (rq_User req) (mg_requests ?m1)\<rparr>)"
    using g StartFailed
    by (intro one_cluster_drop [of _ "rq_Name req"] one_cluster_del_job [OF inv])
      (auto simp: cluster_guard_def gm.lookup_remove)
  then show ?thesis using StartFailed inv
    by (auto simp: step_def launch_failed_def elim: one_cluster_cong [rotated 2])
next
  case (OperatorFound job op)
  assume "one_cluster m"
  then show ?thesis using OperatorFound by (auto simp: step_def intro: one_cluster_put_job)
next
  case (Terminated now user name)
  assume "one_cluster m"
  then show ?thesis using Terminated one_cluster_terminate by (simp add: step_def)
next
  case (WorkerFinished n job)
  assume "cluster_guard a m" "one_cluster m"
  then have "one_cluster (m\<lparr>mg_jobs := mput (jb_Name job) (job\<lparr>jb_RequestedChannel := []\<rparr>) (mg_jobs m)\<rparr>)"
    using WorkerFinished by (intro one_cluster_put_job) (auto simp: cluster_guard_def)
  then show ?thesis using WorkerFinished
    by (auto simp: step_def finishedJob_def elim: one_cluster_cong [rotated 2])
next
  case (Synced se pjs)
  assume "cluster_guard a m"
  then show ?thesis using Synced by (simp add: cluster_guard_def)
qed (auto simp: step_def tryJob_def finishJob_def elim: one_cluster_cong [rotated 2])

interpretation oc: lifecycle cluster_guard one_cluster
proof
  show "one_cluster NewJobManager" by (simp add: one_cluster_def NewJobManager_def)
qed (rule one_cluster_step)

end
