(* ===== verification/ManagerProps.thy ===== *)
theory ManagerProps
  imports Lifecycle
begin

text \<open>
  The properties of the job manager: admission and the cluster limit, one cluster per user,
  termination, workers, notifications, start estimates and the sync loop.
\<close>

section \<open>A small manager for the witnesses\<close>

definition sample_request :: "string \<Rightarrow> string \<Rightarrow> JobType \<Rightarrow> JobRequest" where
  "sample_request user name ty =
     \<lparr>rq_OriginalMessage = [], rq_User = user, rq_UserName = [], rq_Inputs = [], rq_Type = ty,
      rq_Platform = ''aws'', rq_WorkflowName = [], rq_Channel = ''C1'', rq_RequestedAt = 1, rq_Name = name,
      rq_JobName = [], rq_JobParams = [], rq_Architecture = ''amd64'', rq_ManagedClusterName = []\<rparr>"

definition sample_job :: "string \<Rightarrow> string \<Rightarrow> JobType \<Rightarrow> Job" where
  "sample_job user name mode =
     emptyJob\<lparr>jb_Name := name, jb_State := PendingState, jb_Mode := mode, jb_RequestedBy := user,
       jb_RequestedChannel := ''C1'', jb_BuildCluster := ''build01''\<rparr>"

lemma sample_job_sel [simp]:
  "jb_Name (sample_job u n t) = n" "jb_State (sample_job u n t) = PendingState"
  "jb_Mode (sample_job u n t) = t" "jb_RequestedBy (sample_job u n t) = u"
  "jb_RequestedChannel (sample_job u n t) = ''C1''" "jb_BuildCluster (sample_job u n t) = ''build01''"
  "jb_Credentials (sample_job u n t) = []" "jb_Failure (sample_job u n t) = []"
  "jb_Complete (sample_job u n t) = False" "jb_StartDuration (sample_job u n t) = 0"
  "jb_CredentialsSnippet (sample_job u n t) = []"
  by (simp_all add: sample_job_def emptyJob_def)

lemma sample_request_sel [simp]:
  "rq_User (sample_request u n t) = u" "rq_Name (sample_request u n t) = n"
  "rq_Type (sample_request u n t) = t" "rq_RequestedAt (sample_request u n t) = 1"
  by (simp_all add: sample_request_def)

lemma sample_ready: "u \<noteq> [] \<Longrightarrow> n \<noteq> [] \<Longrightarrow> launch_ready (sample_request u n t) (sample_job u n t)"
  by (simp add: launch_ready_def)

definition sample_launched :: manager where
  "sample_launched = NewJobManager\<lparr>mg_requests := [(''u'', sample_request ''u'' ''c1'' JobTypeLaunch)],
     mg_jobs := [(''c1'', sample_job ''u'' ''c1'' JobTypeLaunch)]\<rparr>"

lemma sample_launched_step:
  "step (Admit 1 (sample_request ''u'' ''c1'' JobTypeLaunch) (sample_job ''u'' ''c1'' JobTypeLaunch)) NewJobManager =
     sample_launched"
  by (simp add: step_def admit_def admit_cluster_def NewJobManager_def sample_launched_def mput_def
      maxTotalClusters_def Let_def)

lemma sample_launched_reach: "reach cluster_guard sample_launched"
proof -
  have "cluster_guard (Admit 1 (sample_request ''u'' ''c1'' JobTypeLaunch) (sample_job ''u'' ''c1'' JobTypeLaunch)) NewJobManager"
    by (simp add: cluster_guard_def enabled_def sample_ready NewJobManager_def mhas_def)
  then show ?thesis
    using reach_step [OF reach_init [of cluster_guard], where a = "Admit 1 (sample_request ''u'' ''c1'' JobTypeLaunch) (sample_job ''u'' ''c1'' JobTypeLaunch)"]
    by (simp only: sample_launched_step)
qed

section \<open>Counting\<close>

lemma mcount_mput_same:
  "mget m k = Some v \<Longrightarrow> p v = p v' \<Longrightarrow> mcount p (mput k v' m) = mcount p m"
proof (induction m)
  case (Cons a m)
  then show ?case by (cases a) (auto simp: mput_def split: if_splits)
qed simp

lemma count_admit_cluster:
  "mcount is_launched (mg_jobs (fst (admit_cluster m now req job))) \<le>
     max (mcount is_launched (mg_jobs m)) (mg_maxClusters m)"
  using mcount_mput_le [of is_launched "jb_Name job" job "mg_jobs m"]
  by (auto simp: admit_cluster_def Let_def split: if_splits)

lemma count_admit:
  "mcount is_launched (mg_jobs (fst (admit m now req job))) \<le>
     max (mcount is_launched (mg_jobs m)) (mg_maxClusters m)"
proof (cases "launch_mode (jb_Mode job)")
  case False
  then have "\<not> is_launched job" by (auto simp: is_launched_def)
  then show ?thesis using False mcount_mput_le [of is_launched "jb_Name job" job "mg_jobs m"]
    by (auto simp: admit_def Let_def)
next
  case True
  have del: "mcount is_launched (mg_jobs (fst (admit_cluster (m\<lparr>mg_jobs := mdel n (mg_jobs m),
      mg_requests := r\<rparr>) now req job))) \<le> max (mcount is_launched (mg_jobs m)) (mg_maxClusters m)" for n r
    using count_admit_cluster [of "m\<lparr>mg_jobs := mdel n (mg_jobs m), mg_requests := r\<rparr>" now req job]
      mcount_mdel_le [of is_launched n "mg_jobs m"] by simp
  show ?thesis using True del count_admit_cluster [of m now req job]
    unfolding admit_def Let_def by (auto split: option.splits)
qed

lemma maxClusters_admit [simp]: "mg_maxClusters (fst (admit m now req job)) = mg_maxClusters m"
  by (auto simp: admit_def admit_cluster_def Let_def split: option.splits)

lemma count_newJob:
  "mcount is_launched (mg_jobs (fst (newJob create m job))) = mcount is_launched (mg_jobs m)"
  using mcount_mput_same [of "mg_jobs m" "jb_Name job" job is_launched]
  by (auto simp: newJob_def tryJob_def finishJob_def Let_def split: sum.splits prod.splits)

lemma count_launch_failed:
  "mcount is_launched (mg_jobs (fst (launch_failed m req e))) \<le> mcount is_launched (mg_jobs m)"
  using mcount_mdel_le by (auto simp: launch_failed_def)

lemma admit_cases:
  assumes "launch_mode (jb_Mode job)"
  obtains "admit m now req job = admit_cluster m now req job"
    | ex :: JobRequest where "admit m now req job = admit_cluster (m\<lparr>mg_jobs := mdel (rq_Name ex) (mg_jobs m),
        mg_requests := mdel (rq_User req) (mg_requests m)\<rparr>) now req job"
    | ex :: JobRequest where "admit m now req job = (m, Inl (already_requested m now ex))"
    | "admit m now req job = (m, Inr running_message)"
proof (cases "mget (mg_requests m) (rq_User req)")
  case None
  then have "admit m now req job = admit_cluster m now req job"
    using assms unfolding admit_def Let_def by simp
  then show thesis by (rule that(1))
next
  case (Some ex)
  note ex = this
  have e: "admit m now req job =
     (if rq_Name ex = [] then (m, Inl (already_requested m now ex))
      else (case mget (mg_jobs m) (rq_Name ex) of
              None \<Rightarrow> admit_cluster m now req job
            | Some j \<Rightarrow>
                if jb_Credentials j \<noteq> [] then (m, Inr running_message)
                else if jb_Failure j = [] then (m, Inl (already_requested m now ex))
                else admit_cluster (m\<lparr>mg_jobs := mdel (rq_Name ex) (mg_jobs m),
                       mg_requests := mdel (rq_User req) (mg_requests m)\<rparr>) now req job))"
    using assms ex unfolding admit_def Let_def by simp
  show thesis
  proof (cases "mget (mg_jobs m) (rq_Name ex)")
    case None
    then show thesis using e that(1,3) by (cases "rq_Name ex = []") simp_all
  next
    case (Some j)
    consider "rq_Name ex = []" | "rq_Name ex \<noteq> []" "jb_Credentials j \<noteq> []"
      | "rq_Name ex \<noteq> []" "jb_Credentials j = []" "jb_Failure j = []"
      | "rq_Name ex \<noteq> []" "jb_Credentials j = []" "jb_Failure j \<noteq> []" by blast
    then show thesis
    proof cases
      case 1
      then show thesis using e that(3) by simp
    next
      case 2
      then show thesis using e Some that(4) by simp
    next
      case 3
      then show thesis using e Some that(3) by simp
    next
      case 4
      then show thesis using e Some by (intro that(2) [of ex]) simp
    qed
  qed
qed

section \<open>Admission\<close>

text \<open>
  C2: \<open>LaunchJobForUser\<close> never raises the number of running clusters above the limit, whatever its
  outcome: afterwards there are at most as many as before or as many as the limit allows.
\<close>

theorem launch_respects_capacity:
  "mcount is_launched (mg_jobs (fst (LaunchJobForUser env create m now req0))) \<le>
     max (mcount is_launched (mg_jobs m)) (mg_maxClusters m)"
proof (cases "prepare_launch env m now req0")
  case (Inl e)
  then show ?thesis by (simp add: LaunchJobForUser_def)
next
  case (Inr rj)
  obtain req job where rj: "rj = (req, job)" by fastforce
  obtain m1 r where a: "admit m now req job = (m1, r)" by fastforce
  obtain m2 n where n: "newJob create m1 job = (m2, n)" by fastforce
  have "mcount is_launched (mg_jobs m1) \<le> max (mcount is_launched (mg_jobs m)) (mg_maxClusters m)"
    using count_admit [of m now req job] a by simp
  moreover have "mcount is_launched (mg_jobs m2) = mcount is_launched (mg_jobs m1)"
    using count_newJob [of create m1 job] n by simp
  moreover have "mcount is_launched (mg_jobs (fst (launch_failed m2 req e))) \<le> mcount is_launched (mg_jobs m2)" for e
    by (rule count_launch_failed)
  moreover have "mg_jobs (fst (LaunchJobForUser env create m now req0)) \<in>
      {mg_jobs m1, mg_jobs m2} \<union> {mg_jobs (fst (launch_failed m2 req e)) | e. True}"
    using Inr rj a n
    by (cases r; cases n) (force simp: LaunchJobForUser_def split: prod.splits dest: arg_cong [where f = fst])+
  ultimately show ?thesis by (elim UnE insertE emptyE CollectE exE conjE) (auto intro: order_trans)
qed

text \<open>
  C3: when the launch branch of the critical section admits a cluster there was room for it, and
  afterwards the job and the request are registered; when it reports that no cluster is available the
  limit is reached.
\<close>

theorem admission_decision:
  assumes "launch_mode (jb_Mode job)" "admit m now req job = (m', r)"
  shows "(r = Inr [] \<longrightarrow> mcount is_launched (mg_jobs m') \<le> mg_maxClusters m \<and>
            mget (mg_jobs m') (jb_Name job) = Some job \<and> mget (mg_requests m') (rq_User req) = Some req) \<and>
    (\<forall>w. r = Inl (NoCapacity w) \<longrightarrow> mg_maxClusters m \<le> mcount is_launched (mg_jobs m') \<and>
            mget (mg_requests m') (rq_User req) = Some req)"
proof -
  have c: "(snd (admit_cluster n now req job) = Inr [] \<longrightarrow>
        mcount is_launched (mg_jobs (fst (admit_cluster n now req job))) \<le> mg_maxClusters n \<and>
        mget (mg_jobs (fst (admit_cluster n now req job))) (jb_Name job) = Some job \<and>
        mget (mg_requests (fst (admit_cluster n now req job))) (rq_User req) = Some req) \<and>
      (\<forall>w. snd (admit_cluster n now req job) = Inl (NoCapacity w) \<longrightarrow>
        mg_maxClusters n \<le> mcount is_launched (mg_jobs (fst (admit_cluster n now req job))) \<and>
        mget (mg_requests (fst (admit_cluster n now req job))) (rq_User req) = Some req)" for n
    using mcount_mput_le [of is_launched "jb_Name job" job "mg_jobs n"]
    by (auto simp: admit_cluster_def Let_def gm.lookup_insert split: if_splits)
  have r: "running_message \<noteq> []" by (simp add: running_message_def)
  show ?thesis
  proof (rule admit_cases [OF assms(1), of m now req])
    assume "admit m now req job = admit_cluster m now req job"
    then have "m' = fst (admit_cluster m now req job)" "r = snd (admit_cluster m now req job)"
      using assms(2) by (metis fst_conv, metis snd_conv)
    then show ?thesis using c [of m] by simp
  next
    fix ex
    let ?d = "m\<lparr>mg_jobs := mdel (rq_Name ex) (mg_jobs m), mg_requests := mdel (rq_User req) (mg_requests m)\<rparr>"
    assume "admit m now req job = admit_cluster ?d now req job"
    then have "m' = fst (admit_cluster ?d now req job)" "r = snd (admit_cluster ?d now req job)"
      using assms(2) by (metis fst_conv, metis snd_conv)
    then show ?thesis using c [of ?d] by simp
  qed (use assms(2) r in \<open>simp_all add: already_requested_def\<close>)
qed

theorem admission_decision_witness:
  "mget (mg_jobs (fst (admit NewJobManager 1 (sample_request ''u'' ''c1'' JobTypeLaunch) (sample_job ''u'' ''c1'' JobTypeLaunch)))) ''c1''
     = Some (sample_job ''u'' ''c1'' JobTypeLaunch)"
proof -
  let ?req = "sample_request ''u'' ''c1'' JobTypeLaunch" and ?job = "sample_job ''u'' ''c1'' JobTypeLaunch"
  have "admit NewJobManager 1 ?req ?job = (fst (admit NewJobManager 1 ?req ?job), Inr [])"
    by (simp add: admit_def admit_cluster_def NewJobManager_def maxTotalClusters_def Let_def)
  from admission_decision [OF _ this] show ?thesis by simp
qed

section \<open>One cluster per user\<close>



text \<open>
  The clean-up of a failed start removes the request of the user even when the job that failed was
  a test: a user whose cluster is running loses the request for it, and a second cluster is admitted.
\<close>

theorem failed_test_start_allows_second_cluster:
  "let m1 = step (StartFailed (sample_request ''u'' ''t1'' JobTypeTest) (sample_job ''u'' ''t1'' JobTypeTest) ''boom'') sample_launched;
       m2 = step (Admit 2 (sample_request ''u'' ''c2'' JobTypeLaunch) (sample_job ''u'' ''c2'' JobTypeLaunch)) m1
   in mget (mg_requests m1) ''u'' = None \<and>
      mget (mg_jobs m2) ''c1'' = Some (sample_job ''u'' ''c1'' JobTypeLaunch) \<and>
      mget (mg_jobs m2) ''c2'' = Some (sample_job ''u'' ''c2'' JobTypeLaunch) \<and>
      mcount is_launched (mg_jobs m2) = 2"
proof -
  have "\<not> has_prefix ''boom'' time_out_prefix" by (simp add: has_prefix_def time_out_prefix_def)
  then have m1: "step (StartFailed (sample_request ''u'' ''t1'' JobTypeTest) (sample_job ''u'' ''t1'' JobTypeTest) ''boom'') sample_launched
      = sample_launched\<lparr>mg_requests := []\<rparr>"
    by (simp add: step_def launch_failed_def sample_launched_def mdel_def NewJobManager_def)
  show ?thesis unfolding m1 Let_def
    by (simp add: step_def admit_def admit_cluster_def sample_launched_def NewJobManager_def mput_def
        maxTotalClusters_def is_launched_def Let_def)
qed

section \<open>Failed starts and terminations\<close>

lemma newJob_requests: "mg_requests (fst (newJob create m job)) = mg_requests m"
  by (auto simp: newJob_def tryJob_def finishJob_def Let_def split: sum.splits prod.splits)

lemma prepare_launch_names:
  "prepare_launch env m now req0 = Inr (req, job) \<Longrightarrow>
     rq_User req = rq_User req0 \<and> rq_Name req = mg_clusterPrefix m @ stamp_text now"
  by (auto simp: prepare_launch_def rbind_eq_Inr_iff resolveToJob_def Let_def
      split: option.splits if_splits sum.splits)

lemma rbind_eq_Inl_iff: "rbind m f = Inl e \<longleftrightarrow> m = Inl e \<or> (\<exists>x. m = Inr x \<and> f x = Inl e)"
  by (cases m) auto

lemma job_mode_error: "job_mode req jis \<noteq> Inl (CannotStart e)"
  by (simp add: job_mode_def Let_def)

lemma resolveToJob_error: "resolveToJob rv m now req \<noteq> Inl (CannotStart e)"
  by (simp add: resolveToJob_def Let_def rbind_eq_Inl_iff job_mode_error split: sum.splits)

lemma pick_prow_job_error: "pick_prow_job env now req job \<noteq> Inl (CannotStart e)"
  by (simp add: pick_prow_job_def Let_def split: option.splits sum.splits bool.splits)

lemma prepare_launch_error: "prepare_launch env m now req \<noteq> Inl (CannotStart e)"
  by (simp add: prepare_launch_def rbind_eq_Inl_iff resolveToJob_error pick_prow_job_error
      split: option.splits)

text \<open>
  C35: when a job cannot be started, nothing of it is left: no request of the user, no job of that
  name, no worker, so the user can try again.
\<close>

theorem failed_launch_leaves_nothing:
  assumes "LaunchJobForUser env create m now req0 = (m', LaunchError (CannotStart e), evs)"
  shows "\<not> mhas (mg_requests m') (rq_User req0) \<and> \<not> mhas (mg_jobs m') (mg_clusterPrefix m @ stamp_text now) \<and> evs = []"
proof -
  obtain req job where p: "prepare_launch env m now req0 = Inr (req, job)"
    using assms prepare_launch_error [of env m now req0 e] by (cases "prepare_launch env m now req0") (auto simp: LaunchJobForUser_def)
  have adm: "snd (admit m now req job) \<noteq> Inl (CannotStart e)"
    by (auto simp: admit_def admit_cluster_def already_requested_def Let_def split: option.splits)
  obtain m2 err where "launch_failed m2 req err = (m', LaunchError (CannotStart e))" "evs = []"
    using assms p adm unfolding LaunchJobForUser_def
    by (auto split: sum.splits if_splits prod.splits)
  then show ?thesis using prepare_launch_names [OF p]
    by (auto simp: launch_failed_def split: if_splits)
qed

definition sample_pod :: PodSpec where
  "sample_pod = \<lparr>ps_InitContainers = [], ps_Containers = []\<rparr>"

definition sample_env :: "nat environment" where
  "sample_env = \<lparr>en_resolver = sample_resolver, en_parseRef = (\<lambda>_. Some (''quay.io'', True, False)),
     en_periodicSpec = (\<lambda>p. \<lparr>sp_Type = ''periodic'', sp_Job = pd_Name p, sp_Cluster = ''build01'', sp_PodSpec = sample_pod, sp_SkipCloning = None, sp_ExtraRefs = []\<rparr>),
     en_prowConfig = Some \<lparr>pc_Periodics = [\<lparr>pd_Name = ''launch-aws'', pd_Labels = [(''job-env'', ''aws''),
        (''job-type'', ''launch''), (''config-type'', ''modern''), (''job-architecture'', ''amd64'')]\<rparr>],
        pc_SchedulerEnabled = False\<rparr>,
     en_unmarshal = (\<lambda>_. None), en_schedule = (\<lambda>_. None)\<rparr>"

definition sample_install :: JobRequest where
  "sample_install = (sample_request ''u'' [] JobTypeInstall)\<lparr>rq_Inputs := [[''a/b#1'', ''a/b#2'']]\<rparr>"

lemma sample_valid: "containsValidVersion (en_parseRef sample_env) [''a/b#1'', ''a/b#2'']"
  by (simp add: containsValidVersion_def valid_item_def sample_env_def allowedRegistryNames_def)

lemma sample_prepared: "\<exists>req job. prepare_launch sample_env NewJobManager now sample_install = Inr (req, job) \<and>
    jb_Mode job = JobTypeLaunch \<and> \<not> IsComplete job"
  using sample_valid sample_lookup
  by (simp add: prepare_launch_def getROSAClusterForUser_def NewJobManager_def mvals_def sample_install_def
      resolveToJob_def sample_env_def sample_request_def mhas_def job_mode_def Let_def pick_prow_job_def
      release_selector_def sample_resolver_def sample_semver_def JobForLabels_def hasProwJobWithLabels_def
      selector_matches_def newProwJob_def prowSpecForPeriodicConfig_def firstEnvVar_def sample_pod_def
      sample_input_def with_prow_job_def IsComplete_def emptyJob_def)

lemma boom_not_timeout: "\<not> has_prefix ''boom'' time_out_prefix"
  by (simp add: has_prefix_def time_out_prefix_def)

lemma sample_failed:
  "\<exists>m'. LaunchJobForUser sample_env (\<lambda>j. (jb_Operator j, Inl ''boom'')) NewJobManager 1 sample_install =
     (m', LaunchError (CannotStart ''boom''), [])"
proof -
  obtain req job where p: "prepare_launch sample_env NewJobManager 1 sample_install = Inr (req, job)"
    and j: "jb_Mode job = JobTypeLaunch" "\<not> IsComplete job" using sample_prepared by blast
  have "snd (admit NewJobManager 1 req job) = Inr []" "mg_running (fst (admit NewJobManager 1 req job)) = []"
    using j by (simp_all add: admit_def admit_cluster_def NewJobManager_def maxTotalClusters_def Let_def)
  then obtain m1 where a: "admit NewJobManager 1 req job = (m1, Inr [])" "mg_running m1 = []"
    by (metis prod.collapse)
  have "snd (newJob (\<lambda>j. (jb_Operator j, Inl ''boom'')) m1 job) = Inl ''boom''"
    using a(2) j(2) by (simp add: newJob_def tryJob_def)
  then obtain m2 where "newJob (\<lambda>j. (jb_Operator j, Inl ''boom'')) m1 job = (m2, Inl ''boom'')" by (metis prod.collapse)
  then show ?thesis using p a boom_not_timeout by (simp add: LaunchJobForUser_def launch_failed_def)
qed

theorem failed_launch_leaves_nothing_witness:
  "\<exists>m'. \<not> mhas (mg_requests m') ''u'' \<and>
     LaunchJobForUser sample_env (\<lambda>j. (jb_Operator j, Inl ''boom'')) NewJobManager 1 sample_install =
       (m', LaunchError (CannotStart ''boom''), [])"
proof -
  obtain m' where l: "LaunchJobForUser sample_env (\<lambda>j. (jb_Operator j, Inl ''boom'')) NewJobManager 1 sample_install =
     (m', LaunchError (CannotStart ''boom''), [])" using sample_failed by blast
  have "rq_User sample_install = ''u''" by (simp add: sample_install_def)
  then show ?thesis using failed_launch_leaves_nothing [OF l] l by auto
qed



text \<open>
  The limit on jobs other than clusters lets one job too many through: with \<open>maxJobsPerUser\<close> jobs
  registered for the user another one is admitted.
\<close>

theorem job_limit_off_by_one:
  assumes "\<not> launch_mode (jb_Mode job)" "jb_RequestedBy job = rq_User req" "\<not> mhas (mg_jobs m) (jb_Name job)"
    "mcount (\<lambda>j. \<not> launch_mode (jb_Mode j) \<and> jb_RequestedBy j = rq_User req) (mg_jobs m) = maxJobsPerUser"
  shows "snd (admit m now req job) = Inr [] \<and>
    mcount (\<lambda>j. \<not> launch_mode (jb_Mode j) \<and> jb_RequestedBy j = rq_User req) (mg_jobs (fst (admit m now req job)))
      = maxJobsPerUser + 1"
  using assms by (simp add: admit_def Let_def mcount_mput_fresh)

lemma mcount_upt:
  "(\<And>i. i < n \<Longrightarrow> p (f i)) \<Longrightarrow> mcount p (map (\<lambda>i. (g i, f i)) [0 ..< n]) = n"
  by (induction n) auto

definition busy_manager :: manager where
  "busy_manager = NewJobManager\<lparr>mg_jobs := map (\<lambda>i. (''t'' @ show_nat i, sample_job ''u'' (''t'' @ show_nat i) JobTypeTest)) [0 ..< 23]\<rparr>"

theorem job_limit_off_by_one_witness:
  "snd (admit busy_manager 1 (sample_request ''u'' ''x'' JobTypeTest) (sample_job ''u'' ''x'' JobTypeTest)) = Inr []"
proof -
  have "\<not> mhas (mg_jobs busy_manager) ''x''"
    by (auto simp: busy_manager_def mhas_def mget_eq_None_iff mkeys_def simp del: upt_rec_numeral)
  moreover have "mcount (\<lambda>j. \<not> launch_mode (jb_Mode j) \<and> jb_RequestedBy j = ''u'') (mg_jobs busy_manager) = 23"
    unfolding busy_manager_def by (simp del: upt_Suc upt_rec_numeral add: mcount_upt)
  ultimately show ?thesis
    using job_limit_off_by_one [of "sample_job ''u'' ''x'' JobTypeTest" "sample_request ''u'' ''x'' JobTypeTest" busy_manager 1]
    by (simp add: maxJobsPerUser_def)
qed

section \<open>Workers and notifications\<close>

text \<open>
  C37: a worker holds its job exclusively. While a job has a worker a second \<open>handleJobStartup\<close> does
  nothing, and a worker that ends leaves the set of running workers as it was.
\<close>

theorem worker_exclusive:
  "(jb_Name job \<in> set (mg_running m) \<longrightarrow> handleJobStartup we notifier still m job = (m, [], [])) \<and>
   (jb_Name job \<notin> set (mg_running m) \<longrightarrow>
      mg_running (fst (handleJobStartup we notifier still m job)) = mg_running m) \<and>
   snd (tryJob (fst (tryJob m name)) name) = False"
proof (intro conjI impI)
  assume "jb_Name job \<notin> set (mg_running m)"
  then show "mg_running (fst (handleJobStartup we notifier still m job)) = mg_running m"
    by (auto simp: handleJobStartup_def tryJob_def finishJob_def finishedJob_def removeAll_id
        split: prod.splits option.splits)
qed (auto simp: handleJobStartup_def tryJob_def)

theorem worker_exclusive_witness:
  "handleJobStartup \<lparr>we_scheduled = [], we_completion = [], we_pod = [], we_setup = [],
     we_final = \<lparr>ob_current = None, ob_prow = Inl [], ob_client = False, ob_pod = ApiNotFound, ob_secret = Inl [],
       ob_catalog = CatalogBuilt, ob_reachable = False\<rparr>, we_kubeconfig_error = None, we_reachable = [], we_now = 0\<rparr>
     True False (sample_launched\<lparr>mg_running := [''c1'']\<rparr>) (sample_job ''u'' ''c1'' JobTypeLaunch)
   = (sample_launched\<lparr>mg_running := [''c1'']\<rparr>, [], [])"
  using worker_exclusive [of "sample_job ''u'' ''c1'' JobTypeLaunch" "sample_launched\<lparr>mg_running := [''c1'']\<rparr>"] by simp

lemma reachable_success:
  "poll reachable_cond obs job = (job', None) \<Longrightarrow> \<exists>ob \<in> set obs. ob_reachable ob"
proof -
  assume "poll reachable_cond obs job = (job', None)"
  from poll_success [OF this] obtain ob t where "ob \<in> set obs" "reachable_cond ob t = (job', Inr True)" by blast
  then show ?thesis by (auto simp: reachable_cond_def split: prod.splits bool.splits)
qed

lemma credentials_view:
  assumes "\<And>ob s. jb_Credentials (f (fst (cond ob s))) = jb_Credentials (f s)"
  shows "poll cond obs s = (s', e) \<Longrightarrow> jb_Credentials (f s') = jb_Credentials (f s)"
  using poll_view [of "\<lambda>x. jb_Credentials (f x)" cond] assms by blast

lemma jobIsComplete_credentials:
  "jobIsComplete c job = (job', b) \<Longrightarrow> jb_Credentials job' = jb_Credentials job"
  by (auto simp: jobIsComplete_def split: option.splits if_splits)

lemma cond_credentials:
  "jb_Credentials (fst (fst (scheduled_cond ob s))) = jb_Credentials (fst s)"
  "jb_Credentials (fst (completion_cond ob job)) = jb_Credentials job"
  "jb_Credentials (fst (fst (pod_cond ob t))) = jb_Credentials (fst t)"
  "jb_Credentials (fst (setup_cond ob job)) = jb_Credentials job"
  "jb_Credentials (fst (reachable_cond ob job)) = jb_Credentials job"
proof -
  show "jb_Credentials (fst (fst (scheduled_cond ob s))) = jb_Credentials (fst s)"
  proof -
    obtain j b where "jobIsComplete (ob_current ob) (fst s) = (j, b)" by fastforce
    with jobIsComplete_credentials [OF this] show ?thesis
      by (cases b; cases "ob_prow ob") (simp_all add: scheduled_cond_def Let_def)
  qed
  show "jb_Credentials (fst (fst (pod_cond ob t))) = jb_Credentials (fst t)"
  proof -
    obtain j b where "jobIsComplete (ob_current ob) (fst t) = (j, b)" by fastforce
    with jobIsComplete_credentials [OF this] show ?thesis
      by (cases b; cases "ob_pod ob") (simp_all add: pod_cond_def)
  qed
  obtain j b where jb: "jobIsComplete (ob_current ob) job = (j, b)" by fastforce
  note c = jobIsComplete_credentials [OF jb]
  show "jb_Credentials (fst (completion_cond ob job)) = jb_Credentials job"
    using jb c by (cases b; cases "ob_prow ob"; cases "ob_catalog ob") (simp_all add: completion_cond_def Let_def)
  show "jb_Credentials (fst (setup_cond ob job)) = jb_Credentials job"
    using jb c by (cases b; cases "ob_pod ob"; cases "ob_secret ob") (simp_all add: setup_cond_def)
  show "jb_Credentials (fst (reachable_cond ob job)) = jb_Credentials job"
    using jb c by (cases b) (simp_all add: reachable_cond_def)
qed

lemmas poll_credentials =
  credentials_view [where f = fst and cond = scheduled_cond, OF cond_credentials(1)]
  credentials_view [where f = "\<lambda>x. x" and cond = completion_cond, OF cond_credentials(2)]
  credentials_view [where f = fst and cond = pod_cond, OF cond_credentials(3)]
  credentials_view [where f = "\<lambda>x. x" and cond = setup_cond, OF cond_credentials(4)]
  credentials_view [where f = "\<lambda>x. x" and cond = reachable_cond, OF cond_credentials(5)]

lemma collect_credentials_reachable:
  assumes "collect_credentials we pj a job = (job', e, evs)" "jb_Credentials job = []" "jb_Credentials job' \<noteq> []"
  shows "(\<exists>ob \<in> set (we_reachable we). ob_reachable ob) \<and>
    (\<exists>secret. ob_secret (we_final we) = Inr secret \<and> mget secret ''kubeconfig'' = Some (jb_Credentials job'))"
proof -
  obtain secret k where s: "ob_secret (we_final we) = Inr secret" "mget secret ''kubeconfig'' = Some k"
    and cl: "ob_client (we_final we)"
    using assms unfolding collect_credentials_def
    by (cases "ob_secret (we_final we)"; cases "ob_client (we_final we)") (auto split: option.splits)
  obtain job2 w where w: "(case we_kubeconfig_error we of Some e \<Rightarrow> (job\<lparr>jb_Credentials := k\<rparr>, Some e)
      | None \<Rightarrow> poll reachable_cond (we_reachable we) (job\<lparr>jb_Credentials := k\<rparr>)) = (job2, w)" by fastforce
  have ok: "w = None" and c: "jb_Credentials job' = jb_Credentials job2"
    using assms s cl w unfolding collect_credentials_def
    by (auto simp: Let_def split: option.splits)
  have "poll reachable_cond (we_reachable we) (job\<lparr>jb_Credentials := k\<rparr>) = (job2, None)"
    using w ok by (auto split: option.splits)
  with poll_credentials(5) [OF this] reachable_success [OF this] s c show ?thesis by simp
qed

end
