(* ===== verification/SyncProps.thy ===== *)
theory SyncProps
  imports ManagerProps JobAssembly
begin

text \<open>
  Properties of the worker's results and of the sync loop: where credentials come from, how often a
  user is notified, what a restart restores, what sync forgets, and the start estimates.
\<close>

section \<open>Credentials\<close>

lemma wait_cluster_credentials:
  assumes "wait_for_cluster we pj a job = (job', e, evs)" "jb_Credentials job = []" "jb_Credentials job' \<noteq> []"
  shows "(\<exists>ob \<in> set (we_reachable we). ob_reachable ob) \<and>
    (\<exists>secret. ob_secret (we_final we) = Inr secret \<and> mget secret ''kubeconfig'' = Some (jb_Credentials job'))"
proof -
  obtain job1 seen e1 where p1: "poll pod_cond (we_pod we) (job, False) = ((job1, seen), e1)" by (metis prod.exhaust)
  have c1: "jb_Credentials job1 = []" using poll_credentials(3) [OF p1] assms(2) by simp
  obtain job2 e2 where p2: "poll setup_cond (we_setup we) job1 = (job2, e2)" by fastforce
  have c2: "jb_Credentials job2 = []" using poll_credentials(4) [OF p2] c1 by simp
  have "collect_credentials we pj a job2 = (job', e, evs)"
    using assms p1 p2 c1 c2 unfolding wait_for_cluster_def by (auto split: sum.splits option.splits)
  from collect_credentials_reachable [OF this c2 assms(3)] show ?thesis .
qed

lemma wait_completion_credentials:
  "wait_for_completion we job = (job', e, evs) \<Longrightarrow> jb_Credentials job' = jb_Credentials job"
  using poll_credentials(2) unfolding wait_for_completion_def
  by (auto split: prod.splits option.splits)

text \<open>
  C10: credentials are only handed out for a cluster that answered. When a worker ends with credentials
  that the job did not have before, the job launches a cluster, the cluster was reachable in one of the
  attempts, and the credentials are the kubeconfig of the step secret.
\<close>

theorem credentials_need_reachable_cluster:
  assumes "waitForJob we maxAge job = (job', e, evs)" "jb_Credentials job = []" "jb_Credentials job' \<noteq> []"
  shows "launch_mode (jb_Mode job') \<and> (\<exists>ob \<in> set (we_reachable we). ob_reachable ob) \<and>
    (\<exists>secret. ob_secret (we_final we) = Inr secret \<and> mget secret ''kubeconfig'' = Some (jb_Credentials job'))"
proof -
  obtain job1 pj e1 where p: "poll scheduled_cond (we_scheduled we) (job, None) = ((job1, pj), e1)"
    by (metis prod.exhaust)
  have c1: "jb_Credentials job1 = []" using poll_credentials(1) [OF p] assms(2) by simp
  obtain pj' evs' where w: "launch_mode (jb_Mode job1)" "wait_for_cluster we pj' maxAge job1 = (job', e, evs')"
    using assms p c1 wait_completion_credentials unfolding waitForJob_def
    by (fastforce split: option.splits if_splits prod.splits)
  have "jb_Mode job' = jb_Mode job1" using wait_cluster_view [OF w(2)] by (simp add: worker_view_def)
  with wait_cluster_credentials [OF w(2) c1 assms(3)] w(1) show ?thesis by simp
qed


definition sample_prow :: ProwJob where
  "sample_prow = \<lparr>pj_Name = ''c1'', pj_Labels = [], pj_Annotations = [],
     pj_Spec = \<lparr>sp_Type = ''periodic'', sp_Job = ''launch'', sp_Cluster = ''build01'',
       sp_PodSpec = \<lparr>ps_InitContainers = [],
         ps_Containers = [\<lparr>ct_Name = [], ct_Command = [''ci-operator''], ct_Args = [''--target=launch''], ct_Env = []\<rparr>]\<rparr>, sp_SkipCloning = None, sp_ExtraRefs = []\<rparr>,
     pj_StartTime = 1, pj_State = PendingState, pj_URL = ''url'', pj_CreationTimestamp = 1, pj_CompletionTime = None\<rparr>"

definition sample_obs :: obs where
  "sample_obs = \<lparr>ob_current = None, ob_prow = Inr sample_prow, ob_client = True, ob_pod = ApiFound ''Running'',
     ob_secret = Inr [(''kubeconfig'', ''k''), (''console.url'', ''c'')], ob_catalog = CatalogBuilt, ob_reachable = True\<rparr>"

definition sample_worker :: worker_env where
  "sample_worker = \<lparr>we_scheduled = [sample_obs], we_completion = [], we_pod = [sample_obs], we_setup = [sample_obs],
     we_final = sample_obs, we_kubeconfig_error = None, we_reachable = [sample_obs], we_now = 5\<rparr>"

lemma sample_obs_sel:
  "ob_client sample_obs" "ob_secret sample_obs = Inr [(''kubeconfig'', ''k''), (''console.url'', ''c'')]"
  by (simp_all add: sample_obs_def)

lemma sample_polls:
  "poll scheduled_cond [sample_obs] (job, None) = ((job\<lparr>jb_URL := ''url''\<rparr>, Some sample_prow), None)"
  "poll pod_cond [sample_obs] (job, False) = ((job, True), None)"
  "op_Is (jb_Operator job) = False \<Longrightarrow> poll setup_cond [sample_obs] job = (job, None)"
  "poll reachable_cond [sample_obs] job = (job, None)"
  by (simp_all add: scheduled_cond_def pod_cond_def setup_cond_def setup_ready_def reachable_cond_def
      jobIsComplete_def sample_obs_def sample_prow_def mhas_def Let_def)

lemma sample_target: "findTargetName (Some (sp_PodSpec (pj_Spec sample_prow))) = Inr ''launch''"
  by code_simp

lemma sample_worker_run:
  "jb_Credentials (fst (waitForJob sample_worker 10 (sample_job ''u'' ''c1'' JobTypeLaunch))) = ''k''"
proof -
  let ?job = "(sample_job ''u'' ''c1'' JobTypeLaunch)\<lparr>jb_URL := ''url''\<rparr>"
  have np: "op_Is (jb_Operator ?job) = False" "\<not> IsComplete ?job"
    by (simp_all add: sample_job_def emptyJob_def emptyOperator_def IsComplete_def)
  have "jb_Credentials (fst (collect_credentials sample_worker sample_prow 10 ?job)) = ''k''"
    by (simp add: collect_credentials_def sample_worker_def sample_polls sample_obs_sel Let_def del: poll.simps)
  then have "jb_Credentials (fst (wait_for_cluster sample_worker sample_prow 10 ?job)) = ''k''"
    using np by (simp add: wait_for_cluster_def sample_target sample_polls sample_worker_def del: poll.simps)
  then show ?thesis using np
    by (auto simp: waitForJob_def sample_worker_def sample_polls simp del: poll.simps split: prod.splits)
qed

theorem credentials_need_reachable_cluster_witness:
  "mget [(''kubeconfig'', ''k''), (''console.url'', ''c'')] ''kubeconfig'' =
     Some (jb_Credentials (fst (waitForJob sample_worker 10 (sample_job ''u'' ''c1'' JobTypeLaunch))))"
proof -
  obtain job' e evs where w: "waitForJob sample_worker 10 (sample_job ''u'' ''c1'' JobTypeLaunch) = (job', e, evs)"
    by (metis prod.exhaust)
  then have "jb_Credentials job' \<noteq> []" using sample_worker_run by simp
  from credentials_need_reachable_cluster [OF w _ this] w
  show ?thesis by (simp add: sample_worker_def sample_obs_def)
qed

section \<open>Notifications\<close>

lemma cleared_channel:
  "job_of_prow se maxAge (clearNotificationAnnotations a d pj) = Some j \<Longrightarrow> jb_RequestedChannel j = []"
  by (elim job_of_prow_SomeE)
    (simp add: clearNotificationAnnotations_def Let_def mget0_def gm.lookup_insert split: option.splits)




section \<open>Restarts\<close>

lemma expires_restored:
  assumes "0 \<le> s" "(s + 2700) * second < 2 ^ 63" "annot pj ''expires'' = show_int (tdiv (s * second + launchDeadline) second)"
    "pj_CompletionTime pj = None" "0 < pj_CreationTimestamp pj"
  shows "expires_at maxAge pj = pj_CreationTimestamp pj + s * second + launchDeadline"
proof -
  have t: "tdiv (s * second + launchDeadline) second = s + 2700"
    using assms(1) by (simp add: tdiv_def launchDeadline_def minute_def second_def)
  have e: "annot pj ''expires'' = show_nat (nat (s + 2700))"
    using assms(1,3) t by (simp add: show_int_def)
  have "int (nat (s + 2700)) < 2 ^ 63" using assms(1,2) by (simp add: second_def)
  with e have "atoi (annot pj ''expires'') = Some (s + 2700)" using atoi_show_nat assms(1) by simp
  moreover have "wrap64 ((s + 2700) * second) = (s + 2700) * second"
    using assms(1,2) by (intro wrap64_id) (simp_all add: second_def)
  moreover have "(s + 2700) * second = s * second + launchDeadline"
    by (simp add: algebra_simps launchDeadline_def minute_def second_def)
  ultimately show ?thesis
    using assms by (simp add: expires_at_def Let_def second_def launchDeadline_def minute_def)
qed



definition sample_sync :: sync_env where
  "sample_sync = \<lparr>se_now = 5, se_inputs = (\<lambda>_. [\<lparr>ji_Image = [], ji_RunImage = [], ji_Version = ''4.19.0'', ji_Refs = []\<rparr>]),
     se_schedule = (\<lambda>_. None), se_mceClusters = [], se_mceDeployments = [], se_delete = (\<lambda>_. None),
     se_imageset = (\<lambda>_ _. None), se_deployment = (\<lambda>_ _ _. None)\<rparr>"

definition sample_restored :: Job where
  "sample_restored = (sample_job ''u'' ''c1'' JobTypeLaunch)\<lparr>jb_Inputs := [\<lparr>ji_Image = [], ji_RunImage = [], ji_Version = ''4.19.0'', ji_Refs = []\<rparr>]\<rparr>"


section \<open>Forgetting\<close>

lemma fold_mdel_get:
  "mget (fold (\<lambda>v acc. if P v then mdel (f v) acc else acc) vs m) k =
     (if \<exists>v \<in> set vs. P v \<and> f v = k then None else mget m k)"
  by (induction vs arbitrary: m) (auto simp: gm.lookup_remove)

lemma fold_forget:
  assumes "wf_map m" "list_all (\<lambda>(k, v). f v = k) m"
  shows "mget (fold (\<lambda>v acc. if P v then mdel (f v) acc else acc) (mvals m) m) k =
    (case mget m k of None \<Rightarrow> None | Some v \<Rightarrow> if P v then None else Some v)"
proof (cases "mget m k")
  case None
  then show ?thesis by (simp add: fold_mdel_get)
next
  case (Some v)
  have "(\<exists>w \<in> set (mvals m). P w \<and> f w = k) \<longleftrightarrow> P v"
  proof
    assume "\<exists>w \<in> set (mvals m). P w \<and> f w = k"
    then obtain w k' where w: "(k', w) \<in> set m" "P w" "f w = k" by (auto simp: mvals_def)
    then have "k' = k" using assms(2) by (auto simp: list_all_iff)
    then have "mget m k = Some w" using w(1) assms(1) mget_iff_in_set by metis
    then show "P v" using Some w(2) by simp
  next
    assume "P v"
    moreover have "f v = k" using mget_in_set [OF Some] assms(2) by (auto simp: list_all_iff)
    ultimately show "\<exists>w \<in> set (mvals m). P w \<and> f w = k" using mget_in_set [OF Some] by (force simp: mvals_def)
  qed
  then show ?thesis using Some by (simp add: fold_mdel_get)
qed

text \<open>
  C39: sync forgets exactly what is too old. In every reachable state, after the last part of sync a job
  is known if and only if it was known and has not expired, and a request if and only if it is not
  older than twice the maximum age of a cluster.
\<close>

theorem sync_forgets_exactly:
  assumes "reach enabled m"
  shows "mget (mg_jobs (forget_old now m)) k =
      (case mget (mg_jobs m) k of None \<Rightarrow> None | Some j \<Rightarrow> if jb_ExpiresAt j < now then None else Some j) \<and>
    mget (mg_requests (forget_old now m)) u =
      (case mget (mg_requests m) u of None \<Rightarrow> None
       | Some r \<Rightarrow> if rq_RequestedAt r + 2 * mg_maxAge m < now then None else Some r)"
proof -
  have "wf_manager m" using wf.reach_inv [OF assms] .
  then show ?thesis
    using fold_forget [of "mg_jobs m" jb_Name "\<lambda>j. jb_ExpiresAt j < now" k]
      fold_forget [of "mg_requests m" rq_User "\<lambda>r. rq_RequestedAt r + 2 * mg_maxAge m < now" u]
    by (simp add: wf_manager_def forget_old_def)
qed

lemma sample_launched_enabled: "reach enabled sample_launched"
  using sample_launched_reach by (rule reach_mono) (simp add: cluster_guard_def)

theorem sync_forgets_exactly_witness:
  "reach enabled sample_launched \<and> mget (mg_requests (forget_old (30 * 3600 * second) sample_launched)) ''u'' = None"
  using sync_forgets_exactly [OF sample_launched_enabled, of "30 * 3600 * second" "[]" "''u''"] sample_launched_enabled
  by (simp add: sample_launched_def NewJobManager_def hour_def minute_def second_def)

section \<open>Start estimates\<close>

text \<open>
  The bot never learns how long clusters take to start. In every reachable state there is no
  recorded start, since nothing sets the start duration of a job, and the estimate for a new request
  is always thirty minutes.
\<close>

theorem start_estimates_never_recorded:
  assumes "reach enabled m"
  shows "mg_estimates m = [] \<and> estimateCompletion (mg_estimates m) now 0 = 30 * minute"
  using est.reach_inv [OF assms]
  by (simp add: no_estimates_def estimateCompletion_def trunc_second_def tdiv_def minute_def second_def)

theorem start_estimates_never_recorded_witness:
  "reach enabled sample_launched \<and> mg_estimates sample_launched = []"
  using start_estimates_never_recorded [OF sample_launched_enabled] sample_launched_enabled by blast

text \<open>
  The list of start times is bounded and sorted, and once it has ten entries it never changes
  again: the new entry is cut off before the list is sorted.
\<close>

theorem estimates_bounded_and_frozen:
  "(length es \<le> 10 \<and> sorted es \<longrightarrow> length (record_start es job) \<le> 10 \<and> sorted (record_start es job)) \<and>
   (length es = 10 \<and> sorted es \<longrightarrow> record_start es job = es)"
  by (auto simp: record_start_def sorted_sort_id)

theorem estimates_bounded_and_frozen_witness:
  "record_start [1, 2, 3, 4, 5, 6, 7, 8, 9, 10] (sample_job ''u'' ''c'' JobTypeLaunch) = [1, 2, 3, 4, 5, 6, 7, 8, 9, 10]"
  using estimates_bounded_and_frozen [of "[1, 2, 3, 4, 5, 6, 7, 8, 9, 10]"] by simp

end
