(* ===== verification/JobConfigProps.thy ===== *)
theory JobConfigProps
  imports JobConfig SyncProps
begin

text \<open>
  Properties of the assembly of a Prow job: the configuration it carries can be run, every pull request gets its
  child job, one operator repository at most is installed, a complete configuration never panics, and what a
  restart loses of an operator job.
\<close>

section \<open>Environment variables of a Prow job\<close>

definition job_containers :: "ProwJob \<Rightarrow> Container list" where
  "job_containers pj = ps_Containers (sp_PodSpec (pj_Spec pj))"

text \<open>Every container sees the variable with this value.\<close>

definition sees :: "string \<Rightarrow> string \<Rightarrow> ProwJob \<Rightarrow> bool" where
  "sees n v pj \<longleftrightarrow> list_all (\<lambda>c. n \<in> set (map ev_Name (ct_Env c)) \<and>
     list_all (\<lambda>e. ev_Name e = n \<longrightarrow> ev_Value e = v) (ct_Env c)) (job_containers pj)"

definition unseen :: "string \<Rightarrow> ProwJob \<Rightarrow> bool" where
  "unseen n pj \<longleftrightarrow> list_all (\<lambda>c. n \<notin> set (map ev_Name (ct_Env c))) (job_containers pj)"

lemma containers_set_env_var [simp]:
  "job_containers (set_env_var m w pj) = map (\<lambda>c. c\<lparr>ct_Env := set_env m w (ct_Env c)\<rparr>) (job_containers pj)"
  by (simp add: job_containers_def set_env_var_def SetJobEnvVar_def containers_map)

lemma set_env_var_frame [simp]:
  "pj_Annotations (set_env_var m w pj) = pj_Annotations pj"
  "sp_ExtraRefs (pj_Spec (set_env_var m w pj)) = sp_ExtraRefs (pj_Spec pj)"
  by (simp_all add: set_env_var_def SetJobEnvVar_def map_containers_def)

lemma sees_set: "sees n v (set_env_var n v pj)"
  using set_env_values [of _ n v] set_env_present [of n v] by (fastforce simp: sees_def list_all_iff)

lemma set_env_member:
  assumes "m \<noteq> n" "ev_Name e = n"
  shows "e \<in> set (set_env m w env) \<longleftrightarrow> e \<in> set env"
proof -
  have "e \<in> set (filter (\<lambda>e. ev_Name e \<noteq> m) (set_env m w env)) \<longleftrightarrow> e \<in> set (filter (\<lambda>e. ev_Name e \<noteq> m) env)"
    by (simp only: set_env_others)
  then show ?thesis using assms by simp
qed

lemma sees_other:
  assumes "n \<noteq> m" "sees n v pj"
  shows "sees n v (set_env_var m w pj)"
  using assms set_env_member [OF not_sym [OF assms(1)]] by (fastforce simp: sees_def list_all_iff image_iff)

lemma sees_cong: "job_containers pj = job_containers pj' \<Longrightarrow> sees n v pj = sees n v pj'"
  by (simp add: sees_def)

section \<open>The loop over the pull requests\<close>

lemma operator_step_frame:
  assumes "operator_step job ref target st = Inr (repo, st1)"
  shows "rs_Index st1 = rs_Index st" "pj_Spec (rs_Job st1) = pj_Spec (rs_Job st)"
proof -
  show "rs_Index st1 = rs_Index st"
    using assms by (auto simp: operator_step_def rbind_eq_Inr_iff split: if_splits option.splits)
  show "pj_Spec (rs_Job st1) = pj_Spec (rs_Job st)"
    using assms by (auto simp: operator_step_def rbind_eq_Inr_iff split: if_splits option.splits)
qed

lemma ref_stepE:
  assumes "ref_step a host job (init, ref) st = Inr st'"
  obtains data target repo st1 where
    "as_resolveConfig a (rf_Org ref) (rf_Repo ref) (rf_BaseRef ref) = Inr (Some data)"
    "as_unmarshal a data = Some target" "operator_step job ref target st = Inr (repo, st1)"
    "st' = add_child a host init ref target repo st1"
  using assms by (auto simp: ref_step_def Let_def rbind_eq_Inr_iff split: sum.splits option.splits)

definition child_vars :: "nat \<Rightarrow> string list" where
  "child_vars i = map (\<lambda>p. p @ show_nat i) [''CONFIG_SPEC_'', ''JOB_SPEC_'', ''REPO_PATH_'']"

lemma add_child_sees:
  assumes "sees n v (rs_Job st)" "n \<notin> set (child_vars (rs_Index st))" "n \<noteq> ''OPERATOR_REFS''"
  shows "sees n v (rs_Job (add_child a host init ref target repo st))"
proof -
  have extra: "sees n v (pj\<lparr>pj_Spec := pj_Spec pj\<lparr>sp_ExtraRefs := xs\<rparr>\<rparr>) = sees n v pj" for pj xs
    by (rule sees_cong) (simp add: job_containers_def)
  show ?thesis using assms
    by (simp add: add_child_def Let_def child_vars_def sees_other extra)
qed

lemma add_child_values:
  assumes i_def: "i = rs_Index st" and pj_def: "pj = rs_Job (add_child a host init ref target repo st)"
  shows "sees (''CONFIG_SPEC_'' @ show_nat i) (as_marshal a (child_config host init target)) pj"
    "sees (''JOB_SPEC_'' @ show_nat i) (as_marshalSpec a [] (Some ref)) pj"
    "sees (''REPO_PATH_'' @ show_nat i) (path_alias i ref) pj"
proof -
  have extra: "sees n v (pj\<lparr>pj_Spec := pj_Spec pj\<lparr>sp_ExtraRefs := xs\<rparr>\<rparr>) = sees n v pj" for pj xs n v
    by (rule sees_cong) (simp add: job_containers_def)
  show "sees (''CONFIG_SPEC_'' @ show_nat i) (as_marshal a (child_config host init target)) pj"
    by (simp add: pj_def i_def add_child_def Let_def sees_other sees_set extra)
  show "sees (''JOB_SPEC_'' @ show_nat i) (as_marshalSpec a [] (Some ref)) pj"
    by (simp add: pj_def i_def add_child_def Let_def sees_other sees_set extra)
  show "sees (''REPO_PATH_'' @ show_nat i) (path_alias i ref) pj"
    by (simp add: pj_def i_def add_child_def Let_def sees_set)
qed

lemma add_child_other [simp]:
  "rs_Index (add_child a host init ref target repo st) = Suc (rs_Index st)"
  "rs_Operator (add_child a host init ref target repo st) = rs_Operator st"
  "rs_Repo (add_child a host init ref target repo st) = rs_Repo st"
  "pj_Annotations (rs_Job (add_child a host init ref target repo st)) = pj_Annotations (rs_Job st)"
  "mset (sp_ExtraRefs (pj_Spec (rs_Job (add_child a host init ref target repo st)))) =
     add_mset (ref, path_alias (rs_Index st) ref) (mset (sp_ExtraRefs (pj_Spec (rs_Job st))))"
  by (simp_all add: add_child_def Let_def)

text \<open>The child job of the \<open>i\<close>-th reference is described by three variables.\<close>

definition child_ready :: "assembly \<Rightarrow> string \<Rightarrow> nat \<Rightarrow> bool \<times> Refs \<Rightarrow> ProwJob \<Rightarrow> bool" where
  "child_ready a host i r pj \<longleftrightarrow>
     (case as_resolveConfig a (rf_Org (snd r)) (rf_Repo (snd r)) (rf_BaseRef (snd r)) of
        Inr (Some data) \<Rightarrow>
          (case as_unmarshal a data of
             None \<Rightarrow> False
           | Some target \<Rightarrow>
               sees (''CONFIG_SPEC_'' @ show_nat i) (as_marshal a (child_config host (fst r) target)) pj \<and>
               sees (''JOB_SPEC_'' @ show_nat i) (as_marshalSpec a [] (Some (snd r))) pj \<and>
               sees (''REPO_PATH_'' @ show_nat i) (path_alias i (snd r)) pj)
      | _ \<Rightarrow> False)"

lemma show_nat_eq_iff: "show_nat i = show_nat j \<longleftrightarrow> i = j"
  by (metis digits_val_show_nat of_nat_eq_iff)

lemma child_vars_distinct:
  "i \<noteq> j \<Longrightarrow> n \<in> set (child_vars i) \<Longrightarrow> n \<notin> set (child_vars j)"
  by (auto simp: child_vars_def show_nat_eq_iff)

lemma ref_step_sees:
  assumes "ref_step a host job r st = Inr st'" "sees n v (rs_Job st)"
    "n \<notin> set (child_vars (rs_Index st))" "n \<noteq> ''OPERATOR_REFS''"
  shows "sees n v (rs_Job st')"
proof -
  obtain init ref where "r = (init, ref)" by fastforce
  with assms(1) obtain data target repo st1 where
    o: "operator_step job ref target st = Inr (repo, st1)"
    and st': "st' = add_child a host init ref target repo st1"
    by (metis ref_stepE)
  have "sees n v (rs_Job st1)"
    using assms(2) operator_step_frame(2) [OF o] sees_cong [of "rs_Job st1" "rs_Job st"] by (simp add: job_containers_def)
  then show ?thesis using assms(3,4) operator_step_frame(1) [OF o] st' by (simp add: add_child_sees)
qed

lemma ref_loop_sees:
  assumes "ref_loop a host job rs st = Inr st'" "sees n v (rs_Job st)"
    "\<And>i. rs_Index st \<le> i \<Longrightarrow> n \<notin> set (child_vars i)" "n \<noteq> ''OPERATOR_REFS''"
  shows "sees n v (rs_Job st')"
  using assms
proof (induction rs arbitrary: st)
  case (Cons r rs)
  obtain st1 where s: "ref_step a host job r st = Inr st1" "ref_loop a host job rs st1 = Inr st'"
    using Cons.prems(1) by (auto simp: rbind_eq_Inr_iff)
  have "rs_Index st1 = Suc (rs_Index st)"
    using s(1) operator_step_frame(1) by (cases r) (auto elim!: ref_stepE)
  then show ?case
    using Cons.IH [OF s(2)] ref_step_sees [OF s(1) Cons.prems(2)] Cons.prems(3,4) by simp
qed simp

lemma ref_step_child:
  assumes "ref_step a host job r st = Inr st'"
  shows "child_ready a host (rs_Index st) r (rs_Job st')" "rs_Index st' = Suc (rs_Index st)"
    "mset (sp_ExtraRefs (pj_Spec (rs_Job st'))) =
       add_mset (snd r, path_alias (rs_Index st) (snd r)) (mset (sp_ExtraRefs (pj_Spec (rs_Job st))))"
proof -
  obtain init ref where r: "r = (init, ref)" by fastforce
  with assms obtain data target repo st1 where
    o: "as_resolveConfig a (rf_Org ref) (rf_Repo ref) (rf_BaseRef ref) = Inr (Some data)"
      "as_unmarshal a data = Some target" "operator_step job ref target st = Inr (repo, st1)"
    and st': "st' = add_child a host init ref target repo st1"
    by (metis ref_stepE)
  note f = operator_step_frame [OF o(3)]
  show "child_ready a host (rs_Index st) r (rs_Job st')"
    using o(1,2) f(1) add_child_values [OF refl refl, where st = st1] by (simp add: child_ready_def r st')
  show "rs_Index st' = Suc (rs_Index st)" using f(1) by (simp add: st')
  show "mset (sp_ExtraRefs (pj_Spec (rs_Job st'))) =
       add_mset (snd r, path_alias (rs_Index st) (snd r)) (mset (sp_ExtraRefs (pj_Spec (rs_Job st))))"
    using f by (simp add: st' r)
qed

lemma child_ready_mono:
  assumes "child_ready a host i r pj"
    "\<And>n v. n \<in> set (child_vars i) \<Longrightarrow> sees n v pj \<Longrightarrow> sees n v pj'"
  shows "child_ready a host i r pj'"
  using assms by (auto simp: child_ready_def child_vars_def split: sum.splits option.splits)

lemma child_var_names: "n \<in> set (child_vars i) \<Longrightarrow> n \<noteq> ''OPERATOR_REFS''"
  by (auto simp: child_vars_def)

lemma ref_loop_children:
  assumes "ref_loop a host job rs st = Inr st'"
  shows "rs_Index st' = rs_Index st + length rs \<and>
    (\<forall>k < length rs. child_ready a host (rs_Index st + k) (rs ! k) (rs_Job st')) \<and>
    mset (sp_ExtraRefs (pj_Spec (rs_Job st'))) = mset (sp_ExtraRefs (pj_Spec (rs_Job st))) +
      mset (map (\<lambda>(k, r). (snd r, path_alias k (snd r))) (enumerate (rs_Index st) rs))"
  using assms
proof (induction rs arbitrary: st)
  case (Cons r rs)
  obtain st1 where s: "ref_step a host job r st = Inr st1" "ref_loop a host job rs st1 = Inr st'"
    using Cons.prems by (auto simp: rbind_eq_Inr_iff)
  note c = ref_step_child [OF s(1)] and ih = Cons.IH [OF s(2)]
  have first: "child_ready a host (rs_Index st) r (rs_Job st')"
  proof (rule child_ready_mono [OF c(1)])
    fix n v assume "n \<in> set (child_vars (rs_Index st))" "sees n v (rs_Job st1)"
    then show "sees n v (rs_Job st')"
      using ref_loop_sees [OF s(2)] child_vars_distinct [of "rs_Index st" _ n] child_var_names c(2) by fastforce
  qed
  have "child_ready a host (rs_Index st + k) ((r # rs) ! k) (rs_Job st')" if "k < length (r # rs)" for k
    using first ih c(2) that by (cases k) auto
  then show ?case using ih c by simp
qed simp

section \<open>The parts of an assembly\<close>

lemma assembleE:
  assumes "assemble a json hash maxAge job pj = Inr (op, pj')"
  obtains pj1 pc st pj2 release pj3 where
    "assemble_base json hash maxAge job pj = Some pj1" "launch_config a job pj1 = Inr pc"
    "build_parts a job (job_namespace hash job) pc = Inr st" "with_target job (rs_Job st) = Inr pj2"
    "mce_release job = Inr release"
    "(if jb_Mode job = JobTypeMCECustomImage \<and> \<not> jobHasRefs job
      then mce_only a job (job_namespace hash job) release pj2 else Inr pj2) = Inr pj3"
    "op = rs_Operator st" "pj' = publish_config a (rs_Config st) pj3"
  using assms by (auto simp: assemble_def Let_def rbind_eq_Inr_iff split: option.splits)

lemma build_partsE:
  assumes "build_parts a job namespace pc = Inr st"
  obtains release where "mce_release job = Inr release"
    "(if jobHasRefs job then with_pull_requests a job namespace release (fst pc) (snd pc)
      else Inr \<lparr>rs_Job = fst pc, rs_Config = snd pc, rs_Operator = jb_Operator job, rs_Index = 0, rs_Repo = []\<rparr>) = Inr st"
    "mhas (jb_JobParams job) ''bundle'' \<Longrightarrow> op_Is (rs_Operator st)"
proof -
  obtain release st0 where r: "mce_release job = Inr release"
    "(if jobHasRefs job then with_pull_requests a job namespace release (fst pc) (snd pc)
      else Inr \<lparr>rs_Job = fst pc, rs_Config = snd pc, rs_Operator = jb_Operator job, rs_Index = 0, rs_Repo = []\<rparr>) = Inr st0"
    "(case mget (jb_JobParams job) ''bundle'' of
        Some b \<Rightarrow> if op_Is (rs_Operator st0) then Inr st0 else Inl (BundleWithoutOperator b)
      | None \<Rightarrow> Inr st0) = Inr st"
    using assms by (auto simp: build_parts_def rbind_eq_Inr_iff)
  then have "st0 = st" "mhas (jb_JobParams job) ''bundle'' \<Longrightarrow> op_Is (rs_Operator st)"
    by (auto simp: mhas_def split: option.splits if_splits)
  with r that show thesis by blast
qed

lemma on_first_container_frame:
  assumes "on_first_container name f pj = Inr pj'"
  shows "pj_Annotations pj' = pj_Annotations pj" "sp_ExtraRefs (pj_Spec pj') = sp_ExtraRefs (pj_Spec pj)"
  using assms by (auto simp: on_first_container_def Let_def split: list.splits if_splits)

lemma lead_with_namespace_frame [simp]:
  "pj_Annotations (lead_with_namespace ns pj) = pj_Annotations pj"
  "sp_ExtraRefs (pj_Spec (lead_with_namespace ns pj)) = sp_ExtraRefs (pj_Spec pj)"
  by (simp_all add: lead_with_namespace_def RemoveJobEnvVar_def map_containers_def)

text \<open>The state in which the loop over the references starts.\<close>

lemma with_pull_requestsE:
  assumes "with_pull_requests a job ns release pj cfg = Inr st"
  obtains client repository pj1 where
    "mget (as_clients a) (jb_BuildCluster job) = Some client" "cl_registry client = Some repository"
    "ref_loop a (takeWhile (\<lambda>c. c \<noteq> CHR ''/'') repository) job (job_refs job) (ref_start a job cfg pj1) = Inr st"
    "pj_Annotations pj1 = pj_Annotations pj" "sp_ExtraRefs (pj_Spec pj1) = sp_ExtraRefs (pj_Spec pj)"
proof -
  obtain client where c: "getClusterClient a job = Inr client"
    using assms by (auto simp: with_pull_requests_def rbind_eq_Inr_iff)
  with assms obtain repository where r: "cl_registry client = Some repository"
    by (auto simp: with_pull_requests_def split: option.splits)
  with assms c obtain f pj1 where p: "on_first_container (jb_JobName job) f (lead_with_namespace ns (clone_refs pj)) = Inr pj1"
    "ref_loop a (takeWhile (\<lambda>c. c \<noteq> CHR ''/'') repository) job (job_refs job) (ref_start a job cfg pj1) = Inr st"
    by (auto simp: with_pull_requests_def Let_def rbind_eq_Inr_iff)
  have "mget (as_clients a) (jb_BuildCluster job) = Some client"
    using c by (auto simp: getClusterClient_def split: option.splits)
  then show thesis using that [OF _ r p(2)] on_first_container_frame [OF p(1)] by (simp add: clone_refs_def)
qed

lemma ref_start_sel [simp]:
  "rs_Index (ref_start a job cfg pj) = 0" "rs_Repo (ref_start a job cfg pj) = []"
  "rs_Operator (ref_start a job cfg pj) = jb_Operator job"
  "pj_Annotations (rs_Job (ref_start a job cfg pj)) = pj_Annotations pj"
  "sp_ExtraRefs (pj_Spec (rs_Job (ref_start a job cfg pj))) = sp_ExtraRefs (pj_Spec pj)"
  by (simp_all add: ref_start_def)

section \<open>The configuration that is run\<close>

lemma on_ms_as: "on_ms f t = Inr t' \<Longrightarrow> ts_As t' = ts_As t"
  by (auto simp: on_ms_def rbind_eq_Inr_iff split: option.splits)

lemma install_in_launch_names:
  "install_in_launch job indexName b ts = Inr ts' \<Longrightarrow> map ts_As ts' = map ts_As ts"
  by (induction ts arbitrary: ts') (auto simp: rbind_eq_Inr_iff dest: on_ms_as split: if_splits)

definition config_shape :: "ReleaseBuildConfiguration \<Rightarrow> string list \<times> (string, UnresolvedRelease) gomap \<times> string option" where
  "config_shape cfg = (map ts_As (rc_Tests cfg), rc_Releases cfg, rc_TagSpecification cfg)"

lemma install_bundle_shape:
  "install_bundle job ref target opstep cfg op annots = Inr (repo, cfg', op', annots') \<Longrightarrow>
     config_shape cfg' = config_shape cfg"
  by (auto simp: install_bundle_def Let_def rbind_eq_Inr_iff config_shape_def
      dest: install_in_launch_names split: option.splits prod.splits)

lemma operator_step_shape:
  "operator_step job ref target st = Inr (repo, st1) \<Longrightarrow> config_shape (rs_Config st1) = config_shape (rs_Config st)"
  by (auto simp: operator_step_def processOperatorPR_def rbind_eq_Inr_iff
      dest: install_bundle_shape split: if_splits option.splits)

lemma ref_loop_shape:
  "ref_loop a host job rs st = Inr st' \<Longrightarrow> config_shape (rs_Config st') = config_shape (rs_Config st)"
proof (induction rs arbitrary: st)
  case (Cons r rs)
  obtain st1 where s: "ref_step a host job r st = Inr st1" "ref_loop a host job rs st1 = Inr st'"
    using Cons.prems by (auto simp: rbind_eq_Inr_iff)
  then have "config_shape (rs_Config st1) = config_shape (rs_Config st)"
    by (cases r) (auto elim!: ref_stepE dest!: operator_step_shape simp: add_child_def Let_def config_shape_def)
  then show ?case using Cons.IH [OF s(2)] by simp
qed simp

lemma matched_config_launch:
  assumes "matched_config targetName job cfg = Inr cfg'"
  shows "''launch'' \<in> ts_As ` set (rc_Tests cfg')"
proof -
  have keep: "name \<in> ts_As ` set (share_ms name ms ts)" if "find (\<lambda>t. ts_As t = name) ts = Some t" for name ms ts t
    using that by (induction ts) (auto split: if_splits)
  obtain t t' where "find (\<lambda>t. ts_As t = targetName) (rc_Tests cfg) = Some t"
    "rc_Tests cfg' = (if targetName \<noteq> ''launch'' then [t'\<lparr>ts_As := ''launch''\<rparr>]
       else share_ms targetName (ts_MultiStage t') (rc_Tests cfg))"
    using assms by (auto simp: matched_config_def rbind_eq_Inr_iff split: option.splits)
  then show ?thesis using keep by (cases "targetName = ''launch''") auto
qed

lemma rewrite_tests_launch:
  "rewrite_tests a targetName job cfg = Inr cfg' \<Longrightarrow> ''launch'' \<in> ts_As ` set (rc_Tests cfg')"
  by (auto simp: rewrite_tests_def workflow_config_def workflow_test_def Let_def
      dest: matched_config_launch split: if_splits option.splits)

lemma set_profile_names: "set_profile p ts = Inr ts' \<Longrightarrow> map ts_As ts' = map ts_As ts"
  by (induction ts arbitrary: ts') (auto simp: rbind_eq_Inr_iff split: if_splits option.splits)

lemma with_profile_frame:
  assumes "with_profile job pj cfg = Inr (pj', cfg')"
  shows "map ts_As (rc_Tests cfg') = map ts_As (rc_Tests cfg)" "pj_Spec pj' = pj_Spec pj"
    "pj_Annotations pj' = pj_Annotations pj"
  using assms by (auto simp: with_profile_def applyClusterProfile_def rbind_eq_Inr_iff
      dest: set_profile_names split: if_splits prod.splits sum.splits)

lemma launch_config_parts:
  assumes "launch_config a job pj = Inr (pj', cfg)"
  shows "''launch'' \<in> ts_As ` set (rc_Tests cfg)" "rc_Releases cfg = branch_releases (jb_Architecture job)"
    "rc_TagSpecification cfg = None" "pj_Spec pj' = pj_Spec pj" "pj_Annotations pj' = pj_Annotations pj"
proof -
  obtain c name cfg1 cfg2 where r: "rewrite_tests a name job c = Inr cfg1" "with_profile job pj cfg1 = Inr (pj', cfg2)"
    and cfg: "cfg = cfg2\<lparr>rc_Releases := branch_releases (jb_Architecture job), rc_TagSpecification := None\<rparr>"
  proof -
    obtain env x client where e: "source_env pj = Some (env, x)" "getClusterClient a job = Inr client"
      using assms by (auto simp: launch_config_def rbind_eq_Inr_iff split: option.splits)
    with assms obtain c y z where "loadJobConfigSpec (as_unmarshal a) (cl_configMaps client) env (as_namespace a) = Inr (c, y, z)"
      by (auto simp: launch_config_def split: sum.splits)
    with e assms that show thesis by (auto simp: launch_config_def rbind_eq_Inr_iff)
  qed
  have "ts_As ` set (rc_Tests cfg2) = ts_As ` set (rc_Tests cfg1)"
    using with_profile_frame(1) [OF r(2)] by (metis list.set_map)
  then show "''launch'' \<in> ts_As ` set (rc_Tests cfg)" using rewrite_tests_launch [OF r(1)] by (simp add: cfg)
  show "rc_Releases cfg = branch_releases (jb_Architecture job)" "rc_TagSpecification cfg = None"
    "pj_Spec pj' = pj_Spec pj" "pj_Annotations pj' = pj_Annotations pj"
    using with_profile_frame [OF r(2)] by (simp_all add: cfg)
qed

lemma containers_remove [simp]:
  "job_containers (pj\<lparr>pj_Spec := RemoveJobEnvVar ns (pj_Spec pj)\<rparr>) =
     map (\<lambda>c. c\<lparr>ct_Env := filter (\<lambda>e. ev_Name e \<notin> set ns) (ct_Env c)\<rparr>) (job_containers pj)"
  by (simp add: job_containers_def RemoveJobEnvVar_def containers_map)

lemma sees_remove: "n \<notin> set ns \<Longrightarrow> sees n v pj \<Longrightarrow> sees n v (pj\<lparr>pj_Spec := RemoveJobEnvVar ns (pj_Spec pj)\<rparr>)"
  by (fastforce simp: sees_def list_all_iff)

lemma publish_config_sees:
  "sees ''UNRESOLVED_CONFIG'' (as_marshal a cfg) (publish_config a cfg pj)"
  "unseen ''CONFIG_SPEC'' (publish_config a cfg pj)"
  "n \<noteq> ''UNRESOLVED_CONFIG'' \<Longrightarrow> n \<noteq> ''CONFIG_SPEC'' \<Longrightarrow> sees n v pj \<Longrightarrow> sees n v (publish_config a cfg pj)"
  by (auto simp: publish_config_def Let_def sees_remove sees_set sees_other unseen_def list_all_iff)

lemma publish_config_frame [simp]:
  "pj_Annotations (publish_config a cfg pj) = pj_Annotations pj"
  "sp_ExtraRefs (pj_Spec (publish_config a cfg pj)) = sp_ExtraRefs (pj_Spec pj)"
  by (simp_all add: publish_config_def Let_def RemoveJobEnvVar_def map_containers_def)

lemma with_target_frame:
  assumes "with_target job pj = Inr pj'"
  shows "sees n v pj \<Longrightarrow> sees n v pj'" "pj_Annotations pj' = pj_Annotations pj"
    "sp_ExtraRefs (pj_Spec pj') = sp_ExtraRefs (pj_Spec pj)"
  using assms by (auto simp: with_target_def replaceTargetArgument_def sees_def job_containers_def list_all_iff
      split: if_splits sum.splits)

lemma assemble_base_frame:
  assumes "assemble_base json hash maxAge job pj = Some pj1"
  shows "pj_Annotations pj1 = pj_Annotations (job_metadata json (job_namespace hash job) maxAge job pj)"
    "sp_ExtraRefs (pj_Spec pj1) = sp_ExtraRefs (pj_Spec pj)"
    "length (job_containers pj1) = length (job_containers pj)"
    "map ct_Command (job_containers pj1) = map ct_Command (job_containers pj)"
  using assms
  by (auto simp: assemble_base_def Let_def job_namespace_def release_env_def retention_env_def OverrideJobEnvironment_def
      OverrideJobEnvVar_def SetJobEnvVar_def map_containers_def job_containers_def split: if_splits)

lemma mce_only_frame:
  assumes "mce_only a job ns release pj = Inr pj'"
  shows "pj_Annotations pj' = pj_Annotations pj" "sp_ExtraRefs (pj_Spec pj') = sp_ExtraRefs (pj_Spec pj)"
  using assms by (auto simp: mce_only_def rbind_eq_Inr_iff dest: on_first_container_frame)

text \<open>What the configuration of an assembled job looks like.\<close>

definition runnable :: "ReleaseBuildConfiguration \<Rightarrow> bool" where
  "runnable cfg \<longleftrightarrow> list_ex (\<lambda>t. ts_As t = ''launch'') (rc_Tests cfg) \<and>
     mhas (rc_Releases cfg) ''initial'' \<and> mhas (rc_Releases cfg) ''latest'' \<and> rc_TagSpecification cfg = None"

lemma releases_present:
  "mhas (branch_releases arch) ''initial''" "mhas (branch_releases arch) ''latest''"
  "mhas (integration_releases n s) ''initial''" "mhas (integration_releases n s) ''latest''"
  by (simp_all add: branch_releases_def integration_releases_def Let_def mhas_def gm.lookup_insert)

lemma list_ex_as: "list_ex (\<lambda>t. ts_As t = n) ts \<longleftrightarrow> n \<in> set (map ts_As ts)"
  by (auto simp: list_ex_iff)

lemma runnable_shape: "config_shape cfg = config_shape cfg' \<Longrightarrow> runnable cfg = runnable cfg'"
  unfolding runnable_def config_shape_def list_ex_as by simp

lemma build_parts_runnable:
  assumes "launch_config a job pj = Inr pc" "build_parts a job ns pc = Inr st"
  shows "runnable (rs_Config st)"
proof -
  obtain pj' cfg where pc: "pc = (pj', cfg)" by fastforce
  note l = launch_config_parts [OF assms(1) [unfolded pc]]
  have launch: "list_ex (\<lambda>t. ts_As t = ''launch'') (rc_Tests cfg)" "rc_Tests cfg \<noteq> []"
    using l(1) by (auto simp: list_ex_iff)
  obtain release where b: "(if jobHasRefs job then with_pull_requests a job ns release (fst pc) (snd pc)
      else Inr \<lparr>rs_Job = fst pc, rs_Config = snd pc, rs_Operator = jb_Operator job, rs_Index = 0, rs_Repo = []\<rparr>) = Inr st"
    using build_partsE [OF assms(2)] by blast
  show ?thesis
  proof (cases "jobHasRefs job")
    case True
    with b pc have "with_pull_requests a job ns release pj' cfg = Inr st" by simp
    then obtain host pj1 where "ref_loop a host job (job_refs job) (ref_start a job cfg pj1) = Inr st"
      by (rule with_pull_requestsE)
    then have "config_shape (rs_Config st) = config_shape (rs_Config (ref_start a job cfg pj1))"
      by (rule ref_loop_shape)
    moreover have "runnable (rs_Config (ref_start a job cfg pj1))"
      using launch by (simp add: runnable_def ref_start_def releases_present)
    ultimately show ?thesis using runnable_shape by blast
  next
    case False
    with b pc have "rs_Config st = cfg" by auto
    then show ?thesis using launch l(2,3) by (simp add: runnable_def releases_present)
  qed
qed

section \<open>One operator\<close>

definition declares_bundle :: "assembly \<Rightarrow> Refs \<Rightarrow> bool" where
  "declares_bundle a ref \<longleftrightarrow>
     (case as_resolveConfig a (rf_Org ref) (rf_Repo ref) (rf_BaseRef ref) of
        Inr (Some data) \<Rightarrow> (case as_unmarshal a data of None \<Rightarrow> False | Some target \<Rightarrow> bundles_of target \<noteq> [])
      | _ \<Rightarrow> False)"

lemma operator_annotations_get:
  "mget (operator_annotations named i annots) ''ci-chat-bot.openshift.io/IsOperator'' = Some ''true''"
  "k \<notin> {''ci-chat-bot.openshift.io/IsOperator'', ''ci-chat-bot.openshift.io/OperatorHasIndex''} \<Longrightarrow>
     mget (operator_annotations None i annots) k = mget annots k"
proof -
  have neq: "''ci-chat-bot.openshift.io/IsOperator'' \<noteq> ''ci-chat-bot.openshift.io/OperatorHasIndex''"
    "''ci-chat-bot.openshift.io/IsOperator'' \<noteq> ''ci-chat-bot.openshift.io/OperatorBundleName''" by simp_all
  show "mget (operator_annotations named i annots) ''ci-chat-bot.openshift.io/IsOperator'' = Some ''true''"
    unfolding operator_annotations_def Let_def
    by (cases named; cases i; simp only: option.case gm.lookup_insert neq if_False if_True refl)
  show "mget (operator_annotations None i annots) k = mget annots k"
    if "k \<notin> {''ci-chat-bot.openshift.io/IsOperator'', ''ci-chat-bot.openshift.io/OperatorHasIndex''}"
    using that unfolding operator_annotations_def Let_def insert_iff de_Morgan_disj
    by (cases i; simp only: option.case gm.lookup_insert if_False if_True)
qed

lemma install_bundleE:
  assumes "install_bundle job ref target opstep cfg op annots = Inr (repo, cfg', op', annots')"
  obtains indexName named i where "choose_bundle job (ob_Bundles opstep) (op_BundleName op) = (indexName, op_BundleName op', named)"
    "repo = repo_name_of ref" "op_Is op'" "annots' = operator_annotations named i annots"
proof -
  obtain indexName name named where c: "choose_bundle job (ob_Bundles opstep) (op_BundleName op) = (indexName, name, named)"
    using prod_cases3 by blast
  with assms obtain b ts where "find_bundle_test indexName (rc_Tests target) = Some b"
    "install_in_launch job indexName b (rc_Tests cfg) = Inr ts"
    by (auto simp: install_bundle_def rbind_eq_Inr_iff split: option.splits)
  with assms c have "repo = repo_name_of ref" "op_Is op'" "name = op_BundleName op'"
    "\<exists>i. annots' = operator_annotations named i annots"
    by (auto simp: install_bundle_def Let_def)
  with c that show thesis by blast
qed

lemma install_bundle_operator:
  assumes "install_bundle job ref target opstep cfg op annots = Inr (repo, cfg', op', annots')"
  shows "repo = repo_name_of ref" "op_Is op'"
    "mget (jb_JobParams job) ''bundle'' = Some b \<Longrightarrow> op_BundleName op' = b"
    "mget annots' ''ci-chat-bot.openshift.io/IsOperator'' = Some ''true''"
    "k \<notin> {''ci-chat-bot.openshift.io/IsOperator'', ''ci-chat-bot.openshift.io/OperatorHasIndex''} \<Longrightarrow>
       mget (jb_JobParams job) ''bundle'' = Some b \<Longrightarrow> mget annots' k = mget annots k"
proof -
  obtain indexName named i where c: "choose_bundle job (ob_Bundles opstep) (op_BundleName op) = (indexName, op_BundleName op', named)"
    "repo = repo_name_of ref" "op_Is op'" "annots' = operator_annotations named i annots"
    by (rule install_bundleE [OF assms])
  then show "repo = repo_name_of ref" "op_Is op'" by simp_all
  show "op_BundleName op' = b" if "mget (jb_JobParams job) ''bundle'' = Some b"
    using c(1) that by (simp add: choose_bundle_def)
  show "mget annots' ''ci-chat-bot.openshift.io/IsOperator'' = Some ''true''"
    unfolding c(4) by (rule operator_annotations_get(1))
  have "named = None" if "mget (jb_JobParams job) ''bundle'' = Some b"
    using c(1) that by (simp add: choose_bundle_def)
  then show "mget annots' k = mget annots k"
    if "k \<notin> {''ci-chat-bot.openshift.io/IsOperator'', ''ci-chat-bot.openshift.io/OperatorHasIndex''}"
      "mget (jb_JobParams job) ''bundle'' = Some b"
    unfolding c(4) using operator_annotations_get(2) [OF that(1)] that(2) by simp
qed

lemma operator_step_repo:
  assumes "operator_step job ref target st = Inr (repo, st1)" "jb_Mode job \<noteq> JobTypeBuild"
  shows "op_Is (rs_Operator st) \<Longrightarrow> rs_Repo st1 = rs_Repo st \<and> op_Is (rs_Operator st1)"
    "bundles_of target \<noteq> [] \<Longrightarrow> op_Is (rs_Operator st1) \<and> repo_name_of ref = rs_Repo st1"
  using assms
  by (auto simp: operator_step_def processOperatorPR_def bundles_of_def rbind_eq_Inr_iff repo_name_of_def
      dest: install_bundle_operator(1,2) split: if_splits option.splits)

lemma ref_loop_repo:
  assumes "ref_loop a host job rs st = Inr st'" "jb_Mode job \<noteq> JobTypeBuild"
  shows "(op_Is (rs_Operator st) \<longrightarrow> rs_Repo st' = rs_Repo st \<and> op_Is (rs_Operator st')) \<and>
    (\<forall>r \<in> set rs. declares_bundle a (snd r) \<longrightarrow> op_Is (rs_Operator st') \<and> repo_name_of (snd r) = rs_Repo st')"
  using assms(1)
proof (induction rs arbitrary: st)
  case (Cons r rs)
  obtain init ref where r: "r = (init, ref)" by fastforce
  obtain st1 where s: "ref_step a host job r st = Inr st1" "ref_loop a host job rs st1 = Inr st'"
    using Cons.prems by (auto simp: rbind_eq_Inr_iff)
  obtain data target repo st0 where t: "as_resolveConfig a (rf_Org ref) (rf_Repo ref) (rf_BaseRef ref) = Inr (Some data)"
    "as_unmarshal a data = Some target" "operator_step job ref target st = Inr (repo, st0)"
    "st1 = add_child a host init ref target repo st0"
    using s(1) unfolding r by (rule ref_stepE)
  then have "declares_bundle a ref \<longleftrightarrow> bundles_of target \<noteq> []" by (simp add: declares_bundle_def)
  then show ?case
    using Cons.IH [OF s(2)] operator_step_repo [OF t(3) assms(2)] t(4) r by auto
qed simp

section \<open>What the annotations keep of an operator\<close>

definition operator_kept :: "string \<Rightarrow> (string, string) gomap \<Rightarrow> ref_state \<Rightarrow> bool" where
  "operator_kept b annots st \<longleftrightarrow>
     (\<forall>k. k \<notin> {''ci-chat-bot.openshift.io/IsOperator'', ''ci-chat-bot.openshift.io/OperatorHasIndex''} \<longrightarrow>
        mget (pj_Annotations (rs_Job st)) k = mget annots k) \<and>
     (op_Is (rs_Operator st) \<longrightarrow> op_BundleName (rs_Operator st) = b \<and>
        mget (pj_Annotations (rs_Job st)) ''ci-chat-bot.openshift.io/IsOperator'' = Some ''true'')"

lemma operator_step_kept:
  assumes "operator_step job ref target st = Inr (repo, st1)" "mget (jb_JobParams job) ''bundle'' = Some b"
    "operator_kept b annots st"
  shows "operator_kept b annots st1"
proof -
  obtain cfg op an where p: "processOperatorPR (rs_Repo st) job ref target (rs_Config st) (rs_Operator st)
      (pj_Annotations (rs_Job st)) = Inr (repo, cfg, op, an)"
    and st1: "st1 = st\<lparr>rs_Config := cfg, rs_Operator := op, rs_Repo := (if repo \<noteq> [] then repo else rs_Repo st),
       rs_Job := (rs_Job st)\<lparr>pj_Annotations := an\<rparr>\<rparr>"
    using assms(1,2) by (auto simp: operator_step_def rbind_eq_Inr_iff split: if_splits)
  show ?thesis
  proof (cases "op = rs_Operator st \<and> an = pj_Annotations (rs_Job st)")
    case True
    then show ?thesis using assms(3) by (simp add: st1 operator_kept_def)
  next
    case False
    then obtain opstep where "install_bundle job ref target opstep (rs_Config st) (rs_Operator st)
        (pj_Annotations (rs_Job st)) = Inr (repo, cfg, op, an)"
      using p by (auto simp: processOperatorPR_def split: option.splits if_splits)
    note i = install_bundle_operator [OF this]
    show ?thesis using assms(2,3) i(3) [OF assms(2)] i(4,5) by (simp add: st1 operator_kept_def)
  qed
qed

lemma ref_loop_kept:
  assumes "ref_loop a host job rs st = Inr st'" "mget (jb_JobParams job) ''bundle'' = Some b" "operator_kept b annots st"
  shows "operator_kept b annots st'"
  using assms(1,3)
proof (induction rs arbitrary: st)
  case (Cons r rs)
  obtain init ref where r: "r = (init, ref)" by fastforce
  obtain st1 where s: "ref_step a host job r st = Inr st1" "ref_loop a host job rs st1 = Inr st'"
    using Cons.prems by (auto simp: rbind_eq_Inr_iff)
  obtain target repo st0 where "operator_step job ref target st = Inr (repo, st0)"
    "st1 = add_child a host init ref target repo st0"
    using s(1) unfolding r by (rule ref_stepE)
  then have "operator_kept b annots st1"
    using operator_step_kept [OF _ assms(2) Cons.prems(2)] by (simp add: operator_kept_def)
  then show ?case using Cons.IH [OF s(2)] by simp
qed simp

section \<open>Configurations that cannot panic\<close>

text \<open>
  A test of a launch configuration is typed when it is a multistage test with an environment; a resolved
  configuration is typed when the parameters of its steps have defaults.
\<close>

definition typed_test :: "TestStepConfiguration \<Rightarrow> bool" where
  "typed_test t \<longleftrightarrow> (case ts_MultiStage t of None \<Rightarrow> False | Some ms \<Rightarrow> ms_Environment ms \<noteq> None)"

definition typed_launch :: "assembly \<Rightarrow> Job \<Rightarrow> ProwJob \<Rightarrow> bool" where
  "typed_launch a job pj \<longleftrightarrow>
     (case source_env pj of
        None \<Rightarrow> True
      | Some (env, _) \<Rightarrow>
          (case mget (as_clients a) (jb_BuildCluster job) of
             None \<Rightarrow> True
           | Some client \<Rightarrow>
               (case loadJobConfigSpec (as_unmarshal a) (cl_configMaps client) env (as_namespace a) of
                  Inl _ \<Rightarrow> True
                | Inr (cfg, _, _) \<Rightarrow> list_all typed_test (rc_Tests cfg))))"

definition typed_steps :: "TestStepConfiguration \<Rightarrow> bool" where
  "typed_steps t \<longleftrightarrow>
     (case ts_Literal t of
        None \<Rightarrow> True
      | Some ml \<Rightarrow> list_all (\<lambda>s. list_all (\<lambda>p. snd p \<noteq> None) (ls_Environment s)) (ml_Pre ml))"

definition typed_target :: "assembly \<Rightarrow> Refs \<Rightarrow> bool" where
  "typed_target a ref \<longleftrightarrow>
     (case as_resolveConfig a (rf_Org ref) (rf_Repo ref) (rf_BaseRef ref) of
        Inr (Some data) \<Rightarrow>
          (case as_unmarshal a data of None \<Rightarrow> True | Some target \<Rightarrow> list_all typed_steps (rc_Tests target))
      | _ \<Rightarrow> True)"

text \<open>The tests called \<open>launch\<close> stay multistage tests.\<close>

definition staged :: "ReleaseBuildConfiguration \<Rightarrow> bool" where
  "staged cfg \<longleftrightarrow> list_all (\<lambda>t. ts_As t = ''launch'' \<longrightarrow> ts_MultiStage t \<noteq> None) (rc_Tests cfg)"

text \<open>An edit that neither panics on a multistage test nor makes it another kind of test.\<close>

definition safe_edit :: "(TestStepConfiguration \<Rightarrow> (assembly_error, TestStepConfiguration) result) \<Rightarrow> bool" where
  "safe_edit f \<longleftrightarrow> (\<forall>t. ts_MultiStage t \<noteq> None \<longrightarrow> f t \<noteq> Inl Panic \<and> (\<forall>t'. f t = Inr t' \<longrightarrow> ts_MultiStage t' \<noteq> None))"

lemma safe_edit_comp: "safe_edit f \<Longrightarrow> safe_edit g \<Longrightarrow> safe_edit (\<lambda>t. rbind (f t) g)"
  unfolding safe_edit_def rbind_eq_Inl_iff rbind_eq_Inr_iff by blast

lemma safe_edit_on_ms: "(\<And>ms. f ms \<noteq> Inl Panic) \<Longrightarrow> safe_edit (on_ms f)"
  by (auto simp: safe_edit_def on_ms_def rbind_eq_Inl_iff rbind_eq_Inr_iff)

lemma safe_edit_if: "safe_edit f \<Longrightarrow> safe_edit (\<lambda>t. if b then f t else Inr t)"
  by (simp add: safe_edit_def)

lemma safe_edits:
  "safe_edit (params_edit job)" "safe_edit (test_edit n job)" "safe_edit (upgrade_edit job)"
  "safe_edit (suite_edit job)" "safe_edit (image_edit job)"
  unfolding params_edit_def test_edit_def upgrade_edit_def suite_edit_def image_edit_def Let_def
  by (intro safe_edit_if safe_edit_on_ms; simp split: option.split)+

lemma spot_edit_safe:
  assumes "typed_test t"
  shows "spot_edit job t \<noteq> Inl Panic" "spot_edit job t = Inr t' \<Longrightarrow> ts_MultiStage t' \<noteq> None"
  using assms by (auto simp: typed_test_def spot_edit_def on_ms_def rbind_eq_Inl_iff rbind_eq_Inr_iff split: option.splits if_splits)

lemma edit_target_safe:
  assumes "typed_test t"
  shows "edit_target n job t \<noteq> Inl Panic" "edit_target n job t = Inr t' \<Longrightarrow> ts_MultiStage t' \<noteq> None"
proof -
  let ?rest = "\<lambda>t1. rbind (params_edit job t1) (\<lambda>t2. rbind (test_edit n job t2) (\<lambda>t3.
     rbind (upgrade_edit job t3) (\<lambda>t4. rbind (suite_edit job t4) (image_edit job))))"
  have rest: "safe_edit ?rest" by (intro safe_edit_comp safe_edits)
  have e: "edit_target n job t = rbind (spot_edit job t) ?rest" by (simp add: edit_target_def)
  show "edit_target n job t \<noteq> Inl Panic"
    unfolding e using rest spot_edit_safe [OF assms] unfolding safe_edit_def rbind_eq_Inl_iff by blast
  show "edit_target n job t = Inr t' \<Longrightarrow> ts_MultiStage t' \<noteq> None"
    unfolding e using rest spot_edit_safe [OF assms] unfolding safe_edit_def rbind_eq_Inr_iff by blast
qed

lemma find_typed: "list_all typed_test ts \<Longrightarrow> find P ts = Some t \<Longrightarrow> typed_test t"
  by (auto simp: find_Some_iff list_all_length)

lemma matched_config_safe:
  assumes "list_all typed_test (rc_Tests cfg)"
  shows "matched_config n job cfg \<noteq> Inl Panic" "matched_config n job cfg = Inr cfg' \<Longrightarrow> staged cfg'"
proof -
  show "matched_config n job cfg \<noteq> Inl Panic"
    using assms by (auto simp: matched_config_def rbind_eq_Inl_iff dest!: find_typed dest: edit_target_safe(1) split: option.splits)
  have share: "list_all (\<lambda>t. ts_As t = ''launch'' \<longrightarrow> ts_MultiStage t \<noteq> None) (share_ms n ms ts)"
    if "list_all typed_test ts" "ms \<noteq> None" for ms ts
    using that by (induction ts) (auto simp: typed_test_def list_all_iff split: option.splits)
  show "staged cfg'" if "matched_config n job cfg = Inr cfg'"
    using that assms edit_target_safe(2) [OF find_typed [OF assms]] share [OF assms]
    by (fastforce simp: matched_config_def rbind_eq_Inr_iff staged_def split: option.splits if_splits)
qed

lemma rewrite_tests_safe:
  assumes "list_all typed_test (rc_Tests cfg)"
  shows "rewrite_tests a n job cfg \<noteq> Inl Panic" "rewrite_tests a n job cfg = Inr cfg' \<Longrightarrow> staged cfg'"
proof -
  have t: "ts_MultiStage t \<noteq> None" if "find P (rc_Tests cfg) = Some t" for P t
    using find_typed [OF assms that] by (auto simp: typed_test_def split: option.splits)
  show "rewrite_tests a n job cfg \<noteq> Inl Panic"
    using matched_config_safe(1) [OF assms]
    by (auto simp: rewrite_tests_def workflow_config_def Let_def dest!: t split: option.splits)
  show "rewrite_tests a n job cfg = Inr cfg' \<Longrightarrow> staged cfg'"
    using matched_config_safe(2) [OF assms]
    by (auto simp: rewrite_tests_def workflow_config_def workflow_test_def Let_def staged_def split: option.splits if_splits)
qed

lemma set_profile_staged:
  "set_profile p ts = Inr ts' \<Longrightarrow> list_all (\<lambda>t. ts_As t = ''launch'' \<longrightarrow> ts_MultiStage t \<noteq> None) ts \<Longrightarrow>
     list_all (\<lambda>t. ts_As t = ''launch'' \<longrightarrow> ts_MultiStage t \<noteq> None) ts'"
  by (induction ts arbitrary: ts') (auto simp: rbind_eq_Inr_iff split: if_splits option.splits)

lemma launch_config_safe:
  assumes "typed_launch a job pj"
  shows "launch_config a job pj \<noteq> Inl Panic" "launch_config a job pj = Inr (pj', cfg) \<Longrightarrow> staged cfg"
proof -
  have typed: "list_all typed_test (rc_Tests c)"
    if "source_env pj = Some (env, x)" "getClusterClient a job = Inr client"
      "loadJobConfigSpec (as_unmarshal a) (cl_configMaps client) env (as_namespace a) = Inr (c, y, z)" for env x client c y z
    using that assms by (auto simp: typed_launch_def getClusterClient_def split: option.splits)
  have profile: "with_profile job pj c \<noteq> Inl Panic" "with_profile job pj c = Inr (pj', c') \<Longrightarrow> staged c \<Longrightarrow> staged c'" for c pj' c'
    by (auto simp: with_profile_def applyClusterProfile_def staged_def rbind_eq_Inr_iff
        dest: set_profile_staged split: sum.splits if_splits)
  have client: "getClusterClient a job \<noteq> Inl Panic" by (simp add: getClusterClient_def split: option.split)
  show "launch_config a job pj \<noteq> Inl Panic"
  proof
    assume l: "launch_config a job pj = Inl Panic"
    then obtain env x cl where e: "source_env pj = Some (env, x)" "getClusterClient a job = Inr cl"
      using client by (auto simp: launch_config_def rbind_eq_Inl_iff split: option.splits)
    with l obtain c y z where c: "loadJobConfigSpec (as_unmarshal a) (cl_configMaps cl) env (as_namespace a) = Inr (c, y, z)"
      by (auto simp: launch_config_def split: sum.splits)
    then have "rewrite_tests a (target_name a job env) job c = Inl Panic \<or> (\<exists>c1. with_profile job pj c1 = Inl Panic)"
      using l e by (auto simp: launch_config_def rbind_eq_Inl_iff)
    then show False using rewrite_tests_safe(1) [OF typed [OF e c]] profile(1) by blast
  qed
  show "staged cfg" if l: "launch_config a job pj = Inr (pj', cfg)"
  proof -
    obtain env x client where e: "source_env pj = Some (env, x)" "getClusterClient a job = Inr client"
      using l by (auto simp: launch_config_def rbind_eq_Inr_iff split: option.splits)
    with l obtain c y z where c: "loadJobConfigSpec (as_unmarshal a) (cl_configMaps client) env (as_namespace a) = Inr (c, y, z)"
      by (auto simp: launch_config_def split: sum.splits)
    with e l obtain c1 c2 where "rewrite_tests a (target_name a job env) job c = Inr c1" "with_profile job pj c1 = Inr (pj', c2)"
      "cfg = c2\<lparr>rc_Releases := branch_releases (jb_Architecture job), rc_TagSpecification := None\<rparr>"
      by (auto simp: launch_config_def rbind_eq_Inr_iff)
    then show ?thesis using rewrite_tests_safe(2) [OF typed [OF e c]] profile(2) by (auto simp: staged_def)
  qed
qed

lemma copy_defaults_safe: "list_all (\<lambda>p. snd p \<noteq> None) ps \<Longrightarrow> copy_defaults ps e \<noteq> Inl Panic"
  by (induction ps arbitrary: e) auto

definition typed_bundle :: "bundle_test \<Rightarrow> bool" where
  "typed_bundle b \<longleftrightarrow> (case b of IndexTest ps \<Rightarrow> list_all (\<lambda>p. snd p \<noteq> None) ps | BundleStep _ \<Rightarrow> True)"

lemma find_bundle_typed: "list_all typed_steps ts \<Longrightarrow> find_bundle_test n ts = Some b \<Longrightarrow> typed_bundle b"
proof (induction ts)
  case (Cons t ts)
  show ?case
  proof (cases "ts_Literal t")
    case (Some ml)
    then have pre: "list_all (\<lambda>s. list_all (\<lambda>p. snd p \<noteq> None) (ls_Environment s)) (ml_Pre ml)"
      using Cons.prems(1) by (simp add: typed_steps_def)
    have "list_all (\<lambda>p. snd p \<noteq> None) (ls_Environment s)" if "find P (ml_Pre ml) = Some s" for P s
      using that pre by (auto simp: find_Some_iff list_all_length)
    then show ?thesis using Some Cons by (auto simp: typed_bundle_def split: option.splits)
  qed (use Cons in auto)
qed simp

lemma install_operator_safe: "typed_bundle b \<Longrightarrow> install_operator job n b ms \<noteq> Inl Panic"
  using copy_defaults_safe by (cases b) (auto simp: install_operator_def Let_def rbind_eq_Inl_iff typed_bundle_def)

lemma install_in_launch_safe:
  assumes "typed_bundle b" "list_all (\<lambda>t. ts_As t = ''launch'' \<longrightarrow> ts_MultiStage t \<noteq> None) ts"
  shows "install_in_launch job n b ts \<noteq> Inl Panic"
    "install_in_launch job n b ts = Inr ts' \<Longrightarrow> list_all (\<lambda>t. ts_As t = ''launch'' \<longrightarrow> ts_MultiStage t \<noteq> None) ts'"
proof -
  have ok: "safe_edit (on_ms (install_operator job n b))" by (intro safe_edit_on_ms install_operator_safe assms(1))
  show "install_in_launch job n b ts \<noteq> Inl Panic"
    using assms(2) ok by (induction ts) (auto simp: rbind_eq_Inl_iff safe_edit_def split: if_splits)
  show "list_all (\<lambda>t. ts_As t = ''launch'' \<longrightarrow> ts_MultiStage t \<noteq> None) ts'" if "install_in_launch job n b ts = Inr ts'"
    using that assms(2) ok
  proof (induction ts arbitrary: ts')
    case (Cons t ts)
    then show ?case by (cases "ts_As t = ''launch''") (auto simp: rbind_eq_Inr_iff safe_edit_def)
  qed simp
qed

lemma install_bundle_safe:
  assumes "list_all typed_steps (rc_Tests target)" "staged cfg"
  shows "install_bundle job ref target opstep cfg op annots \<noteq> Inl Panic"
    "install_bundle job ref target opstep cfg op annots = Inr (repo, cfg', op', annots') \<Longrightarrow> staged cfg'"
proof -
  obtain n name named where c: "choose_bundle job (ob_Bundles opstep) (op_BundleName op) = (n, name, named)"
    using prod_cases3 by blast
  have i: "install_in_launch job n b (rc_Tests cfg) \<noteq> Inl Panic"
    "install_in_launch job n b (rc_Tests cfg) = Inr ts \<Longrightarrow> list_all (\<lambda>t. ts_As t = ''launch'' \<longrightarrow> ts_MultiStage t \<noteq> None) ts"
    if "find_bundle_test n (rc_Tests target) = Some b" for b ts
    using install_in_launch_safe [OF find_bundle_typed [OF assms(1) that]] assms(2) by (simp_all add: staged_def)
  show "install_bundle job ref target opstep cfg op annots \<noteq> Inl Panic"
    using i(1) by (auto simp: install_bundle_def c Let_def rbind_eq_Inl_iff split: option.splits)
  show "staged cfg'" if "install_bundle job ref target opstep cfg op annots = Inr (repo, cfg', op', annots')"
    using that i(2) by (auto simp: install_bundle_def c Let_def rbind_eq_Inr_iff staged_def split: option.splits)
qed

lemma operator_step_safe:
  assumes "list_all typed_steps (rc_Tests target)" "staged (rs_Config st)"
  shows "operator_step job ref target st \<noteq> Inl Panic"
    "operator_step job ref target st = Inr (repo, st1) \<Longrightarrow> staged (rs_Config st1)"
  using assms install_bundle_safe [OF assms]
  by (auto simp: operator_step_def processOperatorPR_def rbind_eq_Inl_iff rbind_eq_Inr_iff split: option.splits if_splits)

lemma ref_loop_safe:
  assumes "list_all (\<lambda>r. typed_target a (snd r)) rs" "staged (rs_Config st)"
  shows "ref_loop a host job rs st \<noteq> Inl Panic"
  using assms
proof (induction rs arbitrary: st)
  case (Cons r rs)
  obtain init ref where r: "r = (init, ref)" by fastforce
  have typed: "list_all typed_steps (rc_Tests target)"
    if "as_resolveConfig a (rf_Org ref) (rf_Repo ref) (rf_BaseRef ref) = Inr (Some data)" "as_unmarshal a data = Some target"
    for data target
    using Cons.prems(1) that by (simp add: r typed_target_def)
  have "ref_step a host job r st \<noteq> Inl Panic"
    using operator_step_safe(1) [OF typed Cons.prems(2)]
    by (auto simp: ref_step_def r Let_def rbind_eq_Inl_iff split: sum.splits option.splits)
  moreover have "ref_loop a host job rs st1 \<noteq> Inl Panic" if "ref_step a host job r st = Inr st1" for st1
  proof -
    obtain data target repo st0 where t: "as_resolveConfig a (rf_Org ref) (rf_Repo ref) (rf_BaseRef ref) = Inr (Some data)"
      "as_unmarshal a data = Some target" "operator_step job ref target st = Inr (repo, st0)"
      "st1 = add_child a host init ref target repo st0"
      using \<open>ref_step a host job r st = Inr st1\<close> unfolding r by (rule ref_stepE)
    have "staged (rs_Config st1)"
      using operator_step_safe(2) [OF typed [OF t(1,2)] Cons.prems(2) t(3)]
      by (simp add: t(4) add_child_def Let_def staged_def)
    then show ?thesis using Cons by simp
  qed
  ultimately show ?case by (auto simp: rbind_eq_Inl_iff)
qed simp

lemma on_first_container_safe: "job_containers pj \<noteq> [] \<Longrightarrow> on_first_container n f pj \<noteq> Inl Panic"
  by (auto simp: on_first_container_def job_containers_def Let_def split: list.splits)

lemma containers_lead [simp]: "job_containers (lead_with_namespace ns pj) = [] \<longleftrightarrow> job_containers pj = []"
  by (simp add: lead_with_namespace_def)

lemma containers_clone [simp]: "job_containers (clone_refs pj) = job_containers pj"
  by (simp add: clone_refs_def job_containers_def)

lemma ref_start_staged: "staged cfg \<Longrightarrow> staged (rs_Config (ref_start a job cfg pj))"
  by (simp add: staged_def ref_start_def none_test_def)

lemma build_parts_safe:
  assumes "job_containers pj \<noteq> []" "staged cfg" "list_all (\<lambda>r. typed_target a (snd r)) (job_refs job)"
  shows "build_parts a job ns (pj, cfg) \<noteq> Inl Panic"
proof -
  have "with_pull_requests a job ns release pj cfg \<noteq> Inl Panic" for release
    using ref_loop_safe [OF assms(3) ref_start_staged [OF assms(2)]]
      on_first_container_safe [of "lead_with_namespace ns (clone_refs pj)"] assms(1)
    by (auto simp: with_pull_requests_def getClusterClient_def Let_def rbind_eq_Inl_iff split: option.splits)
  then show ?thesis
    by (auto simp: build_parts_def rbind_eq_Inl_iff mce_release_def split: option.splits if_splits)
qed

lemma assembled_operator:
  assumes "assemble a json hash maxAge job pj = Inr (op, pj')" "\<not> op_Is (jb_Operator job)"
    and "mget (jb_JobParams job) ''bundle'' = Some b"
  shows "op_Is op" "op_BundleName op = b" "mget (pj_Annotations pj') ''ci-chat-bot.openshift.io/IsOperator'' = Some ''true''"
    "k \<notin> {''ci-chat-bot.openshift.io/IsOperator'', ''ci-chat-bot.openshift.io/OperatorHasIndex''} \<Longrightarrow>
       mget (pj_Annotations pj') k = mget (pj_Annotations (job_metadata json (job_namespace hash job) maxAge job pj)) k"
proof -
  obtain pj1 pc st pj2 release pj3 where p: "assemble_base json hash maxAge job pj = Some pj1"
    "launch_config a job pj1 = Inr pc" "build_parts a job (job_namespace hash job) pc = Inr st"
    "with_target job (rs_Job st) = Inr pj2" "op = rs_Operator st" "pj' = publish_config a (rs_Config st) pj3"
    "(if jb_Mode job = JobTypeMCECustomImage \<and> \<not> jobHasRefs job
      then mce_only a job (job_namespace hash job) release pj2 else Inr pj2) = Inr pj3"
    by (rule assembleE [OF assms(1)])
  obtain release' where r: "(if jobHasRefs job then with_pull_requests a job (job_namespace hash job) release' (fst pc) (snd pc)
      else Inr \<lparr>rs_Job = fst pc, rs_Config = snd pc, rs_Operator = jb_Operator job, rs_Index = 0, rs_Repo = []\<rparr>) = Inr st"
    and isop: "op_Is (rs_Operator st)"
    using build_partsE [OF p(3)] assms(3) by (metis mhas_def option.distinct(1))
  then have "with_pull_requests a job (job_namespace hash job) release' (fst pc) (snd pc) = Inr st"
    using assms(2) by (auto split: if_splits)
  then obtain host pj0 where l: "ref_loop a host job (job_refs job) (ref_start a job (snd pc) pj0) = Inr st"
    and an0: "pj_Annotations pj0 = pj_Annotations (fst pc)"
    by (rule with_pull_requestsE)
  let ?md = "job_metadata json (job_namespace hash job) maxAge job pj"
  have md: "pj_Annotations (fst pc) = pj_Annotations ?md"
    using launch_config_parts(5) [of a job pj1 "fst pc" "snd pc"] p(2) assemble_base_frame(1) [OF p(1)] by simp
  have "operator_kept b (pj_Annotations ?md) (ref_start a job (snd pc) pj0)"
    using assms(2) an0 md by (simp add: operator_kept_def)
  then have "operator_kept b (pj_Annotations ?md) st" by (rule ref_loop_kept [OF l assms(3)])
  moreover have "pj_Annotations pj' = pj_Annotations (rs_Job st)"
    using with_target_frame(2) [OF p(4)] mce_only_frame(1) p(7) by (auto simp: p(6) split: if_splits)
  ultimately have kept: "operator_kept b (pj_Annotations ?md) st" "pj_Annotations pj' = pj_Annotations (rs_Job st)"
    by simp_all
  show "op_Is op" "op_BundleName op = b" "mget (pj_Annotations pj') ''ci-chat-bot.openshift.io/IsOperator'' = Some ''true''"
    using isop kept by (simp_all add: p(5) operator_kept_def)
  show "mget (pj_Annotations pj') k = mget (pj_Annotations ?md) k"
    if "k \<notin> {''ci-chat-bot.openshift.io/IsOperator'', ''ci-chat-bot.openshift.io/OperatorHasIndex''}"
    using kept that unfolding operator_kept_def by metis
qed

section \<open>An example\<close>

text \<open>A catalog build of one pull request to an operator repository.\<close>

definition sample_stage :: MultiStageTest where
  "sample_stage = \<lparr>ms_ClusterProfile = ''aws'', ms_Pre = [], ms_Test = [Reference ''clusterbot-wait''], ms_Post = [],
     ms_Workflow = Some ''clusterbot-aws'', ms_Environment = Some [], ms_Dependencies = None, ms_Leases = []\<rparr>"

definition sample_launch_config :: ReleaseBuildConfiguration where
  "sample_launch_config = empty_config\<lparr>rc_Tests := [\<lparr>ts_As = ''launch'', ts_Commands = [], ts_ContainerFrom = None,
     ts_MultiStage = Some sample_stage, ts_Literal = None\<rparr>]\<rparr>"

definition sample_operator_config :: ReleaseBuildConfiguration where
  "sample_operator_config = empty_config\<lparr>
     rc_Operator := Some \<lparr>ob_Bundles = [''my''], ob_Rest = []\<rparr>,
     rc_Images := [\<lparr>im_To = ''my-operator'', im_Optional = True, im_Rest = []\<rparr>],
     rc_Tests := [\<lparr>ts_As = ''e2e'', ts_Commands = [], ts_ContainerFrom = None, ts_MultiStage = None,
       ts_Literal = Some \<lparr>ml_Pre = [\<lparr>ls_As = ''subscribe'', ls_From = [], ls_Commands = [], ls_Requests = [],
           ls_Environment = [(''OO_CHANNEL'', Some ''alpha'')],
           ls_Dependencies = [\<lparr>sd_Name = ''ci-index-my'', sd_Env = ''OO_INDEX''\<rparr>]\<rparr>], ml_Test = []\<rparr>\<rparr>]\<rparr>"

definition sample_assembly :: assembly where
  "sample_assembly = \<lparr>as_namespace = ''ci'',
     as_unmarshal = (\<lambda>t. if t = ''launch'' then Some sample_launch_config
                          else if t = ''operator'' then Some sample_operator_config else None),
     as_marshal = (\<lambda>c. join '','' (map ts_As (rc_Tests c))),
     as_marshalSpec = (\<lambda>_ _. ''spec''),
     as_resolveConfig = (\<lambda>_ _ _. Inr (Some ''operator'')),
     as_clients = [(''build01'', \<lparr>cl_configMaps = (\<lambda>_. None), cl_registry = Some ''registry.ci/ocp''\<rparr>)],
     as_workflows = [], as_script = ''script'', as_mceScript = ''rewrite'', as_configInitial = ''initial''\<rparr>"

definition sample_ref :: Refs where
  "sample_ref = \<lparr>rf_Org = ''openshift'', rf_Repo = ''my-operator'', rf_BaseRef = ''main'', rf_BaseSHA = ''b'', rf_Pulls = []\<rparr>"

definition sample_catalog :: Job where
  "sample_catalog = (sample_job ''u'' ''c1'' JobTypeCatalog)\<lparr>jb_JobParams := [(''bundle'', ''my'')],
     jb_Platform := ''aws'', jb_Architecture := ''amd64'', jb_BuildCluster := ''build01'', jb_JobName := ''release-launch'',
     jb_Inputs := [\<lparr>ji_Image = [], ji_RunImage = [], ji_Version = ''4.19.0'', ji_Refs = [sample_ref]\<rparr>]\<rparr>"

definition sample_periodic :: ProwJob where
  "sample_periodic = newProwJob \<lparr>sp_Type = ''periodic'', sp_Job = ''release-launch'', sp_Cluster = ''build01'',
     sp_PodSpec = \<lparr>ps_InitContainers = [], ps_Containers = [\<lparr>ct_Name = [], ct_Command = [''ci-operator''],
       ct_Args = [''--target=launch''], ct_Env = [plain_env ''UNRESOLVED_CONFIG'' ''launch'']\<rparr>]\<rparr>,
     sp_SkipCloning = None, sp_ExtraRefs = []\<rparr> 1 TriggeredState"

definition sample_hash :: "string \<Rightarrow> string" where
  "sample_hash s = ''x''"

definition sample_json :: "JobInput list \<Rightarrow> string" where
  "sample_json is = ''inputs''"

lemmas sample_job_defs = sample_catalog_def sample_job_def emptyJob_def emptyOperator_def
lemmas sample_config_defs = sample_assembly_def sample_launch_config_def sample_operator_config_def sample_stage_def
  empty_config_def sample_ref_def

definition sample_runner :: Container where
  "sample_runner = \<lparr>ct_Name = [], ct_Command = [''ci-operator''], ct_Args = [''--target=launch''],
     ct_Env = [plain_env ''DELETE_AFTER'' ''168h'', plain_env ''PRESERVE_DURATION'' ''168h'',
       plain_env ''UNRESOLVED_CONFIG'' ''launch'']\<rparr>"

lemma sample_base:
  obtains pj1 where "assemble_base sample_json sample_hash hour sample_catalog sample_periodic = Some pj1"
    "ps_InitContainers (sp_PodSpec (pj_Spec pj1)) = []" "ps_Containers (sp_PodSpec (pj_Spec pj1)) = [sample_runner]"
  by (simp add: assemble_base_def sample_catalog_def sample_periodic_def newProwJob_def Let_def release_env_def retention_env_def
   OverrideJobEnvironment_def OverrideJobEnvVar_def SetJobEnvVar_def map_containers_def override_env_def set_env_def plain_env_def sample_runner_def
   keeps_images_def contains_def has_prefix_def)

lemma sample_launch:
  assumes "ps_InitContainers (sp_PodSpec (pj_Spec pj1)) = []" "ps_Containers (sp_PodSpec (pj_Spec pj1)) = [sample_runner]"
  shows "launch_config sample_assembly sample_catalog pj1 = Inr (pj1, sample_launch_config\<lparr>rc_Releases := branch_releases ''amd64''\<rparr>)"
  using assms
  by (simp add: sample_runner_def launch_config_def source_env_def firstEnvVar_def plain_env_def env_matches_Nil Resolve_def getClusterClient_def sample_job_defs sample_config_defs
    loadJobConfigSpec_def target_name_def configContainsVariant_def multistageNameFromParams_def has_test_def rewrite_tests_def
    workflow_mode_def matched_config_def edit_target_def spot_edit_def params_edit_def test_edit_def upgrade_edit_def suite_edit_def
    image_edit_def UseSpotInstances_def with_profile_def env_params_def multistageParamsForPlatform_def MultistageParameters_def)

lemma sample_typed:
  assumes "ps_InitContainers (sp_PodSpec (pj_Spec pj1)) = []" "ps_Containers (sp_PodSpec (pj_Spec pj1)) = [sample_runner]"
  shows "typed_launch sample_assembly sample_catalog pj1"
  using assms
  by (simp add: sample_runner_def typed_launch_def source_env_def firstEnvVar_def plain_env_def sample_job_defs sample_config_defs
    loadJobConfigSpec_def typed_test_def)

lemma sample_build:
  assumes "ps_Containers (sp_PodSpec (pj_Spec pj1)) = [sample_runner]"
  shows "is_ok (build_parts sample_assembly sample_catalog ns (pj1, sample_launch_config\<lparr>rc_Releases := branch_releases ''amd64''\<rparr>))"
  using assms
  by (simp add: sample_runner_def build_parts_def mce_release_def jobHasRefs_def with_pull_requests_def getClusterClient_def Let_def sample_job_defs sample_config_defs
    on_first_container_def lead_with_namespace_def clone_refs_def set_env_var_def SetJobEnvVar_def RemoveJobEnvVar_def map_containers_def
   job_refs_def ref_step_def operator_step_def processOperatorPR_def ref_start_def install_bundle_def choose_bundle_def
   uses_index_def on_ms_def install_operator_def add_child_def)
lemma sample_assembled:
  obtains op pj where "assemble sample_assembly sample_json sample_hash hour sample_catalog sample_periodic = Inr (op, pj)"
proof -
  obtain pj1 where p: "assemble_base sample_json sample_hash hour sample_catalog sample_periodic = Some pj1"
    "ps_InitContainers (sp_PodSpec (pj_Spec pj1)) = []" "ps_Containers (sp_PodSpec (pj_Spec pj1)) = [sample_runner]"
    by (rule sample_base)
  obtain st where st: "build_parts sample_assembly sample_catalog (job_namespace sample_hash sample_catalog)
      (pj1, sample_launch_config\<lparr>rc_Releases := branch_releases ''amd64''\<rparr>) = Inr st"
    using sample_build [OF p(3)] by (auto simp: is_ok_iff)
  have "mce_release sample_catalog = Inr []" "jb_Mode sample_catalog = JobTypeCatalog"
    by (simp_all add: mce_release_def sample_job_defs)
  then show thesis using p(1) sample_launch [OF p(2,3)] st that
    by (auto simp: assemble_def Let_def with_target_def replaceTargetArgument_def)
qed

lemma sample_catalog_refs: "jobHasRefs sample_catalog" "job_refs sample_catalog = [(False, sample_ref)]"
  "declares_bundle sample_assembly sample_ref" "typed_target sample_assembly sample_ref"
  by code_simp+

section \<open>Properties\<close>

text \<open>
  C5: every Prow job that \<open>newJob\<close> assembles carries, in each of its containers, the ci-operator
  configuration as \<open>UNRESOLVED_CONFIG\<close> and no \<open>CONFIG_SPEC\<close>; that configuration has a test called \<open>launch\<close>
  (the one the job targets), an initial and a latest release, and no tag specification.
\<close>

theorem assembled_config_runnable:
  assumes "assemble a json hash maxAge job pj = Inr (op, pj')"
  shows "\<exists>cfg. runnable cfg \<and> sees ''UNRESOLVED_CONFIG'' (as_marshal a cfg) pj' \<and> unseen ''CONFIG_SPEC'' pj'"
proof -
  obtain pj1 pc st pj3 where "launch_config a job pj1 = Inr pc" "build_parts a job (job_namespace hash job) pc = Inr st"
    "pj' = publish_config a (rs_Config st) pj3"
    using assms by (rule assembleE)
  then show ?thesis using build_parts_runnable publish_config_sees(1,2) by metis
qed

theorem assembled_config_runnable_witness:
  "\<exists>op pj' cfg. assemble sample_assembly sample_json sample_hash hour sample_catalog sample_periodic = Inr (op, pj') \<and>
     runnable cfg \<and> sees ''UNRESOLVED_CONFIG'' (as_marshal sample_assembly cfg) pj' \<and> unseen ''CONFIG_SPEC'' pj'"
proof -
  obtain op pj' where "assemble sample_assembly sample_json sample_hash hour sample_catalog sample_periodic = Inr (op, pj')"
    by (rule sample_assembled)
  then show ?thesis using assembled_config_runnable by metis
qed

text \<open>
  C16: when the job has pull requests, the assembled Prow job describes one child job per repository, in the order
  of the inputs: its configuration (the resolved one, without tests, with every image required, promoting into
  the namespace of the job), its reference and its checkout path; and the job clones exactly these references
  besides those it already had.
\<close>

theorem pull_requests_built:
  assumes "assemble a json hash maxAge job pj = Inr (op, pj')" "jobHasRefs job"
  shows "\<exists>client repository.
    mget (as_clients a) (jb_BuildCluster job) = Some client \<and> cl_registry client = Some repository \<and>
    list_all (\<lambda>(k, r). child_ready a (takeWhile (\<lambda>c. c \<noteq> CHR ''/'') repository) k r pj') (enumerate 0 (job_refs job)) \<and>
    mset (sp_ExtraRefs (pj_Spec pj')) = mset (sp_ExtraRefs (pj_Spec pj)) +
      mset (map (\<lambda>(k, r). (snd r, path_alias k (snd r))) (enumerate 0 (job_refs job)))"
proof -
  obtain pj1 pc st pj2 where p: "assemble_base json hash maxAge job pj = Some pj1" "launch_config a job pj1 = Inr pc"
    "build_parts a job (job_namespace hash job) pc = Inr st" "with_target job (rs_Job st) = Inr pj2"
    "pj' = publish_config a (rs_Config st) pj2"
    using assms(2) by (auto intro: assembleE [OF assms(1)])
  obtain release where "with_pull_requests a job (job_namespace hash job) release (fst pc) (snd pc) = Inr st"
    using assms(2) by (auto intro: build_partsE [OF p(3)])
  then obtain client repository pj0 where c: "mget (as_clients a) (jb_BuildCluster job) = Some client"
    "cl_registry client = Some repository"
    and l: "ref_loop a (takeWhile (\<lambda>c. c \<noteq> CHR ''/'') repository) job (job_refs job) (ref_start a job (snd pc) pj0) = Inr st"
    and e: "sp_ExtraRefs (pj_Spec pj0) = sp_ExtraRefs (pj_Spec (fst pc))"
    by (rule with_pull_requestsE)
  note loop = ref_loop_children [OF l, simplified]
  have keep: "sees n v pj'" if "n \<in> set (child_vars k)" "sees n v (rs_Job st)" for n v k
    using that with_target_frame(1) [OF p(4)] publish_config_sees(3) [of n v pj2]
    by (auto simp: p(5) child_vars_def)
  have "child_ready a (takeWhile (\<lambda>c. c \<noteq> CHR ''/'') repository) k (job_refs job ! k) pj'" if "k < length (job_refs job)" for k
    using loop that keep by (blast intro: child_ready_mono)
  then have "list_all (\<lambda>(k, r). child_ready a (takeWhile (\<lambda>c. c \<noteq> CHR ''/'') repository) k r pj') (enumerate 0 (job_refs job))"
    by (simp add: list_all_length nth_enumerate_eq)
  moreover have "sp_ExtraRefs (pj_Spec (fst pc)) = sp_ExtraRefs (pj_Spec pj)"
    using launch_config_parts(4) [of a job pj1 "fst pc" "snd pc"] p(2) assemble_base_frame(2) [OF p(1)] by simp
  ultimately show ?thesis
    using c loop e with_target_frame(3) [OF p(4)]
    by (simp add: p(5))
qed

theorem pull_requests_built_witness:
  "\<exists>op pj'. assemble sample_assembly sample_json sample_hash hour sample_catalog sample_periodic = Inr (op, pj') \<and>
     child_ready sample_assembly ''registry.ci'' 0 (False, sample_ref) pj' \<and>
     mset (sp_ExtraRefs (pj_Spec pj')) = {#(sample_ref, ''0/github.com/openshift/my-operator'')#}"
proof -
  obtain op pj' where a: "assemble sample_assembly sample_json sample_hash hour sample_catalog sample_periodic = Inr (op, pj')"
    by (rule sample_assembled)
  have "path_alias 0 sample_ref = ''0/github.com/openshift/my-operator''" by code_simp
  moreover have "sp_ExtraRefs (pj_Spec sample_periodic) = []"
    "mget (as_clients sample_assembly) (jb_BuildCluster sample_catalog) =
       Some \<lparr>cl_configMaps = (\<lambda>_. None), cl_registry = Some ''registry.ci/ocp''\<rparr>"
    by (simp_all add: sample_periodic_def newProwJob_def sample_assembly_def sample_job_defs)
  ultimately show ?thesis using a pull_requests_built [OF a sample_catalog_refs(1)] sample_catalog_refs(2)
    by (auto simp: enumerate_simps)
qed

text \<open>
  Outside \<open>build\<close>, all the pull requests of an assembled job whose repositories declare operator bundles
  belong to one repository, and the job is then marked as an operator job.
\<close>

theorem one_operator_repository:
  assumes "assemble a json hash maxAge job pj = Inr (op, pj')" "jb_Mode job \<noteq> JobTypeBuild" "jobHasRefs job"
    and "r \<in> set (job_refs job)" "declares_bundle a (snd r)"
  shows "op_Is op \<and> (\<forall>r' \<in> set (job_refs job). declares_bundle a (snd r') \<longrightarrow> repo_name_of (snd r') = repo_name_of (snd r))"
proof -
  obtain pc st where b: "build_parts a job (job_namespace hash job) pc = Inr st" "op = rs_Operator st"
    by (rule assembleE [OF assms(1)])
  obtain release where "with_pull_requests a job (job_namespace hash job) release (fst pc) (snd pc) = Inr st"
    using assms(3) by (auto intro: build_partsE [OF b(1)])
  then obtain host pj0 where "ref_loop a host job (job_refs job) (ref_start a job (snd pc) pj0) = Inr st"
    by (rule with_pull_requestsE)
  from ref_loop_repo [OF this assms(2)] show ?thesis using assms(4,5) b(2) by metis
qed

theorem one_operator_repository_witness:
  "\<exists>op pj'. assemble sample_assembly sample_json sample_hash hour sample_catalog sample_periodic = Inr (op, pj') \<and> op_Is op"
proof -
  obtain op pj' where a: "assemble sample_assembly sample_json sample_hash hour sample_catalog sample_periodic = Inr (op, pj')"
    by (rule sample_assembled)
  have "jb_Mode sample_catalog \<noteq> JobTypeBuild" by (simp add: sample_job_defs)
  from one_operator_repository [OF a this sample_catalog_refs(1), of "(False, sample_ref)"] show ?thesis
    using a sample_catalog_refs by simp
qed

text \<open>
  A restart loses what the assembly found out about an operator the user named: the Prow job does not carry the
  bundle name (it is only written for a bundle chosen by default) and the flag of the index is written under one
  name and read under another, so the restored job has neither.
\<close>

theorem restart_loses_operator_bundle:
  assumes "assemble a json hash maxAge job pj = Inr (op, pj')" "\<not> op_Is (jb_Operator job)"
    and "mget (jb_JobParams job) ''bundle'' = Some b"
    and "pj_Annotations pj'' = pj_Annotations pj'" "job_of_prow se maxAge pj'' = Some j"
  shows "op_Is op \<and> op_BundleName op = b \<and>
    op_Is (jb_Operator j) \<and> op_BundleName (jb_Operator j) = [] \<and> \<not> op_HasIndex (jb_Operator j)"
proof -
  let ?md = "job_metadata json (job_namespace hash job) maxAge job pj"
  note k = assembled_operator [OF assms(1-3)]
  have "annot pj'' ''HasIndex'' = annot ?md ''HasIndex''" "annot pj'' ''OperatorBundleName'' = annot ?md ''OperatorBundleName''"
    unfolding mget0_def assms(4) by (subst k(4); simp)+
  then have "annot pj'' ''HasIndex'' = []" "annot pj'' ''OperatorBundleName'' = []"
    by (simp_all only: metadata_annotations)
  moreover have "annot pj'' ''IsOperator'' = ''true''" using k(3) by (simp add: mget0_def assms(4))
  ultimately show ?thesis using k(1,2) assms(5)
    by (auto elim!: job_of_prow_SomeE simp: restored_job_def)
qed

theorem restart_loses_operator_bundle_witness:
  "\<exists>op pj' j. assemble sample_assembly sample_json sample_hash hour sample_catalog sample_periodic = Inr (op, pj') \<and>
     op_BundleName op = ''my'' \<and> job_of_prow sample_sync hour (pj'\<lparr>pj_CreationTimestamp := 5, pj_CompletionTime := None\<rparr>) = Some j \<and>
     op_Is (jb_Operator j) \<and> op_BundleName (jb_Operator j) = []"
proof -
  obtain op pj' where a: "assemble sample_assembly sample_json sample_hash hour sample_catalog sample_periodic = Inr (op, pj')"
    by (rule sample_assembled)
  have b: "\<not> op_Is (jb_Operator sample_catalog)" "mget (jb_JobParams sample_catalog) ''bundle'' = Some ''my''"
    by (simp_all add: sample_job_defs)
  let ?pj = "pj'\<lparr>pj_CreationTimestamp := 5, pj_CompletionTime := None\<rparr>" and ?md = "job_metadata sample_json (job_namespace sample_hash sample_catalog) hour sample_catalog sample_periodic"
  have "annot ?pj ''jobInputs'' = annot ?md ''jobInputs''" "annot ?pj ''jobParams'' = annot ?md ''jobParams''"
    "annot ?pj ''expires'' = annot ?md ''expires''"
    using assembled_operator(4) [OF a b] by (simp_all add: mget0_def)
  then have an: "annot ?pj ''jobInputs'' = ''inputs''" "annot ?pj ''jobParams'' = paramsToString [(''bundle'', ''my'')]"
    "annot ?pj ''expires'' = show_int (tdiv (hour + launchDeadline) second)"
    by (simp_all only: metadata_annotations metadata_expires) (simp_all add: sample_json_def sample_job_defs)
  have "expires_at hour ?pj = 5 + 3600 * second + launchDeadline"
    using expires_restored [of 3600 ?pj hour] an(3) by (simp add: hour_def minute_def second_def)
  moreover obtain params where "ParamsFromAnnotation (paramsToString [(''bundle'', ''my'')]) = Inr params"
    using ParamsFromAnnotation_paramsToString [of "[(''bundle'', ''my'')]"]
    by (auto simp: valid_params_def valid_key_def trim_space_def is_space_def)
  ultimately have "\<exists>j. job_of_prow sample_sync hour ?pj = Some j"
    using an(1,2) by (simp add: job_of_prow_def Let_def sample_sync_def launchDeadline_def second_def minute_def)
  then obtain j where j: "job_of_prow sample_sync hour (pj'\<lparr>pj_CreationTimestamp := 5, pj_CompletionTime := None\<rparr>) = Some j" by blast
  have "pj_Annotations (pj'\<lparr>pj_CreationTimestamp := 5, pj_CompletionTime := None\<rparr>) = pj_Annotations pj'" by simp
  from restart_loses_operator_bundle [OF a b this j] show ?thesis using a j by blast
qed

text \<open>
  C19: assembling a Prow job never panics on a well-typed configuration: when the job has an input, the Prow job a
  container, every test of the launch configuration is a multistage test with an environment, and the steps
  of the resolved configurations give their parameters defaults, every nil dereference, nil map write
  and empty slice of the code is out of reach.
\<close>

theorem typed_assembly_never_panics:
  assumes "assemble_base json hash maxAge job pj = Some pj1" "job_containers pj \<noteq> []"
    and "typed_launch a job pj1" "list_all (\<lambda>r. typed_target a (snd r)) (job_refs job)"
  shows "assemble a json hash maxAge job pj \<noteq> Inl Panic"
proof
  assume "assemble a json hash maxAge job pj = Inl Panic"
  note l = launch_config_safe [OF assms(3)]
  have c1: "job_containers pj1 \<noteq> []" using assemble_base_frame(3) [OF assms(1)] assms(2) by auto
  with \<open>assemble a json hash maxAge job pj = Inl Panic\<close> l(1) obtain pj2 cfg where
    p: "launch_config a job pj1 = Inr (pj2, cfg)"
    and r: "rbind (build_parts a job (job_namespace hash job) (pj2, cfg)) (\<lambda>st.
          rbind (with_target job (rs_Job st)) (\<lambda>pj2.
          rbind (mce_release job) (\<lambda>release.
          rbind (if jb_Mode job = JobTypeMCECustomImage \<and> \<not> jobHasRefs job
                 then mce_only a job (job_namespace hash job) release pj2 else Inr pj2) (\<lambda>pj3.
            Inr (rs_Operator st, publish_config a (rs_Config st) pj3))))) = Inl Panic"
    using assms(1) by (auto simp: assemble_def Let_def rbind_eq_Inl_iff [of "launch_config a job pj1"])
  have c2: "job_containers pj2 \<noteq> []" using launch_config_parts(4) [OF p] c1 by (simp add: job_containers_def)
  have "build_parts a job (job_namespace hash job) (pj2, cfg) \<noteq> Inl Panic"
    by (rule build_parts_safe [OF c2 l(2) [OF p] assms(4)])
  moreover have "with_target job q \<noteq> Inl Panic" "mce_release job \<noteq> Inl Panic" for q
    by (auto simp: with_target_def mce_release_def split: sum.splits)
  ultimately obtain st q release where b: "build_parts a job (job_namespace hash job) (pj2, cfg) = Inr st"
    "with_target job (rs_Job st) = Inr q" "\<not> jobHasRefs job" "mce_only a job (job_namespace hash job) release q = Inl Panic"
    using r by (auto simp: rbind_eq_Inl_iff split: if_splits)
  obtain release' where "(if jobHasRefs job then with_pull_requests a job (job_namespace hash job) release' pj2 cfg
      else Inr \<lparr>rs_Job = pj2, rs_Config = cfg, rs_Operator = jb_Operator job, rs_Index = 0, rs_Repo = []\<rparr>) = Inr st"
    by (rule build_partsE [OF b(1), unfolded fst_conv snd_conv])
  then have "rs_Job st = pj2" using b(3) by (simp split: if_splits) (metis ref_state.select_convs(1))
  then have "job_containers q \<noteq> []"
    using b(2) c2 by (auto simp: with_target_def replaceTargetArgument_def job_containers_def split: if_splits)
  then show False
    using b(4) on_first_container_safe [of q] on_first_container_safe [of "lead_with_namespace (job_namespace hash job) q"]
    by (auto simp: mce_only_def rbind_eq_Inl_iff)
qed

theorem typed_assembly_never_panics_witness:
  "assemble sample_assembly sample_json sample_hash hour sample_catalog sample_periodic \<noteq> Inl Panic"
proof -
  obtain pj1 where p: "assemble_base sample_json sample_hash hour sample_catalog sample_periodic = Some pj1"
    "ps_InitContainers (sp_PodSpec (pj_Spec pj1)) = []" "ps_Containers (sp_PodSpec (pj_Spec pj1)) = [sample_runner]"
    by (rule sample_base)
  have "job_containers sample_periodic \<noteq> []" by (simp add: job_containers_def sample_periodic_def newProwJob_def)
  from typed_assembly_never_panics [OF p(1) this sample_typed [OF p(2,3)]] show ?thesis
    using sample_catalog_refs(2,4) by simp
qed

text \<open>
  A default launch on AWS asks for spot instances; when the launch test of the Prow job has no environment this
  is a write to a nil map.
\<close>

theorem spot_launch_needs_environment:
  assumes "UseSpotInstances job" "ts_MultiStage t = Some ms" "ms_Environment ms = None"
    and "find (\<lambda>t. ts_As t = ''launch'') (rc_Tests cfg) = Some t"
  shows "rewrite_tests a ''launch'' job cfg = Inl Panic"
  using assms
  by (simp add: rewrite_tests_def matched_config_def edit_target_def spot_edit_def on_ms_def
      UseSpotInstances_def workflow_mode_def)

text \<open>
  Two size parameters set the same variable: which one wins depends on the iteration order of the parameters.
\<close>

theorem conflicting_sizes_depend_on_order:
  assumes "jb_JobParams job = [(''compact'', []), (''large'', [])]" "jb_JobParams job' = [(''large'', []), (''compact'', [])]"
    and "jb_Platform job = ''aws''" "jb_Platform job' = ''aws''" "ts_MultiStage t = Some ms" "ms_Environment ms = None"
  shows "\<exists>t1 t2 ms1 ms2. params_edit job t = Inr t1 \<and> params_edit job' t = Inr t2 \<and>
    ts_MultiStage t1 = Some ms1 \<and> ts_MultiStage t2 = Some ms2 \<and>
    mget (nil_map (ms_Environment ms1)) ''SIZE_VARIANT'' = Some ''large'' \<and>
    mget (nil_map (ms_Environment ms2)) ''SIZE_VARIANT'' = Some ''compact''"
  using assms
  by (simp add: params_edit_def env_params_def multistageParamsForPlatform_def MultistageParameters_def on_ms_def
      mkeys_def param_env_def nil_map_def gm.lookup_insert)

text \<open>
  The child configuration of a release that is not the initial one of an upgrade keeps the tag specification of
  the repository beside the releases it is given, although ci-operator documents that the two exclude each other.
\<close>

theorem child_keeps_tag_specification:
  "rc_TagSpecification (child_config host False target) = rc_TagSpecification target \<and>
   rc_TagSpecification (child_config host True target) = None \<and> rc_Releases (child_config host False target) \<noteq> []"
  by (simp add: child_config_def Let_def integration_releases_def)

end
