(* ===== verification/GcpNames.thy ===== *)
theory GcpNames
  imports GoTime
begin

text \<open>
  The text encodings of \<open>pkg/manager/gcp_access.go\<close>: service account names that carry the user name,
  IAM members, and the expiry inside an IAM condition.
\<close>

section \<open>User names in service account names\<close>

definition GCPProjectID :: string where
  "GCPProjectID = ''openshift-crt-ephemeral-access''"

definition escape_username :: "string \<Rightarrow> string" where
  "escape_username username =
     replace_char CHR ''.'' ''-dot-'' (replace_char CHR ''-'' ''-dash-'' (to_lower username))"

definition sanitizeUsernameReversible :: "string \<Rightarrow> string" where
  "sanitizeUsernameReversible email =
     (case split_char CHR ''@'' email of
        [username, domain] \<Rightarrow> escape_username username
      | _ \<Rightarrow> escape_username email)"

definition unsanitizeUsername :: "string \<Rightarrow> string" where
  "unsanitizeUsername sanitized =
     replace_all ''-dash-'' ''-'' (replace_all ''-dot-'' ''.'' sanitized) @ ''@redhat.com''"

definition maxUsernameLength :: nat where
  "maxUsernameLength = 30 - 11"

definition needsDisplayNameFallback :: "string \<Rightarrow> bool" where
  "needsDisplayNameFallback email \<longleftrightarrow> length (sanitizeUsernameReversible email) > maxUsernameLength"

text \<open>The account identifier of \<open>createServiceAccount\<close>.\<close>

definition account_id :: "string \<Rightarrow> int \<Rightarrow> string" where
  "account_id email timestamp =
     (let sanitized = sanitizeUsernameReversible email;
          name = (if length sanitized > maxUsernameLength
                  then take maxUsernameLength
                    (to_lower (replace_char CHR ''.'' ''-'' (replace_char CHR ''@'' ''-'' email)))
                  else sanitized)
      in name @ ''-'' @ show_int timestamp)"

definition extractUserEmailFromServiceAccount :: "string \<Rightarrow> string" where
  "extractUserEmailFromServiceAccount serviceAccountEmail =
     (case split_char CHR ''@'' serviceAccountEmail of
        [accountID, _] \<Rightarrow>
          if length accountID < 11 then []
          else (case last_index accountID CHR ''-'' of
                  None \<Rightarrow> []
                | Some i \<Rightarrow>
                    let timestampPart = drop (Suc i) accountID in
                    if length timestampPart \<noteq> 10 \<or> \<not> list_all is_digit timestampPart then []
                    else unsanitizeUsername (take i accountID))
      | _ \<Rightarrow> [])"

definition extractServiceAccountEmail :: "string \<Rightarrow> string" where
  "extractServiceAccountEmail member =
     (case cut_prefix member ''serviceAccount:'' of Some r \<Rightarrow> r | None \<Rightarrow> [])"

definition extractEmailFromMember :: "string \<Rightarrow> string" where
  "extractEmailFromMember member =
     (if length member > 5 \<and> take 5 member = ''user:'' then drop 5 member else [])"

section \<open>Expiry conditions\<close>

record Expr =
  ex_Title :: string
  ex_Description :: string
  ex_Expression :: string

text \<open>\<open>timestampRegex\<close>, the pattern \<open>timestamp\('([^']+)'\)\<close>, searched from the left.\<close>

definition quote :: char where "quote = CHR 0x27"

definition timestamp_at :: "string \<Rightarrow> string option" where
  "timestamp_at s =
     (case cut_prefix s (''timestamp('' @ [quote]) of
        None \<Rightarrow> None
      | Some r \<Rightarrow>
          let text = takeWhile (\<lambda>c. c \<noteq> quote) r in
          if text \<noteq> [] \<and> has_prefix (drop (length text) r) ([quote] @ '')'') then Some text else None)"

fun find_timestamp :: "string \<Rightarrow> string option" where
  "find_timestamp [] = None"
| "find_timestamp (c # s) = (case timestamp_at (c # s) of Some t \<Rightarrow> Some t | None \<Rightarrow> find_timestamp s)"

definition parseExpirationFromCondition :: "Expr option \<Rightarrow> gotime option" where
  "parseExpirationFromCondition condition =
     (case condition of
        None \<Rightarrow> None
      | Some e \<Rightarrow>
          if ex_Expression e = [] then None
          else (case find_timestamp (ex_Expression e) of
                  None \<Rightarrow> None
                | Some t \<Rightarrow> parse_rfc3339 t))"

text \<open>The condition \<open>GrantAccess\<close> writes.\<close>

definition access_condition :: "gotime \<Rightarrow> string \<Rightarrow> Expr" where
  "access_condition expiresAt justification =
     \<lparr>ex_Title = ''Temp Access'',
      ex_Description = ''Access expires on '' @ rfc3339 expiresAt @ ''. Justification: '' @ justification,
      ex_Expression = ''request.time < timestamp('' @ [quote] @ rfc3339 expiresAt @ [quote] @ '')''\<rparr>"

section \<open>Round trips\<close>

text \<open>The names whose encoding is reversible: lower case, no \<open>@\<close>, and no part \<open>dot\<close> after a dash.\<close>

definition reversible_name :: "string \<Rightarrow> bool" where
  "reversible_name u \<longleftrightarrow> to_lower u = u \<and> CHR ''@'' \<notin> set u \<and> \<not> contains u ''-dot-'' \<and> \<not> contains u ''-dot.''"

definition escape_char :: "char \<Rightarrow> string" where
  "escape_char c = (if c = CHR ''-'' then ''-dash-'' else if c = CHR ''.'' then ''-dot-'' else [c])"

lemma escape_char_simps [simp]:
  "escape_char CHR ''-'' = ''-dash-''" "escape_char CHR ''.'' = ''-dot-''"
  "c \<noteq> CHR ''-'' \<Longrightarrow> c \<noteq> CHR ''.'' \<Longrightarrow> escape_char c = [c]"
  by (simp_all add: escape_char_def)

lemma escape_username_eq: "to_lower u = u \<Longrightarrow> escape_username u = concat (map escape_char u)"
proof -
  have "replace_char CHR ''.'' ''-dot-'' (replace_char CHR ''-'' ''-dash-'' v) = concat (map escape_char v)" for v
    by (induction v) (auto simp: replace_char_append escape_char_def)
  then show "to_lower u = u \<Longrightarrow> escape_username u = concat (map escape_char u)" by (simp add: escape_username_def)
qed

lemma contains_Cons: "\<not> contains (c # u) p \<Longrightarrow> \<not> contains u p"
  by (auto simp: contains_iff) (metis append_Cons)

lemma escape_no_dot:
  assumes "\<not> contains (CHR ''-'' # u) ''-dot-''" "\<not> contains (CHR ''-'' # u) ''-dot.''"
  shows "cut_prefix (CHR ''-'' # concat (map escape_char u)) ''-dot-'' = None"
proof (rule ccontr)
  assume "cut_prefix (CHR ''-'' # concat (map escape_char u)) ''-dot-'' \<noteq> None"
  then obtain r where r: "concat (map escape_char u) = ''dot-'' @ r" by (auto simp: cut_prefix_iff)
  have step: "\<exists>v. u' = c # v \<and> concat (map escape_char v) = w"
    if "concat (map escape_char u') = c # w" "c \<noteq> CHR ''-''" for u' c w
    using that by (cases u') (auto simp: escape_char_def split: if_splits)
  obtain u1 where u1: "u = CHR ''d'' # u1" "concat (map escape_char u1) = ''ot-'' @ r" using step [of u] r by auto
  obtain u2 where u2: "u1 = CHR ''o'' # u2" "concat (map escape_char u2) = ''t-'' @ r" using step [of u1] u1 by auto
  obtain u3 where u3: "u2 = CHR ''t'' # u3" "concat (map escape_char u3) = ''-'' @ r" using step [of u2] u2 by auto
  obtain c v where c: "u3 = c # v" using u3(2) by (cases u3) auto
  with u3(2) have "c = CHR ''-'' \<or> c = CHR ''.''" by (auto simp: escape_char_def split: if_splits)
  then have "CHR ''-'' # u = [] @ ''-dot-'' @ v \<or> CHR ''-'' # u = [] @ ''-dot.'' @ v" using u1 u2 u3 c by auto
  then show False using assms unfolding contains_iff by blast
qed

lemma decode_dots:
  "\<not> contains u ''-dot-'' \<Longrightarrow> \<not> contains u ''-dot.'' \<Longrightarrow>
     replace_all ''-dot-'' ''.'' (concat (map escape_char u)) =
       concat (map (\<lambda>c. if c = CHR ''-'' then ''-dash-'' else [c]) u)"
proof (induction u)
  case (Cons c u)
  note ih = Cons.IH [OF contains_Cons [OF Cons.prems(1)] contains_Cons [OF Cons.prems(2)]]
  consider "c = CHR ''-''" | "c = CHR ''.''" | "c \<noteq> CHR ''-''" "c \<noteq> CHR ''.''" by blast
  then show ?case
  proof cases
    case 1
    then show ?thesis using ih escape_no_dot [of u] Cons.prems by simp
  next
    case 2
    then show ?thesis using ih replace_all_hit [of "''-dot-''" "''.''" "concat (map escape_char u)"] by simp
  next
    case 3
    then show ?thesis using ih by simp
  qed
qed simp

lemma decode_dashes:
  "replace_all ''-dash-'' ''-'' (concat (map (\<lambda>c. if c = CHR ''-'' then ''-dash-'' else [c]) u)) = u"
proof (induction u)
  case (Cons c u)
  then show ?case
    using replace_all_hit [of "''-dash-''" "''-''" "concat (map (\<lambda>c. if c = CHR ''-'' then ''-dash-'' else [c]) u)"]
    by (cases "c = CHR ''-''") simp_all
qed simp

lemma unsanitize_escape: "reversible_name u \<Longrightarrow> unsanitizeUsername (escape_username u) = u @ ''@redhat.com''"
  by (simp add: unsanitizeUsername_def escape_username_eq reversible_name_def decode_dots decode_dashes)

lemma find_timestamp_skip: "timestamp_at (c # s) = None \<Longrightarrow> find_timestamp (c # s) = find_timestamp s"
  by simp

end
