(* ===== verification/GcpAccess.thy ===== *)
theory GcpAccess
  imports GcpNames
begin

text \<open>
  \<open>GCPAccessManager\<close> of \<open>pkg/manager/gcp_access.go\<close>: temporary access to a Google Cloud project through
  a service account per user and a conditional IAM binding. The state has the manager's cache and
  what the manager changes on Google's side: the bindings of the project, the service accounts with
  their display names, and the audit log. What the remote calls answer is the record \<open>gcp_api\<close>.
\<close>

section \<open>Data\<close>

definition GCPIAMRole :: string where
  "GCPIAMRole = ''projects/openshift-crt-ephemeral-access/roles/chat_bot_user''"

definition GCPAccessDuration :: duration where
  "GCPAccessDuration = 7 * 24 * hour"

record UserAccessGrant =
  ug_Email :: string
  ug_GrantedAt :: gotime
  ug_ExpiresAt :: gotime
  ug_RequestedBy :: string
  ug_Justification :: string
  ug_ServiceAccountEmail :: string

record AccessGrantLogEntry =
  le_Timestamp :: gotime
  le_Command :: string
  le_UserEmail :: string
  le_SlackUserID :: string
  le_Justification :: string
  le_Resource :: string
  le_ProjectID :: string
  le_ExpiresAt :: gotime
  le_ServiceAccountEmail :: string

record Binding =
  bi_Role :: string
  bi_Members :: "string list"
  bi_Condition :: "Expr option"

record gcp =
  gc_enabled :: bool
  gc_crm :: bool
  gc_dryRun :: bool
  gc_bqEnabled :: bool
  gc_cache :: "(string, UserAccessGrant) gomap"
  gc_bindings :: "Binding list"
  gc_version :: nat
  gc_accounts :: "(string, string) gomap"
  gc_log :: "AccessGrantLogEntry list"

datatype key_reply = KeyData string | KeyNotFound | KeyError string

datatype delete_reply = DeleteOk | DeleteNotFound | DeleteError string

text \<open>
  \<open>ga_now\<close> and \<open>ga_unix\<close> are the clock readings of one call; \<open>ga_create\<close> answers the creation of an
  account with its address, \<open>ga_key\<close> the attempts to create a key, \<open>ga_get\<close>, \<open>ga_set\<close> and \<open>ga_put\<close> are the
  errors of reading and writing the policy and of the audit log, \<open>ga_account\<close> is the display name
  of an account.
\<close>

record gcp_api =
  ga_now :: gotime
  ga_unix :: int
  ga_create :: "string \<Rightarrow> (string, string) result"
  ga_key :: "nat \<Rightarrow> key_reply"
  ga_delete :: "string \<Rightarrow> delete_reply"
  ga_get :: "string option"
  ga_set :: "string option"
  ga_put :: "string option"
  ga_account :: "string \<Rightarrow> string option"

datatype gcp_error =
    GcpDisabled | GcpNotInitialized
  | ParseCredentials string | CreateClient string
  | CreateAccount string | CreateKey string | KeyAttempts | DecodeKey
  | RegenerateKey gcp_error | GenerateKey gcp_error
  | GetPolicy string | SetPolicy string
  | CheckAccess gcp_error | GrantFailed gcp_error | RevokeFailed gcp_error

section \<open>Construction\<close>

text \<open>\<open>jwt\<close>, \<open>crm\<close>, \<open>iam\<close> and \<open>bq\<close> are the errors of parsing the credentials and creating the clients.\<close>

definition NewGCPAccessManager :: "string \<Rightarrow> bool \<Rightarrow> string option \<Rightarrow> string option \<Rightarrow> string option \<Rightarrow> string option \<Rightarrow>
    Binding list \<Rightarrow> (gcp_error, gcp) result" where
  "NewGCPAccessManager serviceAccountJSON dryRun jwt crm iam bq bindings =
     (let g = \<lparr>gc_enabled = False, gc_crm = False, gc_dryRun = dryRun, gc_bqEnabled = False, gc_cache = [],
               gc_bindings = bindings, gc_version = 1, gc_accounts = [], gc_log = []\<rparr> in
      if serviceAccountJSON = [] then Inr g
      else (case jwt of Some e \<Rightarrow> Inl (ParseCredentials e)
        | None \<Rightarrow> (case crm of Some e \<Rightarrow> Inl (CreateClient e)
        | None \<Rightarrow> (case iam of Some e \<Rightarrow> Inl (CreateClient e)
        | None \<Rightarrow> Inr (g\<lparr>gc_crm := True, gc_enabled := True, gc_bqEnabled := (bq = None)\<rparr>)))))"

definition IsEnabled :: "gcp \<Rightarrow> bool" where
  "IsEnabled g = gc_enabled g"

section \<open>Service accounts and keys\<close>

definition createServiceAccount :: "gcp_api \<Rightarrow> string \<Rightarrow> gcp \<Rightarrow> gcp \<times> (gcp_error, string) result" where
  "createServiceAccount api email g =
     (case ga_create api (account_id email (ga_unix api)) of
        Inl e \<Rightarrow> (g, Inl (CreateAccount e))
      | Inr sa \<Rightarrow> (g\<lparr>gc_accounts := mput sa email (gc_accounts g)\<rparr>, Inr sa))"

text \<open>The backoff of one attempt and the retry loop; it also counts the time spent sleeping.\<close>

definition key_delay :: "nat \<Rightarrow> duration" where
  "key_delay attempt = min (second * 2 ^ attempt) (16 * second)"

definition maxRetries :: nat where
  "maxRetries = 10"

function key_loop :: "(nat \<Rightarrow> key_reply) \<Rightarrow> nat \<Rightarrow> duration \<Rightarrow> (gcp_error, string) result \<times> duration" where
  "key_loop reply attempt slept =
     (if attempt < maxRetries
      then (case reply attempt of
              KeyData d \<Rightarrow> (Inr d, slept)
            | KeyNotFound \<Rightarrow> key_loop reply (Suc attempt) (slept + key_delay attempt)
            | KeyError e \<Rightarrow> (Inl (CreateKey e), slept))
      else (Inl KeyAttempts, slept))"
  by pat_completeness auto
termination by (relation "measure (\<lambda>(_, attempt, _). maxRetries - attempt)") auto

declare key_loop.simps [simp del]

text \<open>\<open>base64.StdEncoding\<close>, which skips line ends.\<close>

definition b64_val :: "char \<Rightarrow> nat option" where
  "b64_val c =
     (let n = of_char c in
      if 65 \<le> n \<and> n \<le> 90 then Some (n - 65)
      else if 97 \<le> n \<and> n \<le> 122 then Some (n - 71)
      else if 48 \<le> n \<and> n \<le> 57 then Some (n + 4)
      else if c = CHR ''+'' then Some 62
      else if c = CHR ''/'' then Some 63 else None)"

fun b64_quad :: "nat option \<Rightarrow> nat option \<Rightarrow> nat option \<Rightarrow> nat option \<Rightarrow> nat option" where
  "b64_quad (Some a) (Some b) (Some c) (Some d) = Some (((a * 64 + b) * 64 + c) * 64 + d)"
| "b64_quad _ _ _ _ = None"

fun b64_decode :: "string \<Rightarrow> string option" where
  "b64_decode [] = Some []"
| "b64_decode (a # b # c # d # r) =
     (if c = CHR ''='' then
        (if d = CHR ''='' \<and> r = [] then map_option (\<lambda>n. [char_of (n div 65536)])
           (b64_quad (b64_val a) (b64_val b) (Some 0) (Some 0)) else None)
      else if d = CHR ''='' then
        (if r = [] then map_option (\<lambda>n. [char_of (n div 65536), char_of (n div 256 mod 256)])
           (b64_quad (b64_val a) (b64_val b) (b64_val c) (Some 0)) else None)
      else (case b64_quad (b64_val a) (b64_val b) (b64_val c) (b64_val d) of
              None \<Rightarrow> None
            | Some n \<Rightarrow> map_option (\<lambda>t. char_of (n div 65536) # char_of (n div 256 mod 256) # char_of (n mod 256) # t)
                          (b64_decode r)))"
| "b64_decode _ = None"

definition DecodeString :: "string \<Rightarrow> string option" where
  "DecodeString s = b64_decode (filter (\<lambda>c. c \<noteq> CHR 0x0A \<and> c \<noteq> CHR 0x0D) s)"

definition createServiceAccountKey :: "gcp_api \<Rightarrow> (gcp_error, string) result" where
  "createServiceAccountKey api =
     (case fst (key_loop (ga_key api) 0 0) of
        Inl e \<Rightarrow> Inl e
      | Inr d \<Rightarrow> (case DecodeString d of None \<Rightarrow> Inl DecodeKey | Some k \<Rightarrow> Inr k))"

definition deleteServiceAccount :: "gcp_api \<Rightarrow> string \<Rightarrow> gcp \<Rightarrow> gcp" where
  "deleteServiceAccount api sa g =
     (case ga_delete api sa of
        DeleteError _ \<Rightarrow> g
      | _ \<Rightarrow> g\<lparr>gc_accounts := mdel sa (gc_accounts g)\<rparr>)"

definition logAccessGrant :: "gcp_api \<Rightarrow> string \<Rightarrow> string \<Rightarrow> string \<Rightarrow> string \<Rightarrow> string \<Rightarrow> gotime \<Rightarrow> gcp \<Rightarrow> gcp" where
  "logAccessGrant api email slackUserID justification resource sa expiresAt g =
     (if \<not> gc_bqEnabled g then g
      else (case ga_put api of
              Some _ \<Rightarrow> g
            | None \<Rightarrow> g\<lparr>gc_log := gc_log g @ [\<lparr>le_Timestamp = ga_now api, le_Command = ''request'', le_UserEmail = email,
                  le_SlackUserID = slackUserID, le_Justification = justification, le_Resource = resource,
                  le_ProjectID = GCPProjectID, le_ExpiresAt = expiresAt, le_ServiceAccountEmail = sa\<rparr>]\<rparr>))"

section \<open>Granting\<close>

definition dry_run_key :: string where
  "dry_run_key = ''{\"type\":\"service_account\",\"project_id\":\"dry-run\"}''"

definition access_binding :: "string \<Rightarrow> gotime \<Rightarrow> string \<Rightarrow> Binding" where
  "access_binding sa expiresAt justification =
     \<lparr>bi_Role = GCPIAMRole, bi_Members = [''serviceAccount:'' @ sa],
      bi_Condition = Some (access_condition expiresAt justification)\<rparr>"

text \<open>The part of \<open>GrantAccess\<close> that creates the account, the key and the binding, with its rollbacks.\<close>

definition provision_access :: "gcp_api \<Rightarrow> string \<Rightarrow> string \<Rightarrow> gotime \<Rightarrow> gcp \<Rightarrow> gcp \<times> (gcp_error, string \<times> string) result" where
  "provision_access api email justification expiresAt g =
     (case createServiceAccount api email g of
        (g1, Inl e) \<Rightarrow> (g1, Inl e)
      | (g1, Inr sa) \<Rightarrow>
          (case createServiceAccountKey api of
             Inl e \<Rightarrow> (deleteServiceAccount api sa g1, Inl (GenerateKey e))
           | Inr keyJSON \<Rightarrow>
               (case ga_get api of
                  Some e \<Rightarrow> (deleteServiceAccount api sa g1, Inl (GetPolicy e))
                | None \<Rightarrow>
                    (case ga_set api of
                       Some e \<Rightarrow> (deleteServiceAccount api sa g1, Inl (SetPolicy e))
                     | None \<Rightarrow> (g1\<lparr>gc_bindings := gc_bindings g1 @ [access_binding sa expiresAt justification], gc_version := 3\<rparr>,
                               Inr (sa, keyJSON))))))"

definition remember_grant :: "gcp_api \<Rightarrow> string \<Rightarrow> string \<Rightarrow> string \<Rightarrow> string \<Rightarrow> string \<Rightarrow> gotime \<Rightarrow> gcp \<Rightarrow> gcp" where
  "remember_grant api email requestedBy justification resource sa expiresAt g =
     (let g1 = logAccessGrant api email requestedBy justification resource sa expiresAt g in
      g1\<lparr>gc_cache := mput email \<lparr>ug_Email = email, ug_GrantedAt = ga_now api, ug_ExpiresAt = expiresAt,
           ug_RequestedBy = requestedBy, ug_Justification = justification, ug_ServiceAccountEmail = sa\<rparr> (gc_cache g1)\<rparr>)"

definition GrantAccess :: "gcp_api \<Rightarrow> string \<Rightarrow> string \<Rightarrow> string \<Rightarrow> string \<Rightarrow> gcp \<Rightarrow>
    gcp \<times> (gcp_error, string \<times> gotime) result" where
  "GrantAccess api email requestedBy justification resource g =
     (if \<not> gc_enabled g then (g, Inl GcpDisabled)
      else
        let fresh = (let expiresAt = ga_now api + GCPAccessDuration in
              if gc_dryRun g
              then (remember_grant api email requestedBy justification resource
                      (''dry-run-'' @ replace_char CHR ''@'' ''-at-'' email @ ''@'' @ GCPProjectID @ ''.iam.gserviceaccount.com'')
                      expiresAt g, Inr (dry_run_key, expiresAt))
              else (case provision_access api email justification expiresAt g of
                      (g1, Inl e) \<Rightarrow> (g1, Inl e)
                    | (g1, Inr (sa, keyJSON)) \<Rightarrow>
                        (remember_grant api email requestedBy justification resource sa expiresAt g1,
                         Inr (keyJSON, expiresAt))))
        in (case mget (gc_cache g) email of
              Some grant \<Rightarrow>
                if ga_now api < ug_ExpiresAt grant
                then if gc_dryRun g then (g, Inr (dry_run_key, ug_ExpiresAt grant))
                     else (case createServiceAccountKey api of
                             Inl e \<Rightarrow> (g, Inl (RegenerateKey e))
                           | Inr k \<Rightarrow> (g, Inr (k, ug_ExpiresAt grant)))
                else fresh
            | None \<Rightarrow> fresh))"

section \<open>Finding grants\<close>

definition managed :: "Binding \<Rightarrow> bool" where
  "managed b \<longleftrightarrow> bi_Role b = GCPIAMRole \<and>
     (case bi_Condition b of None \<Rightarrow> False | Some c \<Rightarrow> ex_Title c = ''Temp Access'')"

definition grant_of_policy :: "string \<Rightarrow> string \<Rightarrow> gotime \<Rightarrow> UserAccessGrant" where
  "grant_of_policy email sa expiresAt =
     \<lparr>ug_Email = email, ug_GrantedAt = expiresAt - GCPAccessDuration, ug_ExpiresAt = expiresAt,
      ug_RequestedBy = [], ug_Justification = [], ug_ServiceAccountEmail = sa\<rparr>"

definition member_grant :: "gcp_api \<Rightarrow> string \<Rightarrow> Binding \<Rightarrow> string \<Rightarrow> UserAccessGrant option" where
  "member_grant api email b member =
     (let sa = extractServiceAccountEmail member;
          found = map_option (grant_of_policy email sa) (parseExpirationFromCondition (bi_Condition b)) in
      if sa = [] then None
      else if extractUserEmailFromServiceAccount sa = email then found
      else if needsDisplayNameFallback email \<and> ga_account api sa = Some email then found
      else None)"

fun first_grant :: "(Binding \<times> string \<Rightarrow> UserAccessGrant option) \<Rightarrow> (Binding \<times> string) list \<Rightarrow> UserAccessGrant option" where
  "first_grant f [] = None"
| "first_grant f (x # xs) = (case f x of Some u \<Rightarrow> Some u | None \<Rightarrow> first_grant f xs)"

definition policy_members :: "Binding list \<Rightarrow> (Binding \<times> string) list" where
  "policy_members bs = concat (map (\<lambda>b. map (Pair b) (bi_Members b)) (filter managed bs))"

definition getUserGrantFromIAM :: "gcp_api \<Rightarrow> string \<Rightarrow> gcp \<Rightarrow> (gcp_error, UserAccessGrant option) result" where
  "getUserGrantFromIAM api email g =
     (if \<not> gc_crm g then Inr None
      else (case ga_get api of
              Some e \<Rightarrow> Inl (GetPolicy e)
            | None \<Rightarrow> Inr (first_grant (\<lambda>(b, member). member_grant api email b member) (policy_members (gc_bindings g)))))"

definition GetUserGrant :: "gcp_api \<Rightarrow> string \<Rightarrow> gcp \<Rightarrow> gcp \<times> (gcp_error, UserAccessGrant option) result" where
  "GetUserGrant api email g =
     (if \<not> gc_enabled g then (g, Inl GcpDisabled)
      else (case mget (gc_cache g) email of
              Some grant \<Rightarrow> (g, Inr (Some grant))
            | None \<Rightarrow>
                (case getUserGrantFromIAM api email g of
                   Inl e \<Rightarrow> (g, Inl e)
                 | Inr None \<Rightarrow> (g, Inr None)
                 | Inr (Some grant) \<Rightarrow> (g\<lparr>gc_cache := mput email grant (gc_cache g)\<rparr>, Inr (Some grant)))))"

section \<open>Revoking\<close>

definition drop_member :: "string \<Rightarrow> Binding \<Rightarrow> Binding list" where
  "drop_member member b =
     (if managed b \<and> member \<in> set (bi_Members b)
      then let ms = filter (\<lambda>x. x \<noteq> member) (bi_Members b) in
           if ms \<noteq> [] then [b\<lparr>bi_Members := ms\<rparr>] else []
      else [b])"

definition RevokeAccess :: "gcp_api \<Rightarrow> string \<Rightarrow> gcp \<Rightarrow> gcp \<times> gcp_error option" where
  "RevokeAccess api email g =
     (if \<not> gc_enabled g then (g, Some GcpDisabled)
      else
        let cached = (case mget (gc_cache g) email of Some grant \<Rightarrow> ug_ServiceAccountEmail grant | None \<Rightarrow> []);
            (g1, sa) = (if cached \<noteq> [] then (g, cached)
                        else (case getUserGrantFromIAM api email g of
                                Inr (Some grant) \<Rightarrow> (g\<lparr>gc_cache := mput email grant (gc_cache g)\<rparr>, ug_ServiceAccountEmail grant)
                              | _ \<Rightarrow> (g, [])));
            forget = (\<lambda>h. h\<lparr>gc_cache := mdel email (gc_cache h)\<rparr>);
            member = ''serviceAccount:'' @ sa in
        if sa = [] \<or> gc_dryRun g then (forget g1, None)
        else (case ga_get api of
                Some e \<Rightarrow> (g1, Some (GetPolicy e))
              | None \<Rightarrow>
                  let modified = (\<exists>b \<in> set (gc_bindings g1). managed b \<and> member \<in> set (bi_Members b)) in
                  if modified
                  then (case ga_set api of
                          Some e \<Rightarrow> (g1, Some (SetPolicy e))
                        | None \<Rightarrow>
                            (forget (deleteServiceAccount api sa
                               (g1\<lparr>gc_bindings := concat (map (drop_member member) (gc_bindings g1)), gc_version := 3\<rparr>)), None))
                  else (forget (deleteServiceAccount api sa g1), None)))"

section \<open>Cleaning up\<close>

definition expired_binding :: "gotime \<Rightarrow> Binding \<Rightarrow> bool" where
  "expired_binding now b \<longleftrightarrow> managed b \<and>
     (case parseExpirationFromCondition (bi_Condition b) of None \<Rightarrow> False | Some t \<Rightarrow> t < now)"

definition expired_accounts :: "gotime \<Rightarrow> Binding list \<Rightarrow> string list" where
  "expired_accounts now bs =
     filter (\<lambda>sa. sa \<noteq> []) (map extractServiceAccountEmail (concat (map bi_Members (filter (expired_binding now) bs))))"

definition CleanupExpiredAccess :: "gcp_api \<Rightarrow> gcp \<Rightarrow> gcp \<times> gcp_error option" where
  "CleanupExpiredAccess api g =
     (if \<not> gc_enabled g then (g, None)
      else (case ga_get api of
              Some e \<Rightarrow> (g, Some (GetPolicy e))
            | None \<Rightarrow>
                let now = ga_now api;
                    sas = expired_accounts now (gc_bindings g);
                    g1 = g\<lparr>gc_cache := filter (\<lambda>(_, grant). ug_ServiceAccountEmail grant \<notin> set sas) (gc_cache g)\<rparr> in
                if filter (expired_binding now) (gc_bindings g) = [] then (g, None)
                else (case ga_set api of
                        Some e \<Rightarrow> (g1, Some (SetPolicy e))
                      | None \<Rightarrow>
                          (fold (deleteServiceAccount api) sas
                             (g1\<lparr>gc_bindings := filter (\<lambda>b. \<not> expired_binding now b) (gc_bindings g1), gc_version := 3\<rparr>), None))))"

end
