(* ===== verification/GcpProps.thy ===== *)
theory GcpProps
  imports GcpAccess
begin

text \<open>
  Properties of temporary Google Cloud access: a grant can be found again in the IAM policy, revoking
  undoes granting, a failed grant leaves nothing behind, clean-up removes exactly what expired, and the
  retry loop for keys is bounded.
\<close>

section \<open>The retry loop\<close>

lemma key_loop_result:
  "attempt \<le> maxRetries \<Longrightarrow>
   fst (key_loop reply attempt slept) = Inr d \<longleftrightarrow>
     (\<exists>n. attempt \<le> n \<and> n < maxRetries \<and> reply n = KeyData d \<and> (\<forall>i. attempt \<le> i \<and> i < n \<longrightarrow> reply i = KeyNotFound))"
proof (induction reply attempt slept rule: key_loop.induct)
  case (1 reply attempt slept)
  show ?case
  proof (cases "attempt < maxRetries")
    case True
    have split: "(\<exists>n. attempt \<le> n \<and> n < maxRetries \<and> reply n = KeyData d \<and> (\<forall>i. attempt \<le> i \<and> i < n \<longrightarrow> reply i = KeyNotFound)) \<longleftrightarrow>
      reply attempt = KeyData d \<or> (reply attempt = KeyNotFound \<and>
       (\<exists>n. Suc attempt \<le> n \<and> n < maxRetries \<and> reply n = KeyData d \<and> (\<forall>i. Suc attempt \<le> i \<and> i < n \<longrightarrow> reply i = KeyNotFound)))"
      using True by (auto simp: Suc_le_eq) (metis le_neq_implies_less less_irrefl_nat le_eq_less_or_eq)+
    show ?thesis
      using 1 True unfolding split by (cases "reply attempt") (simp_all add: key_loop.simps [of reply attempt])
  qed (use 1 in \<open>auto simp: key_loop.simps [of reply maxRetries]\<close>)
qed

lemma key_loop_slept:
  "attempt \<le> maxRetries \<Longrightarrow>
   snd (key_loop reply attempt slept) \<le> slept + sum key_delay {attempt ..< maxRetries}"
proof (induction reply attempt slept rule: key_loop.induct)
  case (1 reply attempt slept)
  have pos: "0 \<le> sum key_delay {a ..< maxRetries}" for a
    by (rule sum_nonneg) (simp add: key_delay_def second_def)
  show ?case
  proof (cases "attempt < maxRetries")
    case True
    then have "sum key_delay {attempt ..< maxRetries} = key_delay attempt + sum key_delay {Suc attempt ..< maxRetries}"
      by (rule sum.atLeast_Suc_lessThan)
    then show ?thesis
      using 1 True pos [of attempt] by (cases "reply attempt") (simp_all add: key_loop.simps [of reply attempt])
  qed (use 1 in \<open>simp add: key_loop.simps [of reply maxRetries]\<close>)
qed

text \<open>
  Creating a key for a new service account ends after at most ten attempts and 111 seconds of
  waiting, and yields a key exactly when one of the ten attempts does and all before it found that the
  account does not exist yet.
\<close>

theorem key_retry_bounded:
  "snd (key_loop reply 0 0) \<le> 111 * second \<and>
   (fst (key_loop reply 0 0) = Inr d \<longleftrightarrow>
     (\<exists>n. n < 10 \<and> reply n = KeyData d \<and> (\<forall>i. i < n \<longrightarrow> reply i = KeyNotFound)))"
proof -
  have "sum key_delay {0 ..< maxRetries} = 111 * second"
    by (simp add: maxRetries_def key_delay_def second_def sum.atLeast_Suc_lessThan numeral_eq_Suc)
  then show ?thesis
    using key_loop_slept [of 0 reply 0] key_loop_result [of 0 reply 0 d] by (simp add: maxRetries_def)
qed

theorem key_retry_bounded_witness:
  "fst (key_loop (\<lambda>n. if n < 3 then KeyNotFound else KeyData ''k'') 0 0) = Inr ''k''"
  using key_retry_bounded [of "\<lambda>n. if n < 3 then KeyNotFound else KeyData ''k''" "''k''"]
  by (metis (no_types, lifting) less_irrefl_nat numeral_less_iff semiring_norm(77) semiring_norm(81) less_numeral_simps)


section \<open>Reading a grant back\<close>

lemma length_show_nat: "10 ^ k \<le> n \<Longrightarrow> n < 10 ^ Suc k \<Longrightarrow> length (show_nat n) = Suc k"
proof (induction k arbitrary: n)
  case 0
  then show ?case by (subst show_nat.simps) simp
next
  case (Suc k)
  then have "10 ^ k \<le> n div 10" "n div 10 < 10 ^ Suc k" by (simp_all add: less_eq_div_iff_mult_less_eq div_less_iff_less_mult)
  moreover have "\<not> n < 10" using Suc.prems(1) by (auto simp: not_less intro: order_trans [OF _ Suc.prems(1)])
  ultimately show ?case using Suc.IH by (subst show_nat.simps) simp
qed

lemma quote_digits: "list_all is_digit s \<Longrightarrow> quote \<notin> set s"
  by (auto simp: list_all_iff quote_def is_digit_def)

lemma rfc3339_quote: "quote \<notin> set (rfc3339 t)" and rfc3339_nonempty: "rfc3339 t \<noteq> []"
proof -
  have "quote \<notin> set (pad2 n)" "quote \<notin> set (pad4 n)" for n
    by (rule quote_digits, simp add: pad2_def pad4_def)+
  then show "quote \<notin> set (rfc3339 t)"
    by (auto simp: rfc3339_def date_text_def Let_def quote_def split: prod.splits)
  show "rfc3339 t \<noteq> []" by (simp add: rfc3339_def Let_def)
qed

lemma find_timestamp_condition:
  assumes "quote \<notin> set text" "text \<noteq> []"
  shows "find_timestamp (''request.time < timestamp('' @ [quote] @ text @ [quote] @ '')'') = Some text"
proof -
  have "takeWhile (\<lambda>c. c \<noteq> quote) text = text" using assms(1) by (auto simp: takeWhile_eq_all_conv)
  then have "timestamp_at (''timestamp('' @ [quote] @ text @ [quote] @ '')'') = Some text"
    using assms by (auto simp: timestamp_at_def takeWhile_tail has_prefix_def Let_def)
  then show ?thesis by (simp add: timestamp_at_def)
qed

lemma parse_access_condition:
  assumes "0 \<le> t" "secs_of t div 86400 < days_through 9999"
  shows "parseExpirationFromCondition (Some (access_condition t j)) = Some (t - t mod second)"
  using find_timestamp_condition [OF rfc3339_quote rfc3339_nonempty, of t] parse_rfc3339_rfc3339 [OF assms]
  by (simp add: parseExpirationFromCondition_def access_condition_def)

lemma extract_account:
  assumes "reversible_name u" "\<not> needsDisplayNameFallback (u @ ''@redhat.com'')" "10 ^ 9 \<le> ts" "ts < 10 ^ 10"
    and "CHR ''@'' \<notin> set host"
  shows "extractUserEmailFromServiceAccount (account_id (u @ ''@redhat.com'') ts @ ''@'' @ host) = u @ ''@redhat.com''"
proof -
  have at: "CHR ''@'' \<notin> set u" using assms(1) by (simp add: reversible_name_def)
  have sp: "split_char CHR ''@'' (u @ ''@redhat.com'') = [u, ''redhat.com'']"
    using split_char_append [OF at, of "''redhat.com''"] by simp
  then have san: "sanitizeUsernameReversible (u @ ''@redhat.com'') = escape_username u"
    by (simp add: sanitizeUsernameReversible_def)
  have id: "account_id (u @ ''@redhat.com'') ts = escape_username u @ ''-'' @ show_nat (nat ts)"
    using assms(2,3) san by (simp add: account_id_def needsDisplayNameFallback_def Let_def show_int_def)
  have esc: "CHR ''@'' \<notin> set (escape_username u)"
    using at assms(1) by (auto simp: escape_username_eq reversible_name_def escape_char_def split: if_splits)
  have dg: "list_all is_digit (show_nat (nat ts))" by (rule show_nat_digits)
  then have nd: "CHR ''@'' \<notin> set (show_nat (nat ts))" "CHR ''-'' \<notin> set (show_nat (nat ts))"
    by (auto simp: list_all_iff is_digit_def)
  have len: "length (show_nat (nat ts)) = 10"
    using length_show_nat [of 9 "nat ts"] assms(3,4) by (simp add: nat_le_iff nat_less_iff le_nat_iff)
  have "split_char CHR ''@'' (account_id (u @ ''@redhat.com'') ts @ ''@'' @ host) =
      [account_id (u @ ''@redhat.com'') ts, host]"
    using split_char_append [of "CHR ''@''" "account_id (u @ ''@redhat.com'') ts" host] split_char_id [OF assms(5)]
      esc nd(1) by (simp add: id)
  then show ?thesis
    using last_index_append [OF nd(2), of "escape_username u"] len dg unsanitize_escape [OF assms(1)]
    by (simp add: extractUserEmailFromServiceAccount_def id Let_def)
qed


definition account_host :: string where
  "account_host = GCPProjectID @ ''.iam.gserviceaccount.com''"

lemma account_host_at: "CHR ''@'' \<notin> set account_host"
  by (simp add: account_host_def GCPProjectID_def)

lemma first_grant_append:
  "first_grant f (xs @ ys) = (case first_grant f xs of Some u \<Rightarrow> Some u | None \<Rightarrow> first_grant f ys)"
  by (induction xs) (auto split: option.splits)

lemma policy_members_append: "policy_members (bs @ cs) = policy_members bs @ policy_members cs"
  by (simp add: policy_members_def)

lemma managed_access_binding: "managed (access_binding sa t j)"
  by (simp add: managed_def access_binding_def access_condition_def)

lemma extract_member: "extractServiceAccountEmail (''serviceAccount:'' @ sa) = sa"
  using cut_prefix_append [of "''serviceAccount:''" sa] by (simp add: extractServiceAccountEmail_def)

text \<open>A grant that was not in the cache and succeeded, outside a dry run.\<close>

lemma grant_provisions:
  assumes "GrantAccess api email by just res g = (g', Inr (key, t))" "mget (gc_cache g) email = None" "\<not> gc_dryRun g"
  obtains sa where "ga_create api (account_id email (ga_unix api)) = Inr sa" "gc_enabled g"
    "t = ga_now api + GCPAccessDuration" "createServiceAccountKey api = Inr key"
    "gc_bindings g' = gc_bindings g @ [access_binding sa t just]" "gc_accounts g' = mput sa email (gc_accounts g)"
    "\<exists>u. gc_cache g' = mput email u (gc_cache g) \<and> ug_ServiceAccountEmail u = sa \<and> ug_ExpiresAt u = t"
    "gc_enabled g'" "\<not> gc_dryRun g'" "gc_crm g' = gc_crm g"
proof -
  have en: "gc_enabled g" using assms by (cases "gc_enabled g") (simp_all add: GrantAccess_def)
  obtain g1 sa where p: "provision_access api email just (ga_now api + GCPAccessDuration) g = (g1, Inr (sa, key))"
      "t = ga_now api + GCPAccessDuration" "g' = remember_grant api email by just res sa t g1"
    using assms en by (auto simp: GrantAccess_def Let_def split: prod.splits sum.splits)
  have c: "ga_create api (account_id email (ga_unix api)) = Inr sa" "createServiceAccountKey api = Inr key"
      "g1 = g\<lparr>gc_accounts := mput sa email (gc_accounts g), gc_bindings := gc_bindings g @ [access_binding sa t just], gc_version := 3\<rparr>"
    using p(1,2) by (auto simp: provision_access_def createServiceAccount_def split: sum.splits option.splits prod.splits)
  show ?thesis
  proof (rule that [OF c(1) en p(2) c(2)])
    show "gc_bindings g' = gc_bindings g @ [access_binding sa t just]" "gc_accounts g' = mput sa email (gc_accounts g)"
      "gc_enabled g'" "\<not> gc_dryRun g'" "gc_crm g' = gc_crm g"
      "\<exists>u. gc_cache g' = mput email u (gc_cache g) \<and> ug_ServiceAccountEmail u = sa \<and> ug_ExpiresAt u = t"
      using p(3) c(3) en assms(3) by (auto simp: remember_grant_def logAccessGrant_def Let_def split: option.splits)
  qed
qed



definition sample_api :: gcp_api where
  "sample_api = \<lparr>ga_now = 63900000000 * second, ga_unix = 1764403200, ga_create = (\<lambda>a. Inr (a @ ''@'' @ account_host)),
     ga_key = (\<lambda>_. KeyData []), ga_delete = (\<lambda>_. DeleteOk), ga_get = None, ga_set = None, ga_put = None,
     ga_account = (\<lambda>_. None)\<rparr>"

definition sample_gcp :: gcp where
  "sample_gcp = \<lparr>gc_enabled = True, gc_crm = True, gc_dryRun = False, gc_bqEnabled = False, gc_cache = [],
     gc_bindings = [], gc_version = 1, gc_accounts = [], gc_log = []\<rparr>"

lemma sample_key: "createServiceAccountKey sample_api = Inr []"
proof -
  have "fst (key_loop (ga_key sample_api) 0 0) = Inr []"
    by (simp add: key_loop.simps [of _ 0] sample_api_def maxRetries_def)
  then show ?thesis by (simp add: createServiceAccountKey_def DecodeString_def)
qed

lemma sample_grant:
  "gc_enabled g \<Longrightarrow> \<not> gc_dryRun g \<Longrightarrow> mget (gc_cache g) email = None \<Longrightarrow>
   \<exists>g'. GrantAccess sample_api email by just res g = (g', Inr ([], ga_now sample_api + GCPAccessDuration))"
  using sample_key
  by (simp add: GrantAccess_def provision_access_def createServiceAccount_def sample_api_def Let_def)


section \<open>Revoking and failing\<close>

lemma drop_member_absent: "''serviceAccount:'' @ sa \<notin> set (bi_Members b) \<Longrightarrow> drop_member (''serviceAccount:'' @ sa) b = [b]"
  by (simp add: drop_member_def)

lemma concat_drop_absent:
  "(\<And>b. b \<in> set bs \<Longrightarrow> ''serviceAccount:'' @ sa \<notin> set (bi_Members b)) \<Longrightarrow>
     concat (map (drop_member (''serviceAccount:'' @ sa)) bs) = bs"
  by (induction bs) (auto simp: drop_member_absent simp del: append.simps)

lemma drop_access_binding: "drop_member (''serviceAccount:'' @ sa) (access_binding sa t j) = []"
  by (simp add: drop_member_def managed_access_binding) (simp add: access_binding_def)

text \<open>
  C15: revoking undoes granting. When a grant created a service account that no binding mentions, the
  next revocation for the user restores the bindings of the project, deletes the account and forgets the
  grant.
\<close>

theorem revoke_undoes_grant:
  assumes "GrantAccess api email by just res g = (g', Inr (key, t))"
    and "mget (gc_cache g) email = None" "\<not> gc_dryRun g" "ga_create api (account_id email (ga_unix api)) = Inr sa" "sa \<noteq> []"
    and "\<And>b. b \<in> set (gc_bindings g) \<Longrightarrow> ''serviceAccount:'' @ sa \<notin> set (bi_Members b)" "mget (gc_accounts g) sa = None"
    and "ga_get api' = None" "ga_set api' = None" "ga_delete api' sa = DeleteOk"
  shows "\<exists>g''. RevokeAccess api' email g' = (g'', None) \<and> gc_bindings g'' = gc_bindings g \<and>
    mget (gc_cache g'') = mget (gc_cache g) \<and> mget (gc_accounts g'') = mget (gc_accounts g)"
proof -
  obtain sa' u where "ga_create api (account_id email (ga_unix api)) = Inr sa'" and g': "gc_enabled g'" "\<not> gc_dryRun g'"
      "gc_bindings g' = gc_bindings g @ [access_binding sa' t just]" "gc_accounts g' = mput sa' email (gc_accounts g)"
      "gc_cache g' = mput email u (gc_cache g)" "ug_ServiceAccountEmail u = sa'"
    using grant_provisions [OF assms(1-3)] by metis
  then have sa: "sa' = sa" using assms(4) by simp
  have mem: "\<exists>b \<in> set (gc_bindings g'). managed b \<and> ''serviceAccount:'' @ sa \<in> set (bi_Members b)"
    using g'(3) sa managed_access_binding [of sa t just] by (force simp: access_binding_def)
  have bs: "concat (map (drop_member (''serviceAccount:'' @ sa)) (gc_bindings g')) = gc_bindings g"
    using concat_drop_absent [OF assms(6)] drop_access_binding [of sa t just] g'(3) sa by simp
  have "RevokeAccess api' email g' =
      (g'\<lparr>gc_bindings := gc_bindings g, gc_version := 3, gc_accounts := mdel sa (gc_accounts g'),
          gc_cache := mdel email (gc_cache g')\<rparr>, None)"
    using g' sa assms(5,8-10) mem bs
    by (simp add: RevokeAccess_def Let_def gm.lookup_insert deleteServiceAccount_def del: append.simps append_Cons)
  then show ?thesis
    using g' sa assms(2,7) by (auto simp: gm.lookup_insert gm.lookup_remove fun_eq_iff)
qed


theorem revoke_undoes_grant_witness:
  "\<exists>g' key t g''. GrantAccess sample_api ''a.b@redhat.com'' ''U1'' ''debug'' ''gcp-access'' sample_gcp = (g', Inr (key, t)) \<and>
     RevokeAccess sample_api ''a.b@redhat.com'' g' = (g'', None) \<and> gc_bindings g'' = []"
proof -
  obtain g' where g: "GrantAccess sample_api ''a.b@redhat.com'' ''U1'' ''debug'' ''gcp-access'' sample_gcp =
      (g', Inr ([], ga_now sample_api + GCPAccessDuration))"
    using sample_grant [of sample_gcp "''a.b@redhat.com''" "''U1''" "''debug''" "''gcp-access''"]
    by (auto simp: sample_gcp_def)
  from revoke_undoes_grant [OF g, of "account_id ''a.b@redhat.com'' 1764403200 @ ''@'' @ account_host" sample_api]
  have "\<exists>g''. RevokeAccess sample_api ''a.b@redhat.com'' g' = (g'', None) \<and> gc_bindings g'' = []"
    by (auto simp: sample_gcp_def sample_api_def)
  with g show ?thesis by blast
qed

text \<open>
  A grant that fails leaves nothing behind. Whatever fails, the bindings, the cache and the audit log
  are as before, and when the rollback can delete the account so are the accounts; no key is returned.
\<close>

theorem failed_grant_leaves_nothing:
  assumes "GrantAccess api email by just res g = (g', Inl e)"
    and "\<And>sa. ga_create api (account_id email (ga_unix api)) = Inr sa \<Longrightarrow> mget (gc_accounts g) sa = None \<and> ga_delete api sa = DeleteOk"
  shows "gc_bindings g' = gc_bindings g \<and> gc_cache g' = gc_cache g \<and> gc_log g' = gc_log g \<and>
    mget (gc_accounts g') = mget (gc_accounts g)"
proof -
  consider "g' = g" | t where "provision_access api email just t g = (g', Inl e)"
    using assms(1) by (auto simp: GrantAccess_def Let_def split: if_splits option.splits sum.splits prod.splits)
  then show ?thesis
  proof cases
    case 2
    then consider "g' = g" | sa where "ga_create api (account_id email (ga_unix api)) = Inr sa"
        "g' = deleteServiceAccount api sa (g\<lparr>gc_accounts := mput sa email (gc_accounts g)\<rparr>)"
      by (auto simp: provision_access_def createServiceAccount_def split: sum.splits option.splits prod.splits)
    then show ?thesis
      using assms(2) by cases (auto simp: deleteServiceAccount_def gm.lookup_insert gm.lookup_remove fun_eq_iff)
  qed simp
qed

theorem failed_grant_leaves_nothing_witness:
  "\<exists>g' e. GrantAccess (sample_api\<lparr>ga_set := Some ''conflict''\<rparr>) ''a@redhat.com'' ''U1'' ''debug'' ''gcp-access'' sample_gcp = (g', Inl e) \<and>
     gc_bindings g' = [] \<and> mget (gc_accounts g') = mget []"
proof -
  let ?api = "sample_api\<lparr>ga_set := Some ''conflict''\<rparr>"
  have "createServiceAccountKey ?api = Inr []" using sample_key by (simp add: createServiceAccountKey_def)
  then obtain g' e where g: "GrantAccess ?api ''a@redhat.com'' ''U1'' ''debug'' ''gcp-access'' sample_gcp = (g', Inl e)"
    by (simp add: GrantAccess_def provision_access_def createServiceAccount_def sample_gcp_def sample_api_def Let_def)
  from failed_grant_leaves_nothing [OF g] have "gc_bindings g' = [] \<and> mget (gc_accounts g') = mget []"
    by (simp add: sample_gcp_def sample_api_def)
  with g show ?thesis by blast
qed

section \<open>Cleaning up\<close>

lemma fold_delete_accounts:
  "(\<And>sa. ga_delete api sa = DeleteOk) \<Longrightarrow>
   mget (gc_accounts (fold (deleteServiceAccount api) sas g)) k = (if k \<in> set sas then None else mget (gc_accounts g) k) \<and>
   gc_bindings (fold (deleteServiceAccount api) sas g) = gc_bindings g \<and>
   gc_cache (fold (deleteServiceAccount api) sas g) = gc_cache g"
  by (induction sas arbitrary: g) (simp_all add: deleteServiceAccount_def gm.lookup_remove)

lemma filter_id_iff: "filter p xs = [] \<Longrightarrow> filter (\<lambda>x. \<not> p x) xs = xs"
  by (auto simp: filter_empty_conv filter_id_conv)

text \<open>
  Clean-up removes exactly what expired. Afterwards the bindings are those that had not expired, in
  the same order; an account is gone if and only if a removed binding named it; and no cached grant
  points to a removed account.
\<close>

theorem cleanup_removes_exactly_expired:
  assumes "CleanupExpiredAccess api g = (g', None)" "gc_enabled g" "\<And>sa. ga_delete api sa = DeleteOk"
  shows "gc_bindings g' = filter (\<lambda>b. \<not> expired_binding (ga_now api) b) (gc_bindings g) \<and>
    mget (gc_accounts g') k = (if k \<in> set (expired_accounts (ga_now api) (gc_bindings g)) then None else mget (gc_accounts g) k) \<and>
    (\<forall>(email, grant) \<in> set (gc_cache g'). ug_ServiceAccountEmail grant \<notin> set (expired_accounts (ga_now api) (gc_bindings g)))"
proof (cases "filter (expired_binding (ga_now api)) (gc_bindings g) = []")
  case True
  then have "g' = g" "expired_accounts (ga_now api) (gc_bindings g) = []"
    using assms(1,2) by (auto simp: CleanupExpiredAccess_def expired_accounts_def Let_def split: option.splits)
  with filter_id_iff [OF True] show ?thesis by simp
next
  case False
  then show ?thesis
    using assms(1,2) fold_delete_accounts [OF assms(3)]
    by (auto simp: CleanupExpiredAccess_def Let_def split: option.splits)
qed

definition stale_binding :: Binding where
  "stale_binding = access_binding ''old@host'' (63899000000 * second) ''j''"

lemma stale_expired: "expired_binding (ga_now sample_api) stale_binding"
proof -
  have "parseExpirationFromCondition (bi_Condition stale_binding) =
      Some (63899000000 * second - 63899000000 * second mod second)"
    unfolding stale_binding_def access_binding_def Binding.select_convs
    by (rule parse_access_condition) (simp_all add: second_def secs_of_def days_through_def)
  moreover have "managed stale_binding" unfolding stale_binding_def by (rule managed_access_binding)
  ultimately show ?thesis by (simp add: expired_binding_def sample_api_def second_def)
qed

theorem cleanup_removes_exactly_expired_witness:
  "\<exists>g'. CleanupExpiredAccess sample_api (sample_gcp\<lparr>gc_bindings := [stale_binding]\<rparr>) = (g', None) \<and> gc_bindings g' = []"
proof -
  obtain g' where g: "CleanupExpiredAccess sample_api (sample_gcp\<lparr>gc_bindings := [stale_binding]\<rparr>) = (g', None)"
    using stale_expired by (simp add: CleanupExpiredAccess_def sample_gcp_def sample_api_def Let_def)
  from cleanup_removes_exactly_expired [OF g] stale_expired g show ?thesis
    by (simp add: sample_gcp_def sample_api_def)
qed


section \<open>Where access outlives a revocation\<close>

lemma grant_effect:
  assumes "GrantAccess api email by just res g = (g', Inr (key, t))" "mget (gc_cache g) email = None" "\<not> gc_dryRun g"
    and "ga_create api (account_id email (ga_unix api)) = Inr sa"
  shows "gc_bindings g' = gc_bindings g @ [access_binding sa t just]" "gc_enabled g'" "\<not> gc_dryRun g'"
    "\<exists>u. mget (gc_cache g') email = Some u \<and> ug_ServiceAccountEmail u = sa"
proof -
  obtain sa' u where "ga_create api (account_id email (ga_unix api)) = Inr sa'" and *: "gc_enabled g'" "\<not> gc_dryRun g'"
      "gc_bindings g' = gc_bindings g @ [access_binding sa' t just]"
      "gc_cache g' = mput email u (gc_cache g)" "ug_ServiceAccountEmail u = sa'"
    using grant_provisions [OF assms(1-3)] by metis
  then have "sa' = sa" using assms(4) by simp
  with * show "gc_bindings g' = gc_bindings g @ [access_binding sa t just]" "gc_enabled g'" "\<not> gc_dryRun g'"
    "\<exists>u. mget (gc_cache g') email = Some u \<and> ug_ServiceAccountEmail u = sa" by (simp_all add: gm.lookup_insert)
qed

lemma revoke_succeeds:
  "gc_enabled g \<Longrightarrow> ga_get api = None \<Longrightarrow> ga_set api = None \<Longrightarrow> snd (RevokeAccess api email g) = None"
  unfolding RevokeAccess_def Let_def by (simp split: prod.split)

lemma show_nat_inject: "show_nat a = show_nat b \<longleftrightarrow> a = b"
  by (metis digits_val_show_nat of_nat_eq_iff)

text \<open>
  After a restart a second grant shadows the first. \<open>GrantAccess\<close> looks only at the cache, so a user
  who had access before the restart gets a second service account, and the revocation that follows
  removes only that one: the binding of the first account stays in the policy.
\<close>

theorem revoke_misses_account_of_earlier_grant:
  assumes "GrantAccess api email by just res g = (g1, Inr (key, t))" "mget (gc_cache g) email = None" "\<not> gc_dryRun g"
    and "GrantAccess api2 email by2 just2 res2 (g1\<lparr>gc_cache := []\<rparr>) = (g2, Inr (key2, t2))"
    and "ga_create api (account_id email (ga_unix api)) = Inr sa" "ga_create api2 (account_id email (ga_unix api2)) = Inr sa2"
    and "sa \<noteq> sa2" "sa2 \<noteq> []" "RevokeAccess api3 email g2 = (g3, None)"
  shows "access_binding sa t just \<in> set (gc_bindings g3)"
proof -
  note g1 = grant_effect [OF assms(1-3,5)]
  have "mget (gc_cache (g1\<lparr>gc_cache := []\<rparr>)) email = None" "\<not> gc_dryRun (g1\<lparr>gc_cache := []\<rparr>)" using g1(3) by simp_all
  note g2 = grant_effect [OF assms(4) this assms(6)]
  have keep: "drop_member (''serviceAccount:'' @ sa2) (access_binding sa t just) = [access_binding sa t just]"
    using assms(7) by (simp add: drop_member_def access_binding_def)
  have "gc_bindings (deleteServiceAccount api3 sa2 h) = gc_bindings h" for h
    by (simp add: deleteServiceAccount_def split: delete_reply.splits)
  then have "set (gc_bindings g3) \<supseteq> set (drop_member (''serviceAccount:'' @ sa2) (access_binding sa t just))"
    using assms(8,9) g2 g1(1) keep
    by (auto simp: RevokeAccess_def Let_def simp del: append.simps append_Cons split: option.splits if_splits)
  then show ?thesis using keep by simp
qed

theorem revoke_misses_account_of_earlier_grant_witness:
  "\<exists>g3 t. RevokeAccess sample_api ''a@redhat.com'' g3 = (fst (RevokeAccess sample_api ''a@redhat.com'' g3), None) \<and>
     access_binding (account_id ''a@redhat.com'' 1764403200 @ ''@'' @ account_host) t ''debug'' \<in>
       set (gc_bindings (fst (RevokeAccess sample_api ''a@redhat.com'' g3)))"
proof -
  let ?api2 = "sample_api\<lparr>ga_unix := 1764403201\<rparr>" and ?e = "''a@redhat.com''"
  let ?t = "ga_now sample_api + GCPAccessDuration"
  obtain g1 where g1: "GrantAccess sample_api ?e ''U1'' ''debug'' ''gcp-access'' sample_gcp = (g1, Inr ([], ?t))"
    using sample_grant [of sample_gcp ?e "''U1''" "''debug''" "''gcp-access''"] by (auto simp: sample_gcp_def)
  have e1: "gc_enabled g1" "\<not> gc_dryRun g1"
    using grant_effect(2,3) [OF g1] by (simp_all add: sample_gcp_def sample_api_def)
  have "createServiceAccountKey ?api2 = Inr []" using sample_key by (simp add: createServiceAccountKey_def)
  then obtain g2 t2 where g2: "GrantAccess ?api2 ?e ''U1'' ''debug'' ''gcp-access'' (g1\<lparr>gc_cache := []\<rparr>) = (g2, Inr ([], t2))"
    using e1 by (simp add: GrantAccess_def provision_access_def createServiceAccount_def sample_api_def Let_def)
  have ne: "account_id ?e 1764403200 \<noteq> account_id ?e 1764403201" by (simp add: account_id_def Let_def show_int_def show_nat_inject)
  have "gc_enabled g2" using grant_effect(2) [OF g2] e1(2) by (simp add: sample_api_def)
  then obtain g3 where g3: "RevokeAccess sample_api ?e g2 = (g3, None)"
    using revoke_succeeds [of g2 sample_api ?e] by (cases "RevokeAccess sample_api ?e g2") (simp add: sample_api_def)
  from revoke_misses_account_of_earlier_grant [OF g1 _ _ g2 _ _ _ _ g3] ne
  have "access_binding (account_id ?e 1764403200 @ ''@'' @ account_host) ?t ''debug'' \<in> set (gc_bindings g3)"
    by (simp add: sample_gcp_def sample_api_def)
  with g3 show ?thesis by (intro exI [of _ g2] exI [of _ ?t]) simp
qed

text \<open>Clean-up writes the policy also in a dry run.\<close>

lemma cleanup_ignores_dry_run:
  "gc_bindings (fst (CleanupExpiredAccess sample_api (sample_gcp\<lparr>gc_dryRun := True, gc_bindings := [stale_binding]\<rparr>))) = []"
  using stale_expired fold_delete_accounts [of sample_api]
  by (simp add: CleanupExpiredAccess_def sample_gcp_def sample_api_def Let_def)

text \<open>A name with a part \<open>dot\<close> after a dash is not recovered from its service account.\<close>

lemma dash_dot_not_reversible:
  "unsanitizeUsername (sanitizeUsernameReversible ''a-dot-b@redhat.com'') = ''a-dash.dash-b@redhat.com''"
  by code_simp

end
