(* ===== verification/Usage.thy ===== *)
theory Usage
  imports GcpProps
begin

text \<open>
  Usage metrics (\<open>pkg/metrics/metrics.go\<close>), organization membership (\<open>pkg/slack/membership.go\<close>) and the
  commands for Google Cloud access (\<open>GrantGCPAccess\<close> and \<open>RevokeGCPAccess\<close> of \<open>pkg/manager/manager.go\<close>,
  \<open>request\<close> and \<open>Revoke\<close> of \<open>pkg/slack/actions.go\<close>).
\<close>

section \<open>Membership\<close>

datatype Membership = MembershipMember | MembershipNonMember | MembershipUnknown

record Employee =
  em_UID :: string

text \<open>The queries of \<open>OrgDataService\<close>.\<close>

record OrgDataService =
  od_BySlackID :: "string \<Rightarrow> Employee option"
  od_ByEmail :: "string \<Rightarrow> Employee option"
  od_InOrg :: "string \<Rightarrow> string \<Rightarrow> bool"

definition HybridPlatformsOrganization :: string where
  "HybridPlatformsOrganization = ''Hybrid Platforms''"

definition ClassifyUserMembership :: "OrgDataService option \<Rightarrow> string \<Rightarrow> string \<Rightarrow> string \<Rightarrow> Membership" where
  "ClassifyUserMembership orgDataService slackID email org =
     (case orgDataService of
        None \<Rightarrow> MembershipUnknown
      | Some od \<Rightarrow>
          let employee = (case od_BySlackID od slackID of
                            Some e \<Rightarrow> Some e
                          | None \<Rightarrow> if email \<noteq> [] then od_ByEmail od email else None) in
          (case employee of
             None \<Rightarrow> MembershipUnknown
           | Some e \<Rightarrow> if em_UID e = [] then MembershipUnknown
                       else if od_InOrg od (em_UID e) org then MembershipMember else MembershipNonMember))"

definition isUserInOrg :: "OrgDataService option \<Rightarrow> string \<Rightarrow> string \<Rightarrow> string \<Rightarrow> bool" where
  "isUserInOrg od slackID email org \<longleftrightarrow> ClassifyUserMembership od slackID email org = MembershipMember"

section \<open>Metrics\<close>

definition membership_label :: "Membership \<Rightarrow> string" where
  "membership_label mm = (case mm of MembershipMember \<Rightarrow> ''member'' | MembershipNonMember \<Rightarrow> ''non_member''
     | MembershipUnknown \<Rightarrow> ''unknown'')"

definition validMembership :: "string \<Rightarrow> bool" where
  "validMembership membership \<longleftrightarrow> membership = ''member'' \<or> membership = ''non_member'' \<or> membership = ''unknown''"

definition validGCPAccessOutcome :: "string \<Rightarrow> bool" where
  "validGCPAccessOutcome outcome \<longleftrightarrow> outcome = ''granted'' \<or> outcome = ''denied'' \<or> outcome = ''grant_error''"

definition command_labels :: "string list" where
  "command_labels =
     [''launch'', ''rosa-create'', ''rosa-lookup'', ''rosa-describe'', ''list'', ''done'', ''refresh'', ''auth'',
      ''test-upgrade'', ''test'', ''build'', ''workflow-launch'', ''workflow-test'', ''workflow-upgrade'',
      ''version'', ''lookup'', ''catalog-build'', ''mce-create'', ''mce-auth'', ''mce-delete'', ''mce-list'',
      ''mce-lookup'', ''request'', ''request-gcp-access'', ''revoke'', ''revoke-gcp-access'', ''unknown'']"

definition validCommand :: "string \<Rightarrow> bool" where
  "validCommand command \<longleftrightarrow> command \<in> set command_labels"

text \<open>Counters by label values; a label value that was never used counts zero.\<close>

record Metrics =
  mt_commandExecutions :: "(string \<times> string, nat) gomap"
  mt_userCommandActivity :: "(string \<times> string \<times> string, nat) gomap"
  mt_gcpAccessRequests :: "(string \<times> string \<times> string, nat) gomap"

definition inc :: "'k \<Rightarrow> ('k, nat) gomap \<Rightarrow> ('k, nat) gomap" where
  "inc k m = mput k (Suc (mget0 0 m k)) m"

definition RecordCommand :: "string \<Rightarrow> string \<Rightarrow> string \<Rightarrow> Metrics \<Rightarrow> Metrics" where
  "RecordCommand command slackUserID membership m =
     (if \<not> validCommand command \<or> \<not> validMembership membership then m
      else m\<lparr>mt_commandExecutions := inc (command, membership) (mt_commandExecutions m),
             mt_userCommandActivity := inc (slackUserID, command, membership) (mt_userCommandActivity m)\<rparr>)"

definition RecordGCPAccessOutcome :: "string \<Rightarrow> string \<Rightarrow> string \<Rightarrow> Metrics \<Rightarrow> Metrics" where
  "RecordGCPAccessOutcome slackUserID membership outcome m =
     (if membership = ''unknown'' \<or> \<not> validMembership membership \<or> \<not> validGCPAccessOutcome outcome then m
      else m\<lparr>mt_gcpAccessRequests := inc (slackUserID, membership, outcome) (mt_gcpAccessRequests m)\<rparr>)"

text \<open>\<open>strings.Trim(w, "\"'")\<close>.\<close>

definition trim_quotes :: "string \<Rightarrow> string" where
  "trim_quotes w =
     (let q = (\<lambda>c. c = CHR 0x22 \<or> c = CHR 0x27) in rev (dropWhile q (rev (dropWhile q w))))"

definition NormalizeCommand :: "string \<Rightarrow> string \<Rightarrow> string" where
  "NormalizeCommand usage message =
     (let literals = takeWhile (\<lambda>w. \<not> has_prefix w ''<'') (GoStrings.fields (to_lower usage));
          command = join ''-'' literals;
          words = GoStrings.fields (to_lower (trim_space message));
          command' = (if (command = ''request'' \<or> command = ''revoke'') \<and> length words > 1 \<and>
                         trim_quotes (words ! 1) = ''gcp-access''
                      then command @ ''-gcp-access'' else command) in
      if validCommand command' then command' else ''unknown'')"

section \<open>The manager's access operations\<close>

datatype access_message =
    AccessGranted gotime int int string
  | NothingToRevoke | AlreadyExpired gotime | AccessRevoked

definition in_hours :: "duration \<Rightarrow> int" where
  "in_hours d = tdiv d hour"

text \<open>\<open>gcp\<close> is \<open>None\<close> when no access manager was configured; \<open>until\<close> is the clock at the message.\<close>

definition GrantGCPAccess :: "gcp_api \<Rightarrow> gotime \<Rightarrow> string \<Rightarrow> string \<Rightarrow> string \<Rightarrow> string \<Rightarrow> gcp option \<Rightarrow>
    gcp option \<times> (gcp_error, access_message \<times> string) result" where
  "GrantGCPAccess api until email requestedBy justification resource gcp =
     (case gcp of
        None \<Rightarrow> (None, Inl GcpNotInitialized)
      | Some g \<Rightarrow>
          (case GrantAccess api email requestedBy justification resource g of
             (g', Inl e) \<Rightarrow> (Some g', Inl (GrantFailed e))
           | (g', Inr (keyJSON, expiresAt)) \<Rightarrow>
               (Some g', Inr (AccessGranted expiresAt (tdiv (expiresAt - until) (24 * hour)) (in_hours (expiresAt - until))
                  justification, keyJSON))))"

definition RevokeGCPAccess :: "gcp_api \<Rightarrow> string \<Rightarrow> gcp option \<Rightarrow> gcp option \<times> (gcp_error, access_message) result" where
  "RevokeGCPAccess api email gcp =
     (case gcp of
        None \<Rightarrow> (None, Inl GcpNotInitialized)
      | Some g \<Rightarrow>
          (case GetUserGrant api email g of
             (g1, Inl e) \<Rightarrow> (Some g1, Inl (CheckAccess e))
           | (g1, Inr None) \<Rightarrow> (Some g1, Inr NothingToRevoke)
           | (g1, Inr (Some grant)) \<Rightarrow>
               if ug_ExpiresAt grant < ga_now api then (Some g1, Inr (AlreadyExpired (ug_ExpiresAt grant)))
               else (case RevokeAccess api email g1 of
                       (g2, Some e) \<Rightarrow> (Some g2, Inl (RevokeFailed e))
                     | (g2, None) \<Rightarrow> (Some g2, Inr AccessRevoked))))"

definition gcpAccessCleanup :: "gcp_api \<Rightarrow> gcp option \<Rightarrow> gcp option \<times> gcp_error option" where
  "gcpAccessCleanup api gcp =
     (case gcp of
        None \<Rightarrow> (None, None)
      | Some g \<Rightarrow> if \<not> IsEnabled g then (Some g, None)
                  else (case CleanupExpiredAccess api g of (g', e) \<Rightarrow> (Some g', e)))"

section \<open>The commands\<close>

datatype user_info = UserError | UserMissing | UserEmail string

datatype request_reply =
    RequestUsage | RequestUnsupported | RequestNoUser | RequestNoEmail | RequestNoOrgData
  | RequestNotMember | RequestGrantError gcp_error
  | RequestGranted access_message | RequestKeyUpload access_message
  | RevokeError gcp_error | RevokeReply access_message

definition recordGCPAccessOutcome :: "bool \<Rightarrow> string \<Rightarrow> Membership \<Rightarrow> string \<Rightarrow> Metrics \<Rightarrow> Metrics" where
  "recordGCPAccessOutcome recorder slackUserID membership outcome m =
     (if \<not> recorder \<or> membership = MembershipUnknown then m
      else RecordGCPAccessOutcome slackUserID (membership_label membership) outcome m)"

text \<open>
  \<open>request\<close>: the reply, the keys sent to the user, and the outcome its deferred call records.
  \<open>upload\<close> is whether the key file could be uploaded.
\<close>

definition request_body :: "gcp_api \<Rightarrow> gotime \<Rightarrow> (string \<Rightarrow> user_info) \<Rightarrow> OrgDataService option \<Rightarrow> bool \<Rightarrow>
    string \<Rightarrow> string \<Rightarrow> string \<Rightarrow> gcp option \<Rightarrow> gcp option \<times> request_reply \<times> string list \<times> Membership \<times> string" where
  "request_body api until userInfo od upload slackUser resource justification gcp =
     (if resource = [] \<or> justification = [] then (gcp, RequestUsage, [], MembershipUnknown, [])
      else if resource \<noteq> ''gcp-access'' then (gcp, RequestUnsupported, [], MembershipUnknown, [])
      else (case userInfo slackUser of
              UserError \<Rightarrow> (gcp, RequestNoUser, [], MembershipUnknown, [])
            | UserMissing \<Rightarrow> (gcp, RequestNoUser, [], MembershipUnknown, [])
            | UserEmail email \<Rightarrow>
                if email = [] then (gcp, RequestNoEmail, [], MembershipUnknown, [])
                else if od = None then (gcp, RequestNoOrgData, [], MembershipUnknown, [])
                else let membership = ClassifyUserMembership od slackUser email HybridPlatformsOrganization in
                  if membership \<noteq> MembershipMember
                  then (gcp, RequestNotMember, [], membership, if membership = MembershipNonMember then ''denied'' else [])
                  else (case GrantGCPAccess api until email slackUser justification resource gcp of
                          (gcp', Inl e) \<Rightarrow> (gcp', RequestGrantError e, [], membership, ''grant_error'')
                        | (gcp', Inr (msg, keyJSON)) \<Rightarrow>
                            (gcp', if upload then RequestGranted msg else RequestKeyUpload msg,
                             if upload then [keyJSON] else [], membership, ''granted''))))"

definition request :: "gcp_api \<Rightarrow> gotime \<Rightarrow> (string \<Rightarrow> user_info) \<Rightarrow> OrgDataService option \<Rightarrow> bool \<Rightarrow> bool \<Rightarrow>
    string \<Rightarrow> string \<Rightarrow> string \<Rightarrow> gcp option \<Rightarrow> Metrics \<Rightarrow> gcp option \<times> Metrics \<times> request_reply \<times> string list" where
  "request api until userInfo od upload recorder slackUser resource justification gcp m =
     (case request_body api until userInfo od upload slackUser resource justification gcp of
        (gcp', reply, keys, membership, outcome) \<Rightarrow>
          (gcp', if resource = ''gcp-access'' then recordGCPAccessOutcome recorder slackUser membership outcome m else m,
           reply, keys))"

definition Revoke :: "gcp_api \<Rightarrow> (string \<Rightarrow> user_info) \<Rightarrow> OrgDataService option \<Rightarrow> string \<Rightarrow> string \<Rightarrow> gcp option \<Rightarrow>
    gcp option \<times> request_reply" where
  "Revoke api userInfo od slackUser resource gcp =
     (if resource = [] then (gcp, RequestUsage)
      else if resource \<noteq> ''gcp-access'' then (gcp, RequestUnsupported)
      else (case userInfo slackUser of
              UserError \<Rightarrow> (gcp, RequestNoUser)
            | UserMissing \<Rightarrow> (gcp, RequestNoUser)
            | UserEmail email \<Rightarrow>
                if email = [] then (gcp, RequestNoEmail)
                else if od = None then (gcp, RequestNoOrgData)
                else if ClassifyUserMembership od slackUser email HybridPlatformsOrganization \<noteq> MembershipMember
                then (gcp, RequestNotMember)
                else (case RevokeGCPAccess api email gcp of
                        (gcp', Inl e) \<Rightarrow> (gcp', RevokeError e)
                      | (gcp', Inr msg) \<Rightarrow> (gcp', RevokeReply msg))))"

section \<open>Properties\<close>

lemma unknown_valid: "validCommand ''unknown''"
  by (simp add: validCommand_def command_labels_def)

lemma inc_get: "mget0 0 (inc k m) j = mget0 0 m j + (if j = k then 1 else 0)"
  by (simp add: inc_def mget0_def gm.lookup_insert)

lemma request_body_changes:
  assumes "request_body api until userInfo od upload u resource j gcp = (gcp', reply, keys, mm, outcome)"
    and "gcp' \<noteq> gcp \<or> keys \<noteq> [] \<or> outcome = ''granted''"
  shows "\<exists>email. userInfo u = UserEmail email \<and>
    ClassifyUserMembership od u email HybridPlatformsOrganization = MembershipMember \<and> resource = ''gcp-access'' \<and> j \<noteq> []"
  using assms unfolding request_body_def Let_def
  by (auto split: if_splits user_info.splits prod.splits sum.splits)

text \<open>
  C31: only confirmed members of the organization get access. When a request changes anything of the
  access manager or sends a key, the user has an e-mail address, the organizational data resolves them to a member
  of Hybrid Platforms, and a justification was given; a user the data does not know is never counted as denied.
\<close>

theorem access_only_for_members:
  assumes "request api until userInfo od upload recorder u resource j gcp m = (gcp', m', reply, keys)"
  shows "(gcp' \<noteq> gcp \<or> keys \<noteq> [] \<longrightarrow> (\<exists>email. userInfo u = UserEmail email \<and>
      ClassifyUserMembership od u email HybridPlatformsOrganization = MembershipMember \<and> j \<noteq> [])) \<and>
    (\<forall>email. userInfo u = UserEmail email \<and> ClassifyUserMembership od u email HybridPlatformsOrganization = MembershipUnknown
      \<longrightarrow> m' = m \<and> gcp' = gcp \<and> keys = [])"
proof -
  obtain mm outcome where b: "request_body api until userInfo od upload u resource j gcp = (gcp', reply, keys, mm, outcome)"
      and m: "m' = (if resource = ''gcp-access'' then recordGCPAccessOutcome recorder u mm outcome m else m)"
    using assms by (auto simp: request_def split: prod.splits)
  have unknown: "mm = MembershipUnknown \<and> gcp' = gcp \<and> keys = []"
    if "userInfo u = UserEmail email" "ClassifyUserMembership od u email HybridPlatformsOrganization = MembershipUnknown" for email
    using b that by (auto simp: request_body_def Let_def split: if_splits)
  show ?thesis using request_body_changes [OF b] unknown m by (auto simp: recordGCPAccessOutcome_def)
qed

definition sample_org :: OrgDataService where
  "sample_org = \<lparr>od_BySlackID = (\<lambda>_. None), od_ByEmail = (\<lambda>e. Some \<lparr>em_UID = e\<rparr>), od_InOrg = (\<lambda>_ org. org = HybridPlatformsOrganization)\<rparr>"

theorem access_only_for_members_witness:
  "\<exists>gcp' m' reply keys. request sample_api 0 (\<lambda>_. UserEmail ''a@redhat.com'') (Some sample_org) True True ''U1'' ''gcp-access'' ''why''
     (Some (sample_gcp\<lparr>gc_dryRun := True\<rparr>)) \<lparr>mt_commandExecutions = [], mt_userCommandActivity = [], mt_gcpAccessRequests = []\<rparr>
       = (gcp', m', reply, keys) \<and> keys = [dry_run_key] \<and>
     ClassifyUserMembership (Some sample_org) ''U1'' ''a@redhat.com'' HybridPlatformsOrganization = MembershipMember"
proof -
  let ?g = "Some (sample_gcp\<lparr>gc_dryRun := True\<rparr>)" and ?u = "\<lambda>_ :: string. UserEmail ''a@redhat.com''"
  let ?m = "\<lparr>mt_commandExecutions = [], mt_userCommandActivity = [], mt_gcpAccessRequests = []\<rparr>"
  obtain gcp' m' reply keys where r: "request sample_api 0 ?u (Some sample_org) True True ''U1'' ''gcp-access'' ''why'' ?g ?m
      = (gcp', m', reply, keys)" by (metis prod.exhaust)
  then have "keys = [dry_run_key]"
    by (auto simp: request_def request_body_def GrantGCPAccess_def GrantAccess_def ClassifyUserMembership_def sample_org_def
        sample_gcp_def Let_def split: prod.splits)
  with access_only_for_members [OF r] r show ?thesis by auto
qed

text \<open>
  The counters count: recording a command adds one to exactly one series of each of the two command
  counters, and nothing else changes; commands and memberships outside the bounded label sets are dropped.
\<close>

theorem record_command_counts:
  "validCommand (NormalizeCommand usage message) \<and>
   (let m' = RecordCommand c u l m; k = (if validCommand c \<and> validMembership l then 1 else 0) in
    (\<forall>x. mget0 0 (mt_commandExecutions m') x = mget0 0 (mt_commandExecutions m) x + (if x = (c, l) then k else 0)) \<and>
    (\<forall>y. mget0 0 (mt_userCommandActivity m') y = mget0 0 (mt_userCommandActivity m) y + (if y = (u, c, l) then k else 0)) \<and>
    mt_gcpAccessRequests m' = mt_gcpAccessRequests m)"
  by (simp add: RecordCommand_def Let_def inc_get NormalizeCommand_def unknown_valid)

end
