(* ===== verification/CommandParser.thy ===== *)
theory CommandParser
  imports Usage
begin

text \<open>
  The command parser of \<open>pkg/slack/parser/commandParser.go\<close> and the direct-message handler of
  \<open>pkg/slack/events/messages/message_handler.go\<close>. A command is a usage text; its tokens become
  regular expressions with the flags \<open>(?iU)\<close>, so letters match in either case and every repetition
  prefers the shortest match. An expression is matched here item by item, trying the lengths an item can
  take in the order in which Go's \<open>regexp\<close> prefers them.
\<close>

section \<open>Tokens\<close>

datatype TokenType = notParameter | greedyParameter | lazyParameter

record Token =
  tk_Word :: string
  tk_Type :: TokenType

definition IsParameter :: "Token \<Rightarrow> bool" where
  "IsParameter t \<longleftrightarrow> tk_Type t \<noteq> notParameter"

text \<open>The patterns \<open><\S+\?>\<close> and \<open><\S+>\<close>, searched anywhere in a word.\<close>

definition lazy_word :: "string \<Rightarrow> bool" where
  "lazy_word w \<longleftrightarrow> contains (drop 2 (dropWhile (\<lambda>c. c \<noteq> CHR ''<'') w)) ''?>''"

definition greedy_word :: "string \<Rightarrow> bool" where
  "greedy_word w \<longleftrightarrow> CHR ''>'' \<in> set (drop 2 (dropWhile (\<lambda>c. c \<noteq> CHR ''<'') w))"

definition token_of :: "string \<Rightarrow> Token" where
  "token_of word =
     (if lazy_word word then \<lparr>tk_Word = take (length word - 3) (drop 1 word), tk_Type = lazyParameter\<rparr>
      else if greedy_word word then \<lparr>tk_Word = take (length word - 2) (drop 1 word), tk_Type = greedyParameter\<rparr>
      else \<lparr>tk_Word = word, tk_Type = notParameter\<rparr>)"

definition tokenize :: "string \<Rightarrow> Token list" where
  "tokenize format = map token_of (GoStrings.fields format)"

section \<open>Expressions\<close>

datatype item = Literal string | Spaces | AnyText | Argument

text \<open>\<open>create\<close> keeps the words and the parameters up to a boundary, given here as a number of tokens.\<close>

definition create :: "Token list \<Rightarrow> nat \<Rightarrow> Token list" where
  "create tokens boundary =
     map snd (filter (\<lambda>(i, t). \<not> IsParameter t \<or> i < boundary) (enumerate 0 tokens))"

text \<open>The words of the supported commands have none of the characters that \<open>escape\<close> leaves special.\<close>

definition getInputPattern :: "Token \<Rightarrow> item" where
  "getInputPattern t =
     (case tk_Type t of
        lazyParameter \<Rightarrow> Argument
      | greedyParameter \<Rightarrow> AnyText
      | notParameter \<Rightarrow> Literal (tk_Word t))"

fun compile_tokens :: "Token list \<Rightarrow> item list" where
  "compile_tokens [] = []"
| "compile_tokens [t] = [getInputPattern t]"
| "compile_tokens (t # ts) = getInputPattern t # Spaces # compile_tokens ts"

definition generate :: "Token list \<Rightarrow> item list list" where
  "generate tokens =
     (if tokens = [] then [] else map (\<lambda>b. compile_tokens (create tokens b)) (rev [0 ..< Suc (length tokens)]))"

definition re_space :: "char \<Rightarrow> bool" where
  "re_space c \<longleftrightarrow> c = CHR 0x09 \<or> c = CHR 0x0A \<or> c = CHR 0x0C \<or> c = CHR 0x0D \<or> c = CHR 0x20"

definition quoted :: "char \<Rightarrow> string \<Rightarrow> nat list" where
  "quoted q s =
     (case s of
        [] \<Rightarrow> []
      | c # r \<Rightarrow> if c = q \<and> q \<in> set r then [length (takeWhile (\<lambda>x. x \<noteq> q) r) + 2] else [])"

definition candidates :: "item \<Rightarrow> string \<Rightarrow> nat list" where
  "candidates i s =
     (case i of
        Literal w \<Rightarrow> if to_lower (take (length w) s) = to_lower w then [length w] else []
      | Spaces \<Rightarrow> [1 ..< Suc (length (takeWhile re_space s))]
      | AnyText \<Rightarrow> [1 ..< Suc (length (takeWhile (\<lambda>c. c \<noteq> CHR 0x0A) s))]
      | Argument \<Rightarrow> quoted CHR 0x22 s @ quoted CHR 0x27 s @ [1 ..< Suc (length (takeWhile (\<lambda>c. \<not> re_space c) s))])"

fun first_some :: "('a \<Rightarrow> 'b option) \<Rightarrow> 'a list \<Rightarrow> 'b option" where
  "first_some f [] = None"
| "first_some f (x # xs) = (case f x of Some y \<Rightarrow> Some y | None \<Rightarrow> first_some f xs)"

definition captures :: "item \<Rightarrow> bool" where
  "captures i \<longleftrightarrow> i = AnyText \<or> i = Argument"

fun match_items :: "item list \<Rightarrow> string \<Rightarrow> string list option" where
  "match_items [] s = (if s = [] then Some [] else None)"
| "match_items (i # is) s =
     first_some (\<lambda>n. map_option (\<lambda>vs. if captures i then take n s # vs else vs) (match_items is (drop n s)))
       (candidates i s)"

section \<open>Matching a command\<close>

text \<open>An expression without items is a nil regular expression, and matching it panics.\<close>

datatype match_result = NoMatch | Matched "(string, string) gomap" | MatchPanic

fun match_expressions :: "item list list \<Rightarrow> string \<Rightarrow> (string list option) option" where
  "match_expressions [] text = Some None"
| "match_expressions (e # es) text =
     (if e = [] then None
      else (case match_items e text of Some vs \<Rightarrow> Some (Some vs) | None \<Rightarrow> match_expressions es text))"

definition command_match :: "Token list \<Rightarrow> string \<Rightarrow> match_result" where
  "command_match tokens text =
     (case match_expressions (generate tokens) text of
        None \<Rightarrow> MatchPanic
      | Some None \<Rightarrow> NoMatch
      | Some (Some vs) \<Rightarrow>
          Matched (fold (\<lambda>(t, v) params. mput (tk_Word t) v params) (zip (filter IsParameter tokens) vs) []))"

definition StringParam :: "string \<Rightarrow> string \<Rightarrow> (string, string) gomap \<Rightarrow> string" where
  "StringParam key defaultValue params =
     (case mget params key of
        None \<Rightarrow> defaultValue
      | Some v \<Rightarrow>
          if 2 \<le> length v \<and> (hd v = CHR 0x22 \<and> last v = CHR 0x22 \<or> hd v = CHR 0x27 \<and> last v = CHR 0x27)
          then butlast (tl v) else v)"

section \<open>The supported commands\<close>

record BotCommand =
  bc_usage :: string
  bc_private :: bool

definition NewBotCommand :: "string \<Rightarrow> bool \<Rightarrow> BotCommand" where
  "NewBotCommand usage isPrivate = \<lparr>bc_usage = usage, bc_private = isPrivate\<rparr>"

definition Match :: "BotCommand \<Rightarrow> string \<Rightarrow> match_result" where
  "Match c text = command_match (tokenize (bc_usage c)) text"

definition SupportedCommands :: "BotCommand list" where
  "SupportedCommands = map (\<lambda>u. NewBotCommand u False)
     [''launch <image_or_version_or_prs> <options>'',
      ''rosa create <version> <duration>'',
      ''rosa lookup <version>'',
      ''rosa describe <cluster>'',
      ''list'', ''done'', ''refresh'', ''auth'',
      ''test upgrade <from> <to> <options>'',
      ''test <name> <image_or_version_or_prs> <options>'',
      ''build <pullrequest>'',
      ''workflow-launch <name> <image_or_version_or_prs> <parameters>'',
      ''workflow-test <name> <image_or_version_or_prs> <parameters>'',
      ''workflow-upgrade <name> <from_image_or_version_or_prs> <to_image_or_version_or_prs> <parameters>'',
      ''version'',
      ''lookup <image_or_version_or_prs> <architecture>'',
      ''catalog build <pullrequest> <bundle_name>'',
      ''mce create <image_or_version_or_prs> <duration> <platform>'',
      ''mce auth <name>'',
      ''mce delete <cluster_name>'',
      ''mce list <all>'',
      ''mce lookup'',
      ''request <resource?> <justification?>'',
      ''revoke <resource?>'']"

section \<open>Handling a direct message\<close>

record MessageEvent =
  ev_BotID :: string
  ev_Channel :: string
  ev_SubType :: string
  ev_User :: string
  ev_Text :: string

datatype handled =
    Ignored | OnlyDirect | HelpOverview bool | HelpSpecific string bool
  | Executed BotCommand "(string, string) gomap" | Unrecognized | HandlePanic

text \<open>The command that answers a text, the first that matches and that the user may use.\<close>

fun find_command :: "bool \<Rightarrow> BotCommand list \<Rightarrow> string \<Rightarrow> handled" where
  "find_command allowed [] text = Unrecognized"
| "find_command allowed (c # cs) text =
     (if bc_private c \<and> \<not> allowed then find_command allowed cs text
      else (case Match c text of
              Matched params \<Rightarrow> Executed c params
            | NoMatch \<Rightarrow> find_command allowed cs text
            | MatchPanic \<Rightarrow> HandlePanic))"

definition Handle :: "string list \<Rightarrow> BotCommand list \<Rightarrow> MessageEvent \<Rightarrow> handled" where
  "Handle mceUsers botCommands event =
     (if ev_BotID event \<noteq> [] then Ignored
      else if \<not> has_prefix (ev_Channel event) ''D'' then OnlyDirect
      else if ev_SubType event = ''message_changed'' \<or> ev_SubType event = ''file_share'' then Ignored
      else let allowed = (ev_User event \<in> set mceUsers);
               parts = GoStrings.fields (trim_space (ev_Text event)) in
        if parts \<noteq> [] \<and> hd parts = ''help''
        then if length parts = 1 then HelpOverview allowed else HelpSpecific (parts ! 1) allowed
        else find_command allowed botCommands (ev_Text event))"

text \<open>\<open>executeCommand\<close> records the command with the membership of the user before it runs it.\<close>

definition command_membership :: "OrgDataService option \<Rightarrow> (string \<Rightarrow> user_info) \<Rightarrow> string \<Rightarrow> Membership" where
  "command_membership od userInfo user =
     (let mm = ClassifyUserMembership od user [] HybridPlatformsOrganization in
      if mm = MembershipUnknown \<and> od \<noteq> None
      then (case userInfo user of
              UserEmail email \<Rightarrow> ClassifyUserMembership od user email HybridPlatformsOrganization
            | _ \<Rightarrow> mm)
      else mm)"

definition executeCommand :: "OrgDataService option \<Rightarrow> (string \<Rightarrow> user_info) \<Rightarrow> BotCommand \<Rightarrow> MessageEvent \<Rightarrow> Metrics \<Rightarrow> Metrics" where
  "executeCommand od userInfo c event m =
     RecordCommand (NormalizeCommand (bc_usage c) (ev_Text event)) (ev_User event)
       (membership_label (command_membership od userInfo (ev_User event))) m"

text \<open>\<open>findCommandSuggestion\<close>.\<close>

definition HelpCategories :: "string list" where
  "HelpCategories = [''launch'', ''rosa'', ''test'', ''build'', ''manage'']"

fun suggest_command :: "bool \<Rightarrow> string \<Rightarrow> BotCommand list \<Rightarrow> string" where
  "suggest_command allowPrivate input [] = []"
| "suggest_command allowPrivate input (c # cs) =
     (if bc_private c \<and> \<not> allowPrivate then suggest_command allowPrivate input cs
      else (case tokenize (bc_usage c) of
              [] \<Rightarrow> suggest_command allowPrivate input cs
            | t # _ \<Rightarrow>
                let cmdName = to_lower (tk_Word t) in
                if contains cmdName input \<or> contains input cmdName then tk_Word t
                else suggest_command allowPrivate input cs))"

definition findCommandSuggestion :: "string \<Rightarrow> BotCommand list \<Rightarrow> bool \<Rightarrow> string" where
  "findCommandSuggestion input0 botCommands allowPrivate =
     (let input = to_lower input0;
          categories = HelpCategories @ (if allowPrivate then [''mce''] else []) in
      case find (\<lambda>cat. contains cat input \<or> contains input cat) categories of
        Some cat \<Rightarrow> cat
      | None \<Rightarrow> suggest_command allowPrivate input botCommands)"


section \<open>Writing and parsing a command are inverse\<close>

definition plain_value :: "string \<Rightarrow> bool" where
  "plain_value v \<longleftrightarrow> v \<noteq> [] \<and> list_all (\<lambda>c. \<not> re_space c) v \<and> hd v \<noteq> CHR 0x22 \<and> hd v \<noteq> CHR 0x27"

text \<open>A command line: the words of the command and a value for each parameter, one space apart.\<close>

definition piece :: "Token \<times> string \<Rightarrow> string" where
  "piece p = (if IsParameter (fst p) then snd p else tk_Word (fst p))"

definition command_text :: "(Token \<times> string) list \<Rightarrow> string" where
  "command_text ps = join '' '' (map piece ps)"

lemma first_some_upt:
  assumes "\<And>n. 1 \<le> n \<Longrightarrow> n < k \<Longrightarrow> f n = None" "f k = Some x" "1 \<le> k" "k < N"
  shows "first_some f [1 ..< N] = Some x"
proof -
  have app: "first_some f (xs @ ys) = (case first_some f xs of Some y \<Rightarrow> Some y | None \<Rightarrow> first_some f ys)" for xs ys
    by (induction xs) (auto split: option.splits)
  have "[1 ..< N] = [1 ..< k] @ k # [Suc k ..< N]"
    using assms(3,4) upt_add_eq_append [of 1 k "N - k"] by (simp add: upt_conv_Cons)
  moreover have "\<forall>n \<in> set ns. f n = None \<Longrightarrow> first_some f ns = None" for ns by (induction ns) auto
  then have "first_some f [1 ..< k] = None" using assms(1) by simp
  ultimately show ?thesis using app [of "[1 ..< k]" "k # [Suc k ..< N]"] assms(2) by simp
qed

lemma spaces_none: "\<not> re_space c \<Longrightarrow> candidates Spaces (c # s) = []"
  by (simp add: candidates_def)

lemma spaces_one: "\<not> re_space c \<Longrightarrow> candidates Spaces (CHR 0x20 # c # s) = [1]"
  by (simp add: candidates_def re_space_def)

text \<open>The rest of an expression cannot start inside a value.\<close>

lemma rest_inside_value:
  assumes "is = [] \<or> (\<exists>js. is = Spaces # js)" "list_all (\<lambda>c. \<not> re_space c) v" "n < length v"
  shows "match_items is (drop n v @ w) = None"
proof -
  obtain c r where c: "drop n v = c # r" using assms(3) by (cases "drop n v") auto
  then have "c \<in> set v" by (metis in_set_dropD list.set_intros(1))
  then have "\<not> re_space c" using assms(2) by (auto simp: list_all_iff)
  then show ?thesis using assms(1) c spaces_none [of c "r @ w"] by auto
qed

lemma length_takeWhile_prefix: "list_all P v \<Longrightarrow> length v \<le> length (takeWhile P (v @ w))"
  by (induction v) auto

lemma match_value:
  assumes "captures i" "plain_value v" "is = [] \<or> (\<exists>js. is = Spaces # js)" "match_items is w = Some vs"
  shows "match_items (i # is) (v @ w) = Some (v # vs)"
proof -
  let ?f = "\<lambda>n. map_option ((#) (take n (v @ w))) (match_items is (drop n (v @ w)))"
  have v: "v \<noteq> []" "list_all (\<lambda>c. \<not> re_space c) v" "hd v \<noteq> CHR 0x22" "hd v \<noteq> CHR 0x27"
    using assms(2) by (auto simp: plain_value_def)
  have none: "?f n = None" if "n < length v" for n
    using rest_inside_value [OF assms(3) v(2) that, of w] that by simp
  have some: "?f (length v) = Some (v # vs)" using assms(4) by simp
  have l1: "1 \<le> length v" using v(1) by (cases v) auto
  have "list_all (\<lambda>c. c \<noteq> CHR 0x0A) v" using v(2) by (auto simp: list_all_iff re_space_def)
  then have any: "length v < Suc (length (takeWhile (\<lambda>c. c \<noteq> CHR 0x0A) (v @ w)))"
    using length_takeWhile_prefix less_Suc_eq_le by blast
  have arg: "length v < Suc (length (takeWhile (\<lambda>c. \<not> re_space c) (v @ w)))"
    using length_takeWhile_prefix [OF v(2)] less_Suc_eq_le by blast
  have q: "quoted CHR 0x22 (v @ w) = []" "quoted CHR 0x27 (v @ w) = []"
    using v by (cases v; simp add: quoted_def)+
  have "first_some ?f (candidates i (v @ w)) = Some (v # vs)"
    using assms(1) first_some_upt [of "length v" ?f, OF none some l1 any] first_some_upt [of "length v" ?f, OF none some l1 arg] q
    by (auto simp: captures_def candidates_def)
  then show ?thesis using assms(1) by (simp add: captures_def)
qed

lemma match_literal:
  "match_items is w = Some vs \<Longrightarrow> match_items (Literal u # is) (u @ w) = Some vs"
  by (simp add: candidates_def captures_def)

definition plain_pieces :: "(Token \<times> string) list \<Rightarrow> bool" where
  "plain_pieces ps \<longleftrightarrow> list_all (\<lambda>p. piece p \<noteq> [] \<and> list_all (\<lambda>c. \<not> re_space c) (piece p) \<and> (IsParameter (fst p) \<longrightarrow> plain_value (snd p))) ps"

lemma compile_shape: "ts \<noteq> [] \<Longrightarrow> \<exists>i js. compile_tokens ts = i # js \<and> (js = [] \<or> (\<exists>ks. js = Spaces # ks))"
  by (induction ts rule: compile_tokens.induct) auto

lemma match_piece:
  assumes "piece p \<noteq> []" "IsParameter (fst p) \<Longrightarrow> plain_value (snd p)" "is = [] \<or> (\<exists>js. is = Spaces # js)"
    "match_items is w = Some vs"
  shows "match_items (getInputPattern (fst p) # is) (piece p @ w) = Some ((if IsParameter (fst p) then [snd p] else []) @ vs)"
proof (cases "tk_Type (fst p)")
  case notParameter
  then show ?thesis using match_literal [OF assms(4)] by (simp add: getInputPattern_def piece_def IsParameter_def)
qed (use assms match_value in \<open>simp_all add: getInputPattern_def piece_def IsParameter_def captures_def\<close>)

lemma match_command_text:
  "ps \<noteq> [] \<Longrightarrow> plain_pieces ps \<Longrightarrow>
     match_items (compile_tokens (map fst ps)) (command_text ps) = Some (map snd (filter (\<lambda>p. IsParameter (fst p)) ps))"
proof (induction ps)
  case (Cons p ps)
  have p: "piece p \<noteq> []" "IsParameter (fst p) \<Longrightarrow> plain_value (snd p)" and ps: "plain_pieces ps"
    using Cons.prems(2) by (auto simp: plain_pieces_def)
  show ?case
  proof (cases ps)
    case Nil
    then show ?thesis using match_piece [OF p, of "[]" "[]" "[]"] by (simp add: command_text_def)
  next
    case (Cons q qs)
    then have ih: "match_items (compile_tokens (map fst ps)) (command_text ps) = Some (map snd (filter (\<lambda>p. IsParameter (fst p)) ps))"
      using Cons.IH ps by simp
    obtain c r where c: "command_text ps = c # r" "\<not> re_space c"
    proof -
      have "piece q \<noteq> []" "list_all (\<lambda>c. \<not> re_space c) (piece q)" using ps Cons by (auto simp: plain_pieces_def)
      then obtain c r where "piece q = c # r" "\<not> re_space c" by (cases "piece q") auto
      then show ?thesis using that Cons by (cases qs) (auto simp: command_text_def)
    qed
    have "match_items (Spaces # compile_tokens (map fst ps)) (CHR 0x20 # command_text ps) =
        Some (map snd (filter (\<lambda>p. IsParameter (fst p)) ps))"
      using ih spaces_one [OF c(2), of r] by (simp add: c captures_def del: compile_tokens.simps)
    from match_piece [OF p _ this] Cons show ?thesis by (simp add: command_text_def)
  qed
qed simp


lemma create_all: "create tokens (length tokens) = tokens"
proof -
  have "filter (\<lambda>(i, t). \<not> IsParameter t \<or> i < length tokens) (enumerate 0 tokens) = enumerate 0 tokens"
    by (auto simp: filter_id_conv in_set_enumerate_eq)
  then show ?thesis by (simp add: create_def map_snd_enumerate)
qed

lemma generate_first: "tokens \<noteq> [] \<Longrightarrow> \<exists>es. generate tokens = compile_tokens tokens # es"
  by (simp add: generate_def create_all)

lemma fold_mput_get:
  "distinct (map fst kvs) \<Longrightarrow> mget (fold (\<lambda>(k, v) m. mput k v m) kvs m) x =
     (case map_of kvs x of Some v \<Rightarrow> Some v | None \<Rightarrow> mget m x)"
proof (induction kvs arbitrary: m)
  case (Cons kv kvs)
  obtain k v where kv: "kv = (k, v)" by fastforce
  with Cons.prems have "map_of kvs k = None" by (simp add: map_of_eq_None_iff)
  with Cons kv show ?case by (auto simp: gm.lookup_insert split: option.splits)
qed simp

lemma zip_filter_params: "zip (filter IsParameter (map fst ps)) (map snd (filter (\<lambda>p. IsParameter (fst p)) ps)) =
    filter (\<lambda>p. IsParameter (fst p)) ps"
  by (induction ps) auto

text \<open>
  C20: what a user writes in the form of the help text is read as it is meant. For every command, a line made of
  its words and a plain value per parameter is matched by the command, and each parameter has its value.
\<close>

theorem command_line_round_trip:
  assumes "map fst ps = tokenize usage" "ps \<noteq> []" "plain_pieces ps"
    and "distinct (map (tk_Word \<circ> fst) (filter (\<lambda>p. IsParameter (fst p)) ps))"
  shows "\<exists>params. Match (NewBotCommand usage private) (command_text ps) = Matched params \<and>
    (\<forall>t v. (t, v) \<in> set ps \<and> IsParameter t \<longrightarrow> mget params (tk_Word t) = Some v)"
proof -
  let ?kvs = "map (\<lambda>(t, v). (tk_Word t, v)) (filter (\<lambda>p. IsParameter (fst p)) ps)"
  have ne: "map fst ps \<noteq> []" using assms(2) by simp
  obtain es where "generate (map fst ps) = compile_tokens (map fst ps) # es" using generate_first [OF ne] by blast
  moreover have "compile_tokens (map fst ps) \<noteq> []" using compile_shape [OF ne] by auto
  ultimately have "match_expressions (generate (map fst ps)) (command_text ps) =
      Some (Some (map snd (filter (\<lambda>p. IsParameter (fst p)) ps)))"
    using match_command_text [OF assms(2,3)] by simp
  then have m: "Match (NewBotCommand usage private) (command_text ps) = Matched (fold (\<lambda>(k, v) m. mput k v m) ?kvs [])"
    using zip_filter_params [of ps]
    by (simp add: Match_def NewBotCommand_def command_match_def assms(1) [symmetric] fold_map comp_def case_prod_beta')
  have d: "distinct (map fst ?kvs)" using assms(4) by (simp add: comp_def case_prod_beta')
  have "mget (fold (\<lambda>(k, v) m. mput k v m) ?kvs []) (tk_Word t) = Some v" if "(t, v) \<in> set ps" "IsParameter t" for t v
  proof -
    have "(tk_Word t, v) \<in> set ?kvs" using that by force
    then have "map_of ?kvs (tk_Word t) = Some v" using d by (simp add: map_of_eq_Some_iff)
    then show ?thesis by (simp add: fold_mput_get [OF d])
  qed
  with m show ?thesis by blast
qed


lemma tokenize_rosa:
  "tokenize ''rosa create <version> <duration>'' =
     [\<lparr>tk_Word = ''rosa'', tk_Type = notParameter\<rparr>, \<lparr>tk_Word = ''create'', tk_Type = notParameter\<rparr>,
      \<lparr>tk_Word = ''version'', tk_Type = greedyParameter\<rparr>, \<lparr>tk_Word = ''duration'', tk_Type = greedyParameter\<rparr>]"
  by code_simp

theorem command_line_round_trip_witness:
  "\<exists>params. Match (NewBotCommand ''rosa create <version> <duration>'' False) ''rosa create 4.19 3h'' = Matched params \<and>
     mget params ''version'' = Some ''4.19'' \<and> mget params ''duration'' = Some ''3h''"
proof -
  let ?ps = "zip (tokenize ''rosa create <version> <duration>'') [[], [], ''4.19'', ''3h'']"
  have t: "command_text ?ps = ''rosa create 4.19 3h''"
    by (simp add: tokenize_rosa command_text_def piece_def IsParameter_def)
  have "plain_pieces ?ps"
    by (simp add: tokenize_rosa plain_pieces_def plain_value_def piece_def IsParameter_def re_space_def)
  moreover have "distinct (map (tk_Word \<circ> fst) (filter (\<lambda>p. IsParameter (fst p)) ?ps))"
    by (simp add: tokenize_rosa IsParameter_def)
  moreover have "map fst ?ps = tokenize ''rosa create <version> <duration>''" "?ps \<noteq> []" by (simp_all add: tokenize_rosa)
  ultimately obtain params where p: "Match (NewBotCommand ''rosa create <version> <duration>'' False) (command_text ?ps) = Matched params"
      "\<forall>t v. (t, v) \<in> set ?ps \<and> IsParameter t \<longrightarrow> mget params (tk_Word t) = Some v"
    using command_line_round_trip [of ?ps "''rosa create <version> <duration>''" False] by blast
  have in_ps: "(\<lparr>tk_Word = ''version'', tk_Type = greedyParameter\<rparr>, ''4.19'') \<in> set ?ps"
      "(\<lparr>tk_Word = ''duration'', tk_Type = greedyParameter\<rparr>, ''3h'') \<in> set ?ps"
    by (simp_all add: tokenize_rosa)
  have "IsParameter \<lparr>tk_Word = w, tk_Type = greedyParameter\<rparr>" for w by (simp add: IsParameter_def)
  with p(2) in_ps have "mget params ''version'' = Some ''4.19''" "mget params ''duration'' = Some ''3h''"
    by (metis Token.select_convs(1))+
  with p(1) show ?thesis unfolding t by blast
qed

section \<open>Dispatch\<close>

lemma find_command_Executed:
  "find_command allowed cs text = Executed c params \<Longrightarrow>
     \<exists>pre post. cs = pre @ c # post \<and> Match c text = Matched params \<and> (bc_private c \<longrightarrow> allowed) \<and>
       (\<forall>d \<in> set pre. (bc_private d \<and> \<not> allowed) \<or> Match d text = NoMatch)"
proof (induction cs)
  case (Cons d cs)
  show ?case
  proof (cases "(\<not> bc_private d \<or> allowed) \<and> Match d text \<noteq> NoMatch")
    case True
    then have "c = d" "Match c text = Matched params" using Cons.prems by (auto split: match_result.splits if_splits)
    then show ?thesis using True by (intro exI [of _ "[]"] exI [of _ cs]) auto
  next
    case False
    then have "find_command allowed cs text = Executed c params" using Cons.prems by (auto split: match_result.splits if_splits)
    from Cons.IH [OF this] obtain pre post where "cs = pre @ c # post" "Match c text = Matched params" "bc_private c \<longrightarrow> allowed"
        "\<forall>d \<in> set pre. (bc_private d \<and> \<not> allowed) \<or> Match d text = NoMatch" by blast
    then show ?thesis using False by (intro exI [of _ "d # pre"] exI [of _ post]) auto
  qed
qed simp

text \<open>
  A command runs only for a direct message of a person, and only one command runs: the first one of the table that the
  user may use and that matches the text.
\<close>

theorem message_dispatch:
  assumes "Handle mceUsers botCommands event = Executed c params"
  shows "ev_BotID event = [] \<and> has_prefix (ev_Channel event) ''D'' \<and> ev_SubType event \<noteq> ''message_changed'' \<and>
    (\<exists>pre post. botCommands = pre @ c # post \<and> Match c (ev_Text event) = Matched params \<and>
       (bc_private c \<longrightarrow> ev_User event \<in> set mceUsers) \<and>
       (\<forall>d \<in> set pre. (bc_private d \<and> ev_User event \<notin> set mceUsers) \<or> Match d (ev_Text event) = NoMatch))"
proof -
  have "find_command (ev_User event \<in> set mceUsers) botCommands (ev_Text event) = Executed c params" "ev_BotID event = []"
      "has_prefix (ev_Channel event) ''D''" "ev_SubType event \<noteq> ''message_changed''"
    using assms unfolding Handle_def Let_def by (auto split: if_splits)
  with find_command_Executed show ?thesis by blast
qed

lemma sample_done: "Match (NewBotCommand ''done'' False) ''done'' = Matched []"
  by code_simp

theorem message_dispatch_witness:
  "Handle [] [NewBotCommand ''done'' False] \<lparr>ev_BotID = [], ev_Channel = ''D1'', ev_SubType = [], ev_User = ''U1'', ev_Text = ''done''\<rparr>
     = Executed (NewBotCommand ''done'' False) [] \<and> has_prefix ''D1'' ''D''"
proof -
  let ?e = "\<lparr>ev_BotID = [], ev_Channel = ''D1'', ev_SubType = [], ev_User = ''U1'', ev_Text = ''done''\<rparr>"
  have "hd (GoStrings.fields (trim_space ''done'')) \<noteq> ''help''" "has_prefix ''D1'' ''D''" by code_simp+
  then have h: "Handle [] [NewBotCommand ''done'' False] ?e = Executed (NewBotCommand ''done'' False) []"
    using sample_done by (simp add: Handle_def Let_def) (simp add: NewBotCommand_def)
  from message_dispatch [OF this] h show ?thesis by simp
qed

text \<open>No supported command is private, so the gate for users of managed clusters never closes.\<close>

lemma no_command_is_private: "c \<in> set SupportedCommands \<Longrightarrow> \<not> bc_private c"
  by (auto simp: SupportedCommands_def NewBotCommand_def)

end
