(* ===== verification/Actions.thy ===== *)
theory Actions
  imports JobConfig CommandParser
begin

text \<open>
  The handlers of \<open>pkg/slack/actions.go\<close> that concern jobs. A handler reads its arguments, checks them and builds
  the \<open>JobRequest\<close> it passes to \<open>LaunchJobForUser\<close>; the other handlers call one operation of the manager. The
  Slack client is the parameter \<open>emails\<close> (the e-mail of a user, or nothing when \<open>GetUserInfo\<close> fails).
\<close>

section \<open>Arguments\<close>

definition GetUserName :: "(string \<Rightarrow> string option) \<Rightarrow> string \<Rightarrow> string" where
  "GetUserName emails user =
     (case emails user of
        None \<Rightarrow> []
      | Some email \<Rightarrow> (case cut_suffix email ''@redhat.com'' of None \<Rightarrow> [] | Some before \<Rightarrow> before))"

datatype action_error =
    EmptyInput
  | BadOptions option_error
  | BadParameters build_error
  | NoSuchWorkflow string "string list"
  | WorkflowArchitecture string
  | TestFromLaunch
  | NoUpgradeImage
  | OnlyUpgradeTests
  | NothingToTest
  | NoTestName
  | CustomTestName
  | UpgradeNeedsUpgradeCommand
  | NoPullRequest
  | NoBundleName
  | NoWorkflowName
  | NoInitialRelease
  | NoTargetRelease

definition image_input :: "(string, string) gomap \<Rightarrow> string \<Rightarrow> (action_error, string list) result" where
  "image_input properties name =
     (case ParseImageInput (StringParam name [] properties) of None \<Rightarrow> Inl EmptyInput | Some parts \<Rightarrow> Inr parts)"

text \<open>An argument that must be given; \<open>e\<close> is the answer when it is empty.\<close>

definition needed_input :: "action_error \<Rightarrow> (string, string) gomap \<Rightarrow> string \<Rightarrow> (action_error, string list) result" where
  "needed_input e properties name =
     rbind (image_input properties name) (\<lambda>from. if from = [] then Inl e else Inr from)"

definition parsed_options :: "string list \<Rightarrow> (string, string) gomap \<Rightarrow> string list list \<Rightarrow> JobType \<Rightarrow>
    (action_error, string \<times> string \<times> (string, string) gomap) result" where
  "parsed_options versions properties inputs jobType =
     (case ParseOptions versions (StringParam ''options'' [] properties) inputs jobType of
        Inl e \<Rightarrow> Inl (BadOptions e)
      | Inr r \<Rightarrow> Inr r)"

definition GetPlatformArchFromWorkflowConfig :: "(string, WorkflowConfigItem) gomap \<Rightarrow> string \<Rightarrow>
    (action_error, string \<times> string) result" where
  "GetPlatformArchFromWorkflowConfig workflows name =
     (case mget workflows name of
        None \<Rightarrow> Inl (NoSuchWorkflow name (sort (mkeys workflows)))
      | Some w \<Rightarrow>
          if wi_Architecture w \<noteq> [] \<and> wi_Architecture w \<notin> set SupportedArchitectures
          then Inl (WorkflowArchitecture (wi_Architecture w))
          else let arch = (if wi_Architecture w \<noteq> [] then wi_Architecture w else ''amd64'') in
            Inr (wi_Platform w, if wi_Platform w = ''hypershift-hosted'' then ''multi'' else arch))"

section \<open>The requests\<close>

text \<open>The \<open>JobRequest\<close> literals of the handlers.\<close>

definition job_request :: "(string \<Rightarrow> string option) \<Rightarrow> MessageEvent \<Rightarrow> string list list \<Rightarrow> JobType \<Rightarrow> string \<Rightarrow> string \<Rightarrow>
    (string, string) gomap \<Rightarrow> string \<Rightarrow> JobRequest" where
  "job_request emails event inputs jobType platform architecture params workflow =
     \<lparr>rq_OriginalMessage = ev_Text event, rq_User = ev_User event, rq_UserName = GetUserName emails (ev_User event),
      rq_Inputs = inputs, rq_Type = jobType, rq_Platform = platform, rq_WorkflowName = workflow,
      rq_Channel = ev_Channel event, rq_RequestedAt = 0, rq_Name = [], rq_JobName = [], rq_JobParams = params,
      rq_Architecture = architecture, rq_ManagedClusterName = []\<rparr>"

record action_env =
  ac_emails :: "string \<Rightarrow> string option"
  ac_versions :: "string list"
  ac_workflows :: "(string, WorkflowConfigItem) gomap"

definition launch_request :: "action_env \<Rightarrow> MessageEvent \<Rightarrow> (string, string) gomap \<Rightarrow> (action_error, JobRequest) result" where
  "launch_request ac event properties =
     rbind (image_input properties ''image_or_version_or_prs'') (\<lambda>from.
       let inputs = (if from \<noteq> [] then [from] else []) in
       rbind (parsed_options (ac_versions ac) properties inputs JobTypeInstall) (\<lambda>(platform, architecture, params).
         if mget0 [] params ''test'' \<noteq> [] then Inl TestFromLaunch
         else Inr (job_request (ac_emails ac) event inputs JobTypeInstall platform architecture params [])))"

definition upgrade_request :: "action_env \<Rightarrow> MessageEvent \<Rightarrow> (string, string) gomap \<Rightarrow> (action_error, JobRequest) result" where
  "upgrade_request ac event properties =
     rbind (needed_input NoUpgradeImage properties ''from'') (\<lambda>from.
     rbind (image_input properties ''to'') (\<lambda>to0.
       let to = (if to0 = [] then from else to0) in
       rbind (parsed_options (ac_versions ac) properties [from, to] JobTypeUpgrade) (\<lambda>(platform, architecture, params0).
         let params = (if mget0 [] params0 ''test'' = [] then mput ''test'' ''e2e-upgrade'' params0 else params0) in
         if \<not> contains (mget0 [] params ''test'') ''-upgrade'' then Inl OnlyUpgradeTests
         else Inr (job_request (ac_emails ac) event [from, to] JobTypeUpgrade platform architecture params []))))"

definition test_request :: "action_env \<Rightarrow> MessageEvent \<Rightarrow> (string, string) gomap \<Rightarrow> (action_error, JobRequest) result" where
  "test_request ac event properties =
     rbind (needed_input NothingToTest properties ''image_or_version_or_prs'') (\<lambda>from.
       let test = StringParam ''name'' [] properties in
       if test = [] then Inl NoTestName
       else if test \<notin> set SupportedTests then Inl CustomTestName
       else rbind (parsed_options (ac_versions ac) properties [from] JobTypeTest) (\<lambda>(platform, architecture, params0).
         let params = mput ''test'' test params0 in
         if contains (mget0 [] params ''test'') ''-upgrade'' then Inl UpgradeNeedsUpgradeCommand
         else Inr (job_request (ac_emails ac) event [from] JobTypeTest platform architecture params [])))"

definition catalog_request :: "action_env \<Rightarrow> MessageEvent \<Rightarrow> (string, string) gomap \<Rightarrow> (action_error, JobRequest) result" where
  "catalog_request ac event properties =
     rbind (needed_input NoPullRequest properties ''pullrequest'') (\<lambda>from.
     rbind (needed_input NoBundleName properties ''bundle_name'') (\<lambda>bundleName.
     rbind (parsed_options (ac_versions ac) properties [from] JobTypeCatalog) (\<lambda>(platform, architecture, _).
       Inr (job_request (ac_emails ac) event [from] JobTypeCatalog platform architecture [(''bundle'', hd bundleName)] []))))"

definition build_request :: "action_env \<Rightarrow> MessageEvent \<Rightarrow> (string, string) gomap \<Rightarrow> (action_error, JobRequest) result" where
  "build_request ac event properties =
     rbind (needed_input NoPullRequest properties ''pullrequest'') (\<lambda>from.
     rbind (parsed_options (ac_versions ac) properties [from] JobTypeBuild) (\<lambda>(platform, architecture, params).
       Inr (job_request (ac_emails ac) event [from] JobTypeBuild platform architecture params [])))"

text \<open>The common part of the workflow handlers, after their inputs.\<close>

definition workflow_request :: "action_env \<Rightarrow> MessageEvent \<Rightarrow> (string, string) gomap \<Rightarrow> string list list \<Rightarrow> JobType \<Rightarrow>
    (action_error, JobRequest) result" where
  "workflow_request ac event properties inputs jobType =
     (let name = StringParam ''name'' [] properties in
      if name = [] then Inl NoWorkflowName
      else rbind (GetPlatformArchFromWorkflowConfig (ac_workflows ac) name) (\<lambda>(platform, architecture).
        (case BuildJobParams (StringParam ''parameters'' [] properties) of
           Inl e \<Rightarrow> Inl (BadParameters e)
         | Inr params \<Rightarrow> Inr (job_request (ac_emails ac) event inputs jobType platform architecture params name))))"

definition workflow_launch_request :: "action_env \<Rightarrow> MessageEvent \<Rightarrow> (string, string) gomap \<Rightarrow> (action_error, JobRequest) result" where
  "workflow_launch_request ac event properties =
     rbind (needed_input NothingToTest properties ''image_or_version_or_prs'') (\<lambda>from.
       workflow_request ac event properties [from] JobTypeWorkflowLaunch)"

definition workflow_test_request :: "action_env \<Rightarrow> MessageEvent \<Rightarrow> (string, string) gomap \<Rightarrow> (action_error, JobRequest) result" where
  "workflow_test_request ac event properties =
     rbind (needed_input NothingToTest properties ''image_or_version_or_prs'') (\<lambda>from.
       workflow_request ac event properties [from] JobTypeWorkflowTest)"

definition workflow_upgrade_request :: "action_env \<Rightarrow> MessageEvent \<Rightarrow> (string, string) gomap \<Rightarrow> (action_error, JobRequest) result" where
  "workflow_upgrade_request ac event properties =
     rbind (needed_input NoInitialRelease properties ''from_image_or_version_or_prs'') (\<lambda>from.
     rbind (needed_input NoTargetRelease properties ''to_image_or_version_or_prs'') (\<lambda>to.
       workflow_request ac event properties [from, to] JobTypeWorkflowUpgrade))"

section \<open>The handlers\<close>

datatype reply =
    ActionError action_error
  | LaunchReply launch_outcome
  | TerminateReply terminate_outcome
  | RefreshReply "(manager_error, refresh_message) result"
  | AuthRosa RosaCluster string
  | AuthJob Job
  | AuthError manager_error
  | LookupReply "(input_error, string option) result"
  | LookupArchitectures
  | LookupArchitecture string

definition run_request :: "'v environment \<Rightarrow> (Job \<Rightarrow> OperatorInfo \<times> (string, string) result) \<Rightarrow> manager \<Rightarrow> gotime \<Rightarrow>
    (action_error, JobRequest) result \<Rightarrow> manager \<times> reply \<times> event list" where
  "run_request env newjob m now r =
     (case r of
        Inl e \<Rightarrow> (m, ActionError e, [])
      | Inr req \<Rightarrow> (case LaunchJobForUser env newjob m now req of (m', out, evs) \<Rightarrow> (m', LaunchReply out, evs)))"

definition LaunchCluster :: "action_env \<Rightarrow> 'v environment \<Rightarrow> (Job \<Rightarrow> OperatorInfo \<times> (string, string) result) \<Rightarrow> manager \<Rightarrow>
    gotime \<Rightarrow> MessageEvent \<Rightarrow> (string, string) gomap \<Rightarrow> manager \<times> reply \<times> event list" where
  "LaunchCluster ac env newjob m now event properties = run_request env newjob m now (launch_request ac event properties)"

definition TestUpgrade :: "action_env \<Rightarrow> 'v environment \<Rightarrow> (Job \<Rightarrow> OperatorInfo \<times> (string, string) result) \<Rightarrow> manager \<Rightarrow>
    gotime \<Rightarrow> MessageEvent \<Rightarrow> (string, string) gomap \<Rightarrow> manager \<times> reply \<times> event list" where
  "TestUpgrade ac env newjob m now event properties = run_request env newjob m now (upgrade_request ac event properties)"

definition Test :: "action_env \<Rightarrow> 'v environment \<Rightarrow> (Job \<Rightarrow> OperatorInfo \<times> (string, string) result) \<Rightarrow> manager \<Rightarrow>
    gotime \<Rightarrow> MessageEvent \<Rightarrow> (string, string) gomap \<Rightarrow> manager \<times> reply \<times> event list" where
  "Test ac env newjob m now event properties = run_request env newjob m now (test_request ac event properties)"

definition CatalogBuild :: "action_env \<Rightarrow> 'v environment \<Rightarrow> (Job \<Rightarrow> OperatorInfo \<times> (string, string) result) \<Rightarrow> manager \<Rightarrow>
    gotime \<Rightarrow> MessageEvent \<Rightarrow> (string, string) gomap \<Rightarrow> manager \<times> reply \<times> event list" where
  "CatalogBuild ac env newjob m now event properties = run_request env newjob m now (catalog_request ac event properties)"

definition Build :: "action_env \<Rightarrow> 'v environment \<Rightarrow> (Job \<Rightarrow> OperatorInfo \<times> (string, string) result) \<Rightarrow> manager \<Rightarrow>
    gotime \<Rightarrow> MessageEvent \<Rightarrow> (string, string) gomap \<Rightarrow> manager \<times> reply \<times> event list" where
  "Build ac env newjob m now event properties = run_request env newjob m now (build_request ac event properties)"

definition WorkflowLaunch :: "action_env \<Rightarrow> 'v environment \<Rightarrow> (Job \<Rightarrow> OperatorInfo \<times> (string, string) result) \<Rightarrow> manager \<Rightarrow>
    gotime \<Rightarrow> MessageEvent \<Rightarrow> (string, string) gomap \<Rightarrow> manager \<times> reply \<times> event list" where
  "WorkflowLaunch ac env newjob m now event properties =
     run_request env newjob m now (workflow_launch_request ac event properties)"

definition WorkflowTest :: "action_env \<Rightarrow> 'v environment \<Rightarrow> (Job \<Rightarrow> OperatorInfo \<times> (string, string) result) \<Rightarrow> manager \<Rightarrow>
    gotime \<Rightarrow> MessageEvent \<Rightarrow> (string, string) gomap \<Rightarrow> manager \<times> reply \<times> event list" where
  "WorkflowTest ac env newjob m now event properties =
     run_request env newjob m now (workflow_test_request ac event properties)"

definition WorkflowUpgrade :: "action_env \<Rightarrow> 'v environment \<Rightarrow> (Job \<Rightarrow> OperatorInfo \<times> (string, string) result) \<Rightarrow> manager \<Rightarrow>
    gotime \<Rightarrow> MessageEvent \<Rightarrow> (string, string) gomap \<Rightarrow> manager \<times> reply \<times> event list" where
  "WorkflowUpgrade ac env newjob m now event properties =
     run_request env newjob m now (workflow_upgrade_request ac event properties)"

definition Done :: "(string \<Rightarrow> string option) \<Rightarrow> (string \<Rightarrow> string \<Rightarrow> stop_result) \<Rightarrow> manager \<Rightarrow> gotime \<Rightarrow> MessageEvent \<Rightarrow>
    manager \<times> reply \<times> event list" where
  "Done rosaDelete stop m now event =
     (case TerminateJobForUser rosaDelete stop m m now (ev_User event) of
        (m', out, evs) \<Rightarrow> (m', TerminateReply out, evs))"

definition Refresh :: "manager \<Rightarrow> MessageEvent \<Rightarrow> manager \<times> reply \<times> event list" where
  "Refresh m event = (case SyncJobForUser m (ev_User event) of (r, evs) \<Rightarrow> (m, RefreshReply r, evs))"

text \<open>\<open>Auth\<close>: what is sent to the user, a ROSA cluster with its password or the job with the channel of the message.\<close>

definition Auth :: "manager \<Rightarrow> MessageEvent \<Rightarrow> reply" where
  "Auth m event =
     (case getROSAClusterForUser m (ev_User event) of
        Some (c, password) \<Rightarrow> AuthRosa c password
      | None \<Rightarrow>
          (case GetLaunchJob m (ev_User event) of
             Inl e \<Rightarrow> AuthError e
           | Inr job \<Rightarrow> AuthJob (job\<lparr>jb_RequestedChannel := ev_Channel event\<rparr>)))"

definition Lookup :: "'v resolver \<Rightarrow> (string, string) gomap \<Rightarrow> reply" where
  "Lookup rv properties =
     (case image_input properties ''image_or_version_or_prs'' of
        Inl e \<Rightarrow> ActionError e
      | Inr from \<Rightarrow>
          (case image_input properties ''architecture'' of
             Inl e \<Rightarrow> ActionError e
           | Inr raw \<Rightarrow>
               if 1 < length raw then LookupArchitectures
               else let architecture = (case raw of [a] \<Rightarrow> a | _ \<Rightarrow> ''amd64'') in
                 if architecture \<notin> set SupportedArchitectures then LookupArchitecture architecture
                 else LookupReply (LookupInputs rv from architecture)))"

end
