(* ===== verification/RandomNames.thy ===== *)
theory RandomNames
  imports GoStrings
begin

text \<open>
  Random names and passwords: \<open>generateRandomString\<close> of \<open>pkg/manager/rosa.go\<close>, which names managed and ROSA
  clusters and makes their passwords. The random source is an argument: the number of a draw and its
  exclusive bound give the drawn number, or nothing when the source fails.
\<close>

section \<open>The generator\<close>

type_synonym random_source = "nat \<Rightarrow> nat \<Rightarrow> nat option"

definition lowerLetters :: string where
  "lowerLetters = ''abcdefghijkmnopqrstuvwxyz''"

definition upperLetters :: string where
  "upperLetters = ''ABCDEFGHIJKLMNPQRSTUVWXYZ''"

definition random_digits :: string where
  "random_digits = ''23456789''"

definition alphabet :: "bool \<Rightarrow> string" where
  "alphabet onlyLower = (if onlyLower then lowerLetters @ random_digits else lowerLetters @ upperLetters @ random_digits)"

text \<open>One round draws a character and the place where it is inserted; the first round inserts it twice.\<close>

fun random_loop :: "random_source \<Rightarrow> string \<Rightarrow> nat \<Rightarrow> nat \<Rightarrow> string \<Rightarrow> (string \<times> nat) option" where
  "random_loop rnd chars 0 k password = Some (password, k)"
| "random_loop rnd chars (Suc rounds) k password =
     (case rnd k (length chars) of
        None \<Rightarrow> None
      | Some n \<Rightarrow>
          let newchar = chars ! n;
              password' = (if password = [] then [newchar] else password) in
          (case rnd (k + 1) (length password' + 1) of
             None \<Rightarrow> None
           | Some j \<Rightarrow> random_loop rnd chars rounds (k + 2) (take j password' @ [newchar] @ drop j password')))"

fun put_dashes :: "nat list \<Rightarrow> nat \<Rightarrow> string \<Rightarrow> string" where
  "put_dashes [] len pw = pw"
| "put_dashes (replace # rest) len pw =
     (if len < replace + 2 then pw else put_dashes rest len (pw[replace := CHR ''-'']))"

definition generateRandomString :: "random_source \<Rightarrow> nat \<Rightarrow> bool \<Rightarrow> string option" where
  "generateRandomString rnd len onlyLower =
     (case random_loop rnd (alphabet onlyLower) (len - 2) 0 [] of
        None \<Rightarrow> None
      | Some (password, k) \<Rightarrow>
          (case rnd k (length lowerLetters) of
             None \<Rightarrow> None
           | Some n \<Rightarrow> let pw = (lowerLetters ! n) # password in Some (put_dashes [5, 11, 17] (length pw) pw)))"

section \<open>What a source promises\<close>

definition source_ok :: "random_source \<Rightarrow> bool" where
  "source_ok rnd \<longleftrightarrow> (\<forall>k n x. rnd k n = Some x \<longrightarrow> x < n)"

definition source_total :: "random_source \<Rightarrow> bool" where
  "source_total rnd \<longleftrightarrow> (\<forall>k n. 0 < n \<longrightarrow> rnd k n \<noteq> None)"

lemma random_loop_length:
  assumes "source_ok rnd" "random_loop rnd chars rounds k password = Some (s, k')"
  shows "length s = (if rounds = 0 then length password else if password = [] then rounds + 1 else length password + rounds)"
  using assms(2)
proof (induction rounds arbitrary: k password)
  case (Suc rounds)
  then show ?case
    by (fastforce simp: Let_def split: option.splits if_splits)
qed simp

lemma random_loop_chars:
  assumes "source_ok rnd" "random_loop rnd chars rounds k password = Some (s, k')" "set password \<subseteq> set chars"
  shows "set s \<subseteq> set chars"
  using assms(2,3)
proof (induction rounds arbitrary: k password)
  case (Suc rounds)
  then obtain n j where n: "rnd k (length chars) = Some n"
      and r: "random_loop rnd chars rounds (k + 2) (take j (if password = [] then [chars ! n] else password) @ [chars ! n] @
          drop j (if password = [] then [chars ! n] else password)) = Some (s, k')"
    by (auto simp: Let_def split: option.splits)
  have c: "chars ! n \<in> set chars" using n assms(1) by (auto simp: source_ok_def)
  have "set (take j w @ [chars ! n] @ drop j w) \<subseteq> set chars" if "set w \<subseteq> set chars" for w
    using that c by (auto dest: in_set_takeD in_set_dropD)
  then show ?case using Suc.IH [OF r] Suc.prems(2) c by simp
qed simp

lemma random_loop_total:
  assumes "source_total rnd" "chars \<noteq> []"
  shows "random_loop rnd chars rounds k password \<noteq> None"
proof (induction rounds arbitrary: k password)
  case (Suc rounds)
  obtain n where n: "rnd k (length chars) = Some n" using assms unfolding source_total_def by (meson length_greater_0_conv not_None_eq)
  obtain j where "rnd (k + 1) (length (if password = [] then [chars ! n] else password) + 1) = Some j"
    using assms(1) by (auto simp: source_total_def)
  then show ?case using n Suc by (simp add: Let_def)
qed simp

lemma put_dashes_length [simp]: "length (put_dashes rs len pw) = length pw"
  by (induction rs arbitrary: pw) auto

lemma put_dashes_nth:
  assumes "sorted_wrt (<) rs" "len = length pw" "i < length pw"
  shows "put_dashes rs len pw ! i = (if i \<in> set rs \<and> i + 2 \<le> len then CHR ''-'' else pw ! i)"
  using assms
proof (induction rs arbitrary: pw)
  case (Cons r rs)
  have "put_dashes rs len (pw[r := CHR ''-'']) ! i =
      (if i \<in> set rs \<and> i + 2 \<le> len then CHR ''-'' else pw[r := CHR ''-''] ! i)"
    using Cons.IH [of "pw[r := CHR ''-'']"] Cons.prems by simp
  then show ?case using Cons.prems by (auto simp: nth_list_update)
qed simp

lemma alphabet_chars:
  "set lowerLetters \<subseteq> set (alphabet l)" "alphabet l \<noteq> []" "CHR ''-'' \<notin> set (alphabet l)" "lowerLetters \<noteq> []"
  by (auto simp: alphabet_def lowerLetters_def upperLetters_def random_digits_def)

section \<open>Properties\<close>

lemma generate_SomeE:
  assumes "generateRandomString rnd n l = Some s" "source_ok rnd" "3 \<le> n"
  obtains c password where "s = put_dashes [5, 11, 17] n (c # password)" "length password = n - 1"
    "c \<in> set lowerLetters" "set password \<subseteq> set (alphabet l)"
proof -
  obtain password k x where l: "random_loop rnd (alphabet l) (n - 2) 0 [] = Some (password, k)"
      and x: "rnd k (length lowerLetters) = Some x"
      and s: "s = put_dashes [5, 11, 17] (length (lowerLetters ! x # password)) (lowerLetters ! x # password)"
    using assms(1) by (auto simp: generateRandomString_def Let_def split: option.splits)
  have "length password = n - 1" using random_loop_length [OF assms(2) l] assms(3) by simp
  then show thesis
    using that [of "lowerLetters ! x" password] s x assms(2,3) random_loop_chars [OF assms(2) l]
    by (auto simp: source_ok_def)
qed

text \<open>
  A generated name is what the clouds accept as one. From a source that keeps its bounds and never fails the
  generator returns a string of exactly the requested length; it starts with a lower case letter, has a dash
  exactly at the positions 5, 11 and 17 that are not the last one, does not end with a dash, and has only
  characters of the alphabet otherwise (lower case letters and digits when only those are asked for).
\<close>

theorem random_name_shape:
  assumes ok: "source_ok rnd" "source_total rnd" and n: "3 \<le> n"
  shows "\<exists>s. generateRandomString rnd n l = Some s \<and> length s = n \<and> hd s \<in> set lowerLetters \<and> last s \<noteq> CHR ''-'' \<and>
    (\<forall>i < n. if i \<in> {5, 11, 17} \<and> i \<noteq> n - 1 then s ! i = CHR ''-'' else s ! i \<in> set (alphabet l))"
proof -
  obtain s where s: "generateRandomString rnd n l = Some s"
    using random_loop_total [OF ok(2) alphabet_chars(2) [of l], of "n - 2" 0 "[]"] ok(2) alphabet_chars(4)
    by (fastforce simp: generateRandomString_def Let_def source_total_def split: option.splits)
  then obtain c password where e: "s = put_dashes [5, 11, 17] n (c # password)" "length password = n - 1"
      and c: "c \<in> set lowerLetters" "set password \<subseteq> set (alphabet l)"
    using generate_SomeE [OF s ok(1) n] by blast
  have len: "length s = n" using e n by simp
  have old: "(c # password) ! i \<in> set (alphabet l)" if "i < n" for i
    using that c e(2) alphabet_chars(1) [of l] n nth_mem [of i "c # password"] by auto
  have at: "s ! i = (if i \<in> {5, 11, 17} \<and> i + 2 \<le> n then CHR ''-'' else (c # password) ! i)" if "i < n" for i
    using put_dashes_nth [of "[5, 11, 17]" n "c # password" i] that e n by simp
  have "hd s \<in> set lowerLetters" using at [of 0] len n c by (cases s) auto
  moreover have "last s \<in> set (alphabet l)" using at [of "n - 1"] old [of "n - 1"] len n by (simp add: last_conv_nth flip: length_greater_0_conv)
  moreover have "if i \<in> {5, 11, 17} \<and> i \<noteq> n - 1 then s ! i = CHR ''-'' else s ! i \<in> set (alphabet l)" if "i < n" for i
    using at [OF that] old [OF that] that by auto
  ultimately show ?thesis using s len alphabet_chars(3) by metis
qed

theorem random_name_shape_witness:
  "generateRandomString (\<lambda>k n. if n = 0 then None else Some (k mod n)) 15 True = Some ''bcegi-nprtv-zaa'' \<and>
   length ''bcegi-nprtv-zaa'' = 15"
proof -
  let ?r = "\<lambda>k n. if n = 0 then None else Some (k mod n) :: nat option"
  have ok: "source_ok ?r" "source_total ?r" by (auto simp: source_ok_def source_total_def split: if_splits)
  have "\<exists>s. generateRandomString ?r 15 True = Some s \<and> length s = 15"
    using random_name_shape [OF ok, of 15 True] by auto
  moreover have "generateRandomString ?r 15 True = Some ''bcegi-nprtv-zaa''" by code_simp
  ultimately show ?thesis by simp
qed

end
