(* ===== verification/Mce.thy ===== *)
theory Mce
  imports JobSync RandomNames
begin

text \<open>
  Managed (MCE) clusters, part one: the cached state of \<open>pkg/manager/manager.go\<close> and \<open>pkg/manager/mce.go\<close> and the
  periodic \<open>mceSync\<close>, which caches what the hub reports, deletes expired and stale clusters and notifies their
  owners. Syncs are serialized by \<open>mceSyncLock\<close>, so a sync is one step on the state. The clients of the hub are a
  record of their answers during one sync; deletions, created objects, notifications, annotations and
  metrics are events.
\<close>

section \<open>Objects of the hub\<close>

record MceCluster = ManagedCluster +
  mc_CreationTimestamp :: gotime
  mc_Conditions :: "(string \<times> string) list"

record ClusterDeployment =
  cd_Name :: string
  cd_Namespace :: string
  cd_Labels :: "(string, string) gomap"
  cd_BaseDomain :: string
  cd_InstallAttemptsLimit :: nat
  cd_InstallConfigSecretRef :: string
  cd_ImageSetRef :: string
  cd_PullSecretRef :: string
  cd_AWS :: "(string \<times> string) option"
  cd_GCP :: "(string \<times> string) option"
  cd_ClusterMetadata :: "(string \<times> string) option"
  cd_Conditions :: "(string \<times> string) list"

text \<open>The metadata of a \<open>ClusterProvision\<close>, which is all a list returns, and the whole object.\<close>

record ProvisionMeta =
  cp_Name :: string
  cp_Namespace :: string
  cp_ResourceVersion :: string
  cp_CreationTimestamp :: gotime

record ClusterProvision = ProvisionMeta +
  cp_Stage :: string
  cp_InstallLog :: "string option"

record MceUser =
  mu_MaxClusters :: int
  mu_MaxClusterAge :: int
  mu_AwsSecret :: string
  mu_AwsBaseDomain :: string
  mu_GcpSecret :: string
  mu_GcpBaseDomain :: string
  mu_GcpProjectID :: string

abbreviation "UserTag \<equiv> ''ci-chat-bot/user''"
abbreviation "ChannelTag \<equiv> ''ci-chat-bot/channel''"
abbreviation "ExpiryTimeTag \<equiv> ''ci-chat-bot/expiry-time''"
abbreviation "RequestTimeTag \<equiv> ''ci-chat-bot/request-time''"
abbreviation "CustomImageTag \<equiv> ''ci-chat-bot/custom-image''"
abbreviation "UserNotifiedTag \<equiv> ''ci-chat-bot/user-notified''"
abbreviation "RequestedReleaseDisplayTag \<equiv> ''ci-chat-bot/requested-release-display''"
abbreviation "BaseDomain \<equiv> ''ci-chat-bot/base-domain''"
abbreviation "LaunchLabel \<equiv> ''ci-chat-bot.openshift.io/launch''"

section \<open>State and clients\<close>

record mce =
  me_clusters :: "(string, MceCluster) gomap"
  me_deployments :: "(string, ClusterDeployment) gomap"
  me_provisions :: "(string, ClusterProvision) gomap"
  me_kubeconfigs :: "(string, string) gomap"
  me_passwords :: "(string, string) gomap"
  me_imagesets :: "string list"
  me_users :: "(string, MceUser) gomap"
  me_readyAttempts :: "(string, nat) gomap"
  me_failureAttempts :: "(string, nat) gomap"

datatype hub_kind = ImageSetKind | DeploymentKind | ManagedClusterKind
datatype hub_reply = HubOk | HubNotFound | HubError string
datatype users_reply = UsersMissing string | UsersBad string | UsersConfig "(string, MceUser) gomap"

text \<open>
  What the clients answer: \<open>None\<close> is an error of the call. \<open>ma_imagesets\<close> has the name and the launch label of each
  image set; \<open>ma_notifier\<close> is the registered notifier, which reports whether it delivered.
\<close>

record mce_api =
  ma_now :: gotime
  ma_namespaces :: "string list option"
  ma_cluster :: "string \<Rightarrow> MceCluster option"
  ma_deployment :: "string \<Rightarrow> ClusterDeployment option"
  ma_provisionList :: "string \<Rightarrow> ProvisionMeta list option"
  ma_provision :: "string \<Rightarrow> string \<Rightarrow> ClusterProvision option"
  ma_secret :: "string \<Rightarrow> string \<Rightarrow> (string, string) gomap option"
  ma_imagesets :: "(string \<times> string) list option"
  ma_delete :: "hub_kind \<Rightarrow> string \<Rightarrow> hub_reply"
  ma_notifier :: "(MceCluster \<Rightarrow> ClusterDeployment option \<Rightarrow> ClusterProvision option \<Rightarrow> string \<Rightarrow> string \<Rightarrow> bool) option"
  ma_update :: "MceCluster \<Rightarrow> bool"
  ma_users :: users_reply

datatype notice = ReadyNotice | FailureNotice

datatype mce_event =
    MceRecordError string
  | MceRemove hub_kind string
  | MceNotify notice string
  | MceAnnotate MceCluster
  | MceReadyTime string
  | MceGauges nat nat

section \<open>Deleting and authentication\<close>

definition delete_object :: "mce_api \<Rightarrow> hub_kind \<Rightarrow> string \<Rightarrow> string \<Rightarrow> mce_event list \<times> string list" where
  "delete_object api kind name metric =
     (case ma_delete api kind name of
        HubError e \<Rightarrow> ([MceRemove kind name, MceRecordError metric], [e])
      | _ \<Rightarrow> ([MceRemove kind name], []))"

text \<open>\<open>deleteManagedCluster\<close>: the events and the errors it aggregates.\<close>

definition deleteManagedCluster :: "mce_api \<Rightarrow> MceCluster \<Rightarrow> mce_event list \<times> string list" where
  "deleteManagedCluster api cluster =
     (let name = mc_Name cluster;
          (ev1, er1) = (if mget (mc_Annotations cluster) CustomImageTag = Some ''true''
                        then delete_object api ImageSetKind name ''mce_delete_cluster_imageset'' else ([], []));
          (ev2, er2) = delete_object api DeploymentKind name ''mce_delete_deployment'';
          (ev3, er3) = delete_object api ManagedClusterKind name ''mce_delete_managed_cluster'' in
      (ev1 @ ev2 @ ev3, er1 @ er2 @ er3))"

datatype auth_error = AuthNoDeployment | AuthMetadataNotReady | AuthNoSecret

definition getClusterAuth :: "mce_api \<Rightarrow> string \<Rightarrow> mce \<Rightarrow> mce \<times> mce_event list \<times> (auth_error, string \<times> string) result" where
  "getClusterAuth api name m =
     (let k = mget0 [] (me_kubeconfigs m) name; p = mget0 [] (me_passwords m) name in
      if k \<noteq> [] \<and> p \<noteq> [] then (m, [], Inr (k, p))
      else (case ma_deployment api name of
              None \<Rightarrow> (m, [MceRecordError ''mce_get_deployment''], Inl AuthNoDeployment)
            | Some cd \<Rightarrow>
                (case cd_ClusterMetadata cd of
                   None \<Rightarrow> (m, [], Inl AuthMetadataNotReady)
                 | Some (kubeconfigRef, passwordRef) \<Rightarrow>
                     (case (ma_secret api name kubeconfigRef, ma_secret api name passwordRef) of
                        (Some ks, Some ps) \<Rightarrow>
                          let kubeconfig = mget0 [] ks ''kubeconfig''; password = mget0 [] ps ''password'' in
                          (m\<lparr>me_kubeconfigs := mput name kubeconfig (me_kubeconfigs m),
                             me_passwords := mput name password (me_passwords m)\<rparr>, [], Inr (kubeconfig, password))
                      | _ \<Rightarrow> (m, [MceRecordError ''mce_get_auth_secrets''], Inl AuthNoSecret)))))"

section \<open>Listing\<close>

definition listManagedClusters :: "mce_api \<Rightarrow> (MceCluster list \<times> ClusterDeployment list) option" where
  "listManagedClusters api =
     (case ma_namespaces api of
        None \<Rightarrow> None
      | Some namespaces \<Rightarrow> Some (List.map_filter (ma_cluster api) namespaces, List.map_filter (ma_deployment api) namespaces))"

definition newest_provision :: "ProvisionMeta \<Rightarrow> ProvisionMeta list \<Rightarrow> ProvisionMeta" where
  "newest_provision p ps = fold (\<lambda>q newest. if cp_CreationTimestamp newest < cp_CreationTimestamp q then q else newest) ps p"

definition same_provision :: "ClusterProvision \<Rightarrow> ProvisionMeta \<Rightarrow> bool" where
  "same_provision cached q \<longleftrightarrow> cp_Name cached = cp_Name q \<and> cp_Namespace cached = cp_Namespace q \<and>
     cp_ResourceVersion cached = cp_ResourceVersion q"

text \<open>
  One round of \<open>syncProvisions\<close>: the provision of the deployment (if there is one to keep), whether it was freshly
  fetched, and the recorded errors.
\<close>

definition sync_provision :: "mce_api \<Rightarrow> (string, ClusterProvision) gomap \<Rightarrow> string \<Rightarrow>
    ClusterProvision option \<times> bool \<times> mce_event list" where
  "sync_provision api previous name =
     (case ma_provisionList api name of
        None \<Rightarrow> (mget previous name, False, [MceRecordError ''mce_list_cluster_provisions''])
      | Some [] \<Rightarrow> (None, False, [])
      | Some (p # ps) \<Rightarrow>
          let newest = newest_provision p ps in
          if (case mget previous name of None \<Rightarrow> False | Some cached \<Rightarrow> same_provision cached newest)
          then (mget previous name, False, [])
          else (case ma_provision api (cp_Namespace newest) (cp_Name newest) of
                  None \<Rightarrow> (mget previous name, False, [MceRecordError ''mce_list_cluster_provisions''])
                | Some provision \<Rightarrow> (Some provision, True, [])))"

fun syncProvisions :: "mce_api \<Rightarrow> (string, ClusterProvision) gomap \<Rightarrow> ClusterDeployment list \<Rightarrow>
    (string, ClusterProvision) gomap \<times> string list \<times> mce_event list \<Rightarrow>
    (string, ClusterProvision) gomap \<times> string list \<times> mce_event list" where
  "syncProvisions api previous [] acc = acc"
| "syncProvisions api previous (deployment # rest) (provisions, fresh, evs) =
     (let name = cd_Name deployment; (found, isFresh, ev) = sync_provision api previous name in
      syncProvisions api previous rest
        (case found of None \<Rightarrow> provisions | Some p \<Rightarrow> mput name p provisions,
         if isFresh then name # fresh else fresh, evs @ ev))"

definition stripInstallLogs :: "string list \<Rightarrow> (string, ClusterProvision) gomap \<Rightarrow> (string, ClusterProvision) gomap" where
  "stripInstallLogs fresh provisions =
     map (\<lambda>(name, p). (name, if name \<in> set fresh then p\<lparr>cp_InstallLog := None\<rparr> else p)) provisions"

section \<open>Notifications\<close>

definition MceClusterNotifiable :: "MceCluster \<Rightarrow> bool" where
  "MceClusterNotifiable cluster \<longleftrightarrow>
     mget0 [] (mc_Annotations cluster) UserTag \<noteq> [] \<and> mget0 [] (mc_Annotations cluster) ChannelTag \<noteq> []"

definition notifyMce :: "mce_api \<Rightarrow> notice \<Rightarrow> MceCluster \<Rightarrow> ClusterDeployment option \<Rightarrow> ClusterProvision option \<Rightarrow>
    string \<Rightarrow> string \<Rightarrow> mce_event list \<times> bool" where
  "notifyMce api note cluster deployment provision kubeconfig password =
     (case ma_notifier api of
        None \<Rightarrow> ([], False)
      | Some fn \<Rightarrow> ([MceNotify note (mc_Name cluster)], fn cluster deployment provision kubeconfig password))"

text \<open>\<open>deploymentProvisionFailed\<close>: the first condition of that type decides; no deployment has not failed.\<close>

definition deploymentProvisionFailed :: "ClusterDeployment option \<Rightarrow> bool" where
  "deploymentProvisionFailed deployment =
     (case deployment of
        None \<Rightarrow> False
      | Some cd \<Rightarrow> (case find (\<lambda>(t, _). t = ''ProvisionFailed'') (cd_Conditions cd) of
                       None \<Rightarrow> False | Some (_, status) \<Rightarrow> status = ''True''))"

definition provisionFailureIsNew :: "ClusterProvision option \<Rightarrow> ClusterProvision \<Rightarrow> bool" where
  "provisionFailureIsNew previous current =
     (case previous of
        None \<Rightarrow> False
      | Some p \<Rightarrow> cp_Name p \<noteq> cp_Name current \<or> cp_Stage p \<noteq> cp_Stage current)"

definition recordMceNotifyAttempt :: "string \<Rightarrow> (string, nat) gomap \<Rightarrow> (string, nat) gomap \<times> bool" where
  "recordMceNotifyAttempt name attempts =
     (let count = mget0 0 attempts name + 1 in
      if maxMCENotificationAttempts \<le> count then (mdel name attempts, True) else (mput name count attempts, False))"

definition notifyMceFailure :: "mce_api \<Rightarrow> string \<Rightarrow> MceCluster \<Rightarrow> ClusterDeployment option \<Rightarrow> ClusterProvision option \<Rightarrow>
    bool \<Rightarrow> bool \<Rightarrow> mce \<Rightarrow> mce \<times> mce_event list" where
  "notifyMceFailure api name cluster deployment provision transitioned hasInstallLog m =
     (let attempts = me_failureAttempts m in
      if \<not> transitioned \<and> mget0 0 attempts name = 0 then (m, [])
      else if \<not> MceClusterNotifiable cluster then (m\<lparr>me_failureAttempts := mdel name attempts\<rparr>, [])
      else
        let full = (case provision of
                      Some p \<Rightarrow> if \<not> hasInstallLog then (case ma_provision api (cp_Namespace p) (cp_Name p) of
                                                          None \<Rightarrow> None | Some q \<Rightarrow> Some (Some q)) else Some provision
                    | None \<Rightarrow> Some provision) in
        (case full of
           None \<Rightarrow> (m\<lparr>me_failureAttempts := fst (recordMceNotifyAttempt name attempts)\<rparr>, [])
         | Some provision' \<Rightarrow>
             (case notifyMce api FailureNotice cluster deployment provision' [] [] of
                (ev, True) \<Rightarrow> (m\<lparr>me_failureAttempts := mdel name attempts\<rparr>, ev)
              | (ev, False) \<Rightarrow> (m\<lparr>me_failureAttempts := fst (recordMceNotifyAttempt name attempts)\<rparr>, ev))))"

section \<open>One cluster of a sync\<close>

text \<open>The last \<open>ManagedClusterConditionAvailable\<close> condition decides.\<close>

definition cluster_available :: "MceCluster \<Rightarrow> bool" where
  "cluster_available cluster \<longleftrightarrow>
     fold (\<lambda>(t, status) a. if t = ''ManagedClusterConditionAvailable'' then status else a) (mc_Conditions cluster) [] = ''True''"

definition mark_notified :: "MceCluster \<Rightarrow> MceCluster" where
  "mark_notified cluster = cluster\<lparr>mc_Annotations := mput UserNotifiedTag ''true'' (mc_Annotations cluster)\<rparr>"

definition notified :: "MceCluster \<Rightarrow> bool" where
  "notified cluster \<longleftrightarrow> mget0 [] (mc_Annotations cluster) UserNotifiedTag = ''true''"

text \<open>The annotation is set on the cached cluster even when the update of the hub fails.\<close>

definition annotate_notified :: "mce_api \<Rightarrow> MceCluster \<Rightarrow> MceCluster \<times> mce_event list" where
  "annotate_notified api cluster =
     (let c = mark_notified cluster in
      (c, if ma_update api c then [MceAnnotate c] else [MceRecordError ''mce_annotate_notify'']))"

definition ready_metric :: "MceCluster \<Rightarrow> mce_event list" where
  "ready_metric cluster =
     (let cloud = mget0 [] (mc_Labels cluster) ''cloud'' in
      if cloud = ''Amazon'' \<or> cloud = ''Google'' then [MceReadyTime cloud] else [])"

definition notify_ready :: "mce_api \<Rightarrow> (string, ClusterDeployment) gomap \<Rightarrow> (string, ClusterProvision) gomap \<Rightarrow>
    string \<Rightarrow> MceCluster \<Rightarrow> mce \<Rightarrow> mce \<times> MceCluster \<times> mce_event list" where
  "notify_ready api deployments provisions name cluster m =
     (if notified cluster \<or> \<not> MceClusterNotifiable cluster then (m, cluster, [])
      else (case getClusterAuth api name m of
              (m1, ev, Inl _) \<Rightarrow> (m1, cluster, ev)
            | (m1, ev, Inr (kubeconfig, password)) \<Rightarrow>
                if kubeconfig = [] \<or> password = [] \<or> mget deployments name = None then (m1, cluster, ev)
                else (case notifyMce api ReadyNotice cluster (mget deployments name) (mget provisions name) kubeconfig password of
                        (ev1, True) \<Rightarrow>
                          let (c, ev2) = annotate_notified api cluster in
                          (m1\<lparr>me_readyAttempts := mdel name (me_readyAttempts m1)\<rparr>, c, ev @ ev1 @ ready_metric cluster @ ev2)
                      | (ev1, False) \<Rightarrow>
                          (case recordMceNotifyAttempt name (me_readyAttempts m1) of
                             (attempts, True) \<Rightarrow>
                               let (c, ev2) = annotate_notified api cluster in
                               (m1\<lparr>me_readyAttempts := attempts\<rparr>, c, ev @ ev1 @ ev2)
                           | (attempts, False) \<Rightarrow> (m1\<lparr>me_readyAttempts := attempts\<rparr>, cluster, ev @ ev1)))))"

text \<open>The body of the loop over the managed clusters; \<open>m\<close> still has the caches of the previous sync.\<close>

definition sync_failure :: "mce_api \<Rightarrow> (string, ClusterDeployment) gomap \<Rightarrow> (string, ClusterProvision) gomap \<Rightarrow> string list \<Rightarrow>
    string \<Rightarrow> MceCluster \<Rightarrow> mce \<Rightarrow> mce \<times> mce_event list" where
  "sync_failure api deployments provisions fresh name cluster m =
     (case mget provisions name of
        Some provision \<Rightarrow>
          if cp_Stage provision = ''failed'' then
            let transitioned = provisionFailureIsNew (mget (me_provisions m) name) provision;
                (m1, ev) = notifyMceFailure api name cluster (mget deployments name) (Some provision) transitioned
                             (name \<in> set fresh) m in
            (m1, (if transitioned then [MceRecordError ''mce_provision_failed''] else []) @ ev)
          else (m, [])
      | None \<Rightarrow>
          if deploymentProvisionFailed (mget deployments name) then
            let transitioned = (mget (me_deployments m) name \<noteq> None \<and> \<not> deploymentProvisionFailed (mget (me_deployments m) name));
                (m1, ev) = notifyMceFailure api name cluster (mget deployments name) None transitioned True m in
            (m1, (if transitioned then [MceRecordError ''mce_provision_failed''] else []) @ ev)
          else (m, []))"

definition sync_cluster :: "mce_api \<Rightarrow> (string, ClusterDeployment) gomap \<Rightarrow> (string, ClusterProvision) gomap \<Rightarrow> string list \<Rightarrow>
    string \<Rightarrow> MceCluster \<Rightarrow> mce \<Rightarrow> mce \<times> MceCluster \<times> mce_event list" where
  "sync_cluster api deployments provisions fresh name cluster m =
     (let (m1, ev1) = (if mhas (me_kubeconfigs m) name \<and> mhas (me_passwords m) name then (m, [])
                       else (case getClusterAuth api name m of (m', ev, _) \<Rightarrow> (m', ev))) in
      if cluster_available cluster
      then (case notify_ready api deployments provisions name cluster m1 of (m2, c, ev2) \<Rightarrow> (m2, c, ev1 @ ev2))
      else (case sync_failure api deployments provisions fresh name cluster m1 of (m2, ev2) \<Rightarrow> (m2, cluster, ev1 @ ev2)))"

fun sync_clusters :: "mce_api \<Rightarrow> (string, ClusterDeployment) gomap \<Rightarrow> (string, ClusterProvision) gomap \<Rightarrow> string list \<Rightarrow>
    (string, MceCluster) gomap \<Rightarrow> mce \<Rightarrow> mce \<times> (string, MceCluster) gomap \<times> mce_event list" where
  "sync_clusters api deployments provisions fresh [] m = (m, [], [])"
| "sync_clusters api deployments provisions fresh ((name, cluster) # rest) m =
     (let (m1, c, ev) = sync_cluster api deployments provisions fresh name cluster m;
          (m2, cs, evs) = sync_clusters api deployments provisions fresh rest m1 in
      (m2, (name, c) # cs, ev @ evs))"

section \<open>The sync\<close>

definition mce_expiry :: "MceCluster \<Rightarrow> gotime" where
  "mce_expiry cluster =
     (case parse_rfc3339 (mget0 [] (mc_Annotations cluster) ExpiryTimeTag) of
        Some t \<Rightarrow> t
      | None \<Rightarrow> mc_CreationTimestamp cluster + MaxMCEDuration)"

definition mce_expired :: "gotime \<Rightarrow> MceCluster \<Rightarrow> bool" where
  "mce_expired now cluster \<longleftrightarrow> mce_expiry cluster < now"

definition expire_clusters :: "mce_api \<Rightarrow> MceCluster list \<Rightarrow> mce_event list" where
  "expire_clusters api clusters =
     concat (map (\<lambda>c. fst (deleteManagedCluster api c)) (filter (mce_expired (ma_now api)) clusters))"

definition by_name :: "('a \<Rightarrow> string) \<Rightarrow> 'a list \<Rightarrow> (string, 'a) gomap" where
  "by_name f xs = fold (\<lambda>x. mput (f x) x) xs []"

text \<open>A cluster without a deployment is stale unless a job is still building its images.\<close>

definition mce_stale :: "(string, ClusterDeployment) gomap \<Rightarrow> (string, Job) gomap \<Rightarrow> string \<Rightarrow> bool" where
  "mce_stale deployments jobs name \<longleftrightarrow>
     \<not> mhas deployments name \<and> \<not> list_ex (\<lambda>j. jb_ManagedClusterName j = name) (mvals jobs)"

definition drop_stale :: "mce_api \<Rightarrow> (string, ClusterDeployment) gomap \<Rightarrow> (string, Job) gomap \<Rightarrow> (string, MceCluster) gomap \<Rightarrow>
    (string, MceCluster) gomap \<times> mce_event list" where
  "drop_stale api deployments jobs clusters =
     (filter (\<lambda>(name, _). \<not> mce_stale deployments jobs name) clusters,
      concat (map (\<lambda>(name, c). fst (deleteManagedCluster api c))
        (filter (\<lambda>(name, _). mce_stale deployments jobs name) clusters)))"

definition cloud_gauges :: "(string, MceCluster) gomap \<Rightarrow> mce_event" where
  "cloud_gauges clusters =
     MceGauges (mcount (\<lambda>c. mget (mc_Labels c) ''cloud'' = Some ''Amazon'') clusters)
       (mcount (\<lambda>c. mget (mc_Labels c) ''cloud'' = Some ''Google'') clusters)"

definition prune_failures :: "(string, MceCluster) gomap \<Rightarrow> (string, ClusterDeployment) gomap \<Rightarrow> (string, ClusterProvision) gomap \<Rightarrow>
    (string, nat) gomap \<Rightarrow> (string, nat) gomap" where
  "prune_failures clusters deployments provisions attempts =
     filter (\<lambda>(name, _). mhas clusters name \<and>
       (case mget provisions name of
          Some p \<Rightarrow> cp_Stage p = ''failed''
        | None \<Rightarrow> deploymentProvisionFailed (mget deployments name))) attempts"

definition keep_known :: "(string, 'a) gomap \<Rightarrow> (string, 'b) gomap \<Rightarrow> (string, 'b) gomap" where
  "keep_known clusters xs = filter (\<lambda>(name, _). mhas clusters name) xs"

datatype mce_sync_error = SyncListFailed | SyncUsersMissing string | SyncUsersBad string

text \<open>\<open>jobs\<close> are the jobs of the manager, read under its lock.\<close>

definition sync_caches :: "mce_api \<Rightarrow> (string, Job) gomap \<Rightarrow> MceCluster list \<Rightarrow> ClusterDeployment list \<Rightarrow> mce \<Rightarrow>
    mce \<times> mce_event list" where
  "sync_caches api jobs clusters deployments m =
     (let managed = by_name mc_Name clusters;
          deps = by_name cd_Name deployments;
          (provisions, fresh, ev1) = syncProvisions api (me_provisions m) deployments ([], [], []);
          (m1, managed1, ev2) = sync_clusters api deps provisions fresh managed m;
          (managed2, ev3) = drop_stale api deps jobs managed1 in
      (m1\<lparr>me_clusters := managed2,
          me_deployments := deps,
          me_provisions := stripInstallLogs fresh provisions,
          me_kubeconfigs := keep_known managed2 (me_kubeconfigs m1),
          me_passwords := keep_known managed2 (me_passwords m1),
          me_failureAttempts := prune_failures managed2 deps provisions (me_failureAttempts m1),
          me_readyAttempts := keep_known managed2 (me_readyAttempts m1)\<rparr>,
       expire_clusters api clusters @ ev1 @ ev2 @ ev3 @ [cloud_gauges managed1]))"

definition mceSync :: "mce_api \<Rightarrow> (string, Job) gomap \<Rightarrow> mce \<Rightarrow> mce \<times> mce_event list \<times> mce_sync_error option" where
  "mceSync api jobs m =
     (case listManagedClusters api of
        None \<Rightarrow> (m, [MceRecordError ''mce_list_managed_namespaces''], Some SyncListFailed)
      | Some (clusters, deployments) \<Rightarrow>
          let (m1, ev) = sync_caches api jobs clusters deployments m in
          (case ma_users api of
             UsersMissing e \<Rightarrow> (m1, ev @ [MceRecordError ''mce_retrive_user_config''], Some (SyncUsersMissing e))
           | UsersBad e \<Rightarrow> (m1, ev @ [MceRecordError ''mce_parse_user_config''], Some (SyncUsersBad e))
           | UsersConfig users \<Rightarrow> (m1\<lparr>me_users := users\<rparr>, ev, None)))"

section \<open>Image sets\<close>

fun imageset_loop :: "mce_api \<Rightarrow> (string, MceCluster) gomap \<Rightarrow> (string \<times> string) list \<Rightarrow> string list \<times> mce_event list" where
  "imageset_loop api clusters [] = ([], [])"
| "imageset_loop api clusters ((name, label) # rest) =
     (let (names, ev) = imageset_loop api clusters rest in
      if clusters \<noteq> [] \<and> label = ''true'' \<and> \<not> mhas clusters name
      then (names, MceRemove ImageSetKind name #
              (case ma_delete api ImageSetKind name of
                 HubOk \<Rightarrow> ev | _ \<Rightarrow> MceRecordError ''mce_cleanup_imagesets'' # ev))
      else (name # names, ev))"

definition updateImageSetList :: "mce_api \<Rightarrow> mce \<Rightarrow> mce \<times> mce_event list \<times> bool" where
  "updateImageSetList api m =
     (case ma_imagesets api of
        None \<Rightarrow> (m, [MceRecordError ''mce_list_imagesets''], False)
      | Some imagesets \<Rightarrow>
          let (names, ev) = imageset_loop api (me_clusters m) imagesets in
          (m\<lparr>me_imagesets := names\<rparr>, ev, True))"

end
