(* ===== verification/GoDuration.thy ===== *)
theory GoDuration
  imports GoStrings
begin

text \<open>
  \<open>time.ParseDuration\<close>, which reads the durations users give for managed and ROSA clusters. Numbers stay within
  64 bits as in the library; the fraction of a unit is computed exactly, where the library multiplies
  floating point numbers.
\<close>

section \<open>Units and numbers\<close>

definition duration_unit :: "string \<Rightarrow> nat option" where
  "duration_unit u =
     (if u = ''ns'' then Some 1
      else if u = ''us'' \<or> u = [CHR 0xC2, CHR 0xB5, CHR ''s''] \<or> u = [CHR 0xCE, CHR 0xBC, CHR ''s''] then Some 1000
      else if u = ''ms'' then Some 1000000
      else if u = ''s'' then Some 1000000000
      else if u = ''m'' then Some 60000000000
      else if u = ''h'' then Some 3600000000000 else None)"

definition max_abs :: nat where
  "max_abs = 2 ^ 63"

text \<open>\<open>leadingInt\<close>, on the digits themselves; \<open>None\<close> is overflow.\<close>

fun leading_int :: "nat \<Rightarrow> string \<Rightarrow> nat option" where
  "leading_int x [] = Some x"
| "leading_int x (c # cs) =
     (if max_abs div 10 < x then None
      else let y = x * 10 + nat (digit_val c) in if max_abs < y then None else leading_int y cs)"

text \<open>\<open>leadingFraction\<close>: digits that no longer fit are ignored.\<close>

fun leading_fraction :: "nat \<times> nat \<Rightarrow> bool \<Rightarrow> string \<Rightarrow> nat \<times> nat" where
  "leading_fraction (f, scale) overflow [] = (f, scale)"
| "leading_fraction (f, scale) overflow (c # cs) =
     (if overflow \<or> (max_abs - 1) div 10 < f then leading_fraction (f, scale) True cs
      else let y = f * 10 + nat (digit_val c) in
        if max_abs < y then leading_fraction (f, scale) True cs
        else leading_fraction (y, scale * 10) False cs)"

section \<open>The parser\<close>

definition unit_char :: "char \<Rightarrow> bool" where
  "unit_char c \<longleftrightarrow> c \<noteq> CHR ''.'' \<and> \<not> is_digit c"

text \<open>One number with its unit: the value added and the rest.\<close>

definition duration_part :: "string \<Rightarrow> (nat \<times> string) option" where
  "duration_part s =
     (let whole = takeWhile is_digit s; s1 = dropWhile is_digit s;
          point = (s1 \<noteq> [] \<and> hd s1 = CHR ''.'');
          frac = (if point then takeWhile is_digit (tl s1) else []);
          s2 = (if point then dropWhile is_digit (tl s1) else s1);
          u = takeWhile unit_char s2 in
      if whole = [] \<and> frac = [] then None
      else (case (leading_int 0 whole, duration_unit u) of
              (Some v, Some unit) \<Rightarrow>
                if max_abs div unit < v then None
                else let (f, scale) = leading_fraction (0, 1) False frac;
                         v' = v * unit + f * unit div scale in
                  if max_abs < v' then None else Some (v', dropWhile unit_char s2)
            | _ \<Rightarrow> None))"

lemma duration_unit_nonempty: "duration_unit u = Some n \<Longrightarrow> u \<noteq> [] \<and> 0 < n"
  by (auto simp: duration_unit_def split: if_splits)

lemma length_dropWhile_less: "takeWhile p s \<noteq> [] \<Longrightarrow> length (dropWhile p s) < length s"
  by (cases s) (auto simp: less_Suc_eq_le length_dropWhile_le split: if_splits)

lemma duration_part_shorter:
  assumes "duration_part s = Some (v, rest)"
  shows "length rest < length s"
proof -
  define s1 where "s1 = dropWhile is_digit s"
  define s2 where "s2 = (if s1 \<noteq> [] \<and> hd s1 = CHR ''.'' then dropWhile is_digit (tl s1) else s1)"
  have "duration_unit (takeWhile unit_char s2) \<noteq> None" and r: "rest = dropWhile unit_char s2"
    using assms unfolding duration_part_def Let_def s2_def s1_def
    by (auto split: option.splits if_splits prod.splits)
  then have "length rest < length s2" using length_dropWhile_less duration_unit_nonempty by fastforce
  moreover have "length s2 \<le> length s1" "length s1 \<le> length s"
    unfolding s1_def s2_def by (auto intro: le_trans [OF length_dropWhile_le] simp: length_dropWhile_le)
  ultimately show ?thesis by simp
qed

function duration_parts :: "nat \<Rightarrow> string \<Rightarrow> nat option" where
  "duration_parts d s =
     (if s = [] then Some d
      else (case duration_part s of
              None \<Rightarrow> None
            | Some (v, rest) \<Rightarrow> if max_abs < d + v then None else duration_parts (d + v) rest))"
  by auto

termination
  by (relation "measure (\<lambda>(d, s). length s)") (auto simp: duration_part_shorter)

declare duration_parts.simps [simp del]

definition ParseDuration :: "string \<Rightarrow> duration option" where
  "ParseDuration s0 =
     (let neg = (s0 \<noteq> [] \<and> hd s0 = CHR ''-'');
          s = (if s0 \<noteq> [] \<and> (hd s0 = CHR ''-'' \<or> hd s0 = CHR ''+'') then tl s0 else s0) in
      if s = ''0'' then Some 0
      else if s = [] then None
      else (case duration_parts 0 s of
              None \<Rightarrow> None
            | Some d \<Rightarrow> if neg then Some (- int d) else if max_abs - 1 < d then None else Some (int d)))"

section \<open>Range\<close>

lemma duration_parts_range: "duration_parts d s = Some r \<Longrightarrow> d \<le> max_abs \<Longrightarrow> d \<le> r \<and> r \<le> max_abs"
proof (induction d s rule: duration_parts.induct)
  case (1 d s)
  show ?case
  proof (cases "s = []")
    case True
    then show ?thesis using 1 by (simp add: duration_parts.simps)
  next
    case False
    then obtain v rest where "duration_part s = Some (v, rest)" "\<not> max_abs < d + v" "duration_parts (d + v) rest = Some r"
      using 1(2) by (auto simp: duration_parts.simps [of d s] split: option.splits if_splits prod.splits)
    then show ?thesis using 1(1) [OF False _ refl, of v rest] by auto
  qed
qed

text \<open>A parsed duration is a 64-bit number, and it is negative only for a text with a minus sign.\<close>

lemma ParseDuration_range:
  assumes "ParseDuration s = Some d"
  shows "- (2 ^ 63) \<le> d \<and> d < 2 ^ 63 \<and> (d < 0 \<longrightarrow> hd s = CHR ''-'')"
  using assms duration_parts_range [of 0 _] unfolding ParseDuration_def Let_def
  by (fastforce simp: max_abs_def split: if_splits option.splits)

end
