(* ===== verification/MceOps.thy ===== *)
theory MceOps
  imports Mce CommandParser GoDuration
begin

text \<open>
  Managed (MCE) clusters, part two: creating, deleting and listing clusters (\<open>CreateMceCluster\<close>, \<open>createManagedCluster\<close>,
  \<open>createClusterDeployment\<close>, \<open>DeleteMceCluster\<close>, \<open>ListManagedClusters\<close> of \<open>pkg/manager\<close>) and the commands that call
  them (\<open>MceCreate\<close>, \<open>MceAuth\<close>, \<open>MceDelete\<close>, \<open>MceList\<close> of \<open>pkg/slack/actions.go\<close>).
\<close>

section \<open>Objects that are created\<close>

record InstallConfig =
  ic_Name :: string
  ic_BaseDomain :: string
  ic_Replicas :: nat
  ic_InstanceType :: string
  ic_Zones :: "string list"
  ic_RootVolume :: "(nat \<times> nat \<times> string) option"
  ic_NetworkType :: string
  ic_ClusterNetwork :: "string \<times> nat"
  ic_MachineNetwork :: string
  ic_ServiceNetwork :: string
  ic_Region :: string
  ic_ProjectID :: string

datatype mce_object =
    NamespaceObject string
  | SecretObject string string "(string, string) gomap"
  | ClusterObject MceCluster
  | DeploymentObject ClusterDeployment
  | ImageSetObject string string

datatype create_error =
    NameError
  | ImageJobError manager_error
  | CredentialsMissing string
  | MarshalError
  | ObjectError mce_object string

datatype create_event =
    Created mce_object
  | CreateMetric string
  | CreateResync
  | CreateLifetime duration

text \<open>The clients of creation: the error of creating an object, and the YAML of an install configuration.\<close>

record create_api = mce_api +
  ca_random :: random_source
  ca_create :: "mce_object \<Rightarrow> string option"
  ca_marshal :: "InstallConfig \<Rightarrow> string option"

text \<open>A computation that creates objects: what it did, and its result.\<close>

type_synonym 'a creation = "create_event list \<times> (create_error, 'a) result"

definition cbind :: "'a creation \<Rightarrow> ('a \<Rightarrow> 'b creation) \<Rightarrow> 'b creation" where
  "cbind c f = (case c of (ev, Inl e) \<Rightarrow> (ev, Inl e) | (ev, Inr x) \<Rightarrow> (case f x of (ev', r) \<Rightarrow> (ev @ ev', r)))"

definition make :: "create_api \<Rightarrow> mce_object \<Rightarrow> string \<Rightarrow> unit creation" where
  "make api obj metric =
     (case ca_create api obj of
        None \<Rightarrow> ([Created obj], Inr ())
      | Some e \<Rightarrow> ([CreateMetric metric], Inl (ObjectError obj e)))"

definition bot_secret :: "create_api \<Rightarrow> string \<Rightarrow> string \<Rightarrow> (string, string) gomap creation" where
  "bot_secret api name metric =
     (case ma_secret api ''crt-argocd'' name of
        None \<Rightarrow> ([CreateMetric metric], Inl (CredentialsMissing name))
      | Some s \<Rightarrow> ([], Inr s))"

section \<open>The cluster deployment\<close>

definition cluster_deployment :: "string \<Rightarrow> string \<Rightarrow> string \<Rightarrow> string \<Rightarrow> ClusterDeployment" where
  "cluster_deployment clusterName imageset baseDomain platform =
     (let creds = clusterName @ ''-'' @ platform @ ''-creds'';
          labels = [(''vendor'', ''OpenShift''), (''cluster.open-cluster-management.io/clusterset'', ''ci-chat-bot'')] @
            (if platform = ''aws'' then [(''cloud'', ''AWS''), (''region'', ''us-east-1'')]
             else if platform = ''gcp'' then [(''cloud'', ''GCP''), (''region'', ''us-east1'')] else []) in
      \<lparr>cd_Name = clusterName, cd_Namespace = clusterName, cd_Labels = labels, cd_BaseDomain = baseDomain,
       cd_InstallAttemptsLimit = 2, cd_InstallConfigSecretRef = clusterName @ ''-install-config'',
       cd_ImageSetRef = imageset, cd_PullSecretRef = clusterName @ ''-pull-secret'',
       cd_AWS = (if platform = ''aws'' then Some (creds, ''us-east-1'') else None),
       cd_GCP = (if platform = ''gcp'' then Some (creds, ''us-east1'') else None),
       cd_ClusterMetadata = None, cd_Conditions = []\<rparr>)"

definition createClusterDeployment :: "create_api \<Rightarrow> string \<Rightarrow> string \<Rightarrow> string \<Rightarrow> string \<Rightarrow> unit creation" where
  "createClusterDeployment api clusterName imageset baseDomain platform =
     make api (DeploymentObject (cluster_deployment clusterName imageset baseDomain platform)) ''mce_create_deployment''"

definition createCustomImageset :: "create_api \<Rightarrow> string \<Rightarrow> string \<Rightarrow> string option" where
  "createCustomImageset api releaseURL imagesetName = ca_create api (ImageSetObject imagesetName releaseURL)"

section \<open>The release of a custom image\<close>

definition pull_display :: "Refs \<Rightarrow> Pull \<Rightarrow> string" where
  "pull_display ref pull =
     '' <https://github.com/'' @ path_escape (rf_Org ref) @ ''/'' @ path_escape (rf_Repo ref) @ ''/pull/'' @ show_int (pl_Number pull) @
     ''|'' @ rf_Org ref @ ''/'' @ rf_Repo ref @ ''#'' @ show_int (pl_Number pull) @ ''>''"

definition formatMCEReleaseDisplay :: "string \<Rightarrow> JobInput \<Rightarrow> string" where
  "formatMCEReleaseDisplay architecture jobInput =
     join '','' ((if ji_Version jobInput \<noteq> []
                  then [''<https://'' @ architecture @ ''.ocp.releases.ci.openshift.org/releasetag/'' @
                        path_escape (ji_Version jobInput) @ ''|'' @ ji_Version jobInput @ ''>'']
                  else if ji_Image jobInput \<noteq> [] then [''(image)''] else []) @
                 concat (map (\<lambda>ref. map (pull_display ref) (rf_Pulls ref)) (ji_Refs jobInput)))"

definition GetMceCustomVersion :: "manager \<Rightarrow> MceCluster \<Rightarrow> string" where
  "GetMceCustomVersion mg cluster =
     (let display = mget0 [] (mc_Annotations cluster) RequestedReleaseDisplayTag in
      if display \<noteq> [] then display
      else (case find (\<lambda>j. jb_ManagedClusterName j = mc_Name cluster) (mvals (mg_jobs mg)) of
              None \<Rightarrow> ''unspecified version''
            | Some job \<Rightarrow>
                let input = (case jb_Inputs job of [] \<Rightarrow> emptyInput | i # _ \<Rightarrow> i);
                    version = formatMCEReleaseDisplay (jb_Architecture job) input in
                if version \<noteq> [] then version else ''unspecified version''))"

section \<open>Creating the managed cluster\<close>

definition emptyMceUser :: MceUser where
  "emptyMceUser = \<lparr>mu_MaxClusters = 0, mu_MaxClusterAge = 0, mu_AwsSecret = [], mu_AwsBaseDomain = [],
     mu_GcpSecret = [], mu_GcpBaseDomain = [], mu_GcpProjectID = []\<rparr>"

definition credentials_name :: "MceUser \<Rightarrow> string \<Rightarrow> string" where
  "credentials_name u platform =
     (if platform = ''aws'' \<and> mu_AwsSecret u \<noteq> [] then mu_AwsSecret u
      else if platform = ''gcp'' \<and> mu_GcpSecret u \<noteq> [] then mu_GcpSecret u
      else platform @ ''-credentials'')"

definition base_domain :: "MceUser \<Rightarrow> string \<Rightarrow> string" where
  "base_domain u platform =
     (if platform = ''aws'' \<and> mu_AwsBaseDomain u \<noteq> [] then mu_AwsBaseDomain u
      else if platform = ''gcp'' \<and> mu_GcpBaseDomain u \<noteq> [] then mu_GcpBaseDomain u
      else if platform = ''gcp'' then ''openshift-crt-mce.'' @ platform @ ''.devcluster.openshift.com''
      else ''crt-mce-'' @ platform @ ''.devcluster.openshift.com'')"

definition install_config :: "MceUser \<Rightarrow> string \<Rightarrow> string \<Rightarrow> string \<Rightarrow> InstallConfig" where
  "install_config u clusterName baseDomain platform =
     \<lparr>ic_Name = clusterName, ic_BaseDomain = baseDomain, ic_Replicas = 3,
      ic_InstanceType = (if platform = ''aws'' then ''m6a.xlarge'' else if platform = ''gcp'' then ''n1-standard-4'' else []),
      ic_Zones = (if platform = ''aws'' then [''us-east-1a''] else []),
      ic_RootVolume = (if platform = ''aws'' then Some (2000, 100, ''io1'') else None),
      ic_NetworkType = ''OVNKubernetes'', ic_ClusterNetwork = (''10.128.0.0/14'', 23),
      ic_MachineNetwork = ''10.0.0.0/16'', ic_ServiceNetwork = ''172.30.0.0/16'',
      ic_Region = (if platform = ''aws'' then ''us-east-1'' else if platform = ''gcp'' then ''us-east1'' else []),
      ic_ProjectID = (if platform = ''gcp''
        then (if mu_GcpProjectID u \<noteq> [] then mu_GcpProjectID u else ''openshift-crt-mce'') else [])\<rparr>"

text \<open>The labels and annotations of a new managed cluster; \<open>display\<close> is the resolved release of a custom image.\<close>

definition cloud_labels :: "string \<Rightarrow> (string, string) gomap" where
  "cloud_labels platform =
     (if platform = ''aws'' then [(''Cloud'', ''Amazon''), (''Region'', ''us-east-1'')]
      else if platform = ''gcp'' then [(''Cloud'', ''Google''), (''Region'', ''us-east1'')] else [])"

definition managed_cluster :: "gotime \<Rightarrow> string \<Rightarrow> string \<Rightarrow> string \<Rightarrow> string \<Rightarrow> string \<Rightarrow> string option \<Rightarrow> duration \<Rightarrow> MceCluster" where
  "managed_cluster now clusterName platform user slackChannel baseDomain display duration =
     \<lparr>mc_Name = clusterName,
      mc_Labels = [(''name'', clusterName), (''vendor'', ''OpenShift''),
          (''cluster.open-cluster-management.io/clusterset'', ''ci-chat-bot''), (LaunchLabel, ''true'')] @ cloud_labels platform,
      mc_Annotations = [(UserTag, user), (ChannelTag, slackChannel), (ExpiryTimeTag, rfc3339 (now + duration)),
          (BaseDomain, baseDomain), (RequestTimeTag, rfc3339 now)] @
        (case display of None \<Rightarrow> []
         | Some d \<Rightarrow> [(CustomImageTag, ''true'')] @ (if d \<noteq> [] then [(RequestedReleaseDisplayTag, d)] else [])),
      mc_CreationTimestamp = now, mc_Conditions = []\<rparr>"

definition release_display :: "'v environment \<Rightarrow> JobRequest \<Rightarrow> string" where
  "release_display env req =
     (case lookupInputs (en_resolver env) (rq_Inputs req) (rq_Architecture req) of
        Inl _ \<Rightarrow> []
      | Inr ([], _) \<Rightarrow> []
      | Inr (ji # _, _) \<Rightarrow> formatMCEReleaseDisplay (rq_Architecture req) ji)"

text \<open>
  Whether \<open>createManagedCluster\<close> takes the answer of \<open>LaunchJobForUser\<close> as a success: that function returns an error
  also when a job was started, which is told apart by its text.
\<close>

definition notified_phrase :: string where
  "notified_phrase = ''you will be notified on completion''"

definition launch_refused :: "launch_outcome \<Rightarrow> manager_error option" where
  "launch_refused out =
     (case out of
        LaunchError (CannotStart e) \<Rightarrow> if contains e notified_phrase then None else Some (CannotStart e)
      | LaunchError (SlowToStart e) \<Rightarrow> if contains e notified_phrase then None else Some (SlowToStart e)
      | LaunchError e \<Rightarrow> Some e
      | _ \<Rightarrow> None)"

definition cluster_objects :: "create_api \<Rightarrow> MceUser \<Rightarrow> string \<Rightarrow> string \<Rightarrow> string \<Rightarrow> string \<Rightarrow> string \<Rightarrow> string option \<Rightarrow> duration \<Rightarrow>
    MceCluster creation" where
  "cluster_objects api u clusterName imageSet platform user slackChannel display duration =
     (let baseDomain = base_domain u platform;
          cluster = managed_cluster (ma_now api) clusterName platform user slackChannel baseDomain display duration in
      cbind (make api (NamespaceObject clusterName) ''mce_create_namespace'') (\<lambda>_.
      cbind (bot_secret api (credentials_name u platform) ''mce_get_platform_credentials'') (\<lambda>creds.
      cbind (make api (SecretObject clusterName (clusterName @ ''-'' @ platform @ ''-creds'') creds)
              ''mce_create_platform_credentials'') (\<lambda>_.
      cbind (bot_secret api ''mce-pull-secret'' ''mce_get_pull_secret'') (\<lambda>pull.
      cbind (make api (SecretObject clusterName (clusterName @ ''-pull-secret'') pull) ''mce_create_pull_secret'') (\<lambda>_.
      cbind (case ca_marshal api (install_config u clusterName baseDomain platform) of
               None \<Rightarrow> ([], Inl MarshalError) | Some t \<Rightarrow> ([], Inr t)) (\<lambda>config.
      cbind (make api (SecretObject clusterName (clusterName @ ''-install-config'') [(''install-config.yaml'', config)])
              ''mce_create_install_config'') (\<lambda>_.
      cbind (make api (ClusterObject cluster) ''mce_create_managed_cluster'') (\<lambda>_.
      cbind (if display = None then createClusterDeployment api clusterName imageSet baseDomain platform else ([], Inr ())) (\<lambda>_.
        ([], Inr cluster)))))))))))"

definition createManagedCluster :: "'v environment \<Rightarrow> (Job \<Rightarrow> OperatorInfo \<times> (string, string) result) \<Rightarrow> create_api \<Rightarrow>
    manager \<Rightarrow> mce \<Rightarrow> string \<Rightarrow> string \<Rightarrow> string \<Rightarrow> string \<Rightarrow> JobRequest option \<Rightarrow> duration \<Rightarrow>
    manager \<times> event list \<times> MceCluster creation" where
  "createManagedCluster env newjob api mg m imageSet platform user slackChannel req duration =
     (case generateRandomString (ca_random api) 12 True of
        None \<Rightarrow> (mg, [], [], Inl NameError)
      | Some random \<Rightarrow>
          let u = mget0 emptyMceUser (me_users m) user; clusterName = ''chat-bot-'' @ random in
          (case req of
             None \<Rightarrow> (mg, [], cluster_objects api u clusterName imageSet platform user slackChannel None duration)
           | Some r \<Rightarrow>
               let r' = r\<lparr>rq_ManagedClusterName := clusterName\<rparr> in
               (case LaunchJobForUser env newjob mg (ma_now api) r' of
                  (mg', out, evs) \<Rightarrow>
                    (case launch_refused out of
                       Some e \<Rightarrow> (mg', evs, [CreateMetric ''mce_launch_imageset_job''], Inl (ImageJobError e))
                     | None \<Rightarrow> (mg', evs, cluster_objects api u clusterName imageSet platform user slackChannel
                                 (Some (release_display env r')) duration)))))"

section \<open>Limits\<close>

definition mceClusterIsAWS :: "MceCluster \<Rightarrow> ClusterDeployment option \<Rightarrow> bool" where
  "mceClusterIsAWS mc cd \<longleftrightarrow> mget0 [] (mc_Labels mc) ''Cloud'' = ''Amazon'' \<or>
     (case cd of None \<Rightarrow> False | Some d \<Rightarrow> cd_AWS d \<noteq> None)"

definition mceClusterIsGCP :: "MceCluster \<Rightarrow> ClusterDeployment option \<Rightarrow> bool" where
  "mceClusterIsGCP mc cd \<longleftrightarrow> mget0 [] (mc_Labels mc) ''Cloud'' = ''Google'' \<or>
     (case cd of None \<Rightarrow> False | Some d \<Rightarrow> cd_GCP d \<noteq> None)"

definition active_clusters :: "(MceCluster \<Rightarrow> ClusterDeployment option \<Rightarrow> bool) \<Rightarrow> mce \<Rightarrow> nat" where
  "active_clusters on m = mcount (\<lambda>mc. on mc (mget (me_deployments m) (mc_Name mc))) (me_clusters m)"

definition MCEPlatforms :: "string list" where
  "MCEPlatforms = [''aws'', ''gcp'']"

definition defaultMceUserConfig :: MceUser where
  "defaultMceUserConfig = emptyMceUser\<lparr>mu_MaxClusters := 1, mu_MaxClusterAge := tdiv MaxMCEDuration hour\<rparr>"

definition defaultMceDuration :: "int \<Rightarrow> duration" where
  "defaultMceDuration maxClusterAge = min (wrap64 (maxClusterAge * hour)) MaxMCEDuration"

definition GetManagedClustersForUser :: "mce \<Rightarrow> string \<Rightarrow> (string, MceCluster) gomap" where
  "GetManagedClustersForUser m user = filter (\<lambda>(_, mc). mget0 [] (mc_Annotations mc) UserTag = user) (me_clusters m)"

datatype mce_refusal =
    NoAwsCapacity | NoGcpCapacity
  | TooManyMceClusters int | TooLongMce int | UnsupportedMcePlatform string

text \<open>
  The checks of \<open>CreateMceCluster\<close>: the platform and duration to use, the image set and the request for a custom
  image. \<open>Hours()\<close> is compared exactly.
\<close>

definition mce_capacity :: "mce \<Rightarrow> string \<Rightarrow> mce_refusal option" where
  "mce_capacity m platform =
     (if platform = ''aws'' \<and> maxTotalMCEAWSClusters \<le> active_clusters mceClusterIsAWS m then Some NoAwsCapacity
      else if platform = ''gcp'' \<and> maxTotalMCEGCPClusters \<le> active_clusters mceClusterIsGCP m then Some NoGcpCapacity
      else None)"

definition mce_imageset :: "string list list \<Rightarrow> string" where
  "mce_imageset from = (case from of [v] # _ \<Rightarrow> ''img'' @ v @ ''-multi-appsub'' | _ \<Rightarrow> [])"

definition image_request :: "gotime \<Rightarrow> string \<Rightarrow> string list list \<Rightarrow> string \<Rightarrow> JobRequest" where
  "image_request now user from platform =
     \<lparr>rq_OriginalMessage = [], rq_User = user, rq_UserName = [], rq_Inputs = from, rq_Type = JobTypeMCECustomImage,
      rq_Platform = platform, rq_WorkflowName = [], rq_Channel = [], rq_RequestedAt = now, rq_Name = [],
      rq_JobName = [], rq_JobParams = [], rq_Architecture = ''amd64'', rq_ManagedClusterName = []\<rparr>"

definition mce_admit :: "mce \<Rightarrow> gotime \<Rightarrow> string \<Rightarrow> string \<Rightarrow> string list list \<Rightarrow> duration \<Rightarrow>
    (mce_refusal, string \<times> duration \<times> JobRequest option) result" where
  "mce_admit m now user platform0 from duration0 =
     (case mce_capacity m platform0 of
        Some e \<Rightarrow> Inl e
      | None \<Rightarrow>
          let userConfig = mget0 defaultMceUserConfig (me_users m) user;
              platform = (if platform0 = [] then ''aws'' else platform0);
              duration = (if duration0 = 0 then defaultMceDuration (mu_MaxClusterAge userConfig) else duration0) in
          if mu_MaxClusters userConfig \<le> int (length (GetManagedClustersForUser m user))
          then Inl (TooManyMceClusters (mu_MaxClusters userConfig))
          else if mu_MaxClusterAge userConfig * hour < duration then Inl (TooLongMce (mu_MaxClusterAge userConfig))
          else if platform \<notin> set MCEPlatforms then Inl (UnsupportedMcePlatform platform)
          else Inr (platform, duration,
            if mce_imageset from \<in> set (me_imagesets m) then None else Some (image_request now user from platform)))"

datatype mce_reply =
    MceRefused mce_refusal
  | MceCreateFailed create_error
  | MceInstalling string string string int bool

definition CreateMceCluster :: "'v environment \<Rightarrow> (Job \<Rightarrow> OperatorInfo \<times> (string, string) result) \<Rightarrow> create_api \<Rightarrow>
    manager \<Rightarrow> mce \<Rightarrow> string \<Rightarrow> string \<Rightarrow> string \<Rightarrow> string list list \<Rightarrow> duration \<Rightarrow>
    manager \<times> event list \<times> create_event list \<times> mce_reply" where
  "CreateMceCluster env newjob api mg m user channel platform0 from duration0 =
     (case mce_admit m (ma_now api) user platform0 from duration0 of
        Inl e \<Rightarrow> (mg, [], [], MceRefused e)
      | Inr (platform, duration, req) \<Rightarrow>
          (case createManagedCluster env newjob api mg m (mce_imageset from) platform user channel req duration of
             (mg', evs, cev, Inl e) \<Rightarrow> (mg', evs, CreateLifetime duration # cev, MceCreateFailed e)
           | (mg', evs, cev, Inr cluster) \<Rightarrow>
               (mg', evs, CreateLifetime duration # cev @ [CreateResync],
                MceInstalling (mc_Name cluster) platform
                  (if req = None then mce_imageset from else GetMceCustomVersion mg' cluster)
                  (tdiv duration minute) (req \<noteq> None))))"

section \<open>Deleting and listing\<close>

datatype mce_delete_reply = MceNotOwner string | MceUnknown string | MceDeleteFailed "string list" | MceDeleted string

definition DeleteMceCluster :: "mce_api \<Rightarrow> mce \<Rightarrow> string \<Rightarrow> string \<Rightarrow> mce_event list \<times> bool \<times> mce_delete_reply" where
  "DeleteMceCluster api m user clusterName =
     (case mget (me_clusters m) clusterName of
        None \<Rightarrow> ([], False, MceUnknown clusterName)
      | Some cluster \<Rightarrow>
          if mget0 [] (mc_Annotations cluster) UserTag \<noteq> user then ([], False, MceNotOwner clusterName)
          else (case deleteManagedCluster api cluster of
                  (ev, []) \<Rightarrow> (ev, True, MceDeleted clusterName)
                | (ev, errs) \<Rightarrow> (ev, False, MceDeleteFailed errs)))"

definition GetClusterProvisionForNotification :: "mce_api \<Rightarrow> mce \<Rightarrow> string \<Rightarrow> ClusterProvision option" where
  "GetClusterProvisionForNotification api m name =
     (case mget (me_provisions m) name of
        None \<Rightarrow> None
      | Some cached \<Rightarrow>
          if cp_Stage cached \<noteq> ''failed'' then Some cached
          else (case ma_provision api (cp_Namespace cached) (cp_Name cached) of
                  None \<Rightarrow> Some cached | Some full \<Rightarrow> Some full))"

definition provision_stage :: "mce \<Rightarrow> string \<Rightarrow> ClusterDeployment \<Rightarrow> string" where
  "provision_stage m name deployment =
     (let stage = (case mget (me_provisions m) name of None \<Rightarrow> ''unknown'' | Some p \<Rightarrow> cp_Stage p) in
      if stage = ''unknown'' \<and> deploymentProvisionFailed (Some deployment) then ''failed'' else stage)"

definition list_element :: "manager \<Rightarrow> gotime \<Rightarrow> mce \<Rightarrow> string \<Rightarrow> MceCluster \<Rightarrow> string" where
  "list_element mg now m name cluster =
     (let user = mget0 [] (mc_Annotations cluster) UserTag in
      case parse_rfc3339 (mget0 [] (mc_Annotations cluster) ExpiryTimeTag) of
        None \<Rightarrow> ''- '' @ name @ '' (Requested by @'' @ user @ ''; Remaining Time: error)'' @ [CHR 0x0A]
      | Some expiryTime \<Rightarrow>
          let (stage, version) =
                (case mget (me_deployments m) name of
                   None \<Rightarrow> (''waiting for imageset generation'', GetMceCustomVersion mg cluster)
                 | Some d \<Rightarrow> (provision_stage m name d,
                     if has_suffix (cd_ImageSetRef d) ''appsub'' then cd_ImageSetRef d else GetMceCustomVersion mg cluster));
              cloud = mget0 [] (mc_Labels cluster) ''Cloud'';
              platform = (if cloud = ''Amazon'' then ''aws'' else if cloud = ''Google'' then ''gcp'' else []) in
          ''- '' @ name @ '' (Requested by <@'' @ user @ ''>; Provision Status: '' @ stage @ ''; Remaining Time: '' @
          show_int (tdiv (expiryTime - now) minute) @ '' minutes; Version: '' @ version @ ''; Platform: '' @ platform @ '')'' @ [CHR 0x0A])"

definition listed_for :: "string \<Rightarrow> MceCluster \<Rightarrow> bool" where
  "listed_for user cluster \<longleftrightarrow> user = [] \<or>
     (case mget (mc_Annotations cluster) UserTag of None \<Rightarrow> True | Some u \<Rightarrow> u = user)"

definition ListManagedClusters :: "manager \<Rightarrow> gotime \<Rightarrow> mce \<Rightarrow> string \<Rightarrow> string \<times> string \<times> string list" where
  "ListManagedClusters mg now m user =
     (if me_clusters m = [] then (''No clusters up'', ''No clusters up'', [])
      else let beginning = show_nat (length (me_clusters m)) @ '' clusters currently running:'' @ [CHR 0x0A];
               elements = map (\<lambda>(name, c). list_element mg now m name c) (filter (\<lambda>(_, c). listed_for user c) (me_clusters m)) in
        (beginning @ concat elements, beginning, elements))"

section \<open>The commands\<close>

datatype mce_command_reply =
    BadArgument | BadDuration
  | OneNameOnly | NoMceClusters | ManyMceClusters | NoSuchCluster string
  | CreateReply mce_reply | DeleteReply mce_delete_reply | AuthSent string

text \<open>
  \<open>MceCreate\<close>. The source guards against several platforms with \<open>len(platform) > 1\<close> on a string that is still empty,
  so that branch never runs: several platforms count as none.
\<close>

definition MceCreate :: "'v environment \<Rightarrow> (Job \<Rightarrow> OperatorInfo \<times> (string, string) result) \<Rightarrow> create_api \<Rightarrow>
    manager \<Rightarrow> mce \<Rightarrow> string \<Rightarrow> string \<Rightarrow> (string, string) gomap \<Rightarrow>
    manager \<times> event list \<times> create_event list \<times> mce_command_reply" where
  "MceCreate env newjob api mg m user channel properties =
     (case (ParseImageInput (StringParam ''image_or_version_or_prs'' [] properties),
            ParseImageInput (StringParam ''platform'' [] properties),
            ParseImageInput (StringParam ''duration'' [] properties)) of
        (Some from, Some platformInput, Some rawDuration) \<Rightarrow>
          let inputs = (if from \<noteq> [] then [from] else []);
              platform = (case platformInput of [p] \<Rightarrow> p | _ \<Rightarrow> []);
              duration = (case rawDuration of [] \<Rightarrow> Some 0 | d # _ \<Rightarrow> ParseDuration d) in
          (case duration of
             None \<Rightarrow> (mg, [], [], BadDuration)
           | Some d \<Rightarrow> (case CreateMceCluster env newjob api mg m user channel platform inputs d of
                          (mg', evs, cev, reply) \<Rightarrow> (mg', evs, cev, CreateReply reply)))
      | _ \<Rightarrow> (mg, [], [], BadArgument))"

text \<open>\<open>MceDelete\<close>: the name the user gave, or the only cluster of the user.\<close>

definition MceDelete :: "mce_api \<Rightarrow> mce \<Rightarrow> string \<Rightarrow> (string, string) gomap \<Rightarrow> mce_event list \<times> bool \<times> mce_command_reply" where
  "MceDelete api m user properties =
     (case ParseImageInput (StringParam ''cluster_name'' [] properties) of
        None \<Rightarrow> ([], False, BadArgument)
      | Some nameInput \<Rightarrow>
          if 1 < length nameInput then ([], False, OneNameOnly)
          else (case (nameInput, GetManagedClustersForUser m user) of
                  (name # _, _) \<Rightarrow> (case DeleteMceCluster api m user name of (ev, s, r) \<Rightarrow> (ev, s, DeleteReply r))
                | ([], [(name, _)]) \<Rightarrow> (case DeleteMceCluster api m user name of (ev, s, r) \<Rightarrow> (ev, s, DeleteReply r))
                | ([], _) \<Rightarrow> ([], False, ManyMceClusters)))"

text \<open>\<open>MceAuth\<close>: the cluster whose credentials are sent to the user's channel.\<close>

definition MceAuth :: "mce \<Rightarrow> string \<Rightarrow> (string, string) gomap \<Rightarrow> mce_command_reply" where
  "MceAuth m user properties =
     (case ParseImageInput (StringParam ''name'' [] properties) of
        None \<Rightarrow> BadArgument
      | Some nameInput \<Rightarrow>
          if 1 < length nameInput then OneNameOnly
          else (case (nameInput, GetManagedClustersForUser m user) of
                  (name # _, mine) \<Rightarrow> if mhas mine name then AuthSent name else NoSuchCluster name
                | ([], []) \<Rightarrow> NoMceClusters
                | ([], [(name, _)]) \<Rightarrow> AuthSent name
                | ([], _) \<Rightarrow> ManyMceClusters))"

definition MceList :: "manager \<Rightarrow> gotime \<Rightarrow> mce \<Rightarrow> string \<Rightarrow> (string, string) gomap \<Rightarrow> string option" where
  "MceList mg now m user properties =
     (case ParseImageInput (StringParam ''all'' [] properties) of
        None \<Rightarrow> None
      | Some (''all'' # _) \<Rightarrow> Some (fst (ListManagedClusters mg now m []))
      | Some _ \<Rightarrow> Some (fst (ListManagedClusters mg now m user)))"

end
