(* ===== verification/Modals.thy ===== *)
theory Modals
  imports Actions MceOps
begin

text \<open>
  The modal dialogs of \<open>pkg/slack/modals\<close>: the data a dialog carries from step to step, the views, and the handlers of the two
  dialogs that launch clusters. A view keeps its private metadata as data, since its JSON text is only written and read back by
  the bot; labels, placeholders and the names of dividers are left out of the blocks. A handler answers Slack at once and
  overwrites the view in a goroutine, which is part of its result.
\<close>

section \<open>Data\<close>

abbreviation "StableReleasesPrefix \<equiv> ''4-stable''"
abbreviation "LaunchFromPR \<equiv> ''pr''"
abbreviation "LaunchFromMajorMinor \<equiv> ''major_minor''"
abbreviation "LaunchFromStream \<equiv> ''stream''"
abbreviation "LaunchFromReleaseController \<equiv> ''release_controller_version''"
abbreviation "LaunchFromCustom \<equiv> ''custom''"
abbreviation "LaunchPlatform \<equiv> ''platform''"
abbreviation "LaunchArchitecture \<equiv> ''architecture''"
abbreviation "LaunchParameters \<equiv> ''parameters''"
abbreviation "LaunchVersion \<equiv> ''version''"
abbreviation "LaunchMode \<equiv> ''launch_mode''"
abbreviation "LaunchFromPRYes \<equiv> ''Yes''"
abbreviation "LaunchFromPRNo \<equiv> ''No''"
abbreviation "LaunchModeContext \<equiv> ''Launch Mode''"
abbreviation "BackButtonActionID \<equiv> ''back_button_action''"
abbreviation "CreateDuration \<equiv> ''duration''"

record CallbackData =
  cd_Input :: "(string, string) gomap"
  cd_MultipleSelection :: "(string, string list) gomap"
  cd_PreviousStep :: string

definition emptyData :: CallbackData where
  "emptyData = \<lparr>cd_Input = [], cd_MultipleSelection = [], cd_PreviousStep = []\<rparr>"

abbreviation input_of :: "CallbackData \<Rightarrow> string \<Rightarrow> string" where
  "input_of data k \<equiv> mget0 [] (cd_Input data) k"

text \<open>Private metadata: the data and the identifier of the step, or nothing when the text is not that of a step.\<close>

type_synonym metadata = "(CallbackData \<times> string) option"

datatype block =
    BackButton
  | HeaderText string
  | SectionText string
  | SelectInput string bool "string list" "string option"
  | MultiSelectInput string bool "string list"
  | TextInput string bool string
  | UserSelect string string
  | SectionButton string string
  | Divider
  | ContextText string
  | Preformatted string

record View =
  vw_Metadata :: metadata
  vw_Title :: string
  vw_Close :: string
  vw_Submit :: "string option"
  vw_Blocks :: "block list"

definition emptyView :: View where
  "emptyView = \<lparr>vw_Metadata = None, vw_Title = [], vw_Close = [], vw_Submit = None, vw_Blocks = []\<rparr>"

text \<open>One value of the state of a view, and the callback Slack sends.\<close>

record BlockAction =
  ba_Value :: string
  ba_SelectedOption :: "string \<times> string"
  ba_SelectedUser :: string
  ba_SelectedOptions :: "string list"

datatype interaction_type = Shortcut | BlockActions | ViewSubmission | OtherInteraction string

record button_action =
  bu_Type :: string
  bu_ActionID :: string
  bu_Value :: string

record Callback =
  ic_Type :: interaction_type
  ic_CallbackID :: string
  ic_Metadata :: metadata
  ic_Values :: "(string, BlockAction list) gomap"
  ic_Actions :: "button_action list"
  ic_UserID :: string
  ic_UserName :: string

section \<open>Reading a callback\<close>

definition selection_of :: "BlockAction list \<Rightarrow> string option" where
  "selection_of vs = fold (\<lambda>v acc.
     if ba_SelectedUser v \<noteq> [] then Some (ba_SelectedUser v)
     else if fst (ba_SelectedOption v) \<noteq> [] then Some (snd (ba_SelectedOption v)) else acc) vs None"

definition CallbackSelection :: "Callback \<Rightarrow> (string, string) gomap" where
  "CallbackSelection cb = List.map_filter (\<lambda>(k, vs). map_option (Pair k) (selection_of vs)) (ic_Values cb)"

definition text_of :: "BlockAction list \<Rightarrow> string option" where
  "text_of vs = fold (\<lambda>v acc. if ba_Value v \<noteq> [] then Some (ba_Value v) else acc) vs None"

definition CallbackInput :: "Callback \<Rightarrow> (string, string) gomap" where
  "CallbackInput cb = List.map_filter (\<lambda>(k, vs). map_option (Pair k) (text_of vs)) (ic_Values cb)"

definition CallbackMultipleSelect :: "Callback \<Rightarrow> (string, string list) gomap" where
  "CallbackMultipleSelect cb = List.map_filter (\<lambda>(k, vs).
     let selections = concat (map ba_SelectedOptions vs) in if selections = [] then None else Some (k, selections)) (ic_Values cb)"

definition CallBackInputAll :: "Callback \<Rightarrow> (string, string) gomap" where
  "CallBackInputAll cb = copy_map (copy_map [] (CallbackSelection cb)) (CallbackInput cb)"

definition MergeCallbackData :: "Callback \<Rightarrow> CallbackData" where
  "MergeCallbackData cb =
     (let d = (case ic_Metadata cb of None \<Rightarrow> emptyData | Some (d, _) \<Rightarrow> d) in
      d\<lparr>cd_Input := copy_map (cd_Input d) (CallBackInputAll cb),
        cd_MultipleSelection := copy_map (cd_MultipleSelection d) (CallbackMultipleSelect cb)\<rparr>)"

definition launchTypes :: "string list" where
  "launchTypes = [LaunchVersion, LaunchFromMajorMinor, LaunchFromStream, LaunchFromReleaseController, LaunchFromCustom]"

definition GetVersion :: "CallbackData \<Rightarrow> string" where
  "GetVersion data = (case find (mhas (cd_Input data)) launchTypes of None \<Rightarrow> [] | Some k \<Rightarrow> input_of data k)"

definition SetPreviousStep :: "CallbackData \<Rightarrow> string \<Rightarrow> CallbackData" where
  "SetPreviousStep data currentStep = data\<lparr>cd_PreviousStep := currentStep\<rparr>"

definition BuildOptions :: "string list \<Rightarrow> string list \<Rightarrow> string list" where
  "BuildOptions opts excludeList = filter (\<lambda>p. p \<notin> set excludeList) opts"

section \<open>Answers\<close>

datatype response =
    Prepare string
  | ValidationError "(string, string) gomap"
  | ParameterError manager_error
  | NoResponse

text \<open>A goroutine of a handler and the view it shows; \<open>Inline\<close> is work done before the handler returns.\<close>

datatype goroutine = SafeGo View | BareGo View | Inline View

definition ErrorView :: "string \<Rightarrow> string \<Rightarrow> View" where
  "ErrorView action err =
     \<lparr>vw_Metadata = None, vw_Title = ''Error Occurred'', vw_Close = ''OK'', vw_Submit = None,
      vw_Blocks = [SectionText (''We encountered an error trying to '' @ action @ '':'' @ [CHR 0x0A] @ ''>'' @ err)]\<rparr>"

definition SubmissionView :: "string \<Rightarrow> string \<Rightarrow> View" where
  "SubmissionView title msg =
     \<lparr>vw_Metadata = None, vw_Title = title, vw_Close = ''Close'', vw_Submit = None, vw_Blocks = [SectionText msg]\<rparr>"

definition PrepareNextStepView :: "string \<Rightarrow> View" where
  "PrepareNextStepView title =
     \<lparr>vw_Metadata = None, vw_Title = title, vw_Close = [], vw_Submit = None,
      vw_Blocks = [SectionText ''Processing the next step, do not close this window...'']\<rparr>"

text \<open>
  What \<open>UpdateView\<close> answers: it was updated, Slack refused it, or there is no response at all, in which case
  the client returns a nil pointer that \<open>OverwriteView\<close> dereferences for its log entry.
\<close>

datatype update_reply = Updated | UpdateRefused string | NoReply

definition OverwriteView :: "(View \<Rightarrow> update_reply) \<Rightarrow> View \<Rightarrow> View list \<times> bool" where
  "OverwriteView upd view =
     (case upd view of
        Updated \<Rightarrow> ([view], False)
      | UpdateRefused e \<Rightarrow>
          let error = ErrorView ''updating the modal view'' e in
          (if upd error = Updated then [error] else [], False)
      | NoReply \<Rightarrow> ([], True))"

text \<open>The effect of a handler on the process: the views shown and whether the process crashes.\<close>

definition run_goroutine :: "(View \<Rightarrow> update_reply) \<Rightarrow> goroutine \<Rightarrow> View list \<times> bool" where
  "run_goroutine upd g =
     (case g of
        SafeGo v \<Rightarrow> (fst (OverwriteView upd v), False)
      | BareGo v \<Rightarrow> OverwriteView upd v
      | Inline v \<Rightarrow> (fst (OverwriteView upd v), False))"

section \<open>The release controller\<close>

datatype http_reply = HttpError string | HttpStatus nat string

record release_source =
  rs_get :: "string \<Rightarrow> http_reply"
  rs_decode :: "string \<Rightarrow> (string, (string, string list) gomap) result"
  rs_hypershift :: "string list"
  rs_semverSort :: "string list \<Rightarrow> string list"

definition FetchReleases :: "release_source \<Rightarrow> string \<Rightarrow> (string, (string, string list) gomap) result" where
  "FetchReleases rs architecture =
     (let url = ''https://'' @ architecture @ ''.ocp.releases.ci.openshift.org/api/v1/releasestreams/accepted'' in
      case rs_get rs url of
        HttpError e \<Rightarrow> Inl e
      | HttpStatus n body \<Rightarrow>
          if n \<noteq> 200 then Inl (''FetchReleases: unexpected status '' @ show_nat n @ '' from '' @ url)
          else rs_decode rs body)"

definition hypershift_stream :: "string list \<Rightarrow> string \<Rightarrow> bool" where
  "hypershift_stream versions stream =
     list_ex (\<lambda>v. has_prefix stream v \<or>
       (case split_two CHR ''-'' stream of (_, Some rest) \<Rightarrow> rest = ''dev'' \<or> rest = ''stable'' | _ \<Rightarrow> False)) versions"

definition filterStreams :: "release_source \<Rightarrow> (string, string list) gomap \<Rightarrow> string \<Rightarrow> string list" where
  "filterStreams rs releases platform =
     (if platform = ''hypershift-hosted'' then filter (hypershift_stream (rs_hypershift rs)) (mkeys releases) else mkeys releases)"

section \<open>Building views\<close>

text \<open>The verb \<open>%q\<close> for the names of streams, versions and platforms, which need no escapes.\<close>

definition quoted_text :: "string \<Rightarrow> string" where
  "quoted_text s = [CHR 0x22] @ s @ [CHR 0x22]"

text \<open>\<open>MetadataBuilder\<close>: the context line of a view.\<close>

definition BuildMetadata :: "(string \<times> string) list \<Rightarrow> string" where
  "BuildMetadata parts = join ''; '' (map (\<lambda>(k, v). k @ '': '' @ v) (filter (\<lambda>(_, v). v \<noteq> []) parts))"

record BaseViewConfig =
  bv_Callback :: bool
  bv_Data :: CallbackData
  bv_ModalIdentifier :: string
  bv_Title :: string
  bv_PreviousStep :: string
  bv_ContextMetadata :: string
  bv_Architecture :: string

definition step_view :: "BaseViewConfig \<Rightarrow> block list \<Rightarrow> View" where
  "step_view config blocks =
     \<lparr>vw_Metadata = Some (SetPreviousStep (bv_Data config) (bv_PreviousStep config), bv_ModalIdentifier config),
      vw_Title = bv_Title config, vw_Close = ''Cancel'', vw_Submit = Some ''Next'', vw_Blocks = blocks\<rparr>"

definition SlackUIMaxOptions :: nat where
  "SlackUIMaxOptions = 99"

definition fetch_error :: "string \<Rightarrow> View" where
  "fetch_error err = ErrorView ''retrieve valid releases from the release-controller'' err"

definition given :: "CallbackData \<Rightarrow> string \<Rightarrow> string option" where
  "given data k = (if input_of data k = [] then None else Some (input_of data k))"

definition filter_blocks :: "BaseViewConfig \<Rightarrow> string list \<Rightarrow> block list" where
  "filter_blocks config streams =
     [BackButton, HeaderText ''Version Specifications'',
      SectionText ''*Specify the _stream_ to get a list of versions to select from*'',
      SelectInput LaunchFromStream True streams (given (bv_Data config) LaunchFromStream), Divider,
      SectionText ([CHR 0x0A] @ ''*Alternatively:*'' @ [CHR 0x0A] @ ''*Launch using a _Custom_ Pull Spec*''),
      TextInput LaunchFromCustom True (input_of (bv_Data config) LaunchFromCustom), Divider,
      ContextText (bv_ContextMetadata config)]"

definition BuildFilterVersionView :: "release_source \<Rightarrow> BaseViewConfig \<Rightarrow> bool \<Rightarrow> View" where
  "BuildFilterVersionView rs config noneSelected =
     (if \<not> bv_Callback config then emptyView
      else (case FetchReleases rs (bv_Architecture config) of
              Inl err \<Rightarrow> fetch_error err
            | Inr releases \<Rightarrow>
                let platform = input_of (bv_Data config) LaunchPlatform;
                    streams = filterStreams rs releases platform in
                if streams = [] then ErrorView ''find release streams'' (''no release streams found for platform '' @ quoted_text platform)
                else step_view config
                  ((if noneSelected then [HeaderText '':warning: Error: At least one option must be selected :warning:''] else []) @
                   filter_blocks config (BuildOptions (sort streams) []))))"

definition major_minor :: "string \<Rightarrow> string option" where
  "major_minor tag = (case split_char CHR ''.'' tag of a # b # _ \<Rightarrow> Some (a @ ''.'' @ b) | _ \<Rightarrow> None)"

definition majorMinorReleases :: "release_source \<Rightarrow> (string, string list) gomap \<Rightarrow> string \<Rightarrow> string \<Rightarrow> string list" where
  "majorMinorReleases rs releases selectedStream platform =
     (let keys = (case mget releases selectedStream of
                    Some tags \<Rightarrow> if has_prefix selectedStream StableReleasesPrefix then remdups (List.map_filter major_minor tags) else []
                  | None \<Rightarrow> []);
          kept = filter (\<lambda>key. key \<in> set (rs_hypershift rs) \<or> platform \<noteq> ''hypershift-hosted'') keys in
      rev (map (\<lambda>v. trim_prefix v ''v'') (rs_semverSort rs (map (\<lambda>v. ''v'' @ v) kept))))"

definition BuildSelectMinorMajorView :: "release_source \<Rightarrow> BaseViewConfig \<Rightarrow> View" where
  "BuildSelectMinorMajorView rs config =
     (if \<not> bv_Callback config then emptyView
      else let selectedStream = input_of (bv_Data config) LaunchFromStream in
        (case FetchReleases rs (bv_Architecture config) of
           Inl err \<Rightarrow> fetch_error err
         | Inr releases \<Rightarrow>
             let mm = majorMinorReleases rs releases selectedStream (input_of (bv_Data config) LaunchPlatform) in
             if mm = [] then ErrorView ''find major.minor versions'' (''no major.minor versions found for stream '' @ quoted_text selectedStream)
             else step_view config
               [BackButton, HeaderText ''There are too many results from the selected Stream. Select a Major.Minor as well'', Divider,
                SelectInput LaunchFromMajorMinor False (BuildOptions mm []) None, Divider, ContextText (bv_ContextMetadata config)]))"

definition BuildSelectVersionView :: "release_source \<Rightarrow> BaseViewConfig \<Rightarrow> string \<Rightarrow> View" where
  "BuildSelectVersionView rs config selectMinorMajorIdentifier =
     (if \<not> bv_Callback config then emptyView
      else let selectedStream = input_of (bv_Data config) LaunchFromStream;
               selectedMajorMinor = input_of (bv_Data config) LaunchFromMajorMinor in
        (case FetchReleases rs (bv_Architecture config) of
           Inl err \<Rightarrow> fetch_error err
         | Inr releases \<Rightarrow>
             let allTags = (case mget releases selectedStream of
                              Some tags \<Rightarrow> filter (\<lambda>tag. has_prefix tag selectedMajorMinor) tags
                            | None \<Rightarrow> []) in
             if allTags = []
             then ErrorView ''find versions matching your selection''
                    (''no versions found for stream '' @ quoted_text selectedStream @ '' with major.minor '' @ quoted_text selectedMajorMinor)
             else if SlackUIMaxOptions < length allTags
             then BuildSelectMinorMajorView rs (if selectMinorMajorIdentifier \<noteq> []
                    then config\<lparr>bv_ModalIdentifier := selectMinorMajorIdentifier\<rparr> else config)
             else step_view config
               [BackButton, HeaderText ''Select a Version'', Divider,
                SelectInput LaunchVersion False (BuildOptions allTags []) None, Divider, ContextText (bv_ContextMetadata config)]))"

definition BuildPRInputView :: "BaseViewConfig \<Rightarrow> View" where
  "BuildPRInputView config =
     (if \<not> bv_Callback config then emptyView
      else step_view config
        [BackButton, HeaderText ''Enter A PR'', TextInput LaunchFromPR False [], Divider, ContextText (bv_ContextMetadata config)])"

definition BuildSelectModeView :: "BaseViewConfig \<Rightarrow> View" where
  "BuildSelectModeView config =
     (if \<not> bv_Callback config then emptyView
      else let opts = BuildOptions [LaunchFromPRYes, LaunchFromPRNo] [];
               initial = (case given (bv_Data config) LaunchMode of
                            None \<Rightarrow> None | Some mode \<Rightarrow> find (\<lambda>opt. opt = mode) opts) in
        step_view config
          [BackButton, HeaderText ''Do you want to launch from a PR?'', SelectInput LaunchMode False opts initial, Divider,
           ContextText (bv_ContextMetadata config)])"

definition BuildPRInputMetadata :: "CallbackData \<Rightarrow> string \<Rightarrow> string" where
  "BuildPRInputMetadata data baseMetadata =
     (let version0 = input_of data LaunchVersion;
          version = (if version0 = [] then input_of data LaunchFromCustom else version0) in
      if version = [] then baseMetadata else baseMetadata @ ''; Version: '' @ version)"

section \<open>The dialog that launches a cluster\<close>

abbreviation "IdentifierInitialView \<equiv> ''launch''"
abbreviation "Identifier3rdStep \<equiv> ''launch3rdStep''"
abbreviation "IdentifierPRInputView \<equiv> ''pr_input_view''"
abbreviation "IdentifierFilterVersionView \<equiv> ''filter_version_view''"
abbreviation "IdentifierRegisterLaunchMode \<equiv> ''launch_mode_view''"
abbreviation "IdentifierSelectVersion \<equiv> ''select_version''"
abbreviation "IdentifierSelectMinorMajor \<equiv> ''select_minor_major''"
abbreviation "ModalTitle \<equiv> ''Launch a Cluster''"
abbreviation "DefaultPlatform \<equiv> ''hypershift-hosted''"
abbreviation "DefaultArchitecture \<equiv> ''amd64''"

definition FirstStepViewWithData :: "CallbackData \<Rightarrow> View" where
  "FirstStepViewWithData data =
     \<lparr>vw_Metadata = Some (data, IdentifierInitialView), vw_Title = ''Launch a Cluster'', vw_Close = ''Cancel'', vw_Submit = Some ''Next'',
      vw_Blocks = [HeaderText ''Select the Launch Platform and Architecture'',
        SelectInput LaunchPlatform True (BuildOptions SupportedPlatforms []) (given data LaunchPlatform),
        SelectInput LaunchArchitecture True (BuildOptions SupportedArchitectures []) (given data LaunchArchitecture)]\<rparr>"

definition FirstStepView :: View where
  "FirstStepView = FirstStepViewWithData emptyData"

definition launch_context :: "CallbackData \<Rightarrow> (string \<times> string) list" where
  "launch_context data = [(''Architecture'', input_of data LaunchArchitecture), (''Platform'', input_of data LaunchPlatform)]"

definition excluded_parameters :: "string \<Rightarrow> string list" where
  "excluded_parameters platform =
     filter (\<lambda>p. case mget MultistageParameters p of None \<Rightarrow> False | Some (_, _, platforms) \<Rightarrow> platform \<notin> set platforms) SupportedParameters"

definition ThirdStepView :: "bool \<Rightarrow> CallbackData \<Rightarrow> string \<Rightarrow> View" where
  "ThirdStepView callback data previousStep =
     (if \<not> callback then emptyView
      else let prs = (case mget (cd_Input data) LaunchFromPR of None \<Rightarrow> ''None'' | Some prs \<Rightarrow> prs);
               context = BuildMetadata (launch_context data @ [(''Version'', GetVersion data), (''PR'', prs)]) in
        \<lparr>vw_Metadata = Some (SetPreviousStep data previousStep, Identifier3rdStep), vw_Title = ''Launch a Cluster'', vw_Close = ''Cancel'',
         vw_Submit = Some ''Submit'',
         vw_Blocks = [BackButton,
           MultiSelectInput LaunchParameters True (BuildOptions SupportedParameters (excluded_parameters (input_of data LaunchPlatform))),
           Divider, ContextText context]\<rparr>)"

definition launch_config_of :: "bool \<Rightarrow> CallbackData \<Rightarrow> string \<Rightarrow> string \<Rightarrow> string \<Rightarrow> BaseViewConfig" where
  "launch_config_of callback data ident previousStep context =
     \<lparr>bv_Callback = callback, bv_Data = data, bv_ModalIdentifier = ident, bv_Title = ModalTitle, bv_PreviousStep = previousStep,
      bv_ContextMetadata = context, bv_Architecture = input_of data LaunchArchitecture\<rparr>"

definition SelectModeView :: "bool \<Rightarrow> CallbackData \<Rightarrow> View" where
  "SelectModeView callback data =
     BuildSelectModeView (launch_config_of callback data IdentifierRegisterLaunchMode IdentifierInitialView
       (BuildMetadata [(''Architecture'', mget0 DefaultArchitecture (cd_Input data) LaunchArchitecture),
                       (''Platform'', mget0 DefaultPlatform (cd_Input data) LaunchPlatform)]))"

definition FilterVersionView :: "release_source \<Rightarrow> bool \<Rightarrow> CallbackData \<Rightarrow> bool \<Rightarrow> View" where
  "FilterVersionView rs callback data noneSelected =
     BuildFilterVersionView rs (launch_config_of callback data IdentifierFilterVersionView IdentifierRegisterLaunchMode
       (BuildMetadata (launch_context data @ [(LaunchModeContext, input_of data LaunchMode)]))) noneSelected"

definition PRInputView :: "bool \<Rightarrow> CallbackData \<Rightarrow> string \<Rightarrow> View" where
  "PRInputView callback data previousStep =
     BuildPRInputView (launch_config_of callback data IdentifierPRInputView previousStep
       (BuildPRInputMetadata data (BuildMetadata (launch_context data @ [(LaunchModeContext, input_of data LaunchMode)]))))"

definition SelectVersionView :: "release_source \<Rightarrow> bool \<Rightarrow> CallbackData \<Rightarrow> string \<Rightarrow> View" where
  "SelectVersionView rs callback data previousStep =
     BuildSelectVersionView rs (launch_config_of callback data IdentifierSelectVersion previousStep
       (BuildMetadata (launch_context data @ [(LaunchModeContext, input_of data LaunchMode)]))) IdentifierSelectMinorMajor"

definition SelectMinorMajor :: "release_source \<Rightarrow> bool \<Rightarrow> CallbackData \<Rightarrow> string \<Rightarrow> View" where
  "SelectMinorMajor rs callback data previousStep =
     BuildSelectMinorMajorView rs (launch_config_of callback data IdentifierSelectMinorMajor previousStep
       (BuildMetadata (launch_context data @ [(LaunchModeContext, input_of data LaunchMode), (LaunchFromStream, input_of data LaunchFromStream)])))"

section \<open>The dialog that creates a managed cluster\<close>

abbreviation "mce_InitialView \<equiv> ''mce_create''"
abbreviation "mce_SelectMode \<equiv> ''mce_mode''"
abbreviation "mce_3rdStep \<equiv> ''mce3rdStep''"
abbreviation "mce_PRInput \<equiv> ''mce_pr_input_view''"
abbreviation "mce_FilterVersion \<equiv> ''mce_filter_version_view''"
abbreviation "mce_SelectVersion \<equiv> ''mce_select_version''"
abbreviation "mce_SelectMinorMajor \<equiv> ''mce_select_minor_major''"
abbreviation "mce_ModalTitle \<equiv> ''Launch an MCE Cluster''"

definition mce_durations :: "string list" where
  "mce_durations = map (\<lambda>i. show_nat i @ ''h'') [2 ..< Suc (nat (tdiv MaxMCEDuration hour))]"

definition mce_FirstStepViewWithData :: "CallbackData \<Rightarrow> View" where
  "mce_FirstStepViewWithData data =
     \<lparr>vw_Metadata = Some (data, mce_InitialView), vw_Title = ''Launch an MCE Cluster'', vw_Close = ''Cancel'', vw_Submit = Some ''Next'',
      vw_Blocks = [HeaderText ''Select the Launch Platform and Duration'',
        SelectInput LaunchPlatform True (BuildOptions MCEPlatforms []) (given data LaunchPlatform),
        SelectInput CreateDuration True (BuildOptions mce_durations []) (given data CreateDuration)]\<rparr>"

definition mce_context :: "CallbackData \<Rightarrow> (string \<times> string) list" where
  "mce_context data = [(''Duration'', input_of data CreateDuration), (''Platform'', input_of data LaunchPlatform)]"

definition mce_ThirdStepView :: "bool \<Rightarrow> CallbackData \<Rightarrow> string \<Rightarrow> View" where
  "mce_ThirdStepView callback data previousStep =
     (if \<not> callback then emptyView
      else let prs = (case mget (cd_Input data) LaunchFromPR of None \<Rightarrow> ''None'' | Some prs \<Rightarrow> prs);
               context = BuildMetadata (mce_context data @ [(''Version'', GetVersion data), (''PR'', prs)]) in
        \<lparr>vw_Metadata = Some (SetPreviousStep data previousStep, mce_3rdStep), vw_Title = ''Launch a Cluster'', vw_Close = ''Cancel'',
         vw_Submit = Some ''Submit'', vw_Blocks = [BackButton, ContextText context]\<rparr>)"

definition mce_config_of :: "bool \<Rightarrow> CallbackData \<Rightarrow> string \<Rightarrow> string \<Rightarrow> string \<Rightarrow> BaseViewConfig" where
  "mce_config_of callback data ident previousStep context =
     \<lparr>bv_Callback = callback, bv_Data = data, bv_ModalIdentifier = ident, bv_Title = mce_ModalTitle, bv_PreviousStep = previousStep,
      bv_ContextMetadata = context, bv_Architecture = ''amd64''\<rparr>"

definition mce_SelectModeView :: "bool \<Rightarrow> CallbackData \<Rightarrow> View" where
  "mce_SelectModeView callback data =
     BuildSelectModeView (mce_config_of callback data mce_SelectMode mce_InitialView
       (BuildMetadata [(''Platform'', mget0 ''aws'' (cd_Input data) LaunchPlatform), (''Duration'', mget0 ''6h'' (cd_Input data) CreateDuration)]))"

definition mce_FilterVersionView :: "release_source \<Rightarrow> bool \<Rightarrow> CallbackData \<Rightarrow> bool \<Rightarrow> View" where
  "mce_FilterVersionView rs callback data noneSelected =
     BuildFilterVersionView rs (mce_config_of callback data mce_FilterVersion mce_SelectMode
       (BuildMetadata (mce_context data @ [(LaunchModeContext, input_of data LaunchMode)]))) noneSelected"

definition mce_PRInputView :: "bool \<Rightarrow> CallbackData \<Rightarrow> string \<Rightarrow> View" where
  "mce_PRInputView callback data previousStep =
     BuildPRInputView (mce_config_of callback data mce_PRInput previousStep
       (BuildPRInputMetadata data (BuildMetadata (mce_context data @ [(LaunchModeContext, input_of data LaunchMode)]))))"

definition mce_SelectVersionView :: "release_source \<Rightarrow> bool \<Rightarrow> CallbackData \<Rightarrow> string \<Rightarrow> View" where
  "mce_SelectVersionView rs callback data previousStep =
     BuildSelectVersionView rs (mce_config_of callback data mce_SelectVersion previousStep
       (BuildMetadata (mce_context data @ [(LaunchModeContext, input_of data LaunchMode)]))) mce_SelectMinorMajor"

definition mce_SelectMinorMajorView :: "release_source \<Rightarrow> bool \<Rightarrow> CallbackData \<Rightarrow> string \<Rightarrow> View" where
  "mce_SelectMinorMajorView rs callback data previousStep =
     BuildSelectMinorMajorView rs (mce_config_of callback data mce_SelectMinorMajor previousStep
       (BuildMetadata (mce_context data @ [(LaunchModeContext, input_of data LaunchMode), (LaunchFromStream, input_of data LaunchFromStream)])))"

section \<open>The handlers of the steps\<close>

type_synonym handler = "Callback \<Rightarrow> response \<times> goroutine option"

definition HasPRMode :: "CallbackData \<Rightarrow> bool" where
  "HasPRMode data \<longleftrightarrow> input_of data LaunchMode = LaunchFromPRYes"

text \<open>
  \<open>ValidatePRInput\<close>. The pull requests are resolved concurrently; \<open>ResolveAsPullRequest\<close> returns no reference whenever it
  returns an error, so every failure is reported with the same words and the order does not matter.
\<close>

definition pr_error :: "'v resolver \<Rightarrow> string \<Rightarrow> string option" where
  "pr_error rv pr =
     (case ResolveAsPullRequest (rv_github rv) (rv_forcePROwner rv) pr of
        Inr (Some _) \<Rightarrow> None
      | _ \<Rightarrow> Some ''invalid PR(s)'')"

definition ValidatePRInput :: "'v resolver \<Rightarrow> CallbackData \<Rightarrow> response option" where
  "ValidatePRInput rv data =
     (case mget (cd_Input data) LaunchFromPR of
        None \<Rightarrow> None
      | Some prs \<Rightarrow>
          (case List.map_filter (pr_error rv) (split_char CHR '','' prs) of
             [] \<Rightarrow> None
           | errs \<Rightarrow> Some (ValidationError [(LaunchFromPR, join ''; '' errs)])))"

definition ValidateFilterVersion :: "CallbackData \<Rightarrow> response option" where
  "ValidateFilterVersion data =
     (if input_of data LaunchFromCustom \<noteq> [] \<and> input_of data LaunchFromStream \<noteq> []
      then Some (ValidationError [(LaunchFromCustom, ''Select only one parameter!''), (LaunchFromStream, ''Select only one parameter!'')])
      else None)"

definition MakeModeStepHandler :: "string \<Rightarrow> (bool \<Rightarrow> CallbackData \<Rightarrow> bool \<Rightarrow> View) \<Rightarrow> handler" where
  "MakeModeStepHandler title filterVersionView cb =
     (Prepare title, Some (SafeGo (filterVersionView True (MergeCallbackData cb) False)))"

definition MakePRInputHandler :: "'v resolver \<Rightarrow> string \<Rightarrow> string \<Rightarrow> (bool \<Rightarrow> CallbackData \<Rightarrow> string \<Rightarrow> View) \<Rightarrow> handler" where
  "MakePRInputHandler rv ident title thirdStepView cb =
     (let data = MergeCallbackData cb in
      case ValidatePRInput rv data of
        Some errs \<Rightarrow> (errs, None)
      | None \<Rightarrow> (Prepare title, Some (BareGo (thirdStepView True data ident))))"

record ViewFuncs =
  vf_FilterVersionView :: "bool \<Rightarrow> CallbackData \<Rightarrow> bool \<Rightarrow> View"
  vf_PRInputView :: "bool \<Rightarrow> CallbackData \<Rightarrow> string \<Rightarrow> View"
  vf_ThirdStepView :: "bool \<Rightarrow> CallbackData \<Rightarrow> string \<Rightarrow> View"
  vf_SelectVersionView :: "bool \<Rightarrow> CallbackData \<Rightarrow> string \<Rightarrow> View"

definition MakeFilterVersionHandler :: "string \<Rightarrow> string \<Rightarrow> ViewFuncs \<Rightarrow> handler" where
  "MakeFilterVersionHandler ident title views cb =
     (let data = MergeCallbackData cb in
      case ValidateFilterVersion data of
        Some errs \<Rightarrow> (errs, None)
      | None \<Rightarrow>
          let customBuild = input_of data LaunchFromCustom; stream = input_of data LaunchFromStream; hasPR = HasPRMode data in
          (Prepare title, Some (SafeGo
            (if customBuild = [] \<and> stream = [] then vf_FilterVersionView views True data True
             else if customBuild \<noteq> [] \<and> hasPR then vf_PRInputView views True data ident
             else if customBuild \<noteq> [] \<and> \<not> hasPR then vf_ThirdStepView views True data ident
             else vf_SelectVersionView views True data ident))))"

definition MakeSelectVersionHandler :: "string \<Rightarrow> string \<Rightarrow> (bool \<Rightarrow> CallbackData \<Rightarrow> string \<Rightarrow> View) \<Rightarrow>
    (bool \<Rightarrow> CallbackData \<Rightarrow> string \<Rightarrow> View) \<Rightarrow> handler" where
  "MakeSelectVersionHandler ident title prInputView thirdStepView cb =
     (let data = MergeCallbackData cb in
      (Prepare title, Some (SafeGo (if HasPRMode data then prInputView True data ident else thirdStepView True data ident))))"

definition MakeSelectMinorMajorHandler :: "string \<Rightarrow> string \<Rightarrow> (bool \<Rightarrow> CallbackData \<Rightarrow> string \<Rightarrow> View) \<Rightarrow> handler" where
  "MakeSelectMinorMajorHandler ident title selectVersionView cb =
     (Prepare title, Some (BareGo (selectVersionView True (MergeCallbackData cb) ident)))"

record FirstStepConfig =
  fc_DefaultPlatform :: string
  fc_DefaultArchitecture :: string
  fc_NeedsArchitecture :: bool

text \<open>The defaults of the first step.\<close>

definition first_inputs :: "FirstStepConfig \<Rightarrow> (string, string) gomap \<Rightarrow> (string, string) gomap" where
  "first_inputs config input =
     (if \<not> fc_NeedsArchitecture config then input
      else let i1 = (if mget0 [] input LaunchPlatform = [] then mput LaunchPlatform (fc_DefaultPlatform config) input else input) in
        if mget0 [] i1 LaunchArchitecture = []
        then mput LaunchArchitecture
               (if mget0 [] i1 LaunchPlatform = ''hypershift-hosted'' then ''multi'' else fc_DefaultArchitecture config) i1
        else i1)"

definition MakeFirstStepHandler :: "string \<Rightarrow> (bool \<Rightarrow> CallbackData \<Rightarrow> View) \<Rightarrow> FirstStepConfig \<Rightarrow> handler" where
  "MakeFirstStepHandler title selectModeView config cb =
     (let input = first_inputs config (CallBackInputAll cb) in
      if fc_NeedsArchitecture config \<and> mget0 [] input LaunchPlatform = ''hypershift-hosted'' \<and> mget0 [] input LaunchArchitecture \<noteq> ''multi''
      then (ValidationError [(LaunchArchitecture, ''hypershift-hosted only supports the '' @ quoted_text ''multi'' @ '' architecture'')], None)
      else (Prepare title, Some (SafeGo (selectModeView True (emptyData\<lparr>cd_Input := input\<rparr>)))))"

section \<open>Going back\<close>

record BackNavigationIdentifiers =
  bi_InitialView :: string
  bi_SelectModeView :: string
  bi_FilterVersionView :: string
  bi_SelectMinorMajor :: string
  bi_SelectVersion :: string
  bi_PRInputView :: string
  bi_ThirdStep :: string

record BackNavigationViews =
  bn_FirstStepViewWithData :: "CallbackData \<Rightarrow> View"
  bn_SelectModeView :: "bool \<Rightarrow> CallbackData \<Rightarrow> View"
  bn_FilterVersionView :: "bool \<Rightarrow> CallbackData \<Rightarrow> bool \<Rightarrow> View"
  bn_SelectMinorMajor :: "bool \<Rightarrow> CallbackData \<Rightarrow> string \<Rightarrow> View"
  bn_SelectVersionView :: "bool \<Rightarrow> CallbackData \<Rightarrow> string \<Rightarrow> View"
  bn_PRInputView :: "bool \<Rightarrow> CallbackData \<Rightarrow> string \<Rightarrow> View"

text \<open>The steps in order, with the keys of the inputs and of the multiple selections that belong to them.\<close>

definition step_keys :: "BackNavigationIdentifiers \<Rightarrow> (string \<times> string list \<times> string list) list" where
  "step_keys ids =
     [(bi_InitialView ids, [LaunchPlatform, LaunchArchitecture], []),
      (bi_SelectModeView ids, [LaunchMode], []),
      (bi_FilterVersionView ids, [LaunchFromStream, LaunchFromCustom], []),
      (bi_SelectMinorMajor ids, [LaunchFromMajorMinor], []),
      (bi_SelectVersion ids, [LaunchVersion], []),
      (bi_PRInputView ids, [LaunchFromPR], []),
      (bi_ThirdStep ids, [], [LaunchParameters])]"

primrec clear_loop :: "string \<Rightarrow> (string \<times> string list \<times> string list) list \<Rightarrow> bool \<Rightarrow> CallbackData \<Rightarrow> CallbackData" where
  "clear_loop fromStep [] clearing data = data"
| "clear_loop fromStep (s # steps) clearing data =
     (if fst s = fromStep then clear_loop fromStep steps True data
      else if \<not> clearing then clear_loop fromStep steps clearing data
      else clear_loop fromStep steps clearing
        (data\<lparr>cd_Input := fold mdel (fst (snd s)) (cd_Input data),
              cd_MultipleSelection := fold mdel (snd (snd s)) (cd_MultipleSelection data)\<rparr>))"

definition clearForwardSelections :: "CallbackData \<Rightarrow> string \<Rightarrow> BackNavigationIdentifiers \<Rightarrow> CallbackData" where
  "clearForwardSelections data fromStep ids = clear_loop fromStep (step_keys ids) False data"

definition NavigateBack :: "CallbackData \<Rightarrow> string \<Rightarrow> BackNavigationViews \<Rightarrow> BackNavigationIdentifiers \<Rightarrow> View" where
  "NavigateBack data0 previousStep views ids =
     (let data = clearForwardSelections data0 previousStep ids in
      if previousStep = bi_InitialView ids then bn_FirstStepViewWithData views data
      else if previousStep = bi_SelectModeView ids then bn_SelectModeView views True data
      else if previousStep = bi_FilterVersionView ids then bn_FilterVersionView views True data False
      else if previousStep = bi_SelectMinorMajor ids then bn_SelectMinorMajor views True data (bi_FilterVersionView ids)
      else if previousStep = bi_SelectVersion ids then bn_SelectVersionView views True data (bi_FilterVersionView ids)
      else if previousStep = bi_PRInputView ids
      then bn_PRInputView views True data
             (if input_of data LaunchVersion \<noteq> [] \<or> input_of data LaunchFromCustom \<noteq> [] then bi_FilterVersionView ids else bi_SelectModeView ids)
      else bn_FirstStepViewWithData views data)"

definition launch_identifiers :: BackNavigationIdentifiers where
  "launch_identifiers = \<lparr>bi_InitialView = IdentifierInitialView, bi_SelectModeView = IdentifierRegisterLaunchMode,
     bi_FilterVersionView = IdentifierFilterVersionView, bi_SelectMinorMajor = IdentifierSelectMinorMajor,
     bi_SelectVersion = IdentifierSelectVersion, bi_PRInputView = IdentifierPRInputView, bi_ThirdStep = Identifier3rdStep\<rparr>"

definition mce_identifiers :: BackNavigationIdentifiers where
  "mce_identifiers = \<lparr>bi_InitialView = mce_InitialView, bi_SelectModeView = mce_SelectMode,
     bi_FilterVersionView = mce_FilterVersion, bi_SelectMinorMajor = mce_SelectMinorMajor,
     bi_SelectVersion = mce_SelectVersion, bi_PRInputView = mce_PRInput, bi_ThirdStep = mce_3rdStep\<rparr>"

definition launch_back_views :: "release_source \<Rightarrow> BackNavigationViews" where
  "launch_back_views rs = \<lparr>bn_FirstStepViewWithData = FirstStepViewWithData, bn_SelectModeView = SelectModeView,
     bn_FilterVersionView = FilterVersionView rs, bn_SelectMinorMajor = SelectMinorMajor rs,
     bn_SelectVersionView = SelectVersionView rs, bn_PRInputView = PRInputView\<rparr>"

definition mce_back_views :: "release_source \<Rightarrow> BackNavigationViews" where
  "mce_back_views rs = \<lparr>bn_FirstStepViewWithData = mce_FirstStepViewWithData, bn_SelectModeView = mce_SelectModeView,
     bn_FilterVersionView = mce_FilterVersionView rs, bn_SelectMinorMajor = mce_SelectMinorMajorView rs,
     bn_SelectVersionView = mce_SelectVersionView rs, bn_PRInputView = mce_PRInputView\<rparr>"

definition handleBackButton :: "release_source \<Rightarrow> handler" where
  "handleBackButton rs cb =
     (case ic_Actions cb of
        [] \<Rightarrow> (NoResponse, None)
      | action # _ \<Rightarrow>
          if bu_ActionID action \<noteq> BackButtonActionID then (NoResponse, None)
          else let data = MergeCallbackData cb; previousStep = cd_PreviousStep data in
            (NoResponse, Some (Inline
              (if has_prefix previousStep ''mce_'' then NavigateBack data previousStep (mce_back_views rs) mce_identifiers
               else NavigateBack data previousStep (launch_back_views rs) launch_identifiers))))"

section \<open>The last steps\<close>

text \<open>The inputs of the last step: the version and, after it, the pull requests.\<close>

definition modal_inputs :: "CallbackData \<Rightarrow> string list" where
  "modal_inputs data =
     GetVersion data #
     (case mget (cd_Input data) LaunchFromPR of
        None \<Rightarrow> []
      | Some prs \<Rightarrow> if prs = ''none'' then [] else map trim_space (split_char CHR '','' prs))"

text \<open>The request of the launch dialog; \<open>conversation\<close> is what \<open>OpenConversation\<close> returns.\<close>

definition launch_modal_request :: "string option \<Rightarrow> Callback \<Rightarrow> JobRequest" where
  "launch_modal_request conversation cb =
     (let data = MergeCallbackData cb;
          platform = input_of data LaunchPlatform; architecture = input_of data LaunchArchitecture;
          parameters = mget0 [] (cd_MultipleSelection data) LaunchParameters in
      \<lparr>rq_OriginalMessage = ''launch '' @ GetVersion data @ '' '' @ architecture @ '','' @ platform @ '','' @ join '','' parameters @ '' '',
       rq_User = ic_UserID cb, rq_UserName = ic_UserName cb, rq_Inputs = [modal_inputs data], rq_Type = JobTypeInstall,
       rq_Platform = platform, rq_WorkflowName = [],
       rq_Channel = (case conversation of None \<Rightarrow> ic_UserID cb | Some c \<Rightarrow> c),
       rq_RequestedAt = 0, rq_Name = [], rq_JobName = [],
       rq_JobParams = fold (\<lambda>p. mput p []) parameters [], rq_Architecture = architecture, rq_ManagedClusterName = []\<rparr>)"

definition processLaunchOptionsStep :: "'v environment \<Rightarrow> (Job \<Rightarrow> OperatorInfo \<times> (string, string) result) \<Rightarrow> manager \<Rightarrow> gotime \<Rightarrow>
    string option \<Rightarrow> Callback \<Rightarrow> manager \<times> response \<times> (launch_outcome \<times> event list) option" where
  "processLaunchOptionsStep env newjob m now conversation cb =
     (let job = launch_modal_request conversation cb in
      case CheckValidJobConfiguration env m now job of
        Inl e \<Rightarrow> (m, ParameterError e, None)
      | Inr _ \<Rightarrow> (case LaunchJobForUser env newjob m now job of (m', out, evs) \<Rightarrow> (m', Prepare ModalTitle, Some (out, evs))))"

definition processCreateConfirmStep :: "'v environment \<Rightarrow> (Job \<Rightarrow> OperatorInfo \<times> (string, string) result) \<Rightarrow> create_api \<Rightarrow>
    manager \<Rightarrow> mce \<Rightarrow> string option \<Rightarrow> Callback \<Rightarrow> manager \<times> response \<times> event list \<times> create_event list \<times> mce_reply" where
  "processCreateConfirmStep env newjob api mg m conversation cb =
     (let data = MergeCallbackData cb;
          duration = (case ParseDuration (input_of data CreateDuration) of None \<Rightarrow> 0 | Some d \<Rightarrow> d);
          channel = (case conversation of None \<Rightarrow> [] | Some c \<Rightarrow> c) in
      case CreateMceCluster env newjob api mg m (ic_UserID cb) channel (input_of data LaunchPlatform) [modal_inputs data] duration of
        (mg', evs, cev, reply) \<Rightarrow> (mg', Prepare mce_ModalTitle, evs, cev, reply))"

section \<open>The registered handlers\<close>

text \<open>The steps that only show the next view, by the identifier under which they are registered.\<close>

definition launch_views :: "release_source \<Rightarrow> ViewFuncs" where
  "launch_views rs = \<lparr>vf_FilterVersionView = FilterVersionView rs, vf_PRInputView = PRInputView, vf_ThirdStepView = ThirdStepView,
     vf_SelectVersionView = SelectVersionView rs\<rparr>"

definition mce_views :: "release_source \<Rightarrow> ViewFuncs" where
  "mce_views rs = \<lparr>vf_FilterVersionView = mce_FilterVersionView rs, vf_PRInputView = mce_PRInputView, vf_ThirdStepView = mce_ThirdStepView,
     vf_SelectVersionView = mce_SelectVersionView rs\<rparr>"

definition launch_first_config :: FirstStepConfig where
  "launch_first_config = \<lparr>fc_DefaultPlatform = DefaultPlatform, fc_DefaultArchitecture = DefaultArchitecture, fc_NeedsArchitecture = True\<rparr>"

definition mce_first_config :: FirstStepConfig where
  "mce_first_config = \<lparr>fc_DefaultPlatform = [], fc_DefaultArchitecture = [], fc_NeedsArchitecture = False\<rparr>"

definition step_handlers :: "'v resolver \<Rightarrow> release_source \<Rightarrow> (string, handler) gomap" where
  "step_handlers rv rs =
     [(IdentifierInitialView, MakeFirstStepHandler ModalTitle SelectModeView launch_first_config),
      (IdentifierRegisterLaunchMode, MakeModeStepHandler ModalTitle (FilterVersionView rs)),
      (IdentifierSelectVersion, MakeSelectVersionHandler IdentifierSelectVersion ModalTitle PRInputView ThirdStepView),
      (IdentifierFilterVersionView, MakeFilterVersionHandler IdentifierFilterVersionView ModalTitle (launch_views rs)),
      (IdentifierPRInputView, MakePRInputHandler rv IdentifierPRInputView ModalTitle ThirdStepView),
      (IdentifierSelectMinorMajor, MakeSelectMinorMajorHandler IdentifierSelectMinorMajor ModalTitle (SelectVersionView rs)),
      (mce_InitialView, MakeFirstStepHandler mce_ModalTitle mce_SelectModeView mce_first_config),
      (mce_SelectMode, MakeModeStepHandler mce_ModalTitle (mce_FilterVersionView rs)),
      (mce_SelectVersion, MakeSelectVersionHandler mce_SelectVersion mce_ModalTitle mce_PRInputView mce_ThirdStepView),
      (mce_FilterVersion, MakeFilterVersionHandler mce_FilterVersion mce_ModalTitle (mce_views rs)),
      (mce_PRInput, MakePRInputHandler rv mce_PRInput mce_ModalTitle mce_ThirdStepView),
      (mce_SelectMinorMajor, MakeSelectMinorMajorHandler mce_SelectMinorMajor mce_ModalTitle (mce_SelectVersionView rs))]"

end
