(* ===== verification/ActionProps.thy ===== *)
theory ActionProps
  imports Actions SyncProps
begin

text \<open>
  Properties of the Slack commands for jobs, from the arguments of a message to the answer of the manager: the requests
  the handlers build are well typed and so never run into the manager's type errors, a command of one user leaves the
  jobs of the others alone, and which of the advertised tests can run.
\<close>

section \<open>The commands\<close>

datatype job_command =
    CmdLaunch | CmdUpgrade | CmdTest | CmdCatalog | CmdBuild | CmdWorkflowLaunch | CmdWorkflowTest | CmdWorkflowUpgrade

primrec request_of :: "job_command \<Rightarrow> action_env \<Rightarrow> MessageEvent \<Rightarrow> (string, string) gomap \<Rightarrow> (action_error, JobRequest) result" where
  "request_of CmdLaunch = launch_request"
| "request_of CmdUpgrade = upgrade_request"
| "request_of CmdTest = test_request"
| "request_of CmdCatalog = catalog_request"
| "request_of CmdBuild = build_request"
| "request_of CmdWorkflowLaunch = workflow_launch_request"
| "request_of CmdWorkflowTest = workflow_test_request"
| "request_of CmdWorkflowUpgrade = workflow_upgrade_request"

primrec run_command :: "job_command \<Rightarrow> action_env \<Rightarrow> 'v environment \<Rightarrow> (Job \<Rightarrow> OperatorInfo \<times> (string, string) result) \<Rightarrow>
    manager \<Rightarrow> gotime \<Rightarrow> MessageEvent \<Rightarrow> (string, string) gomap \<Rightarrow> manager \<times> reply \<times> event list" where
  "run_command CmdLaunch = LaunchCluster"
| "run_command CmdUpgrade = TestUpgrade"
| "run_command CmdTest = Test"
| "run_command CmdCatalog = CatalogBuild"
| "run_command CmdBuild = Build"
| "run_command CmdWorkflowLaunch = WorkflowLaunch"
| "run_command CmdWorkflowTest = WorkflowTest"
| "run_command CmdWorkflowUpgrade = WorkflowUpgrade"

lemma run_command_request:
  "run_command cmd ac env newjob m now event properties = run_request env newjob m now (request_of cmd ac event properties)"
  by (cases cmd) (simp_all add: LaunchCluster_def TestUpgrade_def Test_def CatalogBuild_def Build_def WorkflowLaunch_def
      WorkflowTest_def WorkflowUpgrade_def)

section \<open>Well-typed requests\<close>

definition workflow_type :: "JobType \<Rightarrow> bool" where
  "workflow_type ty \<longleftrightarrow> ty = JobTypeWorkflowLaunch \<or> ty = JobTypeWorkflowTest \<or> ty = JobTypeWorkflowUpgrade"

definition arity :: "JobType \<Rightarrow> nat" where
  "arity ty = (if ty = JobTypeUpgrade \<or> ty = JobTypeWorkflowUpgrade then 2 else 1)"

definition typed_inputs :: "JobType \<Rightarrow> string list list \<Rightarrow> bool" where
  "typed_inputs ty inputs \<longleftrightarrow> (length inputs = arity ty \<or> ty = JobTypeInstall \<and> inputs = []) \<and>
     list_all (\<lambda>from. from \<noteq> [] \<and> list_all (\<lambda>i. i \<noteq> []) from) inputs"

definition typed_test :: "JobType \<Rightarrow> string \<Rightarrow> bool" where
  "typed_test ty test \<longleftrightarrow>
     (if ty = JobTypeInstall then test = []
      else if ty = JobTypeUpgrade then contains test ''-upgrade''
      else if ty = JobTypeTest then test \<in> set SupportedTests \<and> \<not> contains test ''-upgrade'' else True)"

definition typed_request :: "JobRequest \<Rightarrow> bool" where
  "typed_request req \<longleftrightarrow>
     rq_Type req \<in> {JobTypeInstall, JobTypeUpgrade, JobTypeTest, JobTypeCatalog, JobTypeBuild,
       JobTypeWorkflowLaunch, JobTypeWorkflowTest, JobTypeWorkflowUpgrade} \<and>
     rq_User req \<noteq> [] \<and> rq_Platform req \<noteq> [] \<and> rq_Architecture req \<in> set SupportedArchitectures \<and>
     (workflow_type (rq_Type req) \<or> rq_Platform req \<in> set SupportedPlatforms) \<and>
     (rq_Platform req = ''hypershift-hosted'' \<longrightarrow> rq_Architecture req = ''multi'') \<and>
     typed_inputs (rq_Type req) (rq_Inputs req) \<and> typed_test (rq_Type req) (mget0 [] (rq_JobParams req) ''test'')"

text \<open>The answers of the manager that a request of the wrong shape gets.\<close>

primrec type_error :: "manager_error \<Rightarrow> bool" where
  "type_error NoUserGiven = True"
| "type_error (BundleNotSupported _) = False"
| "type_error (BadInputs _) = False"
| "type_error (HypershiftVersion _) = False"
| "type_error (ArchNotSupported _) = False"
| "type_error (WrongInputCount ty) = (ty \<noteq> JobTypeBuild \<and> ty \<noteq> JobTypeCatalog)"
| "type_error (PlatformMissing _) = True"
| "type_error (TestTypeMissing _) = True"
| "type_error (UnexpectedJobType _) = True"
| "type_error (HasRosaCluster _) = False"
| "type_error InputsMissing = False"
| "type_error (NoValidVersion _) = False"
| "type_error (ConfigError _) = False"
| "type_error (NoMatchingProwJob _) = False"
| "type_error (AlreadyRequested _) = False"
| "type_error (NoCapacity _) = False"
| "type_error TooManyJobs = False"
| "type_error (CannotStart _) = False"
| "type_error (SlowToStart _) = False"
| "type_error NoClusterRequested = False"
| "type_error OnWaitlist = False"
| "type_error CredentialsGone = False"
| "type_error NoBuildCluster = False"
| "type_error NotInitialized = False"
| "type_error (TerminateFailed _) = False"
| "type_error AnotherClusterLaunched = False"
| "type_error NeverRequested = False"

lemma image_input_parts: "image_input properties name = Inr from \<Longrightarrow> list_all (\<lambda>i. i \<noteq> []) from"
  using ParseImageInput_parts by (fastforce simp: image_input_def list_all_iff split: option.splits)

lemma needed_input_parts:
  "needed_input e properties name = Inr from \<Longrightarrow> from \<noteq> [] \<and> list_all (\<lambda>i. i \<noteq> []) from"
  using image_input_parts by (auto simp: needed_input_def rbind_eq_Inr_iff split: if_splits)

lemma supported_platform_nonempty: "p \<in> set SupportedPlatforms \<Longrightarrow> p \<noteq> []"
  by (auto simp: SupportedPlatforms_def)

lemma parsed_options_typed:
  assumes "parsed_options versions properties inputs ty = Inr (platform, architecture, params)"
  shows "platform \<in> set SupportedPlatforms" "platform \<noteq> []" "architecture \<in> set SupportedArchitectures"
    "platform = ''hypershift-hosted'' \<Longrightarrow> architecture = ''multi''"
proof -
  have "ParseOptions versions (StringParam ''options'' [] properties) inputs ty = Inr (platform, architecture, params)"
    using assms by (simp add: parsed_options_def split: sum.splits)
  note s = parse_options_sound [OF this]
  then show "platform \<in> set SupportedPlatforms" "architecture \<in> set SupportedArchitectures"
    "platform = ''hypershift-hosted'' \<Longrightarrow> architecture = ''multi''" by simp_all
  then show "platform \<noteq> []" by (intro supported_platform_nonempty)
qed

lemma workflow_platform:
  assumes "GetPlatformArchFromWorkflowConfig workflows name = Inr (platform, architecture)"
    and "list_all (\<lambda>(_, w). wi_Platform w \<noteq> []) workflows"
  shows "platform \<noteq> []" "architecture \<in> set SupportedArchitectures" "platform = ''hypershift-hosted'' \<Longrightarrow> architecture = ''multi''"
proof -
  obtain w where w: "mget workflows name = Some w" using assms(1) by (auto simp: GetPlatformArchFromWorkflowConfig_def split: option.splits)
  then have "wi_Platform w \<noteq> []" using assms(2) by (auto simp: list_all_iff dest!: mget_in_set)
  then show "platform \<noteq> []" "platform = ''hypershift-hosted'' \<Longrightarrow> architecture = ''multi''" "architecture \<in> set SupportedArchitectures"
    using assms(1) w by (auto simp: GetPlatformArchFromWorkflowConfig_def SupportedArchitectures_def Let_def split: if_splits)
qed

lemmas request_simps = rbind_eq_Inr_iff Let_def job_request_def typed_request_def workflow_type_def typed_inputs_def arity_def typed_test_def

lemma launch_typed:
  assumes "launch_request ac event properties = Inr req" "ev_User event \<noteq> []"
  shows "typed_request req"
  using assms by (auto simp: launch_request_def request_simps dest: image_input_parts parsed_options_typed split: if_splits)

lemma upgrade_typed:
  assumes "upgrade_request ac event properties = Inr req" "ev_User event \<noteq> []"
  shows "typed_request req"
proof -
  define k where "k frm to = rbind (parsed_options (ac_versions ac) properties [frm, to] JobTypeUpgrade) (\<lambda>(platform, architecture, params0).
       let params = (if mget0 [] params0 ''test'' = [] then mput ''test'' ''e2e-upgrade'' params0 else params0) in
       if \<not> contains (mget0 [] params ''test'') ''-upgrade'' then Inl OnlyUpgradeTests
       else Inr (job_request (ac_emails ac) event [frm, to] JobTypeUpgrade platform architecture params []))" for frm to
  have "upgrade_request ac event properties = rbind (needed_input NoUpgradeImage properties ''from'') (\<lambda>frm.
      rbind (image_input properties ''to'') (\<lambda>to0. k frm (if to0 = [] then frm else to0)))"
    by (simp add: upgrade_request_def k_def Let_def)
  with assms(1) obtain frm to0 where f: "needed_input NoUpgradeImage properties ''from'' = Inr frm"
      and t: "image_input properties ''to'' = Inr to0" and k: "k frm (if to0 = [] then frm else to0) = Inr req"
    by (auto simp: rbind_eq_Inr_iff)
  define to where "to = (if to0 = [] then frm else to0)"
  have i: "typed_inputs JobTypeUpgrade [frm, to]"
    using needed_input_parts [OF f] image_input_parts [OF t] by (auto simp: typed_inputs_def arity_def to_def)
  obtain platform architecture params0 params where opt: "parsed_options (ac_versions ac) properties [frm, to] JobTypeUpgrade = Inr (platform, architecture, params0)"
      and r: "contains (mget0 [] params ''test'') ''-upgrade''" "req = job_request (ac_emails ac) event [frm, to] JobTypeUpgrade platform architecture params []"
    using k unfolding k_def to_def [symmetric] by (auto simp: rbind_eq_Inr_iff Let_def split: if_splits)
  show ?thesis using parsed_options_typed [OF opt] i r(1) assms(2) unfolding r(2) by (auto simp: job_request_def typed_request_def typed_test_def)
qed

lemma test_typed:
  assumes "test_request ac event properties = Inr req" "ev_User event \<noteq> []"
  shows "typed_request req"
proof -
  obtain frm platform architecture params0 where f: "needed_input NothingToTest properties ''image_or_version_or_prs'' = Inr frm"
      and opt: "parsed_options (ac_versions ac) properties [frm] JobTypeTest = Inr (platform, architecture, params0)"
    using assms(1) by (auto simp: test_request_def rbind_eq_Inr_iff Let_def split: if_splits)
  note a = needed_input_parts [OF f] parsed_options_typed [OF opt]
  show ?thesis using assms f opt a by (auto simp: test_request_def request_simps mget0_def gm.lookup_insert split: if_splits)
qed

lemma build_typed:
  assumes "build_request ac event properties = Inr req \<or> catalog_request ac event properties = Inr req" "ev_User event \<noteq> []"
  shows "typed_request req"
  using assms
  by (auto simp: build_request_def catalog_request_def request_simps dest: needed_input_parts parsed_options_typed split: if_splits)

lemma workflow_typed:
  assumes "workflow_request ac event properties inputs ty = Inr req" "ev_User event \<noteq> []" "workflow_type ty" "typed_inputs ty inputs"
    and "list_all (\<lambda>(_, w). wi_Platform w \<noteq> []) (ac_workflows ac)"
  shows "typed_request req"
proof -
  let ?name = "StringParam ''name'' [] properties"
  obtain platform architecture params where w: "GetPlatformArchFromWorkflowConfig (ac_workflows ac) ?name = Inr (platform, architecture)"
      and r: "req = job_request (ac_emails ac) event inputs ty platform architecture params ?name"
    using assms(1)
    by (cases "BuildJobParams (StringParam ''parameters'' [] properties)")
      (auto simp: workflow_request_def rbind_eq_Inr_iff Let_def split: if_splits)
  note a = workflow_platform [OF w assms(5)]
  show ?thesis using a assms(2-4) unfolding r by (auto simp: job_request_def typed_request_def workflow_type_def typed_test_def)
qed

lemma request_typed:
  assumes "request_of cmd ac event properties = Inr req" "ev_User event \<noteq> []"
    and "list_all (\<lambda>(_, w). wi_Platform w \<noteq> []) (ac_workflows ac)"
  shows "typed_request req"
proof -
  have one: "typed_inputs ty [frm]"
    if "needed_input e properties n = Inr frm" "ty = JobTypeWorkflowLaunch \<or> ty = JobTypeWorkflowTest" for e n frm ty
    using needed_input_parts [OF that(1)] that(2) by (auto simp: typed_inputs_def arity_def)
  have two: "typed_inputs JobTypeWorkflowUpgrade [frm, to]"
    if "needed_input e properties n = Inr frm" "needed_input e' properties n' = Inr to" for e n frm e' n' to
    using needed_input_parts [OF that(1)] needed_input_parts [OF that(2)] by (auto simp: typed_inputs_def arity_def)
  show ?thesis
  proof (cases cmd)
    case CmdWorkflowLaunch
    then obtain frm where "needed_input NothingToTest properties ''image_or_version_or_prs'' = Inr frm"
        "workflow_request ac event properties [frm] JobTypeWorkflowLaunch = Inr req"
      using assms(1) by (auto simp: workflow_launch_request_def rbind_eq_Inr_iff)
    with assms(2,3) show ?thesis by (auto simp: workflow_type_def intro: workflow_typed one)
  next
    case CmdWorkflowTest
    then obtain frm where "needed_input NothingToTest properties ''image_or_version_or_prs'' = Inr frm"
        "workflow_request ac event properties [frm] JobTypeWorkflowTest = Inr req"
      using assms(1) by (auto simp: workflow_test_request_def rbind_eq_Inr_iff)
    with assms(2,3) show ?thesis by (auto simp: workflow_type_def intro: workflow_typed one)
  next
    case CmdWorkflowUpgrade
    then obtain frm to where "needed_input NoInitialRelease properties ''from_image_or_version_or_prs'' = Inr frm"
        "needed_input NoTargetRelease properties ''to_image_or_version_or_prs'' = Inr to"
        "workflow_request ac event properties [frm, to] JobTypeWorkflowUpgrade = Inr req"
      using assms(1) by (auto simp: workflow_upgrade_request_def rbind_eq_Inr_iff)
    with assms(2,3) show ?thesis by (auto simp: workflow_type_def intro: workflow_typed two)
  qed (use assms launch_typed upgrade_typed test_typed build_typed in \<open>simp_all, blast+\<close>)
qed

lemma workflow_user: "workflow_request ac event properties inputs ty = Inr req \<Longrightarrow> rq_User req = ev_User event"
  by (cases "BuildJobParams (StringParam ''parameters'' [] properties)")
    (auto simp: workflow_request_def rbind_eq_Inr_iff Let_def job_request_def split: if_splits)

lemma request_user: "request_of cmd ac event properties = Inr req \<Longrightarrow> rq_User req = ev_User event"
  by (cases cmd)
    (auto simp: launch_request_def upgrade_request_def test_request_def build_request_def catalog_request_def workflow_launch_request_def
      workflow_test_request_def workflow_upgrade_request_def rbind_eq_Inr_iff Let_def job_request_def
      dest: workflow_user split: if_splits)

section \<open>Well-typed requests do not go wrong\<close>

lemma contains_nonempty: "contains s (c # p) \<Longrightarrow> s \<noteq> []"
  by (auto simp: contains_def)

lemma typed_test_given:
  "typed_test ty test \<Longrightarrow> ty = JobTypeUpgrade \<or> ty = JobTypeTest \<Longrightarrow> test \<noteq> []"
  by (auto simp: typed_test_def SupportedTests_def dest: contains_nonempty)

lemma job_mode_typed:
  assumes "typed_request req" "length jis = arity (rq_Type req)" "job_mode req jis = Inl e"
  shows "\<not> type_error e"
proof -
  have t: "rq_Type req = JobTypeUpgrade \<or> rq_Type req = JobTypeTest \<Longrightarrow> mget0 [] (rq_JobParams req) ''test'' \<noteq> []"
    and p: "rq_Platform req \<noteq> []"
    using assms(1) typed_test_given by (auto simp: typed_request_def)
  have "rq_Type req \<in> {JobTypeInstall, JobTypeUpgrade, JobTypeTest, JobTypeCatalog, JobTypeBuild,
       JobTypeWorkflowLaunch, JobTypeWorkflowTest, JobTypeWorkflowUpgrade}" using assms(1) by (simp add: typed_request_def)
  then show ?thesis
    using assms(2,3) t p by (elim insertE emptyE) (auto simp: job_mode_def arity_def Let_def split: if_splits)
qed

lemma lookup_arity:
  assumes "lookupInputs rv (rq_Inputs req) a = Inr (jis, d)" "typed_inputs ty (rq_Inputs req)" "rq_Inputs req \<noteq> []"
  shows "length jis = arity ty"
proof -
  have "rq_Inputs req \<noteq> [[]]" using assms(2) by (auto simp: typed_inputs_def)
  then show ?thesis using lookup_inputs_shape [OF assms(1)] assms(2,3) by (auto simp: typed_inputs_def)
qed

lemma resolve_typed:
  assumes "typed_request req" "rq_Inputs req \<noteq> []" "resolveToJob rv m now req = Inl e"
  shows "\<not> type_error e"
proof (cases "lookupInputs rv (rq_Inputs req) (rq_Architecture req)")
  case (Inl x)
  then show ?thesis using assms by (auto simp: resolveToJob_def typed_request_def Let_def split: if_splits)
next
  case (Inr x)
  obtain jis d where x: "x = (jis, d)" by (cases x)
  let ?req = "req\<lparr>rq_RequestedAt := now, rq_Name := mg_clusterPrefix m @ stamp_text now\<rparr>"
  have ty: "rq_Type req \<noteq> []" using assms(1) by (auto simp: typed_request_def)
  have "typed_request ?req" using assms(1) by (simp add: typed_request_def)
  moreover have "length jis = arity (rq_Type ?req)"
    using lookup_arity [of rv req] Inr x assms(1,2) by (simp add: typed_request_def)
  ultimately have j: "job_mode ?req jis = Inl e' \<Longrightarrow> \<not> type_error e'" for e' by (rule job_mode_typed)
  have u: "rq_User req \<noteq> []" using assms(1) by (simp add: typed_request_def)
  have "(\<exists>v. e = BundleNotSupported v) \<or> (\<exists>v. e = HypershiftVersion v) \<or> job_mode ?req jis = Inl e"
    using assms(3) Inr x u ty
    by (cases "job_mode ?req jis") (auto simp: resolveToJob_def Let_def split: if_splits)
  then show ?thesis using j by auto
qed

lemma pick_typed: "pick_prow_job env now req job = Inl e \<Longrightarrow> \<not> type_error e"
  by (auto simp: pick_prow_job_def Let_def split: option.splits list.splits sum.splits prod.splits bool.splits)

lemma prepare_typed:
  assumes "typed_request req" "prepare_launch env m now req = Inl e"
  shows "\<not> type_error e"
  using assms resolve_typed [OF assms(1)]
  unfolding prepare_launch_def
  by (auto simp: rbind_eq_Inl_iff dest: pick_typed split: option.splits if_splits prod.splits)

lemma admit_typed: "admit m now req job = (m', Inl e) \<Longrightarrow> \<not> type_error e"
  by (auto simp: admit_def admit_cluster_def already_requested_def Let_def split: option.splits if_splits)

lemma launch_typed_reply:
  assumes "typed_request req" "LaunchJobForUser env newjob m now req = (m', LaunchError e, evs)"
  shows "\<not> type_error e"
  using assms prepare_typed [OF assms(1)] admit_typed unfolding LaunchJobForUser_def launch_failed_def
  by (fastforce split: sum.splits prod.splits if_splits)


definition sample_event :: MessageEvent where
  "sample_event = \<lparr>ev_BotID = [], ev_Channel = ''D1'', ev_SubType = [], ev_User = ''U1'', ev_Text = ''test upgrade 4.18 4.19''\<rparr>"

definition sample_actions :: action_env where
  "sample_actions = \<lparr>ac_emails = (\<lambda>_. Some ''me@redhat.com''), ac_versions = [''4.19''],
     ac_workflows = [(''openshift-e2e-gcp'', \<lparr>wi_BaseImages = [], wi_Platform = ''gcp'', wi_Architecture = []\<rparr>)]\<rparr>"


section \<open>Advertised tests\<close>

text \<open>
  Which of the tests the bot advertises can run. For a test or upgrade job with one of the tests of \<open>SupportedTests\<close> or \<open>SupportedUpgradeTests\<close>, which
  the commands accept, the assembly finds the environment of the test, except for \<open>e2e-upgrade-all\<close>: that job is refused as an unknown test type although the
  help texts recommend it.
\<close>

theorem advertised_tests:
  assumes "jb_Mode job = JobTypeTest \<or> jb_Mode job = JobTypeUpgrade" "ts_MultiStage t = Some ms"
    and "mget (jb_JobParams job) ''test'' = Some test" "test \<in> set (SupportedTests @ SupportedUpgradeTests)"
  shows "suite_edit job t =
    (if test = ''e2e-upgrade-all'' then Inl (UnknownTestType ''e2e-upgrade-all'')
     else Inr (t\<lparr>ts_MultiStage := Some (ms\<lparr>ms_Environment :=
       Some (copy_map (nil_map (ms_Environment ms)) (the (mget envsForTestType test)))\<rparr>)\<rparr>))"
proof -
  have "mget envsForTestType ''e2e-upgrade-all'' = None" by code_simp
  moreover have "list_all (\<lambda>x. x = ''e2e-upgrade-all'' \<or> mget envsForTestType x \<noteq> None) (SupportedTests @ SupportedUpgradeTests)"
    by code_simp
  ultimately show ?thesis
    using assms by (auto simp: suite_edit_def on_ms_def mget0_def list_all_iff split: option.splits)
qed

definition upgrade_test :: TestStepConfiguration where
  "upgrade_test = \<lparr>ts_As = ''launch'', ts_Commands = [], ts_ContainerFrom = None,
     ts_MultiStage = Some \<lparr>ms_ClusterProfile = ''gcp'', ms_Pre = [], ms_Test = [], ms_Post = [], ms_Workflow = None,
       ms_Environment = None, ms_Dependencies = None, ms_Leases = []\<rparr>, ts_Literal = None\<rparr>"

theorem advertised_tests_witness:
  "suite_edit (emptyJob\<lparr>jb_Mode := JobTypeUpgrade, jb_JobParams := [(''test'', ''e2e-upgrade-all'')]\<rparr>)
     upgrade_test = Inl (UnknownTestType ''e2e-upgrade-all'')"
  by (subst advertised_tests [where test = "''e2e-upgrade-all''"]) (simp_all add: SupportedUpgradeTests_def upgrade_test_def)

section \<open>Users do not disturb each other\<close>

text \<open>The request of a user names a job of that user.\<close>

definition owned :: "manager \<Rightarrow> bool" where
  "owned m \<longleftrightarrow> (\<forall>u r j. mget (mg_requests m) u = Some r \<and> mget (mg_jobs m) (rq_Name r) = Some j \<longrightarrow> jb_RequestedBy j = u)"

definition unused_name :: "manager \<Rightarrow> string \<Rightarrow> bool" where
  "unused_name m n \<longleftrightarrow> mget (mg_jobs m) n = None \<and> (\<forall>u r. mget (mg_requests m) u = Some r \<longrightarrow> rq_Name r \<noteq> n)"

text \<open>A change that touches the request of user \<open>u\<close>, jobs of \<open>u\<close> and no new name but \<open>n\<close>.\<close>

definition touches :: "string \<Rightarrow> string \<Rightarrow> manager \<Rightarrow> manager \<Rightarrow> bool" where
  "touches u n m m' \<longleftrightarrow>
     (\<forall>v. v \<noteq> u \<longrightarrow> mget (mg_requests m') v = mget (mg_requests m) v) \<and>
     (\<forall>k j. mget (mg_jobs m) k = Some j \<and> mget (mg_jobs m') k \<noteq> Some j \<longrightarrow> jb_RequestedBy j = u) \<and>
     (\<forall>k j. mget (mg_jobs m') k = Some j \<and> mget (mg_jobs m) k \<noteq> Some j \<longrightarrow> jb_RequestedBy j = u) \<and>
     (\<forall>k. mget (mg_jobs m) k = None \<and> mget (mg_jobs m') k \<noteq> None \<longrightarrow> k = n)"

lemma touches_refl [simp]: "touches u n m m"
  by (auto simp: touches_def)

lemma touchesD:
  assumes "touches u n m m'"
  shows touches_requests: "v \<noteq> u \<Longrightarrow> mget (mg_requests m') v = mget (mg_requests m) v"
    and touches_old: "mget (mg_jobs m) k = Some j \<Longrightarrow> mget (mg_jobs m') k \<noteq> Some j \<Longrightarrow> jb_RequestedBy j = u"
    and touches_new: "mget (mg_jobs m') k = Some j \<Longrightarrow> mget (mg_jobs m) k \<noteq> Some j \<Longrightarrow> jb_RequestedBy j = u"
    and touches_name: "mget (mg_jobs m) k = None \<Longrightarrow> mget (mg_jobs m') k = Some j \<Longrightarrow> k = n"
  using assms unfolding touches_def by blast+

lemma touches_trans:
  assumes "touches u n m m1" "touches u n m1 m2"
  shows "touches u n m m2"
  unfolding touches_def
proof (intro conjI allI impI)
  fix v assume "v \<noteq> u"
  then show "mget (mg_requests m2) v = mget (mg_requests m) v"
    using touches_requests [OF assms(1)] touches_requests [OF assms(2)] by simp
next
  fix k j assume "mget (mg_jobs m) k = Some j \<and> mget (mg_jobs m2) k \<noteq> Some j"
  then show "jb_RequestedBy j = u"
    using touches_old [OF assms(1), of k j] touches_old [OF assms(2), of k j] by blast
next
  fix k j assume "mget (mg_jobs m2) k = Some j \<and> mget (mg_jobs m) k \<noteq> Some j"
  then show "jb_RequestedBy j = u"
    using touches_new [OF assms(1), of k j] touches_new [OF assms(2), of k j] by blast
next
  fix k assume "mget (mg_jobs m) k = None \<and> mget (mg_jobs m2) k \<noteq> None"
  then show "k = n"
    using touches_name [OF assms(1), of k] touches_name [OF assms(2), of k] by (cases "mget (mg_jobs m1) k") auto
qed

lemma touches_owned:
  assumes "touches u n m m'" "owned m" "\<forall>v r. mget (mg_requests m) v = Some r \<longrightarrow> rq_Name r \<noteq> n"
    and "\<And>r j. mget (mg_requests m') u = Some r \<Longrightarrow> mget (mg_jobs m') (rq_Name r) = Some j \<Longrightarrow> jb_RequestedBy j = u"
  shows "owned m'"
  unfolding owned_def
proof (intro allI impI, elim conjE)
  fix v r j assume r: "mget (mg_requests m') v = Some r" and j: "mget (mg_jobs m') (rq_Name r) = Some j"
  show "jb_RequestedBy j = v"
  proof (cases "v = u")
    case False
    then have r': "mget (mg_requests m) v = Some r" using touches_requests [OF assms(1)] r by simp
    with assms(3) have "rq_Name r \<noteq> n" by blast
    then obtain j' where j': "mget (mg_jobs m) (rq_Name r) = Some j'"
      using touches_name [OF assms(1) _ j] by blast
    then have "jb_RequestedBy j' = v" using assms(2) r' by (simp add: owned_def)
    then show ?thesis using touches_old [OF assms(1) j'] j False by fastforce
  qed (use assms(4) r j in blast)
qed

lemma admit_cluster_touches:
  assumes "launch_ready req job" "mget (mg_jobs m) (jb_Name job) = None"
  shows "touches (rq_User req) (jb_Name job) m (fst (admit_cluster m now req job))"
  using assms by (auto simp: admit_cluster_def touches_def launch_ready_def gm.lookup_insert Let_def split: if_splits)

lemma relaunch_touches:
  assumes "launch_ready req job" "owned m" "mget (mg_jobs m) (jb_Name job) = None" "mget (mg_requests m) (rq_User req) = Some ex"
  shows "touches (rq_User req) (jb_Name job) m (fst (admit_cluster (m\<lparr>mg_jobs := mdel (rq_Name ex) (mg_jobs m),
    mg_requests := mdel (rq_User req) (mg_requests m)\<rparr>) now req job))"
proof (rule touches_trans)
  let ?m = "m\<lparr>mg_jobs := mdel (rq_Name ex) (mg_jobs m), mg_requests := mdel (rq_User req) (mg_requests m)\<rparr>"
  show "touches (rq_User req) (jb_Name job) m ?m"
    using assms(2,4) by (auto simp: touches_def owned_def gm.lookup_remove split: if_splits)
  show "touches (rq_User req) (jb_Name job) ?m (fst (admit_cluster ?m now req job))"
    by (rule admit_cluster_touches) (use assms in \<open>simp_all add: gm.lookup_remove\<close>)
qed

lemma admit_touches:
  assumes "launch_ready req job" "owned m" "mget (mg_jobs m) (jb_Name job) = None"
  shows "touches (rq_User req) (jb_Name job) m (fst (admit m now req job))"
proof -
  have "touches (rq_User req) (jb_Name job) m (m\<lparr>mg_jobs := mput (jb_Name job) job (mg_jobs m)\<rparr>)"
    using assms(1,3) by (auto simp: touches_def launch_ready_def gm.lookup_insert split: if_splits)
  then show ?thesis
    using admit_cluster_touches [OF assms(1,3)] relaunch_touches [OF assms]
    unfolding admit_def Let_def by (auto split: option.splits)
qed

lemma admit_request:
  assumes "admit m now req job = (m1, r)" "launch_ready req job" "owned m" "mget (mg_jobs m) (jb_Name job) = None"
    and "mget (mg_requests m1) (rq_User req) = Some x" "mget (mg_jobs m1) (rq_Name x) = Some j"
  shows "jb_RequestedBy j = rq_User req"
proof -
  have t: "touches (rq_User req) (jb_Name job) m m1" using admit_touches [OF assms(2-4), of now] assms(1) by simp
  have "x = req \<or> mget (mg_requests m) (rq_User req) = Some x"
    using assms(1,5) by (auto simp: admit_def admit_cluster_def gm.lookup_insert gm.lookup_remove Let_def split: option.splits if_splits)
  then show ?thesis
  proof
    assume "x = req"
    then have "rq_Name x = jb_Name job" using assms(2) by (simp add: launch_ready_def)
    then show ?thesis using touches_new [OF t] assms(4,6) by simp
  next
    assume x: "mget (mg_requests m) (rq_User req) = Some x"
    show ?thesis
    proof (cases "mget (mg_jobs m) (rq_Name x) = Some j")
      case True
      then show ?thesis using assms(3) x by (simp add: owned_def)
    next
      case False
      then show ?thesis using touches_new [OF t] assms(6) by simp
    qed
  qed
qed

lemma newJob_jobs:
  "mget (mg_jobs (fst (newJob newjob m job))) k =
     (if k = jb_Name job \<and> mget (mg_jobs m) k = Some job \<and> jb_Name job \<notin> set (mg_running m) \<and> \<not> (IsComplete job \<and> jb_CredentialsSnippet job \<noteq> [])
      then Some (job\<lparr>jb_Operator := fst (newjob job)\<rparr>) else mget (mg_jobs m) k)"
  by (auto simp: newJob_def tryJob_def finishJob_def gm.lookup_insert Let_def split: prod.splits)

lemma newJob_touches: "touches (jb_RequestedBy job) n m (fst (newJob newjob m job))"
  by (auto simp: touches_def newJob_jobs newJob_requests split: if_splits)

lemma newJob_owned: "owned m \<Longrightarrow> owned (fst (newJob newjob m job))"
  by (auto simp: owned_def newJob_jobs newJob_requests split: if_splits)

lemma failed_owned: "owned m \<Longrightarrow> owned (fst (launch_failed m req err))"
  by (auto simp: owned_def launch_failed_def gm.lookup_remove split: if_splits)

lemma failed_touches:
  assumes "\<And>j. mget (mg_jobs m) (rq_Name req) = Some j \<Longrightarrow> jb_RequestedBy j = rq_User req"
  shows "touches (rq_User req) n m (fst (launch_failed m req err))"
  using assms by (auto simp: touches_def launch_failed_def gm.lookup_remove split: if_splits)

lemma launch_isolated:
  assumes "LaunchJobForUser env newjob m now req0 = (m', out, evs)" "owned m" "unused_name m (mg_clusterPrefix m @ stamp_text now)"
  shows "touches (rq_User req0) (mg_clusterPrefix m @ stamp_text now) m m' \<and> owned m'"
proof (cases "prepare_launch env m now req0")
  case (Inl e)
  then show ?thesis using assms by (simp add: LaunchJobForUser_def)
next
  case (Inr x)
  obtain req job where x: "x = (req, job)" by (cases x)
  let ?u = "rq_User req0" and ?n = "mg_clusterPrefix m @ stamp_text now"
  have rd: "launch_ready req job" using prepare_launch_ready Inr x by blast
  have nm: "rq_User req = ?u" "jb_Name job = ?n" "jb_RequestedBy job = ?u" "rq_Name req = ?n"
    using prepare_launch_names [of env m now req0 req job] Inr x rd by (auto simp: launch_ready_def)
  have free: "mget (mg_jobs m) (jb_Name job) = None" using assms(3) nm by (simp add: unused_name_def)
  obtain m1 r where a: "admit m now req job = (m1, r)" by fastforce
  have t1: "touches ?u ?n m m1" using admit_touches [OF rd assms(2) free, of now] a nm by simp
  have o1: "owned m1"
    by (rule touches_owned [OF t1 assms(2)]) (use admit_request [OF a rd assms(2) free] assms(3) nm in \<open>auto simp: unused_name_def\<close>)
  obtain m2 q where c: "newJob newjob m1 job = (m2, q)" by fastforce
  have t2: "touches ?u ?n m m2" using touches_trans [OF t1] newJob_touches [of job ?n m1 newjob] c nm by simp
  have o2: "owned m2" using newJob_owned [OF o1, of newjob job] c by simp
  have "touches (rq_User req) ?n m2 (fst (launch_failed m2 req err))" for err
    by (rule failed_touches) (use touches_new [OF t2] free nm in simp)
  then have t3: "touches ?u ?n m (fst (launch_failed m2 req err))" for err using touches_trans [OF t2] nm by simp
  have "m' = m1 \<or> m' = m2 \<or> (\<exists>err. m' = fst (launch_failed m2 req err))"
    using assms(1) Inr x a c unfolding LaunchJobForUser_def
    by (auto split: sum.splits prod.splits if_splits) (metis fst_conv)+
  then show ?thesis using t1 o1 t2 o2 t3 failed_owned [OF o2] by auto
qed

lemma finish_isolated:
  assumes "owned m" "mget (mg_requests m) user = Some r"
  shows "touches user n m (fst (terminate_finish m now user (rq_Name r))) \<and> owned (fst (terminate_finish m now user (rq_Name r)))"
proof (cases "mget (mg_jobs m) (rq_Name r)")
  case None
  then show ?thesis
    using assms by (auto simp: terminate_finish_def touches_def owned_def gm.lookup_remove split: if_splits)
next
  case (Some j)
  then have rb: "jb_RequestedBy j = user" using assms by (simp add: owned_def)
  have other: "rq_Name x \<noteq> rq_Name r" if "mget (mg_requests m) u = Some x" "u \<noteq> user" for u x
    using assms(1) Some that rb unfolding owned_def by metis
  let ?m' = "fst (terminate_finish m now user (rq_Name r))"
  have "mget (mg_requests ?m') u = (if u = user then None else mget (mg_requests m) u)"
    "rq_Name x \<noteq> rq_Name r \<Longrightarrow> mget (mg_jobs ?m') (rq_Name x) = mget (mg_jobs m) (rq_Name x)" for u and x :: JobRequest
    using assms(2) Some by (simp_all add: terminate_finish_def gm.lookup_remove gm.lookup_insert)
  then have "owned ?m'" using assms(1) other unfolding owned_def by (metis option.distinct(1))
  moreover have "touches user n m ?m'"
    using assms(2) Some rb by (auto simp: terminate_finish_def touches_def gm.lookup_remove gm.lookup_insert split: if_splits)
  ultimately show ?thesis by simp
qed

lemma terminate_isolated:
  assumes "TerminateJobForUser rosaDelete stop m m now user = (m', out, evs)" "owned m"
  shows "touches user n m m' \<and> owned m'"
proof -
  have "m' = m \<or> (\<exists>r. mget (mg_requests m) user = Some r \<and> m' = fst (terminate_finish m now user (rq_Name r)))"
    using assms(1) unfolding TerminateJobForUser_def clusterDetailsForUser_def
    by (auto split: option.splits prod.splits if_splits stop_result.splits)
  then show ?thesis using assms(2) finish_isolated [OF assms(2)] by auto
qed

text \<open>
  C17: users do not disturb each other. In a manager in which the request of every user names a job of that user, a command for jobs or \<open>done\<close> of one user
  leaves the requests and the jobs of every other user as they are, whatever its outcome, and keeps that every request names a job of its user. The name a launch makes
  from the time of the request must be unused.
\<close>

theorem users_isolated:
  assumes "owned m" "unused_name m (mg_clusterPrefix m @ stamp_text now)" "v \<noteq> ev_User event"
    and "m' = fst (run_command cmd ac env newjob m now event properties) \<or> m' = fst (Done rosaDelete stop m now event)"
  shows "owned m' \<and> mget (mg_requests m') v = mget (mg_requests m) v \<and>
    (\<forall>name j. jb_RequestedBy j = v \<longrightarrow> (mget (mg_jobs m') name = Some j \<longleftrightarrow> mget (mg_jobs m) name = Some j))"
proof -
  let ?n = "mg_clusterPrefix m @ stamp_text now"
  have user: "rq_User req = ev_User event" if "request_of cmd ac event properties = Inr req" for req
    using request_user that by blast
  have "touches (ev_User event) ?n m m' \<and> owned m'"
    using assms(4)
  proof
    assume "m' = fst (Done rosaDelete stop m now event)"
    moreover obtain m2 out evs where "TerminateJobForUser rosaDelete stop m m now (ev_User event) = (m2, out, evs)"
      by (metis prod.collapse)
    ultimately show ?thesis using terminate_isolated [OF _ assms(1), of rosaDelete stop now "ev_User event" m2 out evs ?n] by (simp add: Done_def)
  next
    assume m': "m' = fst (run_command cmd ac env newjob m now event properties)"
    show ?thesis
    proof (cases "request_of cmd ac event properties")
      case (Inl e)
      then show ?thesis using m' assms(1) by (simp add: run_command_request run_request_def)
    next
      case (Inr req)
      obtain m2 out evs where l: "LaunchJobForUser env newjob m now req = (m2, out, evs)" by (metis prod.collapse)
      then show ?thesis
        using m' Inr launch_isolated [OF l assms(1,2)] user [OF Inr] by (simp add: run_command_request run_request_def)
    qed
  qed
  then show ?thesis
    using assms(3) touches_requests [of _ ?n m m'] touches_old [of _ ?n m m'] touches_new [of _ ?n m m'] by metis
qed

theorem users_isolated_witness:
  "\<exists>m. mget (mg_requests m) ''v'' \<noteq> None \<and>
     mget (mg_requests (fst (run_command CmdLaunch sample_actions sample_env (\<lambda>j. (jb_Operator j, Inl ''boom'')) m 1 sample_event
       [(''image_or_version_or_prs'', ''4.19'')]))) ''v'' = mget (mg_requests m) ''v''"
proof -
  let ?m = "NewJobManager\<lparr>mg_requests := [(''v'', sample_request ''v'' ''c2'' JobTypeLaunch)]\<rparr>"
  have "''c2'' \<noteq> mg_clusterPrefix ?m @ stamp_text 1" by (simp add: NewJobManager_def)
  then have u: "owned ?m" "unused_name ?m (mg_clusterPrefix ?m @ stamp_text 1)"
    by (simp_all add: owned_def unused_name_def NewJobManager_def)
  have "''v'' \<noteq> ev_User sample_event" by (simp add: sample_event_def)
  from users_isolated [OF u this, of _ CmdLaunch sample_actions sample_env "\<lambda>j. (jb_Operator j, Inl ''boom'')" "[(''image_or_version_or_prs'', ''4.19'')]"]
  have "mget (mg_requests (fst (run_command CmdLaunch sample_actions sample_env (\<lambda>j. (jb_Operator j, Inl ''boom'')) ?m 1 sample_event
       [(''image_or_version_or_prs'', ''4.19'')]))) ''v'' = mget (mg_requests ?m) ''v''" by blast
  moreover have "mget (mg_requests ?m) ''v'' \<noteq> None" by simp
  ultimately show ?thesis by blast
qed

end
