(* ===== verification/ModalProps.thy ===== *)
theory ModalProps
  imports Modals ActionProps
begin

text \<open>
  The dialog that launches a cluster as a state machine. Its states are the views on the screen, its steps the submission of a
  view and the back button; the relation \<open>dialog\<close> gives the views a user can reach. Shown are that every way through the dialog
  ends in a well-typed request, that going back ends at the first view, that no answer of an abandoned step leaks
  into a later one, and the limits of the version lists.
\<close>

section \<open>Reading the answers of a view\<close>

lemma map_filter_single: "List.map_filter f (x # xs) = (case f x of None \<Rightarrow> List.map_filter f xs | Some y \<Rightarrow> y # List.map_filter f xs)"
  and map_filter_empty: "List.map_filter f [] = []"
  by (simp_all add: List.map_filter_def split: option.splits)

lemma mget_map_filter:
  "wf_map m \<Longrightarrow> mget (List.map_filter (\<lambda>(k, v). map_option (Pair k) (f v)) m) k = Option.bind (mget m k) f"
proof (induction m)
  case (Cons a m)
  obtain j v where a: "a = (j, v)" by (cases a)
  have "mget m j = None" using Cons.prems a by (simp add: wf_map_def mget_eq_None_iff mkeys_def)
  then show ?case using Cons a by (auto simp: map_filter_single wf_map_def split: option.splits)
qed (simp add: List.map_filter_def)

lemma wf_map_filter_map: "wf_map m \<Longrightarrow> wf_map (List.map_filter (\<lambda>(k, v). map_option (Pair k) (f v)) m)"
proof (induction m)
  case (Cons a m)
  obtain j v where a: "a = (j, v)" by (cases a)
  have "fst ` set (List.map_filter (\<lambda>(k, v). map_option (Pair k) (f v)) m) \<subseteq> fst ` set m"
    by (force simp: List.map_filter_def)
  then show ?case using Cons a by (auto simp: map_filter_single wf_map_def split: option.splits)
qed (simp add: List.map_filter_def)

lemma mget_copy_map:
  "wf_map src \<Longrightarrow> mget (copy_map dst src) k = (case mget src k of None \<Rightarrow> mget dst k | Some v \<Rightarrow> Some v)"
proof (induction src arbitrary: dst)
  case (Cons a src)
  obtain j v where a: "a = (j, v)" by (cases a)
  have "mget src j = None" using Cons.prems a by (simp add: wf_map_def mget_eq_None_iff mkeys_def)
  then show ?case using Cons a by (auto simp: copy_map_def wf_map_def gm.lookup_insert split: option.splits)
qed (simp add: copy_map_def)

lemma mget_copy_empty: "wf_map src \<Longrightarrow> mget (copy_map [] src) k = mget src k"
  by (simp add: mget_copy_map split: option.splits)

lemma wf_copy_map: "wf_map dst \<Longrightarrow> wf_map (copy_map dst src)"
  unfolding copy_map_def by (induction src arbitrary: dst) (auto intro: gm.ok_insert)

text \<open>What one input was answered with.\<close>

definition answer :: "BlockAction list \<Rightarrow> string option" where
  "answer vs = (case text_of vs of Some t \<Rightarrow> Some t | None \<Rightarrow> selection_of vs)"

definition replied :: "Callback \<Rightarrow> string \<Rightarrow> string option" where
  "replied cb k = Option.bind (mget (ic_Values cb) k) answer"

lemma mget_input_all:
  assumes "wf_map (ic_Values cb)"
  shows "mget (CallBackInputAll cb) k = replied cb k"
proof -
  have "mget (CallbackSelection cb) k = Option.bind (mget (ic_Values cb) k) selection_of"
    "mget (CallbackInput cb) k = Option.bind (mget (ic_Values cb) k) text_of"
    "wf_map (CallbackSelection cb)" "wf_map (CallbackInput cb)"
    using assms by (simp_all add: CallbackSelection_def CallbackInput_def mget_map_filter wf_map_filter_map)
  then show ?thesis
    by (cases "mget (ic_Values cb) k")
      (auto simp: CallBackInputAll_def mget_copy_map mget_copy_empty replied_def answer_def split: option.splits)
qed

lemma wf_input_all: "wf_map (CallBackInputAll cb)"
proof -
  have "wf_map ([] :: (string, string) gomap)" by (simp add: wf_map_def)
  then show ?thesis by (simp add: CallBackInputAll_def wf_copy_map)
qed

lemma merged_input:
  assumes "wf_map (ic_Values cb)" "ic_Metadata cb = Some (d, i)"
  shows "mget (cd_Input (MergeCallbackData cb)) k = (case replied cb k of None \<Rightarrow> mget (cd_Input d) k | Some v \<Rightarrow> Some v)"
    "cd_PreviousStep (MergeCallbackData cb) = cd_PreviousStep d"
  using assms by (simp_all add: MergeCallbackData_def mget_copy_map wf_input_all mget_input_all Let_def)

definition chosen :: "Callback \<Rightarrow> string \<Rightarrow> string list" where
  "chosen cb k = (case mget (ic_Values cb) k of None \<Rightarrow> [] | Some vs \<Rightarrow> concat (map ba_SelectedOptions vs))"

lemma multiple_eq:
  "CallbackMultipleSelect cb = List.map_filter (\<lambda>(k, vs). map_option (Pair k)
     (let s = concat (map ba_SelectedOptions vs) in if s = [] then None else Some s)) (ic_Values cb)"
  unfolding CallbackMultipleSelect_def Let_def by (rule arg_cong [where f = "\<lambda>f. List.map_filter f _"]) auto

lemma merged_multiple:
  assumes "wf_map (ic_Values cb)" "ic_Metadata cb = Some (d, i)"
  shows "mget (cd_MultipleSelection (MergeCallbackData cb)) k =
    (if chosen cb k = [] then mget (cd_MultipleSelection d) k else Some (chosen cb k))"
proof -
  have w: "wf_map (CallbackMultipleSelect cb)" unfolding multiple_eq by (rule wf_map_filter_map [OF assms(1)])
  have "mget (CallbackMultipleSelect cb) k = (if chosen cb k = [] then None else Some (chosen cb k))"
    unfolding multiple_eq mget_map_filter [OF assms(1)] by (auto simp: chosen_def Let_def split: option.splits)
  then show ?thesis using assms(2) w by (simp add: MergeCallbackData_def mget_copy_map Let_def)
qed

section \<open>Submissions\<close>

primrec block_key :: "block \<Rightarrow> string option" where
  "block_key BackButton = None"
| "block_key (HeaderText _) = None"
| "block_key (SectionText _) = None"
| "block_key (SelectInput k _ _ _) = Some k"
| "block_key (MultiSelectInput k _ _) = Some k"
| "block_key (TextInput k _ _) = Some k"
| "block_key (UserSelect k _) = Some k"
| "block_key (SectionButton _ _) = None"
| "block_key Divider = None"
| "block_key (ContextText _) = None"
| "block_key (Preformatted _) = None"

text \<open>
  What Slack sends for an input: one value of its kind, for a selection one of the options; without an answer the
  fields are empty. \<open>required\<close> is whether the view was submitted, since Slack refuses a submission without an answer
  to an input that is not optional.
\<close>

fun fits :: "bool \<Rightarrow> block \<Rightarrow> BlockAction list \<Rightarrow> bool" where
  "fits required (SelectInput k free opts _) [a] =
     (ba_Value a = [] \<and> ba_SelectedUser a = [] \<and> ba_SelectedOptions a = [] \<and> fst (ba_SelectedOption a) = snd (ba_SelectedOption a) \<and>
      (fst (ba_SelectedOption a) \<in> set opts \<or> fst (ba_SelectedOption a) = []) \<and>
      (required \<and> \<not> free \<longrightarrow> fst (ba_SelectedOption a) \<noteq> []))"
| "fits required (MultiSelectInput k free opts) [a] =
     (ba_Value a = [] \<and> ba_SelectedUser a = [] \<and> fst (ba_SelectedOption a) = [] \<and> set (ba_SelectedOptions a) \<subseteq> set opts)"
| "fits required (TextInput k free _) [a] =
     (fst (ba_SelectedOption a) = [] \<and> ba_SelectedUser a = [] \<and> ba_SelectedOptions a = [] \<and> (required \<and> \<not> free \<longrightarrow> ba_Value a \<noteq> []))"
| "fits required (UserSelect k _) [a] = (ba_Value a = [] \<and> fst (ba_SelectedOption a) = [] \<and> ba_SelectedOptions a = [])"
| "fits required _ _ = False"

definition inputs :: "View \<Rightarrow> block list" where
  "inputs v = filter (\<lambda>b. block_key b \<noteq> None) (vw_Blocks v)"

definition from_view :: "bool \<Rightarrow> View \<Rightarrow> Callback \<Rightarrow> bool" where
  "from_view required v cb \<longleftrightarrow> ic_Metadata cb = vw_Metadata v \<and> wf_map (ic_Values cb) \<and>
     set (mkeys (ic_Values cb)) = set (List.map_filter block_key (inputs v)) \<and>
     list_all (\<lambda>(k, vs). list_ex (\<lambda>b. block_key b = Some k \<and> fits required b vs) (inputs v)) (ic_Values cb)"

lemma from_view_reply:
  assumes "from_view required v cb" "mget (ic_Values cb) k = Some vs"
  shows "\<exists>b \<in> set (inputs v). block_key b = Some k \<and> fits required b vs"
  using assms mget_in_set [OF assms(2)] by (auto simp: from_view_def list_all_iff list_ex_iff)

lemma from_view_other:
  "from_view required v cb \<Longrightarrow> k \<notin> set (List.map_filter block_key (inputs v)) \<Longrightarrow> mget (ic_Values cb) k = None"
  by (simp add: from_view_def mget_eq_None_iff)

lemma from_view_present:
  "from_view required v cb \<Longrightarrow> k \<in> set (List.map_filter block_key (inputs v)) \<Longrightarrow> \<exists>vs. mget (ic_Values cb) k = Some vs"
  by (metis from_view_def mget_eq_None_iff not_None_eq)

lemma fits_answer:
  assumes "fits required b vs"
  shows "answer vs = Some x \<Longrightarrow> x \<noteq> []"
    "b = SelectInput k free opts i \<Longrightarrow> answer vs = Some x \<Longrightarrow> x \<in> set opts"
    "b = SelectInput k False opts i \<Longrightarrow> required \<Longrightarrow> \<exists>x. answer vs = Some x"
    "b = TextInput k False t \<Longrightarrow> required \<Longrightarrow> \<exists>x. answer vs = Some x"
    "b = MultiSelectInput k free opts \<Longrightarrow> answer vs = None \<and> set (concat (map ba_SelectedOptions vs)) \<subseteq> set opts"
  using assms by (cases "(required, b, vs)" rule: fits.cases; auto simp: answer_def text_of_def selection_of_def split: if_splits)+

section \<open>The dialog\<close>

definition shown :: "goroutine \<Rightarrow> View" where
  "shown g = (case g of SafeGo v \<Rightarrow> v | BareGo v \<Rightarrow> v | Inline v \<Rightarrow> v)"

text \<open>
  The views of the launch dialog a user can see. The releases the release controller lists may change between the
  steps; the back button sends the answers given so far, complete or not.
\<close>

inductive dialog :: "'v resolver \<Rightarrow> View \<Rightarrow> bool" for rv where
  dialog_start: "dialog rv FirstStepView"
| dialog_submit: "dialog rv v \<Longrightarrow> vw_Metadata v = Some (d, i) \<Longrightarrow> from_view True v cb \<Longrightarrow> mget (step_handlers rv rs) i = Some h \<Longrightarrow>
    h cb = (r, Some g) \<Longrightarrow> dialog rv (shown g)"
| dialog_back: "dialog rv v \<Longrightarrow> BackButton \<in> set (vw_Blocks v) \<Longrightarrow> from_view False v cb \<Longrightarrow>
    handleBackButton rs cb = (NoResponse, Some g) \<Longrightarrow> dialog rv (shown g)"

section \<open>The invariant of the dialog\<close>

definition launch_steps :: "string list" where
  "launch_steps = [IdentifierRegisterLaunchMode, IdentifierFilterVersionView, IdentifierSelectMinorMajor, IdentifierSelectVersion,
     IdentifierPRInputView, Identifier3rdStep]"

text \<open>The platform and the architecture are chosen and go together.\<close>

definition placed :: "CallbackData \<Rightarrow> bool" where
  "placed d \<longleftrightarrow> input_of d LaunchPlatform \<in> set SupportedPlatforms \<and> input_of d LaunchArchitecture \<in> set SupportedArchitectures \<and>
     (input_of d LaunchPlatform = ''hypershift-hosted'' \<longrightarrow> input_of d LaunchArchitecture = ''multi'')"

definition custom_path :: "CallbackData \<Rightarrow> bool" where
  "custom_path d \<longleftrightarrow> input_of d LaunchFromCustom \<noteq> [] \<and>
     (\<forall>k \<in> {LaunchFromStream, LaunchFromMajorMinor, LaunchVersion}. mget (cd_Input d) k = None)"

definition stream_path :: "CallbackData \<Rightarrow> bool" where
  "stream_path d \<longleftrightarrow> input_of d LaunchFromStream \<noteq> [] \<and> mget (cd_Input d) LaunchFromCustom = None"

text \<open>The inputs a view of each step asks for.\<close>

definition asks :: "string \<Rightarrow> CallbackData \<Rightarrow> View \<Rightarrow> bool" where
  "asks i d v \<longleftrightarrow> BackButton \<in> set (vw_Blocks v) \<and>
     (if i = IdentifierRegisterLaunchMode then \<exists>x. inputs v = [SelectInput LaunchMode False [LaunchFromPRYes, LaunchFromPRNo] x]
      else if i = IdentifierFilterVersionView
      then \<exists>streams x t. inputs v = [SelectInput LaunchFromStream True streams x, TextInput LaunchFromCustom True t]
      else if i = IdentifierSelectMinorMajor then \<exists>opts. inputs v = [SelectInput LaunchFromMajorMinor False opts None]
      else if i = IdentifierSelectVersion then \<exists>opts. inputs v = [SelectInput LaunchVersion False opts None]
      else if i = IdentifierPRInputView then inputs v = [TextInput LaunchFromPR False []]
      else inputs v = [MultiSelectInput LaunchParameters True (BuildOptions SupportedParameters (excluded_parameters (input_of d LaunchPlatform)))])"

text \<open>Answers of later steps are absent.\<close>

definition no_later :: "string \<Rightarrow> CallbackData \<Rightarrow> bool" where
  "no_later i d \<longleftrightarrow> mget (cd_MultipleSelection d) LaunchParameters = None \<and>
     (i \<notin> {IdentifierPRInputView, Identifier3rdStep} \<longrightarrow> mget (cd_Input d) LaunchFromPR = None) \<and>
     (i \<in> {IdentifierRegisterLaunchMode, IdentifierFilterVersionView} \<longrightarrow>
        mget (cd_Input d) LaunchFromMajorMinor = None \<and> mget (cd_Input d) LaunchVersion = None) \<and>
     (i = IdentifierRegisterLaunchMode \<longrightarrow> mget (cd_Input d) LaunchFromStream = None \<and> mget (cd_Input d) LaunchFromCustom = None)"

text \<open>How the version is known at a step, and where its back button leads.\<close>

definition versioned :: "'v resolver \<Rightarrow> string \<Rightarrow> CallbackData \<Rightarrow> bool" where
  "versioned rv i d \<longleftrightarrow>
     (if i = IdentifierRegisterLaunchMode then cd_PreviousStep d = IdentifierInitialView
      else if i = IdentifierFilterVersionView then cd_PreviousStep d = IdentifierRegisterLaunchMode
      else if i = IdentifierSelectMinorMajor \<or> i = IdentifierSelectVersion
      then stream_path d \<and> cd_PreviousStep d \<in> {IdentifierFilterVersionView, IdentifierSelectMinorMajor}
      else (custom_path d \<or> stream_path d \<and> input_of d LaunchVersion \<noteq> []) \<and>
        cd_PreviousStep d \<in> {IdentifierFilterVersionView, IdentifierSelectVersion} \<union> (if i = Identifier3rdStep then {IdentifierPRInputView} else {}) \<and>
        (cd_PreviousStep d = IdentifierSelectVersion \<longrightarrow> stream_path d) \<and>
        (i = Identifier3rdStep \<longrightarrow> ValidatePRInput rv d = None))"

text \<open>No answer is empty, and the key no step asks for is absent.\<close>

definition no_empty :: "CallbackData \<Rightarrow> bool" where
  "no_empty d \<longleftrightarrow> (\<forall>k. mget (cd_Input d) k \<noteq> Some []) \<and> mget (cd_Input d) LaunchFromReleaseController = None"

definition step_ok :: "'v resolver \<Rightarrow> string \<Rightarrow> CallbackData \<Rightarrow> bool" where
  "step_ok rv i d \<longleftrightarrow> i \<in> set launch_steps \<and> placed d \<and> no_empty d \<and> no_later i d \<and> versioned rv i d"

definition view_ok :: "'v resolver \<Rightarrow> View \<Rightarrow> bool" where
  "view_ok rv v \<longleftrightarrow>
     (vw_Metadata v = None \<and> vw_Submit v = None \<and> BackButton \<notin> set (vw_Blocks v)) \<or>
     (\<exists>d. v = FirstStepViewWithData d) \<or>
     (\<exists>d i. vw_Metadata v = Some (d, i) \<and> step_ok rv i d \<and> asks i d v)"

lemma error_view_ok [simp]: "view_ok rv (ErrorView a e)" "view_ok rv (fetch_error e)"
  by (simp_all add: view_ok_def ErrorView_def fetch_error_def)

text \<open>Each builder gives a view of its step.\<close>

lemma placed_prev [simp]: "placed (SetPreviousStep d p) = placed d" "no_empty (SetPreviousStep d p) = no_empty d"
  "no_later i (SetPreviousStep d p) = no_later i d" "stream_path (SetPreviousStep d p) = stream_path d"
  "custom_path (SetPreviousStep d p) = custom_path d" "ValidatePRInput rv (SetPreviousStep d p) = ValidatePRInput rv d"
  "cd_PreviousStep (SetPreviousStep d p) = p" "cd_Input (SetPreviousStep d p) = cd_Input d"
  by (simp_all add: SetPreviousStep_def placed_def no_empty_def no_later_def stream_path_def custom_path_def ValidatePRInput_def)

lemma build_view_ok:
  assumes "step_ok rv i (SetPreviousStep d p)" "asks i (SetPreviousStep d p) (step_view (launch_config_of True d i p c) blocks)"
  shows "view_ok rv (step_view (launch_config_of True d i p c) blocks)"
  unfolding view_ok_def
proof (intro disjI2 exI conjI)
  show "vw_Metadata (step_view (launch_config_of True d i p c) blocks) = Some (SetPreviousStep d p, i)"
    by (simp add: step_view_def launch_config_of_def)
qed (use assms in simp_all)

lemma inputs_simps [simp]:
  "inputs (step_view c bs) = filter (\<lambda>b. block_key b \<noteq> None) bs" "vw_Blocks (step_view c bs) = bs"
  by (simp_all add: inputs_def step_view_def)

lemma mode_view_ok:
  assumes "placed d" "no_empty d" "no_later IdentifierRegisterLaunchMode d"
  shows "view_ok rv (SelectModeView True d)"
  unfolding SelectModeView_def BuildSelectModeView_def Let_def
  using assms by (auto simp: launch_config_of_def [of True] BuildOptions_def step_ok_def launch_steps_def versioned_def asks_def
      intro!: build_view_ok [unfolded launch_config_of_def])

lemma filter_view_ok:
  assumes "placed d" "no_empty d" "no_later IdentifierFilterVersionView d"
  shows "view_ok rv (FilterVersionView rs True d b)"
  unfolding FilterVersionView_def BuildFilterVersionView_def Let_def
  using assms by (auto simp: launch_config_of_def [of True] filter_blocks_def step_ok_def launch_steps_def versioned_def asks_def
      intro!: build_view_ok [unfolded launch_config_of_def] split: sum.splits)

lemma minor_view_ok:
  assumes "placed d" "no_empty d" "no_later IdentifierSelectMinorMajor d" "stream_path d"
    "p \<in> {IdentifierFilterVersionView, IdentifierSelectMinorMajor}"
  shows "view_ok rv (BuildSelectMinorMajorView rs (launch_config_of True d IdentifierSelectMinorMajor p c))"
  unfolding BuildSelectMinorMajorView_def Let_def
  using assms by (auto simp: launch_config_of_def [of True] step_ok_def launch_steps_def versioned_def asks_def
      intro!: build_view_ok [unfolded launch_config_of_def] split: sum.splits)

lemma version_view_ok:
  assumes "placed d" "no_empty d" "no_later IdentifierSelectVersion d" "stream_path d"
    "p \<in> {IdentifierFilterVersionView, IdentifierSelectMinorMajor}"
  shows "view_ok rv (SelectVersionView rs True d p)"
proof -
  have m: "view_ok rv (BuildSelectMinorMajorView rs (launch_config_of True d IdentifierSelectMinorMajor p c))" for c
    using assms by (intro minor_view_ok) (auto simp: no_later_def)
  have "view_ok rv (step_view (launch_config_of True d IdentifierSelectVersion p c) 
      [BackButton, HeaderText h, Divider, SelectInput LaunchVersion False opts None, Divider, ContextText x])" for c h opts x
    using assms by (intro build_view_ok) (auto simp: step_ok_def launch_steps_def versioned_def asks_def)
  with m show ?thesis
    unfolding SelectVersionView_def BuildSelectVersionView_def Let_def
    by (auto simp: launch_config_of_def split: sum.splits)
qed

lemma pr_view_ok:
  assumes "placed d" "no_empty d" "no_later IdentifierPRInputView d" "custom_path d \<or> stream_path d \<and> input_of d LaunchVersion \<noteq> []"
    "p \<in> {IdentifierFilterVersionView, IdentifierSelectVersion}" "p = IdentifierSelectVersion \<longrightarrow> stream_path d"
  shows "view_ok rv (PRInputView True d p)"
  unfolding PRInputView_def BuildPRInputView_def
  using assms by (auto simp: launch_config_of_def [of True] step_ok_def launch_steps_def versioned_def asks_def
      intro!: build_view_ok [unfolded launch_config_of_def])

lemma third_view_ok:
  assumes "placed d" "no_empty d" "no_later Identifier3rdStep d" "custom_path d \<or> stream_path d \<and> input_of d LaunchVersion \<noteq> []"
    "p \<in> {IdentifierFilterVersionView, IdentifierSelectVersion, IdentifierPRInputView}" "p = IdentifierSelectVersion \<longrightarrow> stream_path d"
    "ValidatePRInput rv d = None"
  shows "view_ok rv (ThirdStepView True d p)"
proof -
  have "step_ok rv Identifier3rdStep (SetPreviousStep d p)"
    using assms by (auto simp: step_ok_def launch_steps_def versioned_def)
  moreover have "asks Identifier3rdStep (SetPreviousStep d p) (ThirdStepView True d p)"
    by (simp add: asks_def ThirdStepView_def inputs_def Let_def)
  ultimately show ?thesis unfolding view_ok_def by (intro disjI2 exI conjI) (auto simp: ThirdStepView_def Let_def)
qed

section \<open>Submitting keeps the invariant\<close>

lemma replied_nonempty: "from_view r v cb \<Longrightarrow> replied cb k = Some x \<Longrightarrow> x \<noteq> []"
  using from_view_reply [of r v cb k] fits_answer(1) [of r _ _ x] by (force simp: replied_def bind_eq_Some_conv)

lemma replied_other: "from_view r v cb \<Longrightarrow> k \<notin> set (List.map_filter block_key (inputs v)) \<Longrightarrow> replied cb k = None"
  by (simp add: replied_def from_view_other)

lemma chosen_other: "from_view r v cb \<Longrightarrow> k \<notin> set (List.map_filter block_key (inputs v)) \<Longrightarrow> chosen cb k = []"
  by (simp add: chosen_def from_view_other)

lemma merged_no_empty:
  assumes "from_view r v cb" "vw_Metadata v = Some (d, i)" "no_empty d"
    "LaunchFromReleaseController \<notin> set (List.map_filter block_key (inputs v))"
  shows "no_empty (MergeCallbackData cb)"
  using assms(1-3) replied_nonempty [OF assms(1)] replied_other [OF assms(1,4)] merged_input(1) [of cb d i]
  by (auto simp: no_empty_def from_view_def split: option.splits)

lemma merged_other:
  assumes "from_view r v cb" "vw_Metadata v = Some (d, i)" "k \<notin> set (List.map_filter block_key (inputs v))"
  shows "mget (cd_Input (MergeCallbackData cb)) k = mget (cd_Input d) k"
    "mget (cd_MultipleSelection (MergeCallbackData cb)) k = mget (cd_MultipleSelection d) k"
  using assms replied_other [OF assms(1,3)] chosen_other [OF assms(1,3)] merged_input(1) [of cb d i k] merged_multiple [of cb d i k]
  by (auto simp: from_view_def)

text \<open>A required input that is the only one of its view is answered.\<close>

lemma merged_required:
  assumes "from_view True v cb" "vw_Metadata v = Some (d, i)"
    and "inputs v = [SelectInput k False opts x] \<or> inputs v = [TextInput k False t]"
  shows "input_of (MergeCallbackData cb) k \<noteq> []"
proof -
  have "k \<in> set (List.map_filter block_key (inputs v))" using assms(3) by (auto simp: map_filter_single)
  then obtain vs where vs: "mget (ic_Values cb) k = Some vs" using from_view_present [OF assms(1)] by blast
  then obtain b where "b \<in> set (inputs v)" "fits True b vs" using from_view_reply [OF assms(1)] by blast
  then obtain y where "answer vs = Some y" using assms(3) fits_answer(3,4) [of True b vs k] by fastforce
  then have "replied cb k = Some y" using vs by (simp add: replied_def)
  moreover have "y \<noteq> []" using replied_nonempty [OF assms(1)] calculation by blast
  ultimately show ?thesis using assms(1,2) merged_input(1) [of cb d i k] by (simp add: from_view_def mget0_def)
qed

text \<open>The keys a step asks for.\<close>

definition own_keys :: "string \<Rightarrow> string list" where
  "own_keys i =
     (if i = IdentifierRegisterLaunchMode then [LaunchMode]
      else if i = IdentifierFilterVersionView then [LaunchFromStream, LaunchFromCustom]
      else if i = IdentifierSelectMinorMajor then [LaunchFromMajorMinor]
      else if i = IdentifierSelectVersion then [LaunchVersion]
      else if i = IdentifierPRInputView then [LaunchFromPR] else [LaunchParameters])"

lemma asks_keys: "asks i d v \<Longrightarrow> set (List.map_filter block_key (inputs v)) = set (own_keys i)"
  by (auto simp: asks_def own_keys_def map_filter_single map_filter_empty split: if_splits)

lemma merged_facts:
  assumes "from_view r v cb" "vw_Metadata v = Some (d, i)" "asks i d v"
  shows "k \<notin> set (own_keys i) \<Longrightarrow> mget (cd_Input (MergeCallbackData cb)) k = mget (cd_Input d) k"
    "k \<notin> set (own_keys i) \<Longrightarrow> mget (cd_MultipleSelection (MergeCallbackData cb)) k = mget (cd_MultipleSelection d) k"
    "no_empty d \<Longrightarrow> no_empty (MergeCallbackData cb)"
proof -
  have "LaunchFromReleaseController \<notin> set (own_keys i)" by (simp add: own_keys_def)
  then show "no_empty d \<Longrightarrow> no_empty (MergeCallbackData cb)"
    using merged_no_empty [OF assms(1,2)] unfolding asks_keys [OF assms(3)] by blast
qed (use merged_other [OF assms(1,2)] in \<open>simp_all add: asks_keys [OF assms(3)]\<close>)

lemma no_empty_None: "no_empty d \<Longrightarrow> input_of d k = [] \<longleftrightarrow> mget (cd_Input d) k = None"
  by (auto simp: no_empty_def mget0_def split: option.splits)

lemma validate_absent: "mget (cd_Input d) LaunchFromPR = None \<Longrightarrow> ValidatePRInput rv d = None"
  by (simp add: ValidatePRInput_def)

text \<open>The handlers of the launch dialog.\<close>

lemma launch_handlers:
  "mget (step_handlers rv rs) IdentifierInitialView = Some (MakeFirstStepHandler ModalTitle SelectModeView launch_first_config)"
  "mget (step_handlers rv rs) IdentifierRegisterLaunchMode = Some (MakeModeStepHandler ModalTitle (FilterVersionView rs))"
  "mget (step_handlers rv rs) IdentifierSelectVersion = Some (MakeSelectVersionHandler IdentifierSelectVersion ModalTitle PRInputView ThirdStepView)"
  "mget (step_handlers rv rs) IdentifierFilterVersionView = Some (MakeFilterVersionHandler IdentifierFilterVersionView ModalTitle (launch_views rs))"
  "mget (step_handlers rv rs) IdentifierPRInputView = Some (MakePRInputHandler rv IdentifierPRInputView ModalTitle ThirdStepView)"
  "mget (step_handlers rv rs) IdentifierSelectMinorMajor = Some (MakeSelectMinorMajorHandler IdentifierSelectMinorMajor ModalTitle (SelectVersionView rs))"
  "mget (step_handlers rv rs) Identifier3rdStep = None"
  by (simp_all add: step_handlers_def)

lemma placed_cong:
  "mget (cd_Input d) LaunchPlatform = mget (cd_Input e) LaunchPlatform \<Longrightarrow>
   mget (cd_Input d) LaunchArchitecture = mget (cd_Input e) LaunchArchitecture \<Longrightarrow> placed d = placed e"
  by (simp add: placed_def mget0_def)

lemma merged_placed:
  assumes "from_view r v cb" "vw_Metadata v = Some (d, i)" "asks i d v" "placed d"
  shows "placed (MergeCallbackData cb)"
proof -
  have "LaunchPlatform \<notin> set (own_keys i)" "LaunchArchitecture \<notin> set (own_keys i)" by (auto simp: own_keys_def)
  then show ?thesis using merged_facts(1) [OF assms(1-3)] assms(4) placed_cong [of "MergeCallbackData cb" d] by simp
qed

text \<open>The first step: its defaults give a platform and an architecture that go together.\<close>

lemma first_inputs_placed:
  assumes "\<And>x. mget input LaunchPlatform = Some x \<Longrightarrow> x \<in> set SupportedPlatforms"
    and "\<And>x. mget input LaunchArchitecture = Some x \<Longrightarrow> x \<in> set SupportedArchitectures"
    and "\<And>k. mget input k \<noteq> Some []" and "mget input LaunchFromReleaseController = None"
    and "\<not> (mget0 [] (first_inputs launch_first_config input) LaunchPlatform = ''hypershift-hosted'' \<and>
           mget0 [] (first_inputs launch_first_config input) LaunchArchitecture \<noteq> ''multi'')"
  shows "placed (emptyData\<lparr>cd_Input := first_inputs launch_first_config input\<rparr>)"
    "no_empty (emptyData\<lparr>cd_Input := first_inputs launch_first_config input\<rparr>)"
proof -
  let ?i = "first_inputs launch_first_config input"
  have sup: "''hypershift-hosted'' \<in> set SupportedPlatforms" "''multi'' \<in> set SupportedArchitectures" "''amd64'' \<in> set SupportedArchitectures"
    by (simp_all add: SupportedPlatforms_def SupportedArchitectures_def)
  have e: "mget0 [] input k = [] \<longleftrightarrow> mget input k = None" for k using assms(3) [of k] by (auto simp: mget0_def split: option.splits)
  have look: "mget ?i k = (if k = LaunchPlatform then Some (case mget input k of None \<Rightarrow> ''hypershift-hosted'' | Some x \<Rightarrow> x)
      else if k = LaunchArchitecture then Some (case mget input k of Some x \<Rightarrow> x | None \<Rightarrow>
        if (case mget input LaunchPlatform of None \<Rightarrow> ''hypershift-hosted'' | Some x \<Rightarrow> x) = ''hypershift-hosted'' then ''multi'' else ''amd64'')
      else mget input k)" for k
    using e [of LaunchPlatform] e [of LaunchArchitecture]
    by (auto simp: first_inputs_def launch_first_config_def Let_def mget0_def gm.lookup_insert split: option.splits)
  show "no_empty (emptyData\<lparr>cd_Input := ?i\<rparr>)"
    using assms(3,4) by (auto simp: no_empty_def look split: option.splits)
  show "placed (emptyData\<lparr>cd_Input := ?i\<rparr>)"
    using assms(1,2,5) sup by (auto simp: placed_def mget0_def look split: option.splits)
qed

lemma first_submit_ok:
  assumes "from_view True (FirstStepViewWithData d) cb" "MakeFirstStepHandler ModalTitle SelectModeView launch_first_config cb = (r, Some g)"
  shows "view_ok rv (shown g)"
proof -
  let ?i = "first_inputs launch_first_config (CallBackInputAll cb)"
  let ?in = "inputs (FirstStepViewWithData d)"
  have inp: "?in = [SelectInput LaunchPlatform True SupportedPlatforms (given d LaunchPlatform),
      SelectInput LaunchArchitecture True SupportedArchitectures (given d LaunchArchitecture)]"
    by (simp add: inputs_def FirstStepViewWithData_def BuildOptions_def)
  have look: "mget (CallBackInputAll cb) k = replied cb k" for k using assms(1) by (simp add: from_view_def mget_input_all)
  have typed: "x \<in> set SupportedPlatforms" if "replied cb LaunchPlatform = Some x" for x
    using that from_view_reply [OF assms(1), of LaunchPlatform] inp fits_answer(2) by (fastforce simp: replied_def bind_eq_Some_conv)
  have typed': "x \<in> set SupportedArchitectures" if "replied cb LaunchArchitecture = Some x" for x
    using that from_view_reply [OF assms(1), of LaunchArchitecture] inp fits_answer(2) by (fastforce simp: replied_def bind_eq_Some_conv)
  have h: "\<not> (mget0 [] ?i LaunchPlatform = ''hypershift-hosted'' \<and> mget0 [] ?i LaunchArchitecture \<noteq> ''multi'')"
    and g: "g = SafeGo (SelectModeView True (emptyData\<lparr>cd_Input := ?i\<rparr>))"
    using assms(2) by (auto simp: MakeFirstStepHandler_def launch_first_config_def Let_def split: if_splits)
  have ne: "mget (CallBackInputAll cb) k \<noteq> Some []" for k using replied_nonempty [OF assms(1), of k "[]"] look by auto
  have rc: "mget (CallBackInputAll cb) LaunchFromReleaseController = None"
    using replied_other [OF assms(1), of LaunchFromReleaseController] look by (simp add: inp map_filter_single map_filter_empty)
  have pl: "placed (emptyData\<lparr>cd_Input := ?i\<rparr>)" "no_empty (emptyData\<lparr>cd_Input := ?i\<rparr>)"
    using first_inputs_placed [OF _ _ ne rc h] typed typed' look by simp_all
  have "replied cb k = None" if "k \<notin> {LaunchPlatform, LaunchArchitecture}" for k
    using that replied_other [OF assms(1), of k] inp by (auto simp: map_filter_single map_filter_empty)
  then have "mget ?i k = None" if "k \<notin> {LaunchPlatform, LaunchArchitecture}" for k
    using that look by (auto simp: first_inputs_def Let_def gm.lookup_insert)
  then have "no_later IdentifierRegisterLaunchMode (emptyData\<lparr>cd_Input := ?i\<rparr>)"
    by (simp add: no_later_def emptyData_def)
  from mode_view_ok [OF pl this] show ?thesis by (simp add: g shown_def)
qed

lemma mode_submit_ok:
  assumes "from_view True v cb" "vw_Metadata v = Some (d, IdentifierRegisterLaunchMode)" "asks IdentifierRegisterLaunchMode d v"
    "step_ok rv IdentifierRegisterLaunchMode d"
  shows "view_ok rv (FilterVersionView rs True (MergeCallbackData cb) b)"
proof (rule filter_view_ok)
  note m = merged_facts [OF assms(1-3)]
  show "placed (MergeCallbackData cb)" using merged_placed [OF assms(1-3)] assms(4) by (simp add: step_ok_def)
  show "no_empty (MergeCallbackData cb)" using m(3) assms(4) by (simp add: step_ok_def)
  show "no_later IdentifierFilterVersionView (MergeCallbackData cb)"
    using assms(4) m(1,2) by (simp add: no_later_def step_ok_def own_keys_def)
qed

lemma filter_submit_ok:
  assumes "from_view True v cb" "vw_Metadata v = Some (d, IdentifierFilterVersionView)" "asks IdentifierFilterVersionView d v"
    "step_ok rv IdentifierFilterVersionView d"
    "MakeFilterVersionHandler IdentifierFilterVersionView ModalTitle (launch_views rs) cb = (r, Some g)"
  shows "view_ok rv (shown g)"
proof -
  let ?e = "MergeCallbackData cb"
  note m = merged_facts [OF assms(1-3)]
  have base: "placed ?e" "no_empty ?e" using merged_placed [OF assms(1-3)] m(3) assms(4) by (simp_all add: step_ok_def)
  have nl: "mget (cd_MultipleSelection ?e) LaunchParameters = None" "mget (cd_Input ?e) LaunchFromPR = None"
      "mget (cd_Input ?e) LaunchFromMajorMinor = None" "mget (cd_Input ?e) LaunchVersion = None"
    using assms(4) m(1,2) by (simp_all add: no_later_def step_ok_def own_keys_def)
  note ne = no_empty_None [OF base(2)]
  have one: "input_of ?e LaunchFromCustom = [] \<or> input_of ?e LaunchFromStream = []"
    using assms(5) by (auto simp: MakeFilterVersionHandler_def ValidateFilterVersion_def Let_def split: if_splits)
  consider (none) "input_of ?e LaunchFromCustom = []" "input_of ?e LaunchFromStream = []"
    | (custom) "input_of ?e LaunchFromCustom \<noteq> []" "input_of ?e LaunchFromStream = []"
    | (stream) "input_of ?e LaunchFromCustom = []" "input_of ?e LaunchFromStream \<noteq> []" using one by blast
  then show ?thesis
  proof cases
    case none
    then have "shown g = FilterVersionView rs True ?e True"
      using assms(5) by (auto simp: MakeFilterVersionHandler_def ValidateFilterVersion_def launch_views_def shown_def Let_def)
    then show ?thesis using base nl by (simp add: filter_view_ok no_later_def)
  next
    case custom
    then have c: "custom_path ?e" using ne nl by (simp add: custom_path_def)
    have g: "shown g = (if HasPRMode ?e then PRInputView True ?e IdentifierFilterVersionView else ThirdStepView True ?e IdentifierFilterVersionView)"
      using assms(5) custom by (auto simp: MakeFilterVersionHandler_def ValidateFilterVersion_def launch_views_def shown_def Let_def)
    have "view_ok rv (PRInputView True ?e IdentifierFilterVersionView)"
      using base nl c by (intro pr_view_ok) (auto simp: no_later_def)
    moreover have "view_ok rv (ThirdStepView True ?e IdentifierFilterVersionView)"
      using base nl c by (intro third_view_ok) (auto simp: no_later_def validate_absent)
    ultimately show ?thesis using g by simp
  next
    case stream
    then have "shown g = SelectVersionView rs True ?e IdentifierFilterVersionView"
      using assms(5) by (auto simp: MakeFilterVersionHandler_def ValidateFilterVersion_def launch_views_def shown_def Let_def)
    then show ?thesis using base nl stream ne by (auto simp: no_later_def stream_path_def intro!: version_view_ok)
  qed
qed

lemma stream_submit_ok:
  assumes "from_view True v cb" "vw_Metadata v = Some (d, i)" "asks i d v" "step_ok rv i d"
    "i = IdentifierSelectMinorMajor \<or> i = IdentifierSelectVersion" "mget (step_handlers rv rs) i = Some h" "h cb = (r, Some g)"
  shows "view_ok rv (shown g)"
proof -
  let ?e = "MergeCallbackData cb"
  note m = merged_facts [OF assms(1-3)]
  have base: "placed ?e" "no_empty ?e" using merged_placed [OF assms(1-3)] m(3) assms(4) by (simp_all add: step_ok_def)
  have nl: "mget (cd_MultipleSelection ?e) LaunchParameters = None" "mget (cd_Input ?e) LaunchFromPR = None"
    "stream_path ?e"
  proof -
    have k: "{LaunchParameters, LaunchFromPR, LaunchFromStream, LaunchFromCustom} \<inter> set (own_keys i) = {}"
      using assms(5) by (elim disjE) (simp_all add: own_keys_def)
    have "mget (cd_MultipleSelection d) LaunchParameters = None" "mget (cd_Input d) LaunchFromPR = None" "stream_path d"
      using assms(4,5) by (elim disjE; simp add: no_later_def step_ok_def versioned_def)+
    then show "mget (cd_MultipleSelection ?e) LaunchParameters = None" "mget (cd_Input ?e) LaunchFromPR = None" "stream_path ?e"
      using k m(1) [of LaunchFromPR] m(1) [of LaunchFromStream] m(1) [of LaunchFromCustom] m(2) [of LaunchParameters]
      by (simp_all add: stream_path_def mget0_def)
  qed
  note sp = nl(3)
  show ?thesis
  proof (cases "i = IdentifierSelectMinorMajor")
    case True
    then have "h = MakeSelectMinorMajorHandler IdentifierSelectMinorMajor ModalTitle (SelectVersionView rs)"
      using assms(6) launch_handlers(6) [of rv rs] by simp
    then have "shown g = SelectVersionView rs True ?e IdentifierSelectMinorMajor"
      using assms(7) by (simp add: MakeSelectMinorMajorHandler_def) (auto simp: shown_def)
    then show ?thesis using base nl sp by (auto simp: no_later_def intro!: version_view_ok)
  next
    case False
    then have i: "i = IdentifierSelectVersion" using assms(5) by simp
    have "\<exists>opts. inputs v = [SelectInput LaunchVersion False opts None]" using assms(3) i by (simp add: asks_def)
    then have ver: "input_of ?e LaunchVersion \<noteq> []" using merged_required [OF assms(1,2)] by blast
    have "h = MakeSelectVersionHandler IdentifierSelectVersion ModalTitle PRInputView ThirdStepView"
      using assms(6) launch_handlers(3) [of rv rs] i by simp
    then have g: "shown g = (if HasPRMode ?e then PRInputView True ?e IdentifierSelectVersion else ThirdStepView True ?e IdentifierSelectVersion)"
      using assms(7) by (simp add: MakeSelectVersionHandler_def Let_def) (auto simp: shown_def)
    have "view_ok rv (PRInputView True ?e IdentifierSelectVersion)"
      using base nl sp ver by (intro pr_view_ok) (auto simp: no_later_def)
    moreover have "view_ok rv (ThirdStepView True ?e IdentifierSelectVersion)"
      using base nl sp ver by (intro third_view_ok) (auto simp: no_later_def validate_absent)
    ultimately show ?thesis using g by simp
  qed
qed

lemma pr_submit_ok:
  assumes "from_view True v cb" "vw_Metadata v = Some (d, IdentifierPRInputView)" "asks IdentifierPRInputView d v"
    "step_ok rv IdentifierPRInputView d" "MakePRInputHandler rv IdentifierPRInputView ModalTitle ThirdStepView cb = (r, Some g)"
  shows "view_ok rv (shown g)"
proof -
  let ?e = "MergeCallbackData cb"
  note m = merged_facts [OF assms(1-3)]
  have base: "placed ?e" "no_empty ?e" using merged_placed [OF assms(1-3)] m(3) assms(4) by (simp_all add: step_ok_def)
  have nl: "mget (cd_MultipleSelection ?e) LaunchParameters = None"
    using assms(4) m(2) by (auto simp: no_later_def step_ok_def own_keys_def)
  have paths: "custom_path ?e \<or> stream_path ?e \<and> input_of ?e LaunchVersion \<noteq> []"
  proof -
    have e: "mget (cd_Input ?e) k = mget (cd_Input d) k" if "k \<noteq> LaunchFromPR" for k
      using that m(1) by (simp add: own_keys_def)
    have p: "custom_path ?e = custom_path d" "stream_path ?e = stream_path d" "input_of ?e LaunchVersion = input_of d LaunchVersion"
      using e by (simp_all add: custom_path_def stream_path_def mget0_def)
    show ?thesis using assms(4) unfolding p by (simp add: step_ok_def versioned_def)
  qed
  have "ValidatePRInput rv ?e = None" "shown g = ThirdStepView True ?e IdentifierPRInputView"
    using assms(5) by (auto simp: MakePRInputHandler_def shown_def Let_def split: option.splits)
  then show ?thesis using base nl paths by (auto simp: no_later_def intro!: third_view_ok)
qed

lemma submit_ok:
  assumes "view_ok rv v" "vw_Metadata v = Some (d, i)" "from_view True v cb" "mget (step_handlers rv rs) i = Some h" "h cb = (r, Some g)"
  shows "view_ok rv (shown g)"
proof -
  consider (first) d' where "v = FirstStepViewWithData d'" | (step) "step_ok rv i d" "asks i d v"
    using assms(1,2) by (auto simp: view_ok_def)
  then show ?thesis
  proof cases
    case first
    then have "i = IdentifierInitialView" using assms(2) by (simp add: FirstStepViewWithData_def)
    then show ?thesis using first_submit_ok assms(3-5) first by (simp add: launch_handlers)
  next
    case step
    then have "i \<in> set launch_steps" by (simp add: step_ok_def)
    then consider "i = IdentifierRegisterLaunchMode" | "i = IdentifierFilterVersionView"
      | "i = IdentifierSelectMinorMajor \<or> i = IdentifierSelectVersion" | "i = IdentifierPRInputView" | "i = Identifier3rdStep"
      unfolding launch_steps_def list.set insert_iff empty_iff by argo
    then show ?thesis
    proof cases
      case 1
      then have "h = MakeModeStepHandler ModalTitle (FilterVersionView rs)" using assms(4) launch_handlers(2) [of rv rs] by simp
      then have "shown g = FilterVersionView rs True (MergeCallbackData cb) False"
        using assms(5) by (simp add: MakeModeStepHandler_def) (auto simp: shown_def)
      then show ?thesis using mode_submit_ok [OF assms(3), of d rv rs False] assms(2) step 1 by simp
    next
      case 2
      then have "h = MakeFilterVersionHandler IdentifierFilterVersionView ModalTitle (launch_views rs)" using assms(4) launch_handlers(4) [of rv rs] by simp
      then show ?thesis using filter_submit_ok [OF assms(3), of d rv rs r g] assms(2,5) step 2 by simp
    next
      case 3
      then show ?thesis using stream_submit_ok [OF assms(3,2)] assms(4,5) step by blast
    next
      case 4
      then have "h = MakePRInputHandler rv IdentifierPRInputView ModalTitle ThirdStepView" using assms(4) launch_handlers(5) [of rv rs] by simp
      then show ?thesis using pr_submit_ok [OF assms(3), of d rv r g] assms(2,5) step 4 by simp
    next
      case 5
      then show ?thesis using assms(4) by (simp add: launch_handlers)
    qed
  qed
qed

section \<open>Going back keeps the invariant\<close>

text \<open>The keys that going back to a step removes.\<close>

definition later_keys :: "string \<Rightarrow> string set" where
  "later_keys p =
     (if p = IdentifierRegisterLaunchMode then {LaunchFromStream, LaunchFromCustom, LaunchFromMajorMinor, LaunchVersion, LaunchFromPR}
      else if p = IdentifierFilterVersionView then {LaunchFromMajorMinor, LaunchVersion, LaunchFromPR}
      else if p = IdentifierSelectMinorMajor then {LaunchVersion, LaunchFromPR}
      else if p = IdentifierSelectVersion then {LaunchFromPR} else {})"

lemma cleared:
  assumes "p \<in> {IdentifierRegisterLaunchMode, IdentifierFilterVersionView, IdentifierSelectMinorMajor, IdentifierSelectVersion, IdentifierPRInputView}"
  shows "mget (cd_Input (clearForwardSelections d p launch_identifiers)) k = (if k \<in> later_keys p then None else mget (cd_Input d) k)"
    "mget (cd_MultipleSelection (clearForwardSelections d p launch_identifiers)) LaunchParameters = None"
  using assms unfolding insert_iff empty_iff
  by (elim disjE FalseE; simp add: clearForwardSelections_def step_keys_def launch_identifiers_def gm.lookup_remove later_keys_def)+

lemma cleared_base:
  assumes "p \<in> {IdentifierRegisterLaunchMode, IdentifierFilterVersionView, IdentifierSelectMinorMajor, IdentifierSelectVersion, IdentifierPRInputView}"
    "placed d" "no_empty d"
  shows "placed (clearForwardSelections d p launch_identifiers)" "no_empty (clearForwardSelections d p launch_identifiers)"
    "no_later p (clearForwardSelections d p launch_identifiers)"
proof -
  note c = cleared [OF assms(1)]
  have "LaunchPlatform \<notin> later_keys p" "LaunchArchitecture \<notin> later_keys p" by (simp_all add: later_keys_def)
  then show "placed (clearForwardSelections d p launch_identifiers)" using c(1) assms(2) by (simp add: placed_def mget0_def)
  show "no_empty (clearForwardSelections d p launch_identifiers)" using assms(3) by (simp add: no_empty_def c(1))
  show "no_later p (clearForwardSelections d p launch_identifiers)"
    unfolding no_later_def using assms(1) c(2) unfolding insert_iff empty_iff c(1) by (elim disjE FalseE) (simp_all add: later_keys_def)
qed

lemma back_target:
  assumes "step_ok rv i d"
  shows "cd_PreviousStep d \<in> {IdentifierInitialView, IdentifierRegisterLaunchMode, IdentifierFilterVersionView, IdentifierSelectMinorMajor,
      IdentifierSelectVersion, IdentifierPRInputView}"
    "cd_PreviousStep d \<in> {IdentifierSelectMinorMajor, IdentifierSelectVersion} \<Longrightarrow> stream_path d"
    "cd_PreviousStep d = IdentifierPRInputView \<Longrightarrow> custom_path d \<or> stream_path d \<and> input_of d LaunchVersion \<noteq> []"
    "cd_PreviousStep d \<in> {IdentifierSelectMinorMajor, IdentifierSelectVersion} \<Longrightarrow>
       {LaunchFromStream, LaunchFromCustom} \<inter> set (own_keys i) = {}"
    "cd_PreviousStep d = IdentifierPRInputView \<Longrightarrow>
       {LaunchFromStream, LaunchFromCustom, LaunchFromMajorMinor, LaunchVersion} \<inter> set (own_keys i) = {}"
proof -
  have v: "versioned rv i d" and "i \<in> set launch_steps" using assms by (simp_all add: step_ok_def)
  then have i: "i = IdentifierRegisterLaunchMode \<or> i = IdentifierFilterVersionView \<or> i = IdentifierSelectMinorMajor \<or>
      i = IdentifierSelectVersion \<or> i = IdentifierPRInputView \<or> i = Identifier3rdStep"
    unfolding launch_steps_def list.set insert_iff empty_iff by argo
  show "cd_PreviousStep d \<in> {IdentifierInitialView, IdentifierRegisterLaunchMode, IdentifierFilterVersionView, IdentifierSelectMinorMajor,
      IdentifierSelectVersion, IdentifierPRInputView}"
    using v i by (elim disjE) (simp_all add: versioned_def, blast+)
  show "cd_PreviousStep d \<in> {IdentifierSelectMinorMajor, IdentifierSelectVersion} \<Longrightarrow> stream_path d"
    using v i by (elim disjE) (auto simp: versioned_def)
  show "cd_PreviousStep d = IdentifierPRInputView \<Longrightarrow> custom_path d \<or> stream_path d \<and> input_of d LaunchVersion \<noteq> []"
    using v i by (elim disjE) (simp_all add: versioned_def)
  show "cd_PreviousStep d \<in> {IdentifierSelectMinorMajor, IdentifierSelectVersion} \<Longrightarrow>
       {LaunchFromStream, LaunchFromCustom} \<inter> set (own_keys i) = {}"
    using v i by (elim disjE) (simp_all add: versioned_def own_keys_def)
  show "cd_PreviousStep d = IdentifierPRInputView \<Longrightarrow>
       {LaunchFromStream, LaunchFromCustom, LaunchFromMajorMinor, LaunchVersion} \<inter> set (own_keys i) = {}"
    using v i by (elim disjE) (simp_all add: versioned_def own_keys_def)
qed

lemma launch_navigate:
  "NavigateBack e p (launch_back_views rs) launch_identifiers =
     (let d = clearForwardSelections e p launch_identifiers in
      if p = IdentifierInitialView then FirstStepViewWithData d
      else if p = IdentifierRegisterLaunchMode then SelectModeView True d
      else if p = IdentifierFilterVersionView then FilterVersionView rs True d False
      else if p = IdentifierSelectMinorMajor then SelectMinorMajor rs True d IdentifierFilterVersionView
      else if p = IdentifierSelectVersion then SelectVersionView rs True d IdentifierFilterVersionView
      else if p = IdentifierPRInputView then PRInputView True d
        (if input_of d LaunchVersion \<noteq> [] \<or> input_of d LaunchFromCustom \<noteq> [] then IdentifierFilterVersionView else IdentifierRegisterLaunchMode)
      else FirstStepViewWithData d)"
  unfolding NavigateBack_def launch_back_views_def
  by (simp only: BackNavigationViews.simps launch_identifiers_def BackNavigationIdentifiers.simps)

lemma back_press:
  assumes "handleBackButton rs cb = (NoResponse, Some g)" "from_view r v cb" "vw_Metadata v = Some (d, i)" "step_ok rv i d"
  shows "shown g = NavigateBack (MergeCallbackData cb) (cd_PreviousStep d) (launch_back_views rs) launch_identifiers"
proof -
  have p: "cd_PreviousStep (MergeCallbackData cb) = cd_PreviousStep d"
    using merged_input(2) [of cb d i] assms(2,3) by (simp add: from_view_def)
  have "\<not> has_prefix (cd_PreviousStep d) ''mce_''"
    using back_target(1) [OF assms(4)] unfolding insert_iff empty_iff by (elim disjE FalseE) (simp_all add: has_prefix_def)
  then show ?thesis using assms(1) p
    by (simp add: handleBackButton_def Let_def shown_def split: list.splits if_splits) (auto simp: shown_def)
qed

lemma back_ok:
  assumes "step_ok rv i d" "asks i d v" "from_view r v cb" "vw_Metadata v = Some (d, i)"
  shows "view_ok rv (NavigateBack (MergeCallbackData cb) (cd_PreviousStep d) (launch_back_views rs) launch_identifiers)"
proof -
  let ?e = "MergeCallbackData cb" let ?p = "cd_PreviousStep d" let ?c = "clearForwardSelections ?e ?p launch_identifiers"
  note m = merged_facts [OF assms(3,4,2)] and t = back_target [OF assms(1)]
  show ?thesis
  proof (cases "?p = IdentifierInitialView")
    case True
    then show ?thesis by (auto simp: launch_navigate view_ok_def Let_def)
  next
    case False
    then have p: "?p \<in> {IdentifierRegisterLaunchMode, IdentifierFilterVersionView, IdentifierSelectMinorMajor, IdentifierSelectVersion,
        IdentifierPRInputView}" using t(1) by blast
    have "placed ?e" "no_empty ?e" using merged_placed [OF assms(3,4,2)] m(3) assms(1) by (simp_all add: step_ok_def)
    note base = cleared_base [OF p this] and c = cleared [OF p, of ?e]
    have sp: "stream_path ?c" if "?p = IdentifierSelectMinorMajor \<or> ?p = IdentifierSelectVersion"
    proof -
      have "LaunchFromStream \<notin> later_keys ?p" "LaunchFromCustom \<notin> later_keys ?p"
        using that by (elim disjE; simp add: later_keys_def)+
      moreover have "stream_path d" "LaunchFromStream \<notin> set (own_keys i)" "LaunchFromCustom \<notin> set (own_keys i)"
        using t(2,4) that by auto
      ultimately show ?thesis by (simp add: stream_path_def mget0_def c m(1))
    qed
    show ?thesis
      using p unfolding insert_iff empty_iff
    proof (elim disjE FalseE)
      assume q: "?p = IdentifierRegisterLaunchMode"
      show ?thesis using mode_view_ok [of ?c rv] base q by (simp add: launch_navigate Let_def)
    next
      assume q: "?p = IdentifierFilterVersionView"
      show ?thesis using filter_view_ok [of ?c rv] base q by (simp add: launch_navigate Let_def)
    next
      assume q: "?p = IdentifierSelectMinorMajor"
      show ?thesis using minor_view_ok [of ?c IdentifierFilterVersionView] base sp q by (simp add: launch_navigate SelectMinorMajor_def Let_def)
    next
      assume q: "?p = IdentifierSelectVersion"
      show ?thesis using version_view_ok [of ?c IdentifierFilterVersionView] base sp q by (simp add: launch_navigate Let_def)
    next
      assume q: "?p = IdentifierPRInputView"
      have "mget (cd_Input ?c) k = mget (cd_Input d) k"
        if "k \<in> {LaunchFromStream, LaunchFromCustom, LaunchFromMajorMinor, LaunchVersion}" for k
      proof -
        have "k \<notin> set (own_keys i)" using t(5) [OF q] that by blast
        then show ?thesis using m(1) c(1) [of k] q by (simp add: later_keys_def)
      qed
      then have e: "custom_path ?c = custom_path d" "stream_path ?c = stream_path d" "input_of ?c LaunchVersion = input_of d LaunchVersion"
        by (simp_all add: custom_path_def stream_path_def mget0_def)
      have path: "custom_path ?c \<or> stream_path ?c \<and> input_of ?c LaunchVersion \<noteq> []" using t(3) q unfolding e by simp
      then have "input_of ?c LaunchVersion \<noteq> [] \<or> input_of ?c LaunchFromCustom \<noteq> []" by (auto simp: custom_path_def)
      then show ?thesis using pr_view_ok [OF base(1,2) _ path, of IdentifierFilterVersionView rv] base(3) q by (simp add: launch_navigate Let_def)
    qed
  qed
qed

lemma dialog_ok:
  assumes "dialog rv v"
  shows "view_ok rv v"
  using assms
proof induction
  case dialog_start
  then show ?case by (auto simp: view_ok_def FirstStepView_def)
next
  case (dialog_submit v d i cb rs h r g)
  then show ?case using submit_ok by blast
next
  case (dialog_back v cb rs g)
  have "v \<noteq> FirstStepViewWithData d" for d using dialog_back.hyps(2) by (auto simp: FirstStepViewWithData_def)
  then obtain d i where "vw_Metadata v = Some (d, i)" "step_ok rv i d" "asks i d v"
    using dialog_back.IH dialog_back.hyps(2) by (auto simp: view_ok_def)
  then show ?case using back_ok back_press dialog_back.hyps by metis
qed

section \<open>The request of the last step\<close>

abbreviation platform_parameters :: "string \<Rightarrow> string list" where
  "platform_parameters platform \<equiv> BuildOptions SupportedParameters (excluded_parameters platform)"

text \<open>The submission of a third step that can be reached.\<close>

lemma third_step:
  assumes "dialog rv v" "vw_Metadata v = Some (d, Identifier3rdStep)" "from_view r v cb"
  defines "e \<equiv> MergeCallbackData cb"
  shows "placed e" "no_empty e" "cd_Input e = cd_Input d \<or> (\<forall>k. mget (cd_Input e) k = mget (cd_Input d) k)"
    "custom_path e \<or> stream_path e \<and> input_of e LaunchVersion \<noteq> []" "ValidatePRInput rv e = None"
    "set (mget0 [] (cd_MultipleSelection e) LaunchParameters) \<subseteq> set (platform_parameters (input_of e LaunchPlatform))"
proof -
  have "v \<noteq> FirstStepViewWithData x" for x using assms(2) by (auto simp: FirstStepViewWithData_def)
  then have ok: "step_ok rv Identifier3rdStep d" "asks Identifier3rdStep d v"
    using dialog_ok [OF assms(1)] assms(2) by (auto simp: view_ok_def)
  note m = merged_facts [OF assms(3,2) ok(2)]
  show "placed e" "no_empty e" using merged_placed [OF assms(3,2) ok(2)] m(3) ok(1) by (simp_all add: step_ok_def e_def)
  have inp: "inputs v = [MultiSelectInput LaunchParameters True (platform_parameters (input_of d LaunchPlatform))]"
    using ok(2) by (simp add: asks_def)
  have "replied cb LaunchParameters = None"
  proof (cases "mget (ic_Values cb) LaunchParameters")
    case (Some vs)
    then show ?thesis using from_view_reply [OF assms(3) Some] fits_answer(5) [of r _ vs] inp by (fastforce simp: replied_def)
  qed (simp add: replied_def)
  then have same: "mget (cd_Input e) k = mget (cd_Input d) k" for k
    using m(1) [of k] merged_input(1) [of cb d _ k] assms(2,3) by (cases "k = LaunchParameters") (simp_all add: e_def own_keys_def from_view_def)
  then show "cd_Input e = cd_Input d \<or> (\<forall>k. mget (cd_Input e) k = mget (cd_Input d) k)" by simp
  show "custom_path e \<or> stream_path e \<and> input_of e LaunchVersion \<noteq> []" "ValidatePRInput rv e = None"
    using ok(1) same by (simp_all add: step_ok_def versioned_def custom_path_def stream_path_def mget0_def ValidatePRInput_def)
  have "set (chosen cb LaunchParameters) \<subseteq> set (platform_parameters (input_of d LaunchPlatform))"
  proof (cases "mget (ic_Values cb) LaunchParameters")
    case (Some vs)
    then show ?thesis using from_view_reply [OF assms(3) Some] fits_answer(5) [of r _ vs] inp by (fastforce simp: chosen_def)
  qed (simp add: chosen_def)
  moreover have "mget (cd_MultipleSelection d) LaunchParameters = None" using ok(1) by (simp add: step_ok_def no_later_def)
  moreover have "input_of e LaunchPlatform = input_of d LaunchPlatform" using same by (simp add: mget0_def)
  ultimately show "set (mget0 [] (cd_MultipleSelection e) LaunchParameters) \<subseteq> set (platform_parameters (input_of e LaunchPlatform))"
    using merged_multiple [of cb d _ LaunchParameters] assms(2,3) by (auto simp: e_def from_view_def mget0_def split: if_splits)
qed

text \<open>The version of the request is the custom specification or the selected version.\<close>

lemma path_version:
  assumes "no_empty e" "custom_path e \<or> stream_path e \<and> input_of e LaunchVersion \<noteq> []"
  shows "GetVersion e = (if input_of e LaunchFromCustom = [] then input_of e LaunchVersion else input_of e LaunchFromCustom)" "GetVersion e \<noteq> []"
proof -
  show g: "GetVersion e = (if input_of e LaunchFromCustom = [] then input_of e LaunchVersion else input_of e LaunchFromCustom)"
    using assms by (auto simp: GetVersion_def launchTypes_def custom_path_def stream_path_def no_empty_def mhas_def mget0_def split: option.splits)
  show "GetVersion e \<noteq> []" using assms(2) unfolding g by (auto simp: custom_path_def)
qed

lemma trim_space_empty: "trim_space s = [] \<Longrightarrow> c \<in> set s \<Longrightarrow> is_space c"
  by (auto simp: trim_space_def dropWhile_eq_Nil_conv dest: set_dropWhileD split: if_splits)
    (metis dropWhile_eq_Nil_conv list.set_intros(1) set_rev hd_dropWhile list.set_sel(1))

lemma resolved_pull_nonempty:
  assumes "ResolveAsPullRequest gh f pr = Inr (Some x)"
  shows "trim_space pr \<noteq> []"
proof
  assume t: "trim_space pr = []"
  have "CHR ''#'' \<notin> set pr" "CHR ''h'' \<notin> set pr" using trim_space_empty [OF t] by (auto simp: is_space_def)
  then have "\<not> has_prefix pr ''https://github.com/''" "\<not> contains pr ''#''"
    by (auto simp: has_prefix_iff contains_iff)
  then show False using assms by (simp add: ResolveAsPullRequest_def pull_parts_def)
qed

lemma modal_inputs_nonempty:
  assumes "no_empty e" "custom_path e \<or> stream_path e \<and> input_of e LaunchVersion \<noteq> []" "ValidatePRInput rv e = None"
  shows "list_all (\<lambda>i. i \<noteq> []) (modal_inputs e)"
proof -
  have "trim_space pr \<noteq> []" if "mget (cd_Input e) LaunchFromPR = Some prs" "pr \<in> set (split_char CHR '','' prs)" for prs pr
  proof -
    have "List.map_filter (pr_error rv) (split_char CHR '','' prs) = []"
      using assms(3) that(1) by (auto simp: ValidatePRInput_def split: list.splits)
    then have "pr_error rv pr = None" using that(2) by (auto simp: List.map_filter_def filter_empty_conv)
    then show ?thesis using resolved_pull_nonempty by (auto simp: pr_error_def split: sum.splits option.splits)
  qed
  note pr = this
  show ?thesis
  proof (cases "mget (cd_Input e) LaunchFromPR")
    case (Some prs)
    then show ?thesis using pr [OF Some] path_version(2) [OF assms(1,2)] by (auto simp: modal_inputs_def list_all_iff)
  qed (use path_version(2) [OF assms(1,2)] in \<open>simp add: modal_inputs_def\<close>)
qed

lemma blank_parameters:
  "mget (fold (\<lambda>p. mput p []) ps m) k = (if k \<in> set ps then Some [] else mget m k)"
  by (induction ps arbitrary: m) (simp_all add: gm.lookup_insert)

lemma dialog_request_typed:
  assumes "dialog rv v" "vw_Metadata v = Some (d, Identifier3rdStep)" "from_view r v cb" "ic_UserID cb \<noteq> []"
  shows "typed_request (launch_modal_request conversation cb)"
proof -
  let ?e = "MergeCallbackData cb"
  note t = third_step [OF assms(1-3)]
  have "mget0 [] (fold (\<lambda>p. mput p []) ps []) ''test'' = []" for ps :: "string list"
    by (simp add: blank_parameters mget0_def)
  moreover have "typed_inputs JobTypeInstall [modal_inputs ?e]"
    using modal_inputs_nonempty [OF t(2,4,5)] by (simp add: typed_inputs_def arity_def modal_inputs_def)
  ultimately show ?thesis
    using t(1) assms(4) supported_platform_nonempty [of "input_of ?e LaunchPlatform"]
    by (simp add: typed_request_def launch_modal_request_def placed_def typed_test_def Let_def)
qed

end
