(* ===== verification/LaunchDialog.thy ===== *)
theory LaunchDialog
  imports ModalProps
begin

text \<open>
  What the launch dialog guarantees: every way through it ends in a well-typed request, the request is the one the \<open>launch\<close>
  command builds from the same words, going back ends at the first view, no answer of an abandoned step leaks into a later one,
  and the limits of the version lists.
\<close>

section \<open>A concrete dialog\<close>

definition sample_source :: release_source where
  "sample_source = \<lparr>rs_get = (\<lambda>_. HttpStatus 200 []), rs_decode = (\<lambda>_. Inr [(''4-stable'', [''4.19.1'', ''4.18.3'']), (''4-dev-preview'', [])]),
     rs_hypershift = [''4.19''], rs_semverSort = id\<rparr>"

definition picked :: "string \<Rightarrow> BlockAction list" where
  "picked x = [\<lparr>ba_Value = [], ba_SelectedOption = (x, x), ba_SelectedUser = [], ba_SelectedOptions = []\<rparr>]"

definition typed :: "string \<Rightarrow> BlockAction list" where
  "typed x = [\<lparr>ba_Value = x, ba_SelectedOption = ([], []), ba_SelectedUser = [], ba_SelectedOptions = []\<rparr>]"

definition several :: "string list \<Rightarrow> BlockAction list" where
  "several xs = [\<lparr>ba_Value = [], ba_SelectedOption = ([], []), ba_SelectedUser = [], ba_SelectedOptions = xs\<rparr>]"

definition sample_callback :: "View \<Rightarrow> (string, BlockAction list) gomap \<Rightarrow> Callback" where
  "sample_callback v answers = \<lparr>ic_Type = ViewSubmission, ic_CallbackID = [], ic_Metadata = vw_Metadata v, ic_Values = answers,
     ic_Actions = [\<lparr>bu_Type = ''button'', bu_ActionID = BackButtonActionID, bu_Value = []\<rparr>], ic_UserID = ''U1'', ic_UserName = ''user''\<rparr>"

definition sample_data :: "(string, string) gomap \<Rightarrow> CallbackData" where
  "sample_data extra = \<lparr>cd_Input = (LaunchPlatform, ''aws'') # (LaunchArchitecture, ''amd64'') # extra, cd_MultipleSelection = [], cd_PreviousStep = []\<rparr>"

definition sample_mode_view :: View where
  "sample_mode_view = SelectModeView True (sample_data [])"

definition sample_filter_view :: View where
  "sample_filter_view = FilterVersionView sample_source True
     ((sample_data [(LaunchMode, LaunchFromPRNo)])\<lparr>cd_PreviousStep := IdentifierInitialView\<rparr>) False"

definition sample_third_view :: View where
  "sample_third_view = ThirdStepView True
     ((sample_data [(LaunchMode, LaunchFromPRNo), (LaunchFromCustom, ''4.19.1'')])\<lparr>cd_PreviousStep := IdentifierRegisterLaunchMode\<rparr>)
     IdentifierFilterVersionView"

definition sample_submission :: Callback where
  "sample_submission = sample_callback sample_third_view [(LaunchParameters, several [''ovn''])]"

text \<open>One submission after the other.\<close>

lemma submitted:
  assumes "dialog rv v" "map_option snd (vw_Metadata v) = Some i" "from_view True v cb" "mget (step_handlers rv rs) i = Some h"
    "h cb = (r, Some (SafeGo w)) \<or> h cb = (r, Some (BareGo w))"
  shows "dialog rv w"
proof -
  obtain d where "vw_Metadata v = Some (d, i)" using assms(2) by auto
  then show ?thesis using dialog_submit [OF assms(1) _ assms(3,4)] assms(5) by (fastforce simp: shown_def)
qed

lemma sample_mode: "dialog rv sample_mode_view"
proof (rule submitted [OF dialog_start _ _ launch_handlers(1)])
  let ?cb = "sample_callback FirstStepView [(LaunchPlatform, picked ''aws''), (LaunchArchitecture, picked ''amd64'')]"
  show "from_view True FirstStepView ?cb" by code_simp
  show "MakeFirstStepHandler ModalTitle SelectModeView launch_first_config ?cb = (Prepare ModalTitle, Some (SafeGo sample_mode_view)) \<or>
      MakeFirstStepHandler ModalTitle SelectModeView launch_first_config ?cb = (Prepare ModalTitle, Some (BareGo sample_mode_view))" by code_simp
qed code_simp

lemma sample_filter: "dialog rv sample_filter_view"
proof (rule submitted [OF sample_mode _ _ launch_handlers(2)])
  let ?cb = "sample_callback sample_mode_view [(LaunchMode, picked LaunchFromPRNo)]"
  let ?h = "MakeModeStepHandler ModalTitle (FilterVersionView sample_source)"
  show "from_view True sample_mode_view ?cb" by code_simp
  show "?h ?cb = (Prepare ModalTitle, Some (SafeGo sample_filter_view)) \<or> ?h ?cb = (Prepare ModalTitle, Some (BareGo sample_filter_view))"
    by code_simp
qed code_simp

lemma sample_third: "dialog rv sample_third_view"
proof (rule submitted [OF sample_filter _ _ launch_handlers(4)])
  let ?cb = "sample_callback sample_filter_view [(LaunchFromStream, picked []), (LaunchFromCustom, typed ''4.19.1'')]"
  let ?h = "MakeFilterVersionHandler IdentifierFilterVersionView ModalTitle (launch_views sample_source)"
  show "from_view True sample_filter_view ?cb" by code_simp
  show "?h ?cb = (Prepare ModalTitle, Some (SafeGo sample_third_view)) \<or> ?h ?cb = (Prepare ModalTitle, Some (BareGo sample_third_view))"
    by code_simp
qed code_simp

lemma sample_submission_facts:
  "vw_Metadata sample_third_view = Some ((sample_data [(LaunchMode, LaunchFromPRNo), (LaunchFromCustom, ''4.19.1'')])
     \<lparr>cd_PreviousStep := IdentifierFilterVersionView\<rparr>, Identifier3rdStep)"
  "from_view True sample_third_view sample_submission" "ic_UserID sample_submission = ''U1''"
  by code_simp+

section \<open>The request\<close>

text \<open>
  C7: however a user walks through the launch dialog, forwards and backwards, and whatever the release controller lists meanwhile, the
  submission of the last step builds a well-typed request: a supported platform and architecture that go together, one list of non-empty inputs
  that starts with the custom specification or the selected version, and only parameters offered for that platform. The answers of the
  manager to it, from the check before the launch and from the launch itself, are never about the shape of the request.
\<close>

theorem dialog_ends_well_typed:
  assumes "dialog rv v" "vw_Metadata v = Some (d, Identifier3rdStep)" "from_view True v cb" "ic_UserID cb \<noteq> []"
  shows "typed_request (launch_modal_request conversation cb) \<and>
    hd (hd (rq_Inputs (launch_modal_request conversation cb))) =
      (if input_of d LaunchFromCustom = [] then input_of d LaunchVersion else input_of d LaunchFromCustom) \<and>
    set (mkeys (rq_JobParams (launch_modal_request conversation cb))) \<subseteq> set SupportedParameters - set (excluded_parameters (input_of d LaunchPlatform)) \<and>
    (\<forall>m' r out evs e. processLaunchOptionsStep env newjob m now conversation cb = (m', r, out) \<longrightarrow>
       r = ParameterError e \<or> out = Some (LaunchError e, evs) \<longrightarrow> \<not> type_error e)"
proof -
  let ?e = "MergeCallbackData cb" let ?q = "launch_modal_request conversation cb"
  note t = third_step [OF assms(1-3)]
  have ty: "typed_request ?q" by (rule dialog_request_typed [OF assms])
  have "mget (cd_Input ?e) k = mget (cd_Input d) k" for k using t(3) by auto
  then have io: "input_of ?e k = input_of d k" for k by (simp add: mget0_def)
  have "hd (hd (rq_Inputs ?q)) = (if input_of d LaunchFromCustom = [] then input_of d LaunchVersion else input_of d LaunchFromCustom)"
    using path_version(1) [OF t(2,4)] by (simp add: launch_modal_request_def modal_inputs_def io Let_def)
  moreover have "set (mkeys (rq_JobParams ?q)) \<subseteq> set SupportedParameters - set (excluded_parameters (input_of d LaunchPlatform))"
  proof
    fix k assume "k \<in> set (mkeys (rq_JobParams ?q))"
    then have "mget (rq_JobParams ?q) k \<noteq> None" by (simp add: mget_eq_None_iff)
    then have "k \<in> set (mget0 [] (cd_MultipleSelection ?e) LaunchParameters)"
      by (auto simp: launch_modal_request_def blank_parameters Let_def split: if_splits)
    then show "k \<in> set SupportedParameters - set (excluded_parameters (input_of d LaunchPlatform))"
      using t(6) unfolding io by (auto simp: BuildOptions_def)
  qed
  moreover have "\<not> type_error e"
    if p: "processLaunchOptionsStep env newjob m now conversation cb = (m', r, out)" and o: "r = ParameterError e \<or> out = Some (LaunchError e, evs)"
    for m' r out evs e
  proof (cases "CheckValidJobConfiguration env m now ?q")
    case (Inl err)
    then have "err = e" using p o by (auto simp: processLaunchOptionsStep_def Let_def)
    moreover have "rq_Inputs ?q \<noteq> []" by (simp add: launch_modal_request_def Let_def)
    ultimately show ?thesis
      using Inl resolve_typed [OF ty] unfolding CheckValidJobConfiguration_def by (auto simp: rbind_eq_Inl_iff dest: pick_typed)
  next
    case (Inr u)
    then show ?thesis using p o
      by (auto simp: processLaunchOptionsStep_def Let_def split: prod.splits dest: launch_typed_reply [OF ty])
  qed
  ultimately show ?thesis using ty by blast
qed

theorem dialog_ends_well_typed_witness:
  "typed_request (launch_modal_request None sample_submission) \<and> hd (hd (rq_Inputs (launch_modal_request None sample_submission))) = ''4.19.1''"
  using dialog_ends_well_typed [OF sample_third sample_submission_facts(1,2), of None sample_env "\<lambda>_. (emptyOperator, Inl [])" NewJobManager 0]
    sample_submission_facts(3)
  by (simp add: sample_data_def mget0_def)

section \<open>The dialog and the command\<close>

text \<open>
  Words that keep their meaning in a message: no comma, no space around them, no quotation mark in front, and no link, which Slack
  marks with an angle bracket.
\<close>

definition plain :: "string \<Rightarrow> bool" where
  "plain w \<longleftrightarrow> w \<noteq> [] \<and> \<not> is_space (hd w) \<and> \<not> is_space (last w) \<and> CHR '','' \<notin> set w \<and> CHR ''<'' \<notin> set w \<and>
     hd w \<noteq> CHR 0x22 \<and> hd w \<noteq> CHR 0x27"

lemma trim_space_id:
  assumes "w \<noteq> [] \<longrightarrow> \<not> is_space (hd w) \<and> \<not> is_space (last w)"
  shows "trim_space w = w"
proof (cases "w = []")
  case False
  then have "dropWhile is_space w = w" "dropWhile is_space (rev w) = rev w"
    using assms by (cases w; simp) (metis dropWhile_eq_self_iff False assms hd_rev rev_is_Nil_conv)
  then show ?thesis by (simp add: trim_space_def)
qed (simp add: trim_space_def)

lemma plain_trim: "plain w \<Longrightarrow> trim_space w = w"
  by (rule trim_space_id) (simp add: plain_def)

lemma plain_join:
  assumes "list_all plain ws" "ws \<noteq> []"
  shows "join '','' ws \<noteq> []" "hd (join '','' ws) = hd (hd ws)" "last (join '','' ws) = last (last ws)" "CHR ''<'' \<notin> set (join '','' ws)"
  using assms by (induction "'',''" ws rule: join.induct) (auto simp: plain_def)

lemma ParseImageInput_plain:
  assumes "list_all plain ws" "ws \<noteq> []"
  shows "ParseImageInput (join '','' ws) = Some ws"
proof -
  have p: "plain (hd ws)" "plain (last ws)" using assms by (auto simp: list_all_iff)
  then have "trim_space (join '','' ws) = join '','' ws"
    using plain_join [OF assms] by (intro trim_space_id) (simp add: plain_def)
  moreover have "StripLinks (join '','' ws) = join '','' ws"
    using plain_join(4) [OF assms] by (rule StripLinks_plain)
  moreover have "split_char CHR '','' (join '','' ws) = ws"
    using assms by (intro split_char_join) (auto simp: plain_def list_all_iff)
  moreover have "filter (\<lambda>p. p \<noteq> []) (map trim_space ws) = ws"
    using assms(1) plain_trim by (induction ws) (auto simp: plain_def)
  ultimately show ?thesis using plain_join(1) [OF assms] assms(2) by (simp add: ParseImageInput_def Let_def)
qed

text \<open>Options that are only names.\<close>

abbreviation flags :: "string list \<Rightarrow> (string, string) gomap \<Rightarrow> (string, string) gomap" where
  "flags ws m \<equiv> fold (\<lambda>k. mput k []) ws m"

lemma option_names_valid:
  "k \<in> set SupportedPlatforms \<Longrightarrow> valid_key k" "k \<in> set SupportedArchitectures \<Longrightarrow> valid_key k" "k \<in> set SupportedParameters \<Longrightarrow> valid_key k"
proof -
  have "list_all valid_key allOptions" by code_simp
  then show "k \<in> set SupportedPlatforms \<Longrightarrow> valid_key k" "k \<in> set SupportedArchitectures \<Longrightarrow> valid_key k" "k \<in> set SupportedParameters \<Longrightarrow> valid_key k"
    by (auto simp: list_all_iff allOptions_def)
qed

lemma params_of_names:
  assumes "list_all valid_key ws" "ws \<noteq> []"
  shows "ParamsFromAnnotation (join '','' ws) = Inr (flags ws [])"
proof -
  let ?ps = "map (\<lambda>k. (k, [])) ws :: (string \<times> string) list"
  have "split_char CHR '','' (join '','' ws) = map param_pair ?ps"
    using assms split_char_join [of ws "CHR '',''"] by (auto simp: list_all_iff valid_key_def param_pair_def comp_def)
  moreover have "params_loop (map param_pair ?ps) [] = Inr (flags ws [])"
    using assms(1) by (subst params_loop_pairs) (auto simp: list_all_iff fold_map comp_def)
  moreover have "join '','' ws \<noteq> []"
    using assms by (cases "('','', ws)" rule: join.cases) (auto simp: valid_key_def)
  ultimately show ?thesis by (simp add: ParamsFromAnnotation_def)
qed

lemma mput_behind: "k \<notin> set (mkeys m0) \<Longrightarrow> mput k v (m0 @ m) = m0 @ mput k v m"
  by (induction m0) (auto simp: mput_def mkeys_def)

lemma flags_behind: "set ws \<inter> set (mkeys m0) = {} \<Longrightarrow> flags ws (m0 @ m) = m0 @ flags ws m"
  by (induction ws arbitrary: m) (auto simp: mput_behind)

lemma flags_keys: "set (mkeys (flags ws [])) = set ws"
proof -
  have "k \<in> set (mkeys (flags ws [])) \<longleftrightarrow> k \<in> set ws" for k
    using mget_eq_None_iff [of "flags ws []" k] by (simp add: blank_parameters split: if_splits)
  then show ?thesis by blast
qed

lemma ParseOptions_names:
  assumes "platform \<in> set SupportedPlatforms" "architecture \<in> set SupportedArchitectures" "set ws \<subseteq> set SupportedParameters"
    "platform = ''hypershift-hosted'' \<longrightarrow> architecture = ''multi''"
  shows "ParseOptions versions (join '','' (architecture # platform # ws)) given_inputs ty = Inr (platform, architecture, flags ws [])"
proof -
  let ?m = "[(architecture, []), (platform, [])] @ flags ws []"
  have d: "platform \<noteq> architecture" "platform \<notin> set ws" "architecture \<notin> set ws" "platform \<noteq> []" "architecture \<noteq> []"
    using assms(1-3) not_arch_platform [of platform] not_param_arch [of architecture] by auto
  have "list_all valid_key (architecture # platform # ws)" using assms(1-3) option_names_valid by (auto simp: list_all_iff)
  from params_of_names [OF this] have p: "ParamsFromAnnotation (join '','' (architecture # platform # ws)) = Inr ?m"
    using d flags_behind [of ws "[(architecture, []), (platform, [])]" "[]"] mput_behind [of platform "[(architecture, [])]" "[]" "[]"]
    by (simp add: mkeys_def mput_def)
  have k: "x \<notin> set SupportedPlatforms" "x \<notin> set SupportedArchitectures" if "x \<in> set (mkeys (flags ws []))" for x
    using that assms(3) not_arch_platform [of x] not_param_arch [of x] unfolding flags_keys by blast+
  have "platform_opts (mkeys ?m) = [platform]" "arch_opts (mkeys ?m) = [architecture]"
    using k assms(1,2) not_arch_platform [of platform] not_param_arch [of architecture]
    by (auto simp: platform_opts_def arch_opts_def mkeys_def filter_empty_conv)
  moreover have "list_all known_option (mkeys ?m)"
    using assms(1-3) flags_keys [of ws] by (auto simp: list_all_iff known_option_def mkeys_def)
  moreover have "filter (\<lambda>e. fst e \<in> set (mkeys ?m) \<longrightarrow> fst e \<in> set SupportedParameters) ?m = flags ws []"
    using assms(1-3) not_arch_platform [of platform] not_param_arch [of architecture] flags_keys [of ws]
    by (auto simp: mkeys_def filter_id_conv)
  ultimately have "options_loop (mkeys ?m) [] [] ?m = Inr (platform, architecture, flags ws [])"
    unfolding options_loop_iff by (simp add: opt_cons_def the_one_def del: append_Cons append_Nil)
  then show ?thesis unfolding ParseOptions_def p sum.case
    using assms(4) d by (auto simp add: choose_platform_def simp del: options_loop.simps append_Cons append_Nil)
qed



section \<open>The back button\<close>

definition goes_back :: "View \<Rightarrow> View \<Rightarrow> bool" where
  "goes_back v w \<longleftrightarrow> (\<exists>rs cb g. BackButton \<in> set (vw_Blocks v) \<and> from_view False v cb \<and>
     handleBackButton rs cb = (NoResponse, Some g) \<and> w = shown g)"

text \<open>How many presses of the back button are possible from a view.\<close>

definition presses :: "View \<Rightarrow> nat" where
  "presses v = (if BackButton \<notin> set (vw_Blocks v) then 0 else case vw_Metadata v of
     None \<Rightarrow> 0
   | Some (d, i) \<Rightarrow>
       if cd_PreviousStep d = IdentifierInitialView then 1
       else if cd_PreviousStep d = IdentifierRegisterLaunchMode then 2
       else if cd_PreviousStep d = IdentifierFilterVersionView then 3 else 4)"

lemma presses_step:
  "presses (step_view (launch_config_of True d i p c) bs) \<le>
     (if p = IdentifierInitialView then 1 else if p = IdentifierRegisterLaunchMode then 2 else if p = IdentifierFilterVersionView then 3 else 4)"
  by (simp add: presses_def step_view_def launch_config_of_def SetPreviousStep_def)

lemma presses_blank [simp]: "presses (ErrorView a e) = 0" "presses (fetch_error e) = 0" "presses (FirstStepViewWithData d) = 0" "presses emptyView = 0"
  by (simp_all add: presses_def ErrorView_def fetch_error_def FirstStepViewWithData_def emptyView_def)

lemma presses_mode: "presses (SelectModeView True d) \<le> 1"
  using presses_step [of d IdentifierRegisterLaunchMode IdentifierInitialView]
  by (simp add: SelectModeView_def BuildSelectModeView_def launch_config_of_def Let_def)

lemma presses_filter: "presses (FilterVersionView rs True d b) \<le> 2"
  using presses_step [of d IdentifierFilterVersionView IdentifierRegisterLaunchMode]
  by (auto simp: FilterVersionView_def BuildFilterVersionView_def launch_config_of_def Let_def split: sum.splits)

lemma presses_minor: "presses (BuildSelectMinorMajorView rs (launch_config_of True d i IdentifierFilterVersionView c)) \<le> 3"
  using presses_step [of d i IdentifierFilterVersionView]
  by (auto simp: BuildSelectMinorMajorView_def launch_config_of_def Let_def split: sum.splits)

lemma presses_version: "presses (SelectVersionView rs True d IdentifierFilterVersionView) \<le> 3"
  using presses_step [of d IdentifierSelectVersion IdentifierFilterVersionView] presses_minor [of rs d IdentifierSelectMinorMajor]
  by (auto simp: SelectVersionView_def BuildSelectVersionView_def launch_config_of_def Let_def split: sum.splits)

lemma presses_pr: "presses (PRInputView True d IdentifierFilterVersionView) \<le> 3" "presses (PRInputView True d IdentifierRegisterLaunchMode) \<le> 2"
  using presses_step [of d IdentifierPRInputView IdentifierFilterVersionView] presses_step [of d IdentifierPRInputView IdentifierRegisterLaunchMode]
  by (simp_all add: PRInputView_def BuildPRInputView_def launch_config_of_def Let_def)

lemma back_fewer:
  assumes "dialog rv v" "goes_back v w"
  shows "dialog rv w" "presses w < presses v"
proof -
  obtain rs cb g where b: "BackButton \<in> set (vw_Blocks v)" "from_view False v cb" "handleBackButton rs cb = (NoResponse, Some g)" "w = shown g"
    using assms(2) by (auto simp: goes_back_def)
  then show "dialog rv w" using dialog_back [OF assms(1)] by blast
  have "v \<noteq> FirstStepViewWithData d" for d using b(1) by (auto simp: FirstStepViewWithData_def)
  then obtain d i where m: "vw_Metadata v = Some (d, i)" and ok: "step_ok rv i d"
    using dialog_ok [OF assms(1)] b(1) by (auto simp: view_ok_def)
  let ?p = "cd_PreviousStep d" let ?c = "clearForwardSelections (MergeCallbackData cb) ?p launch_identifiers"
  have w: "w = NavigateBack (MergeCallbackData cb) ?p (launch_back_views rs) launch_identifiers"
    using back_press [OF b(3,2) m ok] b(4) by simp
  have v: "presses v = (if ?p = IdentifierInitialView then 1 else if ?p = IdentifierRegisterLaunchMode then 2
      else if ?p = IdentifierFilterVersionView then 3 else 4)"
    using b(1) m by (simp add: presses_def)
  show "presses w < presses v"
    using back_target(1) [OF ok] presses_mode [of ?c] presses_filter [of rs ?c False] presses_version [of rs ?c] presses_pr [of ?c]
      presses_minor [of rs ?c IdentifierSelectMinorMajor]
    unfolding w v launch_navigate Let_def insert_iff empty_iff
    by (elim disjE FalseE) (simp_all add: SelectMinorMajor_def less_Suc_eq_le numeral_eq_Suc)
qed

text \<open>
  C34: going back always ends. Wherever a user is in the launch dialog, at most four presses of the back button in a row are
  possible, whatever was filled in and whatever the release controller lists, although the step that asks for the minor version may lead
  back to itself; every view without the button is the first view or an error.
\<close>

theorem back_button_ends:
  assumes "dialog rv v"
  shows "((goes_back ^^ n) v w \<longrightarrow> n \<le> 4 \<and> dialog rv w) \<and>
    (BackButton \<notin> set (vw_Blocks v) \<longrightarrow> vw_Metadata v = None \<or> (\<exists>d. v = FirstStepViewWithData d))"
proof (intro conjI impI)
  have "dialog rv w \<and> n + presses w \<le> presses v" if "(goes_back ^^ n) v w"
    using that
  proof (induction n arbitrary: w)
    case (Suc n)
    then obtain u where "(goes_back ^^ n) v u" "goes_back u w" by auto
    then show ?case using Suc.IH [of u] back_fewer [of rv u w] by fastforce
  qed (use assms in simp)
  moreover have "presses v \<le> 4" by (simp add: presses_def split: option.splits)
  ultimately show "n \<le> 4" "dialog rv w" if "(goes_back ^^ n) v w" using that by fastforce+
  show "vw_Metadata v = None \<or> (\<exists>d. v = FirstStepViewWithData d)" if "BackButton \<notin> set (vw_Blocks v)"
    using dialog_ok [OF assms] that by (auto simp: view_ok_def asks_def)
qed

theorem back_button_ends_witness:
  "(goes_back ^^ 1) sample_third_view (shown (the (snd (handleBackButton sample_source sample_submission)))) \<and>
   dialog sample_resolver (shown (the (snd (handleBackButton sample_source sample_submission))))"
proof -
  have "BackButton \<in> set (vw_Blocks sample_third_view)" "from_view False sample_third_view sample_submission" by code_simp+
  moreover have "fst (handleBackButton sample_source sample_submission) = NoResponse" "snd (handleBackButton sample_source sample_submission) \<noteq> None"
    by code_simp+
  ultimately have "goes_back sample_third_view (shown (the (snd (handleBackButton sample_source sample_submission))))"
    unfolding goes_back_def by (metis option.collapse prod.collapse)
  then show ?thesis using back_button_ends [where rv = sample_resolver and n = 1, OF sample_third] by (simp add: eq_OO)
qed

section \<open>The list of versions\<close>

text \<open>
  The list of versions the dialog offers has between one and 99 entries, the limit of Slack, each of them an accepted release of the selected
  stream that starts with the selected minor version. When a stream has more releases the dialog asks for the minor version first, but only
  for the stable stream: for every other stream with more than 99 matching releases it ends in an error.
\<close>

theorem version_list_bounds:
  assumes "\<And>vs. mset (rs_semverSort rs vs) = mset vs"
  shows "(SelectInput LaunchVersion free opts x \<in> set (vw_Blocks (SelectVersionView rs True d p)) \<longrightarrow>
      1 \<le> length opts \<and> length opts \<le> 99 \<and>
      (\<exists>releases tags. FetchReleases rs (input_of d LaunchArchitecture) = Inr releases \<and> mget releases (input_of d LaunchFromStream) = Some tags \<and>
         opts = filter (\<lambda>tag. has_prefix tag (input_of d LaunchFromMajorMinor)) tags)) \<and>
    (FetchReleases rs (input_of d LaunchArchitecture) = Inr releases \<and> mget releases (input_of d LaunchFromStream) = Some tags \<and>
      99 < length (filter (\<lambda>tag. has_prefix tag (input_of d LaunchFromMajorMinor)) tags) \<longrightarrow>
      (if has_prefix (input_of d LaunchFromStream) StableReleasesPrefix
       then majorMinorReleases rs releases (input_of d LaunchFromStream) (input_of d LaunchPlatform) \<noteq> [] \<longrightarrow>
         (\<exists>mm. inputs (SelectVersionView rs True d p) = [SelectInput LaunchFromMajorMinor False mm None] \<and>
           set mm = set (majorMinorReleases rs releases (input_of d LaunchFromStream) (input_of d LaunchPlatform)))
       else vw_Title (SelectVersionView rs True d p) = ''Error Occurred''))"
proof (intro conjI impI)
  let ?s = "input_of d LaunchFromStream" let ?a = "input_of d LaunchArchitecture"
  assume v: "SelectInput LaunchVersion free opts x \<in> set (vw_Blocks (SelectVersionView rs True d p))"
  then show "1 \<le> length opts" "length opts \<le> 99"
    "\<exists>releases tags. FetchReleases rs ?a = Inr releases \<and> mget releases ?s = Some tags \<and>
       opts = filter (\<lambda>tag. has_prefix tag (input_of d LaunchFromMajorMinor)) tags"
    by (auto simp: SelectVersionView_def BuildSelectVersionView_def BuildSelectMinorMajorView_def launch_config_of_def SlackUIMaxOptions_def
        ErrorView_def fetch_error_def step_view_def BuildOptions_def Let_def Suc_le_eq split: sum.splits option.splits if_splits)
next
  let ?s = "input_of d LaunchFromStream" let ?mm = "majorMinorReleases rs releases ?s (input_of d LaunchPlatform)"
  let ?c = "launch_config_of True d IdentifierSelectMinorMajor p (BuildMetadata (launch_context d @ [(LaunchModeContext, input_of d LaunchMode)]))"
  assume h: "FetchReleases rs (input_of d LaunchArchitecture) = Inr releases \<and> mget releases ?s = Some tags \<and>
    99 < length (filter (\<lambda>tag. has_prefix tag (input_of d LaunchFromMajorMinor)) tags)"
  have v: "SelectVersionView rs True d p = BuildSelectMinorMajorView rs ?c"
    using h by (auto simp: SelectVersionView_def BuildSelectVersionView_def launch_config_of_def SlackUIMaxOptions_def Let_def)
  have b: "BuildSelectMinorMajorView rs ?c = (if ?mm = []
      then ErrorView ''find major.minor versions'' (''no major.minor versions found for stream '' @ quoted_text ?s)
      else step_view ?c [BackButton, HeaderText ''There are too many results from the selected Stream. Select a Major.Minor as well'', Divider,
        SelectInput LaunchFromMajorMinor False (BuildOptions ?mm []) None, Divider, ContextText (bv_ContextMetadata ?c)])"
    using h by (simp add: BuildSelectMinorMajorView_def launch_config_of_def Let_def)
  have "rs_semverSort rs [] = []" using assms [of "[]"] by simp
  then have "?mm = []" if "\<not> has_prefix ?s StableReleasesPrefix"
    using that by (simp add: majorMinorReleases_def Let_def split: option.splits)
  then show "if has_prefix ?s StableReleasesPrefix
    then ?mm \<noteq> [] \<longrightarrow> (\<exists>mm. inputs (SelectVersionView rs True d p) = [SelectInput LaunchFromMajorMinor False mm None] \<and> set mm = set ?mm)
    else vw_Title (SelectVersionView rs True d p) = ''Error Occurred''"
    unfolding v b by (simp add: ErrorView_def BuildOptions_def)
qed

theorem version_list_bounds_witness:
  "inputs (SelectVersionView sample_source True (sample_data [(LaunchFromStream, ''4-stable''), (LaunchFromMajorMinor, ''4.19'')]) IdentifierFilterVersionView) =
     [SelectInput LaunchVersion False [''4.19.1''] None] \<and> length [''4.19.1''] \<le> 99"
proof -
  let ?d = "sample_data [(LaunchFromStream, ''4-stable''), (LaunchFromMajorMinor, ''4.19'')]"
  have "SelectInput LaunchVersion False [''4.19.1''] None \<in> set (vw_Blocks (SelectVersionView sample_source True ?d IdentifierFilterVersionView))"
    "inputs (SelectVersionView sample_source True ?d IdentifierFilterVersionView) = [SelectInput LaunchVersion False [''4.19.1''] None]"
    by code_simp+
  moreover have "mset (rs_semverSort sample_source vs) = mset vs" for vs by (simp add: sample_source_def)
  ultimately show ?thesis using version_list_bounds [of sample_source False "[''4.19.1'']" None ?d IdentifierFilterVersionView] by blast
qed

section \<open>Changing one's mind\<close>

text \<open>
  An answer that is cleared does not go away. A user who went back to the version filter after giving a custom specification, deletes it and
  selects a stream instead (or the other way round) is refused with the message that only one of the two may be given, since the answers of the
  view are merged into the old ones and an empty field keeps its old value.
\<close>

theorem cleared_answer_is_kept:
  assumes "from_view True v cb" "vw_Metadata v = Some (d, IdentifierFilterVersionView)"
    and "old = LaunchFromCustom \<and> new = LaunchFromStream \<or> old = LaunchFromStream \<and> new = LaunchFromCustom"
    and "input_of d old \<noteq> []" "replied cb old = None" "replied cb new \<noteq> None"
  shows "MakeFilterVersionHandler IdentifierFilterVersionView ModalTitle (launch_views rs) cb =
    (ValidationError [(LaunchFromCustom, ''Select only one parameter!''), (LaunchFromStream, ''Select only one parameter!'')], None)"
proof -
  note look = merged_input(1) [of cb d IdentifierFilterVersionView]
  have w: "wf_map (ic_Values cb)" "ic_Metadata cb = Some (d, IdentifierFilterVersionView)" using assms(1,2) by (simp_all add: from_view_def)
  obtain x where x: "replied cb new = Some x" "x \<noteq> []" using assms(6) replied_nonempty [OF assms(1), of new] by auto
  have "input_of (MergeCallbackData cb) old \<noteq> []" "input_of (MergeCallbackData cb) new \<noteq> []"
    using look [OF w, of old] look [OF w, of new] assms(4,5) x by (simp_all add: mget0_def)
  then have "input_of (MergeCallbackData cb) LaunchFromCustom \<noteq> [] \<and> input_of (MergeCallbackData cb) LaunchFromStream \<noteq> []"
    using assms(3) by (elim disjE) simp_all
  then show ?thesis by (simp add: MakeFilterVersionHandler_def ValidateFilterVersion_def Let_def)
qed

theorem cleared_answer_is_kept_witness:
  "MakeFilterVersionHandler IdentifierFilterVersionView ModalTitle (launch_views sample_source)
     (sample_callback (shown (the (snd (handleBackButton sample_source sample_submission))))
       [(LaunchFromStream, picked ''4-stable''), (LaunchFromCustom, typed [])]) =
   (ValidationError [(LaunchFromCustom, ''Select only one parameter!''), (LaunchFromStream, ''Select only one parameter!'')], None)"
proof -
  let ?v = "shown (the (snd (handleBackButton sample_source sample_submission)))"
  let ?cb = "sample_callback ?v [(LaunchFromStream, picked ''4-stable''), (LaunchFromCustom, typed [])]"
  have "map_option snd (vw_Metadata ?v) = Some IdentifierFilterVersionView"
    "map_option (\<lambda>(d, _). input_of d LaunchFromCustom) (vw_Metadata ?v) = Some ''4.19.1''" by code_simp+
  then obtain d where "vw_Metadata ?v = Some (d, IdentifierFilterVersionView)" "input_of d LaunchFromCustom = ''4.19.1''" by auto
  moreover have "from_view True ?v ?cb" "replied ?cb LaunchFromCustom = None" "replied ?cb LaunchFromStream \<noteq> None" by code_simp+
  ultimately show ?thesis using cleared_answer_is_kept [of ?v ?cb d LaunchFromCustom LaunchFromStream sample_source] by simp
qed

section \<open>Lost replies\<close>

lemma filter_goroutine: "MakeFilterVersionHandler i t vs cb = (r, Some g) \<Longrightarrow> \<exists>v. g = SafeGo v"
  by (auto simp: MakeFilterVersionHandler_def Let_def split: option.splits)

text \<open>
  When Slack does not answer the update of a view, the process crashes in exactly four of the twelve steps of the two dialogs: the entry of pull
  requests and the choice of the minor version, whose goroutines are started without the handler for panics. In the other
  steps the panic is caught, and with an answer, even a refusal, no step crashes.
\<close>

theorem lost_reply_crashes:
  assumes "mget (step_handlers rv rs) i = Some h" "h cb = (r, Some g)"
  shows "snd (run_goroutine upd g) \<longleftrightarrow>
    i \<in> {IdentifierPRInputView, IdentifierSelectMinorMajor, mce_PRInput, mce_SelectMinorMajor} \<and> upd (shown g) = NoReply"
proof -
  have o: "snd (OverwriteView upd v) \<longleftrightarrow> upd v = NoReply" for v by (simp add: OverwriteView_def Let_def split: update_reply.splits)
  have i: "i \<in> set (mkeys (step_handlers rv rs))" using assms(1) mget_eq_None_iff [of "step_handlers rv rs" i] by auto
  have "(\<exists>v. g = SafeGo v) \<and> i \<notin> {IdentifierPRInputView, IdentifierSelectMinorMajor, mce_PRInput, mce_SelectMinorMajor} \<or>
      (\<exists>v. g = BareGo v) \<and> i \<in> {IdentifierPRInputView, IdentifierSelectMinorMajor, mce_PRInput, mce_SelectMinorMajor}"
    using i assms unfolding step_handlers_def mkeys_def list.map list.set fst_conv insert_iff empty_iff
    by (elim disjE FalseE; hypsubst; clarsimp dest!: filter_goroutine)
      (auto simp: MakeFirstStepHandler_def MakeModeStepHandler_def MakeSelectVersionHandler_def MakePRInputHandler_def MakeSelectMinorMajorHandler_def
        Let_def split: option.splits if_splits)
  then show ?thesis by (auto simp: run_goroutine_def shown_def o)
qed

theorem lost_reply_crashes_witness:
  "snd (run_goroutine (\<lambda>_. NoReply) (BareGo (SelectVersionView sample_source True (MergeCallbackData sample_submission) IdentifierSelectMinorMajor)))"
proof -
  let ?g = "BareGo (SelectVersionView sample_source True (MergeCallbackData sample_submission) IdentifierSelectMinorMajor)"
  have "MakeSelectMinorMajorHandler IdentifierSelectMinorMajor ModalTitle (SelectVersionView sample_source) sample_submission = (Prepare ModalTitle, Some ?g)"
    by (simp add: MakeSelectMinorMajorHandler_def)
  from lost_reply_crashes [OF launch_handlers(6) [of sample_resolver] this, of "\<lambda>_. NoReply"] show ?thesis by simp
qed

end
