(* ===== verification/TagCodec.thy ===== *)
theory TagCodec
  imports GcpAccess
begin

text \<open>
  Expiry times as tags of ROSA clusters: \<open>time.Time.MarshalText\<close> (RFC 3339 with nanoseconds, in UTC) followed by
  \<open>base64.RawStdEncoding\<close>, as \<open>createRosaCluster\<close> of \<open>pkg/manager/rosa.go\<close> writes them and \<open>rosaSync\<close> of
  \<open>pkg/manager/manager.go\<close> reads them. The tag is one more instance of the locale \<open>text_codec\<close>.
\<close>

section \<open>Unpadded base64\<close>

definition b64_char :: "nat \<Rightarrow> char" where
  "b64_char n =
     (if n < 26 then char_of (n + 65) else if n < 52 then char_of (n + 71)
      else if n < 62 then char_of (n - 4) else if n = 62 then CHR ''+'' else CHR ''/'')"

fun raw_encode :: "string \<Rightarrow> string" where
  "raw_encode [] = []"
| "raw_encode [a] =
     (let n = of_char a * 65536 in [b64_char (n div 262144), b64_char (n div 4096 mod 64)])"
| "raw_encode [a, b] =
     (let n = of_char a * 65536 + of_char b * 256 in
      [b64_char (n div 262144), b64_char (n div 4096 mod 64), b64_char (n div 64 mod 64)])"
| "raw_encode (a # b # c # r) =
     (let n = of_char a * 65536 + of_char b * 256 + of_char c in
      b64_char (n div 262144) # b64_char (n div 4096 mod 64) # b64_char (n div 64 mod 64) # b64_char (n mod 64) # raw_encode r)"

fun raw_decode :: "string \<Rightarrow> string option" where
  "raw_decode [] = Some []"
| "raw_decode [a] = None"
| "raw_decode [a, b] = map_option (\<lambda>n. [char_of (n div 65536)]) (b64_quad (b64_val a) (b64_val b) (Some 0) (Some 0))"
| "raw_decode [a, b, c] =
     map_option (\<lambda>n. [char_of (n div 65536), char_of (n div 256 mod 256)]) (b64_quad (b64_val a) (b64_val b) (b64_val c) (Some 0))"
| "raw_decode (a # b # c # d # r) =
     (case b64_quad (b64_val a) (b64_val b) (b64_val c) (b64_val d) of
        None \<Rightarrow> None
      | Some n \<Rightarrow> map_option (\<lambda>t. char_of (n div 65536) # char_of (n div 256 mod 256) # char_of (n mod 256) # t) (raw_decode r))"

definition RawDecodeString :: "string \<Rightarrow> string option" where
  "RawDecodeString s = raw_decode (filter (\<lambda>c. c \<noteq> CHR 0x0A \<and> c \<noteq> CHR 0x0D) s)"

lemma b64_char_val:
  assumes "n < 64"
  shows "b64_val (b64_char n) = Some n" "b64_char n \<noteq> CHR 0x0A" "b64_char n \<noteq> CHR 0x0D"
proof -
  consider "n < 26" | "26 \<le> n" "n < 52" | "52 \<le> n" "n < 62" | "n = 62" | "n = 63" using assms by linarith
  then show v: "b64_val (b64_char n) = Some n"
    by cases (auto simp: b64_val_def b64_char_def Let_def)
  have "b64_val (CHR 0x0A) = None" "b64_val (CHR 0x0D) = None" by code_simp+
  then show "b64_char n \<noteq> CHR 0x0A" "b64_char n \<noteq> CHR 0x0D" using v by auto
qed

lemma quad_parts:
  fixes n :: nat
  shows "((n div 262144 * 64 + n div 4096 mod 64) * 64 + n div 64 mod 64) * 64 + n mod 64 = n"
proof -
  have "n div 262144 * 64 + n div 4096 mod 64 = n div 4096" "n div 4096 * 64 + n div 64 mod 64 = n div 64"
    using div_mult_mod_eq [of "n div 4096" 64] div_mult_mod_eq [of "n div 64" 64]
    by (simp_all add: div_mult2_eq [of n 4096 64, simplified] div_mult2_eq [of n 64 64, simplified])
  then show ?thesis by (metis div_mult_mod_eq)
qed

lemma quad_val:
  assumes "n div 262144 < 64"
  shows "b64_quad (b64_val (b64_char (n div 262144))) (b64_val (b64_char (n div 4096 mod 64)))
      (b64_val (b64_char (n div 64 mod 64))) (b64_val (b64_char (n mod 64))) = Some n"
    "n mod 64 = 0 \<Longrightarrow> b64_quad (b64_val (b64_char (n div 262144))) (b64_val (b64_char (n div 4096 mod 64)))
      (b64_val (b64_char (n div 64 mod 64))) (Some 0) = Some n"
    "n mod 64 = 0 \<Longrightarrow> n div 64 mod 64 = 0 \<Longrightarrow> b64_quad (b64_val (b64_char (n div 262144)))
      (b64_val (b64_char (n div 4096 mod 64))) (Some 0) (Some 0) = Some n"
  using assms quad_parts [of n] by (simp_all add: b64_char_val del: mod_mult_self1_is_0)

lemma of_char_256 [simp]: "(of_char c :: nat) < 256"
  using nat_of_char_less_256 by simp

lemma triple_bounds:
  fixes a b c :: nat
  assumes "a < 256" "b < 256" "c < 256"
  shows "(a * 65536 + b * 256 + c) div 262144 < 64" "(a * 65536 + b * 256 + c) div 65536 = a"
    "(a * 65536 + b * 256 + c) div 256 mod 256 = b" "(a * 65536 + b * 256 + c) mod 256 = c"
proof -
  show "(a * 65536 + b * 256 + c) div 262144 < 64" using assms by (simp add: less_mult_imp_div_less)
  show "(a * 65536 + b * 256 + c) div 65536 = a" using assms by (intro div_nat_eqI) auto
  have "(a * 65536 + b * 256 + c) div 256 = a * 256 + b" using assms by (intro div_nat_eqI) auto
  then show "(a * 65536 + b * 256 + c) div 256 mod 256 = b" using assms by simp
  show "(a * 65536 + b * 256 + c) mod 256 = c" using assms by (simp add: mod_add_eq [symmetric])
qed

lemma raw_decode_encode: "raw_decode (raw_encode s) = Some s"
proof (induction s rule: raw_encode.induct)
  case (2 a)
  define n where "n = (of_char a * 65536 :: nat)"
  have "n div 262144 < 64" "n div 65536 = of_char a" using triple_bounds(1,2) [of "of_char a" 0 0] by (simp_all add: n_def)
  moreover have "n mod 64 = 0" "n div 64 mod 64 = 0" by (simp_all add: n_def)
  ultimately show ?case using quad_val(3) [of n] by (simp add: Let_def n_def [symmetric])
next
  case (3 a b)
  define n where "n = (of_char a * 65536 + of_char b * 256 :: nat)"
  have "n div 262144 < 64" "n div 65536 = of_char a" "n div 256 mod 256 = of_char b"
    using triple_bounds(1-3) [of "of_char a" "of_char b" 0] unfolding n_def by (simp_all only: add_0_right of_char_256)
  moreover have "n mod 64 = 0" by (simp add: n_def mod_add_eq [symmetric])
  moreover have "char_of (n div 256) = b" using calculation(3) by (metis char_of_mod_256 char_of_char)
  ultimately show ?case using quad_val(2) [of n] by (simp add: Let_def n_def [symmetric])
next
  case (4 a b c r)
  define n where "n = (of_char a * 65536 + of_char b * 256 + of_char c :: nat)"
  have "n div 262144 < 64" "n div 65536 = of_char a" "n div 256 mod 256 = of_char b" "n mod 256 = of_char c"
    using triple_bounds [of "of_char a" "of_char b" "of_char c"] unfolding n_def by (simp_all only: of_char_256)
  moreover have "char_of (n div 256) = b" "char_of n = c" using calculation(3,4) by (metis char_of_mod_256 char_of_char)+
  ultimately show ?case using quad_val(1) [of n] 4 by (simp add: Let_def n_def [symmetric])
qed simp

lemma raw_encode_no_newline: "filter (\<lambda>c. c \<noteq> CHR 0x0A \<and> c \<noteq> CHR 0x0D) (raw_encode s) = raw_encode s"
proof (induction s rule: raw_encode.induct)
  case (2 a)
  show ?case using triple_bounds(1) [of "of_char a" 0 0] by (simp add: Let_def b64_char_val)
next
  case (3 a b)
  show ?case using triple_bounds(1) [of "of_char a" "of_char b" 0] by (simp add: Let_def b64_char_val)
next
  case (4 a b c r)
  then show ?case using triple_bounds(1) [of "of_char a" "of_char b" "of_char c"] by (simp add: Let_def b64_char_val)
qed simp

lemma RawDecodeString_encode: "RawDecodeString (raw_encode s) = Some s"
  by (simp add: RawDecodeString_def raw_encode_no_newline raw_decode_encode)

section \<open>Instants with nanoseconds\<close>

fun fixed_digits :: "nat \<Rightarrow> nat \<Rightarrow> string" where
  "fixed_digits 0 n = []"
| "fixed_digits (Suc k) n = fixed_digits k (n div 10) @ [digit_char (n mod 10)]"

text \<open>The fraction \<open>.999999999\<close>: nine digits without trailing zeros, and no point when they are all zero.\<close>

definition frac9 :: "gotime \<Rightarrow> string" where
  "frac9 t =
     (let ds = rev (dropWhile (\<lambda>c. c = CHR ''0'') (rev (fixed_digits 9 (nat (t mod second)))))
      in if ds = [] then [] else CHR ''.'' # ds)"

text \<open>\<open>MarshalText\<close> fails for years beyond 9999.\<close>

definition MarshalText :: "gotime \<Rightarrow> string option" where
  "MarshalText t =
     (let s = secs_of t; r = s mod 86400 in
      if t < 0 \<or> days_through 9999 \<le> s div 86400 then None
      else Some (date_text (s div 86400) @ ''T'' @ pad2 (r div 3600) @ '':'' @ pad2 (r div 60 mod 60) @ '':'' @
             pad2 (r mod 60) @ frac9 t @ ''Z''))"

lemma length_fixed_digits [simp]: "length (fixed_digits k n) = k"
  by (induction k arbitrary: n) auto

lemma fixed_digits_digits: "list_all is_digit (fixed_digits k n)"
  by (induction k arbitrary: n) auto

lemma num_snoc: "num (s @ [c]) = 10 * num s + (of_char c - 48)"
  by (simp add: num_def)

lemma num_fixed_digits: "num (fixed_digits k n) = n mod 10 ^ k"
proof (induction k arbitrary: n)
  case (Suc k)
  have "n mod 10 ^ Suc k = 10 * (n div 10 mod 10 ^ k) + n mod 10"
    using mod_mult2_eq [of n 10 "10 ^ k"] by simp
  then show ?case using Suc by (simp add: num_snoc)
qed (simp add: num_def)

lemma trailing_zeros:
  fixes ds :: string
  defines "t \<equiv> rev (dropWhile (\<lambda>c. c = CHR ''0'') (rev ds))"
  assumes "length ds \<le> n"
  shows "take (length ds) (t @ replicate n CHR ''0'') = ds"
proof -
  define z where "z = takeWhile (\<lambda>c. c = CHR ''0'') (rev ds)"
  have "set z \<subseteq> {CHR ''0''}" by (auto simp: z_def dest: set_takeWhileD)
  then have z: "rev z = replicate (length z) CHR ''0''" by (metis length_rev replicate_eqI set_rev singletonD subsetD)
  have ds: "ds = t @ rev z" unfolding t_def z_def by (metis rev_append rev_rev_ident takeWhile_dropWhile_id)
  then have "length ds = length t + length z" "length z \<le> n" using assms(2) by simp_all
  then show ?thesis using z by (subst ds) simp
qed

lemma parse_frac9:
  assumes "t \<ge> 0"
  shows "parse_fraction (frac9 t @ ''Z'') = (nat (t mod second), ''Z'')"
proof -
  define ds where "ds = fixed_digits 9 (nat (t mod second))"
  define u where "u = rev (dropWhile (\<lambda>c. c = CHR ''0'') (rev ds))"
  have len: "length ds = 9" by (simp add: ds_def)
  have n: "num ds = nat (t mod second)"
    using num_fixed_digits [of 9] by (simp add: ds_def second_def nat_less_iff)
  have tk: "take 9 (u @ replicate 9 CHR ''0'') = ds" using trailing_zeros [of ds 9] len by (simp add: u_def)
  have dig: "list_all is_digit u"
    using fixed_digits_digits [of 9 "nat (t mod second)"] by (auto simp: u_def ds_def list_all_iff dest: set_dropWhileD)
  have "\<not> is_digit (CHR ''Z'')" by code_simp
  then have w: "takeWhile is_digit (u @ ''Z'') = u" "dropWhile is_digit (u @ ''Z'') = ''Z''"
    using dig by (simp_all add: list_all_iff takeWhile_append dropWhile_append)
  show ?thesis
  proof (cases "u = []")
    case True
    then have "num ds = 0" using tk [symmetric] by (simp add: num_def numeral_eq_Suc)
    moreover have "frac9 t = []" using True unfolding frac9_def Let_def ds_def [symmetric] u_def [symmetric] by simp
    ultimately show ?thesis using n by (simp add: parse_fraction_def)
  next
    case False
    have "frac9 t = CHR ''.'' # u" using False by (simp add: frac9_def ds_def [symmetric] u_def [symmetric] Let_def)
    then show ?thesis using w tk n False by (simp add: parse_fraction_def)
  qed
qed

lemma parse_MarshalText:
  assumes "MarshalText t = Some s"
  shows "parse_rfc3339 s = Some t"
proof -
  have t: "0 \<le> t" "secs_of t div 86400 < days_through 9999" using assms by (auto simp: MarshalText_def Let_def split: if_splits)
  obtain y m d where c: "civil (secs_of t div 86400) = (y, m, d)" by (metis prod.exhaust)
  define r where "r = secs_of t mod 86400"
  note v = civil_valid [OF c] civil_year [OF c t(2)] instant_parts [OF c r_def]
  have lay: "s = pad4 y @ ''-'' @ pad2 m @ ''-'' @ pad2 d @ ''T'' @ pad2 (r div 3600) @ '':'' @ pad2 (r div 60 mod 60) @ '':'' @
      pad2 (r mod 60) @ frac9 t @ ''Z''"
    using assms by (auto simp: MarshalText_def date_text_def c Let_def r_def split: if_splits)
  have "parse_rfc3339 s = Some (int (secs_of t) * second + int (nat (t mod second)))"
    unfolding lay
    using parse_parts_rest [of y m d "r div 3600" "r div 60 mod 60" "r mod 60" "frac9 t @ ''Z''"] v parse_frac9 [OF t(1)]
    by simp
  also have "int (secs_of t) * second + int (nat (t mod second)) = t"
    using t(1) by (simp add: secs_of_def second_def pos_imp_zdiv_nonneg_iff)
  finally show ?thesis .
qed

section \<open>The tag\<close>

definition expiry_tag :: "gotime \<Rightarrow> string option" where
  "expiry_tag t = map_option raw_encode (MarshalText t)"

definition tag_expiry :: "string \<Rightarrow> gotime option" where
  "tag_expiry tag = (case RawDecodeString tag of None \<Rightarrow> None | Some text \<Rightarrow> parse_rfc3339 text)"

lemma tag_expiry_tag: "expiry_tag t = Some tag \<Longrightarrow> tag_expiry tag = Some t"
  by (auto simp: expiry_tag_def tag_expiry_def RawDecodeString_encode parse_MarshalText)

interpretation expiry: text_codec "\<lambda>t. the (expiry_tag t)" tag_expiry "\<lambda>t. t" "\<lambda>t. t" "\<lambda>t. expiry_tag t \<noteq> None"
  by unfold_locales (auto simp: tag_expiry_tag)

end
