(* ===== verification/Rosa.thy ===== *)
theory Rosa
  imports TagCodec JobSync RandomNames GoDuration CommandParser
begin

text \<open>
  ROSA clusters: \<open>pkg/manager/rosa.go\<close>, \<open>rosaSync\<close>, \<open>CreateRosaCluster\<close> and the version tables of
  \<open>pkg/manager/manager.go\<close>, \<open>UpdateSecret\<close> of \<open>pkg/utils/utils.go\<close> and the \<open>rosa\<close> commands of \<open>pkg/slack/actions.go\<close>. The
  clusters and passwords are those of the record \<open>manager\<close>; the other ROSA fields are the record \<open>rosa\<close>. The OCM, AWS and
  Kubernetes clients and the \<open>rosa\<close> program are records of their answers.
\<close>

section \<open>State\<close>

record rosa =
  rs_pending :: int
  rs_limit :: int
  rs_versions :: "string list"
  rs_errorReported :: "string list"
  rs_maxAge :: duration
  rs_defaultAge :: duration
  rs_subnets :: "string list"
  rs_adminUsername :: string

datatype rosa_event =
    RosaRecordError string
  | RosaReady RosaCluster bool
  | RosaNotify RosaCluster string
  | RosaDelete string
  | RosaCleanup string
  | RosaSecret "(string, string) gomap"
  | RosaResync

datatype rosa_error =
    RosaListFailed | RosaSecretFailed string | RosaSecretConflict | RosaCleanupFailed "string list"
  | RosaMaxAge duration | RosaAlreadyRequested int | RosaLaunchRequested int | RosaLimitReached
  | RosaNameError | RosaNoVersion string | RosaBadVersion string | RosaNoRole string | RosaBadArn string
  | RosaRolesInvalid | RosaCredRequests | RosaOperatorVersion string | RosaNoRegion | RosaNoSubnets
  | RosaMissingSubnets nat nat | RosaBadExpiry | RosaNoCreator | RosaCreateFailed string
  | RosaRolesCommand | RosaOidcCommand | RosaIdp | RosaPassword | RosaAddUser | RosaAddIdp
  | RosaAuthToken | RosaAuthTimeout | RosaConsoleLookup | RosaConsoleTimeout

section \<open>Updating the secret\<close>

datatype secret_get = SecretData "(string, string) gomap" | SecretMissing | SecretError string
datatype secret_put = PutOk | PutConflict | PutError string

text \<open>
  \<open>UpdateSecret\<close>: \<open>replies i\<close> is what attempt \<open>i\<close> reads and what its write answers; the result is the data written.
\<close>

fun update_loop :: "(nat \<Rightarrow> secret_get \<times> secret_put) \<Rightarrow> ((string, string) gomap \<Rightarrow> (string, string) gomap) \<Rightarrow> nat \<Rightarrow> nat \<Rightarrow>
    (rosa_error, (string, string) gomap) result" where
  "update_loop replies fn 0 i = Inl RosaSecretConflict"
| "update_loop replies fn (Suc n) i =
     (case replies i of
        (SecretMissing, put) \<Rightarrow> (case put of PutOk \<Rightarrow> Inr (fn []) | PutConflict \<Rightarrow> Inl (RosaSecretFailed ''conflict'')
                                     | PutError e \<Rightarrow> Inl (RosaSecretFailed e))
      | (SecretError e, _) \<Rightarrow> Inl (RosaSecretFailed e)
      | (SecretData d, PutOk) \<Rightarrow> Inr (fn d)
      | (SecretData d, PutConflict) \<Rightarrow> update_loop replies fn n (i + 1)
      | (SecretData d, PutError e) \<Rightarrow> Inl (RosaSecretFailed e))"

definition UpdateSecret :: "(nat \<Rightarrow> secret_get \<times> secret_put) \<Rightarrow> ((string, string) gomap \<Rightarrow> (string, string) gomap) \<Rightarrow>
    (rosa_error, (string, string) gomap) result" where
  "UpdateSecret replies fn = update_loop replies fn 10 0"

section \<open>The sync\<close>

record rosa_api =
  ra_client :: bool
  ra_now :: gotime
  ra_all :: "RosaCluster list option"
  ra_get :: "string \<Rightarrow> RosaCluster option"
  ra_delete :: "string \<Rightarrow> bool"
  ra_secret :: secret_get
  ra_createSecret :: "string option"
  ra_deleteRoles :: "string \<Rightarrow> bool"
  ra_deleteOidc :: "string \<Rightarrow> bool"
  ra_update :: "nat \<Rightarrow> secret_get \<times> secret_put"

definition trimTagName :: "string \<Rightarrow> string" where
  "trimTagName tagName =
     (case str_index tagName ''.openshift.io'' of
        None \<Rightarrow> tagName
      | Some i \<Rightarrow> take i tagName @ drop (i + length ''.openshift.io'') tagName)"

definition launch_tag :: string where
  "launch_tag = trimTagName ''ci-chat-bot.openshift.io/launch''"

definition rosa_tag :: "RosaCluster \<Rightarrow> string \<Rightarrow> string" where
  "rosa_tag c k = (case ro_Tags c of None \<Rightarrow> [] | Some t \<Rightarrow> mget0 [] t k)"

definition bot_cluster :: "RosaCluster \<Rightarrow> bool" where
  "bot_cluster c \<longleftrightarrow> ro_Tags c \<noteq> None \<and> rosa_tag c launch_tag = ''true''"

definition markRosaErrorReported :: "string \<Rightarrow> rosa \<Rightarrow> rosa \<times> bool" where
  "markRosaErrorReported cid rs =
     (if cid \<in> set (rs_errorReported rs) then (rs, True)
      else (rs\<lparr>rs_errorReported := cid # rs_errorReported rs\<rparr>, False))"

definition deleteCluster :: "rosa_api \<Rightarrow> string \<Rightarrow> rosa_event list" where
  "deleteCluster api cid = RosaDelete cid # (if ra_delete api cid then [] else [RosaRecordError ''rosa_delete_cluster''])"

definition rosa_expired :: "gotime \<Rightarrow> RosaCluster \<Rightarrow> bool" where
  "rosa_expired now c \<longleftrightarrow> (case tag_expiry (rosa_tag c ''ci-chat-bot/expiry-time'') of None \<Rightarrow> False | Some t \<Rightarrow> t < now)"

definition expire_rosa :: "rosa_api \<Rightarrow> RosaCluster \<Rightarrow> RosaCluster \<times> rosa_event list" where
  "expire_rosa api c =
     (if rosa_expired (ra_now api) c
      then (case ra_get api (ro_ID c) of
              None \<Rightarrow> (c, deleteCluster api (ro_ID c) @ [RosaRecordError ''rosa_get_cluster''])
            | Some c' \<Rightarrow> (c', deleteCluster api (ro_ID c)))
      else (c, []))"

text \<open>The part of the loop of \<open>rosaSync\<close> on the state of a cluster; a ready cluster starts \<open>rosa_ready\<close> below.\<close>

definition rosa_state_change :: "manager \<Rightarrow> RosaCluster \<Rightarrow> rosa \<Rightarrow> rosa \<times> rosa_event list" where
  "rosa_state_change mg c rs =
     (let previous = mget (mg_rosaClusters mg) (ro_ID c);
          changed = (case previous of None \<Rightarrow> True | Some p \<Rightarrow> ro_State p \<noteq> ro_State c) in
      if ro_State c = ''ready'' \<and> changed then (rs, [RosaReady c (previous \<noteq> None)])
      else if ro_State c = ''error'' \<and> changed then
        (case markRosaErrorReported (ro_ID c) rs of
           (rs', reported) \<Rightarrow>
             (rs', (if previous \<noteq> None then [RosaRecordError ''rosa_cluster_error''] else []) @
                   (if reported then [] else [RosaNotify c []])))
      else (rs, []))"

fun rosa_loop :: "rosa_api \<Rightarrow> manager \<Rightarrow> RosaCluster list \<Rightarrow> rosa \<times> (string, RosaCluster) gomap \<times> rosa_event list \<Rightarrow>
    rosa \<times> (string, RosaCluster) gomap \<times> rosa_event list" where
  "rosa_loop api mg [] acc = acc"
| "rosa_loop api mg (c # cs) (rs, byID, evs) =
     (if \<not> bot_cluster c then rosa_loop api mg cs (rs, byID, evs)
      else let (rs', ev1) = rosa_state_change mg c rs; (c', ev2) = expire_rosa api c in
        rosa_loop api mg cs (rs', mput (ro_ID c') c' byID, evs @ ev1 @ ev2))"

definition removeAssociatedAWSResources :: "rosa_api \<Rightarrow> string \<Rightarrow> rosa_event list \<times> rosa_error option" where
  "removeAssociatedAWSResources api cid =
     (if \<not> ra_deleteRoles api cid then ([RosaCleanup cid, RosaRecordError ''rosa_cleanup''], Some RosaRolesCommand)
      else if \<not> ra_deleteOidc api cid then ([RosaCleanup cid, RosaRecordError ''rosa_cleanup''], Some RosaOidcCommand)
      else ([RosaCleanup cid], None))"

definition read_secret :: "rosa_api \<Rightarrow> (string, (string, string) gomap) result" where
  "read_secret api =
     (case ra_secret api of
        SecretData d \<Rightarrow> Inr d
      | SecretMissing \<Rightarrow> (case ra_createSecret api of None \<Rightarrow> Inr [] | Some e \<Rightarrow> Inl e)
      | SecretError e \<Rightarrow> Inl e)"

definition rosa_cleanup :: "rosa_api \<Rightarrow> string list \<Rightarrow> rosa_event list \<times> rosa_error option" where
  "rosa_cleanup api toDelete =
     (let evs = concat (map (\<lambda>i. fst (removeAssociatedAWSResources api i)) toDelete);
          deleted = filter (\<lambda>i. snd (removeAssociatedAWSResources api i) = None) toDelete;
          failed = filter (\<lambda>i. snd (removeAssociatedAWSResources api i) \<noteq> None) toDelete;
          cleanupError = (if failed = [] then None else Some (RosaCleanupFailed failed)) in
      if deleted = [] then (evs, cleanupError)
      else (case UpdateSecret (ra_update api) (fold mdel deleted) of
              Inl e \<Rightarrow> (evs @ [RosaRecordError ''rosa_update_secret''], Some e)
            | Inr d \<Rightarrow> (evs @ [RosaSecret d], cleanupError)))"

definition rosaSync :: "rosa_api \<Rightarrow> manager \<Rightarrow> rosa \<Rightarrow> manager \<times> rosa \<times> rosa_event list \<times> rosa_error option" where
  "rosaSync api mg rs =
     (if \<not> ra_client api then (mg, rs, [], None)
      else (case ra_all api of
              None \<Rightarrow> (mg, rs, [RosaRecordError ''rosa_get_clusters''], Some RosaListFailed)
            | Some clusterList \<Rightarrow>
                let (rs1, byID, ev1) = rosa_loop api mg clusterList (rs, [], []);
                    rs2 = rs1\<lparr>rs_errorReported := filter (mhas byID) (rs_errorReported rs1)\<rparr> in
                (case read_secret api of
                   Inl e \<Rightarrow> (mg, rs2, ev1 @ [RosaRecordError ''rosa_get_secret''], Some (RosaSecretFailed e))
                 | Inr active \<Rightarrow>
                     let mg' = mg\<lparr>mg_rosaClusters := byID,
                                  mg_rosaPasswords := filter (\<lambda>(i, _). mhas byID i) active\<rparr>;
                         (ev2, err) = rosa_cleanup api (filter (\<lambda>i. \<not> mhas byID i) (mkeys active)) in
                     (mg', rs2, ev1 @ ev2, err))))"

section \<open>Versions\<close>

definition lookupRosaVersions :: "rosa \<Rightarrow> string \<Rightarrow> string list" where
  "lookupRosaVersions rs pre = filter (\<lambda>v. has_prefix v pre) (rs_versions rs)"

definition getSupportedRosaVersions :: "rosa \<Rightarrow> string" where
  "getSupportedRosaVersions rs = join '', '' (rev (sort (rs_versions rs)))"

datatype lookup_reply = NoVersionFound string | VersionsSupported "string list" | VersionsFound string "string list"

definition LookupRosaInputs :: "rosa \<Rightarrow> string \<Rightarrow> lookup_reply" where
  "LookupRosaInputs rs versionPrefix =
     (let matched = lookupRosaVersions rs versionPrefix in
      if matched = [] then NoVersionFound versionPrefix
      else if versionPrefix = [] then VersionsSupported matched else VersionsFound versionPrefix matched)"

text \<open>
  \<open>updateRosaVersions\<close>: each version with its raw ID, whether STS is supported, and whether hosted control planes are
  (an error of that check is \<open>None\<close>).
\<close>

fun version_loop :: "(string \<times> bool \<times> bool option) list \<Rightarrow> string list \<Rightarrow> string list option" where
  "version_loop [] acc = Some acc"
| "version_loop ((raw, sts, hosted) # vs) acc =
     (if \<not> sts then version_loop vs acc
      else (case hosted of
              None \<Rightarrow> None
            | Some False \<Rightarrow> version_loop vs acc
            | Some True \<Rightarrow> version_loop vs (if raw \<in> set acc then acc else acc @ [raw])))"

definition updateRosaVersions :: "bool \<Rightarrow> (string \<times> bool \<times> bool option) list option \<Rightarrow> rosa \<Rightarrow> rosa \<times> bool" where
  "updateRosaVersions client vs rs =
     (if \<not> client then (rs, True)
      else case vs of
        None \<Rightarrow> (rs, False)
      | Some l \<Rightarrow> (case version_loop l [] of
                     None \<Rightarrow> (rs, False)
                   | Some [] \<Rightarrow> (rs, False)
                   | Some versions \<Rightarrow> (rs\<lparr>rs_versions := versions\<rparr>, True)))"

section \<open>Creating a cluster\<close>

record RosaSpec =
  rp_Name :: string
  rp_Region :: string
  rp_Version :: string
  rp_RoleARN :: string
  rp_SupportRoleARN :: string
  rp_ControlPlaneRoleARN :: string
  rp_WorkerRoleARN :: string
  rp_OperatorIAMRoles :: "(string \<times> string \<times> string) list"
  rp_SubnetIds :: "string list"
  rp_AvailabilityZones :: "string list"
  rp_ComputeNodes :: nat
  rp_Tags :: "(string, string) gomap"

text \<open>
  The answers of OCM, AWS and the \<open>rosa\<close> program during a creation. \<open>rc_roles\<close> are the account roles of the \<open>rosa\<close> library by type,
  with their names; credential requests have a name, a namespace and the least version they need.
\<close>

record rosa_creator =
  rc_now :: gotime
  rc_random :: random_source
  rc_validate :: "string \<Rightarrow> string list \<Rightarrow> string option"
  rc_minor :: "string \<Rightarrow> string"
  rc_roles :: "(string \<times> string) list"
  rc_findRoles :: "string \<Rightarrow> string \<Rightarrow> string list option"
  rc_resourceId :: "string \<Rightarrow> string option"
  rc_validRoles :: "string list \<Rightarrow> string \<Rightarrow> bool"
  rc_credRequests :: "(string \<times> string \<times> string) list option"
  rc_supported :: "string \<Rightarrow> string \<Rightarrow> bool option"
  rc_operatorArn :: "string \<Rightarrow> string \<Rightarrow> string \<Rightarrow> string \<Rightarrow> string"
  rc_region :: "string option"
  rc_subnets :: "(string \<times> string) list option"
  rc_hasCreator :: bool
  rc_create :: "RosaSpec \<Rightarrow> (string, RosaCluster) result"
  rc_update :: "nat \<Rightarrow> secret_get \<times> secret_put"
  rc_addRoles :: "string \<Rightarrow> bool"
  rc_addOidc :: "string \<Rightarrow> bool"

definition default_role :: "string \<Rightarrow> string" where
  "default_role name = ''ManagedOpenShift-'' @ name @ ''-Role''"

text \<open>The installer role: the last one with the default prefix, or else the first.\<close>

definition installer_arn :: "rosa_creator \<Rightarrow> string \<Rightarrow> (rosa_error, string) result" where
  "installer_arn api minor =
     (let name = mget0 [] (rc_roles api) ''installer'' in
      case rc_findRoles api ''installer'' minor of
        None \<Rightarrow> Inl (RosaNoRole name)
      | Some [] \<Rightarrow> Inl (RosaNoRole name)
      | Some (arn # arns) \<Rightarrow> Inr (fold (\<lambda>a r. if contains a (default_role name) then a else r) (arn # arns) arn))"

fun select_arn :: "(string \<Rightarrow> string option) \<Rightarrow> string \<Rightarrow> string list \<Rightarrow> (rosa_error, string) result" where
  "select_arn resourceId expected [] = Inr []"
| "select_arn resourceId expected (arn # arns) =
     (case resourceId arn of
        None \<Rightarrow> Inl (RosaBadArn arn)
      | Some r \<Rightarrow> if to_lower r = expected then Inr arn else select_arn resourceId expected arns)"

text \<open>The loop over the other account roles: the support and worker roles.\<close>

primrec role_loop :: "rosa_creator \<Rightarrow> string \<Rightarrow> (string \<times> string) list \<Rightarrow> string \<times> string \<Rightarrow> (rosa_error, string \<times> string) result" where
  "role_loop api minor [] arns = Inr arns"
| "role_loop api minor (role # rest) arns =
     (let ty = fst role; name = snd role in
      if ty = ''installer'' \<or> ty = ''instance_controlplane'' then role_loop api minor rest arns
      else (case rc_findRoles api ty minor of
              None \<Rightarrow> Inl (RosaNoRole name)
            | Some found \<Rightarrow>
                (case select_arn (rc_resourceId api) (to_lower (default_role name)) found of
                   Inl e \<Rightarrow> Inl e
                 | Inr arn \<Rightarrow>
                     if arn = [] then Inl (RosaNoRole name)
                     else role_loop api minor rest
                       (if ty = ''support'' then (arn, snd arns) else if ty = ''instance_worker'' then (fst arns, arn) else arns))))"

text \<open>A credential request whose least version the cluster does not have is skipped.\<close>

definition operator_supported :: "rosa_creator \<Rightarrow> string \<Rightarrow> string \<times> string \<times> string \<Rightarrow> bool option" where
  "operator_supported api minor cred =
     (if snd (snd cred) = [] then Some True else rc_supported api minor (snd (snd cred)))"

primrec operator_roles :: "rosa_creator \<Rightarrow> string \<Rightarrow> string \<Rightarrow> string \<Rightarrow> (string \<times> string \<times> string) list \<Rightarrow>
    (rosa_error, (string \<times> string \<times> string) list) result" where
  "operator_roles api clusterName minor roleARN [] = Inr []"
| "operator_roles api clusterName minor roleARN (cred # rest) =
     (case operator_supported api minor cred of
        None \<Rightarrow> Inl (RosaOperatorVersion (fst cred))
      | Some supported \<Rightarrow>
          if \<not> supported then operator_roles api clusterName minor roleARN rest
          else rbind (operator_roles api clusterName minor roleARN rest) (\<lambda>l.
            Inr ((fst cred, fst (snd cred), rc_operatorArn api clusterName (fst cred) (fst (snd cred)) roleARN) # l)))"

definition used_subnets :: "rosa_creator \<Rightarrow> rosa \<Rightarrow> (rosa_error, string list) result" where
  "used_subnets api rs =
     (case rc_subnets api of
        None \<Rightarrow> Inl RosaNoSubnets
      | Some subnets \<Rightarrow>
          let found = filter (\<lambda>(i, _). i \<in> set (rs_subnets rs)) subnets in
          if length found \<noteq> length (rs_subnets rs) then Inl (RosaMissingSubnets (length found) (length (rs_subnets rs)))
          else Inr (remdups (map snd found)))"

definition need :: "rosa_error \<Rightarrow> 'a option \<Rightarrow> (rosa_error, 'a) result" where
  "need e x = (case x of None \<Rightarrow> Inl e | Some v \<Rightarrow> Inr v)"

definition check :: "rosa_error \<Rightarrow> bool \<Rightarrow> (rosa_error, unit) result" where
  "check e b = (if b then Inr () else Inl e)"

definition rosa_version :: "rosa_creator \<Rightarrow> rosa \<Rightarrow> string \<Rightarrow> (rosa_error, string) result" where
  "rosa_version api rs providedVersion =
     (case lookupRosaVersions rs providedVersion of
        [] \<Rightarrow> Inl (RosaNoVersion (getSupportedRosaVersions rs))
      | rawVersion # _ \<Rightarrow> need (RosaBadVersion rawVersion) (rc_validate api rawVersion (rs_versions rs)))"

text \<open>
  The specification of a new cluster, with the checks in the order of the source. The error metrics of this part
  are left out, and so are the fields that are constants or copied from the defaults of OCM.
\<close>

definition rosa_spec :: "rosa_creator \<Rightarrow> rosa \<Rightarrow> string \<Rightarrow> string \<Rightarrow> string \<Rightarrow> duration \<Rightarrow> (rosa_error, RosaSpec) result" where
  "rosa_spec api rs providedVersion slackID slackChannel duration =
     rbind (need RosaNameError (generateRandomString (rc_random api) 15 True)) (\<lambda>clusterName.
     rbind (rosa_version api rs providedVersion) (\<lambda>version.
     rbind (installer_arn api (rc_minor api version)) (\<lambda>roleARN.
     rbind (role_loop api (rc_minor api version) (rc_roles api) ([], [])) (\<lambda>(support, worker).
     rbind (check RosaRolesInvalid (rc_validRoles api [roleARN, support, [], worker] version)) (\<lambda>_.
     rbind (need RosaCredRequests (rc_credRequests api)) (\<lambda>creds.
     rbind (operator_roles api clusterName (rc_minor api version) roleARN creds) (\<lambda>operators.
     rbind (need RosaNoRegion (rc_region api)) (\<lambda>region.
     rbind (used_subnets api rs) (\<lambda>zones.
     rbind (need RosaBadExpiry (expiry_tag (rc_now api + (if duration = 0 then rs_defaultAge rs else duration)))) (\<lambda>tag.
     rbind (check RosaNoCreator (rc_hasCreator api)) (\<lambda>_.
       Inr \<lparr>rp_Name = clusterName, rp_Region = region, rp_Version = version, rp_RoleARN = roleARN,
         rp_SupportRoleARN = support, rp_ControlPlaneRoleARN = [], rp_WorkerRoleARN = worker,
         rp_OperatorIAMRoles = operators, rp_SubnetIds = rs_subnets rs, rp_AvailabilityZones = zones,
         rp_ComputeNodes = 2,
         rp_Tags = [(launch_tag, ''true''), (''ci-chat-bot/user'', slackID), (''ci-chat-bot/channel'', slackChannel),
           (''ci-chat-bot/expiry-time'', tag)]\<rparr>)))))))))))"

text \<open>The critical section after the creation: the cluster is added unless a sync already has.\<close>

definition add_rosa :: "RosaCluster \<Rightarrow> manager \<Rightarrow> manager" where
  "add_rosa c mg =
     (if mhas (mg_rosaClusters mg) (ro_ID c) then mg
      else mg\<lparr>mg_rosaClusters := mput (ro_ID c) c (mg_rosaClusters mg)\<rparr>)"

definition createRosaCluster :: "rosa_creator \<Rightarrow> manager \<Rightarrow> rosa \<Rightarrow> string \<Rightarrow> string \<Rightarrow> string \<Rightarrow> duration \<Rightarrow>
    manager \<times> rosa_event list \<times> (rosa_error, RosaCluster \<times> string) result" where
  "createRosaCluster api mg rs providedVersion slackID slackChannel duration =
     (case rosa_spec api rs providedVersion slackID slackChannel duration of
        Inl e \<Rightarrow> (mg, [], Inl e)
      | Inr spec \<Rightarrow>
          (case rc_create api spec of
             Inl e \<Rightarrow> (mg, [RosaRecordError ''rosa_create_cluster''], Inl (RosaCreateFailed e))
           | Inr c \<Rightarrow>
               let mg' = add_rosa c mg in
               (case UpdateSecret (rc_update api) (mput (ro_ID c) []) of
                  Inl e \<Rightarrow> (mg', [RosaRecordError ''rosa_update_secret''], Inl e)
                | Inr d \<Rightarrow>
                    if \<not> rc_addRoles api (ro_ID c) then (mg', [RosaSecret d, RosaRecordError ''rosa_add_roles''], Inl RosaRolesCommand)
                    else if \<not> rc_addOidc api (ro_ID c) then (mg', [RosaSecret d, RosaRecordError ''rosa_add_roles''], Inl RosaOidcCommand)
                    else (mg', [RosaSecret d, RosaResync], Inr (c, rp_Version spec)))))"

text \<open>The guards of \<open>CreateRosaCluster\<close> up to the reservation of a place, and its deferred release.\<close>

definition rosa_begin :: "gotime \<Rightarrow> manager \<Rightarrow> string \<Rightarrow> duration \<Rightarrow> rosa \<Rightarrow> (rosa_error, rosa) result" where
  "rosa_begin now mg user duration rs =
     (if rs_maxAge rs < duration then Inl (RosaMaxAge (rs_maxAge rs))
      else (case getROSAClusterForUser mg user of
              Some (c, _) \<Rightarrow> Inl (RosaAlreadyRequested (tdiv (now - ro_CreationTimestamp c) minute))
            | None \<Rightarrow>
                (case mget (mg_requests mg) user of
                   Some existing \<Rightarrow>
                     Inl (RosaLaunchRequested (tdiv (estimateCompletion (mg_estimates mg) now (rq_RequestedAt existing)) minute))
                 | None \<Rightarrow>
                     if rs_limit rs \<noteq> 0 \<and> rs_limit rs \<le> int (length (mg_rosaClusters mg)) + rs_pending rs
                     then Inl RosaLimitReached
                     else Inr (rs\<lparr>rs_pending := rs_pending rs + 1\<rparr>))))"

definition rosa_end :: "rosa \<Rightarrow> rosa" where
  "rosa_end rs = rs\<lparr>rs_pending := rs_pending rs - 1\<rparr>"

definition CreateRosaCluster :: "rosa_creator \<Rightarrow> string \<Rightarrow> string \<Rightarrow> string \<Rightarrow> duration \<Rightarrow> manager \<Rightarrow> rosa \<Rightarrow>
    manager \<times> rosa \<times> rosa_event list \<times> (rosa_error, string \<times> string) result" where
  "CreateRosaCluster api user channel version duration mg rs =
     (case rosa_begin (rc_now api) mg user duration rs of
        Inl e \<Rightarrow> (mg, rs, [], Inl e)
      | Inr rs1 \<Rightarrow>
          (case createRosaCluster api mg rs1 version user channel duration of
             (mg', evs, Inl e) \<Rightarrow> (mg', rosa_end rs1, evs, Inl e)
           | (mg', evs, Inr (c, v)) \<Rightarrow> (mg', rosa_end rs1, evs, Inr (ro_Name c, v))))"

section \<open>Authentication of a ready cluster\<close>

datatype token_reply = TokenOk | TokenRetry | TokenError

text \<open>\<open>au_idps\<close> are the types of the identity providers; \<open>au_tokens\<close> and \<open>au_consoles\<close> the answers of the polls in order.\<close>

record rosa_auth =
  au_idps :: "string list option"
  au_random :: random_source
  au_buildUser :: bool
  au_createUser :: bool
  au_buildIdp :: bool
  au_createIdp :: bool
  au_update :: "nat \<Rightarrow> secret_get \<times> secret_put"
  au_tokens :: "token_reply list"
  au_secret :: "(string, string) gomap"
  au_consoles :: "bool option list"
  au_updated :: "RosaCluster option"

definition addClusterAuth :: "rosa_auth \<Rightarrow> string \<Rightarrow> manager \<Rightarrow> manager \<times> rosa_event list \<times> (rosa_error, string option) result" where
  "addClusterAuth api clusterID mg =
     (case au_idps api of
        None \<Rightarrow> (mg, [], Inl RosaIdp)
      | Some idps \<Rightarrow>
          if ''HTPasswd'' \<in> set idps then (mg, [], Inr None)
          else (case generateRandomString (au_random api) 23 False of
                  None \<Rightarrow> (mg, [], Inl RosaPassword)
                | Some password \<Rightarrow>
                    if \<not> au_buildUser api then (mg, [RosaRecordError ''rosa_get_idp''], Inl RosaAddUser)
                    else if \<not> au_createUser api then (mg, [RosaRecordError ''rosa_create_user''], Inl RosaAddUser)
                    else if \<not> au_buildIdp api then (mg, [RosaRecordError ''rosa_build_idp''], Inl RosaAddIdp)
                    else if \<not> au_createIdp api then (mg, [RosaRecordError ''rosa_create_idp''], Inl RosaAddIdp)
                    else (case UpdateSecret (au_update api) (mput clusterID password) of
                            Inl e \<Rightarrow> (mg, [RosaRecordError ''rosa_update_secret''], Inl e)
                          | Inr d \<Rightarrow> (mg\<lparr>mg_rosaPasswords := mput clusterID password (mg_rosaPasswords mg)\<rparr>,
                              [RosaSecret d], Inr (Some password)))))"

fun wait_token :: "nat \<Rightarrow> token_reply list \<Rightarrow> (rosa_error, unit) result" where
  "wait_token (Suc n) (TokenOk # rs) = Inr ()"
| "wait_token (Suc n) (TokenRetry # rs) = wait_token n rs"
| "wait_token (Suc n) (TokenError # rs) = Inl RosaAuthToken"
| "wait_token _ _ = Inl RosaAuthTimeout"

text \<open>Whether the cluster already had authentication, and the error.\<close>

definition addClusterAuthAndWait :: "rosa_auth \<Rightarrow> RosaCluster \<Rightarrow> manager \<Rightarrow> manager \<times> rosa_event list \<times> bool \<times> rosa_error option" where
  "addClusterAuthAndWait api c mg =
     (case addClusterAuth api (ro_ID c) mg of
        (mg', ev, Inl e) \<Rightarrow> (mg', ev, False, Some e)
      | (mg', ev, Inr None) \<Rightarrow> (mg', ev, True, None)
      | (mg', ev, Inr (Some _)) \<Rightarrow>
          (case wait_token 10 (au_tokens api) of
             Inl e \<Rightarrow> (mg', ev @ [RosaRecordError ''rosa_add_auth''], False, Some e)
           | Inr _ \<Rightarrow> (mg', ev, False, None)))"

fun waitForConsole :: "nat \<Rightarrow> bool option list \<Rightarrow> (rosa_error, unit) result" where
  "waitForConsole (Suc n) (Some True # rs) = Inr ()"
| "waitForConsole (Suc n) (Some False # rs) = waitForConsole n rs"
| "waitForConsole (Suc n) (None # rs) = Inl RosaConsoleLookup"
| "waitForConsole _ _ = Inl RosaConsoleTimeout"

text \<open>The goroutine that \<open>rosaSync\<close> starts for a cluster that became ready.\<close>

definition rosa_ready :: "rosa_auth \<Rightarrow> RosaCluster \<Rightarrow> manager \<Rightarrow> manager \<times> rosa_event list" where
  "rosa_ready api c mg =
     (case addClusterAuthAndWait api c mg of
        (mg', ev, True, _) \<Rightarrow> (mg', ev)
      | (mg', ev, False, _) \<Rightarrow>
          let password = mget0 [] (au_secret api) (ro_ID c);
              console = (case waitForConsole 20 (au_consoles api) of
                           Inl RosaConsoleLookup \<Rightarrow> [RosaRecordError ''rosa_get_cluster'']
                         | Inl _ \<Rightarrow> [RosaRecordError ''rosa_console_ready''] | Inr _ \<Rightarrow> []) in
          (mg', ev @ [RosaNotify c password] @ console @
            (case au_updated api of
               None \<Rightarrow> [RosaRecordError ''rosa_get_cluster'', RosaNotify c password]
             | Some c' \<Rightarrow> [RosaNotify c' (mget0 [] (au_secret api) (ro_ID c'))]) @ [RosaResync]))"

section \<open>The commands\<close>

datatype rosa_reply =
    RosaBadArgument | RosaOneVersion | RosaBadDuration
  | RosaCreated "(rosa_error, string \<times> string) result" | RosaVersions lookup_reply

definition RosaCreate :: "rosa_creator \<Rightarrow> string \<Rightarrow> string \<Rightarrow> (string, string) gomap \<Rightarrow> manager \<Rightarrow> rosa \<Rightarrow>
    manager \<times> rosa \<times> rosa_event list \<times> rosa_reply" where
  "RosaCreate api user channel properties mg rs =
     (case ParseImageInput (StringParam ''version'' [] properties) of
        None \<Rightarrow> (mg, rs, [], RosaBadArgument)
      | Some from \<Rightarrow>
          if 1 < length from then (mg, rs, [], RosaOneVersion)
          else let version = (case from of [] \<Rightarrow> [] | v # _ \<Rightarrow> v) in
            (case ParseImageInput (StringParam ''duration'' [] properties) of
               None \<Rightarrow> (mg, rs, [], RosaBadArgument)
             | Some raw \<Rightarrow>
                 (case (case raw of [] \<Rightarrow> Some 0 | d # _ \<Rightarrow> ParseDuration d) of
                    None \<Rightarrow> (mg, rs, [], RosaBadDuration)
                  | Some d \<Rightarrow> (case CreateRosaCluster api user channel version d mg rs of
                                 (mg', rs', evs, r) \<Rightarrow> (mg', rs', evs, RosaCreated r)))))"

definition RosaLookup :: "rosa \<Rightarrow> (string, string) gomap \<Rightarrow> rosa_reply" where
  "RosaLookup rs properties =
     (case ParseImageInput (StringParam ''version'' [] properties) of
        None \<Rightarrow> RosaBadArgument
      | Some from \<Rightarrow>
          if 1 < length from then RosaOneVersion
          else RosaVersions (LookupRosaInputs rs (case from of [] \<Rightarrow> [] | v # _ \<Rightarrow> v)))"

definition getROSAClusterByName :: "manager \<Rightarrow> string \<Rightarrow> RosaCluster option" where
  "getROSAClusterByName mg name =
     find (\<lambda>c. ro_State c \<noteq> ''uninstalling'' \<and> ro_Name c = name) (mvals (mg_rosaClusters mg))"

end
