(* ===== verification/Notify.thy ===== *)
theory Notify
  imports Actions MceOps Rosa
begin

text \<open>
  What users are told: the notifications of \<open>pkg/slack/slack.go\<close> (\<open>NotifyJob\<close>, \<open>NotifyMce\<close>, \<open>NotifyRosa\<close>, \<open>SendKubeConfig\<close>)
  and the listing of \<open>ListJobs\<close> in \<open>pkg/manager/manager.go\<close>. A notification returns the calls to the Slack client it makes and its
  texts. Shown are who can receive credentials and what the listing reveals.
\<close>

section \<open>Calls to Slack\<close>

datatype slack_call =
    PostMessage string string
  | UploadFile string string string string

record slack_client =
  sc_post :: "string \<Rightarrow> string \<Rightarrow> bool"
  sc_upload :: "string \<Rightarrow> string \<Rightarrow> string \<Rightarrow> string \<Rightarrow> string option"

definition SendKubeConfig :: "slack_client \<Rightarrow> string \<Rightarrow> string \<Rightarrow> string \<Rightarrow> string \<Rightarrow> slack_call list \<times> string" where
  "SendKubeConfig client channel contents comment ident =
     (if contents = [] then ([], [])
      else let filename = ''cluster-bot-'' @ ident @ ''.kubeconfig'' in
        ([UploadFile channel filename contents comment],
         case sc_upload client channel filename contents comment of None \<Rightarrow> [] | Some fid \<Rightarrow> fid))"

definition postMessageToChannel :: "slack_client \<Rightarrow> string \<Rightarrow> string \<Rightarrow> bool \<Rightarrow> slack_call list \<times> bool" where
  "postMessageToChannel client channel message postMessage =
     (if \<not> postMessage then ([], True) else ([PostMessage channel message], sc_post client channel message))"

text \<open>The layout \<open>2006-01-02-150405\<close>, and the number of whole minutes of a duration.\<close>

definition file_stamp :: "gotime \<Rightarrow> string" where
  "file_stamp t =
     (let s = secs_of t; r = s mod 86400 in
      date_text (s div 86400) @ ''-'' @ pad2 (r div 3600) @ pad2 (r div 60 mod 60) @ pad2 (r mod 60))"

definition minutes :: "duration \<Rightarrow> string" where
  "minutes d = show_int (tdiv d minute)"

section \<open>Jobs\<close>

text \<open>A message, or a message with the kubeconfig.\<close>

datatype notice_text = Message string | WithKubeconfig string string

definition launch_notice :: "gotime \<Rightarrow> Job \<Rightarrow> notice_text" where
  "launch_notice now job =
     (if jb_Failure job \<noteq> [] \<and> jb_URL job \<noteq> []
      then Message (''your cluster failed to launch: '' @ jb_Failure job @ '' (<'' @ jb_URL job @ ''|logs>)'')
      else if jb_Failure job \<noteq> [] then Message (''your cluster failed to launch: '' @ jb_Failure job)
      else if jb_Credentials job = [] \<and> jb_URL job \<noteq> []
      then Message (''cluster is still starting (launched '' @ minutes (now - jb_RequestedAt job) @ '' minutes ago, <'' @ jb_URL job @ ''|logs>)'')
      else if jb_Credentials job = []
      then Message (''cluster is still starting (launched '' @ minutes (now - jb_RequestedAt job) @ '' minutes ago)'')
      else WithKubeconfig
        (''Your cluster is ready, it will be shut down automatically in ~'' @ minutes (jb_ExpiresAt job - now) @ '' minutes.'' @
         (if jb_CredentialsSnippet job \<noteq> [] then newline @ jb_CredentialsSnippet job else []))
        (jb_Credentials job))"

definition test_failed :: "Job \<Rightarrow> bool" where
  "test_failed job \<longleftrightarrow> jb_State job \<in> {FailureState, AbortedState, ErrorState} \<or> jb_State job = SuccessState \<and> jb_CatalogError job"

definition running_notice :: "gotime \<Rightarrow> Job \<Rightarrow> notice_text" where
  "running_notice now job =
     (if jb_Credentials job = [] \<and> jb_URL job \<noteq> []
      then Message (if jb_OriginalMessage job \<noteq> [] then ''job <'' @ jb_URL job @ ''|'' @ jb_OriginalMessage job @ ''> is running''
                    else ''job is running, see '' @ jb_URL job @ '' for details'')
      else if jb_Credentials job = [] then Message (''job is running (launched '' @ minutes (now - jb_RequestedAt job) @ '' minutes ago)'')
      else WithKubeconfig
        (''Your job has started a cluster, it will be shut down when the test ends.'' @
         (if jb_URL job \<noteq> [] then '' See '' @ jb_URL job @ '' for details.'' else []) @
         (if jb_CredentialsSnippet job \<noteq> [] then newline @ jb_CredentialsSnippet job else []))
        (jb_Credentials job))"

definition test_notice :: "gotime \<Rightarrow> Job \<Rightarrow> notice_text" where
  "test_notice now job =
     (let incomplete = (jb_Mode job = JobTypeCatalog \<and> \<not> jb_CatalogComplete job);
          link = ''job <'' @ jb_URL job @ '' | '' @ jb_OriginalMessage job @ ''> '' in
      if \<not> incomplete \<and> jb_URL job \<noteq> [] \<and> test_failed job then Message (link @ ''failed'')
      else if \<not> incomplete \<and> jb_URL job \<noteq> [] \<and> jb_State job = SuccessState then Message (link @ ''succeeded'')
      else if \<not> incomplete \<and> jb_URL job = [] \<and> test_failed job
      then Message (''job '' @ jb_OriginalMessage job @ '' failed, but no details could be retrieved'')
      else if \<not> incomplete \<and> jb_URL job = [] \<and> jb_State job = SuccessState
      then Message (''job '' @ jb_OriginalMessage job @ '' succeded, but no details could be retrieved'')
      else running_notice now job)"

definition NotifyJob :: "slack_client \<Rightarrow> gotime \<Rightarrow> Job \<Rightarrow> bool \<Rightarrow> slack_call list \<times> string \<times> string" where
  "NotifyJob client now job postMessage =
     (case (if launch_mode (jb_Mode job) then launch_notice now job else test_notice now job) of
        Message msg \<Rightarrow> (if postMessage then [PostMessage (jb_RequestedChannel job) msg] else [], msg, [])
      | WithKubeconfig msg kubeconfig \<Rightarrow>
          (if postMessage then fst (SendKubeConfig client (jb_RequestedChannel job) kubeconfig msg (file_stamp (jb_RequestedAt job))) else [],
           msg, kubeconfig))"

section \<open>Managed clusters\<close>

text \<open>
  Fields of the hub's objects that the caches of the model leave out: the address of the console and of the API server of a
  deployment, the reason and message of its failed condition, and those of the failed condition of a provision (empty when there is none).
\<close>

record hub_status =
  hs_console :: "ClusterDeployment \<Rightarrow> string"
  hs_api :: "ClusterDeployment \<Rightarrow> string"
  hs_failure :: "ClusterDeployment \<Rightarrow> string \<times> string"
  hs_provisionFailure :: "ClusterProvision \<Rightarrow> string \<times> string"

definition provision_text :: "MceCluster \<Rightarrow> string \<Rightarrow> string \<times> string \<Rightarrow> string" where
  "provision_text cluster gap rm =
     ''your cluster (name: `'' @ mc_Name cluster @ ''`) has failed to provision. Reason for failure is: `'' @ fst rm @ ''`.'' @ gap @
     ''Error message is:'' @ newline @ ''```'' @ snd rm @ ''```''"

definition oc_login :: "string \<Rightarrow> string \<Rightarrow> string \<Rightarrow> string" where
  "oc_login api user password =
     newline @ newline @ ''Log in to the console with user `'' @ user @ ''` and password `'' @ password @ ''`.'' @ newline @
     ''To use the `oc` command, log in by running `oc login '' @ api @ '' --username '' @ user @ '' --password '' @ password @ ''`.''"

definition ready_text :: "hub_status \<Rightarrow> gotime \<Rightarrow> MceCluster \<Rightarrow> ClusterDeployment \<Rightarrow> string \<Rightarrow> string" where
  "ready_text hs now cluster deployment password =
     ''your cluster (name: `'' @ mc_Name cluster @ ''`) is ready'' @
     (case parse_rfc3339 (mget0 [] (mc_Annotations cluster) ExpiryTimeTag) of
        None \<Rightarrow> ''.''
      | Some expiry \<Rightarrow> '', it will be shut down automatically in ~'' @ minutes (expiry - now) @ '' minutes.'') @
     newline @ hs_console hs deployment @ oc_login (hs_api hs deployment) ''kubeadmin'' password"

definition NotifyMce :: "slack_client \<Rightarrow> hub_status \<Rightarrow> gotime \<Rightarrow> MceCluster \<Rightarrow> ClusterDeployment option \<Rightarrow> ClusterProvision option \<Rightarrow>
    string \<Rightarrow> string \<Rightarrow> bool \<Rightarrow> string option \<Rightarrow> slack_call list \<times> string \<times> string \<times> bool" where
  "NotifyMce client hs now cluster deployment provision kubeconfig password postMessage errMsg =
     (let channel = mget0 [] (mc_Annotations cluster) ChannelTag;
          say = (\<lambda>msg. case postMessageToChannel client channel msg postMessage of (calls, ok) \<Rightarrow> (calls, msg, [], ok)) in
      case errMsg of
        Some e \<Rightarrow> say (''Creation of your cluster has failed with the following message: ```'' @ e @ ''```'' @ newline @
                     ''Existing cluster resources will be deleted.'')
      | None \<Rightarrow>
          (case (if map_option cp_Stage provision = Some ''failed'' then provision else None) of
             Some p \<Rightarrow>
               let message = provision_text cluster '' '' (hs_provisionFailure hs p) in
               (case cp_InstallLog p of
                  None \<Rightarrow> say message
                | Some log \<Rightarrow>
                    if \<not> postMessage then say message
                    else let filename = mc_Name cluster @ ''-error.txt'' in
                      ([UploadFile channel filename log message], message, [], sc_upload client channel filename log message \<noteq> None))
           | None \<Rightarrow>
               if deploymentProvisionFailed deployment then say (provision_text cluster ''  '' (hs_failure hs (the deployment)))
               else if cluster_available cluster then
                 (case deployment of
                    None \<Rightarrow> say (''your cluster (name: `'' @ mc_Name cluster @ ''`) is ready, but its credentials are not available yet; try `mce auth` again in a minute'')
                  | Some d \<Rightarrow>
                      if kubeconfig = [] \<or> password = []
                      then say (''your cluster (name: `'' @ mc_Name cluster @ ''`) is ready, but its credentials are not available yet; try `mce auth` again in a minute'')
                      else let message = ready_text hs now cluster d password;
                               requested = (case parse_rfc3339 (mget0 [] (mc_Annotations cluster) RequestTimeTag) of None \<Rightarrow> now | Some t \<Rightarrow> t) in
                        if \<not> postMessage then ([], message, kubeconfig, True)
                        else (case SendKubeConfig client channel kubeconfig message (file_stamp requested) of
                                (calls, fid) \<Rightarrow> (calls, message, kubeconfig, fid \<noteq> [])))
               else say (''Cluster '' @ mc_Name cluster @ '' is not yet available'')))"

section \<open>ROSA clusters\<close>

definition NotifyRosa :: "(RosaCluster \<Rightarrow> string option) \<Rightarrow> (RosaCluster \<Rightarrow> string) \<Rightarrow> gotime \<Rightarrow> RosaCluster \<Rightarrow> string \<Rightarrow> slack_call list" where
  "NotifyRosa console api now cluster password =
     (let channel = rosa_tag cluster ''ci-chat-bot/channel'' in
      if ro_State cluster = ''error''
      then [PostMessage channel (''your cluster (name: `'' @ ro_Name cluster @ ''`, id: `'' @ ro_ID cluster @
              ''`) has encountered an error; please contact the CRT team in #forum-ocp-crt'')]
      else if ro_State cluster = ''installing''
      then [PostMessage channel (''cluster is still starting (launched '' @ minutes (now - ro_CreationTimestamp cluster) @ '' minutes ago)'')]
      else [PostMessage channel (''Your cluster is ready'' @
              (case tag_expiry (rosa_tag cluster ''ci-chat-bot/expiry-time'') of
                 None \<Rightarrow> ''.''
               | Some expiry \<Rightarrow> '', it will be shut down automatically in ~'' @ minutes (expiry - now) @ '' minutes.'') @
              (case console cluster of
                 Some url \<Rightarrow> newline @ url
               | None \<Rightarrow> newline @ ''Your cluster's console is not currently available. We will send you another message when the console becomes ready. To manually check if the console is ready, use the `auth` command.'') @
              oc_login (api cluster) ''cluster-admin'' password)])"

section \<open>The listing\<close>

record ListFilters =
  lf_Platform :: string
  lf_Version :: string
  lf_Requestor :: string

definition first_input :: "Job \<Rightarrow> JobInput" where
  "first_input job = (case jb_Inputs job of [] \<Rightarrow> emptyInput | ji # _ \<Rightarrow> ji)"

definition listed :: "ListFilters \<Rightarrow> Job \<Rightarrow> bool" where
  "listed filters job \<longleftrightarrow>
     \<not> (lf_Requestor filters \<noteq> [] \<and> lf_Requestor filters \<noteq> jb_RequestedBy job \<or>
        lf_Platform filters \<noteq> [] \<and> lf_Platform filters \<noteq> jb_Platform job \<or>
        lf_Version filters \<noteq> [] \<and> \<not> contains (ji_Version (first_input job)) (lf_Version filters))"

abbreviation "bullet \<equiv> [CHR 0xE2, CHR 0x80, CHR 0xA2]"

definition cluster_element :: "gotime \<Rightarrow> Job \<Rightarrow> string" where
  "cluster_element now job =
     (let details = (if jb_URL job \<noteq> [] then '', <'' @ jb_URL job @ ''|view logs>'' else []);
          imageOrVersion = formatMCEReleaseDisplay (jb_Architecture job) (first_input job);
          params = (if jb_Platform job \<noteq> [] then mput (jb_Platform job) [] (jb_JobParams job) else jb_JobParams job);
          s = paramsToString params;
          options = (if s \<noteq> [] then '' ('' @ s @ '')'' else []);
          start = bullet @ '' <@'' @ jb_RequestedBy job @ ''>'' @ imageOrVersion in
      if jb_State job = SuccessState then start @ '' - cluster has been shut down'' @ details @ newline
      else if jb_State job = FailureState then start @ options @ '' - cluster failed to start'' @ details @ newline
      else if jb_Complete job then start @ options @ '' - cluster has requested shut down'' @ details @ newline
      else if jb_Credentials job \<noteq> []
      then start @ options @ '' - available and will be torn down in '' @ minutes (jb_ExpiresAt job - now) @ '' minutes'' @ details @ newline
      else if jb_Failure job \<noteq> [] then start @ options @ '' - failure: '' @ jb_Failure job @ details @ newline
      else start @ options @ '' - starting, '' @ minutes (now - jb_RequestedAt job) @ '' minutes elapsed'' @ details @ newline)"

definition job_line :: "gotime \<Rightarrow> Job \<Rightarrow> string" where
  "job_line now job =
     bullet @ '' '' @ minutes (now - jb_RequestedAt job) @ '' minutes ago - '' @
     (if jb_State job = SuccessState then ''*succeeded* ''
      else if jb_State job = FailureState then ''*failed* ''
      else if jb_URL job \<noteq> [] then ''running '' else ''pending '') @
     (if jb_URL job \<noteq> [] \<and> jb_OriginalMessage job \<noteq> [] then ''<'' @ jb_URL job @ ''|'' @ StripLinks (jb_OriginalMessage job) @ ''>''
      else if jb_URL job \<noteq> [] then ''<'' @ jb_URL job @ ''|'' @ jb_JobName job @ ''>''
      else if jb_OriginalMessage job \<noteq> [] then StripLinks (jb_OriginalMessage job)
      else jb_JobName job) @
     (if jb_RequestedBy job \<noteq> [] then '' <@'' @ jb_RequestedBy job @ ''>'' else []) @ newline"

definition rosa_line :: "gotime \<Rightarrow> RosaCluster \<Rightarrow> string" where
  "rosa_line now c =
     (if ro_Tags c = None then []
      else let start = newline @ ''<@'' @ rosa_tag c ''ci-chat-bot/user'' @ ''> - ROSA Cluster `'' @ ro_Name c @ ''` '';
               elapsed = minutes (now - ro_CreationTimestamp c) in
        start @
        (if ro_State c = ''ready''
         then (case tag_expiry (rosa_tag c ''ci-chat-bot/expiry-time'') of
                 None \<Rightarrow> ''is ready''
               | Some expiry \<Rightarrow> ''is ready and will be torn down in '' @ minutes (expiry - now) @ '' minutes'')
         else if ro_State c = ''installing'' then ''is starting; '' @ elapsed @ '' minutes have elapsed''
         else if ro_State c = ''error'' then ''has experienced an error. Please run `done` to delete the cluster before starting a new one''
         else if ro_State c = ''uninstalling'' then ''is uninstalling''
         else ''requested; '' @ elapsed @ '' minutes have elapsed'') @ newline)"

text \<open>
  \<open>ListJobs\<close>. The comparison the source sorts with is not an order (an older job is before a younger one, but a job with the smaller
  name is before every other one as well), so the order of the result is left to the argument \<open>ordered\<close>; \<open>uptime\<close> is the text of
  the minutes since the start.
\<close>

definition ListJobs :: "(Job list \<Rightarrow> Job list) \<Rightarrow> string \<Rightarrow> gotime \<Rightarrow> manager \<Rightarrow> int \<Rightarrow> string \<Rightarrow> ListFilters \<Rightarrow> string \<times> string \<times> string list" where
  "ListJobs ordered uptime now m rosaClusterLimit user filters =
     (let all = mvals (mg_jobs m);
          clusters = ordered (filter (\<lambda>j. launch_mode (jb_Mode j)) all);
          tests = filter (\<lambda>j. \<not> launch_mode (jb_Mode j)) all;
          jobs = ordered (filter (\<lambda>j. user = jb_RequestedBy j) tests);
          runningClusters = length (filter (\<lambda>j. \<not> jb_Complete j) clusters);
          start = '' clusters up (start time is approximately '' @ minutes (estimateCompletion (mg_estimates m) now 0) @ '' minutes):'' @ newline @ newline;
          beginning = (if clusters = [] then ''No'' @ start
                       else show_nat runningClusters @ ''/'' @ show_nat (mg_maxClusters m) @ start);
          elements = map (cluster_element now) (filter (listed filters) clusters);
          text_clusters = beginning @ (if clusters = [] then [] else concat elements @ newline);
          text_jobs = (if jobs \<noteq> [] then ''Running jobs:'' @ newline @ newline @ concat (map (job_line now) jobs)
                       else if tests \<noteq> []
                       then newline @ ''There are '' @ show_nat (length jobs) @ '' test jobs being run by the bot right now'' @ newline
                       else []);
          text_rosa = show_nat (length (mg_rosaClusters m)) @ ''/'' @ show_int rosaClusterLimit @ '' ROSA Clusters up:'' @
                        concat (map (rosa_line now) (mvals (mg_rosaClusters m))) in
      (text_clusters @ text_jobs @ text_rosa @ newline @ ''bot uptime is '' @ uptime @ '' minutes'', beginning, elements))"

section \<open>Who receives credentials\<close>

lemma launch_notice_kubeconfig:
  "launch_notice now job = WithKubeconfig msg k \<Longrightarrow> k = jb_Credentials job \<and> k \<noteq> [] \<and> jb_Failure job = []"
  by (auto simp: launch_notice_def split: if_splits)

lemma test_notice_kubeconfig:
  "test_notice now job = WithKubeconfig msg k \<Longrightarrow> k = jb_Credentials job \<and> k \<noteq> [] \<and>
     (jb_State job \<notin> {SuccessState, FailureState, AbortedState, ErrorState} \<or> jb_Mode job = JobTypeCatalog \<and> \<not> jb_CatalogComplete job)"
  by (auto simp: test_notice_def running_notice_def test_failed_def Let_def split: if_splits)

text \<open>
  C11: a notification about a job is one call to Slack, to the channel of the request, or none when the message is only returned. It carries
  the kubeconfig exactly when the job has credentials and is not over: a launch has not failed, a test has not ended (for a catalog
  build, its catalog is not built yet).
\<close>

theorem job_credentials_disclosure:
  "(case NotifyJob client now job postMessage of (calls, msg, kubeconfig) \<Rightarrow>
      (\<not> postMessage \<longrightarrow> calls = []) \<and>
      (postMessage \<and> kubeconfig = [] \<longrightarrow> calls = [PostMessage (jb_RequestedChannel job) msg]) \<and>
      (postMessage \<and> kubeconfig \<noteq> [] \<longrightarrow>
         calls = [UploadFile (jb_RequestedChannel job) (''cluster-bot-'' @ file_stamp (jb_RequestedAt job) @ ''.kubeconfig'') (jb_Credentials job) msg]) \<and>
      (kubeconfig \<noteq> [] \<longleftrightarrow> jb_Credentials job \<noteq> [] \<and>
         (if launch_mode (jb_Mode job) then jb_Failure job = []
          else jb_State job \<notin> {SuccessState, FailureState, AbortedState, ErrorState} \<or> jb_Mode job = JobTypeCatalog \<and> \<not> jb_CatalogComplete job)))"
proof -
  let ?n = "if launch_mode (jb_Mode job) then launch_notice now job else test_notice now job"
  have k: "(\<exists>msg k. ?n = WithKubeconfig msg k) \<longleftrightarrow> jb_Credentials job \<noteq> [] \<and>
      (if launch_mode (jb_Mode job) then jb_Failure job = []
       else jb_State job \<notin> {SuccessState, FailureState, AbortedState, ErrorState} \<or> jb_Mode job = JobTypeCatalog \<and> \<not> jb_CatalogComplete job)"
    by (auto simp: launch_notice_def test_notice_def running_notice_def test_failed_def Let_def)
  show ?thesis
  proof (cases ?n)
    case (Message msg)
    then show ?thesis using k by (auto simp: NotifyJob_def)
  next
    case (WithKubeconfig msg c)
    then have "c = jb_Credentials job" "c \<noteq> []"
      using launch_notice_kubeconfig [of now job msg c] test_notice_kubeconfig [of now job msg c] by (auto split: if_splits)
    then show ?thesis using WithKubeconfig k unfolding NotifyJob_def by (auto simp: SendKubeConfig_def Let_def)
  qed
qed

definition sample_client :: slack_client where
  "sample_client = \<lparr>sc_post = (\<lambda>_ _. True), sc_upload = (\<lambda>_ _ _ _. Some ''F1'')\<rparr>"

definition sample_notified :: Job where
  "sample_notified = emptyJob\<lparr>jb_Mode := JobTypeLaunch, jb_Credentials := ''secret'', jb_RequestedChannel := ''D1''\<rparr>"

theorem job_credentials_disclosure_witness:
  "\<exists>msg. fst (NotifyJob sample_client 0 sample_notified True) =
     [UploadFile ''D1'' (''cluster-bot-'' @ file_stamp (jb_RequestedAt sample_notified) @ ''.kubeconfig'') ''secret'' msg]"
  using job_credentials_disclosure [where client = sample_client and now = 0 and job = sample_notified and postMessage = True]
  by (auto simp: sample_notified_def emptyJob_def split: prod.splits)


definition sample_available :: MceCluster where
  "sample_available = \<lparr>mc_Name = ''c1'', mc_Labels = [], mc_Annotations = [(ChannelTag, ''D1'')], mc_CreationTimestamp = 0,
     mc_Conditions = [(''ManagedClusterConditionAvailable'', ''True'')]\<rparr>"

definition sample_status :: hub_status where
  "sample_status = \<lparr>hs_console = (\<lambda>_. ''console''), hs_api = (\<lambda>_. ''api''), hs_failure = (\<lambda>_. ([], [])), hs_provisionFailure = (\<lambda>_. ([], []))\<rparr>"


section \<open>What the listing reveals\<close>

text \<open>The part of the state a user may learn about from the listing.\<close>

definition visible :: "string \<Rightarrow> manager \<Rightarrow> (string \<times> Job) list" where
  "visible user m = filter (\<lambda>(_, j). launch_mode (jb_Mode j) \<or> jb_RequestedBy j = user) (mg_jobs m)"


definition sample_listing :: "string \<Rightarrow> manager" where
  "sample_listing message = NewJobManager\<lparr>mg_jobs :=
     [(''t1'', emptyJob\<lparr>jb_Mode := JobTypeTest, jb_RequestedBy := ''other'', jb_OriginalMessage := message\<rparr>), (''c1'', sample_notified)]\<rparr>"


end
