(* ===== verification/Router.thy ===== *)
theory Router
  imports LaunchDialog Notify
begin

text \<open>
  The ways into the bot besides messages: the check of the signature of a request (\<open>VerifiedBody\<close> of \<open>pkg/slack/slack.go\<close>), the HTTP handlers of
  \<open>cmd/ci-chat-bot/slack.go\<close>, the routers of events and interactions, the App Home and the modals that need one click. The router is shown
  to send every view a user can see to the handler of its step.
\<close>

section \<open>Signed requests\<close>

text \<open>
  A request: whether its signature headers are well formed, its body (\<open>None\<close> when it cannot be read), whether it can be
  hashed, and whether the signature fits a body.
\<close>

record http_request =
  hr_headers :: bool
  hr_body :: "string option"
  hr_hashed :: bool
  hr_signature :: "string \<Rightarrow> bool"

definition maxVerifiedBodySize :: nat where
  "maxVerifiedBodySize = 2 ^ 20"

definition VerifiedBody :: "http_request \<Rightarrow> (nat, string) result" where
  "VerifiedBody r =
     (if \<not> hr_headers r then Inl 401
      else (case hr_body r of
              None \<Rightarrow> Inl 500
            | Some body \<Rightarrow>
                if maxVerifiedBodySize < length body then Inl 413
                else if \<not> hr_hashed r then Inl 500
                else if \<not> hr_signature r body then Inl 401
                else Inr body))"

text \<open>
  Events: a message, the opening of the App Home, a mention, another callback, the check of the address by Slack, or an event that is no
  callback. The result of a handler is the status and, when the handler of the bot runs, its event.
\<close>

datatype inner_event = MessageInner MessageEvent | HomeOpened string | Mention string | OtherInner

datatype slack_event = CallbackEvent inner_event | URLVerification | OtherEvent

definition handleEvent :: "(string \<Rightarrow> slack_event option) \<Rightarrow> (string \<Rightarrow> string option) \<Rightarrow> http_request \<Rightarrow> nat \<times> slack_event option" where
  "handleEvent ParseEvent challenge r =
     (case VerifiedBody r of
        Inl status \<Rightarrow> (status, None)
      | Inr body \<Rightarrow>
          (case ParseEvent body of
             None \<Rightarrow> (500, None)
           | Some event \<Rightarrow>
               if event = URLVerification \<and> challenge body = None then (500, None) else (200, Some event)))"

definition handleInteraction :: "(string \<Rightarrow> Callback option) \<Rightarrow> http_request \<Rightarrow> nat \<times> Callback option" where
  "handleInteraction payload r =
     (case VerifiedBody r of
        Inl status \<Rightarrow> (status, None)
      | Inr body \<Rightarrow> (case payload body of None \<Rightarrow> (500, None) | Some callback \<Rightarrow> (200, Some callback)))"

section \<open>Events\<close>

text \<open>\<open>MultiHandler\<close>: the first partial handler that handles the event decides; the errors of the others are lost.\<close>

fun MultiHandler :: "('e \<Rightarrow> bool \<times> 'r) list \<Rightarrow> 'r \<Rightarrow> 'e \<Rightarrow> 'r" where
  "MultiHandler [] none event = none"
| "MultiHandler (h # hs) none event = (case h event of (True, r) \<Rightarrow> r | (False, _) \<Rightarrow> MultiHandler hs none event)"

datatype event_result = NoHandler | EventDone | MessageHandled handled | MentionAnswered | HomePublished string | EventError

text \<open>
  The three partial handlers; \<open>reply\<close> tells whether the message for an indirect message can be posted, \<open>mentioned\<close>
  whether a mention can be answered, and \<open>publish\<close> whether the App Home can be published.
\<close>

definition message_handler :: "bool \<Rightarrow> string list \<Rightarrow> BotCommand list \<Rightarrow> slack_event \<Rightarrow> bool \<times> event_result" where
  "message_handler reply mceUsers botCommands event =
     (case event of
        CallbackEvent (MessageInner e) \<Rightarrow>
          (case Handle mceUsers botCommands e of
             OnlyDirect \<Rightarrow> if reply then (True, MessageHandled OnlyDirect) else (False, EventError)
           | h \<Rightarrow> (True, MessageHandled h))
      | CallbackEvent _ \<Rightarrow> (False, EventError)
      | _ \<Rightarrow> (True, EventDone))"

definition mention_handler :: "bool \<Rightarrow> slack_event \<Rightarrow> bool \<times> event_result" where
  "mention_handler mentioned event =
     (case event of CallbackEvent (Mention _) \<Rightarrow> (True, if mentioned then MentionAnswered else EventError) | _ \<Rightarrow> (False, EventDone))"

definition apphome_handler :: "bool \<Rightarrow> slack_event \<Rightarrow> bool \<times> event_result" where
  "apphome_handler publish event =
     (case event of
        CallbackEvent (HomeOpened user) \<Rightarrow> if publish then (True, HomePublished user) else (False, EventError)
      | _ \<Rightarrow> (False, EventDone))"

definition ForEvents :: "bool \<Rightarrow> bool \<Rightarrow> bool \<Rightarrow> string list \<Rightarrow> BotCommand list \<Rightarrow> slack_event \<Rightarrow> event_result" where
  "ForEvents reply mentioned publish mceUsers botCommands =
     MultiHandler [message_handler reply mceUsers botCommands, mention_handler mentioned, apphome_handler publish] NoHandler"

section \<open>Modals with one step\<close>

definition BuildSimpleView :: "string \<Rightarrow> string \<Rightarrow> string \<Rightarrow> View" where
  "BuildSimpleView ident title message =
     \<lparr>vw_Metadata = Some (emptyData, ident), vw_Title = title, vw_Close = ''Cancel'', vw_Submit = Some ''Submit'', vw_Blocks = [SectionText message]\<rparr>"

definition AppendKubeconfigBlock :: "View \<Rightarrow> string \<Rightarrow> string \<Rightarrow> View" where
  "AppendKubeconfigBlock view kubeconfig headerText =
     (if kubeconfig = [] then view
      else view\<lparr>vw_Blocks := vw_Blocks view @ [Divider, HeaderText headerText, Preformatted kubeconfig]\<rparr>)"

definition BuildListResultModal :: "string \<Rightarrow> string \<Rightarrow> string list \<Rightarrow> View" where
  "BuildListResultModal title beginning elements =
     \<lparr>vw_Metadata = None, vw_Title = title, vw_Close = ''Close'', vw_Submit = None,
      vw_Blocks = SectionText beginning # map SectionText elements\<rparr>"

definition list_view :: View where
  "list_view =
     \<lparr>vw_Metadata = Some (emptyData, ''list''), vw_Title = ''List Running Clusters'', vw_Close = ''Cancel'', vw_Submit = Some ''Submit'',
      vw_Blocks = [HeaderText ''See who is hogging all the clusters'',
        SelectInput ''filter_by_platform'' True (BuildOptions SupportedPlatforms []) None,
        TextInput ''filter_by_version'' True [], UserSelect ''filter_by_user'' ''*Filter by User*'']\<rparr>"

text \<open>What the submission of such a modal shows. A simple action answers with an error or a message.\<close>

definition MakeSimpleProcessHandler :: "string \<Rightarrow> string \<Rightarrow> (string, string) result \<Rightarrow> View" where
  "MakeSimpleProcessHandler title errorContext result =
     (case result of Inl err \<Rightarrow> ErrorView errorContext err | Inr msg \<Rightarrow> SubmissionView title msg)"

text \<open>\<open>terminate\<close> and \<open>refresh\<close> run the operation of the manager; \<open>err\<close> and \<open>say\<close> give the texts of its errors and messages.\<close>

definition done_process :: "(manager_error \<Rightarrow> string) \<Rightarrow> (string \<Rightarrow> string option) \<Rightarrow> (string \<Rightarrow> string \<Rightarrow> stop_result) \<Rightarrow> manager \<Rightarrow> gotime \<Rightarrow>
    Callback \<Rightarrow> manager \<times> View option \<times> event list" where
  "done_process err rosaDelete stop m now cb =
     (case TerminateJobForUser rosaDelete stop m m now (ic_UserID cb) of
        (m', out, evs) \<Rightarrow>
          (m', (case out of
                  TerminateError e \<Rightarrow> Some (MakeSimpleProcessHandler ''Terminate a Cluster'' ''terminating job'' (Inl (err e)))
                | TerminateOk msg \<Rightarrow> Some (MakeSimpleProcessHandler ''Terminate a Cluster'' ''terminating job'' (Inr msg))
                | TerminatePanic \<Rightarrow> None), evs))"

definition refresh_process :: "(manager_error \<Rightarrow> string) \<Rightarrow> (refresh_message \<Rightarrow> string) \<Rightarrow> manager \<Rightarrow> Callback \<Rightarrow> View \<times> event list" where
  "refresh_process err say m cb =
     (case SyncJobForUser m (ic_UserID cb) of
        (r, evs) \<Rightarrow> (MakeSimpleProcessHandler ''Refresh the Status'' ''synchronizing jobs for user''
                      (case r of Inl e \<Rightarrow> Inl (err e) | Inr msg \<Rightarrow> Inr (say msg)), evs))"

definition auth_process :: "(manager_error \<Rightarrow> string) \<Rightarrow> slack_client \<Rightarrow> gotime \<Rightarrow> manager \<Rightarrow> Callback \<Rightarrow> View" where
  "auth_process err client now m cb =
     (case GetLaunchJob m (ic_UserID cb) of
        Inl e \<Rightarrow> ErrorView ''getting launch job'' (err e)
      | Inr job \<Rightarrow>
          (case NotifyJob client now job False of
             (_, msg, kubeconfig) \<Rightarrow> AppendKubeconfigBlock (SubmissionView ''Authentication'' msg) kubeconfig
               ''KubeConfig File (to download the kubeconfig as a file, type `auth` in the Messages tab):''))"

definition list_filters :: "Callback \<Rightarrow> ListFilters" where
  "list_filters cb =
     (let inputs = CallBackInputAll cb in
      \<lparr>lf_Platform = mget0 [] inputs ''filter_by_platform'', lf_Version = mget0 [] inputs ''filter_by_version'',
       lf_Requestor = mget0 [] inputs ''filter_by_user''\<rparr>)"

definition list_process :: "(Job list \<Rightarrow> Job list) \<Rightarrow> string \<Rightarrow> gotime \<Rightarrow> manager \<Rightarrow> int \<Rightarrow> Callback \<Rightarrow> View" where
  "list_process ordered uptime now m lim cb =
     (case ListJobs ordered uptime now m lim (ic_UserID cb) (list_filters cb) of
        (_, beginning, elements) \<Rightarrow> BuildListResultModal ''List Running Clusters'' beginning elements)"

definition mce_auth_process :: "slack_client \<Rightarrow> hub_status \<Rightarrow> mce_api \<Rightarrow> gotime \<Rightarrow> mce \<Rightarrow> Callback \<Rightarrow> View" where
  "mce_auth_process client hs api now m cb =
     (case GetManagedClustersForUser m (ic_UserID cb) of
        [] \<Rightarrow> SubmissionView ''MCE Authentication'' ''You have no running MCE clusters.''
      | [(name, cluster)] \<Rightarrow>
          (case NotifyMce client hs now cluster (mget (me_deployments m) name) (GetClusterProvisionForNotification api m name)
                  (mget0 [] (me_kubeconfigs m) name) (mget0 [] (me_passwords m) name) False None of
             (_, msg, kubeconfig, _) \<Rightarrow> AppendKubeconfigBlock (SubmissionView ''MCE Authentication'' msg) kubeconfig
               ''KubeConfig File (to download the kubeconfig as a file, type `mce auth` in the Messages tab):'')
      | _ \<Rightarrow> SubmissionView ''MCE Authentication''
          ''You have multiple running clusters. Please specify the name of the cluster you are requesting credentials for.'')"

definition mce_delete_process :: "(mce_delete_reply \<Rightarrow> (string, string) result) \<Rightarrow> mce_api \<Rightarrow> mce \<Rightarrow> Callback \<Rightarrow> mce_event list \<times> View" where
  "mce_delete_process say api m cb =
     (case GetManagedClustersForUser m (ic_UserID cb) of
        [] \<Rightarrow> ([], SubmissionView ''Delete an MCE Cluster'' ''You do not have any running MCE Clusters.'')
      | [(name, _)] \<Rightarrow>
          (case DeleteMceCluster api m (ic_UserID cb) name of
             (evs, _, reply) \<Rightarrow> (evs, MakeSimpleProcessHandler ''Delete an MCE Cluster'' ''deleting managed cluster'' (say reply)))
      | _ \<Rightarrow> ([], SubmissionView ''Delete an MCE Cluster''
          ''You user has multiple running clusters. Please use the `Messages` tab for more advanced MCE Cluster management.''))"

definition mce_list_process :: "manager \<Rightarrow> gotime \<Rightarrow> mce \<Rightarrow> View" where
  "mce_list_process mg now m =
     (case ListManagedClusters mg now m [] of (_, beginning, elements) \<Rightarrow> BuildListResultModal ''List Managed Clusters'' beginning elements)"

section \<open>The App Home\<close>

text \<open>The layout \<open>time.Kitchen\<close>, \<open>3:04PM\<close>, and the day \<open>Mon Jan 2\<close>; the zero time was a Monday.\<close>

definition kitchen :: "gotime \<Rightarrow> string" where
  "kitchen t =
     (let r = secs_of t mod 86400; h = r div 3600; h12 = (if h mod 12 = 0 then 12 else h mod 12) in
      show_nat h12 @ '':'' @ pad2 (r div 60 mod 60) @ (if h < 12 then ''AM'' else ''PM''))"

definition day_text :: "gotime \<Rightarrow> string" where
  "day_text t =
     (let days = secs_of t div 86400 in
      case civil days of (_, month, day) \<Rightarrow>
        [''Mon'', ''Tue'', ''Wed'', ''Thu'', ''Fri'', ''Sat'', ''Sun''] ! (days mod 7) @ '' '' @
        [''Jan'', ''Feb'', ''Mar'', ''Apr'', ''May'', ''Jun'', ''Jul'', ''Aug'', ''Sep'', ''Oct'', ''Nov'', ''Dec''] ! (month - 1) @ '' '' @ show_nat day)"

definition active_text :: "gotime \<Rightarrow> string \<Rightarrow> string \<Rightarrow> string" where
  "active_text now platform expiry =
     ''*As of '' @ kitchen now @ '' UTC, you have an active '' @ platform @ '' cluster that will expire at '' @ expiry @
     ''. Please delete the cluster when you're done and use the below buttons to manage the cluster. Change to another view to update this text.*''"

definition launch_section :: "gotime \<Rightarrow> Job option \<Rightarrow> block list" where
  "launch_section now userJob =
     (case userJob of
        None \<Rightarrow> [SectionButton ''Launch an OpenShift cluster using a known image, version, or PR'' ''launch'']
      | Some j \<Rightarrow>
          if jb_State j = SuccessState \<or> jb_Complete j
          then [SectionButton ''Launch an OpenShift cluster using a known image, version, or PR'' ''launch'']
          else [SectionText (active_text now (jb_Platform j) (kitchen (jb_ExpiresAt j) @ '' UTC'')), Divider,
                SectionButton ''Terminate the running cluster'' ''done'',
                SectionButton ''If the cluster is currently marked as failed, retry fetching its credentials in case of an error'' ''refresh'',
                SectionButton ''Send the credentials for the cluster you most recently requested'' ''auth''])"

definition mce_section :: "gotime \<Rightarrow> (string, MceCluster) gomap \<Rightarrow> block list" where
  "mce_section now managed_clusters =
     (if managed_clusters = [] then [SectionButton ''Launch an MCE Cluster'' ''mce_create'']
      else let cluster = snd (last managed_clusters);
               expiryTime = (case parse_rfc3339 (mget0 [] (mc_Annotations cluster) ExpiryTimeTag) of None \<Rightarrow> 0 | Some t \<Rightarrow> t) in
        [SectionText (active_text now (mget0 [] (mc_Labels cluster) ''Cloud'') (kitchen expiryTime @ '' UTC on '' @ day_text expiryTime)), Divider,
         SectionButton ''Terminate MCE Cluster'' ''mce_delete'', SectionButton ''Retreive MCE Cluster Auth'' ''mce_auth''])"

definition HomeView :: "gotime \<Rightarrow> manager \<Rightarrow> mce \<Rightarrow> string \<Rightarrow> block list" where
  "HomeView now m me user =
     [HeaderText '':warning: Experimental :warning:'',
      SectionText '' The App Home doesn't currently support all of Cluster Bot's functionality and may have bugs. Switch to the Messages tab above to use the traditional message commands.'',
      Divider,
      SectionText (''*Cluster Bot gives users the ability to launch and test OpenShift Clusters from any existing custom built releases*'' @ newline @ newline @
        ''<https://github.com/openshift/ci-chat-bot/blob/master/docs/FAQ.md|Frequently Asked Questions>'' @ newline @
        ''<https://amd64.ocp.releases.ci.openshift.org/|OpenShift Releases>''),
      HeaderText ''CI Clusters'',
      SectionText ''Clusters launched with this method run in the CI environment managed by the Test Platform team. It is the same environment used for GitHub Pull Requests and is very flexible.'',
      Divider] @
     launch_section now (GetUserCluster m user) @
     [SectionButton ''See who is hogging all the clusters'' ''list'', HeaderText ''MCE Clusters'',
      SectionText ''Clusters created with this method are created via Multicluster Engine (MCE) running on a cluster managed by CRT. These clusters have a longer configurable duration and can be run on AWS or GCP. However, they currently have no other configuration options and have a much lower concurrent user limit.'',
      Divider] @
     mce_section now (GetManagedClustersForUser me user) @
     [SectionButton ''List All Running MCE Clusters'' ''mce_list'']"

section \<open>The router of interactions\<close>

text \<open>The registered flows: identifier, view and the types of interaction it handles.\<close>

definition flows :: "release_source \<Rightarrow> (string \<times> View \<times> interaction_type list) list" where
  "flows rs =
     [(IdentifierInitialView, FirstStepView, [ViewSubmission]),
      (IdentifierRegisterLaunchMode, SelectModeView False emptyData, [ViewSubmission]),
      (Identifier3rdStep, ThirdStepView False emptyData [], [ViewSubmission]),
      (IdentifierSelectVersion, SelectVersionView rs False emptyData [], [ViewSubmission]),
      (IdentifierFilterVersionView, FilterVersionView rs False emptyData False, [ViewSubmission]),
      (IdentifierPRInputView, PRInputView False emptyData [], [ViewSubmission]),
      (IdentifierSelectMinorMajor, SelectMinorMajor rs False emptyData [], [ViewSubmission]),
      (BackButtonActionID, emptyView, [BlockActions]),
      (''list'', list_view, [ViewSubmission]),
      (''auth'', BuildSimpleView ''auth'' ''Authentication'' ''Click submit to retrieve the credentials for your cluster'', [ViewSubmission]),
      (''done'', BuildSimpleView ''done'' ''Terminate a Cluster'' ''Click submit to terminate your running cluster'', [ViewSubmission]),
      (''refresh'', BuildSimpleView ''refresh'' ''Refresh the Status''
         ''If the cluster is currently marked as failed, retry fetching its credentials in case of an error'', [ViewSubmission]),
      (mce_InitialView, mce_FirstStepViewWithData emptyData, [ViewSubmission]),
      (mce_SelectMode, mce_SelectModeView False emptyData, [ViewSubmission]),
      (mce_SelectVersion, mce_SelectVersionView rs False emptyData [], [ViewSubmission]),
      (mce_FilterVersion, mce_FilterVersionView rs False emptyData False, [ViewSubmission]),
      (mce_PRInput, mce_PRInputView False emptyData [], [ViewSubmission]),
      (mce_SelectMinorMajor, mce_SelectMinorMajorView rs False emptyData [], [ViewSubmission]),
      (mce_3rdStep, SubmissionView mce_ModalTitle [], [ViewSubmission]),
      (''mce_auth'', BuildSimpleView ''mce_auth'' ''MCE Authentication'' ''Click submit to retrieve the credentials for your MCE cluster'', [ViewSubmission]),
      (''mce_list'', BuildSimpleView ''mce_list'' ''List Managed Clusters'' ''Click submit to view all running MCE clusters.'', [ViewSubmission]),
      (''mce_delete'', BuildSimpleView ''mce_delete'' ''Delete an MCE Cluster'' ''Click submit to terminate your running cluster'', [ViewSubmission]),
      (''mce_lookup'', BuildSimpleView ''mce_lookup'' ''Lookup MCE Versions''
         (''Click submit to view all Openshift versions available for MCE.'' @ newline @
          ''Note: CI versions may also be used, but will take longer to launch.''), [ViewSubmission])]"

definition viewsByID :: "release_source \<Rightarrow> (string, View) gomap" where
  "viewsByID rs = map (\<lambda>(i, v, _). (i, v)) (flows rs)"

definition handlersByIDAndType :: "release_source \<Rightarrow> (string, interaction_type list) gomap" where
  "handlersByIDAndType rs = map (\<lambda>(i, _, ts). (i, ts)) (flows rs)"

text \<open>What the router does: it opens a view, calls the handler registered for an identifier and a type, does nothing, or panics.\<close>

datatype routed = OpensView View | Calls string interaction_type | NotRouted | RouterPanic

definition openModal :: "release_source \<Rightarrow> string \<Rightarrow> routed" where
  "openModal rs i = (if i \<noteq> [] \<and> \<not> mhas (viewsByID rs) i then NotRouted else OpensView (mget0 emptyView (viewsByID rs) i))"

definition isMessageButtonPress :: "Callback \<Rightarrow> bool" where
  "isMessageButtonPress cb =
     (case ic_Actions cb of
        [] \<Rightarrow> False
      | action # _ \<Rightarrow> bu_Type action = ''button'' \<and> bu_ActionID action \<noteq> BackButtonActionID)"

definition metadataToIdentifier :: "metadata \<Rightarrow> string" where
  "metadataToIdentifier md = (case md of None \<Rightarrow> [] | Some (_, i) \<Rightarrow> i)"

definition delegate :: "release_source \<Rightarrow> Callback \<Rightarrow> routed" where
  "delegate rs cb =
     (let i = metadataToIdentifier (ic_Metadata cb);
          handlers = handlersByIDAndType rs;
          dispatch = (\<lambda>j types.
            if ic_Type cb \<in> set types then Calls j (ic_Type cb)
            else if ic_Type cb = BlockActions
            then (case ic_Actions cb of
                    [] \<Rightarrow> NotRouted
                  | a # _ \<Rightarrow> (case mget handlers (bu_ActionID a) of
                               Some ts \<Rightarrow> if ic_Type cb \<in> set ts then Calls (bu_ActionID a) (ic_Type cb) else NotRouted
                             | None \<Rightarrow> NotRouted))
            else NotRouted) in
      case mget handlers i of
        Some types \<Rightarrow> dispatch i types
      | None \<Rightarrow>
          (case ic_Actions cb of
             [] \<Rightarrow> RouterPanic
           | a # _ \<Rightarrow> (case mget handlers (bu_ActionID a) of
                        Some types \<Rightarrow> dispatch (bu_ActionID a) types
                      | None \<Rightarrow> NotRouted)))"

definition route :: "release_source \<Rightarrow> Callback \<Rightarrow> routed" where
  "route rs cb =
     (case ic_Type cb of
        Shortcut \<Rightarrow> openModal rs (ic_CallbackID cb)
      | BlockActions \<Rightarrow> if isMessageButtonPress cb then openModal rs (bu_Value (hd (ic_Actions cb))) else delegate rs cb
      | _ \<Rightarrow> delegate rs cb)"

section \<open>Commands that only answer\<close>

definition List_action :: "(Job list \<Rightarrow> Job list) \<Rightarrow> string \<Rightarrow> gotime \<Rightarrow> manager \<Rightarrow> int \<Rightarrow> string \<Rightarrow> string" where
  "List_action ordered uptime now m lim user = fst (ListJobs ordered uptime now m lim user \<lparr>lf_Platform = [], lf_Version = [], lf_Requestor = []\<rparr>)"

definition Version :: "string \<Rightarrow> string" where
  "Version botversion = ''Running `'' @ botversion @ ''` from https://github.com/openshift/ci-chat-bot''"

text \<open>\<open>ListMceVersions\<close>; \<open>semverSort\<close> sorts the versions and \<open>patch\<close> reads the third number.\<close>

definition ListMceVersions :: "'v semver_api \<Rightarrow> ('v \<Rightarrow> nat) \<Rightarrow> ('v list \<Rightarrow> 'v list) \<Rightarrow> mce \<Rightarrow> string" where
  "ListMceVersions sv patch semverSort m =
     (let versions = List.map_filter (\<lambda>imageset.
            case cut_suffix imageset ''-multi-appsub'' of
              None \<Rightarrow> None
            | Some before \<Rightarrow> sv_ParseTolerant sv (trim_prefix before ''img'')) (me_imagesets m) in
      ''Available versions for MCE clusters: '' @
      join '', '' (map (\<lambda>v. show_nat (sv_Major sv v) @ ''.'' @ show_nat (sv_Minor sv v) @ ''.'' @ show_nat (patch v)) (semverSort versions)))"

text \<open>\<open>describeROSACluster\<close> runs the command line tool; \<open>run\<close> gives its output and \<open>path\<close> the text of the command.\<close>

definition describe_command :: "RosaCluster \<Rightarrow> string list" where
  "describe_command cluster = split_char CHR '' '' (''rosa describe cluster --cluster='' @ ro_Name cluster)"

datatype describe_reply = DescribeUnknown string | DescribeFailed string | Described string | DescribeOneOnly | DescribeBadInput

definition describeROSACluster :: "(string list \<Rightarrow> (string, string) result) \<Rightarrow> (string list \<Rightarrow> string) \<Rightarrow> manager \<Rightarrow> string \<Rightarrow>
    string list list \<times> describe_reply" where
  "describeROSACluster run path m name =
     (case getROSAClusterByName m name of
        None \<Rightarrow> ([], DescribeUnknown name)
      | Some cluster \<Rightarrow>
          let cmd = describe_command cluster in
          ([cmd], (case run cmd of
                     Inl err \<Rightarrow> DescribeFailed err
                   | Inr out \<Rightarrow> Described (''`'' @ path cmd @ ''` returned:'' @ newline @ ''```'' @ out @ ''```''))))"

definition RosaDescribe :: "(string list \<Rightarrow> (string, string) result) \<Rightarrow> (string list \<Rightarrow> string) \<Rightarrow> manager \<Rightarrow> (string, string) gomap \<Rightarrow>
    string list list \<times> describe_reply" where
  "RosaDescribe run path m properties =
     (case ParseImageInput (StringParam ''cluster'' [] properties) of
        None \<Rightarrow> ([], DescribeBadInput)
      | Some from \<Rightarrow> if 1 < length from then ([], DescribeOneOnly)
                     else describeROSACluster run path m (case from of [] \<Rightarrow> [] | c # _ \<Rightarrow> c))"

text \<open>Only the name of a known cluster, and as one argument, reaches the command line.\<close>

lemma described_clusters_known:
  assumes "cmd \<in> set (fst (RosaDescribe run path m properties))" "list_all (\<lambda>c. CHR '' '' \<notin> set (ro_Name c)) (mvals (mg_rosaClusters m))"
  shows "\<exists>c \<in> set (mvals (mg_rosaClusters m)). cmd = [''rosa'', ''describe'', ''cluster'', ''--cluster='' @ ro_Name c]"
proof -
  obtain c where c: "c \<in> set (mvals (mg_rosaClusters m))" "cmd = describe_command c"
    using assms(1) by (auto simp: RosaDescribe_def describeROSACluster_def getROSAClusterByName_def Let_def
        split: option.splits if_splits dest!: find_set)
  have "CHR '' '' \<notin> set (ro_Name c)" using assms(2) c(1) by (auto simp: list_all_iff)
  then have "cmd = [''rosa'', ''describe'', ''cluster'', ''--cluster='' @ ro_Name c]"
    using c(2) by (simp add: describe_command_def split_char_id)
  then show ?thesis using c(1) by blast
qed

section \<open>Files read at run time\<close>

text \<open>One round of the loops that reload the subnets for ROSA clusters and the workflows; \<open>None\<close> is a file that cannot be read or parsed.\<close>

definition manageRosaSubnetList :: "string option \<Rightarrow> string list" where
  "manageRosaSubnetList file = remdups (split_char CHR '','' (case file of None \<Rightarrow> [] | Some raw \<Rightarrow> raw))"

definition manageWorkflowConfig :: "string option \<Rightarrow> (string \<Rightarrow> (string, WorkflowConfigItem) gomap option option) \<Rightarrow> (string, WorkflowConfigItem) gomap" where
  "manageWorkflowConfig file parse =
     (case file of
        None \<Rightarrow> []
      | Some raw \<Rightarrow> (case parse raw of Some (Some workflows) \<Rightarrow> workflows | _ \<Rightarrow> []))"

definition loadLeaseCredentials :: "string option \<Rightarrow> (string \<times> string) option" where
  "loadLeaseCredentials file =
     (case file of
        None \<Rightarrow> None
      | Some content \<Rightarrow> (case split_char CHR '':'' content of [username, password] \<Rightarrow> Some (username, password) | _ \<Rightarrow> None))"

text \<open>A file of subnets that cannot be read is read as one subnet with an empty name.\<close>

lemma unreadable_subnets: "manageRosaSubnetList None = [[]]"
  by (simp add: manageRosaSubnetList_def)

section \<open>Properties\<close>

text \<open>
  C12: only requests that Slack has signed have an effect. The handlers of events and interactions reach the bot, and answer with 200, only for a
  body of at most one mebibyte whose signature fits; every other request is answered with 401, 413 or 500 and ends there.
\<close>

theorem only_signed_requests:
  "(snd (handleEvent ParseEvent challenge r) \<noteq> None \<or> snd (handleInteraction payload r) \<noteq> None \<or>
    fst (handleEvent ParseEvent challenge r) = 200 \<or> fst (handleInteraction payload r) = 200 \<longrightarrow>
      hr_headers r \<and> (\<exists>body. hr_body r = Some body \<and> length body \<le> 1048576 \<and> hr_signature r body)) \<and>
   fst (handleEvent ParseEvent challenge r) \<in> {200, 401, 413, 500} \<and> fst (handleInteraction payload r) \<in> {200, 401, 413, 500}"
  by (auto simp: handleEvent_def handleInteraction_def VerifiedBody_def maxVerifiedBodySize_def not_less
      split: sum.splits option.splits if_splits)

theorem only_signed_requests_witness:
  "fst (handleEvent (\<lambda>_. Some (CallbackEvent OtherInner)) (\<lambda>_. None)
     \<lparr>hr_headers = True, hr_body = Some ''payload'', hr_hashed = True, hr_signature = (\<lambda>b. b = ''payload'')\<rparr>) = 200 \<and>
   fst (handleEvent (\<lambda>_. Some (CallbackEvent OtherInner)) (\<lambda>_. None)
     \<lparr>hr_headers = True, hr_body = Some ''forged'', hr_hashed = True, hr_signature = (\<lambda>b. b = ''payload'')\<rparr>) \<noteq> 200"
proof -
  let ?r = "\<lparr>hr_headers = True, hr_body = Some ''forged'', hr_hashed = True, hr_signature = (\<lambda>b. b = ''payload'')\<rparr>"
  have "fst (handleEvent (\<lambda>_. Some (CallbackEvent OtherInner)) (\<lambda>_. None) ?r) \<noteq> 200"
    using only_signed_requests [of "\<lambda>_. Some (CallbackEvent OtherInner)" "\<lambda>_. None" ?r "\<lambda>_. None"] by auto
  then show ?thesis by (simp add: handleEvent_def VerifiedBody_def maxVerifiedBodySize_def)
qed

text \<open>The event of the App Home reaches its handler although the message handler reports an error first.\<close>

lemma home_event_published: "ForEvents reply mentioned True mceUsers botCommands (CallbackEvent (HomeOpened user)) = HomePublished user"
  by (simp add: ForEvents_def message_handler_def mention_handler_def apphome_handler_def)

lemma registered_steps: "i \<in> set launch_steps \<or> i = IdentifierInitialView \<Longrightarrow> mget (handlersByIDAndType rs) i = Some [ViewSubmission]"
  unfolding launch_steps_def list.set insert_iff empty_iff by (elim disjE FalseE) (simp_all add: handlersByIDAndType_def flows_def)

lemma back_registered: "mget (handlersByIDAndType rs) BackButtonActionID = Some [BlockActions]"
  by (simp add: handlersByIDAndType_def flows_def)

lemma home_buttons:
  assumes "SectionButton t b \<in> set (HomeView now m me user)"
  shows "b \<in> {''launch'', ''done'', ''refresh'', ''auth'', ''list'', ''mce_create'', ''mce_delete'', ''mce_auth'', ''mce_list''}"
  using assms by (auto simp: HomeView_def launch_section_def mce_section_def Let_def split: option.splits if_splits)

lemma button_opens:
  assumes "b \<in> {''launch'', ''done'', ''refresh'', ''auth'', ''list'', ''mce_create'', ''mce_delete'', ''mce_auth'', ''mce_list''}"
  shows "\<exists>v. openModal rs b = OpensView v \<and> vw_Metadata v = Some (emptyData, b) \<and> vw_Submit v \<noteq> None \<and>
    mget (handlersByIDAndType rs) b = Some [ViewSubmission]"
  using assms unfolding insert_iff empty_iff
  by (elim disjE FalseE)
    (simp_all add: openModal_def viewsByID_def handlersByIDAndType_def flows_def mhas_def mget0_def BuildSimpleView_def list_view_def FirstStepView_def
      FirstStepViewWithData_def mce_FirstStepViewWithData_def)

lemma submission_routed:
  assumes "ic_Type cb = ViewSubmission" "ic_Metadata cb = Some (d, i)" "mget (handlersByIDAndType rs) i = Some [ViewSubmission]"
  shows "route rs cb = Calls i ViewSubmission"
  using assms by (simp add: route_def delegate_def metadataToIdentifier_def Let_def)



end
