(* ===== verification/Dispatch.thy ===== *)
theory Dispatch
  imports CommandParser
begin

text \<open>
  Which command answers a line, in terms of its words: the first command whose leading words the line starts with. The
  expressions of \<open>pkg/slack/parser\<close> are used through what they match on lines with single spaces.
\<close>

section \<open>Leading words\<close>

definition leading :: "Token list \<Rightarrow> string list" where
  "leading ts = map tk_Word (takeWhile (\<lambda>t. \<not> IsParameter t) ts)"

definition starts_with :: "string list \<Rightarrow> string list \<Rightarrow> bool" where
  "starts_with ls ws \<longleftrightarrow> length ls \<le> length ws \<and> map to_lower (take (length ls) ws) = map to_lower ls"

definition plain_word :: "string \<Rightarrow> bool" where
  "plain_word w \<longleftrightarrow> w \<noteq> [] \<and> list_all (\<lambda>c. \<not> re_space c) w"

lemma starts_with_Cons: "starts_with (l # ls) (w # ws) \<longleftrightarrow> to_lower w = to_lower l \<and> starts_with ls ws"
  by (auto simp: starts_with_def)

lemma starts_with_append: "starts_with (ls @ ks) ws \<Longrightarrow> starts_with ls ws"
proof (induction ls arbitrary: ws)
  case (Cons l ls)
  then obtain w vs where "ws = w # vs" by (cases ws) (auto simp: starts_with_def)
  then show ?case using Cons by (simp add: starts_with_Cons)
qed (simp add: starts_with_def)

lemma length_to_lower [simp]: "length (to_lower s) = length s"
  by (simp add: to_lower_def)

lemma re_space_code: "re_space c \<longleftrightarrow> of_char c \<in> {9, 10, 12, 13, 32 :: nat}"
proof -
  have "c = CHR 0x09 \<longleftrightarrow> of_char c = (9 :: nat)" "c = CHR 0x0A \<longleftrightarrow> of_char c = (10 :: nat)" "c = CHR 0x0C \<longleftrightarrow> of_char c = (12 :: nat)"
    "c = CHR 0x0D \<longleftrightarrow> of_char c = (13 :: nat)" "c = CHR 0x20 \<longleftrightarrow> of_char c = (32 :: nat)"
    by (simp_all add: of_char_eq_iff [symmetric, where 'a = nat])
  then show ?thesis by (simp add: re_space_def)
qed

lemma re_space_lower: "re_space (char_lower c) \<longleftrightarrow> re_space c"
proof -
  have "(of_char c :: nat) < 256" by (rule nat_of_char_less_256)
  then have "(of_char (char_lower c) :: nat) = lower_code (of_char c)"
    unfolding char_lower_def of_char_of by (intro mod_less lower_code_less)
  then show ?thesis unfolding re_space_code by (auto simp: lower_code_def)
qed

lemma lower_no_space: "to_lower s = to_lower u \<Longrightarrow> list_all (\<lambda>c. \<not> re_space c) u \<Longrightarrow> list_all (\<lambda>c. \<not> re_space c) s"
proof (induction s arbitrary: u)
  case (Cons c s)
  then obtain d v where u: "u = d # v" by (cases u) (auto simp: to_lower_def)
  then have "char_lower c = char_lower d" "to_lower s = to_lower v" using Cons.prems(1) by (simp_all add: to_lower_def)
  then show ?case using Cons.IH [of v] Cons.prems(2) u re_space_lower [of c] re_space_lower [of d] by simp
qed simp

lemma first_word:
  assumes "plain_word w"
  shows "takeWhile (\<lambda>c. \<not> re_space c) (join '' '' (w # ws)) = w"
    and "drop (length w) (join '' '' (w # ws)) = (if ws = [] then [] else CHR '' '' # join '' '' ws)"
proof -
  have "takeWhile (\<lambda>c. \<not> re_space c) (w @ r) = w" if "r = [] \<or> re_space (hd r)" for r
    using assms that by (cases r) (auto simp: plain_word_def list_all_iff takeWhile_append2)
  moreover have "re_space CHR '' ''" by (simp add: re_space_def)
  ultimately show "takeWhile (\<lambda>c. \<not> re_space c) (join '' '' (w # ws)) = w"
    by (cases ws) (force, simp)
  show "drop (length w) (join '' '' (w # ws)) = (if ws = [] then [] else CHR '' '' # join '' '' ws)"
    by (cases ws) simp_all
qed

text \<open>A literal takes exactly the first word, when the end or a space follows.\<close>

lemma literal_first_word:
  assumes "plain_word w" "plain_word u" and lower: "to_lower (take (length u) (join '' '' (w # ws))) = to_lower u"
    and rest: "drop (length u) (join '' '' (w # ws)) = [] \<or> re_space (hd (drop (length u) (join '' '' (w # ws))))"
  shows "to_lower w = to_lower u \<and> drop (length u) (join '' '' (w # ws)) = (if ws = [] then [] else CHR '' '' # join '' '' ws)"
proof -
  let ?s = "join '' '' (w # ws)" and ?P = "\<lambda>c. \<not> re_space c"
  have no: "list_all ?P (take (length u) ?s)"
    by (rule lower_no_space [OF lower]) (use assms(2) in \<open>simp add: plain_word_def\<close>)
  have "takeWhile ?P (take (length u) ?s @ drop (length u) ?s) = take (length u) ?s"
  proof (cases "drop (length u) ?s")
    case Nil
    then show ?thesis using no by (simp add: list_all_iff takeWhile_eq_all_conv [THEN iffD2])
  next
    case (Cons d r)
    then have "re_space d" using rest by simp
    then show ?thesis using no Cons by (simp add: list_all_iff takeWhile_append2)
  qed
  then have w: "w = take (length u) ?s" using first_word(1) [OF assms(1), of ws] by simp
  have "length (to_lower (take (length u) ?s)) = length (to_lower u)" using lower by simp
  then have "length w = length u" using w by simp
  then show ?thesis using first_word(2) [OF assms(1), of ws] lower w by simp
qed

section \<open>What an expression needs\<close>

lemma first_some_SomeD: "first_some f xs = Some y \<Longrightarrow> \<exists>x \<in> set xs. f x = Some y"
  by (induction xs) (auto split: option.splits)

lemma match_spaces:
  assumes "match_items (Spaces # is) s = Some vs"
  shows "s \<noteq> [] \<and> re_space (hd s)"
proof -
  obtain n where "n \<in> set (candidates Spaces s)" using assms first_some_SomeD by fastforce
  then have "takeWhile re_space s \<noteq> []" by (auto simp: candidates_def)
  then show ?thesis by (cases s) (auto split: if_splits)
qed

lemma match_one_space:
  assumes "match_items (Spaces # is) (CHR '' '' # join '' '' (w # ws)) = Some vs" "plain_word w"
  shows "match_items is (join '' '' (w # ws)) = Some vs"
proof -
  obtain c r where c: "join '' '' (w # ws) = c # r" "\<not> re_space c"
    using assms(2) by (cases w; cases ws) (auto simp: plain_word_def)
  then show ?thesis using assms(1) spaces_one [of c r] by (simp add: captures_def split: option.splits)
qed

definition wf_token :: "Token \<Rightarrow> bool" where
  "wf_token t \<longleftrightarrow> IsParameter t \<or> plain_word (tk_Word t)"

lemma literal_pattern: "\<not> IsParameter t \<Longrightarrow> getInputPattern t = Literal (tk_Word t)"
  by (simp add: getInputPattern_def IsParameter_def)

lemma match_literalD:
  "match_items (Literal u # is) s = Some vs \<Longrightarrow> to_lower (take (length u) s) = to_lower u \<and> match_items is (drop (length u) s) = Some vs"
  by (auto simp: candidates_def captures_def split: if_splits option.splits)

text \<open>What the compiled tokens match starts with their leading words.\<close>

lemma match_starts_with:
  assumes "match_items (compile_tokens ts) (join '' '' ws) = Some vs" "list_all wf_token ts" "list_all plain_word ws"
  shows "starts_with (leading ts) ws"
  using assms
proof (induction ts arbitrary: ws vs rule: compile_tokens.induct)
  case 1
  then show ?case by (simp add: leading_def starts_with_def)
next
  case (2 t)
  show ?case
  proof (cases "IsParameter t")
    case False
    let ?u = "tk_Word t"
    have u: "plain_word ?u" using 2(2) False by (simp add: wf_token_def)
    have m: "to_lower (take (length ?u) (join '' '' ws)) = to_lower ?u" "drop (length ?u) (join '' '' ws) = []"
      using 2(1) False by (auto simp: literal_pattern candidates_def split: if_splits)
    obtain w vs where ws: "ws = w # vs" using m(1) u by (cases ws) (auto simp: plain_word_def to_lower_def)
    then have "to_lower w = to_lower ?u" "vs = []"
      using literal_first_word [of w ?u vs] m u 2(3) by (auto split: if_splits)
    then show ?thesis using ws False by (simp add: leading_def starts_with_def)
  qed (simp add: leading_def starts_with_def)
next
  case (3 t t' ts)
  show ?case
  proof (cases "IsParameter t")
    case False
    let ?u = "tk_Word t" and ?is = "compile_tokens (t' # ts)"
    have u: "plain_word ?u" using 3(3) False by (simp add: wf_token_def)
    have m: "to_lower (take (length ?u) (join '' '' ws)) = to_lower ?u"
      and r: "match_items (Spaces # ?is) (drop (length ?u) (join '' '' ws)) \<noteq> None"
      using match_literalD [of ?u "Spaces # ?is"] 3(2) False by (auto simp: literal_pattern simp del: match_items.simps(2))
    obtain w us where ws: "ws = w # us" using m u by (cases ws) (auto simp: plain_word_def to_lower_def)
    have sp: "drop (length ?u) (join '' '' ws) \<noteq> []" "re_space (hd (drop (length ?u) (join '' '' ws)))"
      using r match_spaces by blast+
    then have w: "to_lower w = to_lower ?u" "drop (length ?u) (join '' '' ws) = (if us = [] then [] else CHR '' '' # join '' '' us)"
      using literal_first_word [of w ?u us] m u 3(4) ws by auto
    obtain x xs where us: "us = x # xs" using sp w(2) by (cases us) auto
    obtain vs' where "match_items (Spaces # ?is) (CHR '' '' # join '' '' us) = Some vs'" using r w(2) us by auto
    then have "match_items ?is (join '' '' us) = Some vs'" using match_one_space us 3(4) ws by fastforce
    then have "starts_with (leading (t' # ts)) us" using 3(1) 3(3,4) ws by simp
    then show ?thesis using ws w(1) False by (simp add: leading_def starts_with_Cons)
  qed (simp add: leading_def starts_with_def)
qed

lemma create_Cons: "map snd (filter (\<lambda>(i, t). \<not> IsParameter t \<or> i < b) (enumerate n (t # ts))) =
    (if \<not> IsParameter t \<or> n < b then [t] else []) @ map snd (filter (\<lambda>(i, t). \<not> IsParameter t \<or> i < b) (enumerate (Suc n) ts))"
  by simp

lemma leading_create: "\<exists>ks. leading (create ts b) = leading ts @ ks"
proof -
  have "\<exists>ks. leading (map snd (filter (\<lambda>(i, t). \<not> IsParameter t \<or> i < b) (enumerate n ts))) = leading ts @ ks" for n
  proof (induction ts arbitrary: n)
    case (Cons t ts)
    show ?case
    proof (cases "IsParameter t")
      case False
      then show ?thesis using Cons [of "Suc n"] by (auto simp: leading_def)
    qed (simp add: leading_def)
  qed (simp add: leading_def)
  then show ?thesis by (simp add: create_def)
qed

lemma set_create: "set (create ts b) \<subseteq> set ts"
  by (auto simp: create_def in_set_enumerate_eq)

lemma match_expressions_SomeD: "match_expressions es s = Some (Some vs) \<Longrightarrow> \<exists>e \<in> set es. match_items e s = Some vs"
  by (induction es) (auto split: if_splits option.splits)

lemma set_generate: "ts \<noteq> [] \<Longrightarrow> set (generate ts) = (\<lambda>b. compile_tokens (create ts b)) ` {..length ts}"
  unfolding generate_def by (simp only: if_False set_map set_rev set_upt atLeast0LessThan lessThan_Suc_atMost)

lemma expression_of: "e \<in> set (generate ts) \<Longrightarrow> \<exists>b \<le> length ts. e = compile_tokens (create ts b)"
  using set_generate [of ts] by (cases "ts = []") (auto simp: generate_def)

text \<open>A command that matches a line starts with the same words.\<close>

lemma Match_starts_with:
  assumes "Match c (join '' '' ws) = Matched params" "list_all wf_token (tokenize (bc_usage c))" "list_all plain_word ws"
  shows "starts_with (leading (tokenize (bc_usage c))) ws"
proof -
  let ?ts = "tokenize (bc_usage c)"
  obtain e vs where e: "e \<in> set (generate ?ts)" "match_items e (join '' '' ws) = Some vs"
    using assms(1) match_expressions_SomeD unfolding Match_def command_match_def by (fastforce split: option.splits)
  then obtain b where b: "e = compile_tokens (create ?ts b)" using expression_of by blast
  have "list_all wf_token (create ?ts b)" using assms(2) set_create by (auto simp: list_all_iff)
  then have "starts_with (leading (create ?ts b)) ws" using match_starts_with e(2) b assms(3) by blast
  then show ?thesis using leading_create starts_with_append by metis
qed

section \<open>What a line needs\<close>

text \<open>The words of a command followed by at most as many values as it has parameters.\<close>

definition fits :: "BotCommand \<Rightarrow> string list \<Rightarrow> bool" where
  "fits c ws =
     (let ts = tokenize (bc_usage c); k = length (leading ts) in
      take k ws = leading ts \<and> k \<le> length ws \<and> length ws \<le> length ts \<and> list_all IsParameter (drop k ts) \<and>
      ts \<noteq> [] \<and> ws \<noteq> [] \<and> \<not> IsParameter (hd ts) \<and> list_all plain_word (take k ws) \<and> list_all plain_value (drop k ws))"

lemma match_expressions_total:
  assumes "[] \<notin> set es" "e \<in> set es" "match_items e s \<noteq> None"
  shows "\<exists>vs. match_expressions es s = Some (Some vs)"
  using assms by (induction es) (auto split: option.splits)

lemma create_take:
  assumes "list_all (\<lambda>t. \<not> IsParameter t) ls" "list_all IsParameter ps" "n \<le> length ps"
  shows "create (ls @ ps) (length ls + n) = ls @ take n ps"
proof -
  let ?P = "\<lambda>(i, t). \<not> IsParameter t \<or> i < length ls + n"
  have "filter ?P (enumerate k ls) = enumerate k ls" for k
    using assms(1) by (auto simp: filter_id_conv list_all_iff in_set_enumerate_eq)
  moreover have "map snd (filter (\<lambda>(i, t). \<not> IsParameter t \<or> i < k + n) (enumerate k ps)) = take n ps" for k
    using assms(2,3)
  proof (induction ps arbitrary: k n)
    case (Cons p ps)
    show ?case
    proof (cases n)
      case 0
      have "filter (\<lambda>(i, t). \<not> IsParameter t \<or> i < k) (enumerate (Suc k) ps) = []"
        using Cons.prems(1) by (auto simp: filter_empty_conv list_all_iff in_set_enumerate_eq)
      then show ?thesis using 0 Cons.prems(1) by simp
    next
      case (Suc m)
      then show ?thesis using Cons.IH [of m "Suc k"] Cons.prems by simp
    qed
  qed simp
  ultimately show ?thesis by (simp add: create_def enumerate_append_eq)
qed

definition wf_command :: "BotCommand \<Rightarrow> bool" where
  "wf_command c = (let ts = tokenize (bc_usage c) in ts \<noteq> [] \<and> \<not> IsParameter (hd ts) \<and> list_all wf_token ts)"

lemma generate_no_Nil:
  assumes "ts \<noteq> []" "\<not> IsParameter (hd ts)"
  shows "[] \<notin> set (generate ts)"
proof
  assume "[] \<in> set (generate ts)"
  then obtain b where "compile_tokens (create ts b) = []" using expression_of by metis
  moreover have "create ts b \<noteq> []" using assms by (cases ts) (simp_all add: create_def)
  ultimately show False using compile_shape by fastforce
qed

lemma Match_no_panic:
  assumes "wf_command c"
  shows "Match c s \<noteq> MatchPanic"
proof -
  have "[] \<notin> set (generate (tokenize (bc_usage c)))"
    using assms by (intro generate_no_Nil) (simp_all add: wf_command_def Let_def)
  moreover have "[] \<notin> set es \<Longrightarrow> match_expressions es s \<noteq> None" for es by (induction es) (auto split: option.splits)
  ultimately show ?thesis unfolding Match_def command_match_def by (simp split: option.splits)
qed

lemma literal_pieces:
  assumes "list_all (\<lambda>t. \<not> IsParameter t) ls" "list_all plain_word (map tk_Word ls)"
  shows "map piece (zip ls (map tk_Word ls)) = map tk_Word ls \<and> plain_pieces (zip ls (map tk_Word ls))"
  using assms by (induction ls) (simp_all add: piece_def plain_pieces_def plain_word_def)

lemma value_pieces:
  assumes "length qs = length vs" "list_all IsParameter qs" "list_all plain_value vs"
  shows "map piece (zip qs vs) = vs \<and> plain_pieces (zip qs vs)"
  using assms by (induction qs vs rule: list_induct2) (simp_all add: piece_def plain_pieces_def plain_value_def)

lemma fits_pieces:
  assumes "fits c ws"
  shows "\<exists>b ps. b \<le> length (tokenize (bc_usage c)) \<and> map fst ps = create (tokenize (bc_usage c)) b \<and> ps \<noteq> [] \<and> plain_pieces ps \<and>
    command_text ps = join '' '' ws"
proof -
  let ?ts = "tokenize (bc_usage c)"
  define ls where "ls = takeWhile (\<lambda>t. \<not> IsParameter t) ?ts"
  define qs where "qs = dropWhile (\<lambda>t. \<not> IsParameter t) ?ts"
  let ?k = "length ls" and ?n = "length ws - length ls"
  have split: "?ts = ls @ qs" by (simp add: ls_def qs_def)
  have lead: "leading ?ts = map tk_Word ls" "length (leading ?ts) = ?k" by (simp_all add: leading_def ls_def)
  have f: "take ?k ws = map tk_Word ls" "?k \<le> length ws" "length ws \<le> length ?ts" "list_all IsParameter qs" "ws \<noteq> []"
      "list_all plain_word (take ?k ws)" "list_all plain_value (drop ?k ws)"
    using assms split lead unfolding fits_def Let_def by (simp_all only: append_eq_conv_conj) auto
  have l: "list_all (\<lambda>t. \<not> IsParameter t) ls" unfolding ls_def by (auto simp: list_all_iff dest: set_takeWhileD)
  have n: "?n \<le> length qs" using f(3) split by (metis diff_le_mono length_append add_diff_cancel_left')
  define ps where "ps = zip ls (take ?k ws) @ zip (take ?n qs) (drop ?k ws)"
  have fst: "map fst ps = ls @ take ?n qs" using f(2) n by (simp add: ps_def)
  have pl: "map piece (zip ls (take ?k ws)) = take ?k ws \<and> plain_pieces (zip ls (take ?k ws))"
    using literal_pieces [OF l] f(1,6) by simp
  have "list_all IsParameter (take ?n qs)" using f(4) by (auto simp: list_all_iff dest: in_set_takeD)
  then have pq: "map piece (zip (take ?n qs) (drop ?k ws)) = drop ?k ws \<and> plain_pieces (zip (take ?n qs) (drop ?k ws))"
    using value_pieces [of "take ?n qs" "drop ?k ws"] f(7) n by simp
  have words: "map piece ps = ws" using pl pq by (simp add: ps_def)
  have "plain_pieces ps" using pl pq by (simp add: ps_def plain_pieces_def)
  then show ?thesis using create_take [OF l f(4) n] fst split words f(2,3,5)
    by (intro exI [of _ "?k + ?n"] exI [of _ ps]) (auto simp: command_text_def)
qed

lemma Match_fits:
  assumes "fits c ws"
  shows "\<exists>params. Match c (join '' '' ws) = Matched params"
proof -
  let ?ts = "tokenize (bc_usage c)"
  obtain b ps where ps: "b \<le> length ?ts" "map fst ps = create ?ts b" "ps \<noteq> []" "plain_pieces ps" "command_text ps = join '' '' ws"
    using fits_pieces [OF assms] by blast
  have ts: "?ts \<noteq> []" "\<not> IsParameter (hd ?ts)" using assms by (simp_all add: fits_def Let_def)
  have "compile_tokens (create ?ts b) \<in> set (generate ?ts)" using ps(1) ts(1) by (simp add: set_generate)
  moreover have "match_items (compile_tokens (create ?ts b)) (join '' '' ws) \<noteq> None"
    using match_command_text [OF ps(3,4)] ps(2,5) by simp
  ultimately obtain vs where "match_expressions (generate ?ts) (join '' '' ws) = Some (Some vs)"
    using match_expressions_total generate_no_Nil [OF ts] by blast
  then show ?thesis by (simp add: Match_def command_match_def)
qed

section \<open>The command that answers a line\<close>

definition first_command :: "BotCommand list \<Rightarrow> string list \<Rightarrow> BotCommand option" where
  "first_command cs ws = find (\<lambda>c. starts_with (leading (tokenize (bc_usage c))) ws) cs"

lemma Match_clash:
  assumes "wf_command d" "\<not> starts_with (leading (tokenize (bc_usage d))) ws" "list_all plain_word ws"
  shows "Match d (join '' '' ws) = NoMatch"
proof -
  have "Match d (join '' '' ws) \<noteq> Matched p" for p
    using Match_starts_with assms by (auto simp: wf_command_def Let_def)
  then show ?thesis using Match_no_panic [OF assms(1)] by (cases "Match d (join '' '' ws)") auto
qed

text \<open>A line that starts like no command is not recognised.\<close>

lemma unrecognised_by_words:
  assumes "list_all wf_command cs" "first_command cs ws = None" "list_all plain_word ws"
  shows "find_command allowed cs (join '' '' ws) = Unrecognized"
  using assms(1,2)
proof (induction cs)
  case (Cons d cs)
  then have "Match d (join '' '' ws) = NoMatch" "find_command allowed cs (join '' '' ws) = Unrecognized"
    using Match_clash [of d ws] assms(3) by (auto simp: first_command_def split: if_splits)
  then show ?case by (cases allowed) simp_all
qed simp

lemma dispatched_core:
  assumes "list_all (\<lambda>c. wf_command c \<and> \<not> bc_private c) cs" "first_command cs ws = Some c" "fits c ws" "list_all plain_word ws"
  shows "\<exists>params. find_command allowed cs (join '' '' ws) = Executed c params"
  using assms(1,2)
proof (induction cs)
  case (Cons d cs)
  show ?case
  proof (cases "starts_with (leading (tokenize (bc_usage d))) ws")
    case True
    then have "c = d" using Cons.prems(2) by (simp add: first_command_def)
    then show ?thesis using Match_fits [OF assms(3)] Cons.prems(1) by auto
  next
    case False
    then have "Match d (join '' '' ws) = NoMatch" using Match_clash assms(4) Cons.prems(1) by simp
    then show ?thesis using Cons False by (simp add: first_command_def)
  qed
qed (simp add: first_command_def)

text \<open>
  C21: A line of words is answered by the first supported command whose leading words it starts with (in upper or lower case), if
  the rest of the line has at most as many plain values as the command has parameters.
\<close>

theorem dispatched_by_words:
  assumes "list_all (\<lambda>c. wf_command c \<and> \<not> bc_private c) cs" "first_command cs ws = Some c" "fits c ws" "list_all plain_word ws"
  shows "\<exists>params. find_command allowed cs (join '' '' ws) = Executed c params"
  using assms by (rule dispatched_core)

theorem dispatched_by_words_witness:
  "\<exists>params. find_command False [NewBotCommand ''test upgrade <from>'' False, NewBotCommand ''test <name>'' False] ''test e2e'' =
     Executed (NewBotCommand ''test <name>'' False) params"
proof -
  let ?cs = "[NewBotCommand ''test upgrade <from>'' False, NewBotCommand ''test <name>'' False]" and ?ws = "[''test'', ''e2e'']"
  let ?c = "NewBotCommand ''test <name>'' False"
  have "list_all (\<lambda>c. wf_command c \<and> \<not> bc_private c) ?cs" by code_simp
  moreover have "first_command ?cs ?ws = Some ?c" by code_simp
  moreover have "fits ?c ?ws" by code_simp
  moreover have "list_all plain_word ?ws" by code_simp
  ultimately have "\<exists>params. find_command False ?cs (join '' '' ?ws) = Executed ?c params" by (rule dispatched_by_words)
  then show ?thesis by simp
qed

section \<open>The table of leading words\<close>

text \<open>The leading words and the number of tokens of a command whose parameters are all at its end.\<close>

definition signature :: "BotCommand \<Rightarrow> string list \<times> nat" where
  "signature c = (let ts = tokenize (bc_usage c) in (leading ts, length ts))"

definition params_last :: "BotCommand \<Rightarrow> bool" where
  "params_last c = (let ts = tokenize (bc_usage c) in list_all IsParameter (drop (length (leading ts)) ts))"

definition signatures :: "(string list \<times> nat) list" where
  "signatures =
     [([''launch''], 3), ([''rosa'', ''create''], 4), ([''rosa'', ''lookup''], 3), ([''rosa'', ''describe''], 3), ([''list''], 1), ([''done''], 1),
      ([''refresh''], 1), ([''auth''], 1), ([''test'', ''upgrade''], 5), ([''test''], 4), ([''build''], 2), ([''workflow-launch''], 4),
      ([''workflow-test''], 4), ([''workflow-upgrade''], 5), ([''version''], 1), ([''lookup''], 3), ([''catalog'', ''build''], 4),
      ([''mce'', ''create''], 5), ([''mce'', ''auth''], 3), ([''mce'', ''delete''], 3), ([''mce'', ''list''], 3), ([''mce'', ''lookup''], 2),
      ([''request''], 3), ([''revoke''], 2)]"

definition command_facts :: "BotCommand \<Rightarrow> (string list \<times> nat) \<times> bool" where
  "command_facts c =
     (let ts = tokenize (bc_usage c); ls = leading ts in
      ((ls, length ts), ts \<noteq> [] \<and> \<not> IsParameter (hd ts) \<and> list_all wf_token ts \<and> \<not> bc_private c \<and> list_all IsParameter (drop (length ls) ts)))"

lemma command_facts_conv: "command_facts c = (signature c, wf_command c \<and> \<not> bc_private c \<and> params_last c)"
  by (simp add: command_facts_def signature_def wf_command_def params_last_def Let_def)

lemma supported_facts: "map command_facts SupportedCommands = map (\<lambda>s. (s, True)) signatures"
  by code_simp

lemma supported_signatures: "map signature SupportedCommands = signatures"
proof -
  have "map fst (map command_facts SupportedCommands) = signatures" unfolding supported_facts by (simp add: comp_def)
  then show ?thesis by (simp add: command_facts_conv comp_def)
qed

lemma supported_facts_hold: "c \<in> set SupportedCommands \<Longrightarrow> wf_command c \<and> \<not> bc_private c \<and> params_last c"
proof -
  have "\<forall>x \<in> set (map command_facts SupportedCommands). snd x" unfolding supported_facts by simp
  then show "c \<in> set SupportedCommands \<Longrightarrow> wf_command c \<and> \<not> bc_private c \<and> params_last c" by (auto simp: command_facts_conv)
qed

lemma supported_wf: "list_all (\<lambda>c. wf_command c \<and> \<not> bc_private c) SupportedCommands"
  using supported_facts_hold by (simp add: list_all_iff)

lemma supported_params_last: "list_all params_last SupportedCommands"
  using supported_facts_hold by (simp add: list_all_iff)

text \<open>Lines in lower case.\<close>

definition plain_line :: "string list \<Rightarrow> bool" where
  "plain_line ws = list_all (\<lambda>w. plain_value w \<and> to_lower w = w) ws"

lemma starts_with_lower:
  assumes "list_all (\<lambda>w. to_lower w = w) ws" "list_all (\<lambda>w. to_lower w = w) ls"
  shows "starts_with ls ws \<longleftrightarrow> take (length ls) ws = ls"
proof -
  have "map to_lower (take (length ls) ws) = take (length ls) ws" using assms(1) by (intro map_idI) (auto simp: list_all_iff dest: in_set_takeD)
  moreover have "map to_lower ls = ls" using assms(2) by (intro map_idI) (simp add: list_all_iff)
  moreover have "take (length ls) ws = ls \<Longrightarrow> length ls \<le> length ws" by (metis length_take min.cobounded1)
  ultimately show ?thesis by (auto simp: starts_with_def)
qed

lemma signatures_lower: "list_all (\<lambda>(ls, n). ls \<noteq> [] \<and> list_all (\<lambda>w. to_lower w = w) ls) (map signature SupportedCommands)"
  unfolding supported_signatures by code_simp

lemma find_map: "find P (map f xs) = map_option f (find (P \<circ> f) xs)"
  by (induction xs) auto

lemma find_cong_on: "(\<And>x. x \<in> set xs \<Longrightarrow> P x = Q x) \<Longrightarrow> find P xs = find Q xs"
  by (induction xs) auto

lemma line_runs:
  assumes sig: "find (\<lambda>(ls, n). take (length ls) ws = ls) (map signature SupportedCommands) = Some (ls, n)"
    and "plain_line ws" "length ws \<le> n"
  shows "\<exists>c params. find_command allowed SupportedCommands (join '' '' ws) = Executed c params \<and> signature c = (ls, n)"
proof -
  have words: "list_all (\<lambda>w. to_lower w = w) ws" "list_all plain_word ws" "list_all plain_value ws"
    using assms(2) by (auto simp: plain_line_def list_all_iff plain_word_def plain_value_def)
  obtain c where c: "find ((\<lambda>(ls, n). take (length ls) ws = ls) \<circ> signature) SupportedCommands = Some c" "signature c = (ls, n)"
    using sig by (auto simp: find_map)
  have mem: "c \<in> set SupportedCommands" using c(1) by (auto simp: find_Some_iff)
  have low: "list_all (\<lambda>w. to_lower w = w) (leading (tokenize (bc_usage d)))" if "d \<in> set SupportedCommands" for d
    using signatures_lower that by (auto simp: list_all_iff signature_def Let_def)
  have "first_command SupportedCommands ws = Some c"
    using c(1) starts_with_lower [OF words(1) low] unfolding first_command_def
    by (subst find_cong_on [where Q = "(\<lambda>(ls, n). take (length ls) ws = ls) \<circ> signature"]) (auto simp: signature_def Let_def)
  moreover have "fits c ws"
  proof -
    let ?ts = "tokenize (bc_usage c)"
    have l: "leading ?ts = ls" "length ?ts = n" using c(2) by (simp_all add: signature_def Let_def)
    have t: "take (length ls) ws = ls" using sig by (auto simp: find_Some_iff)
    have wf: "wf_command c" "params_last c" "ls \<noteq> []"
      using supported_wf supported_params_last signatures_lower mem c(2) by (auto simp: list_all_iff)
    have "length ls \<le> length ws" using t by (metis length_take min.cobounded1)
    moreover have "list_all plain_word (take (length ls) ws)" "list_all plain_value (drop (length ls) ws)"
      using words(2,3) by (auto simp: list_all_iff dest: in_set_takeD in_set_dropD)
    ultimately show ?thesis using wf t l assms(3) unfolding fits_def wf_command_def params_last_def Let_def by auto
  qed
  ultimately show ?thesis using dispatched_core [OF supported_wf] words(2) c(2) by blast
qed

text \<open>Checking a line against the table.\<close>

definition checks :: "string \<Rightarrow> bool" where
  "checks line =
     (let ws = split_char CHR '' '' line in
      case find (\<lambda>(ls, n). take (length ls) ws = ls) signatures of
        None \<Rightarrow> False | Some (ls, n) \<Rightarrow> length ws \<le> n \<and> plain_line ws)"

definition runs :: "string \<Rightarrow> bool" where
  "runs line \<longleftrightarrow> (\<exists>c params. find_command False SupportedCommands line = Executed c params \<and>
     (let ls = leading (tokenize (bc_usage c)) in take (length ls) (split_char CHR '' '' line) = ls))"

lemma checks_runs:
  assumes "checks line"
  shows "runs line"
proof -
  let ?ws = "split_char CHR '' '' line"
  obtain ls n where f: "find (\<lambda>(ls, n). take (length ls) ?ws = ls) signatures = Some (ls, n)" "length ?ws \<le> n" "plain_line ?ws"
    using assms by (auto simp: checks_def Let_def split: option.splits)
  obtain c params where c: "find_command False SupportedCommands (join '' '' ?ws) = Executed c params" "signature c = (ls, n)"
    using line_runs [OF f(1) [folded supported_signatures] f(3,2)] by blast
  moreover have "take (length ls) ?ws = ls" using f(1) by (auto simp: find_Some_iff)
  ultimately show ?thesis using join_split_char [of "CHR '' ''" line] by (auto simp: runs_def signature_def Let_def)
qed

text \<open>A line in lower case whose first word starts no command is not recognised.\<close>

lemma checks_fail:
  assumes "find (\<lambda>(ls, n). take (length ls) ws = ls) signatures = None" "plain_line ws"
  shows "find_command allowed SupportedCommands (join '' '' ws) = Unrecognized"
proof -
  have words: "list_all (\<lambda>w. to_lower w = w) ws" "list_all plain_word ws"
    using assms(2) by (auto simp: plain_line_def list_all_iff plain_word_def plain_value_def)
  have "\<not> starts_with (leading (tokenize (bc_usage c))) ws" if "c \<in> set SupportedCommands" for c
  proof -
    have c: "signature c \<in> set signatures" using that by (simp flip: supported_signatures)
    have "list_all (\<lambda>w. to_lower w = w) (leading (tokenize (bc_usage c)))"
      using signatures_lower that by (auto simp: list_all_iff signature_def Let_def)
    then show ?thesis using starts_with_lower [OF words(1)] assms(1) c by (auto simp: find_None_iff signature_def Let_def)
  qed
  then have "first_command SupportedCommands ws = None" by (auto simp: first_command_def find_None_iff)
  moreover have "list_all wf_command SupportedCommands" using supported_facts_hold by (simp add: list_all_iff)
  ultimately show ?thesis using unrecognised_by_words words(2) by blast
qed

end
