(* ===== verification/Help.thy ===== *)
theory Help
  imports Router Dispatch
begin

text \<open>
  The answers to direct messages: the help texts and the posting of answers of
  \<open>pkg/slack/events/messages/message_handler.go\<close>, the descriptions of the commands and the responders of \<open>pkg/slack/slack.go\<close>, through
  which the manager notifies users. Shown are that the examples of the help texts work, that the texts fit into a message, and what the
  responders post.
\<close>

section \<open>Descriptions of the commands\<close>

definition CodeSlice :: "string list \<Rightarrow> string list" where
  "CodeSlice items = map (\<lambda>s. ''`'' @ s @ ''`'') items"

record CommandDefinition =
  cd_Description :: string
  cd_Example :: string

text \<open>The definitions of \<open>SupportedCommands\<close>, by usage.\<close>

definition CommandDefinitions :: "(string, CommandDefinition) gomap" where
  "CommandDefinitions =
     [(''launch <image_or_version_or_prs> <options>'',
       \<lparr>cd_Description = ''Launch an OpenShift cluster using a known image, version, or PR(s). The <image_or_version_or_prs> must contain an Openshift version. You may omit the <options> argument. Arguments can be specified as any number of comma-delimited values. Use `nightly` for the latest OCP build, `ci` for the the latest CI build, provide a version directly from any listed on https://amd64.ocp.releases.ci.openshift.org, a stream name (4.19.0-0.ci, 4.19.0-0.nightly, etc), a major/minor `X.Y` to load the '' @ [CHR 0x22] @ ''next stable'' @ [CHR 0x22] @ '' version, from nightly, for that version (`4.19`), `<org>/<repo>#<pr>` to launch from any combination of PRs, or an image for the first argument. Options is a comma-delimited list of variations including platform ('' @
       join '', '' (CodeSlice SupportedPlatforms) @
       ''), architecture ('' @
       join '', '' (CodeSlice SupportedArchitectures) @
       ''), and variant ('' @
       join '', '' (CodeSlice SupportedParameters) @
       '').'',
        cd_Example = ''launch 4.19,openshift/installer#7160,openshift/machine-config-operator#3688 gcp,techpreview''\<rparr>),
      (''rosa create <version> <duration>'',
       \<lparr>cd_Description = ''Launch an cluster in ROSA. Only GA Openshift versions are supported at the moment.'',
        cd_Example = ''rosa create 4.19 3h''\<rparr>),
      (''rosa lookup <version>'',
       \<lparr>cd_Description = ''Find openshift version(s) with provided prefix that is supported in ROSA.'',
        cd_Example = ''rosa lookup 4.19''\<rparr>),
      (''rosa describe <cluster>'',
       \<lparr>cd_Description = ''Display the details of the specified ROSA cluster.'',
        cd_Example = ''rosa describe s9h9g-9b6nj-x94''\<rparr>),
      (''list'',
       \<lparr>cd_Description = ''See who is hogging all the clusters.'',
        cd_Example = []\<rparr>),
      (''done'',
       \<lparr>cd_Description = ''Terminate the running cluster'',
        cd_Example = []\<rparr>),
      (''refresh'',
       \<lparr>cd_Description = ''If the cluster is currently marked as failed, retry fetching its credentials in case of an error.'',
        cd_Example = []\<rparr>),
      (''auth'',
       \<lparr>cd_Description = ''Send the credentials for the cluster you most recently requested'',
        cd_Example = []\<rparr>),
      (''test upgrade <from> <to> <options>'',
       \<lparr>cd_Description = ''Run the upgrade tests between two release images. The arguments may be a pull spec of a release image or tags from https://amd64.ocp.releases.ci.openshift.org. You may change the upgrade test by passing `test=NAME` in options with one of '' @
       join '', '' (CodeSlice SupportedUpgradeTests),
        cd_Example = ''test upgrade 4.17 4.19 aws''\<rparr>),
      (''test <name> <image_or_version_or_prs> <options>'',
       \<lparr>cd_Description = ''Run the requested test suite from an image or release or built PRs. Supported test suites are '' @
       join '', '' (CodeSlice SupportedTests) @
       ''. The from argument may be a pull spec of a release image or tags from https://amd64.ocp.releases.ci.openshift.org. '',
        cd_Example = ''test e2e 4.19 vsphere''\<rparr>),
      (''build <pullrequest>'',
       \<lparr>cd_Description = ''Create a new release image from one or more pull requests. The successful build location will be sent to you when it completes and then preserved for 12 hours.  To obtain a pull secret use `oc registry login --to /path/to/pull-secret` after using `oc login` to login to the relevant CI cluster.'',
        cd_Example = ''build openshift/operator-framework-olm#68,operator-framework/operator-marketplace#396''\<rparr>),
      (''workflow-launch <name> <image_or_version_or_prs> <parameters>'',
       \<lparr>cd_Description = ''Launch a cluster using the requested workflow from an image or release or built PRs. The from argument may be a pull spec of a release image or tags from https://amd64.ocp.releases.ci.openshift.org.'',
        cd_Example = ''workflow-launch openshift-e2e-gcp-windows-node 4.19 gcp''\<rparr>),
      (''workflow-test <name> <image_or_version_or_prs> <parameters>'',
       \<lparr>cd_Description = ''Start the test using the requested workflow from an image or release or built PRs. The from argument may be a pull spec of a release image or tags from https://amd64.ocp.releases.ci.openshift.org.'',
        cd_Example = ''workflow-test openshift-e2e-gcp 4.19''\<rparr>),
      (''workflow-upgrade <name> <from_image_or_version_or_prs> <to_image_or_version_or_prs> <parameters>'',
       \<lparr>cd_Description = ''Run a custom upgrade using the requested workflow from an image or release or built PRs to a specified version/image/pr from https://amd64.ocp.releases.ci.openshift.org. '',
        cd_Example = ''workflow-upgrade openshift-upgrade-azure-ovn 4.17 4.19 azure''\<rparr>),
      (''version'',
       \<lparr>cd_Description = ''Report the version of the bot'',
        cd_Example = []\<rparr>),
      (''lookup <image_or_version_or_prs> <architecture>'',
       \<lparr>cd_Description = ''Get info about a version.'',
        cd_Example = ''lookup 4.19 arm64''\<rparr>),
      (''catalog build <pullrequest> <bundle_name>'',
       \<lparr>cd_Description = ''Create an operator, bundle, and catalog from a pull request. The successful build location will be sent to you when it completes and then preserved for 12 hours.  To obtain a pull secret use `oc registry login --to /path/to/pull-secret` after using `oc login` to login to the relevant CI cluster.'',
        cd_Example = ''catalog build openshift/aws-efs-csi-driver-operator#75 aws-efs-csi-driver-operator-bundle''\<rparr>),
      (''mce create <image_or_version_or_prs> <duration> <platform>'',
       \<lparr>cd_Description = ''Create a new cluster using Hive and MCE.'',
        cd_Example = ''mce create 4.16.7 6h aws''\<rparr>),
      (''mce auth <name>'',
       \<lparr>cd_Description = ''Print kubeconfig and kubeadmin password for specified MCE cluster.'',
        cd_Example = ''mce auth mycluster''\<rparr>),
      (''mce delete <cluster_name>'',
       \<lparr>cd_Description = ''Delete a previously created MCE cluster.'',
        cd_Example = ''mce delete mycluster''\<rparr>),
      (''mce list <all>'',
       \<lparr>cd_Description = ''List active MCE clusters. Append `all` to list clusters for all users.'',
        cd_Example = ''mce list all''\<rparr>),
      (''mce lookup'',
       \<lparr>cd_Description = ''List available versions for MCE clusters.'',
        cd_Example = []\<rparr>),
      (''request <resource?> <justification?>'',
       \<lparr>cd_Description = ''Request access to workspace. Access is granted for 7 days. Must be member of Hybrid Platforms organization.'',
        cd_Example = ''request gcp-access '' @ [CHR 0x22] @ ''Need to debug CI infrastructure issues'' @ [CHR 0x22]\<rparr>),
      (''revoke <resource?>'',
       \<lparr>cd_Description = ''Revoke your workspace access before expiration.'',
        cd_Example = ''revoke gcp-access''\<rparr>)]"

definition Definition :: "BotCommand \<Rightarrow> CommandDefinition" where
  "Definition c = mget0 \<lparr>cd_Description = [], cd_Example = []\<rparr> CommandDefinitions (bc_usage c)"

section \<open>Help texts\<close>

text \<open>An example of a help text: a command and what it does.\<close>

definition example :: "string \<times> string \<Rightarrow> string" where
  "example e = bullet @ '' `'' @ fst e @ ''` - '' @ snd e @ newline"

definition overview_examples :: "(string \<times> string) list" where
  "overview_examples =
     [(''launch 4.19 aws'', ''Launch OpenShift 4.19 on AWS''),
      (''launch 4.19 hypershift-hosted'', ''Launch OpenShift 4.19 on Hypershift''),
      (''rosa create 4.19 3h'', ''Create ROSA cluster for 3 hours''),
      (''help launch'', ''See all launch options'')]"

definition GenerateHelpOverviewMessage :: "bool \<Rightarrow> string" where
  "GenerateHelpOverviewMessage allowPrivate =
     ''*'' @ [CHR 0xF0, CHR 0x9F, CHR 0xA4, CHR 0x96] @ '' Cluster Bot - Quick Start*'' @ newline @ newline @
     ''*Most Used Commands:*'' @ newline @
     bullet @ '' `help launch` - Launch OpenShift clusters'' @ newline @
     bullet @ '' `help rosa` - ROSA (Red Hat OpenShift Service on AWS)'' @ newline @
     bullet @ '' `list` - See active clusters'' @ newline @
     bullet @ '' `done` - Terminate your cluster'' @ newline @
     bullet @ '' `auth` - Get cluster credentials'' @ newline @ newline @
     newline @ ''*All Commands:*'' @ newline @
     newline @ ''*Cluster Launching:*'' @ newline @
     bullet @ '' `launch <image_or_version_or_prs> <options>` - Launch OpenShift clusters using images, versions, or PRs'' @ newline @
     bullet @ '' `workflow-launch <name> <image_or_version_or_prs> <parameters>` - Launch using custom workflows'' @ newline @
     newline @ ''*ROSA Clusters:*'' @ newline @
     bullet @ '' `rosa create <version> <duration>` - Create ROSA clusters with automatic teardown'' @ newline @
     bullet @ '' `rosa lookup <version>` - Find supported ROSA versions by prefix'' @ newline @
     bullet @ '' `rosa describe <cluster>` - Display details of ROSA cluster'' @ newline @
     newline @ ''*Cluster Management:*'' @ newline @
     bullet @ '' `list` - See who is using all the clusters'' @ newline @
     bullet @ '' `done` - Terminate your running cluster'' @ newline @
     bullet @ '' `auth` - Get credentials for your most recent cluster'' @ newline @
     bullet @ '' `refresh` - Retry fetching credentials if cluster marked as failed'' @ newline @
     bullet @ '' `request <resource> '' @ [CHR 0x22] @ ''<justification>'' @ [CHR 0x22] @ ''` - Request access to GCP workspace (7-day access)'' @ newline @
     bullet @ '' `revoke <resource>` - Remove your GCP workspace access early'' @ newline @
     newline @ ''*Testing:*'' @ newline @
     bullet @ '' `test <name> <image_or_version_or_prs> <options>` - Run test suites from images or PRs'' @ newline @
     bullet @ '' `test upgrade <from> <to> <options>` - Run upgrade tests between release images'' @ newline @
     bullet @ '' `workflow-test <name> <image_or_version_or_prs> <parameters>` - Test using custom workflows'' @ newline @
     bullet @ '' `workflow-upgrade <name> <from> <to> <parameters>` - Custom upgrade workflows'' @ newline @
     newline @ ''*Building:*'' @ newline @
     bullet @ '' `build <version>,<pullrequest>` - Create release image from PRs (preserved 1 week)'' @ newline @
     bullet @ '' `catalog build <version>,<pullrequest> <bundle_name>` - Create operator catalog from PR'' @ newline @
     newline @ ''*Information:*'' @ newline @
     bullet @ '' `version` - Report the bot version'' @ newline @
     bullet @ '' `lookup <image_or_version_or_prs> <architecture>` - Get version info'' @ newline @
     (if allowPrivate then
     newline @ ''*MCE Clusters (Private):*'' @ newline @
     bullet @ '' `mce create <image_or_version_or_prs> <duration> <platform>` - Create clusters using Hive and MCE'' @ newline @
     bullet @ '' `mce auth <name>` - Get kubeconfig and kubeadmin password for MCE cluster'' @ newline @
     bullet @ '' `mce delete <cluster_name>` - Delete MCE cluster'' @ newline @
     bullet @ '' `mce list <all>` - List active MCE clusters'' @ newline @
     bullet @ '' `mce lookup` - List available MCE versions'' @ newline else []) @
     newline @ ''*Category Help:*'' @ newline @
     bullet @ '' `help launch` - Cluster launching'' @ newline @
     bullet @ '' `help rosa` - ROSA clusters'' @ newline @
     bullet @ '' `help test` - Testing & workflows'' @ newline @
     bullet @ '' `help build` - Build images'' @ newline @
     bullet @ '' `help manage` - Cluster management'' @ newline @
     (if allowPrivate then
     bullet @ '' `help mce` - MCE clusters (private)'' @ newline else []) @
     newline @ ''*Examples:*'' @ newline @
     concat (map example overview_examples) @
     newline @
     ''*Additional Links*'' @ newline @
     ''Please check out our <https://github.com/openshift/ci-chat-bot/blob/master/docs/FAQ.md|Frequently Asked Questions> for more information.'' @ newline @
     ''You can also reach out to us in <https://redhat-internal.slack.com/archives/CNHC2DK2M|#forum-ocp-crt> for more information.'' @ newline"

definition launch_examples :: "(string \<times> string) list" where
  "launch_examples =
     [(''launch 4.19'', ''Default: latest 4.19 on `hypershift-hosted` `amd64`''),
      (''launch nightly aws'', ''Latest nightly build''),
      (''launch 4.19 gcp,arm64'', ''Different platform + architecture''),
      (''launch ci azure,compact,ovn'', ''CI build + size + networking''),
      (''launch 4.19 aws,arm64,fips,private'', ''Security-focused cluster''),
      (''launch 4.19.0-0.nightly metal,single-node,techpreview'', ''Advanced config''),
      (''launch 4.19,openshift/installer#123 vsphere,multi,techpreview'', ''PR testing''),
      (''launch 4.19,openshift/installer#123,openshift/mco#456 aws,multi-zone'', ''Multi-PR'')]"

definition GenerateLaunchHelpMessage :: "string" where
  "GenerateLaunchHelpMessage =
     ''*'' @ [CHR 0xF0, CHR 0x9F, CHR 0x9A, CHR 0x80] @ '' Cluster Launching*'' @ newline @ newline @
     ''*launch*'' @ newline @
     ''```'' @ newline @ ''launch <image_or_version_or_prs> <options>'' @ newline @ ''```'' @ newline @
     ''Launch an OpenShift cluster using a known image, version, or PR(s).'' @ newline @ newline @
     ''*Input Formats for <image_or_version_or_prs>:*'' @ newline @
     bullet @ '' `nightly` - Latest OCP nightly build'' @ newline @
     bullet @ '' `ci` - Latest CI build'' @ newline @
     bullet @ '' `4.19` - Major.minor for next stable from nightly'' @ newline @
     bullet @ '' `4.19.0-0.nightly` - Specific stream name'' @ newline @
     bullet @ '' `openshift/installer#123` - Pull request(s)'' @ newline @
     bullet @ '' Direct image pull spec from releases page'' @ newline @ newline @
     ''*Quick Reference - Common Configurations:*'' @ newline @
     bullet @ '' Basic AWS: `launch 4.19 aws`'' @ newline @
     bullet @ '' Compact cluster: `launch 4.19 aws,compact`'' @ newline @
     bullet @ '' ARM on GCP: `launch 4.19 gcp,arm64`'' @ newline @
     bullet @ '' Secure cluster: `launch 4.19 aws,fips,private`'' @ newline @
     bullet @ '' Test environment: `launch 4.19 metal,compact,techpreview`'' @ newline @ newline @
     ''*Important Notes:*'' @ newline @
     bullet @ '' Must contain an OpenShift version'' @ newline @
     bullet @ '' Options can be omitted (defaults: `hypershift-hosted`,`amd64`)'' @ newline @
     bullet @ '' Options is a comma-delimited list including platform, architecture, and variants'' @ newline @
     bullet @ '' Order doesn't matter except for readability'' @ newline @ newline @
     ''*Platform (choose one):*'' @ newline @
     bullet @ '' Most common: `aws`, `gcp`, `azure`, `vsphere`, `metal`'' @ newline @
     bullet @ '' Cloud: `alibaba`, `nutanix`, `openstack`'' @ newline @
     bullet @ '' Specialized: `ovirt`, `hypershift-hosted`, `hypershift-hosted-powervs`, `azure-stackhub`'' @ newline @ newline @
     ''*Architecture (choose one, optional):*'' @ newline @
     bullet @ '' `amd64` (default), `arm64`, `multi`'' @ newline @ newline @
     ''*Networking (choose one primary, optional):*'' @ newline @
     bullet @ '' Primary: `ovn` (default), `sdn`, `kuryr`'' @ newline @
     bullet @ '' Modifiers: `ovn-hybrid`, `proxy`'' @ newline @
     bullet @ '' IP versions: `ipv4` (default), `ipv6`, `dualstack`, `dualstack-primaryv6`'' @ newline @ newline @
     ''*Cluster Size & Configuration (combine as needed):*'' @ newline @
     bullet @ '' Size: `compact` (3-node), `single-node`, `large`, `xlarge`'' @ newline @
     bullet @ '' Zones: `multi-zone`, `multi-zone-techpreview`'' @ newline @ newline @
     ''*Security & Compliance (combine as needed):*'' @ newline @
     bullet @ '' `fips`, `private`, `rt`, `no-capabilities`'' @ newline @ newline @
     ''*Advanced Options (combine as needed):*'' @ newline @
     bullet @ '' Installation: `upi`, `preserve-bootstrap`'' @ newline @
     bullet @ '' Runtime: `techpreview`, `devpreview`'' @ newline @
     bullet @ '' Infrastructure: `mirror`, `shared-vpc`, `no-spot`, `virtualization-support`'' @ newline @
     bullet @ '' Special: `test`, `bundle`, `nfv`'' @ newline @ newline @
     ''*Option Guidelines:*'' @ newline @
     bullet @ '' Start with platform (aws, gcp, etc.)'' @ newline @
     bullet @ '' Add architecture if not default (arm64, multi)'' @ newline @
     bullet @ '' Add networking if needed (sdn, kuryr, ipv6)'' @ newline @
     bullet @ '' Add size/features last (compact, fips, techpreview, devpreview)'' @ newline @
     bullet @ '' Bot will validate combinations and inform about conflicts'' @ newline @ newline @
     ''*Examples (Simple to Complex):*'' @ newline @
     concat (map example launch_examples)"

definition rosa_examples :: "(string \<times> string) list" where
  "rosa_examples =
     [(''rosa create 4.19 3h'', ''Create 4.19 cluster for 3 hours''),
      (''rosa create 4.18 24h'', ''Create 4.18 cluster for 24 hours''),
      (''rosa describe my-cluster'', ''Get cluster details'')]"

definition GenerateRosaHelpMessage :: "string" where
  "GenerateRosaHelpMessage =
     ''*'' @ [CHR 0xE2, CHR 0x98, CHR 0x81, CHR 0xEF, CHR 0xB8, CHR 0x8F] @ '' ROSA (Red Hat OpenShift Service on AWS)*'' @ newline @ newline @
     ''*rosa create*'' @ newline @
     ''```'' @ newline @ ''rosa create <version> <duration>'' @ newline @ ''```'' @ newline @
     ''Create a ROSA cluster on AWS with automatic teardown.'' @ newline @ newline @
     ''*rosa describe*'' @ newline @
     ''```'' @ newline @ ''rosa describe <cluster_name>'' @ newline @ ''```'' @ newline @
     ''Get detailed information about a ROSA cluster.'' @ newline @ newline @
     ''*Common Options:*'' @ newline @
     bullet @ '' Duration: `1h`, `3h`, `24h`, `48h`'' @ newline @
     bullet @ '' Versions: Latest stable releases'' @ newline @
     bullet @ '' Automatic cleanup after expiration'' @ newline @ newline @
     ''*Examples:*'' @ newline @
     concat (map example rosa_examples)"

definition test_examples :: "(string \<times> string) list" where
  "test_examples =
     [(''test e2e 4.19 aws'', ''Run e2e tests on AWS''),
      (''test e2e-serial 4.19 gcp'', ''Run serial tests''),
      (''test upgrade 4.17 4.19 aws'', ''Test upgrade path''),
      (''test upgrade 4.17 4.19 aws,test=e2e-upgrade-all'', ''All upgrade tests''),
      (''workflow-test openshift-e2e-gcp 4.19'', ''Run GCP workflow''),
      (''workflow-upgrade openshift-upgrade-azure-ovn 4.17 4.19 azure'', ''Custom upgrade'')]"

definition GenerateTestHelpMessage :: "string" where
  "GenerateTestHelpMessage =
     ''*'' @ [CHR 0xF0, CHR 0x9F, CHR 0xA7, CHR 0xAA] @ '' Testing & Workflows*'' @ newline @ newline @
     ''*test*'' @ newline @
     ''```'' @ newline @ ''test <name> <image_or_version_or_prs> <options>'' @ newline @ ''```'' @ newline @
     ''Run the requested test suite from an image, release, or built PRs.'' @ newline @ newline @
     ''*Available Test Suites:*'' @ newline @
     bullet @ '' `e2e` - End-to-end conformance tests'' @ newline @
     bullet @ '' `e2e-serial` - Serial end-to-end tests'' @ newline @
     bullet @ '' `e2e-all` - All end-to-end tests'' @ newline @
     bullet @ '' `e2e-disruptive` - Disruptive tests'' @ newline @
     bullet @ '' `e2e-disruptive-all` - All disruptive tests'' @ newline @
     bullet @ '' `e2e-builds` - Build-related tests'' @ newline @
     bullet @ '' `e2e-image-ecosystem` - Image ecosystem tests'' @ newline @
     bullet @ '' `e2e-image-registry` - Image registry tests'' @ newline @
     bullet @ '' `e2e-network-stress` - Network stress tests'' @ newline @ newline @
     ''*test upgrade*'' @ newline @
     ''```'' @ newline @ ''test upgrade <from> <to> <options>'' @ newline @ ''```'' @ newline @
     ''Run upgrade tests between two release images.'' @ newline @ newline @
     ''*Upgrade Test Options:*'' @ newline @
     bullet @ '' `e2e-upgrade` - Standard upgrade test (default)'' @ newline @
     bullet @ '' `e2e-upgrade-all` - All upgrade tests'' @ newline @
     bullet @ '' `e2e-upgrade-partial` - Partial upgrade test'' @ newline @
     bullet @ '' `e2e-upgrade-rollback` - Upgrade rollback test'' @ newline @
     ''Pass as `test=NAME` in options (e.g., `test=e2e-upgrade-all`)'' @ newline @ newline @
     ''*workflow-test*'' @ newline @
     ''```'' @ newline @ ''workflow-test <name> <image_or_version_or_prs> <parameters>'' @ newline @ ''```'' @ newline @
     ''Start test using the requested workflow.'' @ newline @ newline @
     ''*workflow-upgrade*'' @ newline @
     ''```'' @ newline @ ''workflow-upgrade <name> <from> <to> <parameters>'' @ newline @ ''```'' @ newline @
     ''Run custom upgrade using the requested workflow.'' @ newline @ newline @
     ''*Examples:*'' @ newline @
     concat (map example test_examples)"

definition build_examples :: "(string \<times> string) list" where
  "build_examples =
     [(''build 4.19,openshift/installer#123'', ''Build installer images from PR''),
      (''build 4.19,openshift/machine-config-operator#456'', ''Build MCO change''),
      (''build 4.19,openshift/origin#49563,openshift/kubernetes#731,openshift/machine-api-operator#831'', ''Build with multiple PRs''),
      (''catalog build 4.19,openshift/aws-efs-csi-driver-operator#84 aws-efs-csi-driver-operator-bundle'', ''Build operator catalog'')]"

definition GenerateBuildHelpMessage :: "string" where
  "GenerateBuildHelpMessage =
     ''*'' @ [CHR 0xF0, CHR 0x9F, CHR 0x94, CHR 0xA8] @ '' Building Images*'' @ newline @ newline @
     ''*build*'' @ newline @
     ''```'' @ newline @ ''build <version>,<organization>/<repository>#<pr_number>'' @ newline @ ''```'' @ newline @
     ''Build custom images from pull requests.'' @ newline @ newline @
     ''*catalog build*'' @ newline @
     ''```'' @ newline @ ''catalog build <version>,<organization>/<repository>#<pr_number> <bundle_name>'' @ newline @ ''```'' @ newline @
     ''Build operator catalog images.'' @ newline @ newline @
     ''*Examples:*'' @ newline @
     concat (map example build_examples)"

definition manage_examples :: "(string \<times> string) list" where
  "manage_examples =
     [(''list'', ''Show all your clusters''),
      (''done'', ''Terminate specific cluster''),
      (''auth'', ''Get kubeconfig credentials''),
      (''refresh'', ''Re-fetch cluster credentials''),
      (''request gcp-access '' @ [CHR 0x22] @ ''Need to debug CI infrastructure issues'' @ [CHR 0x22], ''Request GCP workspace access''),
      (''revoke gcp-access'', ''Remove your GCP workspace access''),
      (''lookup nightly'', ''Find version corresponding to the specified value'')]"

definition GenerateManageHelpMessage :: "string" where
  "GenerateManageHelpMessage =
     ''*'' @ [CHR 0xE2, CHR 0x9A, CHR 0x99, CHR 0xEF, CHR 0xB8, CHR 0x8F] @ '' Cluster Management*'' @ newline @ newline @
     ''*list*'' @ newline @
     ''```'' @ newline @ ''list'' @ newline @ ''```'' @ newline @
     ''Show active clusters (all or for specific user).'' @ newline @ newline @
     ''*done*'' @ newline @
     ''```'' @ newline @ ''done'' @ newline @ ''```'' @ newline @
     ''Terminate and cleanup cluster.'' @ newline @ newline @
     ''*auth*'' @ newline @
     ''```'' @ newline @ ''auth'' @ newline @ ''```'' @ newline @
     ''Get cluster credentials and connection info.'' @ newline @ newline @
     ''*refresh*'' @ newline @
     ''```'' @ newline @ ''refresh'' @ newline @ ''```'' @ newline @
     ''Retry fetching cluster credentials in case of an error.'' @ newline @ newline @
     ''*request*'' @ newline @
     ''```'' @ newline @ ''request <resource> '' @ [CHR 0x22] @ ''<justification>'' @ [CHR 0x22] @ newline @ ''```'' @ newline @
     ''Request access to GCP workspace. Access is granted for 7 days and automatically expires. Users cannot extend their access; they must either wait for expiration or use the 'revoke' command to remove access early before requesting new access. Must be a member of Hybrid Platforms organization.'' @ newline @ newline @
     ''*revoke*'' @ newline @
     ''```'' @ newline @ ''revoke <resource>'' @ newline @ ''```'' @ newline @
     ''Remove your GCP workspace access before it expires. This allows you to immediately revoke access if you no longer need it, rather than waiting for the automatic 7-day expiration.'' @ newline @ newline @
     ''*lookup*'' @ newline @
     ''```'' @ newline @ ''lookup <version specifier>'' @ newline @ ''```'' @ newline @
     ''Find version corresponding to version specifier.'' @ newline @ newline @
     ''*version*'' @ newline @
     ''```'' @ newline @ ''version'' @ newline @ ''```'' @ newline @
     ''Show cluster-bot version information.'' @ newline @ newline @
     ''*Examples:*'' @ newline @
     concat (map example manage_examples)"

definition mce_examples :: "(string \<times> string) list" where
  "mce_examples =
     [(''mce create 2.6 3 aws'', ''Create hub with 3 managed clusters''),
      (''mce describe my-hub'', ''Get hub cluster details'')]"

definition GenerateMceHelpMessage :: "string" where
  "GenerateMceHelpMessage =
     ''*'' @ [CHR 0xF0, CHR 0x9F, CHR 0x8F, CHR 0xA2] @ '' MCE (Multi-Cluster Engine) - Private Commands*'' @ newline @ newline @
     ''*mce create*'' @ newline @
     ''```'' @ newline @ ''mce create <hub_version> <managed_count> <platform>'' @ newline @ ''```'' @ newline @
     ''Create MCE hub with managed clusters.'' @ newline @ newline @
     ''*mce describe*'' @ newline @
     ''```'' @ newline @ ''mce describe <hub_name>'' @ newline @ ''```'' @ newline @
     ''Get detailed MCE hub information.'' @ newline @ newline @
     ''*MCE Features:*'' @ newline @
     bullet @ '' Multi-cluster management'' @ newline @
     bullet @ '' Cluster lifecycle automation'' @ newline @
     bullet @ '' Policy and governance'' @ newline @
     bullet @ '' Application deployment'' @ newline @ newline @
     ''*Examples:*'' @ newline @
     concat (map example mce_examples) @
     newline @ ''*Note: MCE commands require special authorization.*'' @ newline"

section \<open>Help for a topic\<close>

definition SlackMessageLimit :: nat where "SlackMessageLimit = 3000"

definition SlackMessageTruncateLimit :: nat where "SlackMessageTruncateLimit = 2900"

definition truncated_note :: string where
  "truncated_note = ''...'' @ newline @ newline @ ''_Message truncated - try a more specific help topic_''"

definition truncated :: "string \<Rightarrow> string" where
  "truncated msg = (if length msg > SlackMessageLimit then take SlackMessageTruncateLimit msg @ truncated_note else msg)"

text \<open>The command whose first word is the topic.\<close>

definition topic_command :: "string \<Rightarrow> BotCommand list \<Rightarrow> bool \<Rightarrow> BotCommand option" where
  "topic_command category botCommands allowPrivate =
     find (\<lambda>c. \<not> (bc_private c \<and> \<not> allowPrivate) \<and>
             (case tokenize (bc_usage c) of [] \<Rightarrow> False | t # _ \<Rightarrow> to_lower (tk_Word t) = category)) botCommands"

definition command_help :: "BotCommand \<Rightarrow> string" where
  "command_help c =
     (let tokens = tokenize (bc_usage c); d = Definition c in
      truncated
        (''*Command: '' @ tk_Word (hd tokens) @ ''*'' @ newline @ newline @
         ''*'' @ concat (map (\<lambda>t. if IsParameter t then [] else tk_Word t @ '' '') tokens) @ ''*'' @ newline @
         ''```'' @ newline @ concat (map (\<lambda>t. tk_Word t @ '' '') tokens) @ ''```'' @ newline @
         (if cd_Description d \<noteq> [] then cd_Description d @ newline else []) @
         (if cd_Example d \<noteq> [] then ''Example: `'' @ cd_Example d @ ''`'' @ newline else []) @ newline))"

definition unknown_topic :: "string \<Rightarrow> BotCommand list \<Rightarrow> bool \<Rightarrow> string" where
  "unknown_topic category botCommands allowPrivate =
     (let suggestion = findCommandSuggestion category botCommands allowPrivate in
      [CHR 0xE2, CHR 0x9D, CHR 0x93] @ '' Unknown help topic: '' @ [CHR 0x27] @ category @ [CHR 0x27] @ newline @
      (if suggestion \<noteq> [] then ''Did you mean: `help '' @ suggestion @ ''`?'' @ newline @ newline else []) @
      ''Available help topics:'' @ newline @
      bullet @ '' `help launch` - Cluster launching'' @ newline @
      bullet @ '' `help rosa` - ROSA clusters'' @ newline @
      bullet @ '' `help test` - Testing commands'' @ newline @
      bullet @ '' `help build` - Build commands'' @ newline @
      bullet @ '' `help manage` - Management commands'' @ newline @
      (if allowPrivate then bullet @ '' `help mce` - MCE commands'' @ newline else []))"

definition specific_help :: "string \<Rightarrow> BotCommand list \<Rightarrow> bool \<Rightarrow> string" where
  "specific_help topic botCommands allowPrivate =
     (let category = to_lower topic in
      if category \<in> {''launch'', ''cluster''} then GenerateLaunchHelpMessage
      else if category = ''rosa'' then GenerateRosaHelpMessage
      else if category \<in> {''test'', ''testing''} then GenerateTestHelpMessage
      else if category \<in> {''build'', ''building''} then GenerateBuildHelpMessage
      else if category \<in> {''manage'', ''management''} then GenerateManageHelpMessage
      else if category = ''mce''
      then (if allowPrivate then GenerateMceHelpMessage
            else ''MCE commands are not available to you. Please contact an administrator.'')
      else (case topic_command category botCommands allowPrivate of
              Some c \<Rightarrow> command_help c
            | None \<Rightarrow> unknown_topic category botCommands allowPrivate))"

section \<open>Answering a message\<close>

text \<open>
  \<open>postResponse\<close> posts until an attempt succeeds. The state is the number of attempts and the last error; an
  attempt is the error of Slack, or nothing.
\<close>

definition post_cond :: "string option \<Rightarrow> nat \<times> string option \<Rightarrow> (nat \<times> string option) \<times> (string, bool) result" where
  "post_cond r s = (case r of Some e \<Rightarrow> ((Suc (fst s), Some e), Inr False) | None \<Rightarrow> ((Suc (fst s), snd s), Inr True))"

definition postResponse :: "string option list \<Rightarrow> nat \<times> string option" where
  "postResponse attempts =
     (case poll post_cond attempts (0, None) of
        ((n, lastErr), None) \<Rightarrow> (n, None)
      | ((n, lastErr), Some _) \<Rightarrow> (n, lastErr))"

text \<open>The text a handled message is answered with; \<open>run\<close> executes a command.\<close>

definition answer_text :: "(BotCommand \<Rightarrow> (string, string) gomap \<Rightarrow> string) \<Rightarrow> BotCommand list \<Rightarrow> handled \<Rightarrow> string option" where
  "answer_text run botCommands h =
     (case h of
        Ignored \<Rightarrow> None
      | OnlyDirect \<Rightarrow> Some ''this command is only accepted via direct message)''
      | HelpOverview allowed \<Rightarrow> Some (GenerateHelpOverviewMessage allowed)
      | HelpSpecific topic allowed \<Rightarrow> Some (specific_help topic botCommands allowed)
      | Executed c properties \<Rightarrow> Some (run c properties)
      | Unrecognized \<Rightarrow> Some ''unrecognized command, msg me `help` for a list of all commands''
      | HandlePanic \<Rightarrow> None)"

text \<open>
  A message with its answer: the text, the number of attempts to post it to the channel of the message, and whether the handler reports
  success. An answer outside a direct message is tried once; errors of posting help are only logged.
\<close>

definition answer_message :: "(BotCommand \<Rightarrow> (string, string) gomap \<Rightarrow> string) \<Rightarrow> string list \<Rightarrow> BotCommand list \<Rightarrow> string option list \<Rightarrow>
    MessageEvent \<Rightarrow> string option \<times> nat \<times> bool" where
  "answer_message run mceUsers botCommands attempts event =
     (let h = Handle mceUsers botCommands event in
      case answer_text run botCommands h of
        None \<Rightarrow> (None, 0, h \<noteq> HandlePanic)
      | Some text \<Rightarrow>
          (case h of
             OnlyDirect \<Rightarrow> (Some text, 1, attempts \<noteq> [] \<and> hd attempts = None)
           | HelpOverview _ \<Rightarrow> (Some text, fst (postResponse attempts), True)
           | HelpSpecific _ _ \<Rightarrow> (Some text, fst (postResponse attempts), True)
           | _ \<Rightarrow> (Some text, fst (postResponse attempts), snd (postResponse attempts) = None)))"

section \<open>The responders\<close>

definition JobResponder :: "slack_client \<Rightarrow> gotime \<Rightarrow> Job \<Rightarrow> slack_call list" where
  "JobResponder client now job =
     (if jb_RequestedChannel job = [] \<or> jb_RequestedBy job = [] then []
      else if launch_mode (jb_Mode job) \<and> jb_Credentials job = [] \<and> jb_Failure job = [] then []
      else if \<not> launch_mode (jb_Mode job) \<and> jb_URL job = [] \<and> jb_Failure job = [] then []
      else fst (NotifyJob client now job True))"

definition RosaResponder :: "(RosaCluster \<Rightarrow> string option) \<Rightarrow> (RosaCluster \<Rightarrow> string) \<Rightarrow> gotime \<Rightarrow> RosaCluster \<Rightarrow> string \<Rightarrow> slack_call list" where
  "RosaResponder console api now cluster password =
     (if ro_Tags cluster = None \<or> ro_Tags cluster = Some [] then []
      else if rosa_tag cluster ''ci-chat-bot/user'' = [] \<or> rosa_tag cluster ''ci-chat-bot/channel'' = [] then []
      else if password = [] \<and> ro_State cluster \<noteq> ''error'' then []
      else NotifyRosa console api now cluster password)"

definition MceResponder :: "slack_client \<Rightarrow> hub_status \<Rightarrow> gotime \<Rightarrow> MceCluster \<Rightarrow> ClusterDeployment option \<Rightarrow> ClusterProvision option \<Rightarrow>
    string \<Rightarrow> string \<Rightarrow> string option \<Rightarrow> slack_call list \<times> bool" where
  "MceResponder client hs now cluster deployment provision kubeconfig password errMsg =
     (let notify = (case NotifyMce client hs now cluster deployment provision kubeconfig password True errMsg of
                      (calls, _, _, delivered) \<Rightarrow> (calls, delivered)) in
      if \<not> MceClusterNotifiable cluster then ([], False)
      else if \<not> deploymentProvisionFailed deployment \<and> errMsg = None
      then (case provision of
              None \<Rightarrow> ([], False)
            | Some p \<Rightarrow> if cp_Stage p \<noteq> ''complete'' \<and> cp_Stage p \<noteq> ''failed'' then ([], False) else notify)
      else notify)"

section \<open>Versions that hosted clusters support\<close>

text \<open>
  \<open>updateHypershiftSupportedVersions\<close>: the config map of the hosting cluster (\<open>client\<close> is \<open>None\<close> without a client; a config map
  without data is \<open>None\<close>), whose JSON \<open>decode\<close> reads. The versions are kept after an error.
\<close>

definition updateHypershiftSupportedVersions :: "(string, (string, string) gomap option) result option \<Rightarrow> (string \<Rightarrow> (string, string list) result) \<Rightarrow>
    string list \<Rightarrow> string list \<times> string option" where
  "updateHypershiftSupportedVersions client decode versions =
     (case client of
        None \<Rightarrow> ([currentReleasePrefix], None)
      | Some (Inl e) \<Rightarrow> (versions, Some e)
      | Some (Inr None) \<Rightarrow> (versions, Some ''supported-versions configmap is empty'')
      | Some (Inr (Some cm)) \<Rightarrow>
          (case mget cm ''supported-versions'' of
             None \<Rightarrow> (versions, Some ''supported-versions configmap missing `supported-versions` key'')
           | Some raw \<Rightarrow>
               (case decode raw of
                  Inl e \<Rightarrow> (versions, Some (''failed to convert configmap json supported-versions to struct: '' @ e))
                | Inr vs \<Rightarrow> (remdups vs, None))))"

section \<open>The examples work\<close>

lemma overview_checks: "list_all (checks \<circ> fst) (butlast overview_examples) \<and> fst (last overview_examples) = ''help launch''"
  by code_simp

lemma launch_checks: "list_all (checks \<circ> fst) launch_examples"
  by code_simp

lemma rosa_checks: "list_all (checks \<circ> fst) rosa_examples"
  by code_simp

lemma test_checks: "list_all (checks \<circ> fst) test_examples"
  by code_simp

lemma build_checks: "list_all (checks \<circ> fst) build_examples"
  by code_simp

lemma manage_checks: "list_all (checks \<circ> fst) (filter (\<lambda>e. CHR 0x22 \<notin> set (fst e)) manage_examples)"
  by code_simp


text \<open>The help for managed clusters has an example of a command that does not exist.\<close>

lemma mce_example_fails:
  "(''mce describe my-hub'', ''Get hub cluster details'') \<in> set mce_examples \<and>
   find_command allowed SupportedCommands ''mce describe my-hub'' = Unrecognized"
proof -
  have "find (\<lambda>(ls, n). take (length ls) [''mce'', ''describe'', ''my-hub''] = ls) signatures = None" by code_simp
  moreover have "plain_line [''mce'', ''describe'', ''my-hub'']" by code_simp
  ultimately have "find_command allowed SupportedCommands (join '' '' [''mce'', ''describe'', ''my-hub'']) = Unrecognized" by (rule checks_fail)
  then show ?thesis by (simp add: mce_examples_def)
qed

section \<open>Help fits into a message\<close>

lemmas text_lengths = SlackMessageLimit_def example_def newline_def

lemma overview_fits: "length (GenerateHelpOverviewMessage allowed) \<le> SlackMessageLimit"
  by (simp add: GenerateHelpOverviewMessage_def overview_examples_def text_lengths)

lemma launch_fits: "length GenerateLaunchHelpMessage \<le> SlackMessageLimit"
  by (simp add: GenerateLaunchHelpMessage_def launch_examples_def text_lengths)

lemma rosa_fits: "length GenerateRosaHelpMessage \<le> SlackMessageLimit"
  by (simp add: GenerateRosaHelpMessage_def rosa_examples_def text_lengths)

lemma test_fits: "length GenerateTestHelpMessage \<le> SlackMessageLimit"
  by (simp add: GenerateTestHelpMessage_def test_examples_def text_lengths)

lemma build_fits: "length GenerateBuildHelpMessage \<le> SlackMessageLimit"
  by (simp add: GenerateBuildHelpMessage_def build_examples_def text_lengths)

lemma manage_fits: "length GenerateManageHelpMessage \<le> SlackMessageLimit"
  by (simp add: GenerateManageHelpMessage_def manage_examples_def text_lengths)

lemma mce_fits: "length GenerateMceHelpMessage \<le> SlackMessageLimit"
  by (simp add: GenerateMceHelpMessage_def mce_examples_def text_lengths)

lemma truncated_fits: "length (truncated msg) \<le> SlackMessageLimit"
  by (auto simp: truncated_def truncated_note_def SlackMessageLimit_def SlackMessageTruncateLimit_def newline_def)

lemma specific_fits:
  "length (specific_help topic botCommands allowed) \<le> SlackMessageLimit \<or>
   specific_help topic botCommands allowed = unknown_topic (to_lower topic) botCommands allowed"
proof -
  define fine where "fine x \<longleftrightarrow> length x \<le> SlackMessageLimit \<or> x = unknown_topic (to_lower topic) botCommands allowed" for x
  have branch: "fine x \<Longrightarrow> fine y \<Longrightarrow> fine (if b then x else y)" for b x y by simp
  have "fine ''MCE commands are not available to you. Please contact an administrator.''"
    by (simp add: fine_def SlackMessageLimit_def)
  moreover have "fine (command_help c)" for c
    unfolding command_help_def Let_def fine_def by (intro disjI1 truncated_fits)
  then have "fine (case topic_command (to_lower topic) botCommands allowed of Some c \<Rightarrow> command_help c
      | None \<Rightarrow> unknown_topic (to_lower topic) botCommands allowed)"
    by (simp add: fine_def split: option.split)
  moreover have "fine GenerateLaunchHelpMessage" "fine GenerateRosaHelpMessage" "fine GenerateTestHelpMessage" "fine GenerateBuildHelpMessage"
      "fine GenerateManageHelpMessage" "fine GenerateMceHelpMessage"
    by (simp_all add: fine_def launch_fits rosa_fits test_fits build_fits manage_fits mce_fits)
  ultimately have "fine (specific_help topic botCommands allowed)"
    unfolding specific_help_def Let_def by (intro branch)
  then show ?thesis by (simp add: fine_def)
qed

section \<open>Posting an answer\<close>

text \<open>An answer is posted until Slack accepts it, so it is accepted at most once, and the attempt that is accepted is the last.\<close>

lemma post_loop:
  "poll post_cond rs s =
     (if None \<in> set rs
      then ((fst s + length (takeWhile (\<lambda>r. r \<noteq> None) rs) + 1, snd (fst (poll post_cond rs s))), None)
      else ((fst s + length rs, if rs = [] then snd s else last rs), Some deadline_text))"
proof (induction rs arbitrary: s)
  case (Cons r rs)
  show ?case
  proof (cases r)
    case None
    then show ?thesis by (simp add: post_cond_def)
  next
    case (Some e)
    then show ?thesis using Cons.IH [of "(Suc (fst s), Some e)"]
      by (cases "None \<in> set rs") (auto simp: post_cond_def)
  qed
qed simp

lemma postResponse_attempts:
  "postResponse rs = (if None \<in> set rs then (length (takeWhile (\<lambda>r. r \<noteq> None) rs) + 1, None) else (length rs, if rs = [] then None else last rs))"
  unfolding postResponse_def by (subst post_loop) (simp split: prod.split)

lemma accepted_once: "count_list (take (fst (postResponse rs)) rs) None = (if None \<in> set rs then 1 else 0)"
proof (induction rs)
  case (Cons r rs)
  then show ?case by (cases r; cases "None \<in> set rs") (simp_all add: postResponse_attempts)
qed (simp add: postResponse_attempts)

section \<open>What the responders post\<close>

text \<open>The manager's notification of a job posts nothing, or what \<open>NotifyJob\<close> posts, which is one call, to the channel of the request.\<close>

lemma JobResponder_calls:
  "JobResponder client now job = [] \<or>
   JobResponder client now job = fst (NotifyJob client now job True) \<and> jb_RequestedChannel job \<noteq> [] \<and> jb_RequestedBy job \<noteq> [] \<and>
     (if launch_mode (jb_Mode job) then jb_Credentials job \<noteq> [] \<or> jb_Failure job \<noteq> [] else jb_URL job \<noteq> [] \<or> jb_Failure job \<noteq> [])"
  unfolding JobResponder_def by (cases "launch_mode (jb_Mode job)") simp_all

text \<open>A managed cluster without a known provision is never reported as ready, although it may be available.\<close>

lemma MceResponder_needs_provision:
  "\<not> deploymentProvisionFailed d \<Longrightarrow> MceResponder client hs now cluster d None kubeconfig password None = ([], False)"
  by (simp add: MceResponder_def Let_def)

end
