(* ===== verification/Catalog.thy ===== *)
theory Catalog
  imports Worker
begin

text \<open>
  The operator catalog builder of \<open>pkg/catalog\<close> and the role bindings of \<open>pkg/manager/prow.go\<close> in the namespace of a job.
  After a successful catalog job the worker unpacks the bundle image, reads its labels and its manifests, writes a file-based catalog with
  this one bundle, stores it in a config map and builds an image from it. The registry client, the file formats and the checks of
  the operator framework are parameters; the files of the host and the objects of the namespace are the state.
\<close>

section \<open>Slash-separated paths\<close>

text \<open>\<open>filepath.Clean\<close> and \<open>filepath.Join\<close>.\<close>

definition path_parts :: "string \<Rightarrow> string list" where
  "path_parts s = filter (\<lambda>c. c \<noteq> [] \<and> c \<noteq> ''.'') (split_char CHR ''/'' s)"

definition path_step :: "bool \<Rightarrow> string list \<Rightarrow> string \<Rightarrow> string list" where
  "path_step rooted acc c =
     (if c = ''..''
      then (if acc \<noteq> [] \<and> last acc \<noteq> ''..'' then butlast acc else if rooted then acc else acc @ [c])
      else acc @ [c])"

definition Clean :: "string \<Rightarrow> string" where
  "Clean s =
     (if s = [] then ''.''
      else let rooted = has_prefix s ''/''; out = join ''/'' (foldl (path_step rooted) [] (path_parts s)) in
        if rooted then CHR ''/'' # out else if out = [] then ''.'' else out)"

definition Join :: "string list \<Rightarrow> string" where
  "Join elems = (let es = filter (\<lambda>e. e \<noteq> []) elems in if es = [] then [] else Clean (join ''/'' es))"

section \<open>Bundle metadata\<close>

text \<open>
  An unpacked image. \<open>File None\<close> is a file that cannot be read, \<open>Dir None\<close> a directory that cannot be listed; the
  entries of a directory are in the lexical order in which a walk visits them.
\<close>

datatype tree = File "string option" | Dir "(string \<times> tree) list option"

datatype read_error = NotExist | ReadError | BadYaml string

fun read_file :: "tree \<Rightarrow> string list \<Rightarrow> (read_error, string) result" where
  "read_file (File (Some s)) [] = Inr s"
| "read_file (File None) [] = Inl ReadError"
| "read_file (Dir es) [] = Inl ReadError"
| "read_file (File s) (c # cs) = Inl ReadError"
| "read_file (Dir None) (c # cs) = Inl ReadError"
| "read_file (Dir (Some es)) (c # cs) =
     (case map_of es c of None \<Rightarrow> Inl NotExist | Some t \<Rightarrow> read_file t cs)"

type_synonym LabelsMap = "(string, string) gomap"

definition ManifestsLabel :: string where
  "ManifestsLabel = ''operators.operatorframework.io.bundle.manifests.v1''"

definition PackageLabel :: string where
  "PackageLabel = ''operators.operatorframework.io.bundle.package.v1''"

text \<open>\<open>yaml\<close> decodes an annotations file to its annotations.\<close>

definition readAnnotations :: "(string \<Rightarrow> (string, LabelsMap) result) \<Rightarrow> (read_error, string) result \<Rightarrow> (read_error, LabelsMap) result" where
  "readAnnotations yaml contents =
     (case contents of
        Inl e \<Rightarrow> Inl e
      | Inr b \<Rightarrow> (case yaml b of Inl e \<Rightarrow> Inl (BadYaml e) | Inr annotations \<Rightarrow> Inr annotations))"

text \<open>The function that \<open>afero.Walk\<close> calls for a file, on the annotations found so far and the last path tried.\<close>

definition visit_file :: "(string \<Rightarrow> (string, LabelsMap) result) \<Rightarrow> string \<Rightarrow> string option \<Rightarrow> LabelsMap \<times> string \<Rightarrow> LabelsMap \<times> string" where
  "visit_file yaml path contents acc =
     (if fst acc \<noteq> [] \<or> has_prefix path ''.'' then acc
      else (case readAnnotations yaml (case contents of None \<Rightarrow> Inl ReadError | Some s \<Rightarrow> Inr s) of
              Inl _ \<Rightarrow> ([], path) | Inr annotations \<Rightarrow> (annotations, path)))"

text \<open>A directory that cannot be listed ends the walk with an error.\<close>

fun walk_tree :: "(string \<Rightarrow> (string, LabelsMap) result) \<Rightarrow> string \<Rightarrow> tree \<Rightarrow> LabelsMap \<times> string \<Rightarrow> (LabelsMap \<times> string) option"
and walk_entries :: "(string \<Rightarrow> (string, LabelsMap) result) \<Rightarrow> string \<Rightarrow> (string \<times> tree) list \<Rightarrow> LabelsMap \<times> string \<Rightarrow> (LabelsMap \<times> string) option" where
  "walk_tree yaml path (File contents) acc = Some (visit_file yaml path contents acc)"
| "walk_tree yaml path (Dir None) acc = None"
| "walk_tree yaml path (Dir (Some es)) acc = walk_entries yaml path es acc"
| "walk_entries yaml path [] acc = Some acc"
| "walk_entries yaml path ((name, t) # es) acc =
     (case walk_tree yaml (Join [path, name]) t acc of
        None \<Rightarrow> None | Some acc' \<Rightarrow> walk_entries yaml path es acc')"

datatype metadata_error = MetadataNotFound string | MetadataRead read_error | WalkError

definition findBundleMetadata :: "(string \<Rightarrow> (string, LabelsMap) result) \<Rightarrow> tree \<Rightarrow> string \<Rightarrow> (metadata_error, LabelsMap \<times> string) result" where
  "findBundleMetadata yaml fs bundleRoot =
     (let annotationsPath = Join [bundleRoot, ''metadata/'', ''annotations.yaml''];
          first = readAnnotations yaml (read_file fs [''metadata'', ''annotations.yaml'']);
          search = (case walk_tree yaml bundleRoot fs ([], []) of
                      None \<Rightarrow> Inl WalkError
                    | Some (annotations, path) \<Rightarrow>
                        if annotations = [] then Inl (MetadataNotFound bundleRoot) else Inr (annotations, path)) in
      case first of
        Inr annotations \<Rightarrow> if annotations \<noteq> [] then Inr (annotations, annotationsPath) else search
      | Inl NotExist \<Rightarrow> search
      | Inl e \<Rightarrow> Inl (MetadataRead e))"

definition GetManifestsDir :: "LabelsMap \<Rightarrow> string \<times> bool" where
  "GetManifestsDir labels = (Clean (mget0 [] labels ManifestsLabel), mhas labels ManifestsLabel)"

section \<open>Loading a bundle\<close>

text \<open>
  The registry of \<open>containerdregistry\<close>: whether it can be created, pulling and unpacking an image, its labels, and rendering
  references to a catalog (its bundles). The temporary directory \<open>dir\<close> is relative to the working directory. \<open>gb\<close> is
  \<open>GetBundleFromDir\<close> of the operator framework, which returns the name of the bundle's cluster service version, or nothing when it has none.
\<close>

record 'b registry =
  rg_new :: "string option"
  rg_pull :: "string \<Rightarrow> string option"
  rg_unpack :: "string \<Rightarrow> (string, tree) result"
  rg_labels :: "string \<Rightarrow> (string, LabelsMap) result"
  rg_render :: "string list \<Rightarrow> (string, 'b list) result"

datatype host_event = DirCreated string | DirRemoved string | BundleRead string

datatype catalog_error =
    CatPanic
  | CatConfigMap string
  | CatSecret string
  | CatNoAuth
  | CatAuthFile string
  | CatPull string
  | CatMetadata metadata_error
  | CatNoManifests
  | CatLoad string
  | CatRender string
  | CatBundles
  | CatModel string
  | CatWrite string
  | CatEmpty
  | CatCreate string
  | CatGetBuild string
  | CatBuild string

definition ExtractBundleImage :: "'b registry \<Rightarrow> (string, string) result \<Rightarrow> string \<Rightarrow> bool \<Rightarrow> host_event list \<times> (string, string \<times> tree) result" where
  "ExtractBundleImage reg tempDir img local =
     (case tempDir of
        Inl e \<Rightarrow> ([], Inl e)
      | Inr dir \<Rightarrow>
          ([DirCreated dir],
           (case rg_new reg of
              Some e \<Rightarrow> Inl e
            | None \<Rightarrow>
                (case (if local then None else rg_pull reg img) of
                   Some e \<Rightarrow> Inl (''error pulling image '' @ img @ '': '' @ e)
                 | None \<Rightarrow>
                     (case rg_unpack reg img of
                        Inl e \<Rightarrow> Inl (''error unpacking image '' @ img @ '': '' @ e)
                      | Inr fs \<Rightarrow> Inr (dir, fs))))))"

definition GetImageLabels :: "'b registry \<Rightarrow> string \<Rightarrow> bool \<Rightarrow> (string, LabelsMap) result" where
  "GetImageLabels reg img local =
     (case rg_new reg of
        Some e \<Rightarrow> Inl (''error creating new image registry: '' @ e)
      | None \<Rightarrow>
          (case (if local then None else rg_pull reg img) of
             Some e \<Rightarrow> Inl (''error pulling image '' @ img @ '': '' @ e)
           | None \<Rightarrow>
               (case rg_labels reg img of
                  Inl e \<Rightarrow> Inl (''error reading image '' @ img @ '' labels: '' @ e)
                | Inr labels \<Rightarrow> Inr labels)))"

type_synonym bundle_loader = "string \<Rightarrow> (string, string option) result"

definition LoadBundle :: "'b registry \<Rightarrow> (string, string) result \<Rightarrow> (string \<Rightarrow> (string, LabelsMap) result) \<Rightarrow> bundle_loader \<Rightarrow> string \<Rightarrow>
    host_event list \<times> (catalog_error, LabelsMap \<times> string option) result" where
  "LoadBundle reg tempDir yaml gb bundleImage =
     (case ExtractBundleImage reg tempDir bundleImage False of
        (evs, Inl e) \<Rightarrow> (evs, Inl (CatPull e))
      | (evs, Inr (bundlePath, fs)) \<Rightarrow>
          (case findBundleMetadata yaml fs bundlePath of
             Inl e \<Rightarrow> (evs @ [DirRemoved bundlePath], Inl (CatMetadata e))
           | Inr (labels, _) \<Rightarrow>
               (case GetManifestsDir labels of
                  (relManifestsDir, ok) \<Rightarrow>
                    if \<not> ok then (evs @ [DirRemoved bundlePath], Inl CatNoManifests)
                    else let manifestsDir = Join [bundlePath, relManifestsDir] in
                      (evs @ [BundleRead manifestsDir, DirRemoved bundlePath],
                       (case gb manifestsDir of Inl e \<Rightarrow> Inl (CatLoad e) | Inr csv \<Rightarrow> Inr (labels, csv))))))"

section \<open>The file-based catalog\<close>

record Package =
  pk_Schema :: string
  pk_Name :: string
  pk_DefaultChannel :: string

record Channel =
  ch_Schema :: string
  ch_Name :: string
  ch_Package :: string
  ch_Entries :: "string list"

record 'b DeclarativeConfig =
  dc_Packages :: "Package list"
  dc_Channels :: "Channel list"
  dc_Bundles :: "'b list"

record 'b BundleDeclcfg =
  bd_Package :: Package
  bd_Channel :: Channel
  bd_Bundle :: 'b

record FBCContext =
  fb_Package :: string
  fb_ChannelName :: string
  fb_Refs :: "string list"
  fb_ChannelEntry :: string

definition DefaultChannel :: string where
  "DefaultChannel = ''ci-chat-bot''"

text \<open>The directory of the cache is the hexadecimal digest, \<open>sha\<close>, of the references; it is never empty.\<close>

definition dirNameFromRefs :: "(string \<Rightarrow> string) \<Rightarrow> string list \<Rightarrow> string" where
  "dirNameFromRefs sha refs = sha (replace_char CHR ''/'' ''-'' (join ''_'' refs))"

definition RenderRefs :: "'b registry \<Rightarrow> string list \<Rightarrow> (catalog_error, 'b list) result" where
  "RenderRefs reg refs =
     (case rg_new reg of
        Some e \<Rightarrow> Inl (CatRender (''error creating new image registry: '' @ e))
      | None \<Rightarrow>
          (case rg_render reg refs of
             Inl e \<Rightarrow> Inl (CatRender (''error in rendering the bundle and index image: '' @ e))
           | Inr bundles \<Rightarrow> Inr bundles))"

definition CreateFBC :: "'b registry \<Rightarrow> FBCContext \<Rightarrow> (catalog_error, 'b BundleDeclcfg) result" where
  "CreateFBC reg f =
     (case RenderRefs reg (fb_Refs f) of
        Inl e \<Rightarrow> Inl e
      | Inr [b] \<Rightarrow> Inr \<lparr>bd_Package = \<lparr>pk_Schema = ''olm.package'', pk_Name = fb_Package f, pk_DefaultChannel = fb_ChannelName f\<rparr>,
          bd_Channel = \<lparr>ch_Schema = ''olm.channel'', ch_Name = fb_ChannelName f, ch_Package = fb_Package f, ch_Entries = [fb_ChannelEntry f]\<rparr>,
          bd_Bundle = b\<rparr>
      | Inr _ \<Rightarrow> Inl CatBundles)"

text \<open>\<open>ConvertToModel\<close> of the operator framework, which checks a catalog, and \<open>WriteYAML\<close>.\<close>

record 'b catalog_format =
  cf_invalid :: "'b DeclarativeConfig \<Rightarrow> string option"
  cf_write :: "'b DeclarativeConfig \<Rightarrow> (string, string) result"

definition ValidateAndStringify :: "'b catalog_format \<Rightarrow> 'b DeclarativeConfig \<Rightarrow> (catalog_error, string) result" where
  "ValidateAndStringify fmt cfg =
     (case cf_invalid fmt cfg of
        Some e \<Rightarrow> Inl (CatModel e)
      | None \<Rightarrow>
          (case cf_write fmt cfg of
             Inl e \<Rightarrow> Inl (CatWrite e)
           | Inr s \<Rightarrow> if s = [] then Inl CatEmpty else Inr s))"

definition generateFBCContent :: "'b registry \<Rightarrow> 'b catalog_format \<Rightarrow> FBCContext \<Rightarrow> (catalog_error, string) result" where
  "generateFBCContent reg fmt f =
     (case CreateFBC reg f of
        Inl e \<Rightarrow> Inl e
      | Inr b \<Rightarrow> ValidateAndStringify fmt
          \<lparr>dc_Packages = [bd_Package b], dc_Channels = [bd_Channel b], dc_Bundles = [bd_Bundle b]\<rparr>)"

section \<open>Credentials for the registry\<close>

text \<open>
  The files and directories of the host; \<open>ff_*\<close> are failures of a call on a path. A failed write can
  leave other contents behind.
\<close>

record host =
  ho_files :: "(string, string) gomap"
  ho_dirs :: "string list"

record file_faults =
  ff_stat :: "string \<Rightarrow> string option"
  ff_mkdir :: "string \<Rightarrow> string option"
  ff_read :: "string \<Rightarrow> string option"
  ff_write :: "string \<Rightarrow> (string \<times> string option) option"

datatype stat = StatOk | StatMissing | StatError string

definition os_stat :: "file_faults \<Rightarrow> host \<Rightarrow> string \<Rightarrow> stat" where
  "os_stat ff h p =
     (case ff_stat ff p of
        Some e \<Rightarrow> StatError e
      | None \<Rightarrow> if mhas (ho_files h) p \<or> p \<in> set (ho_dirs h) then StatOk else StatMissing)"

definition write_file :: "file_faults \<Rightarrow> string \<Rightarrow> string \<Rightarrow> host \<Rightarrow> host \<times> string option" where
  "write_file ff p s h =
     (case ff_write ff p of
        None \<Rightarrow> (h\<lparr>ho_files := mput p s (ho_files h)\<rparr>, None)
      | Some (e, None) \<Rightarrow> (h, Some e)
      | Some (e, Some left) \<Rightarrow> (h\<lparr>ho_files := mput p left (ho_files h)\<rparr>, Some e))"

text \<open>The file with the credentials, which is created when neither it nor the Docker configuration exists.\<close>

definition containers_auth :: "file_faults \<Rightarrow> string \<Rightarrow> host \<Rightarrow> host \<times> (string, string) result" where
  "containers_auth ff runtimeDir h =
     (let containersDir = Join [runtimeDir, ''containers'']; configPath = Join [containersDir, ''auth.json''];
          made = (if os_stat ff h containersDir = StatMissing
                  then (case ff_mkdir ff containersDir of
                          Some e \<Rightarrow> (h, Some (''failed to create containers config path: '' @ e))
                        | None \<Rightarrow> (h\<lparr>ho_dirs := containersDir # ho_dirs h\<rparr>, None))
                  else (h, None)) in
      case made of
        (h1, Some e) \<Rightarrow> (h1, Inl e)
      | (h1, None) \<Rightarrow>
          (case os_stat ff h1 configPath of
             StatOk \<Rightarrow> (h1, Inr configPath)
           | StatError e \<Rightarrow> (h1, Inl (''failed to stat container auth file: '' @ e))
           | StatMissing \<Rightarrow>
               (case write_file ff configPath ''{}'' h1 of
                  (h2, Some e) \<Rightarrow> (h2, Inl (''failed to write container auth file: '' @ e))
                | (h2, None) \<Rightarrow>
                    if os_stat ff h2 configPath = StatOk then (h2, Inr configPath)
                    else (h2, Inl ''failed to stat newly created container auth file''))))"

definition auth_file :: "file_faults \<Rightarrow> string \<Rightarrow> string \<Rightarrow> host \<Rightarrow> host \<times> (string, string) result" where
  "auth_file ff homeDir runtimeDir h =
     (let configPath = Join [homeDir, ''.docker/config.json''] in
      case os_stat ff h configPath of
        StatOk \<Rightarrow> (h, Inr configPath)
      | StatError e \<Rightarrow> (h, Inl (''failed to stat docker config file: '' @ e))
      | StatMissing \<Rightarrow> containers_auth ff runtimeDir h)"

definition read_host :: "file_faults \<Rightarrow> host \<Rightarrow> string \<Rightarrow> (string, string) result" where
  "read_host ff h p =
     (case ff_read ff p of
        Some e \<Rightarrow> Inl e
      | None \<Rightarrow> (case mget (ho_files h) p of None \<Rightarrow> Inl ''is a directory'' | Some s \<Rightarrow> Inr s))"

text \<open>
  JSON objects as maps from keys to the text of their values; \<open>js_decode\<close> returns no map for \<open>null\<close>, which sets the
  map to nil.
\<close>

record json_object =
  js_decode :: "string \<Rightarrow> (string, (string, string) gomap option) result"
  js_encode :: "(string, string) gomap \<Rightarrow> string"

definition maps_copy :: "(string, string) gomap \<Rightarrow> (string, string) gomap \<Rightarrow> (string, string) gomap" where
  "maps_copy dst src = fold (\<lambda>(k, v). mput k v) src dst"

definition entries :: "(string, string) gomap option \<Rightarrow> (string, string) gomap" where
  "entries m = (case m of None \<Rightarrow> [] | Some es \<Rightarrow> es)"

definition UpdateDockerConfigJSON :: "file_faults \<Rightarrow> json_object \<Rightarrow> string \<Rightarrow> string \<Rightarrow> string \<Rightarrow> host \<Rightarrow> host \<times> catalog_error option" where
  "UpdateDockerConfigJSON ff js homeDir runtimeDir secretData h0 =
     (case auth_file ff homeDir runtimeDir h0 of
        (h, Inl e) \<Rightarrow> (h, Some (CatAuthFile e))
      | (h, Inr configPath) \<Rightarrow>
          (case read_host ff h configPath of
             Inl e \<Rightarrow> (h, Some (CatAuthFile (''failed to read container auth file: '' @ e)))
           | Inr raw \<Rightarrow>
               (case js_decode js raw of
                  Inl e \<Rightarrow> (h, Some (CatAuthFile (''failed to parse existing container auth config: '' @ e)))
                | Inr authMap \<Rightarrow>
                    (case js_decode js secretData of
                       Inl e \<Rightarrow> (h, Some (CatAuthFile (''failed to parse new container auth config: '' @ e)))
                     | Inr newAuths \<Rightarrow>
                         if authMap = None \<and> entries newAuths \<noteq> [] then (h, Some CatPanic)
                         else let updatedRaw = (if authMap = None then ''null'' else js_encode js (maps_copy (entries authMap) (entries newAuths))) in
                           (case write_file ff configPath updatedRaw h of
                              (h', Some e) \<Rightarrow> (h', Some (CatAuthFile (''failed to write container auth file: '' @ e)))
                            | (h', None) \<Rightarrow> (h', None))))))"

section \<open>Content and build\<close>

text \<open>Everything outside the namespace that the builder uses.\<close>

record 'b builder =
  bu_faults :: file_faults
  bu_json :: json_object
  bu_home :: string
  bu_runtime :: string
  bu_registry :: "'b registry"
  bu_tempDir :: "(string, string) result"
  bu_yaml :: "string \<Rightarrow> (string, LabelsMap) result"
  bu_loader :: bundle_loader
  bu_format :: "'b catalog_format"

definition CreateContent :: "'b builder \<Rightarrow> string \<Rightarrow> string \<Rightarrow> host \<Rightarrow> host \<times> host_event list \<times> (catalog_error, string) result" where
  "CreateContent bu secretAuth bundleImage h =
     (case UpdateDockerConfigJSON (bu_faults bu) (bu_json bu) (bu_home bu) (bu_runtime bu) secretAuth h of
        (h', Some e) \<Rightarrow> (h', [], Inl e)
      | (h', None) \<Rightarrow>
          (case LoadBundle (bu_registry bu) (bu_tempDir bu) (bu_yaml bu) (bu_loader bu) bundleImage of
             (evs, Inl e) \<Rightarrow> (h', evs, Inl e)
           | (evs, Inr (labels, None)) \<Rightarrow> (h', evs, Inl CatPanic)
           | (evs, Inr (labels, Some csvName)) \<Rightarrow>
               (h', evs, generateFBCContent (bu_registry bu) (bu_format bu)
                  \<lparr>fb_Package = mget0 [] labels PackageLabel, fb_ChannelName = DefaultChannel, fb_Refs = [bundleImage], fb_ChannelEntry = csvName\<rparr>)))"

text \<open>The parts of a build that name something; \<open>dockerfile\<close> is the text of the source.\<close>

record Build =
  bl_Name :: string
  bl_From :: string
  bl_Dockerfile :: string
  bl_Images :: "string list"
  bl_ConfigMaps :: "(string \<times> string) list"
  bl_Output :: "string \<times> string"

definition catalog_build :: "string \<Rightarrow> string \<Rightarrow> Build" where
  "catalog_build dockerfile ns =
     \<lparr>bl_Name = ''catalog'', bl_From = ''quay.io/operator-framework/opm:latest'', bl_Dockerfile = dockerfile,
      bl_Images = [''quay.io/operator-framework/opm:latest'', ''registry.ci.openshift.org/origin/ubi-minimal:8''],
      bl_ConfigMaps = [(''catalog-content'', ''catalog-content'')], bl_Output = (ns, ''pipeline:catalog'')\<rparr>"

text \<open>The objects of the namespace of the job, and failures of the calls of its clients.\<close>

record namespace =
  ns_PullSecret :: "(string, string) gomap option"
  ns_Content :: "(string, string) gomap option"
  ns_Build :: "Build option"

record client_faults =
  cl_getConfigMap :: "string option"
  cl_getSecret :: "string option"
  cl_createConfigMap :: "string option"
  cl_getBuild :: "string option"
  cl_createBuild :: "string option"

text \<open>What an attempt of the loop sees of the build: its phase, reason, message and log.\<close>

datatype build_read = BuildUnread | BuildPhase string string string string

definition build_cond :: "build_read \<Rightarrow> unit \<Rightarrow> unit \<times> (string, bool) result" where
  "build_cond r u =
     (case r of
        BuildUnread \<Rightarrow> (u, Inr False)
      | BuildPhase phase reason message logs \<Rightarrow>
          if phase = ''Complete'' then (u, Inr True)
          else if phase \<in> {''Failed'', ''Cancelled'', ''Error''}
          then (u, Inl (''the build catalog failed with reason '' @ reason @ '': '' @ message @ CHR 0x0A # CHR 0x0A # logs))
          else (u, Inr False))"

type_synonym build_step = "namespace \<times> host \<times> host_event list \<times> catalog_error option"

definition ensure_content :: "'b builder \<Rightarrow> client_faults \<Rightarrow> string \<Rightarrow> namespace \<Rightarrow> host \<Rightarrow> build_step" where
  "ensure_content bu cl bundleImage n h =
     (case cl_getConfigMap cl of
        Some e \<Rightarrow> (n, h, [], Some (CatConfigMap e))
      | None \<Rightarrow>
          if ns_Content n \<noteq> None then (n, h, [], None)
          else (case cl_getSecret cl of
                  Some e \<Rightarrow> (n, h, [], Some (CatSecret e))
                | None \<Rightarrow>
                    (case ns_PullSecret n of
                       None \<Rightarrow> (n, h, [], Some (CatSecret ''not found''))
                     | Some secret \<Rightarrow>
                         (case mget secret ''.dockerconfigjson'' of
                            None \<Rightarrow> (n, h, [], Some CatNoAuth)
                          | Some secretAuth \<Rightarrow>
                              (case CreateContent bu secretAuth bundleImage h of
                                 (h', evs, Inl e) \<Rightarrow> (n, h', evs, Some e)
                               | (h', evs, Inr content) \<Rightarrow>
                                   (case cl_createConfigMap cl of
                                      Some e \<Rightarrow> (n, h', evs, Some (CatCreate e))
                                    | None \<Rightarrow> (n\<lparr>ns_Content := Some [(''catalog.json'', content)]\<rparr>, h', evs, None)))))))"

definition ensure_build :: "client_faults \<Rightarrow> string \<Rightarrow> string \<Rightarrow> build_read list \<Rightarrow> namespace \<Rightarrow> namespace \<times> catalog_error option" where
  "ensure_build cl dockerfile ns reads n =
     (case cl_getBuild cl of
        Some e \<Rightarrow> (n, Some (CatGetBuild e))
      | None \<Rightarrow>
          if ns_Build n \<noteq> None then (n, None)
          else (case cl_createBuild cl of
                  Some e \<Rightarrow> (n, Some (CatCreate e))
                | None \<Rightarrow>
                    (n\<lparr>ns_Build := Some (catalog_build dockerfile ns)\<rparr>, map_option CatBuild (snd (poll build_cond reads ())))))"

definition CreateBuild :: "'b builder \<Rightarrow> client_faults \<Rightarrow> string \<Rightarrow> build_read list \<Rightarrow> string \<Rightarrow> string \<Rightarrow> namespace \<Rightarrow> host \<Rightarrow> build_step" where
  "CreateBuild bu cl dockerfile reads bundleImage ns n h =
     (case ensure_content bu cl bundleImage n h of
        (n', h', evs, Some e) \<Rightarrow> (n', h', evs, Some e)
      | (n', h', evs, None) \<Rightarrow> (case ensure_build cl dockerfile ns reads n' of (n'', e) \<Rightarrow> (n'', h', evs, e)))"

section \<open>Role bindings in the namespace of a job\<close>

record RoleBinding =
  rb_Name :: string
  rb_Namespace :: string
  rb_SubjectKind :: string
  rb_SubjectName :: string
  rb_SubjectNamespace :: string
  rb_Role :: string

text \<open>Creating a binding whose name is taken counts as success.\<close>

definition create_binding :: "string option \<Rightarrow> RoleBinding \<Rightarrow> RoleBinding list \<Rightarrow> RoleBinding list \<times> string option" where
  "create_binding fault rb bs =
     (case fault of
        Some e \<Rightarrow> (bs, Some e)
      | None \<Rightarrow>
          if \<exists>b \<in> set bs. rb_Name b = rb_Name rb \<and> rb_Namespace b = rb_Namespace rb then (bs, None) else (rb # bs, None))"

definition createBotCatalogRBAC :: "string option \<Rightarrow> string \<Rightarrow> RoleBinding list \<Rightarrow> RoleBinding list \<times> string option" where
  "createBotCatalogRBAC fault ns =
     create_binding fault \<lparr>rb_Name = ''cluster-bot-catalog-access'', rb_Namespace = ns, rb_SubjectKind = ''ServiceAccount'',
       rb_SubjectName = ''ci-chat-bot'', rb_SubjectNamespace = ''ci'', rb_Role = ''admin''\<rparr>"

definition user_binding :: "string \<Rightarrow> string \<Rightarrow> RoleBinding" where
  "user_binding ns user = \<lparr>rb_Name = ''cluster-bot-user-access'', rb_Namespace = ns, rb_SubjectKind = ''User'',
     rb_SubjectName = user, rb_SubjectNamespace = [], rb_Role = ''admin''\<rparr>"

definition createAccessRBAC :: "string option \<Rightarrow> string \<Rightarrow> string \<Rightarrow> RoleBinding list \<Rightarrow> RoleBinding list \<times> string option" where
  "createAccessRBAC fault ns user = create_binding fault (user_binding ns user)"

text \<open>One attempt to give the user access: whether the job has completed, an error of the clients, an error of the creation.\<close>

record access_try =
  at_complete :: bool
  at_client :: "string option"
  at_create :: "string option"

fun access_loop :: "string \<Rightarrow> string \<Rightarrow> access_try list \<Rightarrow> RoleBinding list \<Rightarrow> RoleBinding list \<times> string option" where
  "access_loop ns user [] bs = (bs, Some ''timed out waiting for the condition'')"
| "access_loop ns user (t # ts) bs =
     (if at_complete t then (bs, None)
      else (case at_client t of
              Some e \<Rightarrow> (bs, Some e)
            | None \<Rightarrow>
                (case createAccessRBAC (at_create t) ns user bs of
                   (bs', Some _) \<Rightarrow> access_loop ns user ts bs'
                 | (bs', None) \<Rightarrow> (bs', None))))"

text \<open>\<open>setupAccessRBAC\<close> tries ten times; its error is only logged.\<close>

definition setupAccessRBAC :: "Job \<Rightarrow> string \<Rightarrow> access_try list \<Rightarrow> RoleBinding list \<Rightarrow> RoleBinding list" where
  "setupAccessRBAC job ns tries bs =
     (if jb_RequesterUserID job = [] then bs else fst (access_loop ns (jb_RequesterUserID job) (take 10 tries) bs))"

text \<open>What the completion loop of the worker sees of a catalog job: \<open>rbac\<close> is an error of the clients or of the role binding.\<close>

definition catalog_attempt :: "string option \<Rightarrow> build_step \<Rightarrow> (catalog_error \<Rightarrow> string) \<Rightarrow> catalog_read" where
  "catalog_attempt rbac step describe =
     (case rbac of
        Some e \<Rightarrow> CatalogSetupError e
      | None \<Rightarrow> (case snd (snd (snd step)) of Some e \<Rightarrow> CatalogBuildError (describe e) | None \<Rightarrow> CatalogBuilt))"

definition fullBundlePullRef :: "Job \<Rightarrow> string \<Rightarrow> string \<Rightarrow> string" where
  "fullBundlePullRef job ns bundleName =
     ''registry.'' @ jb_BuildCluster job @ ''.ci.openshift.org/'' @ ns @ ''/pipeline:'' @ bundleName"

section \<open>Checks of a bundle\<close>

text \<open>
  Errors carry whether they are warnings. \<open>ob_check\<close> is the check of the metadata of an object, \<open>kind_ok\<close> the table of supported kinds,
  and the validators of the operator framework are the record \<open>validators\<close>.
\<close>

record ManifestResult =
  mr_Name :: string
  mr_Errors :: "(bool \<times> string) list"
  mr_Warnings :: "(bool \<times> string) list"

definition add_errors :: "(bool \<times> string) list \<Rightarrow> ManifestResult \<Rightarrow> ManifestResult" where
  "add_errors es r = r\<lparr>mr_Errors := mr_Errors r @ filter (\<lambda>e. \<not> fst e) es, mr_Warnings := mr_Warnings r @ filter fst es\<rparr>"

fun appendResult :: "ManifestResult list \<Rightarrow> ManifestResult \<Rightarrow> ManifestResult list" where
  "appendResult [] r = [r]"
| "appendResult (x # xs) r =
     (if mr_Name x = mr_Name r then add_errors (mr_Warnings r) (add_errors (mr_Errors r) x) # xs
      else x # appendResult xs r)"

record BundleObject =
  bo_Kind :: string
  bo_Name :: string
  bo_check :: "string option"

record 'c Bundle =
  bn_Name :: string
  bn_Objects :: "BundleObject list"
  bn_CSV :: "'c option"
  bn_CRDs :: "string list"

record 'c validators =
  va_kind_ok :: "string \<Rightarrow> bool"
  va_bundle :: "'c Bundle \<Rightarrow> ManifestResult list"
  va_csv :: "'c \<Rightarrow> ManifestResult list"
  va_crds :: "string list \<Rightarrow> ManifestResult list"

definition object_errors :: "(string \<Rightarrow> bool) \<Rightarrow> string \<Rightarrow> BundleObject \<Rightarrow> (bool \<times> string) list" where
  "object_errors kind_ok mediaType u =
     (if bo_Kind u \<in> {''ClusterServiceVersion'', ''CustomResourceDefinition''} then []
      else if mediaType = ''registry+v1'' \<and> \<not> kind_ok (bo_Kind u)
      then [(False, ''unsupported media type '' @ mediaType @ '' for bundle object'')]
      else (case bo_check u of None \<Rightarrow> [] | Some e \<Rightarrow> [(False, ''error validating object: '' @ e)]))"

definition ValidateBundleContent :: "'c validators \<Rightarrow> 'c Bundle \<Rightarrow> string \<Rightarrow> ManifestResult list" where
  "ValidateBundleContent va bundle mediaType =
     (let errs = \<lparr>mr_Name = bn_Name bundle, mr_Errors = [], mr_Warnings = []\<rparr> in
      if mediaType = ''helm'' then [errs]
      else let errs1 = add_errors (concat (map (object_errors (va_kind_ok va) mediaType) (bn_Objects bundle))) errs;
               results = va_bundle va bundle;
               crds = (if bn_CRDs bundle = [] then [] else va_crds va (bn_CRDs bundle)) in
        (case bn_CSV bundle of
           Some csv \<Rightarrow> appendResult (results @ va_csv va csv @ crds) errs1
         | None \<Rightarrow> appendResult (results @ crds) (add_errors [(False, ''no ClusterServiceVersion in bundle'')] errs1)))"

text \<open>
  \<open>RewriteAnnotationsYaml\<close>: \<open>dec\<close> reads an annotations file (no map when it has no annotations), \<open>enc\<close> writes one. Copying into
  the nil map of a file without annotations panics.
\<close>

definition RewriteAnnotationsYaml :: "file_faults \<Rightarrow> (string \<Rightarrow> (string, (string, string) gomap option) result) \<Rightarrow> ((string, string) gomap option \<Rightarrow> string) \<Rightarrow>
    string \<Rightarrow> (string, string) gomap \<Rightarrow> host \<Rightarrow> host \<times> catalog_error option" where
  "RewriteAnnotationsYaml ff dec enc filename content h =
     (case (case read_host ff h filename of Inl e \<Rightarrow> Inl e | Inr f \<Rightarrow> dec f) of
        Inl e \<Rightarrow> (h, Some (CatAuthFile e))
      | Inr None \<Rightarrow>
          if content \<noteq> [] then (h, Some CatPanic)
          else (case write_file ff filename (enc None) h of (h', e) \<Rightarrow> (h', map_option CatWrite e))
      | Inr (Some annotations) \<Rightarrow>
          (case write_file ff filename (enc (Some (maps_copy annotations content))) h of (h', e) \<Rightarrow> (h', map_option CatWrite e)))"

section \<open>Where manifests are read\<close>

lemma join_Cons_if: "join sep (w # ws) = (if ws = [] then w else w @ sep @ join sep ws)"
  by (cases ws) simp_all

lemma path_parts_slash: "path_parts (a @ CHR ''/'' # b) = path_parts a @ path_parts b"
proof -
  have "split_char CHR ''/'' (a @ CHR ''/'' # b) = split_char CHR ''/'' a @ split_char CHR ''/'' b"
    by (induction a) (auto split: list.splits)
  then show ?thesis by (simp add: path_parts_def)
qed

lemma path_parts_free: "w \<in> set (path_parts s) \<Longrightarrow> CHR ''/'' \<notin> set w \<and> w \<noteq> [] \<and> w \<noteq> ''.''"
  unfolding path_parts_def by (auto dest: split_char_free)

lemma path_parts_word: "CHR ''/'' \<notin> set w \<Longrightarrow> w \<noteq> [] \<Longrightarrow> w \<noteq> ''.'' \<Longrightarrow> path_parts w = [w]"
  unfolding path_parts_def by (simp add: split_char_id)

lemma path_parts_join:
  "(\<And>w. w \<in> set ws \<Longrightarrow> CHR ''/'' \<notin> set w \<and> w \<noteq> [] \<and> w \<noteq> ''.'') \<Longrightarrow> path_parts (join ''/'' ws) = ws"
proof (induction ws)
  case Nil
  show ?case by (simp add: path_parts_def)
next
  case (Cons w ws)
  have w: "path_parts w = [w]" using Cons.prems [of w] by (intro path_parts_word) auto
  show ?case
  proof (cases "ws = []")
    case True
    then show ?thesis using w by simp
  next
    case False
    have "join ''/'' (w # ws) = w @ CHR ''/'' # join ''/'' ws" using False by (simp add: join_Cons_if)
    then show ?thesis using w Cons by (simp add: path_parts_slash)
  qed
qed

lemma path_fold_plain: "''..'' \<notin> set ps \<Longrightarrow> foldl (path_step rooted) acc ps = acc @ ps"
proof (induction ps arbitrary: acc)
  case (Cons p ps)
  then have "path_step rooted acc p = acc @ [p]" by (auto simp: path_step_def)
  then show ?case using Cons by simp
qed simp

text \<open>Cleaning keeps the parts of a path without parent references.\<close>

lemma Clean_parts:
  assumes "''..'' \<notin> set (path_parts v)"
  shows "Clean v \<noteq> [] \<and> path_parts (Clean v) = path_parts v"
proof -
  let ?ps = "path_parts v"
  have parts: "path_parts (join ''/'' ?ps) = ?ps" by (rule path_parts_join) (rule path_parts_free)
  have root: "path_parts (CHR ''/'' # s) = path_parts s" for s
    using path_parts_slash [of "[]" s] by (simp add: path_parts_def)
  have dot: "path_parts ''.'' = []" by (simp add: path_parts_def)
  show ?thesis
  proof (cases "v = []")
    case True
    then show ?thesis by (simp add: Clean_def dot) (simp add: path_parts_def)
  next
    case False
    have fold: "foldl (path_step r) [] ?ps = ?ps" for r using path_fold_plain [OF assms] by simp
    have empty: "join ''/'' ?ps = [] \<longleftrightarrow> ?ps = []" by (rule join_eq_Nil_iff) (use path_parts_free in blast)
    show ?thesis using False parts root dot empty by (auto simp: Clean_def Let_def fold)
  qed
qed

definition plain_dir :: "string \<Rightarrow> bool" where
  "plain_dir d \<longleftrightarrow> d \<noteq> [] \<and> CHR ''/'' \<notin> set d \<and> d \<noteq> ''.'' \<and> d \<noteq> ''..''"

lemma Join_below:
  assumes "plain_dir d" "''..'' \<notin> set (path_parts v)"
  shows "Join [d, Clean v] = join ''/'' (d # path_parts v)"
proof -
  have d: "d \<noteq> []" "path_parts d = [d]" "d \<noteq> ''..''" using assms(1) by (simp_all add: plain_dir_def path_parts_word)
  have c: "Clean v \<noteq> []" "path_parts (Clean v) = path_parts v" using Clean_parts [OF assms(2)] by simp_all
  let ?p = "d @ CHR ''/'' # Clean v"
  have parts: "path_parts ?p = d # path_parts v" using d c by (simp add: path_parts_slash)
  have plain: "''..'' \<notin> set (path_parts ?p)" using parts assms(2) d(3) by auto
  have root: "\<not> has_prefix ?p ''/''" using assms(1) by (cases d) (auto simp: plain_dir_def has_prefix_iff)
  have "Join [d, Clean v] = Clean ?p" using d(1) c(1) by (simp add: Join_def)
  also have "\<dots> = join ''/'' (d # path_parts v)"
    using root d(1) path_fold_plain [OF plain, of False "[]"] parts by (cases "path_parts v") (auto simp: Clean_def Let_def)
  finally show ?thesis .
qed

definition below :: "string \<Rightarrow> string \<Rightarrow> bool" where
  "below d p \<longleftrightarrow> p = d \<or> has_prefix p (d @ ''/'')"

lemma join_below: "below d (join ''/'' (d # ps))"
  by (cases ps) (auto simp: below_def has_prefix_iff)

lemma LoadBundle_reads:
  assumes "BundleRead d \<in> set (fst (LoadBundle reg (Inr dir) yaml gb img))"
  shows "\<exists>fs labels path v. rg_unpack reg img = Inr fs \<and> findBundleMetadata yaml fs dir = Inr (labels, path) \<and>
           mget labels ManifestsLabel = Some v \<and> d = Join [dir, Clean v]"
  using assms
  by (auto simp: LoadBundle_def ExtractBundleImage_def GetManifestsDir_def mget0_def mhas_def Let_def
        split: option.splits sum.splits if_splits)

text \<open>
  C28: Loading a bundle reads manifests only below the directory into which its image was unpacked, provided the label
  that names the directory of the manifests has no parent reference; cleaning the path does not turn it elsewhere.
\<close>

theorem manifests_read_below:
  assumes "plain_dir dir"
    and "\<And>fs labels path v. rg_unpack reg img = Inr fs \<Longrightarrow> findBundleMetadata yaml fs dir = Inr (labels, path) \<Longrightarrow>
           mget labels ManifestsLabel = Some v \<Longrightarrow> ''..'' \<notin> set (path_parts v)"
    and "BundleRead d \<in> set (fst (LoadBundle reg (Inr dir) yaml gb img))"
  shows "below dir d"
proof -
  obtain fs labels path v where fs: "rg_unpack reg img = Inr fs" "findBundleMetadata yaml fs dir = Inr (labels, path)"
      "mget labels ManifestsLabel = Some v" "d = Join [dir, Clean v]"
    using LoadBundle_reads [OF assms(3)] by blast
  then have "d = join ''/'' (dir # path_parts v)" using Join_below [OF assms(1) assms(2)] by simp
  then show ?thesis by (simp only: join_below)
qed

definition sample_registry :: "string \<Rightarrow> string registry" where
  "sample_registry label = \<lparr>rg_new = None, rg_pull = (\<lambda>_. None),
     rg_unpack = (\<lambda>_. Inr (Dir (Some [(''metadata'', Dir (Some [(''annotations.yaml'', File (Some label))]))]))),
     rg_labels = (\<lambda>_. Inr []), rg_render = (\<lambda>refs. Inr refs)\<rparr>"

definition sample_yaml :: "string \<Rightarrow> (string, LabelsMap) result" where
  "sample_yaml s = Inr [(ManifestsLabel, s), (PackageLabel, ''efs'')]"

lemma sample_metadata:
  "findBundleMetadata sample_yaml (Dir (Some [(''metadata'', Dir (Some [(''annotations.yaml'', File (Some label))]))])) dir =
     Inr ([(ManifestsLabel, label), (PackageLabel, ''efs'')], Join [dir, ''metadata/'', ''annotations.yaml''])"
  by (simp add: findBundleMetadata_def readAnnotations_def sample_yaml_def)

lemma sample_manifests: "mget [(ManifestsLabel, label), (PackageLabel, ''efs'')] ManifestsLabel = Some label"
  by (simp add: mget_def)

lemma sample_load:
  "LoadBundle (sample_registry label) (Inr dir) sample_yaml gb img =
     ([DirCreated dir, BundleRead (Join [dir, Clean label]), DirRemoved dir],
      case gb (Join [dir, Clean label]) of Inl e \<Rightarrow> Inl (CatLoad e) | Inr csv \<Rightarrow> Inr ([(ManifestsLabel, label), (PackageLabel, ''efs'')], csv))"
  by (simp add: LoadBundle_def ExtractBundleImage_def sample_registry_def sample_metadata GetManifestsDir_def
      sample_manifests mget0_def mhas_def split: sum.split)

theorem manifests_read_below_witness:
  "below ''bundle-1'' (Join [''bundle-1'', Clean ''manifests/''])"
proof (rule manifests_read_below [where dir = "''bundle-1''" and reg = "sample_registry ''manifests/''" and yaml = sample_yaml
      and gb = "\<lambda>_. Inr (Some ''efs.v1'')" and img = "''bundle''"])
  show "plain_dir ''bundle-1''" by (simp add: plain_dir_def)
  show "''..'' \<notin> set (path_parts v)"
    if "rg_unpack (sample_registry ''manifests/'') ''bundle'' = Inr fs" "findBundleMetadata sample_yaml fs ''bundle-1'' = Inr (labels, path)"
      "mget labels ManifestsLabel = Some v" for fs labels path v
  proof -
    have "v = ''manifests/''" using that by (auto simp: sample_registry_def sample_metadata sample_manifests)
    then show ?thesis by (simp add: path_parts_def)
  qed
  show "BundleRead (Join [''bundle-1'', Clean ''manifests/'']) \<in>
      set (fst (LoadBundle (sample_registry ''manifests/'') (Inr ''bundle-1'') sample_yaml (\<lambda>_. Inr (Some ''efs.v1'')) ''bundle''))"
    by (simp add: sample_load)
qed

text \<open>A label with parent references makes the builder read manifests anywhere on the host.\<close>

lemma manifests_escape:
  "BundleRead ''../etc'' \<in> set (fst (LoadBundle (sample_registry ''../../etc'') (Inr ''bundle-1'') sample_yaml gb img)) \<and>
   \<not> below ''bundle-1'' ''../etc''"
proof -
  have "Join [''bundle-1'', Clean ''../../etc''] = ''../etc''"
    by (simp add: Join_def Clean_def path_parts_def path_step_def has_prefix_def Let_def)
  then show ?thesis by (simp add: sample_load below_def has_prefix_def)
qed

text \<open>The temporary directory is removed unless the image cannot be pulled or unpacked: then it is left behind.\<close>

lemma temporary_directory:
  "LoadBundle reg (Inr dir) yaml gb img = (evs, r) \<Longrightarrow>
     evs = [DirCreated dir] \<and> (\<exists>e. r = Inl (CatPull e)) \<or> hd evs = DirCreated dir \<and> last evs = DirRemoved dir"
  by (auto simp: LoadBundle_def ExtractBundleImage_def Let_def split: option.splits sum.splits prod.splits if_splits)

section \<open>What a successful build means\<close>

definition bundle_catalog :: "string \<Rightarrow> string \<Rightarrow> 'b \<Rightarrow> 'b DeclarativeConfig" where
  "bundle_catalog package csvName b =
     \<lparr>dc_Packages = [\<lparr>pk_Schema = ''olm.package'', pk_Name = package, pk_DefaultChannel = DefaultChannel\<rparr>],
      dc_Channels = [\<lparr>ch_Schema = ''olm.channel'', ch_Name = DefaultChannel, ch_Package = package, ch_Entries = [csvName]\<rparr>],
      dc_Bundles = [b]\<rparr>"

lemma generateFBCContent_Inr:
  "generateFBCContent reg fmt \<lparr>fb_Package = p, fb_ChannelName = DefaultChannel, fb_Refs = [img], fb_ChannelEntry = c\<rparr> = Inr content \<Longrightarrow>
     \<exists>b. rg_render reg [img] = Inr [b] \<and> cf_invalid fmt (bundle_catalog p c b) = None \<and>
         cf_write fmt (bundle_catalog p c b) = Inr content \<and> content \<noteq> []"
  by (auto simp: generateFBCContent_def CreateFBC_def RenderRefs_def ValidateAndStringify_def bundle_catalog_def
      split: sum.splits option.splits list.splits if_splits)

lemma CreateContent_Inr:
  assumes "CreateContent bu auth img h = (h', evs, Inr content)"
  shows "\<exists>labels csv b. snd (LoadBundle (bu_registry bu) (bu_tempDir bu) (bu_yaml bu) (bu_loader bu) img) = Inr (labels, Some csv) \<and>
    rg_render (bu_registry bu) [img] = Inr [b] \<and> cf_invalid (bu_format bu) (bundle_catalog (mget0 [] labels PackageLabel) csv b) = None \<and>
    cf_write (bu_format bu) (bundle_catalog (mget0 [] labels PackageLabel) csv b) = Inr content \<and> content \<noteq> []"
  using assms unfolding CreateContent_def
  by (auto split: prod.splits option.splits sum.splits dest: generateFBCContent_Inr)

lemma poll_build_complete:
  assumes "snd (poll build_cond reads ()) = None"
  shows "\<exists>r m l. BuildPhase ''Complete'' r m l \<in> set reads"
proof -
  have "poll build_cond reads () = ((), None)" using assms by (cases "poll build_cond reads ()") simp
  then obtain ob where ob: "ob \<in> set reads" "build_cond ob () = ((), Inr True)" using poll_success by fastforce
  obtain phase r m l where p: "ob = BuildPhase phase r m l" using ob(2) by (cases ob) (simp_all add: build_cond_def)
  have "phase = ''Complete''" using ob(2) unfolding p by (simp add: build_cond_def split: if_splits)
  then show ?thesis using ob(1) p by blast
qed

text \<open>The content that the builder stores for an image.\<close>

definition content_of :: "'b builder \<Rightarrow> string \<Rightarrow> string \<Rightarrow> bool" where
  "content_of bu img content \<longleftrightarrow>
     content \<noteq> [] \<and>
     (\<exists>labels csv b. snd (LoadBundle (bu_registry bu) (bu_tempDir bu) (bu_yaml bu) (bu_loader bu) img) = Inr (labels, Some csv) \<and>
        rg_render (bu_registry bu) [img] = Inr [b] \<and> cf_invalid (bu_format bu) (bundle_catalog (mget0 [] labels PackageLabel) csv b) = None \<and>
        cf_write (bu_format bu) (bundle_catalog (mget0 [] labels PackageLabel) csv b) = Inr content)"

lemma ensure_content_ok:
  assumes "ensure_content bu cl img n h = (n', h', evs, None)"
  shows "if ns_Content n \<noteq> None then n' = n \<and> h' = h
         else \<exists>content. n' = n\<lparr>ns_Content := Some [(''catalog.json'', content)]\<rparr> \<and> content_of bu img content"
  using assms unfolding ensure_content_def content_of_def
  by (auto split: option.splits prod.splits sum.splits if_splits dest!: CreateContent_Inr)

lemma ensure_build_ok:
  assumes "ensure_build cl df ns reads n = (n', None)"
  shows "if ns_Build n \<noteq> None then n' = n
         else n' = n\<lparr>ns_Build := Some (catalog_build df ns)\<rparr> \<and> (\<exists>r m l. BuildPhase ''Complete'' r m l \<in> set reads)"
  using assms poll_build_complete unfolding ensure_build_def by (auto split: option.splits if_splits)

text \<open>
  C27: When the catalog builder succeeds in a namespace without a catalog build, the namespace has the catalog image's build and
  it was seen to complete; the stored content is a valid catalog with exactly the bundle of the image, its package by the label
  and one channel, unless there already was content, which is kept.
\<close>

theorem catalog_build_sound:
  assumes "CreateBuild bu cl df reads img ns n h = (n', h', evs, None)" and "ns_Build n = None"
  shows "ns_Build n' = Some (catalog_build df ns) \<and> (\<exists>r m l. BuildPhase ''Complete'' r m l \<in> set reads) \<and>
    ns_PullSecret n' = ns_PullSecret n \<and>
    (case ns_Content n of
       Some c \<Rightarrow> ns_Content n' = Some c \<and> h' = h
     | None \<Rightarrow> (\<exists>content. ns_Content n' = Some [(''catalog.json'', content)] \<and> content_of bu img content))"
proof -
  obtain n1 where n1: "ensure_content bu cl img n h = (n1, h', evs, None)" "ensure_build cl df ns reads n1 = (n', None)"
    using assms(1) unfolding CreateBuild_def by (auto split: prod.splits option.splits)
  note c = ensure_content_ok [OF n1(1)]
  have "ns_Build n1 = None" "ns_PullSecret n1 = ns_PullSecret n" using c assms(2) by (auto split: if_splits)
  then have b: "n' = n1\<lparr>ns_Build := Some (catalog_build df ns)\<rparr>" "\<exists>r m l. BuildPhase ''Complete'' r m l \<in> set reads"
    using ensure_build_ok [OF n1(2)] by simp_all
  show ?thesis
  proof (cases "ns_Content n")
    case None
    then show ?thesis using b c \<open>ns_PullSecret n1 = _\<close> by auto
  next
    case (Some content)
    then show ?thesis using b c \<open>ns_PullSecret n1 = _\<close> by auto
  qed
qed

definition sample_files :: file_faults where
  "sample_files = \<lparr>ff_stat = (\<lambda>_. None), ff_mkdir = (\<lambda>_. None), ff_read = (\<lambda>_. None), ff_write = (\<lambda>_. None)\<rparr>"

definition sample_json :: json_object where
  "sample_json = \<lparr>js_decode = (\<lambda>s. Inr (Some (if s = ''{}'' then [] else [(''auths'', s)]))), js_encode = (\<lambda>m. concat (map snd m))\<rparr>"

definition sample_builder :: "string builder" where
  "sample_builder = \<lparr>bu_faults = sample_files, bu_json = sample_json, bu_home = ''/home'', bu_runtime = ''/run'',
     bu_registry = sample_registry ''manifests/'', bu_tempDir = Inr ''bundle-1'', bu_yaml = sample_yaml,
     bu_loader = (\<lambda>_. Inr (Some ''efs.v1'')), bu_format = \<lparr>cf_invalid = (\<lambda>_. None), cf_write = (\<lambda>_. Inr ''catalog'')\<rparr>\<rparr>"

definition no_faults :: client_faults where
  "no_faults = \<lparr>cl_getConfigMap = None, cl_getSecret = None, cl_createConfigMap = None, cl_getBuild = None, cl_createBuild = None\<rparr>"

definition fresh_namespace :: namespace where
  "fresh_namespace = \<lparr>ns_PullSecret = Some [(''.dockerconfigjson'', ''token'')], ns_Content = None, ns_Build = None\<rparr>"

definition empty_host :: host where
  "empty_host = \<lparr>ho_files = [(''/home/.docker/config.json'', ''{}'')], ho_dirs = []\<rparr>"

lemma sample_auth_file:
  "auth_file sample_files ''/home'' ''/run'' empty_host = (empty_host, Inr ''/home/.docker/config.json'')"
proof -
  have path: "Join [''/home'', ''.docker/config.json''] = ''/home/.docker/config.json''"
    by (simp add: Join_def Clean_def path_parts_def path_step_def has_prefix_def Let_def)
  have "os_stat sample_files empty_host ''/home/.docker/config.json'' = StatOk"
    by (simp add: os_stat_def sample_files_def empty_host_def mhas_def mget_def)
  then show ?thesis unfolding auth_file_def path by simp
qed

lemma sample_auth:
  "UpdateDockerConfigJSON sample_files sample_json ''/home'' ''/run'' ''token'' empty_host =
     (\<lparr>ho_files = [(''/home/.docker/config.json'', ''token'')], ho_dirs = []\<rparr>, None)"
  unfolding UpdateDockerConfigJSON_def sample_auth_file
  by (simp add: read_host_def write_file_def sample_files_def sample_json_def empty_host_def mget_def mput_def entries_def maps_copy_def)

lemma sample_content:
  "CreateContent sample_builder ''token'' ''bundle'' empty_host =
     (\<lparr>ho_files = [(''/home/.docker/config.json'', ''token'')], ho_dirs = []\<rparr>,
      [DirCreated ''bundle-1'', BundleRead (Join [''bundle-1'', Clean ''manifests/'']), DirRemoved ''bundle-1''], Inr ''catalog'')"
  unfolding CreateContent_def sample_builder_def
  by (simp add: sample_auth sample_load generateFBCContent_def CreateFBC_def RenderRefs_def ValidateAndStringify_def)
    (simp add: sample_registry_def ValidateAndStringify_def)

lemma sample_catalog_build:
  "snd (snd (snd (CreateBuild sample_builder no_faults df [BuildUnread, BuildPhase ''Complete'' [] [] []] ''bundle'' ''ci-ln-1''
     fresh_namespace empty_host))) = None"
  by (simp add: CreateBuild_def ensure_content_def no_faults_def fresh_namespace_def mget_def sample_content ensure_build_def build_cond_def)

theorem catalog_build_sound_witness:
  "ns_Build (fst (CreateBuild sample_builder no_faults [] [BuildUnread, BuildPhase ''Complete'' [] [] []] ''bundle'' ''ci-ln-1'' fresh_namespace empty_host))
     = Some (catalog_build [] ''ci-ln-1'')"
proof -
  let ?s = "CreateBuild sample_builder no_faults [] [BuildUnread, BuildPhase ''Complete'' [] [] []] ''bundle'' ''ci-ln-1'' fresh_namespace empty_host"
  have "?s = (fst ?s, fst (snd ?s), fst (snd (snd ?s)), None)" using sample_catalog_build [of "[]"] by (metis prod.collapse)
  moreover have "ns_Build fresh_namespace = None" by (simp add: fresh_namespace_def)
  ultimately show ?thesis using catalog_build_sound by blast
qed

text \<open>Making the content never fails with the error of a build.\<close>

lemma no_build_error: "CreateContent bu auth img h \<noteq> (h', evs, Inl (CatBuild e))"
proof -
  have "snd (UpdateDockerConfigJSON ff js hd rd auth h) \<noteq> Some (CatBuild e)" for ff js hd rd
    by (auto simp: UpdateDockerConfigJSON_def Let_def split: prod.splits sum.splits option.splits)
  moreover have "snd (LoadBundle reg td yaml gb img) \<noteq> Inl (CatBuild e)" for reg :: "'a registry" and td yaml gb
    by (auto simp: LoadBundle_def Let_def split: prod.splits sum.splits)
  moreover have "generateFBCContent reg fmt f \<noteq> Inl (CatBuild e)" for reg :: "'a registry" and fmt f
    by (auto simp: generateFBCContent_def CreateFBC_def RenderRefs_def ValidateAndStringify_def split: sum.splits option.splits list.splits)
  ultimately show ?thesis unfolding CreateContent_def by (auto split: prod.splits option.splits sum.splits) (metis snd_conv)+
qed

text \<open>
  An existing build is never looked at. After a failed build, a second attempt (of a worker after a restart of the bot) reports
  success, so the user is told that the catalog was built.
\<close>

lemma failed_build_reported_as_built:
  assumes "CreateBuild bu no_faults df reads img ns n h = (n', h', evs, Some (CatBuild e))"
  shows "CreateBuild bu' no_faults df' reads' img' ns n' h'' = (n', h'', [], None)"
proof -
  obtain n1 where n1: "ensure_content bu no_faults img n h = (n1, h', evs, None) \<and> ensure_build no_faults df ns reads n1 = (n', Some (CatBuild e)) \<or>
      ensure_content bu no_faults img n h = (n', h', evs, Some (CatBuild e))"
    using assms unfolding CreateBuild_def by (auto split: prod.splits option.splits)
  have "ensure_content bu no_faults img n h \<noteq> (n', h', evs, Some (CatBuild e))"
    by (auto simp: no_build_error ensure_content_def no_faults_def split: option.splits prod.splits sum.splits if_splits)
  then have n2: "ensure_content bu no_faults img n h = (n1, h', evs, None)" "ensure_build no_faults df ns reads n1 = (n', Some (CatBuild e))"
    using n1 by auto
  have "ns_Content n1 \<noteq> None" using ensure_content_ok [OF n2(1)] by (auto split: if_splits)
  moreover have "ns_Build n' \<noteq> None \<and> ns_Content n' = ns_Content n1"
    using n2(2) by (auto simp: ensure_build_def no_faults_def split: if_splits)
  ultimately show ?thesis by (auto simp: CreateBuild_def ensure_content_def ensure_build_def no_faults_def)
qed

section \<open>Credentials and access\<close>

lemma mget_maps_copy: "mget (maps_copy dst src) k = (case mget (rev src) k of None \<Rightarrow> mget dst k | Some v \<Rightarrow> Some v)"
proof (induction src arbitrary: dst)
  case (Cons p src)
  have "mget (rev src @ [p]) k = (case mget (rev src) k of None \<Rightarrow> if fst p = k then Some (snd p) else None | Some v \<Rightarrow> Some v)"
    by (auto simp: mget_def map_of_append map_add_def split: option.splits)
  then show ?case using Cons.IH [of "mput (fst p) (snd p) dst"]
    by (cases p) (auto simp: maps_copy_def mget_def mput_def update_conv' split: option.splits)
qed (simp add: maps_copy_def mget_def)

text \<open>
  Credentials are merged key by key of the whole file: the entry \<open>auths\<close> of a secret replaces the credentials of all registries
  that the file had.
\<close>

lemma auths_replaced:
  assumes "mget (rev new) ''auths'' = Some a"
  shows "mget (maps_copy old new) ''auths'' = Some a"
  using assms by (simp add: mget_maps_copy)

lemma access_loop_bindings:
  "fst (access_loop ns user ts bs) = bs \<or> fst (access_loop ns user ts bs) = user_binding ns user # bs"
proof (induction ts)
  case (Cons t ts)
  then show ?case by (auto simp: createAccessRBAC_def create_binding_def split: option.splits)
qed simp

text \<open>Only the user who requested the job gets access to its namespace, once, and nobody when the user is unknown.\<close>

lemma access_only_for_requester:
  "setupAccessRBAC job ns tries bs = bs \<or>
   jb_RequesterUserID job \<noteq> [] \<and> setupAccessRBAC job ns tries bs = user_binding ns (jb_RequesterUserID job) # bs"
  using access_loop_bindings by (auto simp: setupAccessRBAC_def)

text \<open>Adding the result of the checks to the results of the validators loses no error.\<close>

lemma appendResult_errors:
  "set (concat (map mr_Errors (appendResult rs r))) \<supseteq> {e \<in> set (mr_Errors r). \<not> fst e} \<union> set (concat (map mr_Errors rs))"
  by (induction rs) (auto simp: add_errors_def)

end
