(* ===== verification/Recovery.thy ===== *)
theory Recovery
  imports SyncProps
begin

text \<open>
  The manager recovers: whatever happened before, once the clusters have expired a synchronisation
  frees the capacity and every user again.
\<close>

section \<open>An upper bound on what is remembered\<close>

definition horizon :: "manager \<Rightarrow> gotime" where
  "horizon m = fold max (map jb_ExpiresAt (mvals (mg_jobs m)) @
     map (\<lambda>r. rq_RequestedAt r + 2 * mg_maxAge m) (mvals (mg_requests m))) 0"

lemma fold_max_le: "(x :: int) \<in> set xs \<Longrightarrow> x \<le> fold max xs a"
proof -
  have base: "a \<le> fold max xs a" for xs and a :: int 
  proof (induction xs arbitrary: a)
    case (Cons y ys)
    have "a \<le> max y a" by simp
    also have "\<dots> \<le> fold max ys (max y a)" by (rule Cons.IH)
    finally show ?case by simp
  qed simp
  show "x \<in> set xs \<Longrightarrow> x \<le> fold max xs a"
  proof (induction xs arbitrary: a)
    case (Cons y ys)
    then show ?case using base [where xs = ys and a = "max y a"] by (auto intro: order_trans)
  qed simp
qed

lemma horizon_job: "mget (mg_jobs m) k = Some j \<Longrightarrow> jb_ExpiresAt j \<le> horizon m"
  unfolding horizon_def by (rule fold_max_le) (force simp: mvals_def dest: mget_in_set)

lemma horizon_request: "mget (mg_requests m) u = Some r \<Longrightarrow> rq_RequestedAt r + 2 * mg_maxAge m \<le> horizon m"
  unfolding horizon_def by (rule fold_max_le) (force simp: mvals_def dest: mget_in_set)

section \<open>A synchronisation without live jobs\<close>

lemma sync_jobs_dead:
  "list_all (\<lambda>pj. job_of_prow se (mg_maxAge m) pj = None) pjs \<Longrightarrow> sync_jobs se pjs m = (m, [])"
  by (induction pjs) (auto simp: sync_job_def)

lemma no_entries: "(\<And>k. mget m k = None) \<Longrightarrow> m = []"
  by (cases m) (auto dest: meta_spec [of _ "fst (hd m)"] simp: mget_def)

lemma forget_everything:
  assumes "wf_manager m" "horizon m < now"
  shows "mg_jobs (forget_old now m) = []" "mg_requests (forget_old now m) = []"
proof -
  have wf: "wf_map (mg_jobs m)" "list_all (\<lambda>(k, j). jb_Name j = k) (mg_jobs m)"
    "wf_map (mg_requests m)" "list_all (\<lambda>(k, r). rq_User r = k) (mg_requests m)"
    using assms(1) by (simp_all add: wf_manager_def)
  have "mget (mg_jobs (forget_old now m)) k = None" for k
    using fold_forget [OF wf(1,2), of "\<lambda>j. jb_ExpiresAt j < now" k] horizon_job [of m k] assms(2)
    by (fastforce simp: forget_old_def split: option.splits)
  then show "mg_jobs (forget_old now m) = []" by (rule no_entries)
  have "mget (mg_requests (forget_old now m)) u = None" for u
    using fold_forget [OF wf(3,4), of "\<lambda>r. rq_RequestedAt r + 2 * mg_maxAge m < now" u] horizon_request [of m u] assms(2)
    by (fastforce simp: forget_old_def split: option.splits)
  then show "mg_requests (forget_old now m) = []" by (rule no_entries)
qed

text \<open>
  C18: no user is locked out for good. From every state the manager can reach there is a time after which a
  synchronisation that finds no live Prow job leaves a manager that admits the launch of any user.
\<close>

theorem lockout_is_temporary:
  assumes "reach enabled m" "0 < mg_maxClusters m"
  shows "\<exists>deadline. \<forall>se pjs now req job.
    deadline < se_now se \<and> list_all (\<lambda>pj. job_of_prow se (mg_maxAge m) pj = None) pjs \<and> launch_mode (jb_Mode job) \<longrightarrow>
    (\<exists>m' evs m''. sync se (Inr pjs) m = Inr (m', evs) \<and> admit m' now req job = (m'', Inr []) \<and>
       mget (mg_jobs m'') (jb_Name job) = Some job \<and> mget (mg_requests m'') (rq_User req) = Some req)"
proof (rule exI [of _ "horizon m"], intro allI impI, elim conjE)
  fix se :: sync_env and pjs :: "ProwJob list" and now and req :: JobRequest and job :: Job
  assume a: "horizon m < se_now se" "list_all (\<lambda>pj. job_of_prow se (mg_maxAge m) pj = None) pjs" "launch_mode (jb_Mode job)"
  note f = forget_everything [OF wf.reach_inv [OF assms(1)] a(1)]
  have "mg_maxClusters (forget_old (se_now se) m) = mg_maxClusters m" by (simp add: forget_old_def)
  then have "admit (forget_old (se_now se) m) now req job =
      ((forget_old (se_now se) m)\<lparr>mg_requests := mput (rq_User req) req [], mg_jobs := mput (jb_Name job) job []\<rparr>, Inr [])"
    using a(3) f assms(2) by (simp add: admit_def admit_cluster_def Let_def)
  then show "\<exists>m' evs m''. sync se (Inr pjs) m = Inr (m', evs) \<and> admit m' now req job = (m'', Inr []) \<and>
       mget (mg_jobs m'') (jb_Name job) = Some job \<and> mget (mg_requests m'') (rq_User req) = Some req"
    using sync_jobs_dead [OF a(2)] by (simp add: sync_def gm.lookup_insert)
qed

theorem lockout_is_temporary_witness:
  "\<exists>m'. (\<exists>evs deadline. sync (sample_sync\<lparr>se_now := deadline + 1\<rparr>) (Inr []) sample_launched = Inr (m', evs)) \<and>
     (\<exists>m''. admit m' 9 (sample_request ''v'' ''c2'' JobTypeLaunch) (sample_job ''v'' ''c2'' JobTypeLaunch) = (m'', Inr []))"
proof -
  have r: "reach enabled sample_launched" "0 < mg_maxClusters sample_launched"
    using sample_launched_enabled by (simp_all add: sample_launched_def NewJobManager_def maxTotalClusters_def)
  obtain deadline where "\<forall>se pjs now req job.
    deadline < se_now se \<and> list_all (\<lambda>pj. job_of_prow se (mg_maxAge sample_launched) pj = None) pjs \<and> launch_mode (jb_Mode job) \<longrightarrow>
    (\<exists>m' evs m''. sync se (Inr pjs) sample_launched = Inr (m', evs) \<and> admit m' now req job = (m'', Inr []) \<and>
       mget (mg_jobs m'') (jb_Name job) = Some job \<and> mget (mg_requests m'') (rq_User req) = Some req)"
    using lockout_is_temporary [OF r] by blast
  from this [rule_format, of "sample_sync\<lparr>se_now := deadline + 1\<rparr>" "[]" "sample_job ''v'' ''c2'' JobTypeLaunch" 9 "sample_request ''v'' ''c2'' JobTypeLaunch"]
  show ?thesis by auto
qed

end
