(* ===== verification/Leases.thy ===== *)
theory Leases
  imports GcpProps
begin

text \<open>
  What the Google Cloud access manager promises, as a table of leases, and the proof that
  \<open>GrantAccess\<close>, \<open>RevokeAccess\<close> and \<open>CleanupExpiredAccess\<close> implement it: the cache, the managed bindings of
  the IAM policy and the table agree after every run of operations, and the other bindings of the project are
  never touched.
\<close>

section \<open>The specification\<close>

record lease =
  ll_user :: string
  ll_account :: string
  ll_expiry :: gotime
  ll_reason :: string

definition lease_of :: "lease list \<Rightarrow> string \<Rightarrow> lease option" where
  "lease_of ls email = find (\<lambda>l. ll_user l = email) ls"

text \<open>A lease ends at a whole second.\<close>

definition lease_end :: "lease \<Rightarrow> gotime" where
  "lease_end l = ll_expiry l - ll_expiry l mod second"

datatype access_op = OpGrant string string string string | OpQuery string | OpRevoke string | OpCleanup

definition lease_step :: "gcp_api \<Rightarrow> access_op \<Rightarrow> lease list \<Rightarrow> lease list" where
  "lease_step api op ls =
     (case op of
        OpGrant email _ just _ \<Rightarrow>
          (case lease_of ls email of
             Some _ \<Rightarrow> ls
           | None \<Rightarrow>
               (case ga_create api (account_id email (ga_unix api)) of
                  Inl _ \<Rightarrow> ls
                | Inr sa \<Rightarrow> ls @ [\<lparr>ll_user = email, ll_account = sa, ll_expiry = ga_now api + GCPAccessDuration, ll_reason = just\<rparr>]))
      | OpQuery _ \<Rightarrow> ls
      | OpRevoke email \<Rightarrow> filter (\<lambda>l. ll_user l \<noteq> email) ls
      | OpCleanup \<Rightarrow> filter (\<lambda>l. \<not> lease_end l < ga_now api) ls)"

section \<open>The implementation\<close>

definition access_step :: "gcp_api \<Rightarrow> access_op \<Rightarrow> gcp \<Rightarrow> gcp option" where
  "access_step api op g =
     (case op of
        OpGrant email requestedBy just res \<Rightarrow>
          (case GrantAccess api email requestedBy just res g of (g', Inr _) \<Rightarrow> Some g' | (_, Inl _) \<Rightarrow> None)
      | OpQuery email \<Rightarrow> (case GetUserGrant api email g of (g', Inr _) \<Rightarrow> Some g' | (_, Inl _) \<Rightarrow> None)
      | OpRevoke email \<Rightarrow> (case RevokeAccess api email g of (g', None) \<Rightarrow> Some g' | (_, Some _) \<Rightarrow> None)
      | OpCleanup \<Rightarrow> (case CleanupExpiredAccess api g of (g', None) \<Rightarrow> Some g' | (_, Some _) \<Rightarrow> None))"

fun access_run :: "(gcp_api \<times> access_op) list \<Rightarrow> gcp \<Rightarrow> gcp option" where
  "access_run [] g = Some g"
| "access_run ((api, op) # steps) g =
     (case access_step api op g of None \<Rightarrow> None | Some g' \<Rightarrow> access_run steps g')"

fun lease_run :: "(gcp_api \<times> access_op) list \<Rightarrow> lease list \<Rightarrow> lease list" where
  "lease_run [] ls = ls"
| "lease_run ((api, op) # steps) ls = lease_run steps (lease_step api op ls)"

section \<open>The relation\<close>

definition lease_binding :: "lease \<Rightarrow> Binding" where
  "lease_binding l = access_binding (ll_account l) (ll_expiry l) (ll_reason l)"

definition expressible :: "gotime \<Rightarrow> bool" where
  "expressible t \<longleftrightarrow> 0 \<le> t \<and> secs_of t div 86400 < days_through 9999"

definition wf_leases :: "lease list \<Rightarrow> bool" where
  "wf_leases ls \<longleftrightarrow> distinct (map ll_user ls) \<and> distinct (map ll_account ls) \<and>
     list_all (\<lambda>l. ll_account l \<noteq> [] \<and> expressible (ll_expiry l)) ls"

definition cached_lease :: "UserAccessGrant \<Rightarrow> string \<times> gotime" where
  "cached_lease u = (ug_ServiceAccountEmail u, ug_ExpiresAt u)"

definition refines :: "Binding list \<Rightarrow> gcp \<Rightarrow> lease list \<Rightarrow> bool" where
  "refines others g ls \<longleftrightarrow> gc_enabled g \<and> \<not> gc_dryRun g \<and> wf_leases ls \<and> wf_map (gc_cache g) \<and>
     filter (\<lambda>b. \<not> managed b) (gc_bindings g) = others \<and>
     filter managed (gc_bindings g) = map lease_binding ls \<and>
     (\<forall>email. map_option cached_lease (mget (gc_cache g) email) =
        map_option (\<lambda>l. (ll_account l, ll_expiry l)) (lease_of ls email))"

text \<open>
  When an operation is legal: a grant does not renew a lease that has run out before a clean-up removed it, and
  creates an account that no lease uses; a query or a revocation without a lease is not attributed the account of
  another user.
\<close>

definition unattributed :: "gcp_api \<Rightarrow> lease list \<Rightarrow> string \<Rightarrow> bool" where
  "unattributed api ls email \<longleftrightarrow>
     lease_of ls email \<noteq> None \<or>
     list_all (\<lambda>l. extractUserEmailFromServiceAccount (ll_account l) \<noteq> email \<and>
       \<not> (needsDisplayNameFallback email \<and> ga_account api (ll_account l) = Some email)) ls"

definition legal :: "gcp_api \<Rightarrow> access_op \<Rightarrow> lease list \<Rightarrow> bool" where
  "legal api op ls \<longleftrightarrow>
     (case op of
        OpGrant email _ _ _ \<Rightarrow>
          (case lease_of ls email of
             Some l \<Rightarrow> ga_now api < ll_expiry l
           | None \<Rightarrow>
               expressible (ga_now api + GCPAccessDuration) \<and>
               (case ga_create api (account_id email (ga_unix api)) of
                  Inl _ \<Rightarrow> True
                | Inr sa \<Rightarrow> sa \<noteq> [] \<and> sa \<notin> set (map ll_account ls)))
      | OpQuery email \<Rightarrow> unattributed api ls email
      | OpRevoke email \<Rightarrow> unattributed api ls email
      | OpCleanup \<Rightarrow> True)"

fun legal_run :: "(gcp_api \<times> access_op) list \<Rightarrow> lease list \<Rightarrow> bool" where
  "legal_run [] ls = True"
| "legal_run ((api, op) # steps) ls = (legal api op ls \<and> legal_run steps (lease_step api op ls))"

section \<open>Lemmas on the table\<close>

lemma lease_of_append:
  "lease_of (ls @ [l]) e = (if lease_of ls e = None \<and> ll_user l = e then Some l else lease_of ls e)"
  by (induction ls) (auto simp: lease_of_def)

lemma lease_of_filter_user: "lease_of (filter (\<lambda>l. ll_user l \<noteq> u) ls) e = (if e = u then None else lease_of ls e)"
  by (induction ls) (auto simp: lease_of_def)

lemma lease_of_SomeD: "lease_of ls e = Some l \<Longrightarrow> l \<in> set ls \<and> ll_user l = e"
  by (auto simp: lease_of_def find_Some_iff)

lemma lease_of_None: "lease_of ls e = None \<longleftrightarrow> e \<notin> set (map ll_user ls)"
  by (auto simp: lease_of_def find_None_iff)

lemma lease_of_in: "distinct (map ll_user ls) \<Longrightarrow> l \<in> set ls \<Longrightarrow> lease_of ls (ll_user l) = Some l"
  by (induction ls) (auto simp: lease_of_def)

lemma lease_of_filter:
  "distinct (map ll_user ls) \<Longrightarrow>
     lease_of (filter P ls) e = (case lease_of ls e of None \<Rightarrow> None | Some l \<Rightarrow> if P l then Some l else None)"
proof (induction ls)
  case (Cons a ls)
  then have "lease_of (filter P ls) (ll_user a) = None" by (auto simp: lease_of_None)
  then show ?case using Cons by (auto simp: lease_of_def)
qed (simp add: lease_of_def)

lemma wf_leases_filter: "wf_leases ls \<Longrightarrow> wf_leases (filter P ls)"
  by (auto simp: wf_leases_def distinct_map_filter list_all_iff)

lemma managed_lease [simp]: "managed (lease_binding l)"
  by (simp add: lease_binding_def managed_access_binding)

lemma members_lease [simp]: "bi_Members (lease_binding l) = [''serviceAccount:'' @ ll_account l]"
  by (simp add: lease_binding_def access_binding_def)

lemma members_map_lease: "policy_members bs = map (\<lambda>l. (lease_binding l, ''serviceAccount:'' @ ll_account l)) ls"
  if "filter managed bs = map lease_binding ls"
  unfolding policy_members_def that by (induction ls) simp_all

lemma first_grant_none: "(\<And>x. x \<in> set xs \<Longrightarrow> f x = None) \<Longrightarrow> first_grant f xs = None"
  by (induction xs) auto

text \<open>What a user without a lease finds in the policy.\<close>

lemma no_lease_no_grant:
  assumes "filter managed (gc_bindings g) = map lease_binding ls" "lease_of ls email = None" "unattributed api ls email"
    and "getUserGrantFromIAM api email g = Inr r"
  shows "r = None"
proof -
  have "first_grant (\<lambda>(b, member). member_grant api email b member) (policy_members (gc_bindings g)) = None"
    unfolding members_map_lease [OF assms(1)] using assms(2,3)
    by (intro first_grant_none) (auto simp: member_grant_def extract_member unattributed_def list_all_iff Let_def simp del: append.simps append_Cons)
  then show ?thesis using assms(4) by (auto simp: getUserGrantFromIAM_def split: if_splits option.splits)
qed

lemma refines_cached:
  assumes "refines others g ls"
  shows "lease_of ls email = None \<Longrightarrow> mget (gc_cache g) email = None"
    "lease_of ls email = Some l \<Longrightarrow> \<exists>u. mget (gc_cache g) email = Some u \<and>
       ug_ServiceAccountEmail u = ll_account l \<and> ug_ExpiresAt u = ll_expiry l"
proof -
  have *: "map_option cached_lease (mget (gc_cache g) email) = map_option (\<lambda>l. (ll_account l, ll_expiry l)) (lease_of ls email)"
    using assms by (simp add: refines_def)
  show "mget (gc_cache g) email = None" if "lease_of ls email = None" using * that by simp
  show "\<exists>u. mget (gc_cache g) email = Some u \<and> ug_ServiceAccountEmail u = ll_account l \<and> ug_ExpiresAt u = ll_expiry l"
    if "lease_of ls email = Some l" using * that by (auto simp: cached_lease_def)
qed

section \<open>The operations implement the specification\<close>

lemma grant_refines:
  assumes "refines others g ls" "legal api (OpGrant email rb just res) ls" "access_step api (OpGrant email rb just res) g = Some g'"
  shows "refines others g' (lease_step api (OpGrant email rb just res) ls)"
proof (cases "lease_of ls email")
  case (Some l)
  then obtain u where "mget (gc_cache g) email = Some u" "ug_ExpiresAt u = ll_expiry l"
    using refines_cached(2) [OF assms(1)] by blast
  then have "g' = g"
    using assms Some by (auto simp: access_step_def legal_def GrantAccess_def refines_def Let_def split: sum.splits prod.splits if_splits)
  then show ?thesis using assms(1) Some by (simp add: lease_step_def)
next
  case None
  obtain key t where "GrantAccess api email rb just res g = (g', Inr (key, t))"
    using assms(3) by (auto simp: access_step_def split: prod.splits sum.splits)
  moreover have "mget (gc_cache g) email = None" "\<not> gc_dryRun g"
    using refines_cached(1) [OF assms(1) None] assms(1) by (simp_all add: refines_def)
  ultimately obtain sa u where c: "ga_create api (account_id email (ga_unix api)) = Inr sa" "t = ga_now api + GCPAccessDuration"
      "gc_bindings g' = gc_bindings g @ [access_binding sa t just]" "gc_cache g' = mput email u (gc_cache g)"
      "ug_ServiceAccountEmail u = sa" "ug_ExpiresAt u = t" "gc_enabled g'" "\<not> gc_dryRun g'"
    using grant_provisions [of api email rb just res g g' key t] by metis
  let ?l = "\<lparr>ll_user = email, ll_account = sa, ll_expiry = ga_now api + GCPAccessDuration, ll_reason = just\<rparr>"
  have st: "lease_step api (OpGrant email rb just res) ls = ls @ [?l]" using None c(1) by (simp add: lease_step_def)
  have ok: "expressible t" "sa \<noteq> []" "sa \<notin> set (map ll_account ls)" using assms(2) None c(1,2) by (simp_all add: legal_def)
  have b: "access_binding sa t just = lease_binding ?l" using c(2) by (simp add: lease_binding_def)
  have "wf_leases (ls @ [?l])"
    using assms(1) ok None c(2) by (auto simp: refines_def wf_leases_def lease_of_None)
  moreover have "map_option cached_lease (mget (gc_cache g') e) = map_option (\<lambda>l. (ll_account l, ll_expiry l)) (lease_of (ls @ [?l]) e)" for e
    using assms(1) None c(2,4-6) by (auto simp: refines_def lease_of_append gm.lookup_insert cached_lease_def)
  ultimately show ?thesis
    using assms(1) c(3,4,7,8) unfolding st b by (simp add: refines_def gm.ok_insert)
qed

lemma query_refines:
  assumes "refines others g ls" "legal api (OpQuery email) ls" "access_step api (OpQuery email) g = Some g'"
  shows "refines others g' (lease_step api (OpQuery email) ls)"
proof -
  have "g' = g"
  proof (cases "lease_of ls email")
    case None
    have "filter managed (gc_bindings g) = map lease_binding ls" "unattributed api ls email"
      using assms(1,2) by (simp_all add: refines_def legal_def)
    from no_lease_no_grant [OF this(1) None this(2)] show ?thesis
      using assms(3) refines_cached(1) [OF assms(1) None]
      by (auto simp: access_step_def GetUserGrant_def split: prod.splits sum.splits option.splits if_splits)
  next
    case (Some l)
    then obtain u where "mget (gc_cache g) email = Some u" using refines_cached(2) [OF assms(1)] by blast
    then show ?thesis using assms(3) by (auto simp: access_step_def GetUserGrant_def split: if_splits)
  qed
  then show ?thesis using assms(1) by (simp add: lease_step_def)
qed

lemma managed_drop: "managed b \<Longrightarrow> filter managed (drop_member m b) = drop_member m b"
  and unmanaged_drop: "\<not> managed b \<Longrightarrow> drop_member m b = [b]"
  and managed_drop_others: "managed b \<Longrightarrow> filter (\<lambda>b. \<not> managed b) (drop_member m b) = []"
  by (auto simp: drop_member_def managed_def Let_def)

lemma filter_managed_drop:
  "filter managed (concat (map (drop_member m) bs)) = concat (map (drop_member m) (filter managed bs))"
  "filter (\<lambda>b. \<not> managed b) (concat (map (drop_member m) bs)) = filter (\<lambda>b. \<not> managed b) bs"
  by (induction bs) (auto simp: managed_drop unmanaged_drop managed_drop_others)

lemma drop_lease:
  "concat (map (drop_member (''serviceAccount:'' @ sa)) (map lease_binding ls)) =
     map lease_binding (filter (\<lambda>l. ll_account l \<noteq> sa) ls)"
proof (induction ls)
  case (Cons l ls)
  have "drop_member (''serviceAccount:'' @ sa) (lease_binding l) = (if ll_account l = sa then [] else [lease_binding l])"
    by (auto simp: drop_member_def)
  then show ?case using Cons by (simp del: append.simps append_Cons)
qed simp

lemma user_account_filter:
  assumes "wf_leases ls" "l \<in> set ls"
  shows "filter (\<lambda>x. ll_account x \<noteq> ll_account l) ls = filter (\<lambda>x. ll_user x \<noteq> ll_user l) ls"
  using assms by (intro filter_cong) (auto simp: wf_leases_def distinct_map inj_on_def)

lemma delete_account_keeps [simp]:
  "gc_bindings (deleteServiceAccount api sa g) = gc_bindings g" "gc_cache (deleteServiceAccount api sa g) = gc_cache g"
  "gc_enabled (deleteServiceAccount api sa g) = gc_enabled g" "gc_dryRun (deleteServiceAccount api sa g) = gc_dryRun g"
  by (simp_all add: deleteServiceAccount_def split: delete_reply.splits)

lemma delete_accounts_keep [simp]:
  "gc_bindings (fold (deleteServiceAccount api) sas g) = gc_bindings g" "gc_cache (fold (deleteServiceAccount api) sas g) = gc_cache g"
  "gc_enabled (fold (deleteServiceAccount api) sas g) = gc_enabled g" "gc_dryRun (fold (deleteServiceAccount api) sas g) = gc_dryRun g"
  by (induction sas arbitrary: g) simp_all

lemma revoke_refines:
  assumes "refines others g ls" "legal api (OpRevoke email) ls" "access_step api (OpRevoke email) g = Some g'"
  shows "refines others g' (lease_step api (OpRevoke email) ls)"
proof (cases "lease_of ls email")
  case None
  have fm: "filter managed (gc_bindings g) = map lease_binding ls" and u: "unattributed api ls email"
    using assms(1,2) by (simp_all add: refines_def legal_def)
  have c: "mget (gc_cache g) email = None" by (rule refines_cached(1) [OF assms(1) None])
  have "case getUserGrantFromIAM api email g of Inr (Some _) \<Rightarrow> False | _ \<Rightarrow> True"
    using no_lease_no_grant [OF fm None u] by (auto split: sum.splits option.splits)
  then have "g' = g\<lparr>gc_cache := mdel email (gc_cache g)\<rparr>"
    using assms(1,3) c by (auto simp: access_step_def RevokeAccess_def refines_def Let_def split: sum.splits option.splits)
  moreover have "filter (\<lambda>l. ll_user l \<noteq> email) ls = ls"
    using None by (auto simp: lease_of_None filter_id_conv)
  ultimately show ?thesis
    using assms(1) c None by (auto simp: refines_def lease_step_def gm.ok_remove gm.lookup_remove)
next
  case (Some l)
  then obtain u where u: "mget (gc_cache g) email = Some u" "ug_ServiceAccountEmail u = ll_account l"
    using refines_cached(2) [OF assms(1)] by blast
  have l: "l \<in> set ls" "ll_user l = email" using lease_of_SomeD [OF Some] by simp_all
  have wf: "wf_leases ls" "ll_account l \<noteq> []" using assms(1) l by (auto simp: refines_def wf_leases_def list_all_iff)
  have "lease_binding l \<in> set (filter managed (gc_bindings g))" using assms(1) l(1) by (simp add: refines_def)
  then have mem: "\<exists>b \<in> set (gc_bindings g). managed b \<and> ''serviceAccount:'' @ ll_account l \<in> set (bi_Members b)"
    by (intro bexI [of _ "lease_binding l"]) simp_all
  define h where "h = g\<lparr>gc_bindings := concat (map (drop_member (''serviceAccount:'' @ ll_account l)) (gc_bindings g)), gc_version := 3\<rparr>"
  have "RevokeAccess api email g = (g', None)" using assms(3) by (auto simp: access_step_def split: prod.splits option.splits)
  then have g': "g' = (deleteServiceAccount api (ll_account l) h)\<lparr>gc_cache := mdel email (gc_cache g)\<rparr>"
    using u wf(2) mem assms(1)
    by (auto simp: RevokeAccess_def refines_def Let_def h_def simp del: append.simps append_Cons split: option.splits if_splits)
  have "filter managed (gc_bindings g') = map lease_binding (filter (\<lambda>x. ll_user x \<noteq> email) ls)"
    using assms(1) drop_lease user_account_filter [OF wf(1) l(1)] l(2)
    by (simp add: g' h_def filter_managed_drop refines_def del: append.simps append_Cons)
  then show ?thesis
    using assms(1) wf_leases_filter [OF wf(1)]
    by (auto simp: refines_def lease_step_def g' h_def filter_managed_drop gm.ok_remove gm.lookup_remove lease_of_filter_user
        simp del: append.simps append_Cons)
qed

lemma mget_filter_value:
  "wf_map m \<Longrightarrow> mget (filter (\<lambda>(_, v). p v) m) k = (case mget m k of None \<Rightarrow> None | Some v \<Rightarrow> if p v then Some v else None)"
proof (induction m)
  case (Cons a m)
  have "k \<notin> fst ` set m \<Longrightarrow> mget m k = None \<and> mget (filter (\<lambda>(_, v). p v) m) k = None"
    by (auto simp: mget_eq_None_iff mkeys_def)
  with Cons show ?case by (cases a) (auto simp: wf_map_def)
qed simp

lemma wf_map_filter: "wf_map m \<Longrightarrow> wf_map (filter p m)"
  by (simp add: wf_map_def distinct_map_filter)

lemma lease_expired:
  "expressible (ll_expiry l) \<Longrightarrow> expired_binding now (lease_binding l) \<longleftrightarrow> lease_end l < now"
  using parse_access_condition [of "ll_expiry l" "ll_reason l"] managed_lease [of l]
  by (simp add: expired_binding_def expressible_def lease_end_def) (simp add: lease_binding_def access_binding_def)

text \<open>What the clean-up sees of the policy.\<close>

lemma expired_leases:
  assumes "filter managed bs = map lease_binding ls" "wf_leases ls"
  shows "filter (expired_binding now) bs = map lease_binding (filter (\<lambda>l. lease_end l < now) ls)"
    "expired_accounts now bs = map ll_account (filter (\<lambda>l. lease_end l < now) ls)"
    "filter managed (filter (\<lambda>b. \<not> expired_binding now b) bs) = map lease_binding (filter (\<lambda>l. \<not> lease_end l < now) ls)"
    "filter (\<lambda>b. \<not> managed b) (filter (\<lambda>b. \<not> expired_binding now b) bs) = filter (\<lambda>b. \<not> managed b) bs"
proof -
  have ex: "l \<in> set ls \<Longrightarrow> expired_binding now (lease_binding l) \<longleftrightarrow> lease_end l < now" for l
    using assms(2) by (intro lease_expired) (auto simp: wf_leases_def list_all_iff)
  have im: "expired_binding now b \<Longrightarrow> managed b" for b by (simp add: expired_binding_def)
  have "filter (expired_binding now) bs = filter (expired_binding now) (filter managed bs)"
    by (auto simp: im intro!: filter_cong)
  then show 1: "filter (expired_binding now) bs = map lease_binding (filter (\<lambda>l. lease_end l < now) ls)"
    using ex by (simp add: assms(1) filter_map o_def cong: filter_cong)
  show "filter managed (filter (\<lambda>b. \<not> expired_binding now b) bs) = map lease_binding (filter (\<lambda>l. \<not> lease_end l < now) ls)"
  proof -
    have "filter managed (filter (\<lambda>b. \<not> expired_binding now b) bs) = filter (\<lambda>b. \<not> expired_binding now b) (filter managed bs)"
      by (simp add: conj_commute)
    then show ?thesis using ex by (simp add: assms(1) filter_map o_def cong: filter_cong del: filter_filter)
  qed
  show "filter (\<lambda>b. \<not> managed b) (filter (\<lambda>b. \<not> expired_binding now b) bs) = filter (\<lambda>b. \<not> managed b) bs"
    by (auto simp: im intro!: filter_cong)
  have "expired_accounts now bs = filter (\<lambda>sa. sa \<noteq> []) (map ll_account (filter (\<lambda>l. lease_end l < now) ls))"
    unfolding expired_accounts_def 1
    by (simp add: o_def extract_member map_concat concat_map_singleton del: append.simps append_Cons)
  also have "\<dots> = map ll_account (filter (\<lambda>l. lease_end l < now) ls)"
    using assms(2) by (auto simp: wf_leases_def list_all_iff filter_id_conv)
  finally show "expired_accounts now bs = map ll_account (filter (\<lambda>l. lease_end l < now) ls)" .
qed

lemma cleanup_refines:
  assumes "refines others g ls" "access_step api OpCleanup g = Some g'"
  shows "refines others g' (lease_step api OpCleanup ls)"
proof -
  let ?now = "ga_now api" and ?live = "\<lambda>l. \<not> lease_end l < ga_now api"
  have wf: "wf_leases ls" and fm: "filter managed (gc_bindings g) = map lease_binding ls" using assms(1) by (simp_all add: refines_def)
  note ex = expired_leases [OF fm wf, of ?now]
  show ?thesis
  proof (cases "filter (\<lambda>l. lease_end l < ?now) ls = []")
    case True
    then have "g' = g" using assms ex by (auto simp: access_step_def CleanupExpiredAccess_def refines_def split: option.splits)
    moreover have "filter ?live ls = ls" using filter_id_iff [OF True] by simp
    ultimately show ?thesis using assms(1) by (simp add: lease_step_def)
  next
    case False
    then have g': "gc_bindings g' = filter (\<lambda>b. \<not> expired_binding ?now b) (gc_bindings g)" "gc_enabled g'" "\<not> gc_dryRun g'"
        "gc_cache g' = filter (\<lambda>(_, grant). ug_ServiceAccountEmail grant \<notin> set (expired_accounts ?now (gc_bindings g))) (gc_cache g)"
      using assms ex by (auto simp: access_step_def CleanupExpiredAccess_def refines_def Let_def split: option.splits)
    have "map_option cached_lease (mget (gc_cache g') e) =
        map_option (\<lambda>l. (ll_account l, ll_expiry l)) (lease_of (filter ?live ls) e)" for e
    proof (cases "lease_of ls e")
      case (Some l)
      then obtain u where u: "mget (gc_cache g) e = Some u" "ug_ServiceAccountEmail u = ll_account l" "ug_ExpiresAt u = ll_expiry l"
        using refines_cached(2) [OF assms(1)] by blast
      have "ll_account l \<in> set (expired_accounts ?now (gc_bindings g)) \<longleftrightarrow> \<not> ?live l"
        using lease_of_SomeD [OF Some] wf by (auto simp: ex(2) wf_leases_def distinct_map inj_on_def)
      then show ?thesis
        using assms(1) wf Some u by (auto simp: g'(4) refines_def wf_leases_def mget_filter_value lease_of_filter cached_lease_def)
    qed (use assms(1) wf refines_cached(1) [OF assms(1), of e] in
         \<open>auto simp: g'(4) refines_def wf_leases_def mget_filter_value lease_of_filter\<close>)
    then show ?thesis
      using assms(1) g'(1-3) ex wf_leases_filter [OF wf, of ?live] wf_map_filter
      by (auto simp: refines_def lease_step_def g'(4))
  qed
qed

lemma step_refines:
  assumes "refines others g ls" "legal api op ls" "access_step api op g = Some g'"
  shows "refines others g' (lease_step api op ls)"
proof (cases op)
  case (OpGrant email rb just res)
  then show ?thesis using grant_refines assms by blast
next
  case (OpQuery email)
  then show ?thesis using query_refines assms by blast
next
  case (OpRevoke email)
  then show ?thesis using revoke_refines assms by blast
next
  case OpCleanup
  then show ?thesis using cleanup_refines assms by blast
qed

text \<open>
  C9: the Google Cloud access manager implements a table of leases. Start from a state that agrees with a table, run any
  sequence of grants, queries, revocations and clean-ups that succeed and are legal: the final state agrees with the table the
  specification computes. So the policy holds exactly one conditional binding per lease, for its account and its
  expiry, the cache knows exactly the leases, and the bindings the bot does not manage are the ones of the start, in the same order.
\<close>

theorem access_manager_refines_leases:
  assumes "refines others g ls" "legal_run steps ls" "access_run steps g = Some g'"
  shows "refines others g' (lease_run steps ls)"
  using assms
proof (induction steps arbitrary: g ls)
  case (Cons s steps)
  obtain api op where s: "s = (api, op)" by (cases s)
  with Cons.prems(3) obtain h where "access_step api op g = Some h" "access_run steps h = Some g'"
    by (auto split: option.splits)
  with Cons s show ?case using step_refines [of others g ls api op h] by simp
qed simp

definition other_binding :: Binding where
  "other_binding = \<lparr>bi_Role = ''roles/owner'', bi_Members = [''user:owner@redhat.com''], bi_Condition = None\<rparr>"

definition sample_steps :: "(gcp_api \<times> access_op) list" where
  "sample_steps =
     [(sample_api, OpGrant ''a@redhat.com'' ''U1'' ''debug'' ''gcp-access''), (sample_api, OpQuery ''a@redhat.com''),
      (sample_api\<lparr>ga_now := ga_now sample_api + 8 * 24 * hour\<rparr>, OpCleanup)]"

lemma cleanup_succeeds:
  "ga_get api = None \<Longrightarrow> ga_set api = None \<Longrightarrow> snd (CleanupExpiredAccess api g) = None"
  by (simp add: CleanupExpiredAccess_def Let_def)

theorem access_manager_refines_leases_witness:
  "\<exists>g'. access_run sample_steps (sample_gcp\<lparr>gc_bindings := [other_binding]\<rparr>) = Some g' \<and>
     lease_run sample_steps [] = [] \<and> refines [other_binding] g' (lease_run sample_steps [])"
proof -
  let ?g = "sample_gcp\<lparr>gc_bindings := [other_binding]\<rparr>" and ?e = "''a@redhat.com''"
  let ?t = "ga_now sample_api + GCPAccessDuration"
  let ?later = "sample_api\<lparr>ga_now := ga_now sample_api + 8 * 24 * hour\<rparr>"
  obtain g1 where g1: "GrantAccess sample_api ?e ''U1'' ''debug'' ''gcp-access'' ?g = (g1, Inr ([], ?t))"
    using sample_grant [of ?g ?e "''U1''" "''debug''" "''gcp-access''"] by (auto simp: sample_gcp_def)
  have e1: "gc_enabled g1" "\<exists>u. mget (gc_cache g1) ?e = Some u"
    using grant_effect(2,4) [OF g1] by (auto simp: sample_gcp_def sample_api_def)
  then have q: "\<exists>u. GetUserGrant sample_api ?e g1 = (g1, Inr (Some u))" by (auto simp: GetUserGrant_def)
  have "snd (CleanupExpiredAccess ?later g1) = None" by (rule cleanup_succeeds) (simp_all add: sample_api_def)
  then obtain g2 where "CleanupExpiredAccess ?later g1 = (g2, None)" by (cases "CleanupExpiredAccess ?later g1") simp
  with g1 q have run: "access_run sample_steps ?g = Some g2" by (auto simp: sample_steps_def access_step_def)
  have over: "lease_run sample_steps [] = []"
    by (simp add: sample_steps_def lease_step_def lease_of_def lease_end_def sample_api_def GCPAccessDuration_def hour_def minute_def second_def)
  have "legal_run sample_steps []"
    by (simp add: sample_steps_def legal_def lease_step_def lease_of_def unattributed_def expressible_def sample_api_def
        GCPAccessDuration_def hour_def minute_def second_def secs_of_def days_through_def)
  moreover have "refines [other_binding] ?g []"
    by (simp add: refines_def sample_gcp_def wf_leases_def lease_of_def other_binding_def managed_def GCPIAMRole_def wf_map_def)
  ultimately show ?thesis using access_manager_refines_leases [OF _ _ run] run over by blast
qed

end
