(* ===== verification/MceProps.thy ===== *)
theory MceProps
  imports MceOps
begin

text \<open>
  Properties of managed clusters: the invariant of the caches, which clusters a sync deletes, the bound on
  readiness notifications, the limits of creation, and ownership.
\<close>

section \<open>Grouping by name\<close>

lemma fold_by_name_SomeD:
  "mget (fold (\<lambda>x. mput (f x) x) xs m) k = Some x \<Longrightarrow> (x \<in> set xs \<and> f x = k) \<or> mget m k = Some x"
proof (induction xs arbitrary: m)
  case (Cons y ys)
  then show ?case by (fastforce simp: gm.lookup_insert split: if_splits)
qed simp

lemma by_name_SomeD: "mget (by_name f xs) k = Some x \<Longrightarrow> x \<in> set xs \<and> f x = k"
  using fold_by_name_SomeD [of f xs "[]"] by (auto simp: by_name_def)

lemma fold_by_name_has: "mhas (fold (\<lambda>x. mput (f x) x) xs m) k \<longleftrightarrow> (\<exists>x \<in> set xs. f x = k) \<or> mhas m k"
  by (induction xs arbitrary: m) auto

lemma by_name_has: "mhas (by_name f xs) k \<longleftrightarrow> (\<exists>x \<in> set xs. f x = k)"
  using fold_by_name_has [of f xs "[]"] by (simp add: by_name_def mhas_def)

lemma fold_by_name_wf: "wf_map m \<Longrightarrow> wf_map (fold (\<lambda>x. mput (f x) x) xs m)"
  by (induction xs arbitrary: m) (auto intro: gm.ok_insert)

lemma by_name_wf [simp]: "wf_map (by_name f xs)"
  by (simp add: by_name_def fold_by_name_wf)

lemma by_name_named: "(k, x) \<in> set (by_name f xs) \<Longrightarrow> f x = k \<and> x \<in> set xs"
  using by_name_SomeD by (metis by_name_wf mget_iff_in_set)

lemma by_name_unique:
  assumes "v \<in> set xs" "f v = k" "\<And>x. x \<in> set xs \<Longrightarrow> f x = k \<Longrightarrow> x = v"
  shows "mget (by_name f xs) k = Some v"
proof -
  have "mhas (by_name f xs) k" using assms(1,2) by (auto simp: by_name_has)
  then obtain x where x: "mget (by_name f xs) k = Some x" by (auto simp: mhas_def)
  then show ?thesis using by_name_SomeD [OF x] assms(3) by auto
qed

section \<open>Events and frames\<close>

text \<open>Events that neither notify nor annotate, and the frame of the state that authentication keeps.\<close>

fun silent :: "mce_event \<Rightarrow> bool" where
  "silent (MceNotify _ _) = False"
| "silent (MceAnnotate _) = False"
| "silent _ = True"

lemma getClusterAuth_frame:
  assumes "getClusterAuth api name m = (m', ev, r)"
  shows "me_readyAttempts m' = me_readyAttempts m" "me_failureAttempts m' = me_failureAttempts m"
    "me_provisions m' = me_provisions m" "me_deployments m' = me_deployments m"
    "me_clusters m' = me_clusters m" "me_imagesets m' = me_imagesets m" "me_users m' = me_users m"
    "list_all silent ev" "MceRemove k n \<notin> set ev"
  using assms by (auto simp: getClusterAuth_def Let_def split: if_splits option.splits prod.splits)

lemma delete_object_events:
  "list_all silent (fst (delete_object api kind name metric))"
  "MceRemove k n \<in> set (fst (delete_object api kind name metric)) \<longleftrightarrow> k = kind \<and> n = name"
  by (auto simp: delete_object_def split: hub_reply.splits)

lemma deleteManagedCluster_events:
  "list_all silent (fst (deleteManagedCluster api c))"
  "MceRemove ManagedClusterKind n \<in> set (fst (deleteManagedCluster api c)) \<longleftrightarrow> n = mc_Name c"
  using delete_object_events(1) [of api]
  by (auto simp: deleteManagedCluster_def Let_def delete_object_events case_prod_beta list_all_iff)

lemma list_all_concat_map: "(\<And>x. list_all p (f x)) \<Longrightarrow> list_all p (concat (map f xs))"
  by (induction xs) auto

lemma expire_events:
  "list_all silent (expire_clusters api cs)"
  "MceRemove ManagedClusterKind n \<in> set (expire_clusters api cs) \<longleftrightarrow>
     (\<exists>c \<in> set cs. mc_Name c = n \<and> mce_expired (ma_now api) c)"
  by (auto simp: expire_clusters_def deleteManagedCluster_events intro!: list_all_concat_map)

lemma drop_stale_events:
  "list_all silent (snd (drop_stale api deps jobs cs))"
  "MceRemove ManagedClusterKind n \<in> set (snd (drop_stale api deps jobs cs)) \<longleftrightarrow>
     (\<exists>k c. (k, c) \<in> set cs \<and> mc_Name c = n \<and> mce_stale deps jobs k)"
proof -
  show "list_all silent (snd (drop_stale api deps jobs cs))"
    by (auto simp: drop_stale_def deleteManagedCluster_events intro!: list_all_concat_map)
  show "MceRemove ManagedClusterKind n \<in> set (snd (drop_stale api deps jobs cs)) \<longleftrightarrow>
     (\<exists>k c. (k, c) \<in> set cs \<and> mc_Name c = n \<and> mce_stale deps jobs k)"
    by (fastforce simp: drop_stale_def deleteManagedCluster_events)
qed

lemma sync_provision_events:
  "sync_provision api prev name = (f, b, ev) \<Longrightarrow> list_all silent ev \<and> MceRemove k n \<notin> set ev"
  by (auto simp: sync_provision_def Let_def split: option.splits list.splits if_splits)

lemma syncProvisions_events:
  "syncProvisions api prev ds (ps, fr, ev) = (ps', fr', ev') \<Longrightarrow> list_all silent ev \<Longrightarrow> MceRemove k n \<notin> set ev \<Longrightarrow>
     list_all silent ev' \<and> MceRemove k n \<notin> set ev'"
proof (induction ds arbitrary: ps fr ev)
  case (Cons d ds)
  obtain f b e where s: "sync_provision api prev (cd_Name d) = (f, b, e)" by (metis prod.exhaust)
  show ?case using Cons.IH Cons.prems sync_provision_events [OF s, of k n] by (auto simp: Let_def s)
qed simp

section \<open>The loop over the clusters\<close>

definition attempts_ok :: "(string, nat) gomap \<Rightarrow> bool" where
  "attempts_ok xs \<longleftrightarrow> (\<forall>n k. mget xs n = Some k \<longrightarrow> 0 < k \<and> k < maxMCENotificationAttempts)"

lemma attempts_ok_mdel: "attempts_ok xs \<Longrightarrow> attempts_ok (mdel n xs)"
  by (auto simp: attempts_ok_def gm.lookup_remove)

lemma attempts_ok_record: "attempts_ok xs \<Longrightarrow> recordMceNotifyAttempt n xs = (ys, b) \<Longrightarrow> attempts_ok ys"
  by (auto simp: recordMceNotifyAttempt_def Let_def attempts_ok_def gm.lookup_insert gm.lookup_remove split: if_splits)

lemma attempts_ok_record_fst: "attempts_ok xs \<Longrightarrow> attempts_ok (fst (recordMceNotifyAttempt n xs))"
  by (metis attempts_ok_record prod.collapse)

lemma attempts_ok_filter: "attempts_ok xs \<Longrightarrow> attempts_ok (filter (\<lambda>(n, _). p n) xs)"
  by (auto simp: attempts_ok_def mget_filter_key split: if_splits)

lemma attempts_ok_less: "attempts_ok xs \<Longrightarrow> mget0 0 xs n < maxMCENotificationAttempts"
  by (auto simp: attempts_ok_def mget0_def maxMCENotificationAttempts_def split: option.splits)

text \<open>What a step of the loop keeps: the caches, and the bounds on the attempts.\<close>

definition loop_frame :: "mce \<Rightarrow> mce \<Rightarrow> bool" where
  "loop_frame m m' \<longleftrightarrow> me_provisions m' = me_provisions m \<and> me_deployments m' = me_deployments m \<and>
     me_clusters m' = me_clusters m \<and> me_imagesets m' = me_imagesets m \<and> me_users m' = me_users m \<and>
     (attempts_ok (me_readyAttempts m) \<longrightarrow> attempts_ok (me_readyAttempts m')) \<and>
     (attempts_ok (me_failureAttempts m) \<longrightarrow> attempts_ok (me_failureAttempts m'))"

lemma loop_frame_refl [simp]: "loop_frame m m"
  by (simp add: loop_frame_def)

lemma loop_frame_trans: "loop_frame m1 m2 \<Longrightarrow> loop_frame m2 m3 \<Longrightarrow> loop_frame m1 m3"
  by (simp add: loop_frame_def)

lemma auth_loop_frame: "getClusterAuth api name m = (m', ev, r) \<Longrightarrow> loop_frame m m'"
  using getClusterAuth_frame by (simp add: loop_frame_def)

lemma failure_frame:
  assumes "notifyMceFailure api name c d p t h m = (m', ev)"
  shows "loop_frame m m'" "me_readyAttempts m' = me_readyAttempts m" "MceNotify ReadyNotice n \<notin> set ev"
    "MceAnnotate x \<notin> set ev" "MceRemove k n \<notin> set ev"
  using assms
  by (auto simp: notifyMceFailure_def notifyMce_def Let_def loop_frame_def attempts_ok_mdel attempts_ok_record_fst
      split: if_splits option.splits prod.splits bool.splits)

lemma sync_failure_frame:
  assumes "sync_failure api deps ps fresh name c m = (m', ev)"
  shows "loop_frame m m'" "me_readyAttempts m' = me_readyAttempts m" "MceNotify ReadyNotice n \<notin> set ev"
    "MceAnnotate x \<notin> set ev" "MceRemove k n \<notin> set ev"
  using assms
  by (auto simp: sync_failure_def Let_def split: if_splits option.splits prod.splits dest: failure_frame)

lemma annotate_events:
  "annotate_notified api c = (c', ev) \<Longrightarrow> c' = mark_notified c \<and> MceNotify k n \<notin> set ev \<and> MceRemove h n \<notin> set ev \<and>
     (ma_update api c' \<longrightarrow> MceAnnotate c' \<in> set ev) \<and> (\<forall>x. MceAnnotate x \<in> set ev \<longrightarrow> x = c')"
  by (auto simp: annotate_notified_def Let_def split: if_splits)

lemma ready_metric_events: "list_all silent (ready_metric c)" "MceRemove k n \<notin> set (ready_metric c)"
  by (auto simp: ready_metric_def Let_def)

lemma notify_ready_frame:
  assumes "notify_ready api deps ps name c m = (m', c', ev)"
  shows "loop_frame m m'" "c' = c \<or> c' = mark_notified c" "MceRemove k n \<notin> set ev"
proof -
  have "loop_frame m m' \<and> (c' = c \<or> c' = mark_notified c) \<and> MceRemove k n \<notin> set ev"
  proof (cases "notified c \<or> \<not> MceClusterNotifiable c")
    case False
    obtain m1 e r where a: "getClusterAuth api name m = (m1, e, r)" by (metis prod.exhaust)
    show ?thesis
      using assms False getClusterAuth_frame [OF a] auth_loop_frame [OF a]
      by (auto simp: notify_ready_def a notifyMce_def loop_frame_def attempts_ok_mdel annotate_notified_def Let_def
          ready_metric_events attempts_ok_record
          split: sum.splits if_splits option.splits prod.splits bool.splits)
  qed (use assms in \<open>simp add: notify_ready_def\<close>)
  then show "loop_frame m m'" "c' = c \<or> c' = mark_notified c" "MceRemove k n \<notin> set ev" by auto
qed

lemma sync_cluster_frame:
  assumes "sync_cluster api deps ps fresh name c m = (m', c', ev)"
  shows "loop_frame m m' \<and> mc_Name c' = mc_Name c \<and> MceRemove k n \<notin> set ev"
proof -
  obtain m1 ev1 where warm: "(if mhas (me_kubeconfigs m) name \<and> mhas (me_passwords m) name then (m, [])
      else (case getClusterAuth api name m of (m', ev, _) \<Rightarrow> (m', ev))) = (m1, ev1)" by (metis prod.exhaust)
  have w: "loop_frame m m1" "MceRemove k n \<notin> set ev1"
    using warm auth_loop_frame getClusterAuth_frame(9) by (auto split: if_splits prod.splits)
  show ?thesis
  proof (cases "cluster_available c")
    case True
    then obtain ev2 where "notify_ready api deps ps name c m1 = (m', c', ev2)" "ev = ev1 @ ev2"
      using assms by (auto simp: sync_cluster_def warm split: prod.splits)
    then show ?thesis using notify_ready_frame w loop_frame_trans by (fastforce simp: mark_notified_def)
  next
    case False
    then obtain ev2 where "sync_failure api deps ps fresh name c m1 = (m', ev2)" "ev = ev1 @ ev2" "c' = c"
      using assms by (auto simp: sync_cluster_def warm split: prod.splits)
    then show ?thesis using sync_failure_frame w loop_frame_trans by (metis Un_iff set_append)
  qed
qed

lemma sync_clusters_frame:
  "sync_clusters api deps ps fresh cs m = (m', cs', ev) \<Longrightarrow>
     loop_frame m m' \<and> map (\<lambda>(n, c). (n, mc_Name c)) cs' = map (\<lambda>(n, c). (n, mc_Name c)) cs \<and> MceRemove k n \<notin> set ev"
proof (induction api deps ps fresh cs m arbitrary: m' cs' ev rule: sync_clusters.induct)
  case (2 api deps ps fresh name c rest m)
  obtain m1 c1 e1 where s: "sync_cluster api deps ps fresh name c m = (m1, c1, e1)" by (metis prod.exhaust)
  obtain m2 cs2 e2 where r: "sync_clusters api deps ps fresh rest m1 = (m2, cs2, e2)" by (metis prod.exhaust)
  show ?case
    using 2(1) [OF s [symmetric] refl refl r] 2(2) s r sync_cluster_frame [OF s, of k n] loop_frame_trans by auto
qed simp

lemma sync_clusters_keys:
  assumes "sync_clusters api deps ps fresh cs m = (m', cs', ev)"
  shows "mhas cs' n \<longleftrightarrow> mhas cs n"
proof -
  have "map fst xs = map fst (map (\<lambda>(n, c). (n, mc_Name c)) xs)" for xs :: "(string, MceCluster) gomap"
    by (auto simp: case_prod_beta)
  then have "map fst cs' = map fst cs" using sync_clusters_frame [OF assms] by metis
  then show ?thesis by (simp add: mhas_def mget_eq_None_iff mkeys_def)
qed

section \<open>The invariant of the caches\<close>

text \<open>
  No cached provision has an install log, the attempts counted are below the limit, and credentials are
  cached only for clusters that are.
\<close>

definition mce_ok :: "mce \<Rightarrow> bool" where
  "mce_ok m \<longleftrightarrow>
     (\<forall>n p. mget (me_provisions m) n = Some p \<longrightarrow> cp_InstallLog p = None) \<and>
     attempts_ok (me_readyAttempts m) \<and> attempts_ok (me_failureAttempts m) \<and>
     (\<forall>n. mhas (me_kubeconfigs m) n \<or> mhas (me_passwords m) n \<or> mhas (me_readyAttempts m) n \<or> mhas (me_failureAttempts m) n
        \<longrightarrow> mhas (me_clusters m) n)"

definition no_logs :: "string list \<Rightarrow> (string, ClusterProvision) gomap \<Rightarrow> bool" where
  "no_logs fresh ps \<longleftrightarrow> (\<forall>n p. mget ps n = Some p \<longrightarrow> n \<in> set fresh \<or> cp_InstallLog p = None)"

lemma syncProvisions_no_logs:
  assumes "no_logs [] prev"
  shows "syncProvisions api prev ds (ps, fr, ev) = (ps', fr', ev') \<Longrightarrow> no_logs fr ps \<Longrightarrow> no_logs fr' ps'"
proof (induction ds arbitrary: ps fr ev)
  case (Cons d ds)
  obtain f b e where s: "sync_provision api prev (cd_Name d) = (f, b, e)" by (metis prod.exhaust)
  have "no_logs (if b then cd_Name d # fr else fr) (case f of None \<Rightarrow> ps | Some p \<Rightarrow> mput (cd_Name d) p ps)"
    using s assms Cons.prems(2)
    by (auto simp: sync_provision_def no_logs_def gm.lookup_insert Let_def split: option.splits list.splits if_splits)
  then show ?case using Cons.IH Cons.prems(1) by (simp add: Let_def s)
qed simp

lemma strip_no_logs: "no_logs fresh ps \<Longrightarrow> mget (stripInstallLogs fresh ps) n = Some p \<Longrightarrow> cp_InstallLog p = None"
  unfolding stripInstallLogs_def mget_map_value no_logs_def by (cases "mget ps n") (auto split: if_splits)

lemma mhas_filter_key: "mhas (filter (\<lambda>(n, _). p n) xs) n \<longleftrightarrow> p n \<and> mhas xs n"
  by (simp add: mhas_def mget_filter_key)

lemma sync_caches_ok:
  assumes ok: "mce_ok m" and s: "sync_caches api jobs cs ds m = (m', ev)"
  shows "mce_ok m'"
proof -
  obtain ps fresh e1 where p: "syncProvisions api (me_provisions m) ds ([], [], []) = (ps, fresh, e1)" by (metis prod.exhaust)
  obtain m1 cs1 e2 where c: "sync_clusters api (by_name cd_Name ds) ps fresh (by_name mc_Name cs) m = (m1, cs1, e2)"
    by (metis prod.exhaust)
  have "no_logs fresh ps" using syncProvisions_no_logs [OF _ p] ok by (simp add: no_logs_def mce_ok_def)
  moreover have "loop_frame m m1" using sync_clusters_frame [OF c] by simp
  ultimately show ?thesis
    using s ok unfolding mce_ok_def sync_caches_def p c Let_def prod.case drop_stale_def
    by (auto simp: strip_no_logs loop_frame_def attempts_ok_filter keep_known_def prune_failures_def mhas_filter_key)
qed

lemma mceSync_ok: "mce_ok m \<Longrightarrow> mce_ok (fst (mceSync api jobs m))"
proof -
  assume ok: "mce_ok m"
  have users: "mce_ok (x\<lparr>me_users := u\<rparr>) = mce_ok x" for x u by (simp add: mce_ok_def)
  show ?thesis using ok sync_caches_ok [OF ok]
    by (auto simp: mceSync_def users split: option.splits prod.splits users_reply.splits)
qed

text \<open>The states the bot can be in: it starts with empty caches, and syncs and image set updates happen in any order.\<close>

definition empty_mce :: mce where
  "empty_mce = \<lparr>me_clusters = [], me_deployments = [], me_provisions = [], me_kubeconfigs = [], me_passwords = [],
     me_imagesets = [], me_users = [], me_readyAttempts = [], me_failureAttempts = []\<rparr>"

inductive mce_reach :: "mce \<Rightarrow> bool" where
  start: "mce_reach empty_mce"
| sync: "mce_reach m \<Longrightarrow> mce_reach (fst (mceSync api jobs m))"
| images: "mce_reach m \<Longrightarrow> mce_reach (fst (updateImageSetList api m))"

lemma reach_ok:
  assumes "mce_reach m"
  shows "mce_ok m"
  using assms
proof induction
  case start
  show ?case by (simp add: mce_ok_def empty_mce_def attempts_ok_def mhas_def)
next
  case (sync m api jobs)
  then show ?case by (simp add: mceSync_ok)
next
  case (images m api)
  then show ?case by (auto simp: updateImageSetList_def mce_ok_def split: option.splits prod.splits)
qed

text \<open>
  The caches of managed clusters stay bounded. In every state that syncs and image set updates reach, whatever
  the hub answers, no install log (of possibly several megabytes) is cached, every counted notification attempt is
  below the limit, and credentials and attempts are kept only for clusters that are cached.
\<close>

theorem mce_caches_bounded:
  assumes "mce_reach m"
  shows "mce_ok m"
  by (rule reach_ok [OF assms])

text \<open>A hub with one available cluster that has its credentials, and a notifier that cannot deliver.\<close>

definition sample_cluster :: MceCluster where
  "sample_cluster = \<lparr>mc_Name = ''chat-bot-a'', mc_Labels = [(''Cloud'', ''Amazon'')],
     mc_Annotations = [(UserTag, ''U1''), (ChannelTag, ''D1'')],
     mc_CreationTimestamp = 0, mc_Conditions = [(''ManagedClusterConditionAvailable'', ''True'')]\<rparr>"

definition sample_deployment :: ClusterDeployment where
  "sample_deployment = (cluster_deployment ''chat-bot-a'' ''img4.20.0-multi-appsub'' ''example.com'' ''aws'')
     \<lparr>cd_ClusterMetadata := Some (''kc'', ''pw'')\<rparr>"

definition sample_hub :: mce_api where
  "sample_hub = \<lparr>ma_now = hour, ma_namespaces = Some [''chat-bot-a''],
     ma_cluster = (\<lambda>n. if n = ''chat-bot-a'' then Some sample_cluster else None),
     ma_deployment = (\<lambda>n. if n = ''chat-bot-a'' then Some sample_deployment else None),
     ma_provisionList = (\<lambda>_. Some []), ma_provision = (\<lambda>_ _. None),
     ma_secret = (\<lambda>_ s. Some [(''kubeconfig'', s), (''password'', s)]), ma_imagesets = Some [],
     ma_delete = (\<lambda>_ _. HubOk), ma_notifier = Some (\<lambda>_ _ _ _ _. False), ma_update = (\<lambda>_. True),
     ma_users = UsersConfig []\<rparr>"

lemma sample_sync:
  "me_readyAttempts (fst (mceSync sample_hub [] empty_mce)) = [(''chat-bot-a'', 1)]"
  "mget (me_kubeconfigs (fst (mceSync sample_hub [] empty_mce))) ''chat-bot-a'' = Some ''kc''"
  by code_simp+

theorem mce_caches_bounded_witness:
  "mce_reach (fst (mceSync sample_hub [] empty_mce)) \<and> mce_ok (fst (mceSync sample_hub [] empty_mce)) \<and>
   me_readyAttempts (fst (mceSync sample_hub [] empty_mce)) = [(''chat-bot-a'', 1)]"
proof -
  have r: "mce_reach (fst (mceSync sample_hub [] empty_mce))" by (rule mce_reach.sync [OF mce_reach.start])
  show ?thesis using r mce_caches_bounded [OF r] sample_sync(1) by simp
qed

section \<open>What a sync deletes\<close>

lemma sync_caches_removals:
  assumes s: "sync_caches api jobs cs ds m = (m', ev)"
  shows "MceRemove ManagedClusterKind n \<in> set ev \<longleftrightarrow>
    (\<exists>c \<in> set cs. mc_Name c = n \<and> (mce_expired (ma_now api) c \<or> mce_stale (by_name cd_Name ds) jobs n))"
proof -
  obtain ps fresh e1 where p: "syncProvisions api (me_provisions m) ds ([], [], []) = (ps, fresh, e1)" by (metis prod.exhaust)
  obtain m1 cs1 e2 where c: "sync_clusters api (by_name cd_Name ds) ps fresh (by_name mc_Name cs) m = (m1, cs1, e2)"
    by (metis prod.exhaust)
  have ev: "ev = expire_clusters api cs @ e1 @ e2 @ snd (drop_stale api (by_name cd_Name ds) jobs cs1) @ [cloud_gauges cs1]"
    using s unfolding sync_caches_def p c Let_def prod.case by (simp add: case_prod_beta)
  have names: "(\<exists>c. (k, c) \<in> set cs1 \<and> mc_Name c = x) \<longleftrightarrow> (\<exists>c. (k, c) \<in> set (by_name mc_Name cs) \<and> mc_Name c = x)" for k x
  proof -
    have "(\<exists>c. (k, c) \<in> set xs \<and> mc_Name c = x) \<longleftrightarrow> (k, x) \<in> set (map (\<lambda>(n, c). (n, mc_Name c)) xs)" for xs
      by force
    then show ?thesis using sync_clusters_frame [OF c] by metis
  qed
  have member: "(\<exists>c. (k, c) \<in> set (by_name mc_Name cs) \<and> mc_Name c = x) \<longleftrightarrow> k = x \<and> (\<exists>c \<in> set cs. mc_Name c = x)" for k x
  proof
    assume a: "k = x \<and> (\<exists>c \<in> set cs. mc_Name c = x)"
    then have "mhas (by_name mc_Name cs) k" by (simp add: by_name_has)
    with a obtain c where "mget (by_name mc_Name cs) k = Some c" "k = x" by (auto simp: mhas_def)
    then show "\<exists>c. (k, c) \<in> set (by_name mc_Name cs) \<and> mc_Name c = x" using mget_in_set by_name_SomeD by metis
  qed (auto dest: by_name_named)
  have "(\<exists>k c. (k, c) \<in> set cs1 \<and> mc_Name c = n \<and> mce_stale (by_name cd_Name ds) jobs k) \<longleftrightarrow>
      (\<exists>c \<in> set cs. mc_Name c = n) \<and> mce_stale (by_name cd_Name ds) jobs n"
    using names [of _ n] member [of _ n] by metis
  moreover have "MceRemove ManagedClusterKind n \<notin> set e1" "MceRemove ManagedClusterKind n \<notin> set e2"
    using syncProvisions_events [OF p] sync_clusters_frame [OF c] by auto
  ultimately show ?thesis unfolding ev by (auto simp: expire_events drop_stale_events cloud_gauges_def)
qed

text \<open>
  C25: a sync deletes exactly the clusters it should. When the hub lists its clusters, the sync asks to delete a managed
  cluster if and only if a listed cluster of that name has expired, or has neither a deployment nor a job that is
  still building its images. A cluster whose expiry annotation cannot be read expires eight hours after its creation.
\<close>

theorem mce_sync_deletes_exactly:
  assumes "listManagedClusters api = Some (clusters, deployments)" and "mceSync api jobs m = (m', events, err)"
  shows "MceRemove ManagedClusterKind name \<in> set events \<longleftrightarrow>
    (\<exists>c \<in> set clusters. mc_Name c = name \<and>
       (mce_expiry c < ma_now api \<or>
        ((\<forall>d \<in> set deployments. cd_Name d \<noteq> name) \<and> (\<forall>j \<in> set (mvals jobs). jb_ManagedClusterName j \<noteq> name))))"
proof -
  obtain m1 ev where s: "sync_caches api jobs clusters deployments m = (m1, ev)" by (metis prod.exhaust)
  have "MceRemove ManagedClusterKind name \<in> set events \<longleftrightarrow> MceRemove ManagedClusterKind name \<in> set ev"
    using assms(2) by (auto simp: mceSync_def assms(1) s split: users_reply.splits)
  then show ?thesis
    using sync_caches_removals [OF s, of name] by (auto simp: mce_stale_def mce_expired_def by_name_has list_ex_iff)
qed

theorem mce_sync_deletes_exactly_witness:
  "MceRemove ManagedClusterKind ''chat-bot-a'' \<in> set (fst (snd (mceSync (sample_hub\<lparr>ma_now := 9 * hour\<rparr>) [] empty_mce))) \<and>
   MceRemove ManagedClusterKind ''chat-bot-a'' \<notin> set (fst (snd (mceSync sample_hub [] empty_mce)))"
proof -
  have l: "listManagedClusters (sample_hub\<lparr>ma_now := t\<rparr>) = Some ([sample_cluster], [sample_deployment])" for t
    by (simp add: listManagedClusters_def sample_hub_def map_filter_simps)
  have e: "mce_expiry sample_cluster = 8 * hour" by code_simp
  have n: "mc_Name sample_cluster = ''chat-bot-a''" "cd_Name sample_deployment = ''chat-bot-a''"
    by (simp_all add: sample_cluster_def sample_deployment_def cluster_deployment_def Let_def)
  have iff: "MceRemove ManagedClusterKind ''chat-bot-a'' \<in> set (fst (snd (mceSync (sample_hub\<lparr>ma_now := t\<rparr>) [] empty_mce)))
      \<longleftrightarrow> 8 * hour < t" for t
  proof -
    obtain m' evs err where s: "mceSync (sample_hub\<lparr>ma_now := t\<rparr>) [] empty_mce = (m', evs, err)" by (metis prod.exhaust)
    show ?thesis using mce_sync_deletes_exactly [OF l s, of "''chat-bot-a''"] by (simp add: s e n)
  qed
  show ?thesis using iff [of "9 * hour"] iff [of hour] by (simp add: sample_hub_def time_units)
qed

section \<open>Readiness notifications\<close>

definition notices :: "string \<Rightarrow> mce_event list \<Rightarrow> nat" where
  "notices name evs = length (filter (\<lambda>e. e = MceNotify ReadyNotice name) evs)"

definition told :: "string \<Rightarrow> mce_event list \<Rightarrow> bool" where
  "told name evs \<longleftrightarrow> list_ex (\<lambda>e. case e of MceAnnotate c \<Rightarrow> mc_Name c = name | _ \<Rightarrow> False) evs"

lemma told_iff: "told name evs \<longleftrightarrow> (\<exists>c. MceAnnotate c \<in> set evs \<and> mc_Name c = name)"
  by (induction evs) (auto simp: told_def split: mce_event.splits)

abbreviation attempts_of :: "string \<Rightarrow> mce \<Rightarrow> nat" where
  "attempts_of name m \<equiv> mget0 0 (me_readyAttempts m) name"

text \<open>The notifications that are still possible for a cluster.\<close>

definition budget :: "bool \<Rightarrow> nat \<Rightarrow> nat" where
  "budget fin a = (if fin then 0 else maxMCENotificationAttempts - a)"

definition spends :: "string \<Rightarrow> bool \<Rightarrow> mce \<Rightarrow> mce \<Rightarrow> mce_event list \<Rightarrow> bool" where
  "spends name fin m m' evs \<longleftrightarrow>
     notices name evs + budget (fin \<or> told name evs) (attempts_of name m') \<le> budget fin (attempts_of name m)"

lemma notices_simps [simp]:
  "notices name [] = 0" "notices name (xs @ ys) = notices name xs + notices name ys"
  "\<not> told name []" "told name (xs @ ys) \<longleftrightarrow> told name xs \<or> told name ys"
  by (auto simp: notices_def told_iff)

lemma silent_quiet [simp]: "list_all silent evs \<Longrightarrow> notices name evs = 0" "list_all silent evs \<Longrightarrow> \<not> told name evs"
  by (induction evs) (auto simp: notices_def told_iff)

lemma spends_quiet:
  "notices name evs = 0 \<Longrightarrow> \<not> told name evs \<Longrightarrow> attempts_of name m' = attempts_of name m \<Longrightarrow> spends name fin m m' evs"
  by (simp add: spends_def)

lemma spends_append:
  "spends name fin m m1 xs \<Longrightarrow> spends name (fin \<or> told name xs) m1 m2 ys \<Longrightarrow> spends name fin m m2 (xs @ ys)"
  by (simp add: spends_def disj_assoc)

lemma notices_Cons [simp]:
  "notices name (e # es) = (if e = MceNotify ReadyNotice name then 1 else 0) + notices name es"
  "told name (MceAnnotate c # es) \<longleftrightarrow> mc_Name c = name \<or> told name es"
  "told name (MceNotify k n # es) \<longleftrightarrow> told name es"
  "told name (MceRecordError x # es) \<longleftrightarrow> told name es"
  by (auto simp: notices_def told_iff)

text \<open>The three outcomes of the readiness part of a sync.\<close>

lemma notify_ready_cases:
  assumes "notify_ready api deps ps name c m = (m', c', ev)"
  obtains (quiet) "list_all silent ev" "me_readyAttempts m' = me_readyAttempts m"
  | (finished) e0 evn e1 where "list_all silent e0" "list_all silent e1" "evn \<in> {[], [MceNotify ReadyNotice (mc_Name c)]}"
      "ev = e0 @ evn @ e1 @ snd (annotate_notified api c)" "\<not> notified c"
      "me_readyAttempts m' = mdel name (me_readyAttempts m)"
  | (retry) e0 evn where "list_all silent e0" "evn \<in> {[], [MceNotify ReadyNotice (mc_Name c)]}" "ev = e0 @ evn" "\<not> notified c"
      "me_readyAttempts m' = mput name (attempts_of name m + 1) (me_readyAttempts m)"
      "attempts_of name m + 1 < maxMCENotificationAttempts"
proof (cases "notified c \<or> \<not> MceClusterNotifiable c")
  case True
  then show thesis using assms quiet by (simp add: notify_ready_def)
next
  case False
  obtain m1 e r where a: "getClusterAuth api name m = (m1, e, r)" by (metis prod.exhaust)
  note f = getClusterAuth_frame(1,8) [OF a]
  show thesis
  proof (cases "(\<exists>x. r = Inl x) \<or> (\<exists>k p. r = Inr (k, p) \<and> (k = [] \<or> p = [])) \<or> mget deps name = None")
    case True
    then have "ev = e" "m' = m1" using assms False by (auto simp: notify_ready_def a split: sum.splits)
    then show thesis using quiet f by simp
  next
    case no: False
    then obtain k p y where r: "r = Inr (k, p)" "k \<noteq> []" "p \<noteq> []" and y: "mget deps name = Some y" by (cases r) auto
    obtain evn sent where n: "notifyMce api ReadyNotice c (Some y) (mget ps name) k p = (evn, sent)" by (metis prod.exhaust)
    obtain ys stop where rec: "recordMceNotifyAttempt name (me_readyAttempts m) = (ys, stop)" by (metis prod.exhaust)
    obtain c2 e2 where an: "annotate_notified api c = (c2, e2)" by (metis prod.exhaust)
    have evn: "evn \<in> {[], [MceNotify ReadyNotice (mc_Name c)]}" using n by (auto simp: notifyMce_def split: option.splits)
    have stop: "stop \<Longrightarrow> ys = mdel name (me_readyAttempts m)"
      "\<not> stop \<Longrightarrow> ys = mput name (attempts_of name m + 1) (me_readyAttempts m) \<and> attempts_of name m + 1 < maxMCENotificationAttempts"
      using rec f(1) by (auto simp: recordMceNotifyAttempt_def Let_def split: if_splits)
    note [simp] = notify_ready_def a n rec f(1) y an
    consider "sent" | "\<not> sent" "stop" | "\<not> sent" "\<not> stop" by blast
    then show thesis
    proof cases
      case 1
      then show thesis using finished [of e "ready_metric c" evn] assms False r f(2) evn ready_metric_events(1)
        by auto
    next
      case 2
      then show thesis using finished [of e "[]" evn] assms False r f(2) evn stop(1) by auto
    next
      case 3
      then show thesis using retry [of e evn] assms False r f(2) evn stop(2) by auto
    qed
  qed
qed

lemma annotate_told:
  "notices name (snd (annotate_notified api c)) = 0"
  "told name (snd (annotate_notified api c)) \<longleftrightarrow> ma_update api (mark_notified c) \<and> mc_Name c = name"
  by (auto simp: annotate_notified_def Let_def mark_notified_def)

lemma notify_ready_other:
  assumes "notify_ready api deps ps n c m = (m', c', ev)" "mc_Name c = n" "name \<noteq> n"
  shows "spends name fin m m' ev \<and> \<not> told name ev"
  using assms(1)
proof (cases rule: notify_ready_cases)
  case quiet
  then show ?thesis by (simp add: spends_def)
next
  case (finished e0 evn e1)
  then show ?thesis using assms(2,3) by (auto simp: spends_def annotate_told mget0_def gm.lookup_remove)
next
  case (retry e0 evn)
  then show ?thesis using assms(2,3) by (auto simp: spends_def mget0_def gm.lookup_insert)
qed

lemma notify_ready_same:
  assumes "notify_ready api deps ps name c m = (m', c', ev)" "mc_Name c = name" "\<forall>x. ma_update api x"
    and "attempts_of name m < maxMCENotificationAttempts" "fin \<longrightarrow> notified c"
  shows "spends name fin m m' ev"
  using assms(1)
proof (cases rule: notify_ready_cases)
  case quiet
  then show ?thesis by (simp add: spends_def)
next
  case (finished e0 evn e1)
  then show ?thesis using assms(2-5) by (auto simp: spends_def annotate_told budget_def)
next
  case (retry e0 evn)
  moreover have "mget0 0 (mput name k xs) name = (k :: nat)" for k xs by (simp add: mget0_def gm.lookup_insert)
  ultimately show ?thesis using assms(2,5) by (auto simp: spends_def budget_def)
qed

lemma sync_cluster_spends:
  assumes "sync_cluster api deps ps fresh n c m = (m', c', ev)" "mc_Name c = n" "\<forall>x. ma_update api x"
    and "attempts_of name m < maxMCENotificationAttempts" "name = n \<and> fin \<longrightarrow> notified c"
  shows "spends name fin m m' ev \<and> (name \<noteq> n \<longrightarrow> \<not> told name ev)"
proof -
  obtain m1 ev1 where warm: "(if mhas (me_kubeconfigs m) n \<and> mhas (me_passwords m) n then (m, [])
      else (case getClusterAuth api n m of (m', ev, _) \<Rightarrow> (m', ev))) = (m1, ev1)" by (metis prod.exhaust)
  have w: "me_readyAttempts m1 = me_readyAttempts m" "list_all silent ev1"
    using warm getClusterAuth_frame by (auto split: if_splits prod.splits)
  have q: "spends name fin m m1 ev1" "\<not> told name ev1" using w by (simp_all add: spends_def)
  show ?thesis
  proof (cases "cluster_available c")
    case True
    then obtain ev2 where r: "notify_ready api deps ps n c m1 = (m', c', ev2)" "ev = ev1 @ ev2"
      using assms(1) by (auto simp: sync_cluster_def warm split: prod.splits)
    have "spends name fin m1 m' ev2 \<and> (name \<noteq> n \<longrightarrow> \<not> told name ev2)"
      using notify_ready_other [OF r(1) assms(2)] notify_ready_same [OF r(1)] assms(2-5) w(1) by (cases "name = n") auto
    then show ?thesis using q spends_append r(2) by simp
  next
    case False
    then obtain ev2 where f: "sync_failure api deps ps fresh n c m1 = (m', ev2)" "ev = ev1 @ ev2"
      using assms(1) by (auto simp: sync_cluster_def warm split: prod.splits)
    have "MceNotify ReadyNotice name \<notin> set ev2" "\<not> told name ev2" "me_readyAttempts m' = me_readyAttempts m1"
      using sync_failure_frame [OF f(1)] by (auto simp: told_iff)
    then have "spends name fin m1 m' ev2 \<and> \<not> told name ev2" by (auto simp: spends_def notices_def filter_empty_conv)
    then show ?thesis using q spends_append f(2) by simp
  qed
qed

lemma sync_clusters_spends:
  assumes "\<forall>x. ma_update api x"
  shows "sync_clusters api deps ps fresh cs m = (m', cs', ev) \<Longrightarrow> wf_map cs \<Longrightarrow> (\<forall>(n, c) \<in> set cs. mc_Name c = n) \<Longrightarrow>
    attempts_ok (me_readyAttempts m) \<Longrightarrow> (\<forall>c. mget cs name = Some c \<and> fin \<longrightarrow> notified c) \<Longrightarrow> spends name fin m m' ev"
proof (induction cs arbitrary: m m' cs' ev fin)
  case Nil
  then show ?case by (simp add: spends_def)
next
  case (Cons nc cs)
  obtain n c where [simp]: "nc = (n, c)" by (cases nc)
  obtain m1 c1 e1 where s: "sync_cluster api deps ps fresh n c m = (m1, c1, e1)" by (metis prod.exhaust)
  obtain m2 cs2 e2 where r: "sync_clusters api deps ps fresh cs m1 = (m2, cs2, e2)" by (metis prod.exhaust)
  have e: "m' = m2" "ev = e1 @ e2" using Cons.prems(1) s r by auto
  have ok: "attempts_ok (me_readyAttempts m1)" using sync_cluster_frame [OF s] Cons.prems(4) by (simp add: loop_frame_def)
  have e1: "spends name fin m m1 e1 \<and> (name \<noteq> n \<longrightarrow> \<not> told name e1)"
    using sync_cluster_spends [OF s _ assms attempts_ok_less [OF Cons.prems(4)]] Cons.prems(3,5) by simp
  moreover have "spends name (fin \<or> told name e1) m1 m2 e2"
  proof (cases "name = n")
    case True
    then have "mget cs name = None" using Cons.prems(2) by (simp add: mget_eq_None_iff)
    then show ?thesis using Cons.IH [OF r _ _ ok] Cons.prems(2,3) by auto
  next
    case False
    then show ?thesis using Cons.IH [OF r _ _ ok] Cons.prems(2,3,5) e1 by auto
  qed
  ultimately show ?case unfolding e using spends_append by blast
qed

text \<open>
  A hub that answers for a cluster: it takes updates, names its objects by their namespace and, when it can list the
  namespaces, knows the cluster and its deployment.
\<close>

definition hub_answers :: "string \<Rightarrow> mce_api \<Rightarrow> bool" where
  "hub_answers name api \<longleftrightarrow> (\<forall>x. ma_update api x) \<and> (\<forall>n c. ma_cluster api n = Some c \<longrightarrow> mc_Name c = n) \<and>
     (\<forall>n d. ma_deployment api n = Some d \<longrightarrow> cd_Name d = n) \<and>
     (\<forall>ns. ma_namespaces api = Some ns \<longrightarrow> name \<in> set ns) \<and> ma_cluster api name \<noteq> None \<and> ma_deployment api name \<noteq> None"

lemma map_filter_Some: "(x \<in> set (List.map_filter f xs)) \<longleftrightarrow> (\<exists>y \<in> set xs. f y = Some x)"
  by (induction xs) (auto simp: map_filter_simps split: option.splits)

lemma sync_caches_spends:
  assumes h: "hub_answers name api" and ok: "attempts_ok (me_readyAttempts m)" and c: "ma_cluster api name = Some c" "fin \<longrightarrow> notified c"
    and l: "listManagedClusters api = Some (cs, ds)" and s: "sync_caches api jobs cs ds m = (m', ev)"
  shows "spends name fin m m' ev"
proof -
  obtain ps fresh e1 where p: "syncProvisions api (me_provisions m) ds ([], [], []) = (ps, fresh, e1)" by (metis prod.exhaust)
  obtain m1 cs1 e2 where sc: "sync_clusters api (by_name cd_Name ds) ps fresh (by_name mc_Name cs) m = (m1, cs1, e2)"
    by (metis prod.exhaust)
  obtain cs2 e3 where d: "drop_stale api (by_name cd_Name ds) jobs cs1 = (cs2, e3)" by (metis prod.exhaust)
  have m': "me_readyAttempts m' = keep_known cs2 (me_readyAttempts m1)"
      and ev: "ev = expire_clusters api cs @ e1 @ e2 @ e3 @ [cloud_gauges cs1]"
    using s unfolding sync_caches_def p sc d Let_def prod.case by auto
  obtain ns where ns: "ma_namespaces api = Some ns" "cs = List.map_filter (ma_cluster api) ns" "ds = List.map_filter (ma_deployment api) ns"
    using l by (auto simp: listManagedClusters_def split: option.splits)
  have got: "mget (by_name mc_Name cs) name = Some c"
    using h c ns by (intro by_name_unique) (auto simp: hub_answers_def map_filter_Some)
  have "spends name fin m m1 e2"
    by (rule sync_clusters_spends [OF _ sc _ _ ok]) (use got c h in \<open>auto simp: hub_answers_def dest: by_name_named\<close>)
  moreover have "mhas (by_name cd_Name ds) name"
    using h ns unfolding by_name_has hub_answers_def by (metis map_filter_Some option.exhaust_sel)
  then have "mhas cs2 name"
    using d sync_clusters_keys [OF sc, of name] got unfolding drop_stale_def mce_stale_def
    by (auto simp: mhas_filter_key mhas_def [of "by_name mc_Name cs"])
  moreover have "list_all silent e3" using drop_stale_events(1) d by (metis snd_conv)
  ultimately show ?thesis unfolding ev
    using syncProvisions_events [OF p] expire_events(1)
    by (auto simp: spends_def m' keep_known_def mget0_def mget_filter_key cloud_gauges_def)
qed

text \<open>
  A sequence of syncs with what the hub answers in each, in which the hub keeps answering for the cluster and shows
  the annotation once it has taken it.
\<close>

fun mce_run :: "(mce_api \<times> (string, Job) gomap) list \<Rightarrow> mce \<Rightarrow> mce_event list" where
  "mce_run [] m = []"
| "mce_run ((api, jobs) # rest) m = (case mceSync api jobs m of (m', evs, _) \<Rightarrow> evs @ mce_run rest m')"

fun hub_persists :: "string \<Rightarrow> bool \<Rightarrow> (mce_api \<times> (string, Job) gomap) list \<Rightarrow> mce \<Rightarrow> bool" where
  "hub_persists name fin [] m \<longleftrightarrow> True"
| "hub_persists name fin ((api, jobs) # rest) m \<longleftrightarrow>
     hub_answers name api \<and> (fin \<longrightarrow> (case ma_cluster api name of None \<Rightarrow> False | Some c \<Rightarrow> notified c)) \<and>
     (case mceSync api jobs m of (m', evs, _) \<Rightarrow> hub_persists name (fin \<or> told name evs) rest m')"

lemma mceSync_spends:
  assumes "hub_answers name api" "attempts_ok (me_readyAttempts m)" "ma_cluster api name = Some c" "fin \<longrightarrow> notified c"
    and "mceSync api jobs m = (m', ev, err)"
  shows "spends name fin m m' ev"
proof (cases "listManagedClusters api")
  case None
  then show ?thesis using assms(5) by (auto simp: mceSync_def spends_def)
next
  case (Some p)
  obtain m1 ev1 where s: "sync_caches api jobs (fst p) (snd p) m = (m1, ev1)" by (metis prod.exhaust)
  have "spends name fin m m1 ev1" using sync_caches_spends [OF assms(1-4), of "fst p" "snd p"] Some s by simp
  then show ?thesis using assms(5) Some s by (auto simp: mceSync_def spends_def case_prod_beta split: users_reply.splits)
qed

lemma mce_run_budget:
  "hub_persists name fin syncs m \<Longrightarrow> mce_ok m \<Longrightarrow> notices name (mce_run syncs m) \<le> budget fin (attempts_of name m)"
proof (induction syncs arbitrary: fin m)
  case (Cons x rest)
  obtain api jobs where [simp]: "x = (api, jobs)" by (cases x)
  obtain m' ev err where s: "mceSync api jobs m = (m', ev, err)" by (metis prod.exhaust)
  obtain c where c: "ma_cluster api name = Some c" using Cons.prems(1) by (auto simp: hub_answers_def)
  have "spends name fin m m' ev"
    using mceSync_spends [OF _ _ c _ s] Cons.prems c by (auto simp: mce_ok_def)
  moreover have "notices name (mce_run rest m') \<le> budget (fin \<or> told name ev) (attempts_of name m')"
    using Cons.IH Cons.prems s mceSync_ok [OF Cons.prems(2), of api jobs] by simp
  ultimately show ?case using s by (simp add: spends_def)
qed simp

text \<open>
  C29: the owner of a managed cluster is not flooded. Over any sequence of syncs in which the hub keeps answering for the
  cluster, the readiness notifier is called for it at most three times, and no more than the attempts that are
  left; once the cluster is annotated as notified it is never called again.
\<close>

theorem mce_ready_notices_bounded:
  assumes "mce_reach m" and "hub_persists name fin syncs m"
  shows "notices name (mce_run syncs m) \<le> maxMCENotificationAttempts - attempts_of name m \<and>
    (fin \<longrightarrow> notices name (mce_run syncs m) = 0)"
proof -
  show ?thesis using mce_run_budget [OF assms(2) reach_ok [OF assms(1)]] by (auto simp: budget_def split: if_splits)
qed

text \<open>Three syncs with the hub above: the third gives up.\<close>

theorem mce_ready_notices_bounded_witness:
  "notices ''chat-bot-a'' (mce_run (replicate 3 (sample_hub, [])) empty_mce) = 3 \<and>
   3 \<le> maxMCENotificationAttempts - attempts_of ''chat-bot-a'' empty_mce"
proof -
  have h: "hub_answers ''chat-bot-a'' sample_hub"
    by (auto simp: hub_answers_def sample_hub_def sample_cluster_def sample_deployment_def cluster_deployment_def Let_def split: if_splits)
  have t: "\<not> told ''chat-bot-a'' (fst (snd (mceSync sample_hub [] empty_mce)))"
    "\<not> told ''chat-bot-a'' (fst (snd (mceSync sample_hub [] (fst (mceSync sample_hub [] empty_mce)))))" by code_simp+
  have "hub_persists ''chat-bot-a'' False (replicate 3 (sample_hub, [])) empty_mce"
    using t h by (simp add: numeral_3_eq_3 case_prod_beta)
  moreover have "notices ''chat-bot-a'' (mce_run (replicate 3 (sample_hub, [])) empty_mce) = 3" by code_simp
  ultimately show ?thesis using mce_ready_notices_bounded [OF mce_reach.start] by metis
qed

section \<open>Creating clusters\<close>

lemma cbind_Inr: "cbind c f = (ev, Inr y) \<longleftrightarrow> (\<exists>e1 x e2. c = (e1, Inr x) \<and> f x = (e2, Inr y) \<and> ev = e1 @ e2)"
  by (auto simp: cbind_def split: prod.splits sum.splits)

lemma make_Inr: "make api obj metric = (ev, Inr u) \<longleftrightarrow> ca_create api obj = None \<and> ev = [Created obj]"
  by (auto simp: make_def split: option.splits)

lemma bot_secret_Inr: "bot_secret api name metric = (ev, Inr s) \<longleftrightarrow> ma_secret api ''crt-argocd'' name = Some s \<and> ev = []"
  by (auto simp: bot_secret_def split: option.splits)

lemma cluster_objects_Inr:
  assumes "cluster_objects api u n img p user ch disp d = (ev, Inr c)"
  shows "c = managed_cluster (ma_now api) n p user ch (base_domain u p) disp d" "Created (ClusterObject c) \<in> set ev"
    "disp = None \<Longrightarrow> Created (DeploymentObject (cluster_deployment n img (base_domain u p) p)) \<in> set ev"
  using assms unfolding cluster_objects_def Let_def cbind_Inr make_Inr bot_secret_Inr createClusterDeployment_def
  by (auto simp: make_Inr split: if_splits)

lemma createManagedCluster_Inr:
  assumes "createManagedCluster env newjob api mg m img p user ch req d = (mg', evs, cev, Inr c)"
  obtains n disp where "c = managed_cluster (ma_now api) n p user ch (base_domain (mget0 emptyMceUser (me_users m) user) p) disp d"
    "Created (ClusterObject c) \<in> set cev"
proof -
  obtain n disp where o: "cluster_objects api (mget0 emptyMceUser (me_users m) user) n img p user ch disp d = (cev, Inr c)"
    using assms unfolding createManagedCluster_def Let_def by (auto split: option.splits prod.splits)
  show thesis by (rule that [OF cluster_objects_Inr(1,2) [OF o]])
qed

lemma managed_cluster_tags:
  assumes "c = managed_cluster now n p user ch domain disp d" "p \<in> set MCEPlatforms"
  shows "mget0 [] (mc_Annotations c) UserTag = user" "mget0 [] (mc_Annotations c) ExpiryTimeTag = rfc3339 (now + d)"
    "mceClusterIsAWS c None \<longleftrightarrow> p = ''aws''" "mceClusterIsGCP c None \<longleftrightarrow> p = ''gcp''"
    "mget (mc_Annotations c) CustomImageTag = Some ''true'' \<longleftrightarrow> disp \<noteq> None" "\<not> notified c"
  using assms
  by (auto simp: managed_cluster_def mget0_def mceClusterIsAWS_def mceClusterIsGCP_def cloud_labels_def MCEPlatforms_def
      notified_def split: option.splits)

lemma mce_admit_Inr:
  assumes "mce_admit m now user platform0 from d0 = Inr (platform, d, req)"
  shows "mce_capacity m platform0 = None"
    "int (length (GetManagedClustersForUser m user)) < mu_MaxClusters (mget0 defaultMceUserConfig (me_users m) user)"
    "d \<le> mu_MaxClusterAge (mget0 defaultMceUserConfig (me_users m) user) * hour"
    "platform \<in> set MCEPlatforms" "platform = (if platform0 = [] then ''aws'' else platform0)"
    "d0 \<noteq> 0 \<Longrightarrow> d = d0" "req = None \<longleftrightarrow> mce_imageset from \<in> set (me_imagesets m)"
  using assms by (auto simp: mce_admit_def Let_def split: option.splits if_splits)


definition sample_creator :: create_api where
  "sample_creator = \<lparr>ma_now = hour, ma_namespaces = Some [], ma_cluster = (\<lambda>_. None), ma_deployment = (\<lambda>_. None),
     ma_provisionList = (\<lambda>_. Some []), ma_provision = (\<lambda>_ _. None), ma_secret = (\<lambda>_ _. Some []), ma_imagesets = Some [],
     ma_delete = (\<lambda>_ _. HubOk), ma_notifier = None, ma_update = (\<lambda>_. True), ma_users = UsersConfig [],
     ca_random = (\<lambda>k n. if n = 0 then None else Some (k mod n)), ca_create = (\<lambda>_. None), ca_marshal = (\<lambda>_. Some [])\<rparr>"

definition sample_images :: mce where
  "sample_images = empty_mce\<lparr>me_imagesets := [''img4.20.0-multi-appsub'']\<rparr>"

lemma sample_random: "generateRandomString (ca_random sample_creator) 12 True = Some ''vcegi-nprtaa''"
  by code_simp

lemma sample_create:
  "\<exists>cev. CreateMceCluster env newjob sample_creator mg sample_images ''U1'' ''D1'' p [[''4.20.0'']] (2 * hour)
     = (mg, [], cev, MceInstalling ''chat-bot-vcegi-nprtaa'' ''aws'' ''img4.20.0-multi-appsub'' 120 False)"
  if "p = ''aws'' \<or> p = []"
proof -
  have adm: "mce_admit sample_images hour ''U1'' p [[''4.20.0'']] (2 * hour) = Inr (''aws'', 2 * hour, None)"
    using that
    by (auto simp: mce_admit_def sample_images_def empty_mce_def mce_capacity_def active_clusters_def Let_def mget0_def
        defaultMceUserConfig_def emptyMceUser_def GetManagedClustersForUser_def mce_imageset_def MCEPlatforms_def
        maxTotalMCEAWSClusters_def MaxMCEDuration_def tdiv_def time_units)
  show ?thesis
    using adm sample_random
    by (simp add: CreateMceCluster_def createManagedCluster_def cluster_objects_def Let_def cbind_def make_def bot_secret_def
        createClusterDeployment_def sample_creator_def managed_cluster_def mce_imageset_def tdiv_def time_units)
qed


text \<open>
  An omitted platform escapes the capacity limit. The capacity is compared before the platform is defaulted, so
  with the AWS capacity used up a request that names AWS is refused, while the same request without a
  platform is admitted and creates one more cluster on AWS.
\<close>

theorem mce_default_platform_skips_capacity:
  assumes "maxTotalMCEAWSClusters \<le> active_clusters mceClusterIsAWS m"
    and "cfg = mget0 defaultMceUserConfig (me_users m) user" and "d \<noteq> 0" "d \<le> mu_MaxClusterAge cfg * hour"
    and "int (length (GetManagedClustersForUser m user)) < mu_MaxClusters cfg"
  shows "mce_admit m now user ''aws'' from d = Inl NoAwsCapacity \<and>
    (\<exists>req. mce_admit m now user [] from d = Inr (''aws'', d, req))"
  using assms by (auto simp: mce_admit_def mce_capacity_def MCEPlatforms_def Let_def)

definition full_aws :: mce where
  "full_aws = empty_mce\<lparr>me_clusters := map (\<lambda>i. (show_nat i, sample_cluster\<lparr>mc_Name := show_nat i\<rparr>)) [0..<10]\<rparr>"

theorem mce_default_platform_skips_capacity_witness:
  "maxTotalMCEAWSClusters \<le> active_clusters mceClusterIsAWS full_aws \<and>
   mce_admit full_aws 0 ''U2'' ''aws'' [] hour = Inl NoAwsCapacity \<and>
   (\<exists>req. mce_admit full_aws 0 ''U2'' [] [] hour = Inr (''aws'', hour, req))"
proof -
  have a: "maxTotalMCEAWSClusters \<le> active_clusters mceClusterIsAWS full_aws" by code_simp
  have g: "GetManagedClustersForUser full_aws ''U2'' = []" by code_simp
  have c: "mget0 defaultMceUserConfig (me_users full_aws) ''U2'' = defaultMceUserConfig"
    by (simp add: full_aws_def empty_mce_def mget0_def)
  have d: "hour \<noteq> 0" "hour \<le> mu_MaxClusterAge defaultMceUserConfig * hour" "0 < mu_MaxClusters defaultMceUserConfig"
    by code_simp+
  show ?thesis
    using mce_default_platform_skips_capacity [OF a refl, of hour "''U2''" 0 "[]"] a c d g by simp
qed

section \<open>Ownership\<close>

lemma owned_clusters: "(n, c) \<in> set (GetManagedClustersForUser m user) \<Longrightarrow>
    (n, c) \<in> set (me_clusters m) \<and> mget0 [] (mc_Annotations c) UserTag = user"
  by (auto simp: GetManagedClustersForUser_def)

lemma delete_owner:
  assumes "DeleteMceCluster api m user n = (ev, s, r)" "ev \<noteq> []"
  shows "\<exists>c. mget (me_clusters m) n = Some c \<and> mget0 [] (mc_Annotations c) UserTag = user \<and> ev = fst (deleteManagedCluster api c)"
  using assms by (auto simp: DeleteMceCluster_def split: option.splits if_splits prod.splits list.splits)

text \<open>
  Only owners delete managed clusters and get their credentials. Whatever a user types, \<open>mce delete\<close> asks the hub to
  delete something only for a cached cluster that this user requested, and then exactly the objects of that cluster;
  \<open>mce auth\<close> sends credentials only of a cluster of the user.
\<close>

theorem mce_commands_only_for_owner:
  assumes "MceDelete api m user properties = (events, resync, reply)"
  shows "(events \<noteq> [] \<longrightarrow> (\<exists>n c. mget (me_clusters m) n = Some c \<and> mget0 [] (mc_Annotations c) UserTag = user \<and>
      events = fst (deleteManagedCluster api c))) \<and>
    (\<forall>n. MceAuth m user properties' = AuthSent n \<longrightarrow>
      (\<exists>c. (n, c) \<in> set (me_clusters m) \<and> mget0 [] (mc_Annotations c) UserTag = user))"
proof
  show "events \<noteq> [] \<longrightarrow> (\<exists>n c. mget (me_clusters m) n = Some c \<and> mget0 [] (mc_Annotations c) UserTag = user \<and>
      events = fst (deleteManagedCluster api c))"
    using assms delete_owner
    by (fastforce simp: MceDelete_def split: option.splits if_splits list.splits prod.splits)
  show "\<forall>n. MceAuth m user properties' = AuthSent n \<longrightarrow>
      (\<exists>c. (n, c) \<in> set (me_clusters m) \<and> mget0 [] (mc_Annotations c) UserTag = user)"
  proof (intro allI impI)
    fix n assume "MceAuth m user properties' = AuthSent n"
    then have "mhas (GetManagedClustersForUser m user) n"
      by (auto simp: MceAuth_def mhas_def split: option.splits if_splits list.splits prod.splits)
    then show "\<exists>c. (n, c) \<in> set (me_clusters m) \<and> mget0 [] (mc_Annotations c) UserTag = user"
      using owned_clusters mget_in_set unfolding mhas_def by (metis option.exhaust_sel)
  qed
qed

theorem mce_commands_only_for_owner_witness:
  "\<exists>events. MceDelete sample_hub full_aws ''U1'' [(''cluster_name'', ''7'')] = (events, True, DeleteReply (MceDeleted ''7'')) \<and>
     events = [MceRemove DeploymentKind ''7'', MceRemove ManagedClusterKind ''7''] \<and>
     MceAuth full_aws ''U1'' [(''name'', ''7'')] = AuthSent ''7''"
proof -
  have d: "MceDelete sample_hub full_aws ''U1'' [(''cluster_name'', ''7'')] =
     ([MceRemove DeploymentKind ''7'', MceRemove ManagedClusterKind ''7''], True, DeleteReply (MceDeleted ''7''))"
    "MceAuth full_aws ''U1'' [(''name'', ''7'')] = AuthSent ''7''" by code_simp+
  then show ?thesis using mce_commands_only_for_owner [OF d(1), of "[(''name'', ''7'')]"] by blast
qed

end
