(* ===== verification/RosaProps.thy ===== *)
theory RosaProps
  imports Rosa
begin

text \<open>
  Properties of ROSA clusters: the limit under concurrent creations, what a created cluster carries and when a sync
  deletes it, that an error is reported once, and that a sync cleans up only what is gone.
\<close>

section \<open>Updating the secret\<close>

lemma update_loop_Inr:
  "update_loop replies fn n i = Inr d \<Longrightarrow>
     \<exists>j < i + n. i \<le> j \<and> (replies j = (SecretMissing, PutOk) \<and> d = fn [] \<or> (\<exists>s. replies j = (SecretData s, PutOk) \<and> d = fn s)) \<and>
       (\<forall>k. i \<le> k \<and> k < j \<longrightarrow> (\<exists>s. replies k = (SecretData s, PutConflict)))"
proof (induction n arbitrary: i)
  case (Suc n)
  obtain g p where r: "replies i = (g, p)" by (metis prod.exhaust)
  show ?case
  proof (cases "\<exists>s. replies i = (SecretData s, PutConflict)")
    case True
    then have "update_loop replies fn n (i + 1) = Inr d" using Suc.prems by auto
    from Suc.IH [OF this] obtain j where j: "j < i + 1 + n" "i + 1 \<le> j"
        "replies j = (SecretMissing, PutOk) \<and> d = fn [] \<or> (\<exists>s. replies j = (SecretData s, PutOk) \<and> d = fn s)"
        "\<And>k. i + 1 \<le> k \<Longrightarrow> k < j \<Longrightarrow> \<exists>s. replies k = (SecretData s, PutConflict)" by auto
    have "\<exists>s. replies k = (SecretData s, PutConflict)" if "i \<le> k" "k < j" for k
      using True j(4) [of k] that by (cases "k = i") auto
    then show ?thesis using j(1-3) by (intro exI [of _ j]) auto
  next
    case False
    then show ?thesis using Suc.prems r
      by (intro exI [of _ i]) (auto split: secret_get.splits secret_put.splits)
  qed
qed simp

section \<open>The limit\<close>

text \<open>
  Creations of several users interleave: each reserves a place (\<open>rosa_begin\<close>), then adds its cluster or fails, and
  finally releases the place. \<open>u\<close> counts the creations that have not added a cluster yet, \<open>a\<close> those that have and
  not released their place. A sync may happen in between as long as it does not bring clusters the bot did not know.
\<close>

inductive rosa_reach :: "manager \<Rightarrow> rosa \<Rightarrow> nat \<Rightarrow> nat \<Rightarrow> bool" where
  start: "int (length (mg_rosaClusters mg)) \<le> rs_limit rs \<Longrightarrow> rs_pending rs = 0 \<Longrightarrow> rosa_reach mg rs 0 0"
| reserve: "rosa_reach mg rs u a \<Longrightarrow> rosa_begin now mg user d rs = Inr rs' \<Longrightarrow> rosa_reach mg rs' (Suc u) a"
| add: "rosa_reach mg rs (Suc u) a \<Longrightarrow> rosa_reach (add_rosa c mg) rs u (Suc a)"
| fail: "rosa_reach mg rs (Suc u) a \<Longrightarrow> rosa_reach mg (rosa_end rs) u a"
| finish: "rosa_reach mg rs u (Suc a) \<Longrightarrow> rosa_reach mg (rosa_end rs) u a"
| sync: "rosa_reach mg rs u a \<Longrightarrow> rosaSync api mg rs = (mg', rs', evs, err) \<Longrightarrow>
    length (mg_rosaClusters mg') \<le> length (mg_rosaClusters mg) \<Longrightarrow> rosa_reach mg' rs' u a"

lemma add_rosa_length: "length (mg_rosaClusters (add_rosa c mg)) \<le> Suc (length (mg_rosaClusters mg))"
  by (simp add: add_rosa_def mput_fresh)

lemma state_change_frame:
  "rosa_state_change mg c rs = (rs', ev) \<Longrightarrow> rs_pending rs' = rs_pending rs \<and> rs_limit rs' = rs_limit rs"
  by (auto simp: rosa_state_change_def markRosaErrorReported_def Let_def split: if_splits)

lemma rosa_loop_frame:
  "rosa_loop api mg cs (rs, m, evs) = (rs', m', evs') \<Longrightarrow> rs_pending rs' = rs_pending rs \<and> rs_limit rs' = rs_limit rs"
proof (induction cs arbitrary: rs m evs)
  case (Cons c cs)
  obtain r1 e1 where s: "rosa_state_change mg c rs = (r1, e1)" by (metis prod.exhaust)
  obtain c2 e2 where x: "expire_rosa api c = (c2, e2)" by (metis prod.exhaust)
  show ?case using Cons s x state_change_frame [OF s] by (auto simp: Let_def split: if_splits)
qed simp

lemma rosaSync_frame:
  "rosaSync api mg rs = (mg', rs', evs, err) \<Longrightarrow> rs_pending rs' = rs_pending rs \<and> rs_limit rs' = rs_limit rs"
  using rosa_loop_frame by (auto simp: rosaSync_def Let_def split: if_splits option.splits prod.splits sum.splits)


definition sample_rosa :: rosa where
  "sample_rosa = \<lparr>rs_pending = 0, rs_limit = 1, rs_versions = [''4.20.1'', ''4.19.2''], rs_errorReported = [], rs_maxAge = 8 * hour,
     rs_defaultAge = 6 * hour, rs_subnets = [''s1''], rs_adminUsername = ''cluster-admin''\<rparr>"

definition sample_rosa_cluster :: RosaCluster where
  "sample_rosa_cluster = \<lparr>ro_ID = ''id1'', ro_Name = ''bcegi-nprtv-zaa'', ro_State = ''installing'',
     ro_Tags = Some [(''ci-chat-bot/launch'', ''true''), (''ci-chat-bot/user'', ''U1'')], ro_CreationTimestamp = 0\<rparr>"


section \<open>Errors are reported once\<close>

definition error_notices :: "string \<Rightarrow> rosa_event list \<Rightarrow> nat" where
  "error_notices i evs = length (filter (\<lambda>e. case e of RosaNotify c _ \<Rightarrow> ro_ID c = i | _ \<Rightarrow> False) evs)"

lemma error_notices_append [simp]: "error_notices i (xs @ ys) = error_notices i xs + error_notices i ys"
  by (simp add: error_notices_def)

definition owed :: "string \<Rightarrow> rosa \<Rightarrow> nat" where
  "owed i rs = (if i \<in> set (rs_errorReported rs) then 0 else 1)"

lemma state_change_notices:
  assumes "rosa_state_change mg c rs = (rs', ev)"
  shows "error_notices i ev + owed i rs' \<le> owed i rs"
  using assms
  by (auto simp: rosa_state_change_def markRosaErrorReported_def error_notices_def owed_def Let_def split: if_splits)

lemma expire_rosa_notices: "expire_rosa api c = (c', ev) \<Longrightarrow> error_notices i ev = 0"
  by (auto simp: expire_rosa_def deleteCluster_def error_notices_def split: if_splits option.splits)

lemma rosa_loop_notices:
  "rosa_loop api mg cs (rs, m, evs) = (rs', m', evs') \<Longrightarrow>
     error_notices i evs' + owed i rs' \<le> error_notices i evs + owed i rs"
proof (induction cs arbitrary: rs m evs)
  case (Cons c cs)
  obtain r1 e1 where s: "rosa_state_change mg c rs = (r1, e1)" by (metis prod.exhaust)
  obtain c2 e2 where x: "expire_rosa api c = (c2, e2)" by (metis prod.exhaust)
  have "error_notices i e1 + owed i r1 \<le> owed i rs" "error_notices i e2 = 0"
    using state_change_notices [OF s] expire_rosa_notices [OF x] by simp_all
  then show ?case using Cons s x by (fastforce simp: Let_def split: if_splits)
qed simp

text \<open>OCM keeps the identifiers of clusters.\<close>

definition ids_stable :: "rosa_api \<Rightarrow> bool" where
  "ids_stable api \<longleftrightarrow> (\<forall>i c. ra_get api i = Some c \<longrightarrow> ro_ID c = i)"

lemma expire_rosa_id: "ids_stable api \<Longrightarrow> expire_rosa api c = (c', ev) \<Longrightarrow> ro_ID c' = ro_ID c"
  by (auto simp: expire_rosa_def ids_stable_def split: if_splits option.splits)

lemma rosa_loop_ids:
  assumes "ids_stable api"
  shows "rosa_loop api mg cs (rs, m, evs) = (rs', m', evs') \<Longrightarrow>
    mhas m' i \<longleftrightarrow> mhas m i \<or> (\<exists>c \<in> set cs. bot_cluster c \<and> ro_ID c = i)"
proof (induction cs arbitrary: rs m evs)
  case (Cons c cs)
  obtain r1 e1 where s: "rosa_state_change mg c rs = (r1, e1)" by (metis prod.exhaust)
  obtain c2 e2 where x: "expire_rosa api c = (c2, e2)" by (metis prod.exhaust)
  show ?case using Cons s x expire_rosa_id [OF assms x] by (auto simp: Let_def split: if_splits)
qed simp

lemma cleanup_notices: "rosa_cleanup api l = (ev, err) \<Longrightarrow> error_notices i ev = 0"
proof -
  have "error_notices i (concat (map (\<lambda>j. fst (removeAssociatedAWSResources api j)) l)) = 0"
    by (induction l) (auto simp: removeAssociatedAWSResources_def error_notices_def)
  then show "rosa_cleanup api l = (ev, err) \<Longrightarrow> error_notices i ev = 0"
    by (auto simp: rosa_cleanup_def Let_def error_notices_def split: if_splits sum.splits)
qed

text \<open>A cluster that OCM keeps listing, when it can list at all.\<close>

definition keeps_listing :: "string \<Rightarrow> rosa_api \<Rightarrow> bool" where
  "keeps_listing i api \<longleftrightarrow> ids_stable api \<and> (\<forall>cs. ra_all api = Some cs \<longrightarrow> (\<exists>c \<in> set cs. bot_cluster c \<and> ro_ID c = i))"

lemma rosaSync_notices:
  assumes k: "keeps_listing i api" and s: "rosaSync api mg rs = (mg', rs', evs, err)"
  shows "error_notices i evs + owed i rs' \<le> owed i rs"
proof (cases "ra_client api \<and> ra_all api \<noteq> None")
  case True
  then obtain cs where cs: "ra_all api = Some cs" by auto
  obtain rs1 byID e1 where l: "rosa_loop api mg cs (rs, [], []) = (rs1, byID, e1)" by (metis prod.exhaust)
  have "mhas byID i" using rosa_loop_ids [OF _ l] k cs by (auto simp: keeps_listing_def)
  moreover have "error_notices i e1 + owed i rs1 \<le> owed i rs"
    using rosa_loop_notices [OF l, of i] by (simp add: error_notices_def)
  ultimately show ?thesis
    using s True cs cleanup_notices
    by (auto simp: rosaSync_def l Let_def owed_def error_notices_def split: sum.splits prod.splits) 
qed (use s in \<open>auto simp: rosaSync_def error_notices_def split: if_splits\<close>)

fun rosa_run :: "rosa_api list \<Rightarrow> manager \<Rightarrow> rosa \<Rightarrow> rosa_event list" where
  "rosa_run [] mg rs = []"
| "rosa_run (api # rest) mg rs = (case rosaSync api mg rs of (mg', rs', evs, _) \<Rightarrow> evs @ rosa_run rest mg' rs')"

text \<open>
  The error of a ROSA cluster is reported once. Over any sequence of syncs in which OCM keeps listing the cluster,
  whatever states it goes through, its owner gets at most one error notification, and none when it was reported
  before.
\<close>

theorem rosa_error_reported_once:
  assumes "\<forall>api \<in> set apis. keeps_listing i api"
  shows "error_notices i (rosa_run apis mg rs) \<le> (if i \<in> set (rs_errorReported rs) then 0 else 1)"
proof -
  have "error_notices i (rosa_run apis mg rs) \<le> owed i rs"
    using assms
  proof (induction apis arbitrary: mg rs)
    case (Cons api rest)
    obtain mg' rs' evs err where s: "rosaSync api mg rs = (mg', rs', evs, err)" by (metis prod.exhaust)
    have "error_notices i evs + owed i rs' \<le> owed i rs" using rosaSync_notices [OF _ s] Cons.prems by simp
    moreover have "error_notices i (rosa_run rest mg' rs') \<le> owed i rs'" using Cons by simp
    ultimately show ?case using s by simp
  qed (simp add: error_notices_def)
  then show ?thesis by (simp add: owed_def)
qed

definition sample_ocm :: "RosaCluster list \<Rightarrow> rosa_api" where
  "sample_ocm cs = \<lparr>ra_client = True, ra_now = hour, ra_all = Some cs, ra_get = (\<lambda>_. None), ra_delete = (\<lambda>_. True),
     ra_secret = SecretData [], ra_createSecret = None, ra_deleteRoles = (\<lambda>_. True), ra_deleteOidc = (\<lambda>_. True),
     ra_update = (\<lambda>_. (SecretData [], PutOk))\<rparr>"

theorem rosa_error_reported_once_witness:
  "error_notices ''id1'' (rosa_run (map (\<lambda>st. sample_ocm [sample_rosa_cluster\<lparr>ro_State := st\<rparr>]) [''error'', ''ready'', ''error''])
     NewJobManager sample_rosa) = 1"
proof -
  let ?apis = "map (\<lambda>st. sample_ocm [sample_rosa_cluster\<lparr>ro_State := st\<rparr>]) [''error'', ''ready'', ''error'']"
  have b: "bot_cluster sample_rosa_cluster" by code_simp
  have "\<forall>api \<in> set ?apis. keeps_listing ''id1'' api"
    using b by (simp add: keeps_listing_def ids_stable_def sample_ocm_def bot_cluster_def rosa_tag_def sample_rosa_cluster_def)
  from rosa_error_reported_once [OF this, of NewJobManager sample_rosa]
  have "error_notices ''id1'' (rosa_run ?apis NewJobManager sample_rosa) \<le> 1" by (simp split: if_splits)
  moreover have "error_notices ''id1'' (rosa_run ?apis NewJobManager sample_rosa) = 1" by code_simp
  ultimately show ?thesis by simp
qed

section \<open>What a sync deletes\<close>

lemma state_change_quiet:
  "rosa_state_change mg c rs = (rs', ev) \<Longrightarrow> RosaDelete i \<notin> set ev \<and> RosaCleanup i \<notin> set ev"
  by (auto simp: rosa_state_change_def Let_def split: if_splits prod.splits)

lemma expire_rosa_events:
  "expire_rosa api c = (c', ev) \<Longrightarrow> (RosaDelete i \<in> set ev \<longleftrightarrow> rosa_expired (ra_now api) c \<and> ro_ID c = i) \<and> RosaCleanup i \<notin> set ev"
  by (auto simp: expire_rosa_def deleteCluster_def split: if_splits option.splits)

lemma rosa_loop_events:
  "rosa_loop api mg cs (rs, m, evs) = (rs', m', evs') \<Longrightarrow>
     (RosaDelete i \<in> set evs' \<longleftrightarrow> RosaDelete i \<in> set evs \<or> (\<exists>c \<in> set cs. bot_cluster c \<and> ro_ID c = i \<and> rosa_expired (ra_now api) c)) \<and>
     (RosaCleanup i \<in> set evs' \<longleftrightarrow> RosaCleanup i \<in> set evs)"
proof (induction cs arbitrary: rs m evs)
  case (Cons c cs)
  obtain r1 e1 where s: "rosa_state_change mg c rs = (r1, e1)" by (metis prod.exhaust)
  obtain c2 e2 where x: "expire_rosa api c = (c2, e2)" by (metis prod.exhaust)
  note q = state_change_quiet [OF s, of i] expire_rosa_events [OF x, of i]
  show ?case
  proof (cases "bot_cluster c")
    case True
    have "rosa_loop api mg cs (r1, mput (ro_ID c2) c2 m, evs @ e1 @ e2) = (rs', m', evs')"
      using Cons.prems True by (simp add: s x Let_def)
    from Cons.IH [OF this] show ?thesis using q True by auto
  next
    case False
    then show ?thesis using Cons.IH Cons.prems by simp
  qed
qed simp

lemma cleanup_events:
  "rosa_cleanup api l = (ev, err) \<Longrightarrow> RosaDelete i \<notin> set ev \<and> (RosaCleanup i \<in> set ev \<longleftrightarrow> i \<in> set l)"
  by (auto simp: rosa_cleanup_def Let_def removeAssociatedAWSResources_def split: if_splits sum.splits)

text \<open>
  C26: a ROSA sync touches only what it should. A sync asks OCM to delete exactly the listed clusters of the bot whose expiry tag has
  passed; it cleans up the AWS resources of exactly those identifiers of the secret that OCM no longer lists, and
  caches passwords only of listed clusters. When OCM cannot list, nothing changes and nothing is deleted.
\<close>

theorem rosa_sync_deletes_exactly:
  assumes "rosaSync api mg rs = (mg', rs', evs, err)" "ra_client api" "ids_stable api" "read_secret api = Inr active"
  shows "(ra_all api = None \<longrightarrow> mg' = mg \<and> rs' = rs \<and> RosaDelete i \<notin> set evs \<and> RosaCleanup i \<notin> set evs) \<and>
    (\<forall>cs. ra_all api = Some cs \<longrightarrow>
      (RosaDelete i \<in> set evs \<longleftrightarrow> (\<exists>c \<in> set cs. bot_cluster c \<and> ro_ID c = i \<and> rosa_expired (ra_now api) c)) \<and>
      (RosaCleanup i \<in> set evs \<longleftrightarrow> i \<in> set (mkeys active) \<and> \<not> (\<exists>c \<in> set cs. bot_cluster c \<and> ro_ID c = i)) \<and>
      (mhas (mg_rosaClusters mg') i \<longleftrightarrow> (\<exists>c \<in> set cs. bot_cluster c \<and> ro_ID c = i)) \<and>
      (mhas (mg_rosaPasswords mg') i \<longrightarrow> mhas (mg_rosaClusters mg') i))"
proof (cases "ra_all api")
  case None
  then show ?thesis using assms by (auto simp: rosaSync_def)
next
  case (Some cs)
  obtain rs1 byID e1 where l: "rosa_loop api mg cs (rs, [], []) = (rs1, byID, e1)" by (metis prod.exhaust)
  obtain e2 err2 where c: "rosa_cleanup api (filter (\<lambda>i. \<not> mhas byID i) (mkeys active)) = (e2, err2)" by (metis prod.exhaust)
  have r: "mg_rosaClusters mg' = byID" "mg_rosaPasswords mg' = filter (\<lambda>(i, _). mhas byID i) active" "evs = e1 @ e2"
    using assms Some by (auto simp: rosaSync_def l c Let_def)
  have ids: "mhas byID i \<longleftrightarrow> (\<exists>c \<in> set cs. bot_cluster c \<and> ro_ID c = i)"
    using rosa_loop_ids [OF assms(3) l, of i] by (simp add: mhas_def)
  show ?thesis
    using rosa_loop_events [OF l, of i] cleanup_events [OF c, of i] ids r Some by (auto simp: mhas_def mget_filter_key split: if_splits)
qed

theorem rosa_sync_deletes_exactly_witness:
  "\<exists>evs. (\<exists>mg' rs' err. rosaSync (sample_ocm [sample_rosa_cluster]\<lparr>ra_secret := SecretData [(''gone'', ''pw''), (''id1'', ''p'')]\<rparr>)
      NewJobManager sample_rosa = (mg', rs', evs, err)) \<and>
    RosaCleanup ''gone'' \<in> set evs \<and> RosaCleanup ''id1'' \<notin> set evs \<and> RosaDelete ''id1'' \<notin> set evs"
proof -
  let ?api = "sample_ocm [sample_rosa_cluster]\<lparr>ra_secret := SecretData [(''gone'', ''pw''), (''id1'', ''p'')]\<rparr>"
  obtain mg' rs' evs err where s: "rosaSync ?api NewJobManager sample_rosa = (mg', rs', evs, err)" by (metis prod.exhaust)
  have h: "ra_client ?api" "ids_stable ?api" "read_secret ?api = Inr [(''gone'', ''pw''), (''id1'', ''p'')]"
    by (simp_all add: sample_ocm_def ids_stable_def read_secret_def)
  have a: "ra_all ?api = Some [sample_rosa_cluster]" by (simp add: sample_ocm_def)
  have b: "bot_cluster sample_rosa_cluster" "ro_ID sample_rosa_cluster = ''id1''" "\<not> rosa_expired hour sample_rosa_cluster"
    "ra_now ?api = hour" by code_simp+
  show ?thesis
    using s rosa_sync_deletes_exactly [OF s h, of "''gone''"] rosa_sync_deletes_exactly [OF s h, of "''id1''"] a b by auto
qed

section \<open>Created clusters\<close>

lemma rosa_spec_Inr:
  assumes "rosa_spec api rs version user channel d = Inr spec"
  obtains tag where "expiry_tag (rc_now api + (if d = 0 then rs_defaultAge rs else d)) = Some tag"
    "rp_Tags spec = [(launch_tag, ''true''), (''ci-chat-bot/user'', user), (''ci-chat-bot/channel'', channel),
       (''ci-chat-bot/expiry-time'', tag)]"
    "rosa_version api rs version = Inr (rp_Version spec)" "rp_SubnetIds spec = rs_subnets rs"
  using assms unfolding rosa_spec_def rbind_eq_Inr_iff need_def check_def
  by (auto split: option.splits if_splits simp: case_prod_beta rbind_eq_Inr_iff)

lemma rosa_begin_Inr:
  assumes "rosa_begin now mg user d rs = Inr rs1"
  shows "rs1 = rs\<lparr>rs_pending := rs_pending rs + 1\<rparr>" "rosa_end rs1 = rs" "d \<le> rs_maxAge rs"
    "getROSAClusterForUser mg user = None" "mget (mg_requests mg) user = None"
    "rs_limit rs = 0 \<or> int (length (mg_rosaClusters mg)) + rs_pending rs < rs_limit rs"
  using assms by (auto simp: rosa_begin_def rosa_end_def split: if_splits option.splits prod.splits)

lemma createRosaCluster_Inr:
  assumes "createRosaCluster api mg rs version user channel d = (mg', evs, Inr (c, v))"
  obtains spec where "rosa_spec api rs version user channel d = Inr spec" "rc_create api spec = Inr c" "v = rp_Version spec"
    "mg' = add_rosa c mg"
  using assms unfolding createRosaCluster_def
  by (auto simp: Let_def split: sum.splits if_splits)

lemma launch_tag_simp: "launch_tag = ''ci-chat-bot/launch''"
  by code_simp

text \<open>
  C22: a ROSA cluster lives exactly as long as it was granted. When a creation succeeds, the user had no ROSA cluster and no
  launched cluster, the duration is within the maximum and the limit left room; the reserved place is released; and the
  cluster, with the tags it was created with, is one of the bot's, belongs to the user, is cached and expires for
  the sync at precisely the requested (or default) duration after its creation, to the nanosecond.
\<close>

theorem rosa_create_round_trip:
  assumes "CreateRosaCluster api user channel version d mg rs = (mg', rs', evs, Inr (name, v))"
    and "\<And>spec c. rc_create api spec = Inr c \<Longrightarrow> ro_Tags c = Some (rp_Tags spec)"
  shows "getROSAClusterForUser mg user = None \<and> mget (mg_requests mg) user = None \<and> d \<le> rs_maxAge rs \<and> rs' = rs \<and>
    (rs_limit rs \<noteq> 0 \<longrightarrow> int (length (mg_rosaClusters mg)) + rs_pending rs < rs_limit rs) \<and>
    (\<exists>c. ro_Name c = name \<and> mhas (mg_rosaClusters mg') (ro_ID c) \<and> bot_cluster c \<and> rosa_tag c ''ci-chat-bot/user'' = user \<and>
      (\<forall>t. rosa_expired t c \<longleftrightarrow> rc_now api + (if d = 0 then rs_defaultAge rs else d) < t))"
proof -
  obtain rs1 where b: "rosa_begin (rc_now api) mg user d rs = Inr rs1"
    using assms(1) by (cases "rosa_begin (rc_now api) mg user d rs") (auto simp: CreateRosaCluster_def)
  obtain mg1 ev1 r where cr: "createRosaCluster api mg rs1 version user channel d = (mg1, ev1, r)" by (metis prod.exhaust)
  then obtain c where c: "r = Inr (c, v)" "ro_Name c = name" "mg1 = mg'" and rs': "rs' = rosa_end rs1"
    using assms(1) b by (cases r) (auto simp: CreateRosaCluster_def split: prod.splits)
  obtain spec where spec: "rosa_spec api rs1 version user channel d = Inr spec" "rc_create api spec = Inr c" "mg' = add_rosa c mg"
    by (rule createRosaCluster_Inr [OF cr [unfolded c(1,3)]])
  note bg = rosa_begin_Inr [OF b]
  have age: "rs_defaultAge rs1 = rs_defaultAge rs" by (simp add: bg(1))
  obtain tag where tag: "expiry_tag (rc_now api + (if d = 0 then rs_defaultAge rs else d)) = Some tag"
      and tags: "rp_Tags spec = [(launch_tag, ''true''), (''ci-chat-bot/user'', user), (''ci-chat-bot/channel'', channel),
         (''ci-chat-bot/expiry-time'', tag)]"
    by (rule rosa_spec_Inr [OF spec(1), unfolded age])
  have t: "ro_Tags c = Some (rp_Tags spec)" by (rule assms(2) [OF spec(2)])
  have "bot_cluster c" "rosa_tag c ''ci-chat-bot/user'' = user" "rosa_tag c ''ci-chat-bot/expiry-time'' = tag"
    by (simp_all add: bot_cluster_def rosa_tag_def t tags launch_tag_simp mget0_def)
  moreover have "mhas (mg_rosaClusters mg') (ro_ID c)" by (simp add: spec(3) add_rosa_def)
  ultimately show ?thesis
    using bg rs' c(2) tag_expiry_tag [OF tag] by (auto simp: rosa_expired_def)
qed

text \<open>
  A stale listing lets the limit be exceeded. \<open>rosaSync\<close> lists the clusters before it takes the lock and replaces the cache
  by that list. When a creation adds its cluster in between, the sync forgets it, and with a limit of one another user
  is admitted at once.
\<close>

theorem rosa_stale_listing_exceeds_limit:
  "mhas (mg_rosaClusters (add_rosa c NewJobManager)) (ro_ID c) \<and>
   (case rosaSync (sample_ocm []) (add_rosa c NewJobManager) sample_rosa of
      (mg', rs', _) \<Rightarrow> rs_limit rs' = 1 \<and> is_ok (rosa_begin now mg' user hour rs'))"
proof -
  obtain mg' rs' evs err where s: "rosaSync (sample_ocm []) (add_rosa c NewJobManager) sample_rosa = (mg', rs', evs, err)"
    by (metis prod.exhaust)
  have "mg_rosaClusters mg' = [] \<and> rs_limit rs' = 1 \<and> rs_pending rs' = 0 \<and> rs_maxAge rs' = 8 * hour \<and> mg_requests mg' = []"
    using s by (auto simp: rosaSync_def sample_ocm_def read_secret_def rosa_cleanup_def Let_def sample_rosa_def
        add_rosa_def NewJobManager_def)
  then show ?thesis using s by (simp add: rosa_begin_def getROSAClusterForUser_def mvals_def add_rosa_def time_units)
qed

definition sample_rosa_creator :: rosa_creator where
  "sample_rosa_creator = \<lparr>rc_now = hour, rc_random = (\<lambda>k n. if n = 0 then None else Some (k mod n)),
     rc_validate = (\<lambda>v _. Some v), rc_minor = (\<lambda>v. take 4 v),
     rc_roles = [(''installer'', ''HCP-ROSA-Installer''), (''support'', ''HCP-ROSA-Support''), (''instance_worker'', ''HCP-ROSA-Worker'')],
     rc_findRoles = (\<lambda>ty _. Some (if ty = ''installer'' then [''ManagedOpenShift-HCP-ROSA-Installer-Role'']
        else if ty = ''support'' then [''ManagedOpenShift-HCP-ROSA-Support-Role''] else [''ManagedOpenShift-HCP-ROSA-Worker-Role''])),
     rc_resourceId = Some, rc_validRoles = (\<lambda>_ _. True), rc_credRequests = Some [], rc_supported = (\<lambda>_ _. Some True),
     rc_operatorArn = (\<lambda>_ _ _ _. []), rc_region = Some ''us-east-1'', rc_subnets = Some [(''s1'', ''us-east-1a'')],
     rc_hasCreator = True,
     rc_create = (\<lambda>spec. Inr \<lparr>ro_ID = ''id1'', ro_Name = rp_Name spec, ro_State = ''installing'', ro_Tags = Some (rp_Tags spec),
        ro_CreationTimestamp = hour\<rparr>),
     rc_update = (\<lambda>_. (SecretData [], PutOk)), rc_addRoles = (\<lambda>_. True), rc_addOidc = (\<lambda>_. True)\<rparr>"

lemma sample_role_arns:
  "installer_arn sample_rosa_creator ''4.20'' = Inr ''ManagedOpenShift-HCP-ROSA-Installer-Role''"
  "role_loop sample_rosa_creator ''4.20'' (rc_roles sample_rosa_creator) ([], []) =
     Inr (''ManagedOpenShift-HCP-ROSA-Support-Role'', ''ManagedOpenShift-HCP-ROSA-Worker-Role'')"
  "generateRandomString (rc_random sample_rosa_creator) 15 True = Some ''bcegi-nprtv-zaa''"
  "rosa_version sample_rosa_creator (sample_rosa\<lparr>rs_pending := 1\<rparr>) ''4.20'' = Inr ''4.20.1''"
  "used_subnets sample_rosa_creator (sample_rosa\<lparr>rs_pending := 1\<rparr>) = Inr [''us-east-1a'']"
  "rosa_begin hour NewJobManager ''U1'' (2 * hour) sample_rosa = Inr (sample_rosa\<lparr>rs_pending := 1\<rparr>)"
  by code_simp+

lemma sample_expiry: "\<exists>tag. expiry_tag (3 * hour) = Some tag"
  by (simp add: expiry_tag_def MarshalText_def Let_def time_units secs_of_def days_through_def)

lemma sample_rosa_create:
  "\<exists>mg' evs. CreateRosaCluster sample_rosa_creator ''U1'' ''D1'' ''4.20'' (2 * hour) NewJobManager sample_rosa
     = (mg', sample_rosa, evs, Inr (''bcegi-nprtv-zaa'', ''4.20.1''))"
proof -
  obtain tag where tag: "expiry_tag (3 * hour) = Some tag" using sample_expiry by blast
  have sum: "hour + 2 * hour = 3 * hour" "hour \<noteq> 0" by (simp_all add: time_units)
  have m: "rc_minor sample_rosa_creator ''4.20.1'' = ''4.20''" by code_simp
  have n: "rc_now sample_rosa_creator = hour" by (simp add: sample_rosa_creator_def)
  have "\<exists>spec. rosa_spec sample_rosa_creator (sample_rosa\<lparr>rs_pending := 1\<rparr>) ''4.20'' ''U1'' ''D1'' (2 * hour) = Inr spec \<and>
      rp_Name spec = ''bcegi-nprtv-zaa'' \<and> rp_Version spec = ''4.20.1''"
    unfolding rosa_spec_def sample_role_arns need_def option.case rbind_simps m n sum
    by (simp add: sample_role_arns tag sum sample_rosa_creator_def check_def)
  then show ?thesis
    using sample_role_arns(6) n
    by (auto simp: CreateRosaCluster_def createRosaCluster_def rosa_end_def sample_rosa_def UpdateSecret_def
        sample_rosa_creator_def numeral_eq_Suc)
qed

theorem rosa_create_round_trip_witness:
  "\<exists>mg' c. mhas (mg_rosaClusters mg') (ro_ID c) \<and> rosa_expired (4 * hour) c \<and> \<not> rosa_expired (2 * hour) c \<and>
     (\<exists>evs. CreateRosaCluster sample_rosa_creator ''U1'' ''D1'' ''4.20'' (2 * hour) NewJobManager sample_rosa
        = (mg', sample_rosa, evs, Inr (''bcegi-nprtv-zaa'', ''4.20.1'')))"
proof -
  obtain mg' evs where c: "CreateRosaCluster sample_rosa_creator ''U1'' ''D1'' ''4.20'' (2 * hour) NewJobManager sample_rosa
     = (mg', sample_rosa, evs, Inr (''bcegi-nprtv-zaa'', ''4.20.1''))" using sample_rosa_create by blast
  have "rc_create sample_rosa_creator spec = Inr c \<Longrightarrow> ro_Tags c = Some (rp_Tags spec)" for spec c
    by (auto simp: sample_rosa_creator_def)
  from rosa_create_round_trip [OF c this]
  obtain x where "mhas (mg_rosaClusters mg') (ro_ID x)" "\<And>t. rosa_expired t x \<longleftrightarrow> rc_now sample_rosa_creator + 2 * hour < t"
    by (auto simp: time_units)
  moreover have "rc_now sample_rosa_creator = hour" by (simp add: sample_rosa_creator_def)
  ultimately have "mhas (mg_rosaClusters mg') (ro_ID x) \<and> rosa_expired (4 * hour) x \<and> \<not> rosa_expired (2 * hour) x"
    by (simp add: time_units)
  then show ?thesis using c by blast
qed

end
