(* ===== verification/Spec2Isabelle.thy ===== *)
theory Spec2Isabelle
  imports JobConfigProps Help Catalog Recovery Leases MceProps RosaProps
begin

text \<open>
  A verification library for the OpenShift cluster bot (\<open>ci-chat-bot\<close>), a Slack bot that launches
  test clusters and runs tests by creating Prow jobs, that creates managed (MCE) and ROSA clusters, and that grants
  temporary access to a Google Cloud project.

  \<^bold>\<open>The program.\<close> A user reaches the bot in two ways. A direct message goes to the message handler
  (\<open>pkg/slack/events/messages\<close>), which finds the command with the command parser (\<open>pkg/slack/parser\<close>), counts
  it (\<open>pkg/metrics\<close>) and runs its action (\<open>pkg/slack/actions.go\<close>); the action reads the options of the command
  (\<open>pkg/slack/slack.go\<close>) and calls the manager. A button of the App Home opens a dialog (\<open>pkg/slack/modals\<close>), whose
  views the interaction router (\<open>pkg/slack/interactions\<close>) sends to the handlers of the steps; the last step calls the manager.
  Both ways start with an HTTP request whose signature is checked (\<open>cmd/ci-chat-bot/slack.go\<close>).
  The job manager (\<open>pkg/manager/manager.go\<close>) resolves versions and pull requests to images, picks the Prow job to run, admits
  the request, assembles and creates the Prow job (\<open>pkg/manager/prow.go\<close>, \<open>pkg/prow\<close>) and starts a worker that
  follows it until there are credentials or a failure, which a notification reports; for a catalog job it then builds the catalog
  image (\<open>pkg/catalog\<close>). A sync loop rebuilds the jobs and
  requests from the Prow jobs, so that the bot can restart. Two more loops follow managed clusters
  (\<open>pkg/manager/mce.go\<close>) and ROSA clusters (\<open>pkg/manager/rosa.go\<close>), and one cleans up expired access (\<open>pkg/manager/gcp_access.go\<close>).

  \<^bold>\<open>The theories.\<close>
  \<^item> \<open>Prelude\<close>: Go maps as association lists with a locale for their contract, results with errors, durations,
    64-bit wrap-around; \<open>GoStrings\<close>: the functions of \<open>strings\<close> and \<open>strconv\<close>; \<open>Regex\<close>: regular expressions by
    derivatives; \<open>GoTime\<close>: calendar dates and the RFC 3339 layout, with the proof that formatting and parsing are inverse;
    \<open>GoDuration\<close>: \<open>time.ParseDuration\<close>; \<open>RandomNames\<close>: the generator of random names over a random source.
  \<^item> \<open>JobTypes\<close>: the records of \<open>types.go\<close> and the tables and limits of the manager.
  \<^item> \<open>JobParams\<close>: the parameters of a job as an annotation (\<open>paramsToString\<close>, \<open>ParamsFromAnnotation\<close>), workflow parameters,
    links, and the options of a command (\<open>ParseOptions\<close>). The locale \<open>text_codec\<close> states what a codec promises and is
    interpreted on the annotation.
  \<^item> \<open>ReleaseResolver\<close>: \<open>ResolveImageOrVersion\<close>, \<open>ResolveAsPullRequest\<close>, \<open>lookupInputs\<close> and \<open>containsValidVersion\<close>; image
    streams, GitHub and semantic versions are parameters.
  \<^item> \<open>ProwSpec\<close>: Prow job specifications, environment variables, the target argument and the ci-operator configuration.
  \<^item> \<open>JobManager\<close>: the state of \<open>jobManager\<close> that concerns jobs, as the record \<open>manager\<close>, and \<open>LaunchJobForUser\<close>,
    \<open>TerminateJobForUser\<close>, \<open>SyncJobForUser\<close> and their parts. A critical section under \<open>m.lock\<close> is one function.
  \<^item> \<open>Worker\<close>: \<open>handleJobStartup\<close>, \<open>waitForJob\<close> and \<open>finishedJob\<close>.
  \<^item> \<open>JobSync\<close>: the sync loop; \<open>JobAssembly\<close>: the metadata and environment that \<open>newJob\<close> gives a Prow job; \<open>JobConfig\<close>: the
    rest of \<open>newJob\<close>, which rewrites the ci-operator configuration and adds the child jobs of pull requests.
  \<^item> \<open>Lifecycle\<close>: the steps the manager takes in any order, the states they reach, and the locale \<open>lifecycle\<close> for their
    invariants, interpreted for well-formedness, for the start estimates and for one cluster per user.
  \<^item> \<open>ManagerProps\<close>, \<open>SyncProps\<close>, \<open>Recovery\<close>, \<open>JobConfigProps\<close>: the properties of the manager, the workers, the sync loop and
    the assembly of a job.
  \<^item> \<open>GcpNames\<close>, \<open>GcpAccess\<close>, \<open>GcpProps\<close>: temporary Google Cloud access, with the IAM policy, the
    service accounts and the audit log as state; \<open>Leases\<close>: a table of leases as its specification, and the refinement.
  \<^item> \<open>Usage\<close>: membership, metrics and the commands that request and revoke access.
  \<^item> \<open>CommandParser\<close>: usage texts, matching, the table of commands and the dispatch of a message; \<open>Actions\<close>, \<open>ActionProps\<close>: the
    commands that concern jobs, from the arguments of a message to the request to the manager; \<open>Dispatch\<close>: which command answers a
    line, by its words; \<open>Help\<close>: the help texts, the posting of answers and the responders that notify users.
  \<^item> \<open>Catalog\<close>: the operator catalog builder, from the unpacked bundle image to the build in the namespace of the job, with the files of the
    host and the objects of the namespace as state, and the role bindings of the namespace.
  \<^item> \<open>Mce\<close>, \<open>MceOps\<close>, \<open>MceProps\<close>: managed clusters, their caches, \<open>mceSync\<close>, creation, deletion, listing and the commands.
  \<^item> \<open>TagCodec\<close>, \<open>Rosa\<close>, \<open>RosaProps\<close>: the expiry tag of ROSA clusters (a second instance of \<open>text_codec\<close>), \<open>rosaSync\<close>, creation,
    the secret of passwords and the commands.
  \<^item> \<open>Modals\<close>: the data, views and handlers of the dialogs that launch a cluster and create a managed cluster; \<open>ModalProps\<close>: the launch
    dialog as a state machine, an \<open>inductive\<close> relation \<open>dialog\<close> over submissions and back buttons; \<open>LaunchDialog\<close>: its properties.
  \<^item> \<open>Notify\<close>: the notifications about jobs, managed and ROSA clusters, the upload of kubeconfigs and the listing.
  \<^item> \<open>Router\<close>: the signature check, the HTTP handlers, the chain of event handlers, the interaction router, the App Home, the
    dialogs with one step, the commands that only answer, and the loops that reload the configuration.

  \<^bold>\<open>What is shown.\<close>
  \<^item> Admission: launching never exceeds the cluster limit, admits exactly when there is room, and gives no user two
    clusters in any reachable state; a failed start or a termination frees the user, and from every reachable state a later
    sync frees all places. Two deviations are proved: a failed test start lets a user launch a second cluster, and the job
    limit is off by one.
  \<^item> Workers: one worker per job, credentials only for a cluster that answered, at most one notification per job.
  \<^item> Sync: a restart restores every job from its Prow job but for the build cluster, and forgets exactly what is too old; the
    start estimates are never recorded.
  \<^item> Assembly: the configuration a Prow job carries can be run, every pull request gets its child job, at most one operator
    repository is installed, and a well-typed configuration never panics.
  \<^item> Parameters, options, images and specifications: round trips of the annotation and of command lines, soundness of option
    parsing, the newest accepted tag, independence of the iteration order of Go maps, exact effect on environment variables and
    targets, and the defects of substitution, commas in values and the runner image of arm64 clusters.
  \<^item> Commands: a line is answered by the first command whose leading words it starts with, the examples of the help texts run, help for a
    known topic fits into a message; the requests are well typed, and a command of one user leaves the jobs of the others alone.
  \<^item> Catalogs: a new build that succeeds was seen to complete on a valid catalog with exactly the bundle of the image; manifests are read below the
    unpacked image unless its label refers to a parent directory; an existing build is never checked, so a failed one is later reported as built.
  \<^item> The launch dialog: every way through it ends in a well-typed request; the request is the one the \<open>launch\<close> command builds from
    the same words; going back ends at the first view; the version lists are bounded; which lost replies crash the process.
  \<^item> Routing: only signed requests of bounded size reach the bot, and every submission, back button and home button reaches the
    handler registered for it.
  \<^item> Notifications: a kubeconfig goes to the channel of the request only, and exactly when the job succeeded; the
    listing reveals nothing about the tests of other users but whether there are any.
  \<^item> Access: only members get access, a grant can be read back from the IAM policy, revoking undoes granting, failures leave
    nothing behind, clean-up removes exactly what expired, key creation is bounded; together grants, queries, revocations and
    clean-ups refine a table of leases. After a restart a revocation can miss an account.
  \<^item> Managed and ROSA clusters: the limits hold under any interleaving of creations, a sync deletes exactly what expired or
    became stale, the expiry written at creation is the one the sync reads, and readiness is reported a bounded number of times.

  \<^bold>\<open>Conventions.\<close> A string is a list of characters (bytes), a Go map an association list with distinct keys, a time a number
  of nanoseconds since the zero time of Go, an error a value of a datatype. Iteration over a Go map follows the list; where the
  order could matter a theorem says that it does not. External clients (Kubernetes, Prow, GitHub, Google Cloud, OCM, AWS, Slack, JSON
  and YAML decoding) are parameters of the definitions or records of their answers; one sync sees one snapshot of them. A nil
  dereference, a write to a nil map and an index out of range are the error value \<open>Panic\<close>. The process runs in UTC, and
  \<open>Hours()\<close> and \<open>Minutes()\<close> of a duration are compared exactly. The texts of shell scripts are parameters. The
  private metadata of a view is kept as data and not as JSON, and labels and placeholders of its blocks are left out. Fields of hub objects that the caches
  do not keep are read through the parameter \<open>hub_status\<close>, and the order of a listing sorted by a library is left to the argument
  \<open>ordered\<close>. Log lines are left out, and long messages to the user are constructors where nothing reads their text.

  \<^bold>\<open>Loops.\<close> A polling loop runs over the list of what its attempts observe; the end of the list is the deadline, so no bound
  has to be chosen. Retry loops carry the bound of the source (\<open>maxRetries\<close> and the steps of a backoff) as a measure. All functions are total:
  no definition uses fuel that could run out.

  \<^bold>\<open>Not modelled.\<close> The flags, clients and goroutines that \<open>cmd/ci-chat-bot/main.go\<close> sets up, which only call client libraries; the
  client libraries themselves, the container builds and registries behind the catalog builder, and the JSON and YAML formats.
\<close>

end
